(* ===== verification/Prelude.thy ===== *)
theory Prelude
  imports Main "HOL-Library.Word" "HOL-Library.AList" "HOL-Library.Multiset" "HOL-Library.Signed_Division"
begin

text \<open>
  The shared vocabulary of the development. It holds

  \<^item> the type names of \<^verbatim>\<open>types.hpp\<close> (\<open>share_type\<close>, the identifier types, opaque hashes);
  \<^item> the exceptions of \<^verbatim>\<open>exceptions.hpp\<close> as values, the result type \<open>exn + 'a\<close> and the
    combinators for sequencing (\<open>bindE\<close>), guarding (\<open>require\<close>) and looping (\<open>foldE\<close>);
  \<^item> finite tables (association lists) and the sum of a quantity over a finite map;
  \<^item> signed 64-bit arithmetic on \<open>64 word\<close>;
  \<^item> the interfaces of a keyed record store as the locales \<open>record_store\<close> and \<open>view_store\<close>.

  A C++ \<^verbatim>\<open>int64_t\<close> is a \<open>64 word\<close>. Comparisons that C++ makes on signed operands read the
  word with \<open>sint\<close>; comparisons in which C++ converts an operand to an unsigned type read it
  with \<open>uint\<close>. Sums wrap around modulo \<open>2 ^ 64\<close>, as the compiled code does.
\<close>

section \<open>Types and exceptions\<close>

type_synonym share_type = "64 word"
type_synonym slate_id_type = "64 word"
type_synonym asset_id_type = int
type_synonym account_id_type = int
type_synonym feed_id_type = int
type_synonym address = nat
type_synonym balance_id_type = nat
type_synonym key = nat
type_synonym digest_type = nat
type_synonym hash_type = nat
type_synonym transaction_id_type = nat
type_synonym block_id_type = nat
type_synonym signature_type = nat
type_synonym time_point_sec = nat
type_synonym variant = string

datatype exn = Fc_exception string | Chain_exception nat

text \<open>
  An exception of \<^verbatim>\<open>exceptions.hpp\<close> is its declared code. The exceptions of \<^verbatim>\<open>fc\<close> and of the
  standard library that the code lets escape carry the name of their class.
\<close>

abbreviation assert_failed :: exn where "assert_failed \<equiv> Fc_exception ''assert_exception''"
abbreviation key_not_found :: exn where "key_not_found \<equiv> Fc_exception ''key_not_found_exception''"
abbreviation bad_cast :: exn where "bad_cast \<equiv> Fc_exception ''bad_cast_exception''"
abbreviation unpack_failed :: exn where "unpack_failed \<equiv> Fc_exception ''out_of_range_exception''"
abbreviation bad_signature :: exn where "bad_signature \<equiv> Fc_exception ''exception''"
abbreviation invalid_pts_address :: exn where "invalid_pts_address \<equiv> Chain_exception 30001"
abbreviation addition_overflow :: exn where "addition_overflow \<equiv> Chain_exception 30002"
abbreviation subtraction_overflow :: exn where "subtraction_overflow \<equiv> Chain_exception 30003"
abbreviation asset_type_mismatch :: exn where "asset_type_mismatch \<equiv> Chain_exception 30004"
abbreviation unsupported_chain_operation :: exn where "unsupported_chain_operation \<equiv> Chain_exception 30005"
abbreviation unknown_transaction :: exn where "unknown_transaction \<equiv> Chain_exception 30006"
abbreviation duplicate_transaction :: exn where "duplicate_transaction \<equiv> Chain_exception 30007"
abbreviation zero_amount :: exn where "zero_amount \<equiv> Chain_exception 30008"
abbreviation zero_price :: exn where "zero_price \<equiv> Chain_exception 30009"
abbreviation asset_divide_by_self :: exn where "asset_divide_by_self \<equiv> Chain_exception 30010"
abbreviation asset_divide_by_zero :: exn where "asset_divide_by_zero \<equiv> Chain_exception 30011"
abbreviation unlinkable_block :: exn where "unlinkable_block \<equiv> Chain_exception 30013"
abbreviation price_out_of_range :: exn where "price_out_of_range \<equiv> Chain_exception 30014"
abbreviation block_numbers_not_sequential :: exn where "block_numbers_not_sequential \<equiv> Chain_exception 30015"
abbreviation invalid_previous_block_id :: exn where "invalid_previous_block_id \<equiv> Chain_exception 30016"
abbreviation invalid_block_time :: exn where "invalid_block_time \<equiv> Chain_exception 30017"
abbreviation time_in_past :: exn where "time_in_past \<equiv> Chain_exception 30018"
abbreviation time_in_future :: exn where "time_in_future \<equiv> Chain_exception 30019"
abbreviation invalid_block_digest :: exn where "invalid_block_digest \<equiv> Chain_exception 30020"
abbreviation invalid_delegate_signee :: exn where "invalid_delegate_signee \<equiv> Chain_exception 30021"
abbreviation failed_checkpoint_verification :: exn where "failed_checkpoint_verification \<equiv> Chain_exception 30022"
abbreviation unknown_block :: exn where "unknown_block \<equiv> Chain_exception 30024"
abbreviation block_older_than_undo_history :: exn where "block_older_than_undo_history \<equiv> Chain_exception 30025"
abbreviation negative_deposit :: exn where "negative_deposit \<equiv> Chain_exception 31001"
abbreviation not_a_delegate :: exn where "not_a_delegate \<equiv> Chain_exception 31002"
abbreviation unknown_balance_record :: exn where "unknown_balance_record \<equiv> Chain_exception 31003"
abbreviation insufficient_funds :: exn where "insufficient_funds \<equiv> Chain_exception 31004"
abbreviation missing_signature :: exn where "missing_signature \<equiv> Chain_exception 31005"
abbreviation invalid_claim_password :: exn where "invalid_claim_password \<equiv> Chain_exception 31006"
abbreviation invalid_withdraw_condition :: exn where "invalid_withdraw_condition \<equiv> Chain_exception 31007"
abbreviation negative_withdraw :: exn where "negative_withdraw \<equiv> Chain_exception 31008"
abbreviation expired_transaction :: exn where "expired_transaction \<equiv> Chain_exception 31010"
abbreviation invalid_transaction_expiration :: exn where "invalid_transaction_expiration \<equiv> Chain_exception 31011"
abbreviation invalid_account_name :: exn where "invalid_account_name \<equiv> Chain_exception 32001"
abbreviation unknown_account_id :: exn where "unknown_account_id \<equiv> Chain_exception 32002"
abbreviation unknown_account_name :: exn where "unknown_account_name \<equiv> Chain_exception 32003"
abbreviation missing_parent_account_signature :: exn where "missing_parent_account_signature \<equiv> Chain_exception 32004"
abbreviation account_already_registered :: exn where "account_already_registered \<equiv> Chain_exception 32007"
abbreviation account_key_in_use :: exn where "account_key_in_use \<equiv> Chain_exception 32008"
abbreviation account_retracted :: exn where "account_retracted \<equiv> Chain_exception 32009"
abbreviation unknown_delegate_slate :: exn where "unknown_delegate_slate \<equiv> Chain_exception 32011"
abbreviation too_may_delegates_in_slate :: exn where "too_may_delegates_in_slate \<equiv> Chain_exception 32012"
abbreviation invalid_precision :: exn where "invalid_precision \<equiv> Chain_exception 35001"
abbreviation invalid_asset_symbol :: exn where "invalid_asset_symbol \<equiv> Chain_exception 35002"
abbreviation unknown_asset_id :: exn where "unknown_asset_id \<equiv> Chain_exception 35003"
abbreviation asset_symbol_in_use :: exn where "asset_symbol_in_use \<equiv> Chain_exception 35004"
abbreviation invalid_asset_amount :: exn where "invalid_asset_amount \<equiv> Chain_exception 35005"
abbreviation negative_issue :: exn where "negative_issue \<equiv> Chain_exception 35006"
abbreviation over_issue :: exn where "over_issue \<equiv> Chain_exception 35007"
abbreviation unknown_asset_symbol :: exn where "unknown_asset_symbol \<equiv> Chain_exception 35008"
abbreviation asset_id_in_use :: exn where "asset_id_in_use \<equiv> Chain_exception 35009"
abbreviation insufficient_fee :: exn where "insufficient_fee \<equiv> Chain_exception 36002"
abbreviation negative_fee :: exn where "negative_fee \<equiv> Chain_exception 36003"
abbreviation missing_deposit :: exn where "missing_deposit \<equiv> Chain_exception 36004"
abbreviation insufficient_relay_fee :: exn where "insufficient_relay_fee \<equiv> Chain_exception 36005"
abbreviation invalid_market :: exn where "invalid_market \<equiv> Chain_exception 37001"
abbreviation unknown_market_order :: exn where "unknown_market_order \<equiv> Chain_exception 37002"
abbreviation insufficient_feeds :: exn where "insufficient_feeds \<equiv> Chain_exception 37006"

section \<open>Results and loops\<close>

definition bindE :: "exn + 'a \<Rightarrow> ('a \<Rightarrow> exn + 'b) \<Rightarrow> exn + 'b" where
  "bindE m f = (case m of Inl e \<Rightarrow> Inl e | Inr x \<Rightarrow> f x)"

definition require :: "bool \<Rightarrow> exn \<Rightarrow> exn + unit" where
  "require b e = (if b then Inr () else Inl e)"

definition of_option :: "exn \<Rightarrow> 'a option \<Rightarrow> exn + 'a" where
  "of_option e x = (case x of None \<Rightarrow> Inl e | Some v \<Rightarrow> Inr v)"

primrec foldE :: "('x \<Rightarrow> 's \<Rightarrow> exn + 's) \<Rightarrow> 'x list \<Rightarrow> 's \<Rightarrow> exn + 's" where
  "foldE f [] s = Inr s"
| "foldE f (x # xs) s = bindE (f x s) (foldE f xs)"

section \<open>Tables\<close>

type_synonym ('k, 'v) table = "('k \<times> 'v) list"

text \<open>Iteration over an ordered container visits the entries in increasing key order.\<close>

definition in_order :: "('k::linorder, 'v) table \<Rightarrow> ('k, 'v) table" where
  "in_order t = sort_key fst t"

definition tsum :: "('k \<Rightarrow> 'v \<Rightarrow> 'n::comm_monoid_add) \<Rightarrow> ('k, 'v) table \<Rightarrow> 'n" where
  "tsum f t = sum_list (map (\<lambda>(k, v). f k v) t)"

definition msum :: "('k \<Rightarrow> 'v \<Rightarrow> 'n::comm_monoid_add) \<Rightarrow> ('k \<rightharpoonup> 'v) \<Rightarrow> 'n" where
  "msum f m = (\<Sum>k\<in>dom m. f k (the (m k)))"

definition entry :: "('k \<Rightarrow> 'v \<Rightarrow> 'n::comm_monoid_add) \<Rightarrow> ('k \<rightharpoonup> 'v) \<Rightarrow> 'k \<Rightarrow> 'n" where
  "entry f m k = (case m k of None \<Rightarrow> 0 | Some v \<Rightarrow> f k v)"

section \<open>Signed 64-bit integers\<close>

definition sdiv64 :: "64 word \<Rightarrow> 64 word \<Rightarrow> 64 word" where
  "sdiv64 a b = word_of_int (sint a sdiv sint b)"

definition INT64_MAX :: int where "INT64_MAX = 9223372036854775807"
definition INT64_MIN :: int where "INT64_MIN = -9223372036854775808"

named_theorems result_simps \<open>splitting a successful result into its steps\<close>
named_theorems store_simps \<open>lookups after a store\<close>
named_theorems frame_simps \<open>components an operation leaves unchanged\<close>

section \<open>Lemmas on results\<close>

lemma bindE_simps [simp, result_simps]:
  "bindE (Inl e) f = Inl e"
  "bindE (Inr x) f = f x"
  by (simp_all add: bindE_def)

lemma bindE_Inr_iff [result_simps]:
  "bindE m f = Inr y \<longleftrightarrow> (\<exists>x. m = Inr x \<and> f x = Inr y)"
  by (cases m) auto

lemma bindE_InrE:
  assumes "bindE m f = Inr y"
  obtains x where "m = Inr x" and "f x = Inr y"
  using assms by (cases m) auto

lemma require_Inr_iff [simp, result_simps]: "require b e = Inr u \<longleftrightarrow> b"
  by (simp add: require_def)

lemma require_Inl_iff [simp]: "require b e = Inl e' \<longleftrightarrow> \<not> b \<and> e = e'"
  by (auto simp: require_def)

lemma bindE_require [simp]:
  "bindE (require b e) f = (if b then f () else Inl e)"
  by (simp add: require_def)

lemma of_option_simps [simp]:
  "of_option e None = Inl e" "of_option e (Some v) = Inr v"
  by (simp_all add: of_option_def)

lemma of_option_Inr_iff [simp, result_simps]: "of_option e x = Inr v \<longleftrightarrow> x = Some v"
  by (cases x) auto

lemma if_Inr_iff [result_simps]:
  "(if b then Inl e else m) = Inr y \<longleftrightarrow> \<not> b \<and> m = Inr y"
  by simp

lemma bindE_cong [fundef_cong]:
  "m = m' \<Longrightarrow> (\<And>x. m' = Inr x \<Longrightarrow> f x = f' x) \<Longrightarrow> bindE m f = bindE m' f'"
  by (cases m') auto

text \<open>A loop keeps what every iteration keeps.\<close>

lemma foldE_invariant:
  assumes "foldE f xs s = Inr s'" and "P s"
    and "\<And>x s s'. x \<in> set xs \<Longrightarrow> P s \<Longrightarrow> f x s = Inr s' \<Longrightarrow> P s'"
  shows "P s'"
  using assms
proof (induction xs arbitrary: s)
  case Nil
  then show ?case by simp
next
  case (Cons x xs)
  then obtain t where "f x s = Inr t" and "foldE f xs t = Inr s'"
    by (auto simp: bindE_Inr_iff)
  with Cons show ?case by (meson list.set_intros)
qed

lemma foldE_append: "foldE f (xs @ ys) s = bindE (foldE f xs s) (foldE f ys)"
  by (induction xs arbitrary: s) (auto simp: bindE_def split: sum.splits)

section \<open>Lemmas on tables and sums\<close>

lemma map_of_update [simp, store_simps]:
  "map_of (AList.update k v t) = (map_of t)(k \<mapsto> v)"
  by (rule update_conv')

lemma map_of_delete [simp, store_simps]:
  "map_of (AList.delete k t) = (map_of t)(k := None)"
  by (rule delete_conv')

lemma distinct_in_order [simp]: "distinct (map fst (in_order t)) = distinct (map fst t)"
proof -
  have "mset (map fst (in_order t)) = mset (map fst t)"
    unfolding in_order_def mset_map mset_sort ..
  then show ?thesis by (rule mset_eq_imp_distinct_iff)
qed

lemma set_in_order [simp]: "set (in_order t) = set t"
  by (simp add: in_order_def)

lemma sorted_in_order: "sorted (map fst (in_order t))"
  by (simp add: in_order_def)

lemma entry_simps [simp]:
  "m k = None \<Longrightarrow> entry f m k = 0"
  "m k = Some v \<Longrightarrow> entry f m k = f k v"
  by (simp_all add: entry_def)

lemma msum_split:
  assumes "finite (dom m)"
  shows "msum f m = (\<Sum>j\<in>dom m - {k}. f j (the (m j))) + entry f m k"
proof (cases "m k")
  case None
  then have "dom m - {k} = dom m" by auto
  with None show ?thesis by (simp add: msum_def)
next
  case (Some w)
  then have "k \<in> dom m" by auto
  with assms Some show ?thesis by (simp add: msum_def sum.remove add.commute)
qed

lemma msum_upd:
  fixes f :: "'k \<Rightarrow> 'v \<Rightarrow> 'n::ab_group_add"
  assumes "finite (dom m)"
  shows "msum f (m(k := w)) = msum f m - entry f m k + entry f (m(k := w)) k"
proof -
  have fin: "finite (dom (m(k := w)))" using assms by simp
  have dom: "dom (m(k := w)) - {k} = dom m - {k}" by auto
  have "(\<Sum>j\<in>dom m - {k}. f j (the ((m(k := w)) j))) = (\<Sum>j\<in>dom m - {k}. f j (the (m j)))"
    by (rule sum.cong) auto
  then show ?thesis
    using msum_split [OF fin, of f k] msum_split [OF assms, of f k] unfolding dom by simp
qed

lemma msum_update:
  fixes f :: "'k \<Rightarrow> 'v \<Rightarrow> 'n::ab_group_add"
  assumes "finite (dom m)"
  shows "msum f (m(k \<mapsto> v)) = msum f m - entry f m k + f k v"
  using msum_upd [OF assms, of f k "Some v"] by (simp add: entry_def)

lemma msum_empty [simp]: "msum f Map.empty = 0"
  by (simp add: msum_def)

lemma msum_map_of:
  assumes "distinct (map fst t)"
  shows "msum f (map_of t) = tsum f t"
proof -
  have "tsum f t = (\<Sum>(k, v)\<in>set t. f k v)"
    using assms by (simp add: tsum_def sum_list_distinct_conv_sum_set distinct_map)
  also have "\<dots> = (\<Sum>k\<in>fst ` set t. f k (the (map_of t k)))"
  proof (subst sum.reindex)
    show "inj_on fst (set t)" using assms by (simp add: distinct_map)
    show "(\<Sum>(k, v)\<in>set t. f k v) = sum ((\<lambda>k. f k (the (map_of t k))) \<circ> fst) (set t)"
      using assms by (auto intro!: sum.cong)
  qed
  finally show ?thesis by (simp add: msum_def dom_map_of_conv_image_fst)
qed

section \<open>Lemmas on signed words\<close>

lemma sint64_bounds: "INT64_MIN \<le> sint (x :: 64 word)" "sint (x :: 64 word) \<le> INT64_MAX"
  using sint_ge [of x] sint_lt [of x] by (simp_all add: INT64_MIN_def INT64_MAX_def)

lemma sint64_eq:
  assumes "INT64_MIN \<le> i" and "i \<le> INT64_MAX"
  shows "sint (word_of_int i :: 64 word) = i"
proof -
  have "sint (word_of_int i :: 64 word) = signed_take_bit 63 i"
    by (simp add: sint_sbintrunc')
  also have "\<dots> = i"
    using assms by (intro signed_take_bit_int_eq_self) (simp_all add: INT64_MIN_def INT64_MAX_def)
  finally show ?thesis .
qed

lemma sint64_add:
  fixes a b :: "64 word"
  assumes "INT64_MIN \<le> sint a + sint b" and "sint a + sint b \<le> INT64_MAX"
  shows "sint (a + b) = sint a + sint b"
proof -
  have "a + b = word_of_int (sint a + sint b)" by simp
  then show ?thesis using sint64_eq [OF assms] by (simp only:)
qed

lemma sint64_sub:
  fixes a b :: "64 word"
  assumes "INT64_MIN \<le> sint a - sint b" and "sint a - sint b \<le> INT64_MAX"
  shows "sint (a - b) = sint a - sint b"
proof -
  have "a - b = word_of_int (sint a - sint b)" by simp
  then show ?thesis using sint64_eq [OF assms] by (simp only:)
qed

lemma sint64_inject: "sint (a :: 64 word) = sint b \<longleftrightarrow> a = b"
  by (metis signed_word_eqI)

lemma sint64_eq_0 [simp]: "sint (a :: 64 word) = 0 \<longleftrightarrow> a = 0"
  using sint64_inject [of a 0] by simp

lemma uint64_sint: "uint (a :: 64 word) = sint a mod 2 ^ 64"
proof -
  have "uint (word_of_int (sint a) :: 64 word) = sint a mod 2 ^ 64"
    by (simp only: uint_word_of_int) simp
  then show ?thesis by simp
qed

lemma uint64_nonneg:
  assumes "0 \<le> sint (a :: 64 word)"
  shows "uint a = sint a"
  using assms sint64_bounds(2) [of a] by (simp add: uint64_sint INT64_MAX_def)

lemma uint64_neg:
  assumes "sint (a :: 64 word) < 0"
  shows "uint a = sint a + 2 ^ 64"
proof -
  have "uint a = (sint a + 2 ^ 64) mod 2 ^ 64" by (simp add: uint64_sint)
  also have "\<dots> = sint a + 2 ^ 64"
    using assms sint64_bounds(1) [of a] by (intro mod_pos_pos_trivial) (simp_all add: INT64_MIN_def)
  finally show ?thesis .
qed

section \<open>The interface of a keyed record store\<close>

text \<open>
  Each kind of record (accounts, balances, assets, orders, ...) is read by a key and stored
  under a key. \<open>get\<close> is the whole view of one kind of record, \<open>put\<close> the store operation, \<open>fits\<close>
  says that the key is the one the record carries and \<open>ok\<close> names the states in which a stored
  record is kept.
\<close>

locale record_store =
  fixes get :: "'s \<Rightarrow> 'k \<rightharpoonup> 'v"
    and put :: "'k \<Rightarrow> 'v \<Rightarrow> 's \<Rightarrow> 's"
    and fits :: "'k \<Rightarrow> 'v \<Rightarrow> bool"
    and ok :: "'s \<Rightarrow> bool"
  assumes get_put: "ok s \<Longrightarrow> fits k v \<Longrightarrow> get (put k v s) = (get s)(k \<mapsto> v)"
    and ok_put: "ok s \<Longrightarrow> ok (put k v s)"
    and finite_get: "finite (dom (get s))"
begin

lemma read_your_write: "ok s \<Longrightarrow> fits k v \<Longrightarrow> get (put k v s) k = Some v"
  by (simp add: get_put)

lemma read_other: "ok s \<Longrightarrow> fits k v \<Longrightarrow> k \<noteq> j \<Longrightarrow> get (put k v s) j = get s j"
  by (simp add: get_put)

lemma put_put: "ok s \<Longrightarrow> fits k v \<Longrightarrow> fits k w \<Longrightarrow> get (put k w (put k v s)) = get (put k w s)"
  by (simp add: get_put ok_put)

lemma sum_put:
  fixes f :: "'k \<Rightarrow> 'v \<Rightarrow> 'n::ab_group_add"
  assumes "ok s" and "fits k v"
  shows "msum f (get (put k v s)) = msum f (get s) - entry f (get s) k + f k v"
  using assms by (simp add: get_put finite_get msum_update)

end

text \<open>
  A store that removes records that are null. \<open>view\<close> shows the records that are not null. A
  whole table is written by storing its entries one after the other; the lemma \<open>view_write\<close>
  says what the view is then.
\<close>

definition overlay :: "('v \<Rightarrow> bool) \<Rightarrow> ('k \<rightharpoonup> 'v) \<Rightarrow> ('k \<rightharpoonup> 'v) \<Rightarrow> 'k \<rightharpoonup> 'v" where
  "overlay null m t k =
     (case t k of Some v \<Rightarrow> if null v then None else Some v | None \<Rightarrow> m k)"

locale view_store =
  fixes view :: "'s \<Rightarrow> 'k \<rightharpoonup> 'v"
    and put :: "'k \<Rightarrow> 'v \<Rightarrow> 's \<Rightarrow> 's"
    and null :: "'v \<Rightarrow> bool"
    and fits :: "'k \<Rightarrow> 'v \<Rightarrow> bool"
  assumes view_put: "fits k v \<Longrightarrow> view (put k v s) = (view s)(k := (if null v then None else Some v))"
begin

lemma view_write:
  assumes "distinct (map fst t)" and "\<forall>(k, v) \<in> set t. fits k v"
  shows "view (fold (\<lambda>(k, v). put k v) t s) = overlay null (view s) (map_of t)"
  using assms
proof (induction t arbitrary: s)
  case Nil
  then show ?case by (auto simp: overlay_def)
next
  case (Cons kv t)
  obtain k v where kv: "kv = (k, v)" by (cases kv)
  have notin: "map_of t k = None" using Cons.prems(1) by (simp add: kv map_of_eq_None_iff)
  show ?case
    using Cons notin by (auto simp: kv view_put overlay_def fun_eq_iff split: option.splits)
qed

end

end
