(* ===== verification/Fc.thy ===== *)
theory Fc
  imports Prelude
begin

text \<open>
  The parts of the \<^verbatim>\<open>fc\<close> library that the chain code calls for arithmetic. The library is not
  part of the repository, so its operations are the fields of a record \<open>fc_lib\<close> that every
  definition using them takes as an argument. A \<^verbatim>\<open>fc::uint128\<close> is a \<open>128 word\<close>, a
  \<^verbatim>\<open>fc::bigint\<close> an \<open>int\<close>, and a \<^verbatim>\<open>fc::real128\<close> an opaque number.

  \<open>bigint_ok\<close> and \<open>uint128_ok\<close> state the documented behaviour the theorems rely on: exact
  results on arguments in range, truncating division, and nothing outside the range. \<open>fc_std\<close>
  is a concrete instance that satisfies both.
\<close>

type_synonym bigint = int
type_synonym real128 = int

record fc_lib =
  bigint_of_int64 :: "64 word \<Rightarrow> bigint"
  bigint_of_uint128 :: "128 word \<Rightarrow> bigint"
  bigint_mul :: "bigint \<Rightarrow> bigint \<Rightarrow> bigint"
  bigint_div :: "bigint \<Rightarrow> bigint \<Rightarrow> exn + bigint"
  bigint_log2 :: "bigint \<Rightarrow> int"
  bigint_to_int64 :: "bigint \<Rightarrow> exn + 64 word"
  bigint_to_uint128 :: "bigint \<Rightarrow> exn + 128 word"
  uint128_of_uint64 :: "64 word \<Rightarrow> 128 word"
  uint128_of_int64 :: "64 word \<Rightarrow> 128 word"
  uint128_add :: "128 word \<Rightarrow> 128 word \<Rightarrow> 128 word"
  uint128_sub :: "128 word \<Rightarrow> 128 word \<Rightarrow> 128 word"
  uint128_mul :: "128 word \<Rightarrow> 128 word \<Rightarrow> 128 word"
  uint128_div :: "128 word \<Rightarrow> 128 word \<Rightarrow> exn + 128 word"
  uint128_mod :: "128 word \<Rightarrow> 128 word \<Rightarrow> exn + 128 word"
  uint128_to_uint64 :: "128 word \<Rightarrow> exn + 64 word"
  uint128_to_integer :: "128 word \<Rightarrow> exn + 32 word"
  uint128_string :: "128 word \<Rightarrow> string"
  real128_of_uint64 :: "64 word \<Rightarrow> real128"
  real128_add :: "real128 \<Rightarrow> real128 \<Rightarrow> real128"
  real128_sub :: "real128 \<Rightarrow> real128 \<Rightarrow> real128"
  real128_mul :: "real128 \<Rightarrow> real128 \<Rightarrow> real128"
  real128_div :: "real128 \<Rightarrow> real128 \<Rightarrow> exn + real128"
  real128_to_uint64 :: "real128 \<Rightarrow> exn + 64 word"

text \<open>Decimal notation, most significant digit first.\<close>

definition digit_char :: "nat \<Rightarrow> char" where
  "digit_char d = char_of (48 + d)"

fun decimal :: "nat \<Rightarrow> string" where
  "decimal n = (if n < 10 then [digit_char n] else decimal (n div 10) @ [digit_char (n mod 10)])"

declare decimal.simps [simp del]

text \<open>
  Big integers: conversions of non-negative numbers are exact, multiplication is exact,
  division of a non-negative by a positive number truncates, \<open>bigint_log2\<close> counts bits, and
  the narrowing conversions are exact on numbers that fit.
\<close>

definition bigint_ok :: "'x fc_lib_scheme \<Rightarrow> bool" where
  "bigint_ok X \<longleftrightarrow>
     (\<forall>a. 0 \<le> sint a \<longrightarrow> bigint_of_int64 X a = sint a) \<and>
     (\<forall>r. bigint_of_uint128 X r = uint r) \<and>
     (\<forall>a b. bigint_mul X a b = a * b) \<and>
     (\<forall>a b. 0 \<le> a \<longrightarrow> 0 < b \<longrightarrow> bigint_div X a b = Inr (a div b)) \<and>
     (\<forall>a n. 0 \<le> a \<longrightarrow> (bigint_log2 X a \<le> int n \<longleftrightarrow> a < 2 ^ n)) \<and>
     (\<forall>a. 0 \<le> a \<longrightarrow> a < 2 ^ 63 \<longrightarrow> bigint_to_int64 X a = Inr (word_of_int a)) \<and>
     (\<forall>a. 0 \<le> a \<longrightarrow> a < 2 ^ 128 \<longrightarrow> bigint_to_uint128 X a = Inr (word_of_int a))"

text \<open>128-bit unsigned integers: results are exact whenever they fit.\<close>

definition uint128_ok :: "'x fc_lib_scheme \<Rightarrow> bool" where
  "uint128_ok X \<longleftrightarrow>
     (\<forall>a. uint128_of_uint64 X a = ucast a) \<and>
     (\<forall>a. 0 \<le> sint a \<longrightarrow> uint128_of_int64 X a = ucast a) \<and>
     (\<forall>a b. uint a + uint b < 2 ^ 128 \<longrightarrow> uint128_add X a b = a + b) \<and>
     (\<forall>a b. uint b \<le> uint a \<longrightarrow> uint128_sub X a b = a - b) \<and>
     (\<forall>a b. uint a * uint b < 2 ^ 128 \<longrightarrow> uint128_mul X a b = a * b) \<and>
     (\<forall>a b. b \<noteq> 0 \<longrightarrow> uint128_div X a b = Inr (a div b)) \<and>
     (\<forall>a b. b \<noteq> 0 \<longrightarrow> uint128_mod X a b = Inr (a mod b)) \<and>
     (\<forall>a. uint a < 2 ^ 64 \<longrightarrow> uint128_to_uint64 X a = Inr (ucast a)) \<and>
     (\<forall>a. uint a < 2 ^ 32 \<longrightarrow> uint128_to_integer X a = Inr (ucast a)) \<and>
     (\<forall>a. uint128_string X a = decimal (unat a))"

text \<open>A concrete instance.\<close>

fun bit_length :: "nat \<Rightarrow> nat" where
  "bit_length n = (if n = 0 then 0 else Suc (bit_length (n div 2)))"

declare bit_length.simps [simp del]

definition fc_std :: fc_lib where
  "fc_std = \<lparr>
     bigint_of_int64 = (\<lambda>a. sint a),
     bigint_of_uint128 = (\<lambda>r. uint r),
     bigint_mul = (\<lambda>a b. a * b),
     bigint_div = (\<lambda>a b. if b = 0 then Inl (Fc_exception ''divide_by_zero_exception'')
                          else Inr (a sdiv b)),
     bigint_log2 = (\<lambda>a. int (bit_length (nat \<bar>a\<bar>))),
     bigint_to_int64 = (\<lambda>a. if \<bar>a\<bar> < 2 ^ 63 then Inr (word_of_int a) else Inl assert_failed),
     bigint_to_uint128 = (\<lambda>a. if \<bar>a\<bar> < 2 ^ 128 then Inr (word_of_int \<bar>a\<bar>) else Inl assert_failed),
     uint128_of_uint64 = (\<lambda>a. ucast a),
     uint128_of_int64 = (\<lambda>a. scast a),
     uint128_add = (\<lambda>a b. a + b),
     uint128_sub = (\<lambda>a b. a - b),
     uint128_mul = (\<lambda>a b. a * b),
     uint128_div = (\<lambda>a b. if b = 0 then Inl (Fc_exception ''divide_by_zero_exception'')
                           else Inr (a div b)),
     uint128_mod = (\<lambda>a b. if b = 0 then Inl (Fc_exception ''divide_by_zero_exception'')
                           else Inr (a mod b)),
     uint128_to_uint64 = (\<lambda>a. if uint a < 2 ^ 64 then Inr (ucast a) else Inl assert_failed),
     uint128_to_integer = (\<lambda>a. if uint a < 2 ^ 32 then Inr (ucast a) else Inl assert_failed),
     uint128_string = (\<lambda>a. decimal (unat a)),
     real128_of_uint64 = (\<lambda>a. uint a * 10 ^ 18),
     real128_add = (\<lambda>a b. a + b),
     real128_sub = (\<lambda>a b. a - b),
     real128_mul = (\<lambda>a b. a * b div 10 ^ 18),
     real128_div = (\<lambda>a b. if b = 0 then Inl (Fc_exception ''divide_by_zero_exception'')
                           else Inr (a * 10 ^ 18 div b)),
     real128_to_uint64 = (\<lambda>a. Inr (word_of_int (a div 10 ^ 18)))
   \<rparr>"

section \<open>Decimal notation\<close>

lemma digit_char_code:
  assumes "d < 10" shows "of_char (digit_char d) = 48 + d"
  using assms by (simp add: digit_char_def)

lemma decimal_nonempty [simp]: "decimal n \<noteq> []"
  by (subst decimal.simps) simp

section \<open>The contracts as rules\<close>

lemma bigint_rules:
  assumes "bigint_ok X"
  shows "0 \<le> sint v \<Longrightarrow> bigint_of_int64 X v = sint v"
    and "bigint_of_uint128 X r = uint r"
    and "bigint_mul X a b = a * b"
    and "0 \<le> a \<Longrightarrow> 0 < b \<Longrightarrow> bigint_div X a b = Inr (a div b)"
    and "0 \<le> a \<Longrightarrow> a < 2 ^ 63 \<Longrightarrow> bigint_to_int64 X a = Inr (word_of_int a)"
    and "0 \<le> a \<Longrightarrow> a < 2 ^ 128 \<Longrightarrow> bigint_to_uint128 X a = Inr (word_of_int a)"
  using assms by (simp_all add: bigint_ok_def)

lemma bigint_log2_less:
  assumes "bigint_ok X" and "0 \<le> a" and "a < 2 ^ 63"
  shows "bigint_log2 X a < 128"
proof -
  from assms have "bigint_log2 X a \<le> int 63" unfolding bigint_ok_def by blast
  then show ?thesis by simp
qed

lemma uint128_rules:
  assumes "uint128_ok X"
  shows "uint128_of_uint64 X v = ucast v"
    and "0 \<le> sint v \<Longrightarrow> uint128_of_int64 X v = ucast v"
    and "uint a + uint b < 2 ^ 128 \<Longrightarrow> uint128_add X a b = a + b"
    and "uint b \<le> uint a \<Longrightarrow> uint128_sub X a b = a - b"
    and "uint a * uint b < 2 ^ 128 \<Longrightarrow> uint128_mul X a b = a * b"
    and "b \<noteq> 0 \<Longrightarrow> uint128_div X a b = Inr (a div b)"
    and "b \<noteq> 0 \<Longrightarrow> uint128_mod X a b = Inr (a mod b)"
    and "uint a < 2 ^ 64 \<Longrightarrow> uint128_to_uint64 X a = Inr (ucast a)"
    and "uint a < 2 ^ 32 \<Longrightarrow> uint128_to_integer X a = Inr (ucast a)"
    and "uint128_string X a = decimal (unat a)"
  using assms by (simp_all add: uint128_ok_def)

section \<open>The concrete instance meets the contract\<close>

lemma bit_length_le: "bit_length a \<le> n \<longleftrightarrow> a < 2 ^ n"
proof (induction n arbitrary: a)
  case 0
  then show ?case by (subst bit_length.simps) simp
next
  case (Suc n)
  show ?case
  proof (cases "a = 0")
    case True
    then show ?thesis by (simp add: bit_length.simps)
  next
    case False
    then have "bit_length a \<le> Suc n \<longleftrightarrow> a div 2 < 2 ^ n"
      using Suc.IH [of "a div 2"] by (subst bit_length.simps) simp
    then show ?thesis by auto
  qed
qed

lemma bigint_ok_std: "bigint_ok fc_std"
proof -
  have log: "bit_length (nat a) \<le> n \<longleftrightarrow> a < 2 ^ n" if "0 \<le> a" for a :: int and n
    using that bit_length_le [of "nat a" n] by (simp add: nat_less_iff)
  have sdiv: "a sdiv b = a div b" if "0 \<le> a" "0 < b" for a b :: int
    using that by (cases "a = 0") (simp_all add: signed_divide_int_def)
  show ?thesis
    unfolding bigint_ok_def fc_std_def by (simp add: log sdiv)
qed

lemma nonneg_scast_ucast:
  assumes "0 \<le> sint (a :: 64 word)"
  shows "(scast a :: 128 word) = ucast a"
proof -
  have "(scast a :: 128 word) = word_of_int (sint a)" by simp
  moreover have "(ucast a :: 128 word) = word_of_int (uint a)" by simp
  ultimately show ?thesis using uint64_nonneg [OF assms] by simp
qed

lemma uint128_ok_std: "uint128_ok fc_std"
  unfolding uint128_ok_def fc_std_def by (simp add: nonneg_scast_ucast)

end
