(* ===== verification/Config.thy ===== *)
theory Config
  imports Prelude
begin

text \<open>
  The constants of \<^verbatim>\<open>config.hpp\<close> and \<^verbatim>\<open>fork_blocks.hpp\<close> that the modelled code uses, each at
  the width and signedness its macro expands to: an unsigned 64-bit constant is a \<open>64 word\<close>
  that comparisons read with \<open>uint\<close>, a small positive one an \<open>int\<close> or a \<open>nat\<close>.
\<close>

definition BTS_BLOCKCHAIN_PRECISION :: "64 word" where
  "BTS_BLOCKCHAIN_PRECISION = 100000"

definition BTS_BLOCKCHAIN_MAX_TRANSACTION_EXPIRATION_SEC :: nat where
  "BTS_BLOCKCHAIN_MAX_TRANSACTION_EXPIRATION_SEC = 60 * 60 * 24 * 2"

definition BTS_BLOCKCHAIN_MIN_YIELD_PERIOD_SEC :: nat where
  "BTS_BLOCKCHAIN_MIN_YIELD_PERIOD_SEC = 60 * 60 * 24"

definition BTS_BLOCKCHAIN_MIN_BURN_FEE :: "64 word" where
  "BTS_BLOCKCHAIN_MIN_BURN_FEE = BTS_BLOCKCHAIN_PRECISION * 10"

definition BTS_BLOCKCHAIN_MINIMUM_SHORT_ORDER_SIZE :: "64 word" where
  "BTS_BLOCKCHAIN_MINIMUM_SHORT_ORDER_SIZE = BTS_BLOCKCHAIN_PRECISION * 10000000"

definition BTS_BLOCKCHAIN_MAX_SHORT_PERIOD_SEC :: nat where
  "BTS_BLOCKCHAIN_MAX_SHORT_PERIOD_SEC = 2 * 60 * 60"

definition BTS_BLOCKCHAIN_NUM_DELEGATES :: nat where
  "BTS_BLOCKCHAIN_NUM_DELEGATES = 101"

definition BTS_BLOCKCHAIN_MAX_SLATE_SIZE :: nat where
  "BTS_BLOCKCHAIN_MAX_SLATE_SIZE = BTS_BLOCKCHAIN_NUM_DELEGATES + BTS_BLOCKCHAIN_NUM_DELEGATES div 10"

definition BTS_BLOCKCHAIN_MIN_FEEDS :: nat where
  "BTS_BLOCKCHAIN_MIN_FEEDS = BTS_BLOCKCHAIN_NUM_DELEGATES div 2 + 1"

definition BTS_BLOCKCHAIN_MAX_UNDO_HISTORY :: nat where
  "BTS_BLOCKCHAIN_MAX_UNDO_HISTORY = BTS_BLOCKCHAIN_NUM_DELEGATES * 4"

definition BTS_MAX_DELEGATE_PAY_PER_BLOCK :: "64 word" where
  "BTS_MAX_DELEGATE_PAY_PER_BLOCK = 1 * BTS_BLOCKCHAIN_PRECISION"

definition BTS_BLOCKCHAIN_BLOCK_INTERVAL_SEC :: nat where
  "BTS_BLOCKCHAIN_BLOCK_INTERVAL_SEC = 10"

definition BTS_BLOCKCHAIN_MIN_NAME_SIZE :: nat where "BTS_BLOCKCHAIN_MIN_NAME_SIZE = 1"
definition BTS_BLOCKCHAIN_MAX_NAME_SIZE :: nat where "BTS_BLOCKCHAIN_MAX_NAME_SIZE = 63"
definition BTS_BLOCKCHAIN_MAX_SYMBOL_SIZE :: nat where "BTS_BLOCKCHAIN_MAX_SYMBOL_SIZE = 5"
definition BTS_BLOCKCHAIN_MIN_SYMBOL_SIZE :: nat where "BTS_BLOCKCHAIN_MIN_SYMBOL_SIZE = 3"

definition BTS_BLOCKCHAIN_MAX_SHARES :: "64 word" where
  "BTS_BLOCKCHAIN_MAX_SHARES = 1000 * 1000 * 1000 * 1000 * 1000"

definition BTS_BLOCKCHAIN_BLOCKS_PER_HOUR :: nat where
  "BTS_BLOCKCHAIN_BLOCKS_PER_HOUR = (60 * 60) div BTS_BLOCKCHAIN_BLOCK_INTERVAL_SEC"

definition BTS_BLOCKCHAIN_BLOCKS_PER_DAY :: nat where
  "BTS_BLOCKCHAIN_BLOCKS_PER_DAY = BTS_BLOCKCHAIN_BLOCKS_PER_HOUR * 24"

definition BTS_BLOCKCHAIN_BLOCKS_PER_YEAR :: nat where
  "BTS_BLOCKCHAIN_BLOCKS_PER_YEAR = BTS_BLOCKCHAIN_BLOCKS_PER_DAY * 365"

definition BTS_BLOCKCHAIN_MAX_BLOCK_SIZE :: nat where
  "BTS_BLOCKCHAIN_MAX_BLOCK_SIZE = 10 * 512 * 10"

definition BTS_BLOCKCHAIN_DELEGATE_REGISTRATION_FEE :: nat where
  "BTS_BLOCKCHAIN_DELEGATE_REGISTRATION_FEE = BTS_BLOCKCHAIN_BLOCKS_PER_DAY * 14"

definition BTS_BLOCKCHAIN_ASSET_REGISTRATION_FEE :: nat where
  "BTS_BLOCKCHAIN_ASSET_REGISTRATION_FEE = BTS_BLOCKCHAIN_BLOCKS_PER_DAY * 14"

text \<open>
  The macro \<^verbatim>\<open>FORK_25\<close> is \<open>-1\<close>. In the comparisons with a \<^verbatim>\<open>uint32_t\<close> block number it is
  converted to \<open>2 ^ 32 - 1\<close>.
\<close>

definition FORK_25 :: "32 word" where "FORK_25 = - 1"

definition BTS_CHECK_CANONICAL_SIGNATURE_FORK_BLOCK_NUM :: "32 word" where
  "BTS_CHECK_CANONICAL_SIGNATURE_FORK_BLOCK_NUM = FORK_25"

end
