(* ===== verification/Asset.thy ===== *)
theory Asset
  imports Fc Config
begin

text \<open>
  Amounts and prices: \<^verbatim>\<open>asset.hpp\<close> and \<^verbatim>\<open>asset.cpp\<close>. An \<open>asset\<close> is a signed 64-bit amount of
  one asset type; a \<open>price\<close> a 128-bit fixed-point ratio (18 decimals) between two asset types.
  The lemmas show that addition and subtraction are exact or raise, that a price does not
  depend on the order in which the two amounts are given, that conversions round towards
  zero and never gain value when converted back.
\<close>

section \<open>Definitions\<close>

record asset =
  amount :: share_type
  asset_id :: asset_id_type

abbreviation asset_of :: "share_type \<Rightarrow> asset_id_type \<Rightarrow> asset" where
  "asset_of a u \<equiv> \<lparr> amount = a, asset_id = u \<rparr>"

definition asset_add :: "asset \<Rightarrow> asset \<Rightarrow> exn + asset" where
  "asset_add l o' =
     (if asset_id l \<noteq> asset_id o' then Inl assert_failed
      else if (sint (amount o') > 0 \<and> sint (amount l) > INT64_MAX - sint (amount o')) \<or>
              (sint (amount o') < 0 \<and> sint (amount l) < INT64_MIN - sint (amount o'))
      then Inl addition_overflow
      else Inr (l \<lparr> amount := amount l + amount o' \<rparr>))"

definition asset_sub :: "asset \<Rightarrow> asset \<Rightarrow> exn + asset" where
  "asset_sub l o' =
     (if asset_id l \<noteq> asset_id o' then Inl assert_failed
      else if (sint (amount o') > 0 \<and> sint (amount l) < INT64_MIN + sint (amount o')) \<or>
              (sint (amount o') < 0 \<and> sint (amount l) > INT64_MAX + sint (amount o'))
      then Inl subtraction_overflow
      else Inr (l \<lparr> amount := amount l - amount o' \<rparr>))"

definition asset_neg :: "asset \<Rightarrow> asset" where
  "asset_neg a = asset_of (- amount a) (asset_id a)"

text \<open>The comparisons of assets: equality and strict order read the amount only.\<close>

definition asset_eq :: "asset \<Rightarrow> asset \<Rightarrow> bool" where
  "asset_eq l r \<longleftrightarrow> amount l = amount r"

definition asset_less :: "asset \<Rightarrow> asset \<Rightarrow> bool" where
  "asset_less l r \<longleftrightarrow> sint (amount l) < sint (amount r)"

definition asset_le :: "asset \<Rightarrow> asset \<Rightarrow> bool" where
  "asset_le l r \<longleftrightarrow> asset_id l = asset_id r \<and> sint (amount l) \<le> sint (amount r)"

definition asset_ge :: "asset \<Rightarrow> asset \<Rightarrow> bool" where
  "asset_ge l r \<longleftrightarrow> asset_id l = asset_id r \<and> sint (amount l) \<ge> sint (amount r)"

datatype price = Price (ratio: "128 word") (base_asset_id: asset_id_type) (quote_asset_id: asset_id_type)

definition asset_pair :: "price \<Rightarrow> asset_id_type \<times> asset_id_type" where
  "asset_pair p = (quote_asset_id p, base_asset_id p)"

definition price_eq :: "price \<Rightarrow> price \<Rightarrow> bool" where
  "price_eq l r \<longleftrightarrow> ratio l = ratio r"

definition price_less :: "price \<Rightarrow> price \<Rightarrow> bool" where
  "price_less l r =
     (if quote_asset_id l < quote_asset_id r then True
      else if quote_asset_id l > quote_asset_id r then False
      else if base_asset_id l < base_asset_id r then True
      else if base_asset_id l > base_asset_id r then False
      else ratio l < ratio r)"

definition price_le :: "price \<Rightarrow> price \<Rightarrow> bool" where
  "price_le l r \<longleftrightarrow> ratio l \<le> ratio r \<and> asset_pair l = asset_pair r"

definition price_ge :: "price \<Rightarrow> price \<Rightarrow> bool" where
  "price_ge l r \<longleftrightarrow> ratio l \<ge> ratio r \<and> asset_pair l = asset_pair r"

text \<open>Prices are keys of ordered containers; these use the strict order above.\<close>

instantiation price :: linorder
begin

definition less_price_inst: "l < r \<longleftrightarrow> price_less l r"

definition less_eq_price_inst: "l \<le> r \<longleftrightarrow> price_less l r \<or> l = r"

instance
proof
  fix x y :: price
  show "x \<le> y \<or> y \<le> x"
    by (cases x; cases y) (auto simp: less_eq_price_inst price_less_def)
qed (auto simp: less_price_inst less_eq_price_inst price_less_def split: if_splits)

end

definition BTS_PRICE_PRECISION :: "64 word" where
  "BTS_PRICE_PRECISION = BTS_BLOCKCHAIN_MAX_SHARES * 1000"

text \<open>The operator \<open>/\<close> on two assets.\<close>

definition price_of :: "'x fc_lib_scheme \<Rightarrow> asset \<Rightarrow> asset \<Rightarrow> exn + price" where
  "price_of X a b =
     (if asset_id a = asset_id b then Inl asset_divide_by_self
      else
        let (l, r) = (if asset_id a < asset_id b then (b, a) else (a, b))
        in if amount r = 0 then Inl asset_divide_by_zero
           else
             bindE (bigint_div X (bigint_mul X (bigint_of_int64 X (amount l))
                                               (bigint_of_int64 X BTS_PRICE_PRECISION))
                                 (bigint_of_int64 X (amount r))) (\<lambda>result.
             bindE (bigint_to_uint128 X result) (\<lambda>rt.
             Inr (Price rt (asset_id r) (asset_id l)))))"

text \<open>
  The constructor from a floating-point number at zero. A literal zero selects this constructor, and not
  the one from a 128-bit ratio with the assets in the other order.
\<close>

definition zero_price_of :: "asset_id_type \<Rightarrow> asset_id_type \<Rightarrow> exn + price" where
  "zero_price_of q b = (if \<not> q > b then Inl assert_failed else Inr (Price 0 b q))"

text \<open>The operator \<open>*\<close> on an asset and a price; the operator \<open>/\<close> is the same function.\<close>

definition asset_mul_price :: "'x fc_lib_scheme \<Rightarrow> asset \<Rightarrow> price \<Rightarrow> exn + asset" where
  "asset_mul_price X a p =
     (if asset_id a = base_asset_id p then
        bindE (bigint_div X (bigint_mul X (bigint_of_int64 X (amount a)) (bigint_of_uint128 X (ratio p)))
                            (bigint_of_int64 X BTS_PRICE_PRECISION)) (\<lambda>amnt.
        if bigint_log2 X amnt \<ge> 128 then Inl addition_overflow
        else bindE (bigint_to_int64 X amnt) (\<lambda>v. Inr (asset_of v (quote_asset_id p))))
      else if asset_id a = quote_asset_id p then
        bindE (bigint_div X (bigint_mul X (bigint_of_int64 X (amount a))
                                          (bigint_of_int64 X BTS_PRICE_PRECISION))
                            (bigint_of_uint128 X (ratio p))) (\<lambda>result.
        if bigint_log2 X result \<ge> 128 then Inl addition_overflow
        else bindE (bigint_to_int64 X result) (\<lambda>v. Inr (asset_of v (base_asset_id p))))
      else Inl asset_type_mismatch)"

section \<open>Amounts\<close>

lemma asset_add_Inr_iff:
  "asset_add l r = Inr s \<longleftrightarrow>
     asset_id l = asset_id r \<and>
     INT64_MIN \<le> sint (amount l) + sint (amount r) \<and> sint (amount l) + sint (amount r) \<le> INT64_MAX \<and>
     s = asset_of (amount l + amount r) (asset_id l)"
  using sint64_bounds [of "amount l"] by (cases l) (auto simp: asset_add_def)

lemma asset_sub_Inr_iff:
  "asset_sub l r = Inr s \<longleftrightarrow>
     asset_id l = asset_id r \<and>
     INT64_MIN \<le> sint (amount l) - sint (amount r) \<and> sint (amount l) - sint (amount r) \<le> INT64_MAX \<and>
     s = asset_of (amount l - amount r) (asset_id l)"
  using sint64_bounds [of "amount l"] by (cases l) (auto simp: asset_sub_def)

text \<open>
  The two operators in terms of the numbers the words stand for: the result is the exact sum
  or difference, and a result exists exactly when it is representable.
\<close>

lemma asset_add_exact:
  assumes "asset_add l r = Inr s"
  shows "sint (amount s) = sint (amount l) + sint (amount r)" "asset_id s = asset_id l"
  using assms by (auto simp: asset_add_Inr_iff sint64_add)

lemma asset_sub_exact:
  assumes "asset_sub l r = Inr s"
  shows "sint (amount s) = sint (amount l) - sint (amount r)" "asset_id s = asset_id l"
  using assms by (auto simp: asset_sub_Inr_iff sint64_sub)

section \<open>Prices\<close>

lemma price_of_commute: "price_of X a b = price_of X b a"
  by (auto simp: price_of_def Let_def)

lemma price_precision: "sint BTS_PRICE_PRECISION = 10 ^ 18" "uint BTS_PRICE_PRECISION = 10 ^ 18"
  by (simp_all add: BTS_PRICE_PRECISION_def BTS_BLOCKCHAIN_MAX_SHARES_def)

lemma price_of_ratio:
  assumes "0 \<le> a" and "0 < b" and "a \<le> INT64_MAX"
  shows "0 \<le> a * 10 ^ 18 div b" "a * 10 ^ 18 div b < 2 ^ 128"
proof -
  show "0 \<le> a * 10 ^ 18 div b" using assms by (simp add: pos_imp_zdiv_nonneg_iff)
  have "a * 10 ^ 18 div b \<le> a * 10 ^ 18" using assms zdiv_mono2 [of "a * 10 ^ 18" 1 b] by simp
  also have "\<dots> < 2 ^ 128" using assms(3) by (simp add: INT64_MAX_def)
  finally show "a * 10 ^ 18 div b < 2 ^ 128" .
qed

lemma price_of_value:
  assumes "bigint_ok X" and "asset_id b < asset_id a" and "0 \<le> sint (amount a)" and "0 < sint (amount b)"
  shows "price_of X a b =
    Inr (Price (word_of_int (sint (amount a) * 10 ^ 18 div sint (amount b))) (asset_id b) (asset_id a))"
proof -
  have nz: "amount b \<noteq> 0" using assms(4) by auto
  show ?thesis
    using assms price_of_ratio [OF assms(3,4) sint64_bounds(2)] nz
    by (simp add: price_of_def Let_def bigint_ok_def price_precision)
qed

text \<open>Converting an amount of the base asset and an amount of the quote asset.\<close>

lemma mul_price_base:
  assumes "bigint_ok X" and "asset_id a = base_asset_id p" and "0 \<le> sint (amount a)"
    and "sint (amount a) * uint (ratio p) div 10 ^ 18 < 2 ^ 63"
  shows "asset_mul_price X a p =
    Inr (asset_of (word_of_int (sint (amount a) * uint (ratio p) div 10 ^ 18)) (quote_asset_id p))"
proof -
  let ?v = "sint (amount a) * uint (ratio p) div 10 ^ 18"
  have v: "0 \<le> ?v" using assms(3) by (simp add: pos_imp_zdiv_nonneg_iff)
  show ?thesis
    using assms(2,3) v bigint_log2_less [OF assms(1) v assms(4)] bigint_rules [OF assms(1)] assms(4)
    by (simp add: asset_mul_price_def price_precision)
qed

lemma mul_price_quote:
  assumes "bigint_ok X" and "asset_id a = quote_asset_id p" and "base_asset_id p \<noteq> quote_asset_id p"
    and "0 \<le> sint (amount a)" and "0 < uint (ratio p)"
    and "sint (amount a) * 10 ^ 18 div uint (ratio p) < 2 ^ 63"
  shows "asset_mul_price X a p =
    Inr (asset_of (word_of_int (sint (amount a) * 10 ^ 18 div uint (ratio p))) (base_asset_id p))"
proof -
  let ?v = "sint (amount a) * 10 ^ 18 div uint (ratio p)"
  have v: "0 \<le> ?v" using assms(4,5) by (simp add: pos_imp_zdiv_nonneg_iff)
  show ?thesis
    using assms(2-5) v bigint_log2_less [OF assms(1) v assms(6)] bigint_rules [OF assms(1)] assms(6)
    by (simp add: asset_mul_price_def price_precision)
qed

lemma div_mul_div_le:
  fixes a r P :: int
  assumes "0 \<le> a" and "0 < r" and "0 < P"
  shows "(a * r div P) * P div r \<le> a"
proof -
  have "(a * r div P) * P \<le> a * r" using assms(3) minus_mod_eq_div_mult [of "a * r" P]
      pos_mod_sign [of P "a * r"] by linarith
  then have "(a * r div P) * P div r \<le> a * r div r" using assms(2) by (rule zdiv_mono1)
  then show ?thesis using assms(2) by simp
qed

text \<open>
  Converting an amount of the base asset at a price and converting the result back at the
  same price never gains.
\<close>

lemma mul_price_back:
  assumes "bigint_ok X" and "asset_id a = base_asset_id p" and "base_asset_id p \<noteq> quote_asset_id p"
    and "0 \<le> sint (amount a)" and "0 < uint (ratio p)"
    and fit: "sint (amount a) * uint (ratio p) div 10 ^ 18 < 2 ^ 63"
  obtains b c where "asset_mul_price X a p = Inr b" and "asset_mul_price X b p = Inr c"
    and "asset_id c = asset_id a" and "0 \<le> sint (amount c)" and "sint (amount c) \<le> sint (amount a)"
proof -
  define v where "v = sint (amount a) * uint (ratio p) div 10 ^ 18"
  define w where "w = v * 10 ^ 18 div uint (ratio p)"
  have v: "0 \<le> v" using assms(4) by (simp add: v_def pos_imp_zdiv_nonneg_iff)
  then have sv: "sint (word_of_int v :: 64 word) = v"
    using fit by (intro sint64_eq) (simp_all add: v_def INT64_MIN_def INT64_MAX_def)
  have w: "0 \<le> w" using v assms(5) by (simp add: w_def pos_imp_zdiv_nonneg_iff)
  have le: "w \<le> sint (amount a)" 
    unfolding w_def v_def using assms(4,5) by (intro div_mul_div_le) auto
  then have sw: "sint (word_of_int w :: 64 word) = w"
    using w sint64_bounds(2) [of "amount a"] by (intro sint64_eq) (simp_all add: INT64_MIN_def)
  have w63: "w < 2 ^ 63" using le sint64_bounds(2) [of "amount a"] by (simp add: INT64_MAX_def)
  show ?thesis
  proof (rule that)
    show "asset_mul_price X a p = Inr (asset_of (word_of_int v) (quote_asset_id p))"
      unfolding v_def using assms by (intro mul_price_base) auto
    show "asset_mul_price X (asset_of (word_of_int v) (quote_asset_id p)) p =
        Inr (asset_of (word_of_int w) (base_asset_id p))"
      using mul_price_quote [of X "asset_of (word_of_int v) (quote_asset_id p)" p]
        assms(1,3,5) v w63 by (simp add: sv w_def)
  qed (use assms(2) w le sw in simp_all)
qed

section \<open>Properties\<close>

text \<open>
  Adding and subtracting amounts is exact: there is a result exactly when both have the same
  asset and the sum (difference) fits a signed 64-bit integer, and then it is that number.
\<close>

theorem amounts_are_exact:
  "(asset_add l r = Inr s \<longleftrightarrow>
      asset_id l = asset_id r \<and> asset_id s = asset_id l \<and> sint (amount s) = sint (amount l) + sint (amount r)) \<and>
   (asset_sub l r = Inr s \<longleftrightarrow>
      asset_id l = asset_id r \<and> asset_id s = asset_id l \<and> sint (amount s) = sint (amount l) - sint (amount r))"
proof (rule conjI)
  have s: "s = asset_of (amount s) (asset_id s)" by simp
  show "asset_add l r = Inr s \<longleftrightarrow> asset_id l = asset_id r \<and> asset_id s = asset_id l \<and>
      sint (amount s) = sint (amount l) + sint (amount r)"
    using sint64_bounds [of "amount s"] sint64_add [of "amount l" "amount r"] sint64_inject [of "amount s" "amount l + amount r"]
    by (subst s) (auto simp: asset_add_Inr_iff)
  show "asset_sub l r = Inr s \<longleftrightarrow> asset_id l = asset_id r \<and> asset_id s = asset_id l \<and>
      sint (amount s) = sint (amount l) - sint (amount r)"
    using sint64_bounds [of "amount s"] sint64_sub [of "amount l" "amount r"] sint64_inject [of "amount s" "amount l - amount r"]
    by (subst s) (auto simp: asset_sub_Inr_iff)
qed

text \<open>
  The price of two amounts is the quotient with 18 decimals, rounded down, of the asset with the
  larger identifier by the other one, whichever of the two is given first.
\<close>

theorem price_of_two_amounts:
  assumes "bigint_ok X" and "asset_id b < asset_id a" and "0 \<le> sint (amount a)" and "0 < sint (amount b)"
  shows "price_of X a b = price_of X b a \<and>
    (\<exists>p. price_of X a b = Inr p \<and> base_asset_id p = asset_id b \<and> quote_asset_id p = asset_id a \<and>
      uint (ratio p) = sint (amount a) * 10 ^ 18 div sint (amount b))"
proof -
  have "uint (word_of_int (sint (amount a) * 10 ^ 18 div sint (amount b)) :: 128 word) =
      sint (amount a) * 10 ^ 18 div sint (amount b)"
    using price_of_ratio [OF assms(3,4) sint64_bounds(2)] by (simp add: uint_word_of_int)
  then show ?thesis using price_of_value [OF assms] price_of_commute [of X a b] by simp
qed

theorem price_of_two_amounts_witness:
  "\<exists>p. price_of fc_std (asset_of 7 1) (asset_of 2 0) = Inr p \<and> uint (ratio p) = 3500000000000000000"
  using price_of_two_amounts [OF bigint_ok_std, of "asset_of 2 0" "asset_of 7 1"] by fastforce

text \<open>
  C35. Rounding never favours the trader: an amount of the base asset converted at a price and the
  result converted back at the same price gives at most the amount, and both conversions succeed.
\<close>

theorem conversion_never_gains:
  assumes "bigint_ok X" and "asset_id a = base_asset_id p" and "base_asset_id p \<noteq> quote_asset_id p"
    and "0 \<le> sint (amount a)" and "0 < uint (ratio p)"
    and "sint (amount a) * uint (ratio p) div 10 ^ 18 < 2 ^ 63"
  shows "\<exists>b c. asset_mul_price X a p = Inr b \<and> asset_mul_price X b p = Inr c \<and> asset_id b = quote_asset_id p \<and>
    asset_id c = asset_id a \<and> 0 \<le> sint (amount c) \<and> sint (amount c) \<le> sint (amount a)"
proof -
  obtain b c where "asset_mul_price X a p = Inr b" "asset_mul_price X b p = Inr c" "asset_id c = asset_id a"
    "0 \<le> sint (amount c)" "sint (amount c) \<le> sint (amount a)"
    using assms by (rule mul_price_back)
  then show ?thesis using mul_price_base [OF assms(1,2,4,6)] by auto
qed

theorem conversion_never_gains_witness:
  "\<exists>b c. asset_mul_price fc_std (asset_of 10 0) (Price 333333333333333333 0 1) = Inr b \<and>
     asset_mul_price fc_std b (Price 333333333333333333 0 1) = Inr c \<and> sint (amount c) \<le> 10"
  using conversion_never_gains [OF bigint_ok_std, of "asset_of 10 0" "Price 333333333333333333 0 1"] by auto

end
