(* ===== verification/Records.thy ===== *)
theory Records
  imports Asset "HOL-Library.Product_Lexorder"
begin

text \<open>
  The data of the chain: the structs of \<^verbatim>\<open>account_record.hpp\<close>, \<^verbatim>\<open>asset_record.hpp\<close>,
  \<^verbatim>\<open>balance_record.hpp\<close>, \<^verbatim>\<open>withdraw_types.hpp\<close>, \<^verbatim>\<open>market_records.hpp\<close>, \<^verbatim>\<open>feed_operations.hpp\<close>,
  \<^verbatim>\<open>block.hpp\<close>, \<^verbatim>\<open>block_record.hpp\<close>, \<^verbatim>\<open>operations.hpp\<close>, \<^verbatim>\<open>transaction.hpp\<close> and the serialised part of
  \<^verbatim>\<open>transaction_evaluation_state.hpp\<close>, with their member functions.

  A struct is a record with the source's fields; a field whose name occurs in several structs
  carries the struct's name first. Packed data (the data of an operation, of a withdraw
  condition, of a feed) is modelled in its unpacked form, with a constructor for data that
  does not unpack. The key \<open>0\<close>, address \<open>0\<close> and hash \<open>0\<close> are the default-constructed values.
\<close>

section \<open>Accounts\<close>

datatype account_type = titan_account | public_account | multisig_account

record account_meta_info =
  meta_type :: account_type
  meta_bytes :: string

record delegate_stats =
  votes_for :: share_type
  blocks_produced :: "32 word"
  blocks_missed :: "32 word"
  next_secret_hash :: hash_type
  last_block_num_produced :: "32 word"
  pay_rate :: "8 word"
  pay_balance :: share_type

definition new_delegate_stats :: delegate_stats where
  "new_delegate_stats = \<lparr> votes_for = 0, blocks_produced = 0, blocks_missed = 0, next_secret_hash = 0,
     last_block_num_produced = 0, pay_rate = 0, pay_balance = 0 \<rparr>"

record account_record =
  account_id :: account_id_type
  account_name :: string
  account_public_data :: variant
  owner_key :: key
  active_key_history :: "(time_point_sec, key) table"
  account_registration_date :: time_point_sec
  account_last_update :: time_point_sec
  delegate_info :: "delegate_stats option"
  meta_data :: "account_meta_info option"

abbreviation null_key :: key where "null_key \<equiv> 0"
abbreviation null_address :: address where "null_address \<equiv> 0"

definition account_is_null :: "account_record \<Rightarrow> bool" where
  "account_is_null r \<longleftrightarrow> owner_key r = null_key"

definition account_make_null :: "account_record \<Rightarrow> account_record" where
  "account_make_null r = r \<lparr> owner_key := null_key \<rparr>"

definition is_delegate :: "account_record \<Rightarrow> bool" where
  "is_delegate r \<longleftrightarrow> delegate_info r \<noteq> None"

definition delegate_pay_balance :: "account_record \<Rightarrow> exn + share_type" where
  "delegate_pay_balance r =
     (case delegate_info r of None \<Rightarrow> Inl assert_failed | Some d \<Rightarrow> Inr (pay_balance d))"

definition net_votes :: "account_record \<Rightarrow> exn + share_type" where
  "net_votes r =
     (case delegate_info r of None \<Rightarrow> Inl assert_failed | Some d \<Rightarrow> Inr (votes_for d))"

definition adjust_votes_for :: "share_type \<Rightarrow> account_record \<Rightarrow> exn + account_record" where
  "adjust_votes_for delta r =
     (case delegate_info r of None \<Rightarrow> Inl assert_failed
      | Some d \<Rightarrow> Inr (r \<lparr> delegate_info := Some (d \<lparr> votes_for := votes_for d + delta \<rparr>) \<rparr>))"

text \<open>The active key is the last one of the history, which is ordered by time.\<close>

definition active_key :: "account_record \<Rightarrow> key" where
  "active_key r =
     (if active_key_history r = [] then null_key else snd (last (in_order (active_key_history r))))"

definition is_retracted :: "account_record \<Rightarrow> bool" where
  "is_retracted r \<longleftrightarrow> active_key r = null_key"

definition set_active_key :: "time_point_sec \<Rightarrow> key \<Rightarrow> account_record \<Rightarrow> exn + account_record" where
  "set_active_key now new_key r =
     (if now = 0 then Inl assert_failed
      else Inr (r \<lparr> active_key_history := AList.update now new_key (active_key_history r) \<rparr>))"

definition delegate_pay_rate :: "account_record \<Rightarrow> 8 word" where
  "delegate_pay_rate r = (case delegate_info r of Some d \<Rightarrow> pay_rate d | None \<Rightarrow> - 1)"

section \<open>Asset records\<close>

record asset_record =
  asset_record_id :: asset_id_type
  symbol :: string
  asset_name :: string
  description :: string
  asset_public_data :: variant
  issuer_account_id :: account_id_type
  precision :: "64 word"
  asset_registration_date :: time_point_sec
  asset_last_update :: time_point_sec
  current_share_supply :: share_type
  maximum_share_supply :: share_type
  collected_fees :: share_type

abbreviation market_issued_asset :: account_id_type where "market_issued_asset \<equiv> - 2"
abbreviation market_feed_issued_asset :: account_id_type where "market_feed_issued_asset \<equiv> - 3"

definition available_shares :: "asset_record \<Rightarrow> share_type" where
  "available_shares r = maximum_share_supply r - current_share_supply r"

definition can_issue_shares :: "asset_record \<Rightarrow> share_type \<Rightarrow> bool" where
  "can_issue_shares r amt =
     (if sint amt \<le> 0 then False
      else let new_share_supply = current_share_supply r + amt
           in sint new_share_supply > sint (current_share_supply r) \<and>
              sint new_share_supply \<le> sint (maximum_share_supply r))"

definition can_issue :: "asset_record \<Rightarrow> asset \<Rightarrow> bool" where
  "can_issue r a = (if asset_record_id r \<noteq> asset_id a then False else can_issue_shares r (amount a))"

definition asset_is_null :: "asset_record \<Rightarrow> bool" where
  "asset_is_null r \<longleftrightarrow> issuer_account_id r = - 1"

definition asset_make_null :: "asset_record \<Rightarrow> asset_record" where
  "asset_make_null r = r \<lparr> issuer_account_id := - 1 \<rparr>"

definition is_market_issued :: "asset_record \<Rightarrow> bool" where
  "is_market_issued r \<longleftrightarrow>
     issuer_account_id r = market_issued_asset \<or> issuer_account_id r = market_feed_issued_asset"

definition uses_market_feed :: "asset_record \<Rightarrow> bool" where
  "uses_market_feed r \<longleftrightarrow> issuer_account_id r = market_feed_issued_asset"

definition get_precision :: "asset_record \<Rightarrow> 64 word" where
  "get_precision r = (if precision r \<noteq> 0 then precision r else 1)"

section \<open>Withdraw conditions and balances\<close>

type_synonym titan_memo = "key \<times> string"

datatype withdraw_data =
    Withdraw_null
  | Withdraw_with_signature address "titan_memo option"
  | Withdraw_with_multi_sig "32 word" "address list" "titan_memo option"
  | Withdraw_with_password address address time_point_sec hash_type "titan_memo option"
  | Withdraw_option address address time_point_sec price
  | Withdraw_with_escrow address address address digest_type "titan_memo option"
  | Withdraw_unreadable "8 word" string

record withdraw_condition =
  condition_asset_id :: asset_id_type
  delegate_slate_id :: slate_id_type
  condition_data :: withdraw_data

record balance_record =
  balance :: share_type
  condition :: withdraw_condition
  genesis_info :: "(asset \<times> string) option"
  balance_last_update :: time_point_sec
  deposit_date :: time_point_sec

definition balance_record_of :: "withdraw_condition \<Rightarrow> balance_record" where
  "balance_record_of c = \<lparr> balance = 0, condition = c, genesis_info = None,
     balance_last_update = 0, deposit_date = 0 \<rparr>"

definition balance_is_null :: "balance_record \<Rightarrow> bool" where
  "balance_is_null r \<longleftrightarrow> balance r = 0"

definition balance_make_null :: "balance_record \<Rightarrow> balance_record" where
  "balance_make_null r = r \<lparr> balance := 0 \<rparr>"

definition get_balance :: "balance_record \<Rightarrow> asset" where
  "get_balance r = asset_of (balance r) (condition_asset_id (condition r))"

definition balance_owner :: "balance_record \<Rightarrow> address" where
  "balance_owner r =
     (case condition_data (condition r) of Withdraw_with_signature owner _ \<Rightarrow> owner | _ \<Rightarrow> null_address)"

section \<open>Market records\<close>

datatype market_index_key = Market_index_key (order_price: price) (owner: address)

text \<open>The keys are ordered by price, then by owner.\<close>

instantiation market_index_key :: linorder
begin

definition less_market_index_key:
  "a < b \<longleftrightarrow> order_price a < order_price b \<or>
     (\<not> order_price b < order_price a \<and> owner a < owner b)"

definition less_eq_market_index_key:
  "(a :: market_index_key) \<le> b \<longleftrightarrow> a < b \<or> a = b"

instance
proof
  fix a b c :: market_index_key
  show "a < b \<longleftrightarrow> a \<le> b \<and> \<not> b \<le> a"
    by (auto simp: less_market_index_key less_eq_market_index_key)
  show "a \<le> b \<Longrightarrow> b \<le> c \<Longrightarrow> a \<le> c"
    by (auto simp: less_market_index_key less_eq_market_index_key)
  show "a \<le> a" by (simp add: less_eq_market_index_key)
  show "a \<le> b \<Longrightarrow> b \<le> a \<Longrightarrow> a = b"
    by (auto simp: less_market_index_key less_eq_market_index_key)
  show "a \<le> b \<or> b \<le> a"
    by (cases a; cases b) (auto simp: less_market_index_key less_eq_market_index_key)
qed

end

record order_record =
  order_balance :: share_type
  short_price_limit :: "price option"
  order_last_update :: time_point_sec

definition new_order_record :: order_record where
  "new_order_record = \<lparr> order_balance = 0, short_price_limit = None, order_last_update = 0 \<rparr>"

definition order_is_null :: "order_record \<Rightarrow> bool" where
  "order_is_null r \<longleftrightarrow> order_balance r = 0"

record collateral_record =
  collateral_balance :: share_type
  payoff_balance :: share_type
  interest_rate :: price
  collateral_expiration :: time_point_sec

abbreviation null_price :: price where "null_price \<equiv> Price 0 0 0"

definition new_collateral_record :: collateral_record where
  "new_collateral_record = \<lparr> collateral_balance = 0, payoff_balance = 0, interest_rate = null_price,
     collateral_expiration = 0 \<rparr>"

definition collateral_is_null :: "collateral_record \<Rightarrow> bool" where
  "collateral_is_null r \<longleftrightarrow> payoff_balance r = 0 \<and> collateral_balance r = 0"

datatype order_type = null_order | bid_order | ask_order | short_order | cover_order

record market_order =
  order_type_of :: order_type
  market_index :: market_index_key
  order_state :: order_record
  order_collateral :: "share_type option"
  order_interest_rate :: "price option"
  order_expiration :: "time_point_sec option"

definition order_get_balance :: "market_order \<Rightarrow> exn + asset" where
  "order_get_balance m =
     (let p = order_price (market_index m); b = order_balance (order_state m)
      in case order_type_of m of
           bid_order \<Rightarrow> Inr (asset_of b (quote_asset_id p))
         | ask_order \<Rightarrow> Inr (asset_of b (base_asset_id p))
         | short_order \<Rightarrow> Inr (asset_of b (base_asset_id p))
         | cover_order \<Rightarrow> Inr (asset_of b (quote_asset_id p))
         | null_order \<Rightarrow> Inl assert_failed)"

definition get_price :: "market_order \<Rightarrow> price" where
  "get_price m = order_price (market_index m)"

definition get_highest_cover_price :: "'x fc_lib_scheme \<Rightarrow> market_order \<Rightarrow> exn + price" where
  "get_highest_cover_price X m =
     (if order_type_of m \<noteq> cover_order then Inl assert_failed
      else case order_collateral m of
             None \<Rightarrow> Inl assert_failed
           | Some c \<Rightarrow> price_of X (asset_of (order_balance (order_state m))
                                            (quote_asset_id (order_price (market_index m))))
                                 (asset_of c 0))"

definition get_quantity :: "'x fc_lib_scheme \<Rightarrow> market_order \<Rightarrow> exn + asset" where
  "get_quantity X m =
     (case order_type_of m of
        bid_order \<Rightarrow> bindE (order_get_balance m) (\<lambda>b. asset_mul_price X b (get_price m))
      | ask_order \<Rightarrow> order_get_balance m
      | short_order \<Rightarrow> order_get_balance m
      | cover_order \<Rightarrow> (case order_collateral m of
            None \<Rightarrow> Inl assert_failed
          | Some c \<Rightarrow> Inr (asset_of (sdiv64 (c * 3) 4) 0))
      | null_order \<Rightarrow> Inl assert_failed)"

definition get_quote_quantity :: "'x fc_lib_scheme \<Rightarrow> market_order \<Rightarrow> exn + asset" where
  "get_quote_quantity X m =
     (case order_type_of m of
        bid_order \<Rightarrow> order_get_balance m
      | ask_order \<Rightarrow> bindE (order_get_balance m) (\<lambda>b. asset_mul_price X b (get_price m))
      | short_order \<Rightarrow> bindE (order_get_balance m) (\<lambda>b. asset_mul_price X b (get_price m))
      | cover_order \<Rightarrow> order_get_balance m
      | null_order \<Rightarrow> Inl assert_failed)"

record market_transaction =
  bid_owner :: address
  ask_owner :: address
  bid_price :: price
  ask_price :: price
  bid_paid :: asset
  bid_received :: asset
  short_collateral :: "asset option"
  ask_paid :: asset
  ask_received :: asset
  returned_collateral :: "asset option"
  bid_type :: order_type
  ask_type :: order_type
  fees_collected :: asset

record market_status =
  quote_id :: asset_id_type
  base_id :: asset_id_type
  current_feed_price :: "price option"
  last_valid_feed_price :: "price option"
  last_error :: "exn option"
  ask_depth :: share_type
  bid_depth :: share_type
  center_price :: price

definition new_market_status :: "asset_id_type \<Rightarrow> asset_id_type \<Rightarrow> market_status" where
  "new_market_status q b = \<lparr> quote_id = q, base_id = b, current_feed_price = None,
     last_valid_feed_price = None, last_error = None, ask_depth = 0, bid_depth = 0,
     center_price = null_price \<rparr>"

definition market_status_is_null :: "market_status \<Rightarrow> bool" where
  "market_status_is_null s \<longleftrightarrow> quote_id s = base_id s"

definition update_feed_price :: "price option \<Rightarrow> market_status \<Rightarrow> market_status" where
  "update_feed_price feed s =
     (let s' = s \<lparr> current_feed_price := feed \<rparr>
      in if feed \<noteq> None then s' \<lparr> last_valid_feed_price := feed \<rparr> else s')"

datatype time_granularity = each_block | each_hour | each_day

instantiation time_granularity :: linorder
begin

primrec granularity_code :: "time_granularity \<Rightarrow> nat" where
  "granularity_code each_block = 0"
| "granularity_code each_hour = 1"
| "granularity_code each_day = 2"

definition less_time_granularity: "a < b \<longleftrightarrow> granularity_code a < granularity_code b"
definition less_eq_time_granularity: "a \<le> b \<longleftrightarrow> granularity_code a \<le> granularity_code b"

instance
proof
  fix a b :: time_granularity
  show "a \<le> b \<Longrightarrow> b \<le> a \<Longrightarrow> a = b"
    by (cases a; cases b) (simp_all add: less_eq_time_granularity)
qed (auto simp: less_time_granularity less_eq_time_granularity)

end

text \<open>Base asset, quote asset, granularity, timestamp: the order of the comparison in the source.\<close>

type_synonym market_history_key = "asset_id_type \<times> asset_id_type \<times> time_granularity \<times> time_point_sec"

record market_history_record =
  highest_bid :: price
  lowest_ask :: price
  opening_price :: price
  closing_price :: price
  volume :: share_type

section \<open>Feeds, burns, slates, slots\<close>

type_synonym feed_index = "feed_id_type \<times> account_id_type"

datatype feed_value = Null_feed_value | Price_feed_value price | Other_feed_value variant

record feed_record =
  feed :: feed_index
  feed_value_of :: feed_value
  feed_last_update :: time_point_sec

definition feed_is_null :: "feed_record \<Rightarrow> bool" where
  "feed_is_null r \<longleftrightarrow> feed_value_of r = Null_feed_value"

definition feed_record_of :: "feed_index \<Rightarrow> feed_record" where
  "feed_record_of i = \<lparr> feed = i, feed_value_of = Null_feed_value, feed_last_update = 0 \<rparr>"

type_synonym burn_record_key = "account_id_type \<times> transaction_id_type"

record burn_record_value =
  burn_amount :: asset
  burn_message :: string
  burn_signer :: "signature_type option"

definition new_burn_record_value :: burn_record_value where
  "new_burn_record_value = \<lparr> burn_amount = asset_of 0 0, burn_message = [], burn_signer = None \<rparr>"

definition burn_is_null :: "burn_record_value \<Rightarrow> bool" where
  "burn_is_null v \<longleftrightarrow> amount (burn_amount v) = 0"

type_synonym delegate_slate = "account_id_type list"

record slot_record =
  slot_start_time :: time_point_sec
  block_producer_id :: account_id_type
  slot_block_id :: "block_id_type option"

definition new_slot_record :: slot_record where
  "new_slot_record = \<lparr> slot_start_time = 0, block_producer_id = 0, slot_block_id = None \<rparr>"

definition slot_is_null :: "slot_record \<Rightarrow> bool" where
  "slot_is_null r \<longleftrightarrow> slot_start_time r = 0"

section \<open>Operations and transactions\<close>

datatype balance_operation =
    Withdraw_operation balance_id_type share_type string
  | Withdraw_all_operation balance_id_type string
  | Deposit_operation share_type withdraw_condition
  | Define_delegate_slate_operation delegate_slate
  | Burn_operation asset account_id_type string "signature_type option"
  | Release_escrow_operation balance_id_type address share_type share_type
  | Claim_operation balance_id_type share_type nat key signature_type

datatype account_operation =
    Register_account_operation string variant key key "8 word" "account_meta_info option"
  | Update_account_operation account_id_type "variant option" "key option" "8 word"
  | Withdraw_pay_operation share_type account_id_type
  | Link_account_operation account_id_type account_id_type variant

datatype market_operation =
    Bid_operation share_type market_index_key
  | Ask_operation share_type market_index_key
  | Short_operation share_type market_index_key "price option"
  | Cover_operation share_type market_index_key "price option"
  | Add_collateral_operation share_type market_index_key
  | Remove_collateral_operation share_type address

datatype operation =
    Balance_op balance_operation
  | Account_op account_operation
  | Market_op market_operation
  | Update_feed_operation feed_index feed_value
  | Unreadable_operation "8 word" string
  | Unregistered_operation "8 word" string

fun operation_type :: "operation \<Rightarrow> nat" where
  "operation_type (Balance_op (Withdraw_operation _ _ _)) = 1"
| "operation_type (Balance_op (Deposit_operation _ _)) = 2"
| "operation_type (Account_op (Register_account_operation _ _ _ _ _ _)) = 3"
| "operation_type (Account_op (Update_account_operation _ _ _ _)) = 4"
| "operation_type (Account_op (Withdraw_pay_operation _ _)) = 5"
| "operation_type (Market_op (Bid_operation _ _)) = 12"
| "operation_type (Market_op (Ask_operation _ _)) = 13"
| "operation_type (Market_op (Cover_operation _ _ _)) = 15"
| "operation_type (Market_op (Add_collateral_operation _ _)) = 16"
| "operation_type (Market_op (Remove_collateral_operation _ _)) = 17"
| "operation_type (Balance_op (Define_delegate_slate_operation _)) = 18"
| "operation_type (Update_feed_operation _ _) = 19"
| "operation_type (Balance_op (Burn_operation _ _ _ _)) = 20"
| "operation_type (Account_op (Link_account_operation _ _ _)) = 21"
| "operation_type (Balance_op (Withdraw_all_operation _ _)) = 22"
| "operation_type (Balance_op (Release_escrow_operation _ _ _ _)) = 23"
| "operation_type (Balance_op (Claim_operation _ _ _ _ _)) = 24"
| "operation_type (Market_op (Short_operation _ _ _)) = 34"
| "operation_type (Unreadable_operation t _) = unat t"
| "operation_type (Unregistered_operation t _) = unat t"

record signed_transaction =
  trx_expiration :: time_point_sec
  trx_delegate_slate_id :: "slate_id_type option"
  trx_operations :: "operation list"
  signatures :: "signature_type list"

definition new_transaction :: signed_transaction where
  "new_transaction = \<lparr> trx_expiration = 0, trx_delegate_slate_id = None, trx_operations = [],
     signatures = [] \<rparr>"

text \<open>The serialised part of \<^verbatim>\<open>transaction_evaluation_state\<close>.\<close>

record evaluation =
  trx :: signed_transaction
  signed_keys :: "address list"
  validation_error :: "exn option"
  required_deposits :: "(balance_id_type, asset) table"
  provided_deposits :: "(balance_id_type, asset) table"
  deposits :: "(asset_id_type, asset) table"
  withdraws :: "(asset_id_type, asset) table"
  yield :: "(asset_id_type, share_type) table"
  deltas :: "(nat, asset) table"
  required_fees :: asset
  alt_fees_paid :: asset
  trx_balance :: "(asset_id_type, share_type) table"
  net_delegate_votes :: "(account_id_type, share_type) table"

definition new_evaluation :: evaluation where
  "new_evaluation = \<lparr> trx = new_transaction, signed_keys = [], validation_error = None,
     required_deposits = [], provided_deposits = [], deposits = [], withdraws = [], yield = [],
     deltas = [], required_fees = asset_of 0 0, alt_fees_paid = asset_of 0 0, trx_balance = [],
     net_delegate_votes = [] \<rparr>"

record transaction_record =
  trx_state :: evaluation
  chain_location :: "nat \<times> nat"

section \<open>Blocks\<close>

record block_header =
  previous :: block_id_type
  block_num :: "32 word"
  block_timestamp :: time_point_sec
  transaction_digest :: digest_type
  header_next_secret_hash :: hash_type
  previous_secret :: hash_type

record full_block =
  block_header :: block_header
  delegate_signature :: signature_type
  user_transactions :: "signed_transaction list"

end
