(* ===== verification/External.thy ===== *)
theory External
  imports Records
begin

text \<open>
  The cryptographic and serialisation functions of \<^verbatim>\<open>fc\<close> that the chain code calls, as further
  fields of the record of library parameters: hashes of packed data, recovery of a public key
  from a compact signature, conversions between key and address formats. Nothing is assumed
  about them; theorems that need a property of one of them state it as a hypothesis.
  \<open>ext_std\<close> is a concrete instance for evaluating the model.
\<close>

type_synonym pts_address = nat

record ext = fc_lib +
  address_of_key :: "key \<Rightarrow> address"
  pts_address_of_key :: "key \<Rightarrow> bool \<Rightarrow> nat \<Rightarrow> pts_address"
  address_of_pts :: "pts_address \<Rightarrow> address"
  address_of_condition :: "withdraw_condition \<Rightarrow> address"
  slate_hash :: "delegate_slate \<Rightarrow> slate_id_type"
  recover_key :: "signature_type \<Rightarrow> digest_type \<Rightarrow> bool \<Rightarrow> exn + key"
  transaction_hash :: "signed_transaction \<Rightarrow> digest_type \<Rightarrow> digest_type"
  transaction_id_hash :: "signed_transaction \<Rightarrow> transaction_id_type"
  packed_size :: "signed_transaction \<Rightarrow> nat"
  packed_block_size :: "full_block \<Rightarrow> nat"
  unpack_withdraw_with_pts :: "string \<Rightarrow> exn + (key \<times> signature_type)"
  pts_claim_hash :: "hash_type \<Rightarrow> key \<Rightarrow> digest_type"
  claim_message_hash :: "pts_address \<Rightarrow> key \<Rightarrow> exn + digest_type"
  pts_version :: "pts_address \<Rightarrow> nat"
  is_pts_address_string :: "string \<Rightarrow> bool"
  is_address_string :: "string \<Rightarrow> bool"
  is_public_key_string :: "string \<Rightarrow> bool"
  header_hash :: "block_header \<Rightarrow> digest_type"
  block_id_hash :: "block_header \<Rightarrow> signature_type \<Rightarrow> block_id_type"
  transaction_ids_hash :: "transaction_id_type list \<Rightarrow> digest_type"
  secret_hash :: "hash_type \<Rightarrow> hash_type"
  random_seed_hash :: "hash_type \<Rightarrow> hash_type \<Rightarrow> hash_type"
  sha256_words :: "hash_type \<Rightarrow> 64 word list"
  sha256_next :: "hash_type \<Rightarrow> hash_type"

definition ext_std :: ext where
  "ext_std = fc_lib.extend fc_std \<lparr>
     address_of_key = (\<lambda>k. k),
     pts_address_of_key = (\<lambda>k c v. 1000 * k + 2 * v + (if c then 1 else 0)),
     address_of_pts = (\<lambda>p. 1000000 + p),
     address_of_condition = (\<lambda>c.
       case condition_data c of
         Withdraw_with_signature o' _ \<Rightarrow> 10 + o' + 100 * nat (condition_asset_id c) + 10000 * unat (delegate_slate_id c)
       | _ \<Rightarrow> 1),
     slate_hash = (\<lambda>s. of_nat (length s)),
     recover_key = (\<lambda>sig d c. Inr sig),
     transaction_hash = (\<lambda>t c. trx_expiration t + c),
     transaction_id_hash = (\<lambda>t. trx_expiration t),
     packed_size = (\<lambda>t. length (trx_operations t)),
     packed_block_size = (\<lambda>b. length (user_transactions b)),
     unpack_withdraw_with_pts = (\<lambda>s. Inl unpack_failed),
     pts_claim_hash = (\<lambda>h k. h + k),
     claim_message_hash = (\<lambda>p k. Inr (p + k)),
     pts_version = (\<lambda>p. 0),
     is_pts_address_string = (\<lambda>s. False),
     is_address_string = (\<lambda>s. False),
     is_public_key_string = (\<lambda>s. False),
     header_hash = (\<lambda>h. block_timestamp h),
     block_id_hash = (\<lambda>h s. block_timestamp h + 1),
     transaction_ids_hash = (\<lambda>ids. sum_list ids),
     secret_hash = (\<lambda>h. h + 1),
     random_seed_hash = (\<lambda>a b. a + b),
     sha256_words = (\<lambda>h. [of_nat h, of_nat (h + 1), of_nat (h + 2), of_nat (h + 3)]),
     sha256_next = (\<lambda>h. h + 7)
   \<rparr>"

section \<open>Functions of the source that only combine library calls\<close>

definition slate_id :: "ext \<Rightarrow> delegate_slate \<Rightarrow> slate_id_type" where
  "slate_id X s = (if length s = 0 then 0 else slate_hash X s)"

definition balance_record_id :: "ext \<Rightarrow> balance_record \<Rightarrow> balance_id_type" where
  "balance_record_id X r = address_of_condition X (condition r)"

definition active_address :: "ext \<Rightarrow> account_record \<Rightarrow> address" where
  "active_address X r = address_of_key X (active_key r)"

definition signee :: "ext \<Rightarrow> bool \<Rightarrow> full_block \<Rightarrow> exn + key" where
  "signee X enforce_canonical b =
     recover_key X (delegate_signature b) (header_hash X (full_block.block_header b)) enforce_canonical"

definition block_id :: "ext \<Rightarrow> full_block \<Rightarrow> block_id_type" where
  "block_id X b = block_id_hash X (full_block.block_header b) (delegate_signature b)"

definition user_transaction_ids :: "ext \<Rightarrow> full_block \<Rightarrow> transaction_id_type list" where
  "user_transaction_ids X b = map (transaction_id_hash X) (user_transactions b)"

definition calculate_transaction_digest :: "ext \<Rightarrow> full_block \<Rightarrow> digest_type" where
  "calculate_transaction_digest X b = transaction_ids_hash X (user_transaction_ids X b)"

definition validate_digest :: "ext \<Rightarrow> full_block \<Rightarrow> bool" where
  "validate_digest X b \<longleftrightarrow>
     calculate_transaction_digest X b = transaction_digest (full_block.block_header b)"

definition validate_unique :: "ext \<Rightarrow> full_block \<Rightarrow> bool" where
  "validate_unique X b \<longleftrightarrow> distinct (user_transaction_ids X b)"

lemma bigint_ok_ext_std: "bigint_ok ext_std"
  using bigint_ok_std by (simp add: bigint_ok_def ext_std_def fc_std_def fc_lib.defs)

lemma uint128_ok_ext_std: "uint128_ok ext_std"
  using uint128_ok_std by (simp add: uint128_ok_def ext_std_def fc_std_def fc_lib.defs)

end
