(* ===== verification/Slots.thy ===== *)
theory Slots
  imports Config
begin

text \<open>
  Block production slots: \<^verbatim>\<open>get_slot_number\<close> and \<^verbatim>\<open>get_slot_start_time\<close> of \<^verbatim>\<open>time.cpp\<close>. Time is
  divided into slots of \<open>BTS_BLOCKCHAIN_BLOCK_INTERVAL_SEC\<close> seconds since the epoch. A
  \<^verbatim>\<open>time_point_sec\<close> holds 32 bits, so the start time wraps around; for times below \<open>2 ^ 32\<close> it
  does not, and the two functions form a Galois connection.
\<close>

definition get_slot_number :: "time_point_sec \<Rightarrow> nat" where
  "get_slot_number timestamp = timestamp div BTS_BLOCKCHAIN_BLOCK_INTERVAL_SEC"

definition get_slot_start_time :: "nat \<Rightarrow> time_point_sec" where
  "get_slot_start_time slot_number = slot_number * BTS_BLOCKCHAIN_BLOCK_INTERVAL_SEC mod 2 ^ 32"

definition get_slot_start_time_of :: "time_point_sec \<Rightarrow> time_point_sec" where
  "get_slot_start_time_of timestamp = get_slot_start_time (get_slot_number timestamp)"

lemmas slot_defs = get_slot_number_def get_slot_start_time_def BTS_BLOCKCHAIN_BLOCK_INTERVAL_SEC_def

lemma slot_number_start_time:
  assumes "t < 2 ^ 32"
  shows "get_slot_number (get_slot_start_time (get_slot_number t)) = get_slot_number t"
  using assms by (simp add: slot_defs)

lemma slot_start_time_interval:
  assumes "t < 2 ^ 32"
  shows "get_slot_start_time_of t \<le> t" "t < get_slot_start_time_of t + BTS_BLOCKCHAIN_BLOCK_INTERVAL_SEC"
proof -
  have "t div 10 * 10 < 2 ^ 32" using assms by simp
  then have "t div 10 * 10 mod 2 ^ 32 = t div 10 * 10" by (rule mod_less)
  then have eq: "get_slot_start_time_of t = t div 10 * 10"
    by (simp add: get_slot_start_time_of_def slot_defs)
  show "get_slot_start_time_of t \<le> t" unfolding eq by simp
  show "t < get_slot_start_time_of t + BTS_BLOCKCHAIN_BLOCK_INTERVAL_SEC"
    unfolding eq by (simp add: BTS_BLOCKCHAIN_BLOCK_INTERVAL_SEC_def)
qed

lemma slot_number_mono: "s \<le> t \<Longrightarrow> get_slot_number s \<le> get_slot_number t"
  by (simp add: get_slot_number_def div_le_mono)

text \<open>
  Every time lies in exactly one slot: the slot number of a time is the only number whose slot starts
  at or before the time and ends after it.
\<close>

theorem time_lies_in_one_slot:
  assumes "t < 2 ^ 32" and "n * BTS_BLOCKCHAIN_BLOCK_INTERVAL_SEC < 2 ^ 32"
  shows "get_slot_number t = n \<longleftrightarrow>
    get_slot_start_time n \<le> t \<and> t < get_slot_start_time n + BTS_BLOCKCHAIN_BLOCK_INTERVAL_SEC"
proof -
  have "get_slot_start_time n = n * 10" using assms(2) by (simp add: slot_defs)
  then show ?thesis by (auto simp: get_slot_number_def BTS_BLOCKCHAIN_BLOCK_INTERVAL_SEC_def)
qed

theorem time_lies_in_one_slot_witness:
  "get_slot_start_time 100 \<le> 1005 \<and> get_slot_number 1005 = 100"
proof -
  have "get_slot_number 1005 = 100" by (simp add: slot_defs)
  moreover have "(100 :: nat) * BTS_BLOCKCHAIN_BLOCK_INTERVAL_SEC < 2 ^ 32" by (simp add: slot_defs)
  ultimately show ?thesis using time_lies_in_one_slot [of 1005 100] by simp
qed

end
