(* ===== verification/Chain_State.thy ===== *)
theory Chain_State
  imports External Slots
begin

text \<open>
  The two implementations of \<^verbatim>\<open>chain_interface\<close>: the database (\<^verbatim>\<open>chain_database\<close>, the tables of
  \<^verbatim>\<open>chain_database_impl\<close> that hold the ledger) and a pending state
  (\<^verbatim>\<open>pending_chain_state\<close>) layered over a previous chain. The virtual calls of the source are
  the functions on the datatype \<open>chain\<close> that match on the two implementations.

  The database removes a record that is null; a pending state keeps it, so that the null
  record hides the one below. \<open>apply_changes\<close> writes a pending state into the chain below it,
  \<open>get_undo_state\<close> builds the pending state that reverts it.

  The lookup operations of \<^verbatim>\<open>level_map\<close> and \<^verbatim>\<open>cached_level_map\<close> are those of a finite map; the
  theory \<open>Cached_Map\<close> shows this for the cached ones.
\<close>

section \<open>State\<close>

datatype chain_property =
    last_asset_id | last_account_id | last_proposal_id | last_random_seed_id
  | active_delegate_list_id | chain_id | confirmation_requirement | database_version
  | dirty_markets | last_feed_id

datatype property_value =
    Null_property
  | Int_property int
  | Ids_property "account_id_type list"
  | Hash_property hash_type
  | Markets_property "(asset_id_type \<times> asset_id_type) list"

definition MAX_RECENT_OPERATIONS :: nat where "MAX_RECENT_OPERATIONS = 20"

text \<open>The index of delegates by votes: most votes first, the lowest id first among equals.\<close>

datatype vote_del = Vote_del (votes: share_type) (delegate_id: account_id_type)

instantiation vote_del :: linorder
begin

definition less_vote_del:
  "a < b \<longleftrightarrow> (if votes a \<noteq> votes b then sint (votes a) > sint (votes b)
              else delegate_id a < delegate_id b)"

definition less_eq_vote_del: "(a :: vote_del) \<le> b \<longleftrightarrow> a < b \<or> a = b"

instance
proof
  fix a b c :: vote_del
  show "a < b \<longleftrightarrow> a \<le> b \<and> \<not> b \<le> a"
    by (auto simp: less_vote_del less_eq_vote_del sint64_inject split: if_splits)
  show "a \<le> b \<Longrightarrow> b \<le> c \<Longrightarrow> a \<le> c"
    by (auto simp: less_vote_del less_eq_vote_del split: if_splits)
  show "a \<le> a" by (simp add: less_eq_vote_del)
  show "a \<le> b \<Longrightarrow> b \<le> a \<Longrightarrow> a = b"
    by (auto simp: less_vote_del less_eq_vote_del split: if_splits)
  have "votes a \<noteq> votes b \<Longrightarrow> sint (votes a) < sint (votes b) \<or> sint (votes b) < sint (votes a)"
    using sint64_inject [of "votes a" "votes b"] by linarith
  then show "a \<le> b \<or> b \<le> a"
    by (cases a; cases b) (auto simp: less_vote_del less_eq_vote_del)
qed

end

record pending_chain_state =
  p_market_transactions :: "market_transaction list"
  p_assets :: "(asset_id_type, asset_record) table"
  p_slates :: "(slate_id_type, delegate_slate) table"
  p_accounts :: "(account_id_type, account_record) table"
  p_balances :: "(balance_id_type, balance_record) table"
  p_account_id_index :: "(string, account_id_type) table"
  p_symbol_id_index :: "(string, asset_id_type) table"
  p_transactions :: "(transaction_id_type, transaction_record) table"
  p_unique_transactions :: "digest_type list"
  p_properties :: "(chain_property, property_value) table"
  p_key_to_account :: "(address, account_id_type) table"
  p_bids :: "(market_index_key, order_record) table"
  p_asks :: "(market_index_key, order_record) table"
  p_shorts :: "(market_index_key, order_record) table"
  p_collateral :: "(market_index_key, collateral_record) table"
  p_slots :: "(time_point_sec, slot_record) table"
  p_market_history :: "(market_history_key, market_history_record) table"
  p_market_statuses :: "(asset_id_type \<times> asset_id_type, market_status) table"
  p_recent_operations :: "(nat, operation list) table"
  p_feeds :: "(feed_index, feed_record) table"
  p_burns :: "(burn_record_key, burn_record_value) table"
  p_dirty_markets :: "(asset_id_type \<times> asset_id_type) list"

definition new_pending_state :: pending_chain_state where
  "new_pending_state = \<lparr> p_market_transactions = [], p_assets = [], p_slates = [], p_accounts = [],
     p_balances = [], p_account_id_index = [], p_symbol_id_index = [], p_transactions = [],
     p_unique_transactions = [], p_properties = [], p_key_to_account = [], p_bids = [], p_asks = [],
     p_shorts = [], p_collateral = [], p_slots = [], p_market_history = [], p_market_statuses = [],
     p_recent_operations = [], p_feeds = [], p_burns = [], p_dirty_markets = [] \<rparr>"

text \<open>
  The ledger tables of \<^verbatim>\<open>chain_database_impl\<close>. \<open>wall_clock\<close> is the time \<^verbatim>\<open>blockchain::now()\<close>
  returns, which the database reads while it has no block.
\<close>

record chain_database =
  db_chain_id :: digest_type
  skip_signature_verification :: bool
  relay_fee :: share_type
  wall_clock :: time_point_sec
  head_block_num :: "32 word"
  head_block_timestamp :: time_point_sec
  head_block_id :: block_id_type
  market_transactions_db :: "(32 word, market_transaction list) table"
  slate_db :: "(slate_id_type, delegate_slate) table"
  property_db :: "(chain_property, property_value) table"
  unique_transactions_db :: "(time_point_sec, digest_type list) table"
  id_to_transaction_record_db :: "(transaction_id_type, transaction_record) table"
  asset_db :: "(asset_id_type, asset_record) table"
  symbol_index_db :: "(string, asset_id_type) table"
  balance_db :: "(balance_id_type, balance_record) table"
  burn_db :: "(burn_record_key, burn_record_value) table"
  account_db :: "(account_id_type, account_record) table"
  address_to_account_db :: "(address, account_id_type) table"
  account_index_db :: "(string, account_id_type) table"
  delegate_vote_index_db :: "(vote_del, nat) table"
  slot_record_db :: "(time_point_sec, slot_record) table"
  ask_db :: "(market_index_key, order_record) table"
  bid_db :: "(market_index_key, order_record) table"
  short_db :: "(market_index_key, order_record) table"
  collateral_db :: "(market_index_key, collateral_record) table"
  feed_db :: "(feed_index, feed_record) table"
  market_status_db :: "(asset_id_type \<times> asset_id_type, market_status) table"
  market_history_db :: "(market_history_key, market_history_record) table"
  db_recent_operations :: "(nat, operation list) table"

datatype chain = Database chain_database | Pending pending_chain_state chain

section \<open>Head block, time and properties\<close>

primrec get_head_block_num :: "chain \<Rightarrow> 32 word" where
  "get_head_block_num (Database d) = head_block_num d"
| "get_head_block_num (Pending p c) = get_head_block_num c"

definition db_now :: "chain_database \<Rightarrow> time_point_sec" where
  "db_now d =
     (if uint (head_block_num d) \<le> 0
      then get_slot_start_time (get_slot_number (wall_clock d) - 1)
      else head_block_timestamp d)"

primrec now :: "chain \<Rightarrow> time_point_sec" where
  "now (Database d) = db_now d"
| "now (Pending p c) = now c"

definition db_get_property :: "chain_database \<Rightarrow> chain_property \<Rightarrow> exn + property_value" where
  "db_get_property d i = of_option key_not_found (map_of (property_db d) i)"

primrec get_property :: "chain \<Rightarrow> chain_property \<Rightarrow> exn + property_value" where
  "get_property (Database d) i = db_get_property d i"
| "get_property (Pending p c) i =
     (case map_of (p_properties p) i of Some v \<Rightarrow> Inr v | None \<Rightarrow> get_property c i)"

definition db_set_property :: "chain_property \<Rightarrow> property_value \<Rightarrow> chain_database \<Rightarrow> chain_database" where
  "db_set_property i v d =
     (if v = Null_property then d \<lparr> property_db := AList.delete i (property_db d) \<rparr>
      else d \<lparr> property_db := AList.update i v (property_db d) \<rparr>)"

definition pending_set_property ::
    "chain_property \<Rightarrow> property_value \<Rightarrow> pending_chain_state \<Rightarrow> pending_chain_state" where
  "pending_set_property i v p = p \<lparr> p_properties := AList.update i v (p_properties p) \<rparr>"

fun set_property :: "chain_property \<Rightarrow> property_value \<Rightarrow> chain \<Rightarrow> chain" where
  "set_property i v (Database d) = Database (db_set_property i v d)"
| "set_property i v (Pending p c) = Pending (pending_set_property i v p) c"

section \<open>Assets\<close>

primrec get_asset_record :: "chain \<Rightarrow> asset_id_type \<Rightarrow> asset_record option" where
  "get_asset_record (Database d) i = map_of (asset_db d) i"
| "get_asset_record (Pending p c) i =
     (case map_of (p_assets p) i of Some r \<Rightarrow> Some r | None \<Rightarrow> get_asset_record c i)"

text \<open>The lookup by symbol resolves the symbol to an id and then asks the same state for the record.\<close>

primrec get_asset_record_of_symbol :: "chain \<Rightarrow> string \<Rightarrow> asset_record option" where
  "get_asset_record_of_symbol (Database d) sy =
     (case map_of (symbol_index_db d) sy of Some i \<Rightarrow> map_of (asset_db d) i | None \<Rightarrow> None)"
| "get_asset_record_of_symbol (Pending p c) sy =
     (case map_of (p_symbol_id_index p) sy of
        Some i \<Rightarrow> get_asset_record (Pending p c) i
      | None \<Rightarrow> get_asset_record_of_symbol c sy)"

definition db_store_asset_record :: "asset_record \<Rightarrow> chain_database \<Rightarrow> chain_database" where
  "db_store_asset_record r d =
     (if asset_is_null r then
        d \<lparr> asset_db := AList.delete (asset_record_id r) (asset_db d),
            symbol_index_db := AList.delete (symbol r) (symbol_index_db d) \<rparr>
      else
        d \<lparr> asset_db := AList.update (asset_record_id r) r (asset_db d),
            symbol_index_db := AList.update (symbol r) (asset_record_id r) (symbol_index_db d) \<rparr>)"

definition pending_store_asset_record :: "asset_record \<Rightarrow> pending_chain_state \<Rightarrow> pending_chain_state" where
  "pending_store_asset_record r p = p \<lparr> p_assets := AList.update (asset_record_id r) r (p_assets p) \<rparr>"

fun store_asset_record :: "asset_record \<Rightarrow> chain \<Rightarrow> chain" where
  "store_asset_record r (Database d) = Database (db_store_asset_record r d)"
| "store_asset_record r (Pending p c) = Pending (pending_store_asset_record r p) c"

section \<open>Balances\<close>

primrec get_balance_record :: "chain \<Rightarrow> balance_id_type \<Rightarrow> balance_record option" where
  "get_balance_record (Database d) i = map_of (balance_db d) i"
| "get_balance_record (Pending p c) i =
     (case map_of (p_balances p) i of Some r \<Rightarrow> Some r | None \<Rightarrow> get_balance_record c i)"

text \<open>Balance records are kept when they are null.\<close>

definition db_store_balance_record :: "ext \<Rightarrow> balance_record \<Rightarrow> chain_database \<Rightarrow> chain_database" where
  "db_store_balance_record X r d = d \<lparr> balance_db := AList.update (balance_record_id X r) r (balance_db d) \<rparr>"

definition pending_store_balance_record ::
    "ext \<Rightarrow> balance_record \<Rightarrow> pending_chain_state \<Rightarrow> pending_chain_state" where
  "pending_store_balance_record X r p =
     p \<lparr> p_balances := AList.update (balance_record_id X r) r (p_balances p) \<rparr>"

fun store_balance_record :: "ext \<Rightarrow> balance_record \<Rightarrow> chain \<Rightarrow> chain" where
  "store_balance_record X r (Database d) = Database (db_store_balance_record X r d)"
| "store_balance_record X r (Pending p c) = Pending (pending_store_balance_record X r p) c"

section \<open>Accounts\<close>

primrec get_account_record :: "chain \<Rightarrow> account_id_type \<Rightarrow> account_record option" where
  "get_account_record (Database d) i = map_of (account_db d) i"
| "get_account_record (Pending p c) i =
     (case map_of (p_accounts p) i of Some r \<Rightarrow> Some r | None \<Rightarrow> get_account_record c i)"

primrec get_account_record_of_address :: "chain \<Rightarrow> address \<Rightarrow> account_record option" where
  "get_account_record_of_address (Database d) a =
     (case map_of (address_to_account_db d) a of Some i \<Rightarrow> map_of (account_db d) i | None \<Rightarrow> None)"
| "get_account_record_of_address (Pending p c) a =
     (case map_of (p_key_to_account p) a of
        Some i \<Rightarrow> get_account_record (Pending p c) i
      | None \<Rightarrow> get_account_record_of_address c a)"

primrec get_account_record_of_name :: "chain \<Rightarrow> string \<Rightarrow> account_record option" where
  "get_account_record_of_name (Database d) n =
     (case map_of (account_index_db d) n of Some i \<Rightarrow> map_of (account_db d) i | None \<Rightarrow> None)"
| "get_account_record_of_name (Pending p c) n =
     (case map_of (p_account_id_index p) n of
        Some i \<Rightarrow> get_account_record (Pending p c) i
      | None \<Rightarrow> get_account_record_of_name c n)"

definition remove_vote :: "account_record option \<Rightarrow> account_id_type \<Rightarrow> (vote_del, nat) table \<Rightarrow> (vote_del, nat) table" where
  "remove_vote old_rec i t =
     (case old_rec of
        None \<Rightarrow> t
      | Some r \<Rightarrow> (case delegate_info r of
                     None \<Rightarrow> t
                   | Some del \<Rightarrow> AList.delete (Vote_del (votes_for del) i) t))"

definition db_store_account_record :: "ext \<Rightarrow> account_record \<Rightarrow> chain_database \<Rightarrow> chain_database" where
  "db_store_account_record X r d =
     (let old_rec = map_of (account_db d) (account_id r)
      in if account_is_null r \<and> old_rec \<noteq> None then
           d \<lparr> account_db := AList.delete (account_id r) (account_db d),
               account_index_db := AList.delete (account_name r) (account_index_db d),
               address_to_account_db :=
                 fold (\<lambda>(t, k). AList.delete (address_of_key X k))
                   (in_order (active_key_history (the old_rec))) (address_to_account_db d),
               delegate_vote_index_db :=
                 remove_vote old_rec (account_id r) (delegate_vote_index_db d) \<rparr>
         else if \<not> account_is_null r then
           d \<lparr> account_db := AList.update (account_id r) r (account_db d),
               account_index_db := AList.update (account_name r) (account_id r) (account_index_db d),
               address_to_account_db :=
                 fold (\<lambda>(t, k). AList.update (address_of_key X k) (account_id r))
                   (in_order (active_key_history r)) (address_to_account_db d),
               delegate_vote_index_db :=
                 (let votes_left = remove_vote old_rec (account_id r) (delegate_vote_index_db d)
                  in case delegate_info r of
                       None \<Rightarrow> votes_left
                     | Some del \<Rightarrow> AList.update (Vote_del (votes_for del) (account_id r)) 0 votes_left) \<rparr>
         else d)"

definition pending_store_account_record ::
    "ext \<Rightarrow> account_record \<Rightarrow> pending_chain_state \<Rightarrow> pending_chain_state" where
  "pending_store_account_record X r p =
     p \<lparr> p_accounts := AList.update (account_id r) r (p_accounts p),
         p_account_id_index := AList.update (account_name r) (account_id r) (p_account_id_index p),
         p_key_to_account :=
           AList.update (address_of_key X (owner_key r)) (account_id r)
             (fold (\<lambda>(t, k). AList.update (address_of_key X k) (account_id r))
                (in_order (active_key_history r)) (p_key_to_account p)) \<rparr>"

fun store_account_record :: "ext \<Rightarrow> account_record \<Rightarrow> chain \<Rightarrow> chain" where
  "store_account_record X r (Database d) = Database (db_store_account_record X r d)"
| "store_account_record X r (Pending p c) = Pending (pending_store_account_record X r p) c"

section \<open>Slates\<close>

primrec get_delegate_slate :: "chain \<Rightarrow> slate_id_type \<Rightarrow> delegate_slate option" where
  "get_delegate_slate (Database d) i = map_of (slate_db d) i"
| "get_delegate_slate (Pending p c) i =
     (case map_of (p_slates p) i of Some r \<Rightarrow> Some r | None \<Rightarrow> get_delegate_slate c i)"

definition db_store_delegate_slate :: "slate_id_type \<Rightarrow> delegate_slate \<Rightarrow> chain_database \<Rightarrow> chain_database" where
  "db_store_delegate_slate i s d =
     (if length s = 0 then d \<lparr> slate_db := AList.delete i (slate_db d) \<rparr>
      else d \<lparr> slate_db := AList.update i s (slate_db d) \<rparr>)"

definition pending_store_delegate_slate ::
    "slate_id_type \<Rightarrow> delegate_slate \<Rightarrow> pending_chain_state \<Rightarrow> pending_chain_state" where
  "pending_store_delegate_slate i s p = p \<lparr> p_slates := AList.update i s (p_slates p) \<rparr>"

fun store_delegate_slate :: "slate_id_type \<Rightarrow> delegate_slate \<Rightarrow> chain \<Rightarrow> chain" where
  "store_delegate_slate i s (Database d) = Database (db_store_delegate_slate i s d)"
| "store_delegate_slate i s (Pending p c) = Pending (pending_store_delegate_slate i s p) c"

section \<open>Market orders\<close>

primrec get_bid_record :: "chain \<Rightarrow> market_index_key \<Rightarrow> order_record option" where
  "get_bid_record (Database d) i = map_of (bid_db d) i"
| "get_bid_record (Pending p c) i =
     (case map_of (p_bids p) i of Some r \<Rightarrow> Some r | None \<Rightarrow> get_bid_record c i)"

definition db_store_bid_record :: "market_index_key \<Rightarrow> order_record \<Rightarrow> chain_database \<Rightarrow> chain_database" where
  "db_store_bid_record k r d =
     (if order_is_null r then d \<lparr> bid_db := AList.delete k (bid_db d) \<rparr>
      else d \<lparr> bid_db := AList.update k r (bid_db d) \<rparr>)"

definition pending_store_bid_record ::
    "market_index_key \<Rightarrow> order_record \<Rightarrow> pending_chain_state \<Rightarrow> pending_chain_state" where
  "pending_store_bid_record k r p =
     p \<lparr> p_bids := AList.update k r (p_bids p),
         p_dirty_markets := List.insert (asset_pair (order_price k)) (p_dirty_markets p) \<rparr>"

fun store_bid_record :: "market_index_key \<Rightarrow> order_record \<Rightarrow> chain \<Rightarrow> chain" where
  "store_bid_record k r (Database d) = Database (db_store_bid_record k r d)"
| "store_bid_record k r (Pending p c) = Pending (pending_store_bid_record k r p) c"

primrec get_ask_record :: "chain \<Rightarrow> market_index_key \<Rightarrow> order_record option" where
  "get_ask_record (Database d) i = map_of (ask_db d) i"
| "get_ask_record (Pending p c) i =
     (case map_of (p_asks p) i of Some r \<Rightarrow> Some r | None \<Rightarrow> get_ask_record c i)"

definition db_store_ask_record :: "market_index_key \<Rightarrow> order_record \<Rightarrow> chain_database \<Rightarrow> chain_database" where
  "db_store_ask_record k r d =
     (if order_is_null r then d \<lparr> ask_db := AList.delete k (ask_db d) \<rparr>
      else d \<lparr> ask_db := AList.update k r (ask_db d) \<rparr>)"

definition pending_store_ask_record ::
    "market_index_key \<Rightarrow> order_record \<Rightarrow> pending_chain_state \<Rightarrow> pending_chain_state" where
  "pending_store_ask_record k r p =
     p \<lparr> p_asks := AList.update k r (p_asks p),
         p_dirty_markets := List.insert (asset_pair (order_price k)) (p_dirty_markets p) \<rparr>"

fun store_ask_record :: "market_index_key \<Rightarrow> order_record \<Rightarrow> chain \<Rightarrow> chain" where
  "store_ask_record k r (Database d) = Database (db_store_ask_record k r d)"
| "store_ask_record k r (Pending p c) = Pending (pending_store_ask_record k r p) c"

primrec get_short_record :: "chain \<Rightarrow> market_index_key \<Rightarrow> order_record option" where
  "get_short_record (Database d) i = map_of (short_db d) i"
| "get_short_record (Pending p c) i =
     (case map_of (p_shorts p) i of Some r \<Rightarrow> Some r | None \<Rightarrow> get_short_record c i)"

definition db_store_short_record :: "market_index_key \<Rightarrow> order_record \<Rightarrow> chain_database \<Rightarrow> chain_database" where
  "db_store_short_record k r d =
     (if order_is_null r then d \<lparr> short_db := AList.delete k (short_db d) \<rparr>
      else d \<lparr> short_db := AList.update k r (short_db d) \<rparr>)"

definition pending_store_short_record ::
    "market_index_key \<Rightarrow> order_record \<Rightarrow> pending_chain_state \<Rightarrow> pending_chain_state" where
  "pending_store_short_record k r p =
     p \<lparr> p_shorts := AList.update k r (p_shorts p),
         p_dirty_markets := List.insert (asset_pair (order_price k)) (p_dirty_markets p) \<rparr>"

fun store_short_record :: "market_index_key \<Rightarrow> order_record \<Rightarrow> chain \<Rightarrow> chain" where
  "store_short_record k r (Database d) = Database (db_store_short_record k r d)"
| "store_short_record k r (Pending p c) = Pending (pending_store_short_record k r p) c"

primrec get_collateral_record :: "chain \<Rightarrow> market_index_key \<Rightarrow> collateral_record option" where
  "get_collateral_record (Database d) i = map_of (collateral_db d) i"
| "get_collateral_record (Pending p c) i =
     (case map_of (p_collateral p) i of Some r \<Rightarrow> Some r | None \<Rightarrow> get_collateral_record c i)"

definition db_store_collateral_record :: "market_index_key \<Rightarrow> collateral_record \<Rightarrow> chain_database \<Rightarrow> chain_database" where
  "db_store_collateral_record k r d =
     (if collateral_is_null r then d \<lparr> collateral_db := AList.delete k (collateral_db d) \<rparr>
      else d \<lparr> collateral_db := AList.update k r (collateral_db d) \<rparr>)"

definition pending_store_collateral_record ::
    "market_index_key \<Rightarrow> collateral_record \<Rightarrow> pending_chain_state \<Rightarrow> pending_chain_state" where
  "pending_store_collateral_record k r p =
     p \<lparr> p_collateral := AList.update k r (p_collateral p),
         p_dirty_markets := List.insert (asset_pair (order_price k)) (p_dirty_markets p) \<rparr>"

fun store_collateral_record :: "market_index_key \<Rightarrow> collateral_record \<Rightarrow> chain \<Rightarrow> chain" where
  "store_collateral_record k r (Database d) = Database (db_store_collateral_record k r d)"
| "store_collateral_record k r (Pending p c) = Pending (pending_store_collateral_record k r p) c"

text \<open>The lowest ask is looked up in the database; a pending state replaces its state by its own view.\<close>

primrec get_lowest_ask_record :: "chain \<Rightarrow> asset_id_type \<Rightarrow> asset_id_type \<Rightarrow> exn + market_order option" where
  "get_lowest_ask_record (Database d) q b =
     bindE (zero_price_of q b) (\<lambda>p.
     Inr (case dropWhile (\<lambda>(k, r). k < Market_index_key p null_address) (in_order (ask_db d)) of
            (k, r) # _ \<Rightarrow>
              if quote_asset_id (order_price k) = q \<and> base_asset_id (order_price k) = b
              then Some \<lparr> order_type_of = ask_order, market_index = k, order_state = r,
                          order_collateral = None, order_interest_rate = None, order_expiration = None \<rparr>
              else None
          | [] \<Rightarrow> None))"
| "get_lowest_ask_record (Pending p c) q b =
     bindE (get_lowest_ask_record c q b) (\<lambda>pending.
     Inr (case pending of
            None \<Rightarrow> None
          | Some m \<Rightarrow> Some (m \<lparr> order_state := the (get_ask_record (Pending p c) (market_index m)) \<rparr>)))"

fun set_market_dirty :: "asset_id_type \<Rightarrow> asset_id_type \<Rightarrow> chain \<Rightarrow> exn + chain" where
  "set_market_dirty q b (Database d) = Inl assert_failed"
| "set_market_dirty q b (Pending p c) =
     Inr (Pending (p \<lparr> p_dirty_markets := List.insert (q, b) (p_dirty_markets p) \<rparr>) c)"

section \<open>Transactions and recent operations\<close>

definition push_recent :: "operation \<Rightarrow> (nat, operation list) table \<Rightarrow> (nat, operation list) table" where
  "push_recent op t =
     (let q = (case map_of t (operation_type op) of Some q \<Rightarrow> q | None \<Rightarrow> []) @ [op]
      in AList.update (operation_type op) (if length q > MAX_RECENT_OPERATIONS then tl q else q) t)"

fun store_recent_operation :: "operation \<Rightarrow> chain \<Rightarrow> chain" where
  "store_recent_operation op (Database d) =
     Database (d \<lparr> db_recent_operations := push_recent op (db_recent_operations d) \<rparr>)"
| "store_recent_operation op (Pending p c) =
     Pending (p \<lparr> p_recent_operations := push_recent op (p_recent_operations p) \<rparr>) c"

fun get_recent_operations :: "nat \<Rightarrow> chain \<Rightarrow> operation list" where
  "get_recent_operations t (Database d) =
     (case map_of (db_recent_operations d) t of Some q \<Rightarrow> q | None \<Rightarrow> [])"
| "get_recent_operations t (Pending p c) =
     (case map_of (p_recent_operations p) t of Some q \<Rightarrow> q | None \<Rightarrow> [])"

text \<open>The lookup of a transaction by its exact id.\<close>

primrec get_transaction :: "ext \<Rightarrow> chain \<Rightarrow> transaction_id_type \<Rightarrow> exn + transaction_record option" where
  "get_transaction X (Database d) i =
     (case map_of (id_to_transaction_record_db d) i of
        Some r \<Rightarrow> if transaction_id_hash X (trx (trx_state r)) \<noteq> i then Inl assert_failed else Inr (Some r)
      | None \<Rightarrow> Inr None)"
| "get_transaction X (Pending p c) i =
     (case map_of (p_transactions p) i of Some r \<Rightarrow> Inr (Some r) | None \<Rightarrow> get_transaction X c i)"

primrec is_known_transaction :: "chain \<Rightarrow> time_point_sec \<Rightarrow> digest_type \<Rightarrow> bool" where
  "is_known_transaction (Database d) ex i =
     (case map_of (unique_transactions_db d) ex of Some s \<Rightarrow> i \<in> set s | None \<Rightarrow> False)"
| "is_known_transaction (Pending p c) ex i \<longleftrightarrow>
     i \<in> set (p_unique_transactions p) \<or> is_known_transaction c ex i"

definition as_digest :: "property_value \<Rightarrow> exn + digest_type" where
  "as_digest v = (case v of Hash_property h \<Rightarrow> Inr h | _ \<Rightarrow> Inl bad_cast)"

definition db_store_transaction ::
    "ext \<Rightarrow> transaction_id_type \<Rightarrow> transaction_record \<Rightarrow> chain_database \<Rightarrow> exn + chain_database" where
  "db_store_transaction X i r d =
     (let t = trx (trx_state r);
          ex = trx_expiration t;
          digest = transaction_hash X t (db_chain_id d);
          known = (case map_of (unique_transactions_db d) ex of Some s \<Rightarrow> s | None \<Rightarrow> [])
      in if length (trx_operations t) = 0 then
           Inr (d \<lparr> id_to_transaction_record_db := AList.delete i (id_to_transaction_record_db d),
                    unique_transactions_db :=
                      AList.update ex (removeAll digest known) (unique_transactions_db d) \<rparr>)
         else if i \<noteq> transaction_id_hash X t then Inl assert_failed
         else
           let d' = d \<lparr> id_to_transaction_record_db := AList.update i r (id_to_transaction_record_db d) \<rparr>
           in if ex > db_now d then
                if head_block_num d \<ge> FORK_25 \<and> digest \<in> set known then Inl assert_failed
                else Inr (d' \<lparr> unique_transactions_db :=
                                  AList.update ex (List.insert digest known) (unique_transactions_db d) \<rparr>)
              else Inr d')"

text \<open>
  On a pending state the digest is only recorded when there is a chain below; the undo state
  built by \<^verbatim>\<open>get_undo_state\<close> has none.
\<close>

definition pending_store_transaction ::
    "ext \<Rightarrow> chain option \<Rightarrow> transaction_id_type \<Rightarrow> transaction_record \<Rightarrow> pending_chain_state \<Rightarrow>
     exn + pending_chain_state" where
  "pending_store_transaction X prev i r p =
     (let t = trx (trx_state r);
          p1 = p \<lparr> p_transactions := AList.update i r (p_transactions p) \<rparr>
      in bindE
           (case prev of
              None \<Rightarrow> Inr p1
            | Some c \<Rightarrow>
                bindE (get_property c chain_id) (\<lambda>prop.
                bindE (as_digest prop) (\<lambda>cid.
                let digest = transaction_hash X t cid
                in if get_head_block_num c \<ge> FORK_25 \<and> digest \<in> set (p_unique_transactions p)
                   then Inl assert_failed
                   else Inr (p1 \<lparr> p_unique_transactions := List.insert digest (p_unique_transactions p) \<rparr>))))
           (\<lambda>p2. Inr (p2 \<lparr> p_recent_operations :=
                           fold push_recent (trx_operations t) (p_recent_operations p2) \<rparr>)))"

fun store_transaction ::
    "ext \<Rightarrow> transaction_id_type \<Rightarrow> transaction_record \<Rightarrow> chain \<Rightarrow> exn + chain" where
  "store_transaction X i r (Database d) = bindE (db_store_transaction X i r d) (\<lambda>d'. Inr (Database d'))"
| "store_transaction X i r (Pending p c) =
     bindE (pending_store_transaction X (Some c) i r p) (\<lambda>p'. Inr (Pending p' c))"

section \<open>Slots, market data, feeds, burns\<close>

primrec get_slot_record :: "chain \<Rightarrow> time_point_sec \<Rightarrow> slot_record option" where
  "get_slot_record (Database d) i = map_of (slot_record_db d) i"
| "get_slot_record (Pending p c) i =
     (case map_of (p_slots p) i of Some r \<Rightarrow> Some r | None \<Rightarrow> get_slot_record c i)"

definition db_store_slot_record :: "slot_record \<Rightarrow> chain_database \<Rightarrow> chain_database" where
  "db_store_slot_record r d =
     (if slot_is_null r then d \<lparr> slot_record_db := AList.delete (slot_start_time r) (slot_record_db d) \<rparr>
      else d \<lparr> slot_record_db := AList.update (slot_start_time r) r (slot_record_db d) \<rparr>)"

definition pending_store_slot_record :: "slot_record \<Rightarrow> pending_chain_state \<Rightarrow> pending_chain_state" where
  "pending_store_slot_record r p = p \<lparr> p_slots := AList.update (slot_start_time r) r (p_slots p) \<rparr>"

fun store_slot_record :: "slot_record \<Rightarrow> chain \<Rightarrow> chain" where
  "store_slot_record r (Database d) = Database (db_store_slot_record r d)"
| "store_slot_record r (Pending p c) = Pending (pending_store_slot_record r p) c"

text \<open>The market history of a pending state does not look below.\<close>

fun get_market_history_record :: "chain \<Rightarrow> market_history_key \<Rightarrow> market_history_record option" where
  "get_market_history_record (Database d) k = map_of (market_history_db d) k"
| "get_market_history_record (Pending p c) k = map_of (p_market_history p) k"

fun store_market_history_record :: "market_history_key \<Rightarrow> market_history_record \<Rightarrow> chain \<Rightarrow> chain" where
  "store_market_history_record k r (Database d) =
     (if volume r = 0 then Database (d \<lparr> market_history_db := AList.delete k (market_history_db d) \<rparr>)
      else Database (d \<lparr> market_history_db := AList.update k r (market_history_db d) \<rparr>))"
| "store_market_history_record k r (Pending p c) =
     Pending (p \<lparr> p_market_history := AList.update k r (p_market_history p) \<rparr>) c"

primrec get_market_status :: "chain \<Rightarrow> asset_id_type \<Rightarrow> asset_id_type \<Rightarrow> market_status option" where
  "get_market_status (Database d) q b = map_of (market_status_db d) (q, b)"
| "get_market_status (Pending p c) q b =
     (case map_of (p_market_statuses p) (q, b) of Some r \<Rightarrow> Some r | None \<Rightarrow> get_market_status c q b)"

definition db_store_market_status :: "market_status \<Rightarrow> chain_database \<Rightarrow> chain_database" where
  "db_store_market_status s d =
     (if market_status_is_null s
      then d \<lparr> market_status_db := AList.delete (quote_id s, base_id s) (market_status_db d) \<rparr>
      else d \<lparr> market_status_db := AList.update (quote_id s, base_id s) s (market_status_db d) \<rparr>)"

definition pending_store_market_status :: "market_status \<Rightarrow> pending_chain_state \<Rightarrow> pending_chain_state" where
  "pending_store_market_status s p =
     p \<lparr> p_market_statuses := AList.update (quote_id s, base_id s) s (p_market_statuses p) \<rparr>"

fun store_market_status :: "market_status \<Rightarrow> chain \<Rightarrow> chain" where
  "store_market_status s (Database d) = Database (db_store_market_status s d)"
| "store_market_status s (Pending p c) = Pending (pending_store_market_status s p) c"

primrec get_feed :: "chain \<Rightarrow> feed_index \<Rightarrow> feed_record option" where
  "get_feed (Database d) i = map_of (feed_db d) i"
| "get_feed (Pending p c) i =
     (case map_of (p_feeds p) i of Some r \<Rightarrow> Some r | None \<Rightarrow> get_feed c i)"

definition db_set_feed :: "feed_record \<Rightarrow> chain_database \<Rightarrow> chain_database" where
  "db_set_feed r d =
     (if feed_is_null r then d \<lparr> feed_db := AList.delete (feed r) (feed_db d) \<rparr>
      else d \<lparr> feed_db := AList.update (feed r) r (feed_db d) \<rparr>)"

definition pending_set_feed :: "feed_record \<Rightarrow> pending_chain_state \<Rightarrow> pending_chain_state" where
  "pending_set_feed r p = p \<lparr> p_feeds := AList.update (feed r) r (p_feeds p) \<rparr>"

fun set_feed :: "feed_record \<Rightarrow> chain \<Rightarrow> chain" where
  "set_feed r (Database d) = Database (db_set_feed r d)"
| "set_feed r (Pending p c) = Pending (pending_set_feed r p) c"

primrec fetch_burn_record :: "chain \<Rightarrow> burn_record_key \<Rightarrow> burn_record_value option" where
  "fetch_burn_record (Database d) i = map_of (burn_db d) i"
| "fetch_burn_record (Pending p c) i =
     (case map_of (p_burns p) i of Some r \<Rightarrow> Some r | None \<Rightarrow> fetch_burn_record c i)"

definition db_store_burn_record :: "burn_record_key \<Rightarrow> burn_record_value \<Rightarrow> chain_database \<Rightarrow> chain_database" where
  "db_store_burn_record k v d =
     (if burn_is_null v then d \<lparr> burn_db := AList.delete k (burn_db d) \<rparr>
      else d \<lparr> burn_db := AList.update k v (burn_db d) \<rparr>)"

definition pending_store_burn_record ::
    "burn_record_key \<Rightarrow> burn_record_value \<Rightarrow> pending_chain_state \<Rightarrow> pending_chain_state" where
  "pending_store_burn_record k v p = p \<lparr> p_burns := AList.update k v (p_burns p) \<rparr>"

fun store_burn_record :: "burn_record_key \<Rightarrow> burn_record_value \<Rightarrow> chain \<Rightarrow> chain" where
  "store_burn_record k v (Database d) = Database (db_store_burn_record k v d)"
| "store_burn_record k v (Pending p c) = Pending (pending_store_burn_record k v p) c"

fun set_market_transactions :: "market_transaction list \<Rightarrow> chain \<Rightarrow> chain" where
  "set_market_transactions ts (Database d) =
     (if length ts = 0
      then Database (d \<lparr> market_transactions_db :=
                           AList.delete (head_block_num d + 1) (market_transactions_db d) \<rparr>)
      else Database (d \<lparr> market_transactions_db :=
                           AList.update (head_block_num d + 1) ts (market_transactions_db d) \<rparr>))"
| "set_market_transactions ts (Pending p c) = Pending (p \<lparr> p_market_transactions := ts \<rparr>) c"

end
