(* ===== verification/Chain_Interface.thy ===== *)
theory Chain_Interface
  imports Chain_State
begin

text \<open>
  The operations of \<^verbatim>\<open>chain_interface\<close> that are built on the virtual ones
  (\<^verbatim>\<open>chain_interface.cpp\<close>), the median price feed of the database, and the two operations of
  \<^verbatim>\<open>pending_chain_state.cpp\<close> that move a whole state: \<open>apply_changes\<close> and \<open>get_undo_state\<close>.
\<close>

section \<open>Account names\<close>

text \<open>The character classes of the C locale.\<close>

definition isupper :: "char \<Rightarrow> bool" where
  "isupper c \<longleftrightarrow> 65 \<le> (of_char c :: nat) \<and> (of_char c :: nat) \<le> 90"

definition islower :: "char \<Rightarrow> bool" where
  "islower c \<longleftrightarrow> 97 \<le> (of_char c :: nat) \<and> (of_char c :: nat) \<le> 122"

definition isalpha :: "char \<Rightarrow> bool" where
  "isalpha c \<longleftrightarrow> isupper c \<or> islower c"

definition isalnum :: "char \<Rightarrow> bool" where
  "isalnum c \<longleftrightarrow> isalpha c \<or> (48 \<le> (of_char c :: nat) \<and> (of_char c :: nat) \<le> 57)"

definition get_parent_account_name :: "string \<Rightarrow> string option" where
  "get_parent_account_name n =
     (if CHR ''.'' \<in> set n then Some (tl (dropWhile (\<lambda>c. c \<noteq> CHR ''.'') n)) else None)"

lemma parent_shorter:
  assumes "get_parent_account_name n = Some m"
  shows "length m < length n"
proof (cases n)
  case Nil
  with assms show ?thesis by (simp add: get_parent_account_name_def)
next
  case (Cons a as)
  have "m = tl (dropWhile (\<lambda>c. c \<noteq> CHR ''.'') n)"
    using assms unfolding get_parent_account_name_def by (cases "CHR ''.'' \<in> set n") simp_all
  then have "length m \<le> length n - 1"
    using length_dropWhile_le [of "\<lambda>c. c \<noteq> CHR ''.''" n] by (simp add: diff_le_mono)
  then show ?thesis by (simp add: Cons)
qed

function is_valid_account_name :: "ext \<Rightarrow> string \<Rightarrow> bool" where
  "is_valid_account_name X str =
     (if length str < BTS_BLOCKCHAIN_MIN_NAME_SIZE then False
      else if length str > BTS_BLOCKCHAIN_MAX_NAME_SIZE then False
      else if \<not> isalpha (hd str) then False
      else if \<not> isalnum (last str) \<or> isupper (last str) then False
      else
        let subname = takeWhile (\<lambda>c. c \<noteq> CHR ''.'') str
        in if \<not> isalnum (last subname) \<or> isupper (last subname) then False
           else if \<not> list_all (\<lambda>c. (isalnum c \<and> \<not> isupper c) \<or> c = CHR ''-'') subname then False
           else if is_pts_address_string X str then False
           else if is_address_string X str then False
           else if is_public_key_string X str then False
           else (case get_parent_account_name str of
                   None \<Rightarrow> True
                 | Some supername \<Rightarrow>
                     if supername = [] then True else is_valid_account_name X supername))"
  by pat_completeness auto

termination
  by (relation "measure (\<lambda>(X, str). length str)") (auto dest: parent_shorter)

declare is_valid_account_name.simps [simp del]

section \<open>Fees and identifiers\<close>

definition PTS_INITIAL_MIN_LENGTH :: nat where "PTS_INITIAL_MIN_LENGTH = 5"
definition PTS_ACCOUNT_REG_FEE :: share_type where "PTS_ACCOUNT_REG_FEE = 1000000"

definition get_account_registration_fee :: share_type where
  "get_account_registration_fee = PTS_ACCOUNT_REG_FEE"

definition get_delegate_pay_rate :: "chain \<Rightarrow> exn + share_type" where
  "get_delegate_pay_rate c =
     (case get_asset_record c 0 of None \<Rightarrow> Inl assert_failed | Some _ \<Rightarrow> Inr BTS_MAX_DELEGATE_PAY_PER_BLOCK)"

definition get_delegate_registration_fee :: "chain \<Rightarrow> exn + share_type" where
  "get_delegate_registration_fee c =
     bindE (get_delegate_pay_rate c) (\<lambda>r.
     Inr (sdiv64 (r * of_nat BTS_BLOCKCHAIN_DELEGATE_REGISTRATION_FEE) (of_nat BTS_BLOCKCHAIN_NUM_DELEGATES)))"

definition get_asset_registration_fee :: "chain \<Rightarrow> exn + share_type" where
  "get_asset_registration_fee c =
     bindE (get_delegate_pay_rate c) (\<lambda>r. Inr (r * of_nat BTS_BLOCKCHAIN_ASSET_REGISTRATION_FEE))"

definition as_int :: "property_value \<Rightarrow> exn + int" where
  "as_int v = (case v of Int_property i \<Rightarrow> Inr i | _ \<Rightarrow> Inl bad_cast)"

definition get_last_asset_id :: "chain \<Rightarrow> exn + asset_id_type" where
  "get_last_asset_id c = bindE (get_property c last_asset_id) as_int"

definition new_asset_id :: "chain \<Rightarrow> exn + (asset_id_type \<times> chain)" where
  "new_asset_id c = bindE (get_last_asset_id c) (\<lambda>i.
     Inr (i + 1, set_property last_asset_id (Int_property (i + 1)) c))"

definition get_last_account_id :: "chain \<Rightarrow> exn + account_id_type" where
  "get_last_account_id c = bindE (get_property c last_account_id) as_int"

definition new_account_id :: "chain \<Rightarrow> exn + (account_id_type \<times> chain)" where
  "new_account_id c = bindE (get_last_account_id c) (\<lambda>i.
     Inr (i + 1, set_property last_account_id (Int_property (i + 1)) c))"

section \<open>Delegates and markets\<close>

definition get_active_delegates :: "chain \<Rightarrow> exn + account_id_type list" where
  "get_active_delegates c =
     bindE (get_property c active_delegate_list_id) (\<lambda>v.
     case v of Ids_property ids \<Rightarrow> Inr ids | _ \<Rightarrow> Inl bad_cast)"

definition set_active_delegates :: "account_id_type list \<Rightarrow> chain \<Rightarrow> chain" where
  "set_active_delegates ids c = set_property active_delegate_list_id (Ids_property ids) c"

definition is_active_delegate :: "chain \<Rightarrow> account_id_type \<Rightarrow> exn + bool" where
  "is_active_delegate c i = bindE (get_active_delegates c) (\<lambda>active. Inr (i \<in> set active))"

definition get_required_confirmations :: "chain \<Rightarrow> exn + int" where
  "get_required_confirmations c = bindE (get_property c confirmation_requirement) as_int"

definition set_dirty_markets :: "(asset_id_type \<times> asset_id_type) list \<Rightarrow> chain \<Rightarrow> chain" where
  "set_dirty_markets ms c = set_property dirty_markets (Markets_property ms) c"

definition get_dirty_markets :: "chain \<Rightarrow> (asset_id_type \<times> asset_id_type) list" where
  "get_dirty_markets c =
     (case get_property c dirty_markets of Inr (Markets_property ms) \<Rightarrow> ms | _ \<Rightarrow> [])"

definition get_current_random_seed :: "chain \<Rightarrow> exn + hash_type" where
  "get_current_random_seed c = bindE (get_property c last_random_seed_id) as_digest"

text \<open>
  The median of the prices that the active delegates published for one asset during the last
  day. The source collects them from the feed table in key order, starting at the asset's first
  entry; \<open>std::nth_element\<close> puts the element of that rank in the middle.
\<close>

definition feed_prices ::
    "time_point_sec \<Rightarrow> account_id_type list \<Rightarrow> asset_id_type \<Rightarrow> asset_id_type \<Rightarrow>
     (feed_index \<times> feed_record) list \<Rightarrow> price list" where
  "feed_prices t active a b feeds =
     concat (map (\<lambda>(k, r).
       if snd k \<in> set active \<and> feed_last_update r + 24 * 60 * 60 > t then
         (case feed_value_of r of
            Price_feed_value pr \<Rightarrow>
              if quote_asset_id pr \<noteq> a \<or> base_asset_id pr \<noteq> b then [] else [pr]
          | _ \<Rightarrow> [])
       else []) feeds)"

primrec get_median_delegate_price ::
    "chain \<Rightarrow> asset_id_type \<Rightarrow> asset_id_type \<Rightarrow> exn + price option" where
  "get_median_delegate_price (Database d) a b =
     bindE (get_active_delegates (Database d)) (\<lambda>active.
       let feeds = takeWhile (\<lambda>(k, r). fst k = a)
                     (dropWhile (\<lambda>(k, r). k < (a, 0)) (in_order (feed_db d)));
           prices = feed_prices (db_now d) active a b feeds
       in if length prices < BTS_BLOCKCHAIN_MIN_FEEDS then Inr None
          else if prices \<noteq> [] then Inr (Some (sort prices ! (length prices div 2)))
          else Inr None)"
| "get_median_delegate_price (Pending p c) a b = get_median_delegate_price c a b"

section \<open>Applying and undoing a pending state\<close>

definition apply_changes :: "ext \<Rightarrow> pending_chain_state \<Rightarrow> chain \<Rightarrow> exn + chain" where
  "apply_changes X p c0 =
     (let c1 = fold (\<lambda>(i, v). set_property i v) (p_properties p) c0;
          c2 = fold (\<lambda>(i, r). store_asset_record r) (p_assets p) c1;
          c3 = fold (\<lambda>(i, r). store_account_record X r) (p_accounts p) c2;
          c4 = fold (\<lambda>(i, r). store_balance_record X r) (p_balances p) c3;
          c5 = fold (\<lambda>(k, r). store_bid_record k r) (in_order (p_bids p)) c4;
          c6 = fold (\<lambda>(k, r). store_ask_record k r) (in_order (p_asks p)) c5;
          c7 = fold (\<lambda>(k, r). store_short_record k r) (in_order (p_shorts p)) c6;
          c8 = fold (\<lambda>(k, r). store_collateral_record k r) (in_order (p_collateral p)) c7
      in bindE (foldE (\<lambda>(i, r). store_transaction X i r) (p_transactions p) c8) (\<lambda>c9.
         let c10 = fold (\<lambda>(i, s). store_delegate_slate i s) (p_slates p) c9;
             c11 = fold (\<lambda>(t, r). store_slot_record r) (in_order (p_slots p)) c10;
             c12 = fold (\<lambda>(k, r). store_market_history_record k r) (in_order (p_market_history p)) c11;
             c13 = fold (\<lambda>(k, r). store_market_status r) (in_order (p_market_statuses p)) c12;
             c14 = fold (\<lambda>(k, r). set_feed r) (in_order (p_feeds p)) c13;
             c15 = fold (\<lambda>(t, ops). fold store_recent_operation ops) (in_order (p_recent_operations p)) c14;
             c16 = fold (\<lambda>(k, v). store_burn_record k v) (in_order (p_burns p)) c15;
             c17 = set_market_transactions (p_market_transactions p) c16
         in Inr (set_dirty_markets (p_dirty_markets p) c17)))"

definition undo_properties :: "chain \<Rightarrow> pending_chain_state \<Rightarrow> pending_chain_state \<Rightarrow> exn + pending_chain_state" where
  "undo_properties c p u =
     foldE (\<lambda>(i, v) u. bindE (get_property c i) (\<lambda>prev. Inr (pending_set_property i prev u)))
       (p_properties p) u"

definition undo_records :: "ext \<Rightarrow> chain \<Rightarrow> pending_chain_state \<Rightarrow> pending_chain_state \<Rightarrow> pending_chain_state" where
  "undo_records X c p u =
     (let u1 = fold (\<lambda>(i, r). case get_asset_record c i of
                  Some prev \<Rightarrow> pending_store_asset_record prev
                | None \<Rightarrow> pending_store_asset_record (asset_make_null r)) (p_assets p) u;
          u2 = fold (\<lambda>(i, s). case get_delegate_slate c i of
                  Some prev \<Rightarrow> pending_store_delegate_slate i prev
                | None \<Rightarrow> pending_store_delegate_slate i []) (p_slates p) u1;
          u3 = fold (\<lambda>(i, r). case get_account_record c i of
                  Some prev \<Rightarrow> pending_store_account_record X prev
                | None \<Rightarrow> pending_store_account_record X (account_make_null r)) (p_accounts p) u2
      in fold (\<lambda>(i, r). case get_balance_record c i of
                  Some prev \<Rightarrow> pending_store_balance_record X prev
                | None \<Rightarrow> pending_store_balance_record X (balance_make_null r)) (p_balances p) u3)"

definition undo_transactions :: "ext \<Rightarrow> chain \<Rightarrow> pending_chain_state \<Rightarrow> pending_chain_state \<Rightarrow> exn + pending_chain_state" where
  "undo_transactions X c p u =
     foldE (\<lambda>(i, r) u. bindE (get_transaction X c i) (\<lambda>prev.
        case prev of
          Some r' \<Rightarrow> pending_store_transaction X None i r' u
        | None \<Rightarrow> pending_store_transaction X None i
                   \<lparr> trx_state = new_evaluation, chain_location = (0, 0) \<rparr> u)) (p_transactions p) u"

definition undo_orders :: "chain \<Rightarrow> pending_chain_state \<Rightarrow> pending_chain_state \<Rightarrow> pending_chain_state" where
  "undo_orders c p u =
     (let u1 = fold (\<lambda>(k, r). pending_store_bid_record k
                  (case get_bid_record c k of Some prev \<Rightarrow> prev | None \<Rightarrow> new_order_record))
                (in_order (p_bids p)) u;
          u2 = fold (\<lambda>(k, r). pending_store_ask_record k
                  (case get_ask_record c k of Some prev \<Rightarrow> prev | None \<Rightarrow> new_order_record))
                (in_order (p_asks p)) u1;
          u3 = fold (\<lambda>(k, r). pending_store_short_record k
                  (case get_short_record c k of Some prev \<Rightarrow> prev | None \<Rightarrow> new_order_record))
                (in_order (p_shorts p)) u2
      in fold (\<lambda>(k, r). pending_store_collateral_record k
                  (case get_collateral_record c k of Some prev \<Rightarrow> prev | None \<Rightarrow> new_collateral_record))
                (in_order (p_collateral p)) u3)"

definition undo_rest :: "chain \<Rightarrow> pending_chain_state \<Rightarrow> pending_chain_state \<Rightarrow> pending_chain_state" where
  "undo_rest c p u =
     (let u1 = fold (\<lambda>(t, r). case get_slot_record c t of
                  Some prev \<Rightarrow> pending_store_slot_record prev
                | None \<Rightarrow> pending_store_slot_record new_slot_record) (in_order (p_slots p)) u;
          u2 = fold (\<lambda>(k, r). case get_market_status c (fst k) (snd k) of
                  Some prev \<Rightarrow> pending_store_market_status prev
                | None \<Rightarrow> pending_store_market_status (new_market_status 0 0)) (in_order (p_market_statuses p)) u1;
          u3 = fold (\<lambda>(k, r). case get_feed c k of
                  Some prev \<Rightarrow> pending_set_feed prev
                | None \<Rightarrow> pending_set_feed (feed_record_of k)) (in_order (p_feeds p)) u2;
          u4 = fold (\<lambda>(k, v). pending_store_burn_record k new_burn_record_value) (in_order (p_burns p)) u3
      in pending_set_property dirty_markets (Markets_property (get_dirty_markets c)) u4)"

definition get_undo_state :: "ext \<Rightarrow> chain \<Rightarrow> pending_chain_state \<Rightarrow> pending_chain_state \<Rightarrow> exn + pending_chain_state" where
  "get_undo_state X c p undo_state =
     bindE (undo_properties c p undo_state) (\<lambda>u.
     bindE (undo_transactions X c p (undo_records X c p u)) (\<lambda>u'.
     Inr (undo_rest c p (undo_orders c p u'))))"

end
