(* ===== verification/Chain_Laws.thy ===== *)
theory Chain_Laws
  imports Chain_Interface
begin

text \<open>
  The laws of the chain interface: what a lookup returns after a store, for every kind of
  record and both implementations, and that a store of one kind leaves the other kinds alone
  (\<open>frame_simps\<close>). The stores of the model interpret the locales \<open>record_store\<close> (on pending
  states) and \<open>view_store\<close> (on every chain), and \<open>apply_changes\<close> inherits its meaning from them.
\<close>

section \<open>Frames\<close>

fun is_pending :: "chain \<Rightarrow> bool" where
  "is_pending (Database d) = False"
| "is_pending (Pending p c) = True"

text \<open>What is below the topmost pending state.\<close>

fun below :: "chain \<Rightarrow> chain option" where
  "below (Database d) = None"
| "below (Pending p c) = Some c"

lemma frame_set_property [simp, frame_simps]:
  "get_head_block_num (set_property i v c) = get_head_block_num c"
  "now (set_property i v c) = now c"
  "get_asset_record (set_property i v c) = get_asset_record c"
  "get_balance_record (set_property i v c) = get_balance_record c"
  "get_account_record (set_property i v c) = get_account_record c"
  "get_delegate_slate (set_property i v c) = get_delegate_slate c"
  "get_bid_record (set_property i v c) = get_bid_record c"
  "get_ask_record (set_property i v c) = get_ask_record c"
  "get_short_record (set_property i v c) = get_short_record c"
  "get_collateral_record (set_property i v c) = get_collateral_record c"
  "get_slot_record (set_property i v c) = get_slot_record c"
  "get_market_status (set_property i v c) = get_market_status c"
  "get_feed (set_property i v c) = get_feed c"
  "fetch_burn_record (set_property i v c) = fetch_burn_record c"
  "is_pending (set_property i v c) = is_pending c"
  "below (set_property i v c) = below c"
  by (cases c; simp add: fun_eq_iff db_now_def db_get_property_def db_set_property_def pending_set_property_def)+

lemma frame_store_asset_record [simp, frame_simps]:
  "get_head_block_num (store_asset_record r c) = get_head_block_num c"
  "now (store_asset_record r c) = now c"
  "get_property (store_asset_record r c) = get_property c"
  "get_balance_record (store_asset_record r c) = get_balance_record c"
  "get_account_record (store_asset_record r c) = get_account_record c"
  "get_delegate_slate (store_asset_record r c) = get_delegate_slate c"
  "get_bid_record (store_asset_record r c) = get_bid_record c"
  "get_ask_record (store_asset_record r c) = get_ask_record c"
  "get_short_record (store_asset_record r c) = get_short_record c"
  "get_collateral_record (store_asset_record r c) = get_collateral_record c"
  "get_slot_record (store_asset_record r c) = get_slot_record c"
  "get_market_status (store_asset_record r c) = get_market_status c"
  "get_feed (store_asset_record r c) = get_feed c"
  "fetch_burn_record (store_asset_record r c) = fetch_burn_record c"
  "is_pending (store_asset_record r c) = is_pending c"
  "below (store_asset_record r c) = below c"
  by (cases c; simp add: fun_eq_iff db_now_def db_get_property_def db_store_asset_record_def pending_store_asset_record_def)+

lemma frame_store_balance_record [simp, frame_simps]:
  "get_head_block_num (store_balance_record X r c) = get_head_block_num c"
  "now (store_balance_record X r c) = now c"
  "get_property (store_balance_record X r c) = get_property c"
  "get_asset_record (store_balance_record X r c) = get_asset_record c"
  "get_account_record (store_balance_record X r c) = get_account_record c"
  "get_delegate_slate (store_balance_record X r c) = get_delegate_slate c"
  "get_bid_record (store_balance_record X r c) = get_bid_record c"
  "get_ask_record (store_balance_record X r c) = get_ask_record c"
  "get_short_record (store_balance_record X r c) = get_short_record c"
  "get_collateral_record (store_balance_record X r c) = get_collateral_record c"
  "get_slot_record (store_balance_record X r c) = get_slot_record c"
  "get_market_status (store_balance_record X r c) = get_market_status c"
  "get_feed (store_balance_record X r c) = get_feed c"
  "fetch_burn_record (store_balance_record X r c) = fetch_burn_record c"
  "is_pending (store_balance_record X r c) = is_pending c"
  "below (store_balance_record X r c) = below c"
  by (cases c; simp add: fun_eq_iff db_now_def db_get_property_def db_store_balance_record_def pending_store_balance_record_def)+

lemma frame_store_account_record [simp, frame_simps]:
  "get_head_block_num (store_account_record X r c) = get_head_block_num c"
  "now (store_account_record X r c) = now c"
  "get_property (store_account_record X r c) = get_property c"
  "get_asset_record (store_account_record X r c) = get_asset_record c"
  "get_balance_record (store_account_record X r c) = get_balance_record c"
  "get_delegate_slate (store_account_record X r c) = get_delegate_slate c"
  "get_bid_record (store_account_record X r c) = get_bid_record c"
  "get_ask_record (store_account_record X r c) = get_ask_record c"
  "get_short_record (store_account_record X r c) = get_short_record c"
  "get_collateral_record (store_account_record X r c) = get_collateral_record c"
  "get_slot_record (store_account_record X r c) = get_slot_record c"
  "get_market_status (store_account_record X r c) = get_market_status c"
  "get_feed (store_account_record X r c) = get_feed c"
  "fetch_burn_record (store_account_record X r c) = fetch_burn_record c"
  "is_pending (store_account_record X r c) = is_pending c"
  "below (store_account_record X r c) = below c"
  by (cases c; simp add: fun_eq_iff db_now_def db_get_property_def db_store_account_record_def pending_store_account_record_def Let_def)+

lemma frame_store_delegate_slate [simp, frame_simps]:
  "get_head_block_num (store_delegate_slate i s c) = get_head_block_num c"
  "now (store_delegate_slate i s c) = now c"
  "get_property (store_delegate_slate i s c) = get_property c"
  "get_asset_record (store_delegate_slate i s c) = get_asset_record c"
  "get_balance_record (store_delegate_slate i s c) = get_balance_record c"
  "get_account_record (store_delegate_slate i s c) = get_account_record c"
  "get_bid_record (store_delegate_slate i s c) = get_bid_record c"
  "get_ask_record (store_delegate_slate i s c) = get_ask_record c"
  "get_short_record (store_delegate_slate i s c) = get_short_record c"
  "get_collateral_record (store_delegate_slate i s c) = get_collateral_record c"
  "get_slot_record (store_delegate_slate i s c) = get_slot_record c"
  "get_market_status (store_delegate_slate i s c) = get_market_status c"
  "get_feed (store_delegate_slate i s c) = get_feed c"
  "fetch_burn_record (store_delegate_slate i s c) = fetch_burn_record c"
  "is_pending (store_delegate_slate i s c) = is_pending c"
  "below (store_delegate_slate i s c) = below c"
  by (cases c; simp add: fun_eq_iff db_now_def db_get_property_def db_store_delegate_slate_def pending_store_delegate_slate_def)+

lemma frame_store_slot_record [simp, frame_simps]:
  "get_head_block_num (store_slot_record r c) = get_head_block_num c"
  "now (store_slot_record r c) = now c"
  "get_property (store_slot_record r c) = get_property c"
  "get_asset_record (store_slot_record r c) = get_asset_record c"
  "get_balance_record (store_slot_record r c) = get_balance_record c"
  "get_account_record (store_slot_record r c) = get_account_record c"
  "get_delegate_slate (store_slot_record r c) = get_delegate_slate c"
  "get_bid_record (store_slot_record r c) = get_bid_record c"
  "get_ask_record (store_slot_record r c) = get_ask_record c"
  "get_short_record (store_slot_record r c) = get_short_record c"
  "get_collateral_record (store_slot_record r c) = get_collateral_record c"
  "get_market_status (store_slot_record r c) = get_market_status c"
  "get_feed (store_slot_record r c) = get_feed c"
  "fetch_burn_record (store_slot_record r c) = fetch_burn_record c"
  "is_pending (store_slot_record r c) = is_pending c"
  "below (store_slot_record r c) = below c"
  by (cases c; simp add: fun_eq_iff db_now_def db_get_property_def db_store_slot_record_def pending_store_slot_record_def)+

lemma frame_store_market_status [simp, frame_simps]:
  "get_head_block_num (store_market_status s c) = get_head_block_num c"
  "now (store_market_status s c) = now c"
  "get_property (store_market_status s c) = get_property c"
  "get_asset_record (store_market_status s c) = get_asset_record c"
  "get_balance_record (store_market_status s c) = get_balance_record c"
  "get_account_record (store_market_status s c) = get_account_record c"
  "get_delegate_slate (store_market_status s c) = get_delegate_slate c"
  "get_bid_record (store_market_status s c) = get_bid_record c"
  "get_ask_record (store_market_status s c) = get_ask_record c"
  "get_short_record (store_market_status s c) = get_short_record c"
  "get_collateral_record (store_market_status s c) = get_collateral_record c"
  "get_slot_record (store_market_status s c) = get_slot_record c"
  "get_feed (store_market_status s c) = get_feed c"
  "fetch_burn_record (store_market_status s c) = fetch_burn_record c"
  "is_pending (store_market_status s c) = is_pending c"
  "below (store_market_status s c) = below c"
  by (cases c; simp add: fun_eq_iff db_now_def db_get_property_def db_store_market_status_def pending_store_market_status_def)+

lemma frame_set_feed [simp, frame_simps]:
  "get_head_block_num (set_feed r c) = get_head_block_num c"
  "now (set_feed r c) = now c"
  "get_property (set_feed r c) = get_property c"
  "get_asset_record (set_feed r c) = get_asset_record c"
  "get_balance_record (set_feed r c) = get_balance_record c"
  "get_account_record (set_feed r c) = get_account_record c"
  "get_delegate_slate (set_feed r c) = get_delegate_slate c"
  "get_bid_record (set_feed r c) = get_bid_record c"
  "get_ask_record (set_feed r c) = get_ask_record c"
  "get_short_record (set_feed r c) = get_short_record c"
  "get_collateral_record (set_feed r c) = get_collateral_record c"
  "get_slot_record (set_feed r c) = get_slot_record c"
  "get_market_status (set_feed r c) = get_market_status c"
  "fetch_burn_record (set_feed r c) = fetch_burn_record c"
  "is_pending (set_feed r c) = is_pending c"
  "below (set_feed r c) = below c"
  by (cases c; simp add: fun_eq_iff db_now_def db_get_property_def db_set_feed_def pending_set_feed_def)+

lemma frame_store_burn_record [simp, frame_simps]:
  "get_head_block_num (store_burn_record k v c) = get_head_block_num c"
  "now (store_burn_record k v c) = now c"
  "get_property (store_burn_record k v c) = get_property c"
  "get_asset_record (store_burn_record k v c) = get_asset_record c"
  "get_balance_record (store_burn_record k v c) = get_balance_record c"
  "get_account_record (store_burn_record k v c) = get_account_record c"
  "get_delegate_slate (store_burn_record k v c) = get_delegate_slate c"
  "get_bid_record (store_burn_record k v c) = get_bid_record c"
  "get_ask_record (store_burn_record k v c) = get_ask_record c"
  "get_short_record (store_burn_record k v c) = get_short_record c"
  "get_collateral_record (store_burn_record k v c) = get_collateral_record c"
  "get_slot_record (store_burn_record k v c) = get_slot_record c"
  "get_market_status (store_burn_record k v c) = get_market_status c"
  "get_feed (store_burn_record k v c) = get_feed c"
  "is_pending (store_burn_record k v c) = is_pending c"
  "below (store_burn_record k v c) = below c"
  by (cases c; simp add: fun_eq_iff db_now_def db_get_property_def db_store_burn_record_def pending_store_burn_record_def)+

lemma frame_store_recent_operation [simp, frame_simps]:
  "get_head_block_num (store_recent_operation op c) = get_head_block_num c"
  "now (store_recent_operation op c) = now c"
  "get_property (store_recent_operation op c) = get_property c"
  "get_asset_record (store_recent_operation op c) = get_asset_record c"
  "get_balance_record (store_recent_operation op c) = get_balance_record c"
  "get_account_record (store_recent_operation op c) = get_account_record c"
  "get_delegate_slate (store_recent_operation op c) = get_delegate_slate c"
  "get_bid_record (store_recent_operation op c) = get_bid_record c"
  "get_ask_record (store_recent_operation op c) = get_ask_record c"
  "get_short_record (store_recent_operation op c) = get_short_record c"
  "get_collateral_record (store_recent_operation op c) = get_collateral_record c"
  "get_slot_record (store_recent_operation op c) = get_slot_record c"
  "get_market_status (store_recent_operation op c) = get_market_status c"
  "get_feed (store_recent_operation op c) = get_feed c"
  "fetch_burn_record (store_recent_operation op c) = fetch_burn_record c"
  "is_pending (store_recent_operation op c) = is_pending c"
  "below (store_recent_operation op c) = below c"
  by (cases c; simp add: fun_eq_iff db_now_def db_get_property_def )+

lemma frame_set_market_transactions [simp, frame_simps]:
  "get_head_block_num (set_market_transactions ts c) = get_head_block_num c"
  "now (set_market_transactions ts c) = now c"
  "get_property (set_market_transactions ts c) = get_property c"
  "get_asset_record (set_market_transactions ts c) = get_asset_record c"
  "get_balance_record (set_market_transactions ts c) = get_balance_record c"
  "get_account_record (set_market_transactions ts c) = get_account_record c"
  "get_delegate_slate (set_market_transactions ts c) = get_delegate_slate c"
  "get_bid_record (set_market_transactions ts c) = get_bid_record c"
  "get_ask_record (set_market_transactions ts c) = get_ask_record c"
  "get_short_record (set_market_transactions ts c) = get_short_record c"
  "get_collateral_record (set_market_transactions ts c) = get_collateral_record c"
  "get_slot_record (set_market_transactions ts c) = get_slot_record c"
  "get_market_status (set_market_transactions ts c) = get_market_status c"
  "get_feed (set_market_transactions ts c) = get_feed c"
  "fetch_burn_record (set_market_transactions ts c) = fetch_burn_record c"
  "is_pending (set_market_transactions ts c) = is_pending c"
  "below (set_market_transactions ts c) = below c"
  by (cases c; simp add: fun_eq_iff db_now_def db_get_property_def )+

lemma frame_store_market_history_record [simp, frame_simps]:
  "get_head_block_num (store_market_history_record k r c) = get_head_block_num c"
  "now (store_market_history_record k r c) = now c"
  "get_property (store_market_history_record k r c) = get_property c"
  "get_asset_record (store_market_history_record k r c) = get_asset_record c"
  "get_balance_record (store_market_history_record k r c) = get_balance_record c"
  "get_account_record (store_market_history_record k r c) = get_account_record c"
  "get_delegate_slate (store_market_history_record k r c) = get_delegate_slate c"
  "get_bid_record (store_market_history_record k r c) = get_bid_record c"
  "get_ask_record (store_market_history_record k r c) = get_ask_record c"
  "get_short_record (store_market_history_record k r c) = get_short_record c"
  "get_collateral_record (store_market_history_record k r c) = get_collateral_record c"
  "get_slot_record (store_market_history_record k r c) = get_slot_record c"
  "get_market_status (store_market_history_record k r c) = get_market_status c"
  "get_feed (store_market_history_record k r c) = get_feed c"
  "fetch_burn_record (store_market_history_record k r c) = fetch_burn_record c"
  "is_pending (store_market_history_record k r c) = is_pending c"
  "below (store_market_history_record k r c) = below c"
  by (cases c; simp add: fun_eq_iff db_now_def db_get_property_def )+

lemma frame_store_bid_record [simp, frame_simps]:
  "get_head_block_num (store_bid_record k r c) = get_head_block_num c"
  "now (store_bid_record k r c) = now c"
  "get_property (store_bid_record k r c) = get_property c"
  "get_asset_record (store_bid_record k r c) = get_asset_record c"
  "get_balance_record (store_bid_record k r c) = get_balance_record c"
  "get_account_record (store_bid_record k r c) = get_account_record c"
  "get_delegate_slate (store_bid_record k r c) = get_delegate_slate c"
  "get_ask_record (store_bid_record k r c) = get_ask_record c"
  "get_short_record (store_bid_record k r c) = get_short_record c"
  "get_collateral_record (store_bid_record k r c) = get_collateral_record c"
  "get_slot_record (store_bid_record k r c) = get_slot_record c"
  "get_market_status (store_bid_record k r c) = get_market_status c"
  "get_feed (store_bid_record k r c) = get_feed c"
  "fetch_burn_record (store_bid_record k r c) = fetch_burn_record c"
  "is_pending (store_bid_record k r c) = is_pending c"
  "below (store_bid_record k r c) = below c"
  by (cases c; simp add: fun_eq_iff db_now_def db_get_property_def db_store_bid_record_def pending_store_bid_record_def)+

lemma frame_store_ask_record [simp, frame_simps]:
  "get_head_block_num (store_ask_record k r c) = get_head_block_num c"
  "now (store_ask_record k r c) = now c"
  "get_property (store_ask_record k r c) = get_property c"
  "get_asset_record (store_ask_record k r c) = get_asset_record c"
  "get_balance_record (store_ask_record k r c) = get_balance_record c"
  "get_account_record (store_ask_record k r c) = get_account_record c"
  "get_delegate_slate (store_ask_record k r c) = get_delegate_slate c"
  "get_bid_record (store_ask_record k r c) = get_bid_record c"
  "get_short_record (store_ask_record k r c) = get_short_record c"
  "get_collateral_record (store_ask_record k r c) = get_collateral_record c"
  "get_slot_record (store_ask_record k r c) = get_slot_record c"
  "get_market_status (store_ask_record k r c) = get_market_status c"
  "get_feed (store_ask_record k r c) = get_feed c"
  "fetch_burn_record (store_ask_record k r c) = fetch_burn_record c"
  "is_pending (store_ask_record k r c) = is_pending c"
  "below (store_ask_record k r c) = below c"
  by (cases c; simp add: fun_eq_iff db_now_def db_get_property_def db_store_ask_record_def pending_store_ask_record_def)+

lemma frame_store_short_record [simp, frame_simps]:
  "get_head_block_num (store_short_record k r c) = get_head_block_num c"
  "now (store_short_record k r c) = now c"
  "get_property (store_short_record k r c) = get_property c"
  "get_asset_record (store_short_record k r c) = get_asset_record c"
  "get_balance_record (store_short_record k r c) = get_balance_record c"
  "get_account_record (store_short_record k r c) = get_account_record c"
  "get_delegate_slate (store_short_record k r c) = get_delegate_slate c"
  "get_bid_record (store_short_record k r c) = get_bid_record c"
  "get_ask_record (store_short_record k r c) = get_ask_record c"
  "get_collateral_record (store_short_record k r c) = get_collateral_record c"
  "get_slot_record (store_short_record k r c) = get_slot_record c"
  "get_market_status (store_short_record k r c) = get_market_status c"
  "get_feed (store_short_record k r c) = get_feed c"
  "fetch_burn_record (store_short_record k r c) = fetch_burn_record c"
  "is_pending (store_short_record k r c) = is_pending c"
  "below (store_short_record k r c) = below c"
  by (cases c; simp add: fun_eq_iff db_now_def db_get_property_def db_store_short_record_def pending_store_short_record_def)+

lemma frame_store_collateral_record [simp, frame_simps]:
  "get_head_block_num (store_collateral_record k r c) = get_head_block_num c"
  "now (store_collateral_record k r c) = now c"
  "get_property (store_collateral_record k r c) = get_property c"
  "get_asset_record (store_collateral_record k r c) = get_asset_record c"
  "get_balance_record (store_collateral_record k r c) = get_balance_record c"
  "get_account_record (store_collateral_record k r c) = get_account_record c"
  "get_delegate_slate (store_collateral_record k r c) = get_delegate_slate c"
  "get_bid_record (store_collateral_record k r c) = get_bid_record c"
  "get_ask_record (store_collateral_record k r c) = get_ask_record c"
  "get_short_record (store_collateral_record k r c) = get_short_record c"
  "get_slot_record (store_collateral_record k r c) = get_slot_record c"
  "get_market_status (store_collateral_record k r c) = get_market_status c"
  "get_feed (store_collateral_record k r c) = get_feed c"
  "fetch_burn_record (store_collateral_record k r c) = fetch_burn_record c"
  "is_pending (store_collateral_record k r c) = is_pending c"
  "below (store_collateral_record k r c) = below c"
  by (cases c; simp add: fun_eq_iff db_now_def db_get_property_def db_store_collateral_record_def pending_store_collateral_record_def)+

section \<open>Lookups after a store\<close>

lemma finite_dom_layer:
  assumes "\<And>i. g i = (case map_of t i of Some r \<Rightarrow> Some r | None \<Rightarrow> m i)" and "finite (dom m)"
  shows "finite (dom g)"
proof -
  have "dom g \<subseteq> dom (map_of t) \<union> dom m" by (auto simp: assms(1) split: option.splits)
  then show ?thesis using assms(2) finite_dom_map_of [of t] by (meson finite_UnI finite_subset)
qed

text \<open>On a pending state a lookup returns what was stored last, null or not.\<close>

lemma get_store_asset [store_simps]:
  "is_pending c \<Longrightarrow> get_asset_record (store_asset_record r c) = (get_asset_record c)(asset_record_id r \<mapsto> r)"
  by (cases c; simp add: fun_eq_iff db_store_asset_record_def pending_store_asset_record_def)

lemma finite_asset [simp]: "finite (dom (get_asset_record c))"
  by (induction c) (simp add: finite_dom_map_of, erule finite_dom_layer [rotated], simp)

lemma get_store_balance [store_simps]:
  "is_pending c \<Longrightarrow> get_balance_record (store_balance_record X r c) = (get_balance_record c)(balance_record_id X r \<mapsto> r)"
  by (cases c; simp add: fun_eq_iff db_store_balance_record_def pending_store_balance_record_def)

lemma finite_balance [simp]: "finite (dom (get_balance_record c))"
  by (induction c) (simp add: finite_dom_map_of, erule finite_dom_layer [rotated], simp)

lemma get_store_account [store_simps]:
  "is_pending c \<Longrightarrow> get_account_record (store_account_record X r c) = (get_account_record c)(account_id r \<mapsto> r)"
  by (cases c; simp add: fun_eq_iff db_store_account_record_def pending_store_account_record_def Let_def)

lemma finite_account [simp]: "finite (dom (get_account_record c))"
  by (induction c) (simp add: finite_dom_map_of, erule finite_dom_layer [rotated], simp)

lemma get_store_slate [store_simps]:
  "is_pending c \<Longrightarrow> get_delegate_slate (store_delegate_slate k r c) = (get_delegate_slate c)(k \<mapsto> r)"
  by (cases c; simp add: fun_eq_iff db_store_delegate_slate_def pending_store_delegate_slate_def)

lemma finite_slate [simp]: "finite (dom (get_delegate_slate c))"
  by (induction c) (simp add: finite_dom_map_of, erule finite_dom_layer [rotated], simp)

lemma get_store_bid [store_simps]:
  "is_pending c \<Longrightarrow> get_bid_record (store_bid_record k r c) = (get_bid_record c)(k \<mapsto> r)"
  by (cases c; simp add: fun_eq_iff db_store_bid_record_def pending_store_bid_record_def)

lemma finite_bid [simp]: "finite (dom (get_bid_record c))"
  by (induction c) (simp add: finite_dom_map_of, erule finite_dom_layer [rotated], simp)

lemma get_store_ask [store_simps]:
  "is_pending c \<Longrightarrow> get_ask_record (store_ask_record k r c) = (get_ask_record c)(k \<mapsto> r)"
  by (cases c; simp add: fun_eq_iff db_store_ask_record_def pending_store_ask_record_def)

lemma finite_ask [simp]: "finite (dom (get_ask_record c))"
  by (induction c) (simp add: finite_dom_map_of, erule finite_dom_layer [rotated], simp)

lemma get_store_short [store_simps]:
  "is_pending c \<Longrightarrow> get_short_record (store_short_record k r c) = (get_short_record c)(k \<mapsto> r)"
  by (cases c; simp add: fun_eq_iff db_store_short_record_def pending_store_short_record_def)

lemma finite_short [simp]: "finite (dom (get_short_record c))"
  by (induction c) (simp add: finite_dom_map_of, erule finite_dom_layer [rotated], simp)

lemma get_store_collateral [store_simps]:
  "is_pending c \<Longrightarrow> get_collateral_record (store_collateral_record k r c) = (get_collateral_record c)(k \<mapsto> r)"
  by (cases c; simp add: fun_eq_iff db_store_collateral_record_def pending_store_collateral_record_def)

lemma finite_collateral [simp]: "finite (dom (get_collateral_record c))"
  by (induction c) (simp add: finite_dom_map_of, erule finite_dom_layer [rotated], simp)

lemma get_store_slot [store_simps]:
  "is_pending c \<Longrightarrow> get_slot_record (store_slot_record r c) = (get_slot_record c)(slot_start_time r \<mapsto> r)"
  by (cases c; simp add: fun_eq_iff db_store_slot_record_def pending_store_slot_record_def)

lemma finite_slot [simp]: "finite (dom (get_slot_record c))"
  by (induction c) (simp add: finite_dom_map_of, erule finite_dom_layer [rotated], simp)

lemma get_store_feed [store_simps]:
  "is_pending c \<Longrightarrow> get_feed (set_feed r c) = (get_feed c)(feed r \<mapsto> r)"
  by (cases c; simp add: fun_eq_iff db_set_feed_def pending_set_feed_def)

lemma finite_feed [simp]: "finite (dom (get_feed c))"
  by (induction c) (simp add: finite_dom_map_of, erule finite_dom_layer [rotated], simp)

lemma get_store_burn [store_simps]:
  "is_pending c \<Longrightarrow> fetch_burn_record (store_burn_record k r c) = (fetch_burn_record c)(k \<mapsto> r)"
  by (cases c; simp add: fun_eq_iff db_store_burn_record_def pending_store_burn_record_def)

lemma finite_burn [simp]: "finite (dom (fetch_burn_record c))"
  by (induction c) (simp add: finite_dom_map_of, erule finite_dom_layer [rotated], simp)

text \<open>The stores of the model are keyed record stores on pending states.\<close>

interpretation assets: record_store get_asset_record "\<lambda>i. store_asset_record" "\<lambda>i r. i = asset_record_id r" is_pending
  by unfold_locales (auto simp: get_store_asset)

interpretation balances: record_store get_balance_record "\<lambda>i. store_balance_record X" "\<lambda>i r. i = balance_record_id X r" is_pending for X
  by unfold_locales (auto simp: get_store_balance)

interpretation accounts: record_store get_account_record "\<lambda>i. store_account_record X" "\<lambda>i r. i = account_id r" is_pending for X
  by unfold_locales (auto simp: get_store_account)

interpretation slates: record_store get_delegate_slate "store_delegate_slate" "\<lambda>i s. True" is_pending
  by unfold_locales (auto simp: get_store_slate)

interpretation bids: record_store get_bid_record "store_bid_record" "\<lambda>k r. True" is_pending
  by unfold_locales (auto simp: get_store_bid)

interpretation asks: record_store get_ask_record "store_ask_record" "\<lambda>k r. True" is_pending
  by unfold_locales (auto simp: get_store_ask)

interpretation shorts: record_store get_short_record "store_short_record" "\<lambda>k r. True" is_pending
  by unfold_locales (auto simp: get_store_short)

interpretation collaterals: record_store get_collateral_record "store_collateral_record" "\<lambda>k r. True" is_pending
  by unfold_locales (auto simp: get_store_collateral)

interpretation slots: record_store get_slot_record "\<lambda>t. store_slot_record" "\<lambda>t r. t = slot_start_time r" is_pending
  by unfold_locales (auto simp: get_store_slot)

interpretation feeds: record_store get_feed "\<lambda>k. set_feed" "\<lambda>k r. k = feed r" is_pending
  by unfold_locales (auto simp: get_store_feed)

interpretation burns: record_store fetch_burn_record "store_burn_record" "\<lambda>k v. True" is_pending
  by unfold_locales (auto simp: get_store_burn)

section \<open>Views\<close>

text \<open>
  The records of one kind that are not null. On these views the database and the pending state
  agree: storing a null record removes the entry.
\<close>

definition live :: "('v \<Rightarrow> bool) \<Rightarrow> ('k \<rightharpoonup> 'v) \<Rightarrow> 'k \<rightharpoonup> 'v" where
  "live null m k = (case m k of Some v \<Rightarrow> if null v then None else Some v | None \<Rightarrow> None)"

lemma live_never [simp]: "live (\<lambda>r. False) m = m"
  by (auto simp: live_def split: option.splits)

lemma live_layer:
  assumes "\<And>i. g i = (case t i of Some r \<Rightarrow> Some r | None \<Rightarrow> m i)"
  shows "live null g = overlay null (live null m) t"
  by (auto simp: fun_eq_iff live_def overlay_def assms split: option.splits)

abbreviation asset_view :: "chain \<Rightarrow> _" where
  "asset_view c \<equiv> live (asset_is_null) (get_asset_record c)"

interpretation asset_views: view_store asset_view "\<lambda>i. store_asset_record" "asset_is_null" "\<lambda>i r. i = asset_record_id r"
proof
  fix k r c
  show "asset_view ((\<lambda>i. store_asset_record) k r c) = (asset_view c)(k := (if (asset_is_null) r then None else Some r))"
    if "(\<lambda>i r. i = asset_record_id r) k r"
    using that by (cases c; auto simp: fun_eq_iff live_def db_store_asset_record_def pending_store_asset_record_def split: option.splits)
qed

lemma asset_view_pending:
  "asset_view (Pending p c) = overlay (asset_is_null) (asset_view c) (map_of (p_assets p))"
  by (rule live_layer) simp

abbreviation balance_view :: "chain \<Rightarrow> _" where
  "balance_view c \<equiv> live (\<lambda>r. False) (get_balance_record c)"

interpretation balance_views: view_store balance_view "\<lambda>i. store_balance_record X" "\<lambda>r. False" "\<lambda>i r. i = balance_record_id X r" for X
proof
  fix k r c
  show "balance_view ((\<lambda>i. store_balance_record X) k r c) = (balance_view c)(k := (if (\<lambda>r. False) r then None else Some r))"
    if "(\<lambda>i r. i = balance_record_id X r) k r"
    using that by (cases c; auto simp: fun_eq_iff live_def db_store_balance_record_def pending_store_balance_record_def split: option.splits)
qed

lemma balance_view_pending:
  "balance_view (Pending p c) = overlay (\<lambda>r. False) (balance_view c) (map_of (p_balances p))"
  by (rule live_layer) simp

abbreviation account_view :: "chain \<Rightarrow> _" where
  "account_view c \<equiv> live (account_is_null) (get_account_record c)"

interpretation account_views: view_store account_view "\<lambda>i. store_account_record X" "account_is_null" "\<lambda>i r. i = account_id r" for X
proof
  fix k r c
  show "account_view ((\<lambda>i. store_account_record X) k r c) = (account_view c)(k := (if (account_is_null) r then None else Some r))"
    if "(\<lambda>i r. i = account_id r) k r"
    using that by (cases c; auto simp: fun_eq_iff live_def db_store_account_record_def pending_store_account_record_def Let_def split: option.splits)
qed

lemma account_view_pending:
  "account_view (Pending p c) = overlay (account_is_null) (account_view c) (map_of (p_accounts p))"
  by (rule live_layer) simp

abbreviation slate_view :: "chain \<Rightarrow> _" where
  "slate_view c \<equiv> live (\<lambda>s. s = []) (get_delegate_slate c)"

interpretation slate_views: view_store slate_view "store_delegate_slate" "\<lambda>s. s = []" "\<lambda>i s. True"
proof
  fix k r c
  show "slate_view ((store_delegate_slate) k r c) = (slate_view c)(k := (if (\<lambda>s. s = []) r then None else Some r))"
    if "(\<lambda>i s. True) k r"
    using that by (cases c; auto simp: fun_eq_iff live_def db_store_delegate_slate_def pending_store_delegate_slate_def split: option.splits)
qed

lemma slate_view_pending:
  "slate_view (Pending p c) = overlay (\<lambda>s. s = []) (slate_view c) (map_of (p_slates p))"
  by (rule live_layer) simp

abbreviation bid_view :: "chain \<Rightarrow> _" where
  "bid_view c \<equiv> live (order_is_null) (get_bid_record c)"

interpretation bid_views: view_store bid_view "store_bid_record" "order_is_null" "\<lambda>k r. True"
proof
  fix k r c
  show "bid_view ((store_bid_record) k r c) = (bid_view c)(k := (if (order_is_null) r then None else Some r))"
    if "(\<lambda>k r. True) k r"
    using that by (cases c; auto simp: fun_eq_iff live_def db_store_bid_record_def pending_store_bid_record_def split: option.splits)
qed

lemma bid_view_pending:
  "bid_view (Pending p c) = overlay (order_is_null) (bid_view c) (map_of (p_bids p))"
  by (rule live_layer) simp

abbreviation ask_view :: "chain \<Rightarrow> _" where
  "ask_view c \<equiv> live (order_is_null) (get_ask_record c)"

interpretation ask_views: view_store ask_view "store_ask_record" "order_is_null" "\<lambda>k r. True"
proof
  fix k r c
  show "ask_view ((store_ask_record) k r c) = (ask_view c)(k := (if (order_is_null) r then None else Some r))"
    if "(\<lambda>k r. True) k r"
    using that by (cases c; auto simp: fun_eq_iff live_def db_store_ask_record_def pending_store_ask_record_def split: option.splits)
qed

lemma ask_view_pending:
  "ask_view (Pending p c) = overlay (order_is_null) (ask_view c) (map_of (p_asks p))"
  by (rule live_layer) simp

abbreviation short_view :: "chain \<Rightarrow> _" where
  "short_view c \<equiv> live (order_is_null) (get_short_record c)"

interpretation short_views: view_store short_view "store_short_record" "order_is_null" "\<lambda>k r. True"
proof
  fix k r c
  show "short_view ((store_short_record) k r c) = (short_view c)(k := (if (order_is_null) r then None else Some r))"
    if "(\<lambda>k r. True) k r"
    using that by (cases c; auto simp: fun_eq_iff live_def db_store_short_record_def pending_store_short_record_def split: option.splits)
qed

lemma short_view_pending:
  "short_view (Pending p c) = overlay (order_is_null) (short_view c) (map_of (p_shorts p))"
  by (rule live_layer) simp

abbreviation collateral_view :: "chain \<Rightarrow> _" where
  "collateral_view c \<equiv> live (collateral_is_null) (get_collateral_record c)"

interpretation collateral_views: view_store collateral_view "store_collateral_record" "collateral_is_null" "\<lambda>k r. True"
proof
  fix k r c
  show "collateral_view ((store_collateral_record) k r c) = (collateral_view c)(k := (if (collateral_is_null) r then None else Some r))"
    if "(\<lambda>k r. True) k r"
    using that by (cases c; auto simp: fun_eq_iff live_def db_store_collateral_record_def pending_store_collateral_record_def split: option.splits)
qed

lemma collateral_view_pending:
  "collateral_view (Pending p c) = overlay (collateral_is_null) (collateral_view c) (map_of (p_collateral p))"
  by (rule live_layer) simp

abbreviation slot_view :: "chain \<Rightarrow> _" where
  "slot_view c \<equiv> live (slot_is_null) (get_slot_record c)"

interpretation slot_views: view_store slot_view "\<lambda>t. store_slot_record" "slot_is_null" "\<lambda>t r. t = slot_start_time r"
proof
  fix k r c
  show "slot_view ((\<lambda>t. store_slot_record) k r c) = (slot_view c)(k := (if (slot_is_null) r then None else Some r))"
    if "(\<lambda>t r. t = slot_start_time r) k r"
    using that by (cases c; auto simp: fun_eq_iff live_def db_store_slot_record_def pending_store_slot_record_def split: option.splits)
qed

lemma slot_view_pending:
  "slot_view (Pending p c) = overlay (slot_is_null) (slot_view c) (map_of (p_slots p))"
  by (rule live_layer) simp

abbreviation feed_view :: "chain \<Rightarrow> _" where
  "feed_view c \<equiv> live (feed_is_null) (get_feed c)"

interpretation feed_views: view_store feed_view "\<lambda>k. set_feed" "feed_is_null" "\<lambda>k r. k = feed r"
proof
  fix k r c
  show "feed_view ((\<lambda>k. set_feed) k r c) = (feed_view c)(k := (if (feed_is_null) r then None else Some r))"
    if "(\<lambda>k r. k = feed r) k r"
    using that by (cases c; auto simp: fun_eq_iff live_def db_set_feed_def pending_set_feed_def split: option.splits)
qed

lemma feed_view_pending:
  "feed_view (Pending p c) = overlay (feed_is_null) (feed_view c) (map_of (p_feeds p))"
  by (rule live_layer) simp

abbreviation burn_view :: "chain \<Rightarrow> _" where
  "burn_view c \<equiv> live (burn_is_null) (fetch_burn_record c)"

interpretation burn_views: view_store burn_view "store_burn_record" "burn_is_null" "\<lambda>k v. True"
proof
  fix k r c
  show "burn_view ((store_burn_record) k r c) = (burn_view c)(k := (if (burn_is_null) r then None else Some r))"
    if "(\<lambda>k v. True) k r"
    using that by (cases c; auto simp: fun_eq_iff live_def db_store_burn_record_def pending_store_burn_record_def split: option.splits)
qed

lemma burn_view_pending:
  "burn_view (Pending p c) = overlay (burn_is_null) (burn_view c) (map_of (p_burns p))"
  by (rule live_layer) simp

section \<open>Writing a pending state\<close>

text \<open>Writing one table leaves the lookups of the other kinds alone.\<close>

lemma frame_write_properties [simp, frame_simps]:
  "get_asset_record (fold (\<lambda>(i, v). set_property i v) t c) = get_asset_record c"
  "get_balance_record (fold (\<lambda>(i, v). set_property i v) t c) = get_balance_record c"
  "get_account_record (fold (\<lambda>(i, v). set_property i v) t c) = get_account_record c"
  "get_delegate_slate (fold (\<lambda>(i, v). set_property i v) t c) = get_delegate_slate c"
  "get_bid_record (fold (\<lambda>(i, v). set_property i v) t c) = get_bid_record c"
  "get_ask_record (fold (\<lambda>(i, v). set_property i v) t c) = get_ask_record c"
  "get_short_record (fold (\<lambda>(i, v). set_property i v) t c) = get_short_record c"
  "get_collateral_record (fold (\<lambda>(i, v). set_property i v) t c) = get_collateral_record c"
  "get_slot_record (fold (\<lambda>(i, v). set_property i v) t c) = get_slot_record c"
  "get_feed (fold (\<lambda>(i, v). set_property i v) t c) = get_feed c"
  "fetch_burn_record (fold (\<lambda>(i, v). set_property i v) t c) = fetch_burn_record c"
  "get_head_block_num (fold (\<lambda>(i, v). set_property i v) t c) = get_head_block_num c"
  "now (fold (\<lambda>(i, v). set_property i v) t c) = now c"
  by (induction t arbitrary: c; simp split: prod.splits)+

lemma frame_write_assets [simp, frame_simps]:
  "get_balance_record (fold (\<lambda>(i, r). store_asset_record r) t c) = get_balance_record c"
  "get_account_record (fold (\<lambda>(i, r). store_asset_record r) t c) = get_account_record c"
  "get_delegate_slate (fold (\<lambda>(i, r). store_asset_record r) t c) = get_delegate_slate c"
  "get_bid_record (fold (\<lambda>(i, r). store_asset_record r) t c) = get_bid_record c"
  "get_ask_record (fold (\<lambda>(i, r). store_asset_record r) t c) = get_ask_record c"
  "get_short_record (fold (\<lambda>(i, r). store_asset_record r) t c) = get_short_record c"
  "get_collateral_record (fold (\<lambda>(i, r). store_asset_record r) t c) = get_collateral_record c"
  "get_slot_record (fold (\<lambda>(i, r). store_asset_record r) t c) = get_slot_record c"
  "get_feed (fold (\<lambda>(i, r). store_asset_record r) t c) = get_feed c"
  "fetch_burn_record (fold (\<lambda>(i, r). store_asset_record r) t c) = fetch_burn_record c"
  "get_head_block_num (fold (\<lambda>(i, r). store_asset_record r) t c) = get_head_block_num c"
  "now (fold (\<lambda>(i, r). store_asset_record r) t c) = now c"
  by (induction t arbitrary: c; simp split: prod.splits)+

lemma frame_write_accounts [simp, frame_simps]:
  "get_asset_record (fold (\<lambda>(i, r). store_account_record X r) t c) = get_asset_record c"
  "get_balance_record (fold (\<lambda>(i, r). store_account_record X r) t c) = get_balance_record c"
  "get_delegate_slate (fold (\<lambda>(i, r). store_account_record X r) t c) = get_delegate_slate c"
  "get_bid_record (fold (\<lambda>(i, r). store_account_record X r) t c) = get_bid_record c"
  "get_ask_record (fold (\<lambda>(i, r). store_account_record X r) t c) = get_ask_record c"
  "get_short_record (fold (\<lambda>(i, r). store_account_record X r) t c) = get_short_record c"
  "get_collateral_record (fold (\<lambda>(i, r). store_account_record X r) t c) = get_collateral_record c"
  "get_slot_record (fold (\<lambda>(i, r). store_account_record X r) t c) = get_slot_record c"
  "get_feed (fold (\<lambda>(i, r). store_account_record X r) t c) = get_feed c"
  "fetch_burn_record (fold (\<lambda>(i, r). store_account_record X r) t c) = fetch_burn_record c"
  "get_head_block_num (fold (\<lambda>(i, r). store_account_record X r) t c) = get_head_block_num c"
  "now (fold (\<lambda>(i, r). store_account_record X r) t c) = now c"
  by (induction t arbitrary: c; simp split: prod.splits)+

lemma frame_write_balances [simp, frame_simps]:
  "get_asset_record (fold (\<lambda>(i, r). store_balance_record X r) t c) = get_asset_record c"
  "get_account_record (fold (\<lambda>(i, r). store_balance_record X r) t c) = get_account_record c"
  "get_delegate_slate (fold (\<lambda>(i, r). store_balance_record X r) t c) = get_delegate_slate c"
  "get_bid_record (fold (\<lambda>(i, r). store_balance_record X r) t c) = get_bid_record c"
  "get_ask_record (fold (\<lambda>(i, r). store_balance_record X r) t c) = get_ask_record c"
  "get_short_record (fold (\<lambda>(i, r). store_balance_record X r) t c) = get_short_record c"
  "get_collateral_record (fold (\<lambda>(i, r). store_balance_record X r) t c) = get_collateral_record c"
  "get_slot_record (fold (\<lambda>(i, r). store_balance_record X r) t c) = get_slot_record c"
  "get_feed (fold (\<lambda>(i, r). store_balance_record X r) t c) = get_feed c"
  "fetch_burn_record (fold (\<lambda>(i, r). store_balance_record X r) t c) = fetch_burn_record c"
  "get_head_block_num (fold (\<lambda>(i, r). store_balance_record X r) t c) = get_head_block_num c"
  "now (fold (\<lambda>(i, r). store_balance_record X r) t c) = now c"
  by (induction t arbitrary: c; simp split: prod.splits)+

lemma frame_write_bids [simp, frame_simps]:
  "get_asset_record (fold (\<lambda>(k, r). store_bid_record k r) t c) = get_asset_record c"
  "get_balance_record (fold (\<lambda>(k, r). store_bid_record k r) t c) = get_balance_record c"
  "get_account_record (fold (\<lambda>(k, r). store_bid_record k r) t c) = get_account_record c"
  "get_delegate_slate (fold (\<lambda>(k, r). store_bid_record k r) t c) = get_delegate_slate c"
  "get_ask_record (fold (\<lambda>(k, r). store_bid_record k r) t c) = get_ask_record c"
  "get_short_record (fold (\<lambda>(k, r). store_bid_record k r) t c) = get_short_record c"
  "get_collateral_record (fold (\<lambda>(k, r). store_bid_record k r) t c) = get_collateral_record c"
  "get_slot_record (fold (\<lambda>(k, r). store_bid_record k r) t c) = get_slot_record c"
  "get_feed (fold (\<lambda>(k, r). store_bid_record k r) t c) = get_feed c"
  "fetch_burn_record (fold (\<lambda>(k, r). store_bid_record k r) t c) = fetch_burn_record c"
  "get_head_block_num (fold (\<lambda>(k, r). store_bid_record k r) t c) = get_head_block_num c"
  "now (fold (\<lambda>(k, r). store_bid_record k r) t c) = now c"
  by (induction t arbitrary: c; simp split: prod.splits)+

lemma frame_write_asks [simp, frame_simps]:
  "get_asset_record (fold (\<lambda>(k, r). store_ask_record k r) t c) = get_asset_record c"
  "get_balance_record (fold (\<lambda>(k, r). store_ask_record k r) t c) = get_balance_record c"
  "get_account_record (fold (\<lambda>(k, r). store_ask_record k r) t c) = get_account_record c"
  "get_delegate_slate (fold (\<lambda>(k, r). store_ask_record k r) t c) = get_delegate_slate c"
  "get_bid_record (fold (\<lambda>(k, r). store_ask_record k r) t c) = get_bid_record c"
  "get_short_record (fold (\<lambda>(k, r). store_ask_record k r) t c) = get_short_record c"
  "get_collateral_record (fold (\<lambda>(k, r). store_ask_record k r) t c) = get_collateral_record c"
  "get_slot_record (fold (\<lambda>(k, r). store_ask_record k r) t c) = get_slot_record c"
  "get_feed (fold (\<lambda>(k, r). store_ask_record k r) t c) = get_feed c"
  "fetch_burn_record (fold (\<lambda>(k, r). store_ask_record k r) t c) = fetch_burn_record c"
  "get_head_block_num (fold (\<lambda>(k, r). store_ask_record k r) t c) = get_head_block_num c"
  "now (fold (\<lambda>(k, r). store_ask_record k r) t c) = now c"
  by (induction t arbitrary: c; simp split: prod.splits)+

lemma frame_write_shorts [simp, frame_simps]:
  "get_asset_record (fold (\<lambda>(k, r). store_short_record k r) t c) = get_asset_record c"
  "get_balance_record (fold (\<lambda>(k, r). store_short_record k r) t c) = get_balance_record c"
  "get_account_record (fold (\<lambda>(k, r). store_short_record k r) t c) = get_account_record c"
  "get_delegate_slate (fold (\<lambda>(k, r). store_short_record k r) t c) = get_delegate_slate c"
  "get_bid_record (fold (\<lambda>(k, r). store_short_record k r) t c) = get_bid_record c"
  "get_ask_record (fold (\<lambda>(k, r). store_short_record k r) t c) = get_ask_record c"
  "get_collateral_record (fold (\<lambda>(k, r). store_short_record k r) t c) = get_collateral_record c"
  "get_slot_record (fold (\<lambda>(k, r). store_short_record k r) t c) = get_slot_record c"
  "get_feed (fold (\<lambda>(k, r). store_short_record k r) t c) = get_feed c"
  "fetch_burn_record (fold (\<lambda>(k, r). store_short_record k r) t c) = fetch_burn_record c"
  "get_head_block_num (fold (\<lambda>(k, r). store_short_record k r) t c) = get_head_block_num c"
  "now (fold (\<lambda>(k, r). store_short_record k r) t c) = now c"
  by (induction t arbitrary: c; simp split: prod.splits)+

lemma frame_write_collateral [simp, frame_simps]:
  "get_asset_record (fold (\<lambda>(k, r). store_collateral_record k r) t c) = get_asset_record c"
  "get_balance_record (fold (\<lambda>(k, r). store_collateral_record k r) t c) = get_balance_record c"
  "get_account_record (fold (\<lambda>(k, r). store_collateral_record k r) t c) = get_account_record c"
  "get_delegate_slate (fold (\<lambda>(k, r). store_collateral_record k r) t c) = get_delegate_slate c"
  "get_bid_record (fold (\<lambda>(k, r). store_collateral_record k r) t c) = get_bid_record c"
  "get_ask_record (fold (\<lambda>(k, r). store_collateral_record k r) t c) = get_ask_record c"
  "get_short_record (fold (\<lambda>(k, r). store_collateral_record k r) t c) = get_short_record c"
  "get_slot_record (fold (\<lambda>(k, r). store_collateral_record k r) t c) = get_slot_record c"
  "get_feed (fold (\<lambda>(k, r). store_collateral_record k r) t c) = get_feed c"
  "fetch_burn_record (fold (\<lambda>(k, r). store_collateral_record k r) t c) = fetch_burn_record c"
  "get_head_block_num (fold (\<lambda>(k, r). store_collateral_record k r) t c) = get_head_block_num c"
  "now (fold (\<lambda>(k, r). store_collateral_record k r) t c) = now c"
  by (induction t arbitrary: c; simp split: prod.splits)+

lemma frame_write_slates [simp, frame_simps]:
  "get_asset_record (fold (\<lambda>(i, s). store_delegate_slate i s) t c) = get_asset_record c"
  "get_balance_record (fold (\<lambda>(i, s). store_delegate_slate i s) t c) = get_balance_record c"
  "get_account_record (fold (\<lambda>(i, s). store_delegate_slate i s) t c) = get_account_record c"
  "get_bid_record (fold (\<lambda>(i, s). store_delegate_slate i s) t c) = get_bid_record c"
  "get_ask_record (fold (\<lambda>(i, s). store_delegate_slate i s) t c) = get_ask_record c"
  "get_short_record (fold (\<lambda>(i, s). store_delegate_slate i s) t c) = get_short_record c"
  "get_collateral_record (fold (\<lambda>(i, s). store_delegate_slate i s) t c) = get_collateral_record c"
  "get_slot_record (fold (\<lambda>(i, s). store_delegate_slate i s) t c) = get_slot_record c"
  "get_feed (fold (\<lambda>(i, s). store_delegate_slate i s) t c) = get_feed c"
  "fetch_burn_record (fold (\<lambda>(i, s). store_delegate_slate i s) t c) = fetch_burn_record c"
  "get_head_block_num (fold (\<lambda>(i, s). store_delegate_slate i s) t c) = get_head_block_num c"
  "now (fold (\<lambda>(i, s). store_delegate_slate i s) t c) = now c"
  by (induction t arbitrary: c; simp split: prod.splits)+

lemma frame_write_slots [simp, frame_simps]:
  "get_asset_record (fold (\<lambda>(t, r). store_slot_record r) t c) = get_asset_record c"
  "get_balance_record (fold (\<lambda>(t, r). store_slot_record r) t c) = get_balance_record c"
  "get_account_record (fold (\<lambda>(t, r). store_slot_record r) t c) = get_account_record c"
  "get_delegate_slate (fold (\<lambda>(t, r). store_slot_record r) t c) = get_delegate_slate c"
  "get_bid_record (fold (\<lambda>(t, r). store_slot_record r) t c) = get_bid_record c"
  "get_ask_record (fold (\<lambda>(t, r). store_slot_record r) t c) = get_ask_record c"
  "get_short_record (fold (\<lambda>(t, r). store_slot_record r) t c) = get_short_record c"
  "get_collateral_record (fold (\<lambda>(t, r). store_slot_record r) t c) = get_collateral_record c"
  "get_feed (fold (\<lambda>(t, r). store_slot_record r) t c) = get_feed c"
  "fetch_burn_record (fold (\<lambda>(t, r). store_slot_record r) t c) = fetch_burn_record c"
  "get_head_block_num (fold (\<lambda>(t, r). store_slot_record r) t c) = get_head_block_num c"
  "now (fold (\<lambda>(t, r). store_slot_record r) t c) = now c"
  by (induction t arbitrary: c; simp split: prod.splits)+

lemma frame_write_market_history [simp, frame_simps]:
  "get_asset_record (fold (\<lambda>(k, r). store_market_history_record k r) t c) = get_asset_record c"
  "get_balance_record (fold (\<lambda>(k, r). store_market_history_record k r) t c) = get_balance_record c"
  "get_account_record (fold (\<lambda>(k, r). store_market_history_record k r) t c) = get_account_record c"
  "get_delegate_slate (fold (\<lambda>(k, r). store_market_history_record k r) t c) = get_delegate_slate c"
  "get_bid_record (fold (\<lambda>(k, r). store_market_history_record k r) t c) = get_bid_record c"
  "get_ask_record (fold (\<lambda>(k, r). store_market_history_record k r) t c) = get_ask_record c"
  "get_short_record (fold (\<lambda>(k, r). store_market_history_record k r) t c) = get_short_record c"
  "get_collateral_record (fold (\<lambda>(k, r). store_market_history_record k r) t c) = get_collateral_record c"
  "get_slot_record (fold (\<lambda>(k, r). store_market_history_record k r) t c) = get_slot_record c"
  "get_feed (fold (\<lambda>(k, r). store_market_history_record k r) t c) = get_feed c"
  "fetch_burn_record (fold (\<lambda>(k, r). store_market_history_record k r) t c) = fetch_burn_record c"
  "get_head_block_num (fold (\<lambda>(k, r). store_market_history_record k r) t c) = get_head_block_num c"
  "now (fold (\<lambda>(k, r). store_market_history_record k r) t c) = now c"
  by (induction t arbitrary: c; simp split: prod.splits)+

lemma frame_write_market_statuses [simp, frame_simps]:
  "get_asset_record (fold (\<lambda>(k, r). store_market_status r) t c) = get_asset_record c"
  "get_balance_record (fold (\<lambda>(k, r). store_market_status r) t c) = get_balance_record c"
  "get_account_record (fold (\<lambda>(k, r). store_market_status r) t c) = get_account_record c"
  "get_delegate_slate (fold (\<lambda>(k, r). store_market_status r) t c) = get_delegate_slate c"
  "get_bid_record (fold (\<lambda>(k, r). store_market_status r) t c) = get_bid_record c"
  "get_ask_record (fold (\<lambda>(k, r). store_market_status r) t c) = get_ask_record c"
  "get_short_record (fold (\<lambda>(k, r). store_market_status r) t c) = get_short_record c"
  "get_collateral_record (fold (\<lambda>(k, r). store_market_status r) t c) = get_collateral_record c"
  "get_slot_record (fold (\<lambda>(k, r). store_market_status r) t c) = get_slot_record c"
  "get_feed (fold (\<lambda>(k, r). store_market_status r) t c) = get_feed c"
  "fetch_burn_record (fold (\<lambda>(k, r). store_market_status r) t c) = fetch_burn_record c"
  "get_head_block_num (fold (\<lambda>(k, r). store_market_status r) t c) = get_head_block_num c"
  "now (fold (\<lambda>(k, r). store_market_status r) t c) = now c"
  by (induction t arbitrary: c; simp split: prod.splits)+

lemma frame_write_feeds [simp, frame_simps]:
  "get_asset_record (fold (\<lambda>(k, r). set_feed r) t c) = get_asset_record c"
  "get_balance_record (fold (\<lambda>(k, r). set_feed r) t c) = get_balance_record c"
  "get_account_record (fold (\<lambda>(k, r). set_feed r) t c) = get_account_record c"
  "get_delegate_slate (fold (\<lambda>(k, r). set_feed r) t c) = get_delegate_slate c"
  "get_bid_record (fold (\<lambda>(k, r). set_feed r) t c) = get_bid_record c"
  "get_ask_record (fold (\<lambda>(k, r). set_feed r) t c) = get_ask_record c"
  "get_short_record (fold (\<lambda>(k, r). set_feed r) t c) = get_short_record c"
  "get_collateral_record (fold (\<lambda>(k, r). set_feed r) t c) = get_collateral_record c"
  "get_slot_record (fold (\<lambda>(k, r). set_feed r) t c) = get_slot_record c"
  "fetch_burn_record (fold (\<lambda>(k, r). set_feed r) t c) = fetch_burn_record c"
  "get_head_block_num (fold (\<lambda>(k, r). set_feed r) t c) = get_head_block_num c"
  "now (fold (\<lambda>(k, r). set_feed r) t c) = now c"
  by (induction t arbitrary: c; simp split: prod.splits)+

lemma frame_write_recent [simp, frame_simps]:
  "get_asset_record (fold (store_recent_operation) t c) = get_asset_record c"
  "get_balance_record (fold (store_recent_operation) t c) = get_balance_record c"
  "get_account_record (fold (store_recent_operation) t c) = get_account_record c"
  "get_delegate_slate (fold (store_recent_operation) t c) = get_delegate_slate c"
  "get_bid_record (fold (store_recent_operation) t c) = get_bid_record c"
  "get_ask_record (fold (store_recent_operation) t c) = get_ask_record c"
  "get_short_record (fold (store_recent_operation) t c) = get_short_record c"
  "get_collateral_record (fold (store_recent_operation) t c) = get_collateral_record c"
  "get_slot_record (fold (store_recent_operation) t c) = get_slot_record c"
  "get_feed (fold (store_recent_operation) t c) = get_feed c"
  "fetch_burn_record (fold (store_recent_operation) t c) = fetch_burn_record c"
  "get_head_block_num (fold (store_recent_operation) t c) = get_head_block_num c"
  "now (fold (store_recent_operation) t c) = now c"
  by (induction t arbitrary: c; simp split: prod.splits)+

lemma frame_write_recent_operations [simp, frame_simps]:
  "get_asset_record (fold (\<lambda>(t, ops). fold store_recent_operation ops) t c) = get_asset_record c"
  "get_balance_record (fold (\<lambda>(t, ops). fold store_recent_operation ops) t c) = get_balance_record c"
  "get_account_record (fold (\<lambda>(t, ops). fold store_recent_operation ops) t c) = get_account_record c"
  "get_delegate_slate (fold (\<lambda>(t, ops). fold store_recent_operation ops) t c) = get_delegate_slate c"
  "get_bid_record (fold (\<lambda>(t, ops). fold store_recent_operation ops) t c) = get_bid_record c"
  "get_ask_record (fold (\<lambda>(t, ops). fold store_recent_operation ops) t c) = get_ask_record c"
  "get_short_record (fold (\<lambda>(t, ops). fold store_recent_operation ops) t c) = get_short_record c"
  "get_collateral_record (fold (\<lambda>(t, ops). fold store_recent_operation ops) t c) = get_collateral_record c"
  "get_slot_record (fold (\<lambda>(t, ops). fold store_recent_operation ops) t c) = get_slot_record c"
  "get_feed (fold (\<lambda>(t, ops). fold store_recent_operation ops) t c) = get_feed c"
  "fetch_burn_record (fold (\<lambda>(t, ops). fold store_recent_operation ops) t c) = fetch_burn_record c"
  "get_head_block_num (fold (\<lambda>(t, ops). fold store_recent_operation ops) t c) = get_head_block_num c"
  "now (fold (\<lambda>(t, ops). fold store_recent_operation ops) t c) = now c"
  by (induction t arbitrary: c; simp split: prod.splits)+

lemma frame_write_burns [simp, frame_simps]:
  "get_asset_record (fold (\<lambda>(k, v). store_burn_record k v) t c) = get_asset_record c"
  "get_balance_record (fold (\<lambda>(k, v). store_burn_record k v) t c) = get_balance_record c"
  "get_account_record (fold (\<lambda>(k, v). store_burn_record k v) t c) = get_account_record c"
  "get_delegate_slate (fold (\<lambda>(k, v). store_burn_record k v) t c) = get_delegate_slate c"
  "get_bid_record (fold (\<lambda>(k, v). store_burn_record k v) t c) = get_bid_record c"
  "get_ask_record (fold (\<lambda>(k, v). store_burn_record k v) t c) = get_ask_record c"
  "get_short_record (fold (\<lambda>(k, v). store_burn_record k v) t c) = get_short_record c"
  "get_collateral_record (fold (\<lambda>(k, v). store_burn_record k v) t c) = get_collateral_record c"
  "get_slot_record (fold (\<lambda>(k, v). store_burn_record k v) t c) = get_slot_record c"
  "get_feed (fold (\<lambda>(k, v). store_burn_record k v) t c) = get_feed c"
  "get_head_block_num (fold (\<lambda>(k, v). store_burn_record k v) t c) = get_head_block_num c"
  "now (fold (\<lambda>(k, v). store_burn_record k v) t c) = now c"
  by (induction t arbitrary: c; simp split: prod.splits)+

lemma frame_store_transaction:
  assumes "store_transaction X i r c = Inr c'"
  shows "get_asset_record c' = get_asset_record c"
    "get_balance_record c' = get_balance_record c"
    "get_account_record c' = get_account_record c"
    "get_delegate_slate c' = get_delegate_slate c"
    "get_bid_record c' = get_bid_record c"
    "get_ask_record c' = get_ask_record c"
    "get_short_record c' = get_short_record c"
    "get_collateral_record c' = get_collateral_record c"
    "get_slot_record c' = get_slot_record c"
    "get_feed c' = get_feed c"
    "fetch_burn_record c' = fetch_burn_record c"
    "get_head_block_num c' = get_head_block_num c"
    "now c' = now c"
  using assms
  by (cases c; auto simp: fun_eq_iff db_store_transaction_def pending_store_transaction_def Let_def
        db_now_def bindE_Inr_iff split: if_splits option.splits)+

lemma frame_write_transactions:
  assumes "foldE (\<lambda>(i, r). store_transaction X i r) t c = Inr c'"
  shows "get_asset_record c' = get_asset_record c"
    "get_balance_record c' = get_balance_record c"
    "get_account_record c' = get_account_record c"
    "get_delegate_slate c' = get_delegate_slate c"
    "get_bid_record c' = get_bid_record c"
    "get_ask_record c' = get_ask_record c"
    "get_short_record c' = get_short_record c"
    "get_collateral_record c' = get_collateral_record c"
    "get_slot_record c' = get_slot_record c"
    "get_feed c' = get_feed c"
    "fetch_burn_record c' = fetch_burn_record c"
    "get_head_block_num c' = get_head_block_num c"
    "now c' = now c"
  by (rule foldE_invariant [OF assms], rule refl, auto simp: frame_store_transaction)+

definition table_ok :: "('k \<Rightarrow> 'v \<Rightarrow> bool) \<Rightarrow> ('k, 'v) table \<Rightarrow> bool" where
  "table_ok fits t \<longleftrightarrow> distinct (map fst t) \<and> (\<forall>(k, v) \<in> set t. fits k v)"

text \<open>The tables of a pending state have one entry per key, stored under the key of its record.\<close>

definition pending_ok :: "ext \<Rightarrow> pending_chain_state \<Rightarrow> bool" where
  "pending_ok X p \<longleftrightarrow>
     table_ok (\<lambda>i r. i = asset_record_id r) (p_assets p) \<and>
     table_ok (\<lambda>i r. i = balance_record_id X r) (p_balances p) \<and>
     table_ok (\<lambda>i r. i = account_id r) (p_accounts p) \<and>
     table_ok (\<lambda>i s. True) (p_slates p) \<and>
     table_ok (\<lambda>k r. True) (p_bids p) \<and>
     table_ok (\<lambda>k r. True) (p_asks p) \<and>
     table_ok (\<lambda>k r. True) (p_shorts p) \<and>
     table_ok (\<lambda>k r. True) (p_collateral p) \<and>
     table_ok (\<lambda>t r. t = slot_start_time r) (p_slots p) \<and>
     table_ok (\<lambda>k r. k = feed r) (p_feeds p) \<and>
     table_ok (\<lambda>k v. True) (p_burns p)"

lemma table_ok_Nil [simp]: "table_ok fits []"
  by (simp add: table_ok_def)

lemma table_ok_update [simp]:
  assumes "table_ok fits t" and "fits k v"
  shows "table_ok fits (AList.update k v t)"
proof -
  have "set (AList.update k v t) \<subseteq> insert (k, v) (set t)"
    by (induction t) auto
  then show ?thesis using assms by (auto simp: table_ok_def distinct_update)
qed

lemma table_ok_in_order: "table_ok fits (in_order t) = table_ok fits t"
  by (simp add: table_ok_def)

lemma map_of_in_order:
  assumes "distinct (map fst t)"
  shows "map_of (in_order t) = map_of t"
proof (rule ext)
  fix k
  have "map_of (in_order t) k = Some v \<longleftrightarrow> map_of t k = Some v" for v
    using assms by (simp add: map_of_eq_Some_iff)
  then show "map_of (in_order t) k = map_of t k"
    by (metis option.exhaust)
qed

text \<open>Writing one table, in the order of the table or in key order, overlays the view by the table.\<close>

lemma write_assets:
  assumes "table_ok (\<lambda>i r. i = asset_record_id r) t"
  shows "asset_view (fold (\<lambda>(i, r). store_asset_record r) t c) = overlay (asset_is_null) (asset_view c) (map_of t)"
  using assms asset_views.view_write [of t] by (simp add: table_ok_def)

lemma write_balances:
  assumes "table_ok (\<lambda>i r. i = balance_record_id X r) t"
  shows "balance_view (fold (\<lambda>(i, r). store_balance_record X r) t c) = overlay (\<lambda>r. False) (balance_view c) (map_of t)"
  using assms balance_views.view_write [of t] by (simp add: table_ok_def)

lemma write_accounts:
  assumes "table_ok (\<lambda>i r. i = account_id r) t"
  shows "account_view (fold (\<lambda>(i, r). store_account_record X r) t c) = overlay (account_is_null) (account_view c) (map_of t)"
  using assms account_views.view_write [of t] by (simp add: table_ok_def)

lemma write_slates:
  assumes "table_ok (\<lambda>i s. True) t"
  shows "slate_view (fold (\<lambda>(i, s). store_delegate_slate i s) t c) = overlay (\<lambda>s. s = []) (slate_view c) (map_of t)"
  using assms slate_views.view_write [of t] by (simp add: table_ok_def)

lemma write_bids:
  assumes "table_ok (\<lambda>k r. True) t"
  shows "bid_view (fold (\<lambda>(k, r). store_bid_record k r) (in_order t) c) = overlay (order_is_null) (bid_view c) (map_of t)"
  using assms bid_views.view_write [of "in_order t" c]
  by (simp add: table_ok_def map_of_in_order)

lemma write_asks:
  assumes "table_ok (\<lambda>k r. True) t"
  shows "ask_view (fold (\<lambda>(k, r). store_ask_record k r) (in_order t) c) = overlay (order_is_null) (ask_view c) (map_of t)"
  using assms ask_views.view_write [of "in_order t" c]
  by (simp add: table_ok_def map_of_in_order)

lemma write_shorts:
  assumes "table_ok (\<lambda>k r. True) t"
  shows "short_view (fold (\<lambda>(k, r). store_short_record k r) (in_order t) c) = overlay (order_is_null) (short_view c) (map_of t)"
  using assms short_views.view_write [of "in_order t" c]
  by (simp add: table_ok_def map_of_in_order)

lemma write_collaterals:
  assumes "table_ok (\<lambda>k r. True) t"
  shows "collateral_view (fold (\<lambda>(k, r). store_collateral_record k r) (in_order t) c) = overlay (collateral_is_null) (collateral_view c) (map_of t)"
  using assms collateral_views.view_write [of "in_order t" c]
  by (simp add: table_ok_def map_of_in_order)

lemma write_slots:
  assumes "table_ok (\<lambda>t r. t = slot_start_time r) t"
  shows "slot_view (fold (\<lambda>(t, r). store_slot_record r) (in_order t) c) = overlay (slot_is_null) (slot_view c) (map_of t)"
  using assms slot_views.view_write [of "in_order t" c]
  by (simp add: table_ok_def map_of_in_order)

lemma write_feeds:
  assumes "table_ok (\<lambda>k r. k = feed r) t"
  shows "feed_view (fold (\<lambda>(k, r). set_feed r) (in_order t) c) = overlay (feed_is_null) (feed_view c) (map_of t)"
  using assms feed_views.view_write [of "in_order t" c]
  by (simp add: table_ok_def map_of_in_order)

lemma write_burns:
  assumes "table_ok (\<lambda>k v. True) t"
  shows "burn_view (fold (\<lambda>(k, v). store_burn_record k v) (in_order t) c) = overlay (burn_is_null) (burn_view c) (map_of t)"
  using assms burn_views.view_write [of "in_order t" c]
  by (simp add: table_ok_def map_of_in_order)

text \<open>
  After its changes are applied, the chain below a pending state shows what the pending state
  showed.
\<close>

lemma apply_changes_view:
  assumes app: "apply_changes X p c = Inr c'" and ok: "pending_ok X p"
  shows "asset_view c' = asset_view (Pending p c)"
    "balance_view c' = balance_view (Pending p c)"
    "account_view c' = account_view (Pending p c)"
    "slate_view c' = slate_view (Pending p c)"
    "bid_view c' = bid_view (Pending p c)"
    "ask_view c' = ask_view (Pending p c)"
    "short_view c' = short_view (Pending p c)"
    "collateral_view c' = collateral_view (Pending p c)"
    "slot_view c' = slot_view (Pending p c)"
    "feed_view c' = feed_view (Pending p c)"
    "burn_view c' = burn_view (Pending p c)"
proof -
  from app obtain c9 where t: "foldE (\<lambda>(i, r). store_transaction X i r) (p_transactions p)
      (fold (\<lambda>(k, r). store_collateral_record k r) (in_order (p_collateral p))
      (fold (\<lambda>(k, r). store_short_record k r) (in_order (p_shorts p))
      (fold (\<lambda>(k, r). store_ask_record k r) (in_order (p_asks p))
      (fold (\<lambda>(k, r). store_bid_record k r) (in_order (p_bids p))
      (fold (\<lambda>(i, r). store_balance_record X r) (p_balances p)
      (fold (\<lambda>(i, r). store_account_record X r) (p_accounts p)
      (fold (\<lambda>(i, r). store_asset_record r) (p_assets p)
      (fold (\<lambda>(i, v). set_property i v) (p_properties p) c)))))))) = Inr c9"
    and c': "c' = set_dirty_markets (p_dirty_markets p) (set_market_transactions (p_market_transactions p)
      (fold (\<lambda>(k, v). store_burn_record k v) (in_order (p_burns p))
      (fold (\<lambda>(t, ops). fold store_recent_operation ops) (in_order (p_recent_operations p))
      (fold (\<lambda>(k, r). set_feed r) (in_order (p_feeds p))
      (fold (\<lambda>(k, r). store_market_status r) (in_order (p_market_statuses p))
      (fold (\<lambda>(k, r). store_market_history_record k r) (in_order (p_market_history p))
      (fold (\<lambda>(t, r). store_slot_record r) (in_order (p_slots p))
      (fold (\<lambda>(i, s). store_delegate_slate i s) (p_slates p) c9))))))))"
    by (auto simp: apply_changes_def Let_def bindE_Inr_iff)
  note frames = frame_write_transactions [OF t] and okD = ok [unfolded pending_ok_def]
  show "asset_view c' = asset_view (Pending p c)"
    unfolding asset_view_pending c' using okD by (simp add: set_dirty_markets_def frames write_assets)
  show "balance_view c' = balance_view (Pending p c)"
    unfolding balance_view_pending c' using okD by (simp add: set_dirty_markets_def frames write_balances [simplified])
  show "account_view c' = account_view (Pending p c)"
    unfolding account_view_pending c' using okD by (simp add: set_dirty_markets_def frames write_accounts)
  show "slate_view c' = slate_view (Pending p c)"
    unfolding slate_view_pending c' using okD by (simp add: set_dirty_markets_def frames write_slates)
  show "bid_view c' = bid_view (Pending p c)"
    unfolding bid_view_pending c' using okD by (simp add: set_dirty_markets_def frames write_bids)
  show "ask_view c' = ask_view (Pending p c)"
    unfolding ask_view_pending c' using okD by (simp add: set_dirty_markets_def frames write_asks)
  show "short_view c' = short_view (Pending p c)"
    unfolding short_view_pending c' using okD by (simp add: set_dirty_markets_def frames write_shorts)
  show "collateral_view c' = collateral_view (Pending p c)"
    unfolding collateral_view_pending c' using okD by (simp add: set_dirty_markets_def frames write_collaterals)
  show "slot_view c' = slot_view (Pending p c)"
    unfolding slot_view_pending c' using okD by (simp add: set_dirty_markets_def frames write_slots)
  show "feed_view c' = feed_view (Pending p c)"
    unfolding feed_view_pending c' using okD by (simp add: set_dirty_markets_def frames write_feeds)
  show "burn_view c' = burn_view (Pending p c)"
    unfolding burn_view_pending c' using okD by (simp add: set_dirty_markets_def frames write_burns)
qed

section \<open>Well-formed pending states\<close>

fun top_ok :: "ext \<Rightarrow> chain \<Rightarrow> bool" where
  "top_ok X (Database d) = True"
| "top_ok X (Pending p c) = pending_ok X p"

lemma pending_ok_new [simp]: "pending_ok X new_pending_state"
  by (simp add: pending_ok_def new_pending_state_def)

text \<open>Every store keeps the tables well-formed.\<close>

lemma top_ok_stores [simp, intro]:
  "top_ok X c \<Longrightarrow> top_ok X (set_property i v c)"
  "top_ok X c \<Longrightarrow> top_ok X (store_asset_record r1 c)"
  "top_ok X c \<Longrightarrow> top_ok X (store_balance_record X r2 c)"
  "top_ok X c \<Longrightarrow> top_ok X (store_account_record X r3 c)"
  "top_ok X c \<Longrightarrow> top_ok X (store_delegate_slate j s c)"
  "top_ok X c \<Longrightarrow> top_ok X (store_bid_record k o1 c)"
  "top_ok X c \<Longrightarrow> top_ok X (store_ask_record k o1 c)"
  "top_ok X c \<Longrightarrow> top_ok X (store_short_record k o1 c)"
  "top_ok X c \<Longrightarrow> top_ok X (store_collateral_record k o2 c)"
  "top_ok X c \<Longrightarrow> top_ok X (store_slot_record sl c)"
  "top_ok X c \<Longrightarrow> top_ok X (set_feed f c)"
  "top_ok X c \<Longrightarrow> top_ok X (store_burn_record b v2 c)"
  "top_ok X c \<Longrightarrow> top_ok X (store_market_status ms c)"
  "top_ok X c \<Longrightarrow> top_ok X (store_recent_operation op c)"
  "top_ok X c \<Longrightarrow> top_ok X (set_market_transactions ts c)"
  "top_ok X c \<Longrightarrow> top_ok X (store_market_history_record hk hr c)"
  by (cases c; simp add: pending_ok_def pending_set_property_def pending_store_asset_record_def pending_store_balance_record_def pending_store_account_record_def pending_store_delegate_slate_def pending_store_bid_record_def pending_store_ask_record_def pending_store_short_record_def pending_store_collateral_record_def pending_store_slot_record_def pending_set_feed_def pending_store_burn_record_def pending_store_market_status_def)+

end
