(* ===== verification/Commit_Views.thy ===== *)
theory Commit_Views
  imports Chain_Laws
begin

text \<open>
  The tables of \<^verbatim>\<open>apply_changes\<close> that are not records of accounts, balances or orders: properties,
  transactions, the history and the status of markets, the dirty markets and the trades of a block.
  Together with \<open>apply_changes_view\<close> this covers every loop of the function but the one over recent
  operations, which are a buffer of bounded length.
\<close>

section \<open>What a chain shows\<close>

definition property_view :: "chain \<Rightarrow> chain_property \<rightharpoonup> property_value" where
  "property_view c = live (\<lambda>v. v = Null_property) (\<lambda>i. case get_property c i of Inl e \<Rightarrow> None | Inr v \<Rightarrow> Some v)"

definition trx_is_null :: "transaction_record \<Rightarrow> bool" where
  "trx_is_null r \<longleftrightarrow> trx_operations (trx (trx_state r)) = []"

definition transaction_view :: "ext \<Rightarrow> chain \<Rightarrow> transaction_id_type \<rightharpoonup> transaction_record" where
  "transaction_view X c = live trx_is_null (\<lambda>i. case get_transaction X c i of Inl e \<Rightarrow> None | Inr r \<Rightarrow> r)"

definition status_view :: "chain \<Rightarrow> asset_id_type \<times> asset_id_type \<rightharpoonup> market_status" where
  "status_view c = live market_status_is_null (\<lambda>(q, b). get_market_status c q b)"

definition history_view :: "chain \<Rightarrow> market_history_key \<rightharpoonup> market_history_record" where
  "history_view c = live (\<lambda>r. volume r = 0) (get_market_history_record c)"

text \<open>The trades recorded for the block that is being added.\<close>

fun block_trades :: "chain \<Rightarrow> market_transaction list" where
  "block_trades (Database d) =
     (case map_of (market_transactions_db d) (head_block_num d + 1) of Some ts \<Rightarrow> ts | None \<Rightarrow> [])"
| "block_trades (Pending p c) = p_market_transactions p"

interpretation property_views: view_store property_view set_property "\<lambda>v. v = Null_property" "\<lambda>i v. True"
proof
  fix i v s
  show "property_view (set_property i v s) = (property_view s)(i := if v = Null_property then None else Some v)"
    by (cases s) (auto simp: property_view_def live_def fun_eq_iff db_set_property_def pending_set_property_def
        db_get_property_def of_option_def map_of_delete split: option.split)
qed

interpretation status_views: view_store status_view "\<lambda>k. store_market_status" market_status_is_null
  "\<lambda>k s. k = (quote_id s, base_id s)"
proof
  fix k s
  fix v :: market_status
  assume "k = (quote_id v, base_id v)"
  then show "status_view (store_market_status v s) = (status_view s)(k := if market_status_is_null v then None else Some v)"
    by (cases s) (auto simp: status_view_def live_def fun_eq_iff db_store_market_status_def
        pending_store_market_status_def map_of_delete split: option.split)
qed

interpretation history_views: view_store history_view store_market_history_record "\<lambda>r. volume r = 0" "\<lambda>k r. True"
proof
  fix k v s
  show "history_view (store_market_history_record k v s) = (history_view s)(k := if volume v = 0 then None else Some v)"
    by (cases s) (auto simp: history_view_def live_def fun_eq_iff map_of_delete)
qed

lemma db_store_transaction_table:
  assumes "db_store_transaction X i r d = Inr d'"
  shows "id_to_transaction_record_db d' = (if trx_is_null r then AList.delete i (id_to_transaction_record_db d)
      else AList.update i r (id_to_transaction_record_db d))"
    and "\<not> trx_is_null r \<Longrightarrow> transaction_id_hash X (trx (trx_state r)) = i"
  using assms by (auto simp: db_store_transaction_def Let_def trx_is_null_def split: if_split_asm)

lemma pending_store_transaction_table:
  assumes "pending_store_transaction X (Some c) i r p = Inr p'"
  shows "p_transactions p' = AList.update i r (p_transactions p)"
  using assms by (auto simp: pending_store_transaction_def Let_def elim!: bindE_InrE split: if_split_asm)

lemma store_transaction_view:
  assumes "store_transaction X i r c = Inr c'"
  shows "transaction_view X c' = (transaction_view X c)(i := if trx_is_null r then None else Some r)"
proof (cases c)
  case (Database d)
  obtain d' where d': "db_store_transaction X i r d = Inr d'" "c' = Database d'"
    using assms by (auto simp: Database elim!: bindE_InrE)
  note table = db_store_transaction_table [OF d'(1)]
  show ?thesis
    by (rule ext, cases "trx_is_null r")
      (simp_all add: transaction_view_def live_def Database d'(2) table map_of_delete split: option.split)
next
  case (Pending p d)
  obtain p' where p': "pending_store_transaction X (Some d) i r p = Inr p'" "c' = Pending p' d"
    using assms by (auto simp: Pending elim!: bindE_InrE)
  show ?thesis
    by (rule ext) (simp add: transaction_view_def live_def Pending p'(2) pending_store_transaction_table [OF p'(1)])
qed

lemma write_transactions_view:
  assumes "foldE (\<lambda>(i, r). store_transaction X i r) t c = Inr c'" and "distinct (map fst t)"
  shows "transaction_view X c' = overlay trx_is_null (transaction_view X c) (map_of t)"
  using assms
proof (induction t arbitrary: c)
  case Nil
  then show ?case by (auto simp: overlay_def)
next
  case (Cons x t)
  obtain i r where x: "x = (i, r)" by (cases x)
  from Cons.prems(1) obtain c1 where 1: "store_transaction X i r c = Inr c1"
    and 2: "foldE (\<lambda>(i, r). store_transaction X i r) t c1 = Inr c'"
    by (auto simp: x elim!: bindE_InrE)
  have "map_of t i = None" using Cons.prems(2) by (simp add: x map_of_eq_None_iff)
  then show ?case
    using Cons.IH [OF 2] Cons.prems(2)
    by (auto simp: x store_transaction_view [OF 1] overlay_def fun_eq_iff split: option.splits)
qed


text \<open>A pending state shows its own entries over those below, except for the history of a market.\<close>

lemma pending_views:
  "property_view (Pending p c) = overlay (\<lambda>v. v = Null_property) (property_view c) (map_of (p_properties p))"
  "transaction_view X (Pending p c) = overlay trx_is_null (transaction_view X c) (map_of (p_transactions p))"
  "status_view (Pending p c) = overlay market_status_is_null (status_view c) (map_of (p_market_statuses p))"
  by (auto simp: property_view_def transaction_view_def status_view_def live_def overlay_def fun_eq_iff
      split: option.split)

section \<open>Stores that touch none of these tables\<close>

definition side_tables :: "ext \<Rightarrow> chain \<Rightarrow>
    (chain_property \<rightharpoonup> property_value) \<times> (transaction_id_type \<rightharpoonup> transaction_record) \<times>
    (asset_id_type \<times> asset_id_type \<rightharpoonup> market_status) \<times> (market_history_key \<rightharpoonup> market_history_record)" where
  "side_tables X c = (property_view c, transaction_view X c, status_view c, history_view c)"

lemma side_tables_cong:
  assumes "get_property c' = get_property c" and "get_transaction X c' = get_transaction X c"
    and "get_market_status c' = get_market_status c" and "get_market_history_record c' = get_market_history_record c"
  shows "side_tables X c' = side_tables X c"
  by (simp add: side_tables_def property_view_def transaction_view_def status_view_def history_view_def assms)

lemma side_tables_store:
  "side_tables X (store_asset_record ar c) = side_tables X c"
  "side_tables X (store_account_record X acr c) = side_tables X c"
  "side_tables X (store_balance_record X br c) = side_tables X c"
  "side_tables X (store_bid_record k r c) = side_tables X c"
  "side_tables X (store_ask_record k r c) = side_tables X c"
  "side_tables X (store_short_record k r c) = side_tables X c"
  "side_tables X (store_collateral_record k cr c) = side_tables X c"
  "side_tables X (store_delegate_slate i sl c) = side_tables X c"
  "side_tables X (store_slot_record sr c) = side_tables X c"
  "side_tables X (set_feed f c) = side_tables X c"
  "side_tables X (store_recent_operation op c) = side_tables X c"
  "side_tables X (store_burn_record bk bv c) = side_tables X c"
  "side_tables X (set_market_transactions ts c) = side_tables X c"
  by (rule side_tables_cong; cases c; simp add: fun_eq_iff db_get_property_def db_store_asset_record_def
      db_store_account_record_def db_store_balance_record_def db_store_delegate_slate_def db_store_bid_record_def
      db_store_ask_record_def db_store_short_record_def db_store_collateral_record_def db_store_slot_record_def
      db_set_feed_def db_store_burn_record_def Let_def pending_store_asset_record_def
      pending_store_account_record_def pending_store_balance_record_def pending_store_delegate_slate_def
      pending_store_bid_record_def pending_store_ask_record_def pending_store_short_record_def
      pending_store_collateral_record_def pending_store_slot_record_def pending_set_feed_def
      pending_store_burn_record_def)+

lemma write_frame:
  assumes "\<And>x c. V (f x c) = V c"
  shows "V (fold f t c) = V c"
  using assms by (induction t arbitrary: c) simp_all

lemma side_tables_writes:
  "side_tables X (fold (\<lambda>(i, r). store_asset_record r) t1 c) = side_tables X c"
  "side_tables X (fold (\<lambda>(i, r). store_account_record X r) t2 c) = side_tables X c"
  "side_tables X (fold (\<lambda>(i, r). store_balance_record X r) t3 c) = side_tables X c"
  "side_tables X (fold (\<lambda>(k, r). store_bid_record k r) t4 c) = side_tables X c"
  "side_tables X (fold (\<lambda>(k, r). store_ask_record k r) t4 c) = side_tables X c"
  "side_tables X (fold (\<lambda>(k, r). store_short_record k r) t4 c) = side_tables X c"
  "side_tables X (fold (\<lambda>(k, r). store_collateral_record k r) t5 c) = side_tables X c"
  "side_tables X (fold (\<lambda>(i, s). store_delegate_slate i s) t6 c) = side_tables X c"
  "side_tables X (fold (\<lambda>(t, r). store_slot_record r) t7 c) = side_tables X c"
  "side_tables X (fold (\<lambda>(k, r). set_feed r) t8 c) = side_tables X c"
  "side_tables X (fold (\<lambda>(t, ops). fold store_recent_operation ops) t9 c) = side_tables X c"
  "side_tables X (fold (\<lambda>(k, v). store_burn_record k v) t10 c) = side_tables X c"
  by (rule write_frame, auto simp: side_tables_store intro!: write_frame)+

text \<open>The stores of the four tables themselves leave the other three alone.\<close>

lemma side_stores:
  "transaction_view X (set_property i v c) = transaction_view X c"
  "status_view (set_property i v c) = status_view c"
  "history_view (set_property i v c) = history_view c"
  "property_view (store_market_status st c) = property_view c"
  "transaction_view X (store_market_status st c) = transaction_view X c"
  "history_view (store_market_status st c) = history_view c"
  "property_view (store_market_history_record k r c) = property_view c"
  "transaction_view X (store_market_history_record k r c) = transaction_view X c"
  "status_view (store_market_history_record k r c) = status_view c"
  by (cases c; simp add: property_view_def transaction_view_def status_view_def history_view_def live_def fun_eq_iff
      db_get_property_def db_set_property_def pending_set_property_def db_store_market_status_def
      pending_store_market_status_def cong: option.case_cong)+

lemma side_writes:
  "transaction_view X (fold (\<lambda>(i, v). set_property i v) t1 c) = transaction_view X c"
  "status_view (fold (\<lambda>(i, v). set_property i v) t1 c) = status_view c"
  "history_view (fold (\<lambda>(i, v). set_property i v) t1 c) = history_view c"
  "property_view (fold (\<lambda>(k, s). store_market_status s) t2 c) = property_view c"
  "transaction_view X (fold (\<lambda>(k, s). store_market_status s) t2 c) = transaction_view X c"
  "history_view (fold (\<lambda>(k, s). store_market_status s) t2 c) = history_view c"
  "property_view (fold (\<lambda>(k, r). store_market_history_record k r) t3 c) = property_view c"
  "transaction_view X (fold (\<lambda>(k, r). store_market_history_record k r) t3 c) = transaction_view X c"
  "status_view (fold (\<lambda>(k, r). store_market_history_record k r) t3 c) = status_view c"
  by (rule write_frame, auto simp: side_stores)+

lemma store_transaction_side:
  assumes "store_transaction X i r c = Inr c'"
  shows "property_view c' = property_view c" "status_view c' = status_view c" "history_view c' = history_view c"
proof -
  have "get_property c' = get_property c \<and> get_market_status c' = get_market_status c \<and>
      get_market_history_record c' = get_market_history_record c"
    using assms
    by (cases c) (auto simp: fun_eq_iff db_get_property_def db_store_transaction_def pending_store_transaction_def
        Let_def elim!: bindE_InrE split: if_split_asm)
  then show "property_view c' = property_view c" "status_view c' = status_view c" "history_view c' = history_view c"
    by (simp_all add: property_view_def status_view_def history_view_def)
qed

lemma write_transactions_side:
  assumes "foldE (\<lambda>(i, r). store_transaction X i r) t c = Inr c'"
  shows "property_view c' = property_view c" "status_view c' = status_view c" "history_view c' = history_view c"
  by (rule foldE_invariant [OF assms], rule refl, auto simp: store_transaction_side)+

section \<open>Committing\<close>

text \<open>The tables of a pending state have one entry per key, statuses under the key of their market.\<close>

definition side_ok :: "pending_chain_state \<Rightarrow> bool" where
  "side_ok p \<longleftrightarrow> table_ok (\<lambda>i v. True) (p_properties p) \<and> table_ok (\<lambda>i r. True) (p_transactions p) \<and>
     table_ok (\<lambda>k s. k = (quote_id s, base_id s)) (p_market_statuses p) \<and> table_ok (\<lambda>k r. True) (p_market_history p)"

lemma side_ok_new [simp]: "side_ok new_pending_state"
  by (simp add: side_ok_def new_pending_state_def)

lemma side_ok_stores:
  "side_ok p \<Longrightarrow> side_ok (pending_set_property i v p)"
  "side_ok p \<Longrightarrow> side_ok (pending_store_market_status st p)"
  "side_ok p \<Longrightarrow> side_ok (p \<lparr> p_market_history := AList.update k r (p_market_history p) \<rparr>)"
  "side_ok p \<Longrightarrow> pending_store_transaction X c j tr p = Inr p' \<Longrightarrow> side_ok p'"
  by (auto simp: side_ok_def pending_set_property_def pending_store_market_status_def pending_store_transaction_def
      Let_def elim!: bindE_InrE split: if_split_asm option.split_asm)

lemma side_ok_other_stores:
  "side_ok (pending_store_asset_record ar p) = side_ok p"
  "side_ok (pending_store_balance_record X br p) = side_ok p"
  "side_ok (pending_store_account_record X acr p) = side_ok p"
  by (simp_all add: side_ok_def pending_store_asset_record_def pending_store_balance_record_def
      pending_store_account_record_def Let_def)

lemma in_order_ok: "table_ok fits t \<Longrightarrow> distinct (map fst (in_order t)) \<and> (\<forall>(k, v) \<in> set (in_order t). fits k v)"
  by (simp add: table_ok_def)

lemma block_trades_set [simp]: "block_trades (set_property i v c) = block_trades c"
  by (cases c; cases "v = Null_property") (simp_all add: db_set_property_def pending_set_property_def)

lemma block_trades_put [simp]: "block_trades (set_market_transactions ts c) = ts"
  by (cases c; cases "ts = []") (simp_all add: map_of_delete)

lemma apply_changes_side:
  assumes app: "apply_changes X p c = Inr c'" and ok: "side_ok p"
  shows "property_view c' = (property_view (Pending p c))(dirty_markets \<mapsto> Markets_property (p_dirty_markets p))"
    and "transaction_view X c' = transaction_view X (Pending p c)"
    and "status_view c' = status_view (Pending p c)"
    and "history_view c' = overlay (\<lambda>r. volume r = 0) (history_view c) (map_of (p_market_history p))"
    and "block_trades c' = p_market_transactions p"
proof -
  let ?c1 = "fold (\<lambda>(i, v). set_property i v) (p_properties p) c"
  let ?c8 = "fold (\<lambda>(k, r). store_collateral_record k r) (in_order (p_collateral p))
      (fold (\<lambda>(k, r). store_short_record k r) (in_order (p_shorts p))
      (fold (\<lambda>(k, r). store_ask_record k r) (in_order (p_asks p))
      (fold (\<lambda>(k, r). store_bid_record k r) (in_order (p_bids p))
      (fold (\<lambda>(i, r). store_balance_record X r) (p_balances p)
      (fold (\<lambda>(i, r). store_account_record X r) (p_accounts p)
      (fold (\<lambda>(i, r). store_asset_record r) (p_assets p) ?c1))))))"
  obtain c9 where t: "foldE (\<lambda>(i, r). store_transaction X i r) (p_transactions p) ?c8 = Inr c9"
    and c': "c' = set_property dirty_markets (Markets_property (p_dirty_markets p))
      (set_market_transactions (p_market_transactions p)
      (fold (\<lambda>(k, v). store_burn_record k v) (in_order (p_burns p))
      (fold (\<lambda>(t, ops). fold store_recent_operation ops) (in_order (p_recent_operations p))
      (fold (\<lambda>(k, r). set_feed r) (in_order (p_feeds p))
      (fold (\<lambda>(k, r). store_market_status r) (in_order (p_market_statuses p))
      (fold (\<lambda>(k, r). store_market_history_record k r) (in_order (p_market_history p))
      (fold (\<lambda>(t, r). store_slot_record r) (in_order (p_slots p))
      (fold (\<lambda>(i, s). store_delegate_slate i s) (p_slates p) c9))))))))"
    using app by (auto simp: apply_changes_def Let_def bindE_Inr_iff set_dirty_markets_def)
  have 8: "side_tables X ?c8 = side_tables X ?c1" by (simp only: side_tables_writes)
  note V = side_tables_store side_tables_writes
  note frames = V [unfolded side_tables_def prod.inject]
  note okD = ok [unfolded side_ok_def]
  note props = property_views.view_write [of "p_properties p" c]
  show "block_trades c' = p_market_transactions p" by (simp add: c')
  show "property_view c' = (property_view (Pending p c))(dirty_markets \<mapsto> Markets_property (p_dirty_markets p))"
    using okD by (simp add: c' pending_views property_views.view_put frames side_writes write_transactions_side [OF t]
        property_views.view_write table_ok_def)
  show "transaction_view X c' = transaction_view X (Pending p c)"
    using okD by (simp add: c' pending_views side_stores frames side_writes write_transactions_view [OF t] table_ok_def)
  show "status_view c' = status_view (Pending p c)"
    using in_order_ok okD by (simp add: c' pending_views side_stores frames side_writes write_transactions_side [OF t]
        status_views.view_write table_ok_def map_of_in_order)
  show "history_view c' = overlay (\<lambda>r. volume r = 0) (history_view c) (map_of (p_market_history p))"
    using okD by (simp add: c' side_stores frames side_writes write_transactions_side [OF t]
        history_views.view_write table_ok_def map_of_in_order)
qed

end
