(* ===== verification/Price_Text.thy ===== *)
theory Price_Text
  imports Asset
begin

text \<open>
  The decimal notation of a price ratio: \<^verbatim>\<open>price::set_ratio_from_string\<close> and
  \<^verbatim>\<open>price::ratio_string\<close> of \<^verbatim>\<open>asset.cpp\<close>. The lemmas lead to \<open>ratio_string_roundtrip\<close>: what
  \<open>ratio_string\<close> prints, \<open>set_ratio_from_string\<close> reads back as the same ratio, consuming the
  whole string, for every ratio whose integer part fits into 64 bits.
\<close>

section \<open>Definitions\<close>

text \<open>
  Reading a ratio from its decimal notation. The loops stop at the first character that is not
  a digit; the number of characters read is returned with the ratio. Numbers wrap at their
  widths. Dividing by a magnitude that wrapped to zero stops the program: \<open>None\<close>.
\<close>

definition is_digit :: "char \<Rightarrow> bool" where
  "is_digit c \<longleftrightarrow> 48 \<le> (of_char c :: nat) \<and> (of_char c :: nat) \<le> 57"

definition digit_value :: "char \<Rightarrow> 64 word" where
  "digit_value c = of_nat (of_char c - 48)"

fun read_int_part :: "64 word \<Rightarrow> string \<Rightarrow> 64 word \<times> string" where
  "read_int_part int_part [] = (int_part, [])"
| "read_int_part int_part (c # cs) =
     (if is_digit c then read_int_part (int_part * 10 + digit_value c) cs else (int_part, c # cs))"

fun read_frac_part :: "64 word \<Rightarrow> 64 word \<Rightarrow> string \<Rightarrow> 64 word \<times> 64 word \<times> string" where
  "read_frac_part frac_part frac_magnitude [] = (frac_part, frac_magnitude, [])"
| "read_frac_part frac_part frac_magnitude (c # cs) =
     (if is_digit c then read_frac_part (frac_part * 10 + digit_value c) (frac_magnitude * 10) cs
      else (frac_part, frac_magnitude, c # cs))"

definition set_ratio_from_string :: "'x fc_lib_scheme \<Rightarrow> string \<Rightarrow> (128 word \<times> nat) option" where
  "set_ratio_from_string X ratio_str =
     (let (r0, rest) =
        (case ratio_str of
           c # cs \<Rightarrow>
             if is_digit c then
               let (int_part, rest) = read_int_part (digit_value c) cs
               in (uint128_mul X (uint128_of_uint64 X int_part)
                                 (uint128_of_uint64 X BTS_PRICE_PRECISION), rest)
             else (0, ratio_str)
         | [] \<Rightarrow> (0, ratio_str))
      in case rest of
           CHR ''.'' # c # cs \<Rightarrow>
             if is_digit c then
               let (frac_part, frac_magnitude, rest') = read_frac_part (digit_value c) 10 cs
               in if frac_magnitude = 0 then None
                  else Some (uint128_add X r0
                               (uint128_mul X (uint128_of_int64 X frac_part)
                                  (uint128_of_uint64 X (BTS_PRICE_PRECISION div frac_magnitude))),
                             length ratio_str - length rest')
             else Some (r0, length ratio_str - length (c # cs))
         | CHR ''.'' # [] \<Rightarrow> Some (r0, length ratio_str)
         | _ \<Rightarrow> Some (r0, length ratio_str - length rest))"

definition pop_back_zeros :: "string \<Rightarrow> string" where
  "pop_back_zeros number = rev (dropWhile (\<lambda>c. c = CHR ''0'') (rev number))"

definition ratio_string :: "'x fc_lib_scheme \<Rightarrow> price \<Rightarrow> exn + string" where
  "ratio_string X p =
     bindE (uint128_div X (ratio p) (uint128_of_uint64 X BTS_PRICE_PRECISION)) (\<lambda>q.
     bindE (uint128_mod X (ratio p) (uint128_of_uint64 X BTS_PRICE_PRECISION)) (\<lambda>m.
     Inr (pop_back_zeros
            (uint128_string X q @ ''.'' @
             drop 1 (uint128_string X (uint128_add X m (uint128_of_uint64 X BTS_PRICE_PRECISION)))))))"

text \<open>The number a string of digits denotes, and a number padded to a fixed number of digits.\<close>

definition digits_value :: "string \<Rightarrow> nat" where
  "digits_value s = foldl (\<lambda>a c. a * 10 + (of_char c - 48)) 0 s"

primrec padded :: "nat \<Rightarrow> nat \<Rightarrow> string" where
  "padded 0 m = []"
| "padded (Suc k) m = padded k (m div 10) @ [digit_char (m mod 10)]"

section \<open>Digits\<close>

lemma digits_value_snoc [simp]:
  "digits_value [] = 0" "digits_value (s @ [c]) = digits_value s * 10 + (of_char c - 48)"
  by (simp_all add: digits_value_def)

lemma is_digit_digit_char [simp]: "d < 10 \<Longrightarrow> is_digit (digit_char d)"
  by (simp add: is_digit_def digit_char_code)

lemma decimal_digits: "list_all is_digit (decimal n)"
  by (induction n rule: decimal.induct) (subst decimal.simps, simp)

lemma digits_value_decimal: "digits_value (decimal n) = n"
proof (induction n rule: decimal.induct)
  case (1 n)
  then show ?case
    by (subst decimal.simps) (auto simp: digit_char_code digits_value_def)
qed

lemma digit_char_1: "digit_char (Suc 0) = CHR ''1''"
proof -
  have "of_char (digit_char 1) = (of_char (CHR ''1'') :: nat)" by (simp add: digit_char_def)
  then show ?thesis by (simp only: of_char_eq_iff) simp
qed

lemma decimal_padded: "m < 10 ^ k \<Longrightarrow> decimal (10 ^ k + m) = CHR ''1'' # padded k m"
proof (induction k arbitrary: m)
  case 0
  then show ?case by (simp add: decimal.simps digit_char_1)
next
  case (Suc k)
  have "m div 10 < 10 ^ k" using Suc.prems by (simp add: less_mult_imp_div_less mult.commute)
  moreover have "(10 ^ Suc k + m) div 10 = 10 ^ k + m div 10" by simp
  moreover have "(10 ^ Suc k + m) mod 10 = m mod 10" by (simp add: mod_add_eq)
  moreover have "\<not> 10 ^ Suc k + m < (10::nat)"
    using one_le_power [of "10 :: nat" k] unfolding power_Suc by linarith
  ultimately show ?case using Suc.IH [of "m div 10"] by (subst decimal.simps) simp
qed

lemma padded_digits: "list_all is_digit (padded k m)"
  by (induction k arbitrary: m) auto

lemma length_padded [simp]: "length (padded k m) = k"
  by (induction k arbitrary: m) auto

lemma digits_value_padded: "m < 10 ^ k \<Longrightarrow> digits_value (padded k m) = m"
proof (induction k arbitrary: m)
  case (Suc k)
  have "m div 10 < 10 ^ k" using Suc.prems by (simp add: less_mult_imp_div_less mult.commute)
  with Suc.IH show ?case by (simp add: digit_char_code)
qed simp

lemma digits_value_zeros:
  "digits_value (s @ replicate k (CHR ''0'')) = digits_value s * 10 ^ k"
proof (induction k)
  case (Suc k)
  then show ?case
    using digits_value_snoc(2) [of "s @ replicate k (CHR ''0'')" "CHR ''0''"]
    by (simp add: replicate_append_same)
qed simp

lemma strip_zeros:
  obtains k where "s = pop_back_zeros s @ replicate k (CHR ''0'')"
proof -
  let ?Z = "\<lambda>c. c = CHR ''0''"
  have "rev s = takeWhile ?Z (rev s) @ dropWhile ?Z (rev s)" by simp
  then have "s = pop_back_zeros s @ rev (takeWhile ?Z (rev s))"
    unfolding pop_back_zeros_def by (metis rev_append rev_rev_ident)
  moreover have "replicate (length (rev (takeWhile ?Z (rev s)))) (CHR ''0'') = rev (takeWhile ?Z (rev s))"
    by (rule replicate_length_same) (auto dest: set_takeWhileD)
  ultimately show ?thesis using that by metis
qed

lemma pop_back_zeros_point:
  "pop_back_zeros (s @ CHR ''.'' # t) = s @ CHR ''.'' # pop_back_zeros t"
  unfolding pop_back_zeros_def by (simp add: dropWhile_append)

lemma read_int_digits:
  assumes "list_all is_digit ds" and "\<forall>c cs. rest = c # cs \<longrightarrow> \<not> is_digit c"
  shows "read_int_part (of_nat n) (ds @ rest) =
    (of_nat (foldl (\<lambda>a c. a * 10 + (of_char c - 48)) n ds), rest)"
  using assms
proof (induction ds arbitrary: n)
  case Nil
  then show ?case by (cases rest) auto
next
  case (Cons c ds)
  then show ?case using Cons.IH [of "n * 10 + (of_char c - 48)"]
    by (simp add: digit_value_def)
qed

lemma read_frac_digits:
  assumes "list_all is_digit ds"
  shows "read_frac_part (of_nat n) (of_nat m) ds =
    (of_nat (foldl (\<lambda>a c. a * 10 + (of_char c - 48)) n ds), of_nat (m * 10 ^ length ds), [])"
  using assms
proof (induction ds arbitrary: n m)
  case (Cons c ds)
  then show ?case using Cons.IH [of "n * 10 + (of_char c - 48)" "m * 10"]
    by (simp add: digit_value_def mult.assoc)
qed simp


lemma digits_value_less: "list_all is_digit ds \<Longrightarrow> digits_value ds < 10 ^ length ds"
proof (induction ds rule: rev_induct)
  case (snoc c ds)
  then show ?case by (auto simp: is_digit_def)
qed simp

lemma unat_of_nat_64: "n < 2 ^ 64 \<Longrightarrow> unat (of_nat n :: 64 word) = n"
  by (simp add: unat_of_nat take_bit_nat_eq_self)

lemma ucast_of_nat_64:
  assumes "n < 2 ^ 64" shows "(ucast (of_nat n :: 64 word) :: 128 word) = of_nat n"
proof -
  have "(ucast (of_nat n :: 64 word) :: 128 word) = of_nat (unat (of_nat n :: 64 word))" by simp
  then show ?thesis by (simp only: unat_of_nat_64 [OF assms])
qed

lemma unat_of_nat_128: "n < 2 ^ 128 \<Longrightarrow> unat (of_nat n :: 128 word) = n"
  by (simp add: unat_of_nat take_bit_nat_eq_self)

lemma uint_of_nat_128: "n < 2 ^ 128 \<Longrightarrow> uint (of_nat n :: 128 word) = int n"
  by (simp only: uint_nat unat_of_nat_128)

lemma uint128_mul_of_nat:
  assumes "uint128_ok X" and "m < 2 ^ 64" and "n < 2 ^ 64"
  shows "uint128_mul X (ucast (of_nat m :: 64 word)) (ucast (of_nat n :: 64 word)) = of_nat (m * n)"
proof -
  have "m * n < 2 ^ 64 * 2 ^ 64" using assms(2,3) by (intro mult_strict_mono') auto
  then have "int m * int n < 2 ^ 128" by (simp flip: of_nat_mult)
  moreover have "m < 2 ^ 128" "n < 2 ^ 128" using assms(2,3) by simp_all
  ultimately show ?thesis using uint128_rules(5) [OF assms(1), of "of_nat m" "of_nat n"]
    by (simp only: ucast_of_nat_64 [OF assms(2)] ucast_of_nat_64 [OF assms(3)] uint_of_nat_128) simp
qed

lemma price_precision_of_nat: "BTS_PRICE_PRECISION = of_nat (10 ^ 18)"
  by (simp add: BTS_PRICE_PRECISION_def BTS_BLOCKCHAIN_MAX_SHARES_def)

text \<open>Reading the digits of a number and of a fraction.\<close>

lemma read_int_decimal:
  assumes "decimal q = c # cs"
  shows "is_digit c" "read_int_part (digit_value c) (cs @ CHR ''.'' # t) = (of_nat q, CHR ''.'' # t)"
proof -
  have c: "is_digit c" "list_all is_digit cs" using decimal_digits [of q] assms by auto
  then show "is_digit c" by simp
  have "read_int_part (digit_value c) (cs @ CHR ''.'' # t) =
      (of_nat (digits_value (c # cs)), CHR ''.'' # t)"
    using read_int_digits [OF c(2), of "CHR ''.'' # t" "of_char c - 48"]
    by (simp add: digits_value_def is_digit_def digit_value_def)
  then show "read_int_part (digit_value c) (cs @ CHR ''.'' # t) = (of_nat q, CHR ''.'' # t)"
    by (simp add: digits_value_decimal flip: assms)
qed

lemma read_frac_digits_value:
  assumes "list_all is_digit (c # cs)"
  shows "read_frac_part (digit_value c) 10 cs =
    (of_nat (digits_value (c # cs)), of_nat (10 ^ length (c # cs)), [])"
  using read_frac_digits [of cs "of_char c - 48" 10] assms
  by (simp add: digits_value_def digit_value_def)

lemma set_ratio_no_fraction:
  assumes "uint128_ok X" and "q < 2 ^ 64"
  shows "set_ratio_from_string X (decimal q @ CHR ''.'' # []) =
    Some (of_nat (q * 10 ^ 18), length (decimal q) + 1)"
proof -
  obtain c cs where d: "decimal q = c # cs" by (cases "decimal q") auto
  note mul = uint128_mul_of_nat [OF assms, of "10 ^ 18", folded price_precision_of_nat]
  show ?thesis
    using read_int_decimal(1) [OF d] read_int_decimal(2) [OF d, of "[]"] mul uint128_rules(1) [OF assms(1)]
    by (simp add: set_ratio_from_string_def d)
qed

lemma set_ratio_fraction:
  assumes ok: "uint128_ok X" and q: "q < 2 ^ 64" and t: "list_all is_digit t" "t \<noteq> []"
    and len: "length t + k = 18"
    and fit: "q * 10 ^ 18 + digits_value t * 10 ^ k < 2 ^ 128"
  shows "set_ratio_from_string X (decimal q @ CHR ''.'' # t) =
    Some (of_nat (q * 10 ^ 18 + digits_value t * 10 ^ k), length (decimal q) + 1 + length t)"
proof -
  obtain c cs where d: "decimal q = c # cs" by (cases "decimal q") auto
  obtain e es where te: "t = e # es" using t(2) by (cases t) auto
  have dv: "digits_value t < 10 ^ length t" using t(1) by (rule digits_value_less)
  have lt: "length t \<le> 18" using len by simp
  then have p18: "(10::nat) ^ length t \<le> 10 ^ 18" by (intro power_increasing) auto
  have dv18: "digits_value t < 10 ^ 18" using dv p18 by linarith
  have k18: "(10::nat) ^ k \<le> 10 ^ 18" using len by (intro power_increasing) auto
  have mag: "(of_nat (10 ^ length t) :: 64 word) \<noteq> 0"
  proof
    assume "(of_nat (10 ^ length t) :: 64 word) = 0"
    then have "unat (of_nat (10 ^ length t) :: 64 word) = 0" by simp
    then show False using p18 by (subst (asm) unat_of_nat_64) auto
  qed
  have quot: "BTS_PRICE_PRECISION div of_nat (10 ^ length t) = of_nat (10 ^ k)"
  proof -
    have split: "(10::nat) ^ 18 = 10 ^ k * 10 ^ length t"
      using len by (simp flip: power_add add: add.commute)
    have "unat (of_nat (10 ^ k) :: 64 word) * unat (of_nat (10 ^ length t) :: 64 word) = 10 ^ 18"
      using k18 p18 split by (subst (1 2) unat_of_nat_64) auto
    then have "unat (of_nat (10 ^ k) :: 64 word) * unat (of_nat (10 ^ length t) :: 64 word) < 2 ^ LENGTH(64)"
      by simp
    moreover have "(0 :: 64 word) < of_nat (10 ^ length t)" using mag by (simp only: word_gt_0)
    ultimately show ?thesis
      unfolding price_precision_of_nat split of_nat_mult by (intro word_div_mult)
  qed
  have nonneg: "0 \<le> sint (of_nat (digits_value t) :: 64 word)"
    using dv18 sint64_eq [of "int (digits_value t)"] by (simp add: INT64_MIN_def INT64_MAX_def)
  note mul1 = uint128_mul_of_nat [OF ok q, of "10 ^ 18", folded price_precision_of_nat]
  have mul2: "uint128_mul X (ucast (of_nat (digits_value t) :: 64 word)) (ucast (of_nat (10 ^ k) :: 64 word)) =
      of_nat (digits_value t * 10 ^ k)"
    using dv18 k18 by (intro uint128_mul_of_nat [OF ok]) auto
  have add: "uint128_add X (of_nat (q * 10 ^ 18)) (of_nat (digits_value t * 10 ^ k)) =
      of_nat (q * 10 ^ 18 + digits_value t * 10 ^ k)"
  proof -
    have "uint (of_nat (q * 10 ^ 18) :: 128 word) = int (q * 10 ^ 18)"
      "uint (of_nat (digits_value t * 10 ^ k) :: 128 word) = int (digits_value t * 10 ^ k)"
      using fit by (intro uint_of_nat_128; linarith)+
    then show ?thesis using fit uint128_rules(3) [OF ok, of "of_nat (q * 10 ^ 18)" "of_nat (digits_value t * 10 ^ k)"]
      by (simp add: of_nat_add flip: of_nat_mult of_nat_power)
  qed
  have frac: "read_frac_part (digit_value e) 10 es = (of_nat (digits_value t), of_nat (10 ^ length t), [])"
    using read_frac_digits_value [of e es] t(1) te by simp
  show ?thesis
    using read_int_decimal(1) [OF d] read_int_decimal(2) [OF d, of t] frac mag nonneg t(1) mul1 mul2 add uint128_rules(1,2) [OF ok]
      quot [unfolded te] by (simp add: set_ratio_from_string_def d te)
qed

text \<open>The decimal notation of a ratio reads back as the ratio.\<close>

lemma ratio_string_Inr:
  assumes "uint128_ok X"
  shows "ratio_string X p =
    Inr (decimal (unat (ratio p) div 10 ^ 18) @ CHR ''.'' #
           pop_back_zeros (padded 18 (unat (ratio p) mod 10 ^ 18)))"
proof -
  let ?m = "unat (ratio p) mod 10 ^ 18"
  let ?P = "of_nat (10 ^ 18) :: 128 word"
  have P: "unat ?P = 10 ^ 18" by simp
  have Pz: "?P \<noteq> 0" by (metis P power_eq_0_iff unat_0 zero_neq_numeral)
  have pp: "uint128_of_uint64 X BTS_PRICE_PRECISION = ?P"
    unfolding uint128_rules(1) [OF assms] price_precision_of_nat by (rule ucast_of_nat_64) simp
  have m: "?m < 10 ^ 18" by simp
  have "unat (ratio p mod ?P) = ?m" by (simp only: unat_mod P)
  then have um: "uint (ratio p mod ?P) = int ?m" by (simp only: uint_nat)
  have "uint (ratio p mod ?P) + uint ?P < 2 ^ 128" unfolding um using m by (simp add: uint_nat P)
  then have add: "uint128_add X (ratio p mod ?P) ?P = ratio p mod ?P + ?P"
    by (rule uint128_rules(3) [OF assms])
  have sum: "unat (ratio p mod ?P + ?P) = 10 ^ 18 + ?m"
    using m by (subst unat_add_lem [THEN iffD1]) (simp_all add: unat_mod P)
  show ?thesis
    unfolding ratio_string_def pp uint128_rules(6) [OF assms Pz] uint128_rules(7) [OF assms Pz]
      bindE_simps add uint128_rules(10) [OF assms] sum decimal_padded [OF m]
    by (simp add: pop_back_zeros_point unat_div)
qed

lemma ratio_string_roundtrip:
  assumes ok: "uint128_ok X" and fit: "unat (ratio p) div 10 ^ 18 < 2 ^ 64"
  obtains s where "ratio_string X p = Inr s" and "set_ratio_from_string X s = Some (ratio p, length s)"
proof -
  define q m where "q = unat (ratio p) div 10 ^ 18" and "m = unat (ratio p) mod 10 ^ 18"
  have qm: "q * 10 ^ 18 + m = unat (ratio p)" by (simp add: q_def m_def)
  have m: "m < 10 ^ 18" by (simp add: m_def)
  define t where "t = pop_back_zeros (padded 18 m)"
  obtain k where k: "padded 18 m = t @ replicate k (CHR ''0'')"
    unfolding t_def by (rule strip_zeros)
  have len: "length t + k = 18" using arg_cong [OF k, of length] by simp
  have val: "digits_value t * 10 ^ k = m"
    using arg_cong [OF k, of digits_value] m by (simp add: digits_value_zeros digits_value_padded)
  have digits: "list_all is_digit t" using padded_digits [of 18 m] k by simp
  have str: "ratio_string X p = Inr (decimal q @ CHR ''.'' # t)"
    using ratio_string_Inr [OF ok, of p] by (simp add: q_def m_def t_def)
  have "set_ratio_from_string X (decimal q @ CHR ''.'' # t) =
      Some (of_nat (q * 10 ^ 18 + m), length (decimal q) + 1 + length t)"
  proof (cases "t = []")
    case True
    then have "m = 0" using val by simp
    with True show ?thesis using set_ratio_no_fraction [OF ok fit] by (simp add: q_def)
  next
    case False
    have "q * 10 ^ 18 + digits_value t * 10 ^ k < 2 ^ 128"
      unfolding val qm using unsigned_less [of "ratio p"] by simp
    from set_ratio_fraction [OF ok fit [folded q_def] digits False len this]
    show ?thesis by (simp only: val)
  qed
  then have "set_ratio_from_string X (decimal q @ CHR ''.'' # t) =
      Some (ratio p, length (decimal q @ CHR ''.'' # t))"
    unfolding qm by simp
  with str show ?thesis by (rule that)
qed

text \<open>
  C36. A printed ratio is read back: printing the ratio of a price and parsing the string gives the same
  128-bit number and consumes the whole string, for every ratio whose whole part fits 64 bits.
\<close>

theorem printed_ratio_is_read_back:
  assumes "uint128_ok X" and "unat (ratio p) div 10 ^ 18 < 2 ^ 64"
  shows "\<exists>s. ratio_string X p = Inr s \<and> set_ratio_from_string X s = Some (ratio p, length s)"
  using ratio_string_roundtrip [OF assms] by blast

theorem printed_ratio_is_read_back_witness:
  "\<exists>s. ratio_string fc_std (Price 12500000000000000000 0 1) = Inr s \<and>
     set_ratio_from_string fc_std s = Some (12500000000000000000, length s)"
  using printed_ratio_is_read_back [OF uint128_ok_std, of "Price 12500000000000000000 0 1"] by simp

end
