(* ===== verification/Eval_State.thy ===== *)
theory Eval_State
  imports Chain_Interface
begin

text \<open>
  The evaluation of one transaction: \<^verbatim>\<open>transaction_evaluation_state.cpp\<close>. The state extends the
  serialised part with the chain it works on, the chain id, the flag that skips signature
  checks and the index of the current operation. An operation that raises leaves no state: the
  caller discards the pending chain state the operations worked on.
\<close>

record eval_state = evaluation +
  current_state :: chain
  eval_chain_id :: digest_type
  skip_signature_check :: bool
  current_op_index :: nat

definition new_eval_state :: "chain \<Rightarrow> digest_type \<Rightarrow> eval_state" where
  "new_eval_state c cid = evaluation.extend new_evaluation
     \<lparr> current_state = c, eval_chain_id = cid, skip_signature_check = False, current_op_index = 0 \<rparr>"

definition reset :: "eval_state \<Rightarrow> eval_state" where
  "reset e = e \<lparr> signed_keys := [], trx_balance := [], deposits := [], withdraws := [],
     net_delegate_votes := [], required_deposits := [], validation_error := None \<rparr>"

section \<open>Signatures\<close>

definition check_signature :: "eval_state \<Rightarrow> address \<Rightarrow> bool" where
  "check_signature e a \<longleftrightarrow> skip_signature_check e \<or> a \<in> set (signed_keys e)"

function any_parent_has_signed :: "ext \<Rightarrow> eval_state \<Rightarrow> string \<Rightarrow> bool" where
  "any_parent_has_signed X e name =
     (case get_parent_account_name name of
        None \<Rightarrow> False
      | Some parent_name \<Rightarrow>
          (case get_account_record_of_name (current_state e) parent_name of
             None \<Rightarrow> any_parent_has_signed X e parent_name
           | Some parent_record \<Rightarrow>
               if is_retracted parent_record then any_parent_has_signed X e parent_name
               else if check_signature e (address_of_key X (active_key parent_record)) then True
               else if check_signature e (address_of_key X (owner_key parent_record)) then True
               else any_parent_has_signed X e parent_name))"
  by pat_completeness auto

termination
  by (relation "measure (\<lambda>(X, e, name). length name)") (auto dest: parent_shorter)

declare any_parent_has_signed.simps [simp del]

definition account_or_any_parent_has_signed :: "ext \<Rightarrow> eval_state \<Rightarrow> account_record \<Rightarrow> bool" where
  "account_or_any_parent_has_signed X e r =
     (if \<not> is_retracted r \<and>
         (check_signature e (address_of_key X (active_key r)) \<or>
          check_signature e (address_of_key X (owner_key r)))
      then True
      else any_parent_has_signed X e (account_name r))"

section \<open>Checks\<close>

definition verify_delegate_id :: "eval_state \<Rightarrow> account_id_type \<Rightarrow> exn + unit" where
  "verify_delegate_id e i =
     (case get_account_record (current_state e) i of
        None \<Rightarrow> Inl unknown_account_id
      | Some r \<Rightarrow> if \<not> is_delegate r then Inl not_a_delegate else Inr ())"

definition validate_asset :: "eval_state \<Rightarrow> asset \<Rightarrow> exn + unit" where
  "validate_asset e a =
     (if get_asset_record (current_state e) (asset_id a) = None then Inl unknown_asset_id else Inr ())"

section \<open>Balances of the transaction\<close>

text \<open>Adding an amount to an entry of a table of assets, creating the entry if there is none.\<close>

definition accumulate :: "'k \<Rightarrow> asset \<Rightarrow> ('k, asset) table \<Rightarrow> exn + ('k, asset) table" where
  "accumulate k a t =
     (case map_of t k of
        None \<Rightarrow> Inr (AList.update k a t)
      | Some v \<Rightarrow> bindE (asset_add v a) (\<lambda>v'. Inr (AList.update k v' t)))"

definition add_required_deposit :: "ext \<Rightarrow> address \<Rightarrow> asset \<Rightarrow> eval_state \<Rightarrow> exn + eval_state" where
  "add_required_deposit X owner_addr a e =
     (case trx_delegate_slate_id (trx e) of
        None \<Rightarrow> Inl assert_failed
      | Some s \<Rightarrow>
          bindE (accumulate (address_of_condition X
                   \<lparr> condition_asset_id = asset_id a, delegate_slate_id = s,
                     condition_data = Withdraw_with_signature owner_addr None \<rparr>) a (required_deposits e))
            (\<lambda>t. Inr (e \<lparr> required_deposits := t \<rparr>)))"

definition balance_of :: "eval_state \<Rightarrow> asset_id_type \<Rightarrow> share_type" where
  "balance_of e i = (case map_of (trx_balance e) i of Some v \<Rightarrow> v | None \<Rightarrow> 0)"

definition sub_balance :: "balance_id_type \<Rightarrow> asset \<Rightarrow> eval_state \<Rightarrow> exn + eval_state" where
  "sub_balance bid a e =
     bindE (if bid \<noteq> null_address then accumulate bid a (provided_deposits e)
            else Inr (provided_deposits e)) (\<lambda>pd.
     bindE (accumulate (asset_id a) a (deposits e)) (\<lambda>ds.
     Inr (e \<lparr> provided_deposits := pd,
              deposits := ds,
              trx_balance :=
                (case map_of (trx_balance e) (asset_id a) of
                   Some v \<Rightarrow> AList.update (asset_id a) (v - amount a) (trx_balance e)
                 | None \<Rightarrow> AList.update (asset_id a) (- amount a) (trx_balance e)),
              deltas := AList.update (current_op_index e) a (deltas e) \<rparr>)))"

definition add_balance :: "asset \<Rightarrow> eval_state \<Rightarrow> exn + eval_state" where
  "add_balance a e =
     bindE (accumulate (asset_id a) a (withdraws e)) (\<lambda>ws.
     Inr (e \<lparr> withdraws := ws,
              trx_balance :=
                (case map_of (trx_balance e) (asset_id a) of
                   None \<Rightarrow> AList.update (asset_id a) (amount a) (trx_balance e)
                 | Some v \<Rightarrow> AList.update (asset_id a) (v + amount a) (trx_balance e)),
              deltas := AList.update (current_op_index e) (asset_neg a) (deltas e) \<rparr>))"

definition get_fees :: "eval_state \<Rightarrow> asset_id_type \<Rightarrow> share_type" where
  "get_fees e i = (case map_of (trx_balance e) i of Some v \<Rightarrow> v | None \<Rightarrow> 0)"

section \<open>Votes\<close>

definition add_vote :: "share_type \<Rightarrow> account_id_type \<Rightarrow> (account_id_type, share_type) table \<Rightarrow> (account_id_type, share_type) table" where
  "add_vote v i t = AList.update i ((case map_of t i of Some w \<Rightarrow> w | None \<Rightarrow> 0) + v) t"

text \<open>Negative votes are switched off, so a negative delegate id counts as its absolute value.\<close>

definition adjust_vote :: "slate_id_type \<Rightarrow> share_type \<Rightarrow> eval_state \<Rightarrow> exn + eval_state" where
  "adjust_vote sid amt e =
     (if sid = 0 then Inr e
      else case get_delegate_slate (current_state e) sid of
             None \<Rightarrow> Inl unknown_delegate_slate
           | Some slate \<Rightarrow>
               Inr (e \<lparr> net_delegate_votes :=
                          fold (\<lambda>d. add_vote amt \<bar>d\<bar>) slate (net_delegate_votes e) \<rparr>))"

definition update_delegate_votes :: "ext \<Rightarrow> eval_state \<Rightarrow> exn + eval_state" where
  "update_delegate_votes X e =
     foldE (\<lambda>(i, v) e.
       case get_account_record (current_state e) i of
         None \<Rightarrow> Inl assert_failed
       | Some r \<Rightarrow> bindE (adjust_votes_for v r) (\<lambda>r'.
           Inr (e \<lparr> current_state := store_account_record X r' (current_state e) \<rparr>)))
       (net_delegate_votes e) e"

section \<open>Fees\<close>

definition validate_required_fee :: "eval_state \<Rightarrow> exn + unit" where
  "validate_required_fee e =
     bindE (case map_of (trx_balance e) 0 of
              Some v \<Rightarrow> asset_add (asset_of 0 0) (asset_of v 0)
            | None \<Rightarrow> Inr (asset_of 0 0)) (\<lambda>xts_fees.
     bindE (asset_add xts_fees (alt_fees_paid e)) (\<lambda>total.
     if asset_less total (required_fees e) then Inl insufficient_fee else Inr ()))"

text \<open>The first pass over the balances: fees in market-issued assets count two thirds of their value.\<close>

definition convert_fee :: "ext \<Rightarrow> asset_id_type \<times> share_type \<Rightarrow> eval_state \<Rightarrow> exn + eval_state" where
  "convert_fee X fee e =
     (if sint (snd fee) < 0 then Inl negative_fee
      else if fst fee = 0 \<or> snd fee = 0 then Inr e
      else case get_asset_record (current_state e) (fst fee) of
             None \<Rightarrow> Inl unknown_asset_id
           | Some r \<Rightarrow>
               if \<not> is_market_issued r then Inr e
               else bindE (get_median_delegate_price (current_state e) (fst fee) 0) (\<lambda>median.
                    case median of
                      None \<Rightarrow> Inr e
                    | Some pr \<Rightarrow>
                        bindE (asset_mul_price X (asset_of (sdiv64 (snd fee * 2) 3) (fst fee)) pr) (\<lambda>v.
                        bindE (asset_add (alt_fees_paid e) v) (\<lambda>t.
                        Inr (e \<lparr> alt_fees_paid := t \<rparr>)))))"

text \<open>The second pass: what is left of each asset is collected.\<close>

definition collect_fee :: "asset_id_type \<times> share_type \<Rightarrow> eval_state \<Rightarrow> exn + eval_state" where
  "collect_fee fee e =
     (if sint (snd fee) < 0 then Inl negative_fee
      else if sint (snd fee) > 0 then
        (case get_asset_record (current_state e) (fst fee) of
           None \<Rightarrow> Inl unknown_asset_id
         | Some r \<Rightarrow>
             Inr (e \<lparr> current_state :=
                        store_asset_record (r \<lparr> collected_fees := collected_fees r + snd fee \<rparr>)
                          (current_state e) \<rparr>))
      else Inr e)"

text \<open>
  A required deposit without a provided one dereferences the end of the container; no enabled
  operation requires a deposit.
\<close>

definition check_required_deposits :: "eval_state \<Rightarrow> exn + unit" where
  "check_required_deposits e =
     foldE (\<lambda>(i, req) u.
       case map_of (provided_deposits e) i of
         None \<Rightarrow> Inl (Fc_exception ''undefined_behaviour'')
       | Some provided \<Rightarrow> if asset_less provided req then Inl missing_deposit else Inr ())
       (required_deposits e) ()"

definition post_evaluate :: "ext \<Rightarrow> eval_state \<Rightarrow> exn + eval_state" where
  "post_evaluate X e =
     (let e0 = e \<lparr> trx_balance :=
                     (case map_of (trx_balance e) 0 of
                        None \<Rightarrow> AList.update 0 0 (trx_balance e) | Some _ \<Rightarrow> trx_balance e) \<rparr>;
          fees = in_order (trx_balance e0)
      in bindE (foldE (convert_fee X) fees e0) (\<lambda>e1.
         bindE (foldE collect_fee fees e1) (\<lambda>e2.
         bindE (check_required_deposits e2) (\<lambda>_.
         Inr e2))))"

end
