(* ===== verification/Balance_Operations.thy ===== *)
theory Balance_Operations
  imports Eval_State
begin

text \<open>
  The operations on balances: \<^verbatim>\<open>balance_operations.cpp\<close>. Each \<open>evaluate\<close> function is the whole
  handler: its guards in the order of the code, then the updates of the transaction's balance,
  of the votes and of the chain records.
\<close>

section \<open>Yield\<close>

definition seconds_per_year :: nat where
  "seconds_per_year = BTS_BLOCKCHAIN_BLOCKS_PER_YEAR * BTS_BLOCKCHAIN_BLOCK_INTERVAL_SEC"

text \<open>Scaling a yield by the elapsed fraction of a year.\<close>

definition scale_by_time :: "ext \<Rightarrow> 64 word \<Rightarrow> 128 word \<Rightarrow> exn + 128 word" where
  "scale_by_time X sec y =
     uint128_div X (uint128_mul X y (uint128_of_int64 X sec)) (uint128_of_int64 X (of_nat seconds_per_year))"

text \<open>In the first year 80 percent of the yield grow linearly with time, 20 percent with its square.\<close>

definition first_year_yield :: "ext \<Rightarrow> 64 word \<Rightarrow> 128 word \<Rightarrow> exn + 128 word" where
  "first_year_yield X sec original_yield =
     bindE (uint128_div X (uint128_mul X original_yield (uint128_of_int64 X 8)) (uint128_of_int64 X 10)) (\<lambda>y.
     let delta_yield = uint128_sub X original_yield y
     in bindE (scale_by_time X sec y) (\<lambda>y1.
        bindE (scale_by_time X sec delta_yield) (\<lambda>d1.
        bindE (scale_by_time X sec d1) (\<lambda>d2.
        Inr (uint128_add X y1 d2)))))"

definition calculate_yield ::
    "ext \<Rightarrow> balance_record \<Rightarrow> time_point_sec \<Rightarrow> share_type \<Rightarrow> share_type \<Rightarrow> share_type \<Rightarrow> exn + asset" where
  "calculate_yield X r t amt yield_pool share_supply =
     (let none = asset_of 0 (condition_asset_id (condition r));
          elapsed_time = int t - int (deposit_date r)
      in if sint amt \<le> 0 then Inr none
         else if sint share_supply \<le> 0 then Inr none
         else if sint yield_pool \<le> 0 then Inr none
         else if elapsed_time > int BTS_BLOCKCHAIN_MIN_YIELD_PERIOD_SEC then
           let amount_withdrawn = uint128_mul X (uint128_of_int64 X amt) (uint128_of_int64 X 1000000);
               current_supply = uint128_of_int64 X (share_supply - yield_pool);
               fee_fund = uint128_of_int64 X yield_pool
           in bindE (uint128_div X (uint128_mul X amount_withdrawn fee_fund) current_supply) (\<lambda>y.
              bindE (if elapsed_time < int seconds_per_year
                     then first_year_yield X (word_of_int elapsed_time) y else Inr y) (\<lambda>y.
              bindE (uint128_div X y (uint128_of_int64 X 1000000)) (\<lambda>y.
              bindE (uint128_to_uint64 X y) (\<lambda>yield_amount.
              if uint yield_amount > 0 \<and> uint yield_amount < uint yield_pool
              then Inr (asset_of yield_amount (condition_asset_id (condition r)))
              else Inr none))))
         else Inr none)"

section \<open>Slates\<close>

definition define_delegate_slate_evaluate :: "ext \<Rightarrow> delegate_slate \<Rightarrow> eval_state \<Rightarrow> exn + eval_state" where
  "define_delegate_slate_evaluate X slate e =
     (if length slate > BTS_BLOCKCHAIN_MAX_SLATE_SIZE then Inl too_may_delegates_in_slate
      else case get_delegate_slate (current_state e) (slate_id X slate) of
             Some _ \<Rightarrow> Inr e
           | None \<Rightarrow>
               bindE (foldE (\<lambda>d u. verify_delegate_id e \<bar>d\<bar>) slate ()) (\<lambda>_.
               Inr (e \<lparr> current_state :=
                          store_delegate_slate (slate_id X slate) slate (current_state e) \<rparr>)))"

section \<open>Deposits\<close>

text \<open>The deposit date of a record that already holds a balance is the weighted average of the dates.\<close>

definition average_deposit_date ::
    "ext \<Rightarrow> time_point_sec \<Rightarrow> share_type \<Rightarrow> time_point_sec \<Rightarrow> share_type \<Rightarrow> exn + time_point_sec" where
  "average_deposit_date X old_date bal new_date amt =
     bindE (uint128_div X
              (uint128_add X
                 (uint128_mul X (uint128_of_int64 X (of_nat old_date)) (uint128_of_int64 X bal))
                 (uint128_mul X (uint128_of_int64 X (of_nat new_date)) (uint128_of_int64 X amt)))
              (uint128_of_int64 X (bal + amt))) (\<lambda>avg.
     bindE (uint128_to_integer X avg) (\<lambda>s. Inr (unat s)))"

definition deposit_evaluate :: "ext \<Rightarrow> share_type \<Rightarrow> withdraw_condition \<Rightarrow> eval_state \<Rightarrow> exn + eval_state" where
  "deposit_evaluate X amt cond e =
     (if sint amt \<le> 0 then Inl negative_deposit
      else
        let c = current_state e;
            deposit_balance_id = address_of_condition X cond;
            cur_record = (case get_balance_record c deposit_balance_id of
                            Some r \<Rightarrow> r | None \<Rightarrow> balance_record_of cond)
        in bindE (if balance cur_record = 0 then Inr (now c)
                  else average_deposit_date X (deposit_date cur_record) (balance cur_record) (now c) amt)
             (\<lambda>date.
           let r = cur_record \<lparr> balance_last_update := now c, deposit_date := date,
                                balance := balance cur_record + amt \<rparr>;
               sid = delegate_slate_id (condition r)
           in bindE (sub_balance deposit_balance_id
                       (asset_of amt (condition_asset_id (condition r))) e) (\<lambda>e1.
              bindE (if condition_asset_id (condition r) = 0 \<and> sid \<noteq> 0 then adjust_vote sid amt e1
                     else Inr e1) (\<lambda>e2.
              Inr (e2 \<lparr> current_state := store_balance_record X r (current_state e2) \<rparr>)))))"

section \<open>Claims of genesis balances\<close>

definition check_claim_input :: "eval_state \<Rightarrow> balance_id_type \<Rightarrow> exn + balance_record" where
  "check_claim_input e bid =
     (case get_balance_record (current_state e) bid of
        None \<Rightarrow> Inl unknown_balance_record
      | Some r \<Rightarrow>
          if condition_asset_id (condition r) \<noteq> 0 then Inl assert_failed
          else if genesis_info r = None then Inl assert_failed
          else Inr r)"

definition withdraw_claim_input :: "ext \<Rightarrow> share_type \<Rightarrow> balance_record \<Rightarrow> eval_state \<Rightarrow> exn + eval_state" where
  "withdraw_claim_input X amt r e =
     (if balance r \<noteq> amt then Inl assert_failed
      else
        bindE (if delegate_slate_id (condition r) \<noteq> 0
               then adjust_vote (delegate_slate_id (condition r)) (- amt) e else Inr e) (\<lambda>e1.
        let r' = r \<lparr> balance := 0, balance_last_update := now (current_state e1) \<rparr>
        in add_balance (asset_of amt 0)
             (e1 \<lparr> current_state := store_balance_record X r' (current_state e1) \<rparr>)))"

definition validate_claim_signature :: "ext \<Rightarrow> pts_address \<Rightarrow> key \<Rightarrow> signature_type \<Rightarrow> exn + unit" where
  "validate_claim_signature X source dest sig =
     bindE (claim_message_hash X source dest) (\<lambda>hash.
     bindE (recover_key X sig hash False) (\<lambda>k.
     require (pts_address_of_key X k True (pts_version X source) = source) assert_failed))"

definition validate_claim_trx_signature :: "ext \<Rightarrow> eval_state \<Rightarrow> key \<Rightarrow> exn + unit" where
  "validate_claim_trx_signature X e dest =
     require (check_signature e (address_of_key X dest)) missing_signature"

definition claim_evaluate ::
    "ext \<Rightarrow> balance_id_type \<Rightarrow> share_type \<Rightarrow> pts_address \<Rightarrow> key \<Rightarrow> signature_type \<Rightarrow> eval_state \<Rightarrow>
     exn + eval_state" where
  "claim_evaluate X bid amt source dest sig e =
     bindE (validate_claim_signature X source dest sig) (\<lambda>_.
     bindE (check_claim_input e bid) (\<lambda>r.
     bindE (withdraw_claim_input X amt r e) (\<lambda>e1.
     bindE (validate_claim_trx_signature X e1 dest) (\<lambda>_.
     Inr e1))))"

section \<open>Withdrawals\<close>

definition check_pts_claim :: "ext \<Rightarrow> eval_state \<Rightarrow> address \<Rightarrow> string \<Rightarrow> exn + unit" where
  "check_pts_claim X e owner_addr claim_input_data =
     bindE (unpack_withdraw_with_pts X claim_input_data) (\<lambda>(new_key, pts_signature).
     bindE (get_property (current_state e) chain_id) (\<lambda>prop.
     bindE (as_digest prop) (\<lambda>cid.
     bindE (recover_key X pts_signature (pts_claim_hash X cid new_key) True) (\<lambda>test_key.
     if address_of_key X test_key = owner_addr \<or>
        address_of_pts X (pts_address_of_key X test_key False 56) = owner_addr \<or>
        address_of_pts X (pts_address_of_key X test_key True 56) = owner_addr \<or>
        address_of_pts X (pts_address_of_key X test_key False 0) = owner_addr \<or>
        address_of_pts X (pts_address_of_key X test_key True 0) = owner_addr
     then require (check_signature e (address_of_key X new_key)) missing_signature
     else Inl missing_signature))))"

text \<open>Only balances owned by a signature can be withdrawn; the other conditions are switched off.\<close>

definition check_withdraw_condition :: "ext \<Rightarrow> eval_state \<Rightarrow> withdraw_data \<Rightarrow> string \<Rightarrow> exn + unit" where
  "check_withdraw_condition X e cond claim_input_data =
     (case cond of
        Withdraw_with_signature owner_addr _ \<Rightarrow>
          if length claim_input_data > 0 then check_pts_claim X e owner_addr claim_input_data
          else require (check_signature e owner_addr) missing_signature
      | Withdraw_with_multi_sig _ _ _ \<Rightarrow> Inl assert_failed
      | Withdraw_with_password _ _ _ _ _ \<Rightarrow> Inl assert_failed
      | Withdraw_option _ _ _ _ \<Rightarrow> Inl assert_failed
      | Withdraw_unreadable t _ \<Rightarrow>
          if t = 1 then Inl unpack_failed
          else if t = 2 \<or> t = 3 \<or> t = 4 then Inl assert_failed
          else Inl invalid_withdraw_condition
      | _ \<Rightarrow> Inl invalid_withdraw_condition)"

text \<open>Yield is paid from the collected fees of a market-issued asset into the balance.\<close>

definition pay_yield :: "ext \<Rightarrow> balance_record \<Rightarrow> eval_state \<Rightarrow> exn + (balance_record \<times> eval_state)" where
  "pay_yield X r e =
     (let c = current_state e; aid = condition_asset_id (condition r)
      in case get_asset_record c aid of
           None \<Rightarrow> Inl assert_failed
         | Some arec \<Rightarrow>
             if \<not> is_market_issued arec then Inr (r, e)
             else
               bindE (calculate_yield X r (now c) (balance r) (collected_fees arec)
                        (current_share_supply arec)) (\<lambda>y.
               if sint (amount y) > 0 then
                 Inr (r \<lparr> balance := balance r + amount y, deposit_date := now c \<rparr>,
                      e \<lparr> yield := AList.update aid
                            ((case map_of (yield e) aid of Some v \<Rightarrow> v | None \<Rightarrow> 0) + amount y) (yield e),
                          current_state := store_asset_record
                            (arec \<lparr> collected_fees := collected_fees arec - amount y \<rparr>) c \<rparr>)
               else Inr (r, e)))"

definition withdraw_evaluate :: "ext \<Rightarrow> balance_id_type \<Rightarrow> share_type \<Rightarrow> string \<Rightarrow> eval_state \<Rightarrow> exn + eval_state" where
  "withdraw_evaluate X bid amt claim_input_data e =
     (if sint amt \<le> 0 then Inl negative_deposit
      else case get_balance_record (current_state e) bid of
        None \<Rightarrow> Inl unknown_balance_record
      | Some r \<Rightarrow>
          if sint amt > sint (balance r) then Inl insufficient_funds
          else
            bindE (check_withdraw_condition X e (condition_data (condition r)) claim_input_data) (\<lambda>_.
            bindE (if condition_asset_id (condition r) = 0 \<and> delegate_slate_id (condition r) \<noteq> 0
                   then adjust_vote (delegate_slate_id (condition r)) (- amt) e else Inr e) (\<lambda>e1.
            bindE (pay_yield X r e1) (\<lambda>(r1, e2).
            let r2 = r1 \<lparr> balance := balance r1 - amt, balance_last_update := now (current_state e2) \<rparr>
            in add_balance (asset_of amt (condition_asset_id (condition r2)))
                 (e2 \<lparr> current_state := store_balance_record X r2 (current_state e2) \<rparr>)))))"

definition withdraw_all_evaluate :: "balance_id_type \<Rightarrow> string \<Rightarrow> eval_state \<Rightarrow> exn + eval_state" where
  "withdraw_all_evaluate bid claim_input_data e = Inl assert_failed"

section \<open>Burning and escrow\<close>

text \<open>
  The amount is a signed 64-bit number, the minimum an unsigned one: the comparison is made on
  unsigned numbers.
\<close>

definition burn_evaluate ::
    "ext \<Rightarrow> asset \<Rightarrow> account_id_type \<Rightarrow> string \<Rightarrow> signature_type option \<Rightarrow> eval_state \<Rightarrow> exn + eval_state" where
  "burn_evaluate X a acc message message_signature e =
     (if length message > 0 \<and> asset_id a \<noteq> 0 then Inl assert_failed
      else if asset_id a = 0 \<and> \<not> uint (amount a) \<ge> uint BTS_BLOCKCHAIN_MIN_BURN_FEE then Inl assert_failed
      else case get_asset_record (current_state e) (asset_id a) of
        None \<Rightarrow> Inl assert_failed
      | Some arec \<Rightarrow>
          if is_market_issued arec then Inl assert_failed
          else
            let e1 = e \<lparr> current_state := store_asset_record
                           (arec \<lparr> current_share_supply := current_share_supply arec - amount a \<rparr>)
                           (current_state e) \<rparr>
            in bindE (sub_balance null_address a e1) (\<lambda>e2.
               if acc \<noteq> 0 \<and> get_account_record (current_state e2) \<bar>acc\<bar> = None then Inl assert_failed
               else Inr (e2 \<lparr> current_state := store_burn_record (acc, transaction_id_hash X (trx e2))
                                \<lparr> burn_amount = a, burn_message = message, burn_signer = message_signature \<rparr>
                                (current_state e2) \<rparr>)))"

definition release_escrow_evaluate ::
    "balance_id_type \<Rightarrow> address \<Rightarrow> share_type \<Rightarrow> share_type \<Rightarrow> eval_state \<Rightarrow> exn + eval_state" where
  "release_escrow_evaluate escrow_id released_by to_receiver to_sender e = Inl assert_failed"

end
