(* ===== verification/Yield.thy ===== *)
theory Yield
  imports Balance_Operations
begin

text \<open>
  The yield of a balance: with exact 128-bit arithmetic the amount a holder receives from the fee
  pool is never more than the share of the pool its balance stands for, never the whole pool, and the
  computation does not fail.
\<close>

lemma uint_div_word: "uint (a div b :: 128 word) = uint a div uint b"
  by (simp add: uint_div)

lemma uint_mul_128: "uint a * uint b < 2 ^ 128 \<Longrightarrow> uint (a * b :: 128 word) = uint a * uint b"
  by (simp add: uint_word_ariths)

lemma uint_ucast_128: "0 \<le> sint (v :: 64 word) \<Longrightarrow> uint (ucast v :: 128 word) = sint v"
  using uint64_nonneg [of v] sint64_bounds(2) [of v]
  by (simp add: unsigned_ucast_eq take_bit_int_eq_self INT64_MAX_def)

lemma seconds_per_year_value: "seconds_per_year = 31536000"
  by (simp add: seconds_per_year_def BTS_BLOCKCHAIN_BLOCKS_PER_YEAR_def BTS_BLOCKCHAIN_BLOCKS_PER_DAY_def
      BTS_BLOCKCHAIN_BLOCKS_PER_HOUR_def BTS_BLOCKCHAIN_BLOCK_INTERVAL_SEC_def)

lemma scale_by_time_exact:
  assumes "uint128_ok X" and "0 \<le> sint sec" and "uint y * sint sec < 2 ^ 128"
  obtains z where "scale_by_time X sec y = Inr z" and "uint z = uint y * sint sec div 31536000"
proof -
  have d: "0 \<le> sint (31536000 :: 64 word)" "uint (ucast (31536000 :: 64 word) :: 128 word) = 31536000" by simp_all
  then have "ucast (31536000 :: 64 word) \<noteq> (0 :: 128 word)" by fastforce
  then have "scale_by_time X sec y = Inr (y * ucast sec div ucast (31536000 :: 64 word))"
    using assms by (simp add: scale_by_time_def seconds_per_year_value uint128_rules uint_ucast_128)
  moreover have "uint (y * ucast sec div ucast (31536000 :: 64 word)) = uint y * sint sec div 31536000"
    using assms(2,3) by (simp add: uint_div_word uint_mul_128 uint_ucast_128)
  ultimately show ?thesis by (rule that)
qed

lemma scaled_le: "0 \<le> y \<Longrightarrow> 0 \<le> s \<Longrightarrow> s \<le> 31536000 \<Longrightarrow> y * s div 31536000 \<le> (y :: int)"
  using zdiv_mono1 [of "y * s" "y * 31536000" 31536000] by (simp add: mult_left_mono)

lemma scaled_tenths: "0 \<le> y \<Longrightarrow> y * 8 div 10 \<le> (y :: int)"
  by linarith

lemma scale_by_time_le:
  assumes "uint128_ok X" and "0 \<le> sint sec" and "sint sec \<le> 31536000" 
    and "uint y \<le> b" and "b * 31536000 < 2 ^ 128"
  obtains z where "scale_by_time X sec y = Inr z" and "uint z \<le> uint y"
proof -
  have "uint y * 31536000 < 2 ^ 128" using assms(4,5) by simp
  moreover have "uint y * sint sec \<le> uint y * 31536000" using assms(3) by (intro mult_left_mono) simp_all
  ultimately obtain z where "scale_by_time X sec y = Inr z" "uint z = uint y * sint sec div 31536000"
    by (elim scale_by_time_exact [OF assms(1,2), of y, rotated]) (rule order.strict_trans1)
  then show ?thesis using that scaled_le [of "uint y" "sint sec"] assms by simp
qed

lemma first_year_yield_le:
  assumes ok: "uint128_ok X" and s: "0 \<le> sint sec" "sint sec \<le> 31536000" and y: "uint y * 31536000 < 2 ^ 128"
  obtains z where "first_year_yield X sec y = Inr z" and "uint z \<le> uint y"
proof -
  define a where "a = y * 8 div 10"
  have p: "uint (y * 8) = uint y * 8" using y uint_mul_128 [of y 8] by simp
  have a: "uint a = uint y * 8 div 10" using p by (simp add: a_def uint_div_word)
  have a_le: "uint a \<le> uint y" unfolding a using scaled_tenths [of "uint y"] by simp
  have a0: "0 \<le> uint a" by simp
  have "uint128_div X (uint128_mul X y (uint128_of_int64 X 8)) (uint128_of_int64 X 10) = Inr a"
    using ok y by (simp add: uint128_rules a_def)
  moreover have sub: "uint128_sub X y a = y - a" "uint (y - a) = uint y - uint a"
    using ok a_le by (simp_all add: uint128_rules uint_sub_if')
  moreover obtain y1 where y1: "scale_by_time X sec a = Inr y1" "uint y1 \<le> uint a"
    using scale_by_time_le [OF ok s _ y, of a] a_le by auto
  moreover obtain d1 where d1: "scale_by_time X sec (y - a) = Inr d1" "uint d1 \<le> uint (y - a)"
    using scale_by_time_le [OF ok s _ y, of "y - a"] sub a0 by auto
  moreover obtain d2 where d2: "scale_by_time X sec d1 = Inr d2" "uint d2 \<le> uint d1"
    using scale_by_time_le [OF ok s _ y, of d1] d1 sub a0 by auto
  moreover have "uint y1 + uint d2 \<le> uint y" using y1 d1 d2 sub by simp
  moreover have "uint128_add X y1 d2 = y1 + d2" "uint (y1 + d2) = uint y1 + uint d2"
    using calculation(10) ok y by (auto simp: uint128_rules uint_word_ariths)
  ultimately show ?thesis by (intro that [of "y1 + d2"]) (simp_all add: first_year_yield_def)
qed


lemma div_le_self_int: "0 \<le> a \<Longrightarrow> 0 < c \<Longrightarrow> a div c \<le> (a :: int)"
  using zdiv_mono2 [of a 1 c] by simp

lemma share_of_pool:
  assumes "0 < cs" and "0 \<le> (a :: int)" and "0 \<le> p" and "q \<le> a * 1000000 * p div cs"
  shows "q div 1000000 * cs \<le> a * p"
proof -
  have "q div 1000000 * 1000000 \<le> a * 1000000 * p div cs" using assms(4) by linarith
  then have "q div 1000000 * 1000000 * cs \<le> a * 1000000 * p div cs * cs"
    using assms(1) by (intro mult_right_mono) simp_all
  also have "\<dots> \<le> a * 1000000 * p"
    using assms(1) by (metis minus_mod_eq_div_mult pos_mod_sign diff_le_eq le_add_same_cancel1)
  finally show ?thesis by simp
qed

lemma yield_before_scaling:
  assumes ok: "uint128_ok X" and pos: "0 < sint amt" "0 < sint pool" "sint pool < sint shares"
    and fits: "sint amt * 1000000 * sint pool < 2 ^ 128"
  obtains y where "uint128_div X (uint128_mul X (uint128_mul X (uint128_of_int64 X amt) (uint128_of_int64 X 1000000))
      (uint128_of_int64 X pool)) (uint128_of_int64 X (shares - pool)) = Inr y"
    and "uint y = sint amt * 1000000 * sint pool div (sint shares - sint pool)"
proof -
  have cs: "sint (shares - pool) = sint shares - sint pool"
    using pos sint64_bounds [of shares] by (intro sint64_sub) (auto simp: INT64_MIN_def)
  have u: "uint (ucast amt :: 128 word) = sint amt" "uint (ucast pool :: 128 word) = sint pool"
    "uint (ucast (shares - pool) :: 128 word) = sint shares - sint pool"
    using pos cs by (simp_all add: uint_ucast_128)
  have m1: "uint (ucast amt * 1000000 :: 128 word) = sint amt * 1000000"
    using uint_mul_128 [of "ucast amt" 1000000] u pos sint64_bounds(2) [of amt] by (simp add: INT64_MAX_def)
  have nz: "ucast (shares - pool) \<noteq> (0 :: 128 word)" using u(3) pos by fastforce
  have m1': "uint128_mul X (ucast amt) 1000000 = ucast amt * 1000000"
    using ok u pos sint64_bounds(2) [of amt] by (intro uint128_rules) (simp_all add: INT64_MAX_def)
  have m2': "uint128_mul X (ucast amt * 1000000) (ucast pool) = ucast amt * 1000000 * ucast pool"
    using ok m1 u fits by (intro uint128_rules) simp_all
  have c: "uint128_of_int64 X amt = ucast amt" "uint128_of_int64 X 1000000 = 1000000"
    "uint128_of_int64 X pool = ucast pool" "uint128_of_int64 X (shares - pool) = ucast (shares - pool)"
    using ok pos cs by (simp_all add: uint128_rules)
  show ?thesis
    using that [of "ucast amt * 1000000 * ucast pool div ucast (shares - pool)"] uint128_rules(6) [OF ok nz]
      uint_mul_128 [of "ucast amt * 1000000" "ucast pool"] fits m1 u
    by (simp add: c m1' m2' uint_div_word)
qed

lemma yield_after_scaling:
  assumes ok: "uint128_ok X" and e: "0 \<le> e" and fit: "uint y * 31536000 < 2 ^ 128"
  obtains z where "(if e < int seconds_per_year then first_year_yield X (word_of_int e) y else Inr y) = Inr z"
    and "uint z \<le> uint y"
proof (cases "e < int seconds_per_year")
  case True
  then have "sint (word_of_int e :: 64 word) = e"
    using e by (intro sint64_eq) (simp_all add: seconds_per_year_value INT64_MIN_def INT64_MAX_def)
  then show ?thesis
    using first_year_yield_le [OF ok _ _ fit, of "word_of_int e"] True e that
    by (auto simp: seconds_per_year_value)
qed (use that in auto)

text \<open>
  C31. The yield of a balance: as long as the balance is part of the supply outside the fee pool and
  the 128-bit products fit, the computation succeeds, the yield is not negative, it is the whole
  pool for no balance, and it is at most the share of the pool that the amount stands for.
\<close>

theorem yield_is_a_share_of_the_pool:
  assumes ok: "uint128_ok X" and pool: "0 \<le> sint pool" "sint pool < sint shares"
    and amt: "sint amt \<le> sint shares - sint pool" "sint amt * 1000000 * sint pool * 31536000 < 2 ^ 128"
  shows "\<exists>y. calculate_yield X r t amt pool shares = Inr y \<and> asset_id y = condition_asset_id (condition r) \<and>
    0 \<le> sint (amount y) \<and> (amount y = 0 \<or> sint (amount y) < sint pool) \<and>
    (0 < sint amt \<longrightarrow> sint (amount y) * (sint shares - sint pool) \<le> sint amt * sint pool)"
proof (cases "0 < sint amt \<and> 0 < sint pool \<and> int t - int (deposit_date r) > int BTS_BLOCKCHAIN_MIN_YIELD_PERIOD_SEC")
  case True
  let ?cs = "sint shares - sint pool" and ?e = "int t - int (deposit_date r)"
  from True have pos: "0 < sint amt" "0 < sint pool" by simp_all
  have "sint amt * 1000000 * sint pool < 2 ^ 128" using amt(2) pos by simp
  then obtain y where y: "uint128_div X (uint128_mul X (uint128_mul X (uint128_of_int64 X amt) (uint128_of_int64 X 1000000))
      (uint128_of_int64 X pool)) (uint128_of_int64 X (shares - pool)) = Inr y"
    and uy: "uint y = sint amt * 1000000 * sint pool div ?cs"
    by (rule yield_before_scaling [OF ok pos pool(2)])
  have "uint y \<le> sint amt * 1000000 * sint pool"
    unfolding uy using pos pool by (intro div_le_self_int) simp_all
  then have fit: "uint y * 31536000 < 2 ^ 128" using amt(2) by simp
  obtain z where z: "(if ?e < int seconds_per_year then first_year_yield X (word_of_int ?e) y else Inr y) = Inr z"
    "uint z \<le> uint y"
    by (rule yield_after_scaling [OF ok _ fit, of ?e]) (use True in simp_all)
  define v where "v = uint z div 1000000"
  have share: "v * ?cs \<le> sint amt * sint pool"
    unfolding v_def using pool pos z(2) uy by (intro share_of_pool) simp_all
  also have "\<dots> \<le> ?cs * sint pool" using amt(1) pos by (intro mult_right_mono) simp_all
  finally have "v \<le> sint pool" using pool(2) by (simp add: mult.commute)
  then have v: "0 \<le> v" "v < 2 ^ 63" using sint64_bounds(2) [of pool] by (simp_all add: v_def INT64_MAX_def pos_imp_zdiv_nonneg_iff)
  define w where "w = (ucast (z div 1000000) :: 64 word)"
  have uz: "uint (z div 1000000) = v" by (simp add: v_def uint_div_word)
  then have w: "uint w = v" using v by (simp add: w_def unsigned_ucast_eq take_bit_int_eq_self)
  then have sw: "sint w = v" using v sint64_eq [of v] word_of_int_uint [of w] by (simp add: INT64_MIN_def INT64_MAX_def)
  have "uint128_div X z (uint128_of_int64 X 1000000) = Inr (z div 1000000)"
    "uint128_to_uint64 X (z div 1000000) = Inr w"
    using ok uz v by (simp_all add: uint128_rules w_def)
  then show ?thesis
    using True y z(1) w sw share pos pool v uint64_nonneg [of pool] by (auto simp: calculate_yield_def Let_def mult.commute)
qed (auto simp: calculate_yield_def Let_def pool)

definition yield_record :: balance_record where
  "yield_record = \<lparr> balance = 1000, condition = \<lparr> condition_asset_id = 3, delegate_slate_id = 0,
     condition_data = Withdraw_with_signature 7 None \<rparr>, genesis_info = None, balance_last_update = 0, deposit_date = 0 \<rparr>"

theorem yield_is_a_share_of_the_pool_witness:
  "\<exists>y. calculate_yield ext_std yield_record 31536000 1000 500 10500 = Inr y \<and> sint (amount y) * 10000 \<le> 500000"
  using yield_is_a_share_of_the_pool [OF uint128_ok_ext_std, of 500 10500 1000 yield_record 31536000] by auto

end
