(* ===== verification/Account_Operations.thy ===== *)
theory Account_Operations
  imports Eval_State
begin

text \<open>
  The operations on accounts: \<^verbatim>\<open>account_operations.cpp\<close>, with the reserved names of
  \<^verbatim>\<open>account_record.cpp\<close>. A pay rate above 100 stands for an account that is no delegate.
\<close>

section \<open>Reserved names\<close>

definition banned_names :: "string list" where
  "banned_names = [
    ''ac'', ''academy'', ''accountants'', ''active'', ''actor'', ''ad'', ''ae'', ''aero'',
    ''af'', ''ag'', ''agency'', ''ai'', ''airforce'', ''al'', ''am'', ''an'', ''ao'', ''aq'',
    ''ar'', ''archi'', ''army'', ''arpa'', ''as'', ''asia'', ''associates'', ''at'',
    ''attorney'', ''au'', ''auction'', ''audio'', ''autos'', ''aw'', ''ax'', ''axa'', ''az'',
    ''ba'', ''backup'', ''bar'', ''bargains'', ''bayern'', ''bb'', ''bd'', ''be'', ''beer'',
    ''bter'', ''btc38'', ''berlin'', ''best'', ''bf'', ''bg'', ''bh'', ''bi'', ''bid'',
    ''bike'', ''bio'', ''biz'', ''bj'', ''bm'', ''bmw'', ''bn'', ''bo'', ''boo'', ''boutique'',
    ''br'', ''brussels'', ''bs'', ''bt'', ''build'', ''builders'', ''business'', ''buzz'',
    ''bv'', ''bw'', ''by'', ''bz'', ''bzh'', ''ca'', ''cab'', ''cal'', ''camera'', ''camp'',
    ''cancerresearch'', ''capetown'', ''capital'', ''caravan'', ''cards'', ''care'',
    ''career'', ''careers'', ''cash'', ''cat'', ''catering'', ''cc'', ''cd'', ''center'',
    ''ceo'', ''cern'', ''cf'', ''cg'', ''ch'', ''channel'', ''cheap'', ''christmas'',
    ''chrome'', ''church'', ''ci'', ''citic'', ''city'', ''ck'', ''cl'', ''claims'',
    ''cleaning'', ''click'', ''clothing'', ''club'', ''cm'', ''cn'', ''co'', ''codes'',
    ''coffee'', ''college'', ''cologne'', ''com'', ''community'', ''company'', ''computer'',
    ''condos'', ''construction'', ''consulting'', ''contractors'', ''cooking'', ''cool'',
    ''coop'', ''country'', ''cr'', ''credit'', ''creditcard'', ''cruises'', ''cu'',
    ''cuisinella'', ''cv'', ''cw'', ''cx'', ''cy'', ''cymru'', ''cz'', ''dad'', ''dance'',
    ''dating'', ''day'', ''de'', ''deals'', ''degree'', ''democrat'', ''desi'', ''diamonds'',
    ''diet'', ''digital'', ''direct'', ''directory'', ''discount'', ''dj'', ''dk'', ''dm'',
    ''dnp'', ''do'', ''domains'', ''dz'', ''eat'', ''ec'', ''edu'', ''education'', ''ee'',
    ''eg'', ''email'', ''engineer'', ''engineering'', ''enterprises'', ''equipment'', ''er'',
    ''es'', ''esq'', ''estate'', ''et'', ''eu'', ''eus'', ''events'', ''exchange'', ''expert'',
    ''exposed'', ''fail'', ''farm'', ''feedback'', ''fi'', ''finance'', ''financial'',
    ''fish'', ''fishing'', ''fitness'', ''fj'', ''fk'', ''flights'', ''florist'', ''fly'',
    ''fm'', ''fo'', ''foo'', ''foundation'', ''fr'', ''frl'', ''frogans'', ''fund'',
    ''furniture'', ''futbol'', ''ga'', ''gal'', ''gallery'', ''gb'', ''gbiz'', ''gd'', ''ge'',
    ''gent'', ''gf'', ''gg'', ''gh'', ''gi'', ''gift'', ''gifts'', ''gives'', ''gl'',
    ''glass'', ''gle'', ''global'', ''globo'', ''gm'', ''gmail'', ''gmo'', ''gmx'', ''gn'',
    ''google'', ''gop'', ''gov'', ''gp'', ''gq'', ''gr'', ''graphics'', ''gratis'', ''green'',
    ''gripe'', ''gs'', ''gt'', ''gu'', ''guide'', ''guitars'', ''guru'', ''gw'', ''gy'',
    ''hamburg'', ''haus'', ''healthcare'', ''help'', ''here'', ''hiphop'', ''hiv'', ''hk'',
    ''hm'', ''hn'', ''holdings'', ''holiday'', ''homes'', ''horse'', ''host'', ''hosting'',
    ''house'', ''how'', ''hr'', ''ht'', ''hu'', ''id'', ''ie'', ''il'', ''im'', ''immo'',
    ''immobilien'', ''in'', ''industries'', ''info'', ''ing'', ''ink'', ''institute'',
    ''insure'', ''int'', ''international'', ''investments'', ''io'', ''iq'', ''ir'', ''is'',
    ''it'', ''je'', ''jetzt'', ''jm'', ''jo'', ''jobs'', ''joburg'', ''jp'', ''juegos'',
    ''kaufen'', ''ke'', ''kg'', ''kh'', ''ki'', ''kim'', ''kitchen'', ''kiwi'', ''km'', ''kn'',
    ''koeln'', ''kp'', ''kr'', ''krd'', ''kred'', ''kw'', ''ky'', ''kz'', ''la'', ''lacaixa'',
    ''land'', ''lawyer'', ''lb'', ''lc'', ''lease'', ''lgbt'', ''li'', ''life'', ''lighting'',
    ''limited'', ''limo'', ''link'', ''lk'', ''loans'', ''london'', ''lotto'', ''lr'', ''ls'',
    ''lt'', ''ltda'', ''lu'', ''luxe'', ''luxury'', ''lv'', ''ly'', ''ma'', ''maison'',
    ''management'', ''market'', ''marketing'', ''mc'', ''md'', ''me'', ''media'', ''meet'',
    ''melbourne'', ''meme'', ''menu'', ''mg'', ''mh'', ''miami'', ''microsoft'', ''mil'',
    ''mini'', ''mk'', ''ml'', ''mm'', ''mn'', ''mo'', ''mobi'', ''moda'', ''moe'', ''money'',
    ''monash'', ''mortgage'', ''moscow'', ''motorcycles'', ''mov'', ''mp'', ''mq'', ''mr'',
    ''ms'', ''mt'', ''music'', ''mu'', ''museum'', ''mv'', ''mw'', ''mx'', ''my'', ''mz'',
    ''na'', ''nagoya'', ''name'', ''navy'', ''nc'', ''ne'', ''net'', ''network'', ''neustar'',
    ''new'', ''nexus'', ''nf'', ''ng'', ''ngo'', ''nhk'', ''ni'', ''ninja'', ''nl'', ''no'',
    ''np'', ''nr'', ''nra'', ''nrw'', ''nu'', ''nyc'', ''nz'', ''okinawa'', ''om'', ''ong'',
    ''onl'', ''ooo'', ''org'', ''organic'', ''offline'', ''otsuka'', ''ovh'', ''pa'',
    ''paris'', ''partners'', ''parts'', ''pe'', ''pf'', ''pg'', ''ph'', ''photo'',
    ''photography'', ''photos'', ''physio'', ''pics'', ''pictures'', ''pink'', ''pizza'',
    ''pk'', ''pl'', ''place'', ''plumbing'', ''pm'', ''pn'', ''post'', ''pr'', ''praxi'',
    ''press'', ''pro'', ''prod'', ''productions'', ''prof'', ''properties'', ''property'',
    ''ps'', ''pt'', ''pub'', ''pw'', ''py'', ''qa'', ''qpon'', ''quebec'', ''re'', ''realtor'',
    ''recipes'', ''red'', ''rehab'', ''reise'', ''reisen'', ''ren'', ''rentals'', ''repair'',
    ''report'', ''republican'', ''rest'', ''restaurant'', ''reviews'', ''rich'', ''rio'',
    ''ro'', ''rocks'', ''rodeo'', ''rs'', ''rsvp'', ''ru'', ''ruhr'', ''rw'', ''ryukyu'',
    ''sa'', ''saarland'', ''sarl'', ''sb'', ''sc'', ''sca'', ''scb'', ''schmidt'', ''schule'',
    ''scot'', ''sd'', ''se'', ''services'', ''sexy'', ''sg'', ''sh'', ''shiksha'', ''shoes'',
    ''si'', ''singles'', ''sj'', ''sk'', ''sl'', ''sm'', ''sn'', ''so'', ''social'',
    ''software'', ''sohu'', ''solar'', ''solutions'', ''soy'', ''space'', ''spiegel'', ''sr'',
    ''st'', ''su'', ''supplies'', ''supply'', ''support'', ''surf'', ''suzuki'', ''sv'',
    ''sx'', ''sy'', ''systems'', ''sz'', ''tatar'', ''tattoo'', ''tax'', ''tc'', ''td'',
    ''technology'', ''tel'', ''tf'', ''tg'', ''th'', ''tienda'', ''tips'', ''tirol'', ''tj'',
    ''tk'', ''tl'', ''tm'', ''tn'', ''to'', ''today'', ''tokyo'', ''tools'', ''top'', ''town'',
    ''toys'', ''tp'', ''tr'', ''trade'', ''training'', ''travel'', ''tt'', ''tv'', ''tw'',
    ''twitter'', ''tz'', ''ua'', ''ug'', ''uk'', ''university'', ''uno'', ''uol'', ''us'',
    ''uy'', ''uz'', ''va'', ''vacations'', ''vc'', ''ve'', ''vegas'', ''ventures'',
    ''versicherung'', ''vet'', ''vg'', ''vi'', ''viajes'', ''villas'', ''vision'',
    ''vlaanderen'', ''vn'', ''vodka'', ''vote'', ''voting'', ''voto'', ''voyage'', ''vu'',
    ''wales'', ''watch'', ''webcam'', ''website'', ''wed'', ''wf'', ''whoswho'', ''wien'',
    ''wiki'', ''williamhill'', ''wme'', ''works'', ''world'', ''ws'', ''wtc'', ''wtf'',
    ''xxx'', ''xyz'', ''yachts'', ''yandex'', ''ye'', ''yokohama'', ''youtube'', ''yt'',
    ''za'', ''zip'', ''zm'', ''zone'', ''zw'', ''local'', ''localhost, vk, vkontakte'']"

section \<open>Registration\<close>

definition pay_rate_is_delegate :: "8 word \<Rightarrow> bool" where
  "pay_rate_is_delegate rate \<longleftrightarrow> uint rate \<le> 100"

definition delegate_fee :: "share_type \<Rightarrow> 8 word \<Rightarrow> asset" where
  "delegate_fee max_reg_fee rate = asset_of (sdiv64 (max_reg_fee * ucast rate) 100) 0"

definition register_account_evaluate ::
    "ext \<Rightarrow> string \<Rightarrow> variant \<Rightarrow> key \<Rightarrow> key \<Rightarrow> 8 word \<Rightarrow> account_meta_info option \<Rightarrow> eval_state \<Rightarrow>
     exn + eval_state" where
  "register_account_evaluate X name data owner_k active_k rate meta e =
     (let c = current_state e; t = now c
      in if \<not> is_valid_account_name X name then Inl invalid_account_name
         else if length name < PTS_INITIAL_MIN_LENGTH then Inl assert_failed
         else
           bindE (asset_add (required_fees e) (asset_of get_account_registration_fee 0)) (\<lambda>fees.
           if name \<in> set banned_names then Inl assert_failed
           else if get_account_record_of_name c name \<noteq> None then Inl account_already_registered
           else if get_parent_account_name name \<noteq> None \<and> \<not> any_parent_has_signed X e name
           then Inl missing_parent_account_signature
           else if get_account_record_of_address c (address_of_key X active_k) \<noteq> None
           then Inl account_key_in_use
           else
             bindE (new_account_id c) (\<lambda>(i, c1).
             bindE (set_active_key t active_k
                      \<lparr> account_id = i, account_name = name, account_public_data = data,
                        owner_key = owner_k, active_key_history = [],
                        account_registration_date = t, account_last_update = t,
                        delegate_info = None, meta_data = None \<rparr>) (\<lambda>r.
             bindE (if pay_rate_is_delegate rate then
                      bindE (get_delegate_registration_fee c1) (\<lambda>max_reg_fee.
                      bindE (asset_add fees (delegate_fee max_reg_fee rate)) (\<lambda>fees'.
                      Inr (r \<lparr> delegate_info := Some (new_delegate_stats \<lparr> pay_rate := rate \<rparr>) \<rparr>, fees')))
                    else Inr (r, fees)) (\<lambda>(r1, fees1).
             let r2 = r1 \<lparr> meta_data := meta \<rparr>
             in Inr (e \<lparr> required_fees := fees1, current_state := store_account_record X r2 c1 \<rparr>))))))"

section \<open>Update\<close>

text \<open>The first half of the handler: who must have signed, and the new active key.\<close>

definition update_account_key :: "ext \<Rightarrow> key option \<Rightarrow> account_record \<Rightarrow> eval_state \<Rightarrow> exn + account_record" where
  "update_account_key X new_key r e =
     (if new_key \<noteq> None \<and> the new_key \<noteq> active_key r then
        if get_account_record_of_address (current_state e) (address_of_key X (the new_key)) \<noteq> None
        then Inl account_key_in_use
        else if \<not> check_signature e (address_of_key X (owner_key r)) \<and>
                \<not> any_parent_has_signed X e (account_name r)
        then Inl missing_signature
        else set_active_key (now (current_state e)) (the new_key) r
      else if \<not> account_or_any_parent_has_signed X e r then Inl missing_signature
      else Inr r)"

text \<open>The second half: a delegate stays a delegate and cannot raise its pay rate.\<close>

definition update_account_delegate ::
    "8 word \<Rightarrow> account_record \<Rightarrow> eval_state \<Rightarrow> exn + (account_record \<times> asset)" where
  "update_account_delegate rate r e =
     (if is_delegate r \<and> \<not> pay_rate_is_delegate rate then Inl assert_failed
      else if pay_rate_is_delegate rate then
        (case delegate_info r of
           Some d \<Rightarrow>
             if \<not> uint (pay_rate d) \<ge> uint rate then Inl assert_failed
             else Inr (r \<lparr> delegate_info := Some (d \<lparr> pay_rate := rate \<rparr>) \<rparr>, required_fees e)
         | None \<Rightarrow>
             bindE (get_delegate_registration_fee (current_state e)) (\<lambda>max_reg_fee.
             bindE (asset_add (required_fees e) (delegate_fee max_reg_fee rate)) (\<lambda>fees.
             Inr (r \<lparr> delegate_info := Some (new_delegate_stats \<lparr> pay_rate := rate \<rparr>) \<rparr>, fees))))
      else Inr (r, required_fees e))"

definition update_account_evaluate ::
    "ext \<Rightarrow> account_id_type \<Rightarrow> variant option \<Rightarrow> key option \<Rightarrow> 8 word \<Rightarrow> eval_state \<Rightarrow> exn + eval_state" where
  "update_account_evaluate X i data new_key rate e =
     (case get_account_record (current_state e) i of
        None \<Rightarrow> Inl unknown_account_id
      | Some r \<Rightarrow>
          if is_retracted r then Inl account_retracted
          else
            bindE (update_account_key X new_key r e) (\<lambda>r1.
            let r2 = (case data of Some v \<Rightarrow> r1 \<lparr> account_public_data := v \<rparr> | None \<Rightarrow> r1)
            in bindE (update_account_delegate rate r2 e) (\<lambda>(r3, fees).
               let r4 = r3 \<lparr> account_last_update := now (current_state e) \<rparr>
               in bindE
                    (case new_key of
                       None \<Rightarrow> Inr r4
                     | Some k \<Rightarrow>
                         bindE (set_active_key (now (current_state e)) k r4) (\<lambda>r5.
                         if get_account_record_of_address (current_state e) (address_of_key X k) \<noteq> None
                         then Inl account_key_in_use else Inr r5)) (\<lambda>r6.
                  Inr (e \<lparr> required_fees := fees,
                           current_state := store_account_record X r6 (current_state e) \<rparr>)))))"

section \<open>Delegate pay and links\<close>

definition withdraw_pay_evaluate :: "ext \<Rightarrow> share_type \<Rightarrow> account_id_type \<Rightarrow> eval_state \<Rightarrow> exn + eval_state" where
  "withdraw_pay_evaluate X amt i e =
     (if sint amt \<le> 0 then Inl negative_withdraw
      else case get_account_record (current_state e) \<bar>i\<bar> of
        None \<Rightarrow> Inl unknown_account_id
      | Some r \<Rightarrow>
          if is_retracted r then Inl account_retracted
          else case delegate_info r of
            None \<Rightarrow> Inl not_a_delegate
          | Some d \<Rightarrow>
              if \<not> check_signature e (address_of_key X (active_key r)) then Inl missing_signature
              else if sint (pay_balance d) < sint amt then Inl insufficient_funds
              else
                add_balance (asset_of amt 0)
                  (e \<lparr> net_delegate_votes := add_vote (- amt) \<bar>i\<bar> (net_delegate_votes e),
                       current_state := store_account_record X
                         (r \<lparr> delegate_info := Some (d \<lparr> pay_balance := pay_balance d - amt \<rparr>) \<rparr>)
                         (current_state e) \<rparr>))"

definition link_account_evaluate ::
    "account_id_type \<Rightarrow> account_id_type \<Rightarrow> variant \<Rightarrow> eval_state \<Rightarrow> exn + eval_state" where
  "link_account_evaluate source destination data e = Inl assert_failed"

end
