(* ===== verification/Account_Names.thy ===== *)
theory Account_Names
  imports Account_Operations "HOL-Library.Code_Target_Nat"
begin

text \<open>
  The hierarchy of account names: the recursive checks of \<^verbatim>\<open>is_valid_account_name\<close> and
  \<^verbatim>\<open>any_parent_has_signed\<close> in terms of the names that end a given name after a dot.
\<close>

lemma get_parent_iff:
  "get_parent_account_name n = Some m \<longleftrightarrow> (\<exists>l. n = l @ CHR ''.'' # m \<and> CHR ''.'' \<notin> set l)"
proof
  assume "get_parent_account_name n = Some m"
  then have m: "CHR ''.'' \<in> set n" "m = tl (dropWhile (\<lambda>c. c \<noteq> CHR ''.'') n)"
    by (auto simp: get_parent_account_name_def split: if_split_asm)
  then have "dropWhile (\<lambda>c. c \<noteq> CHR ''.'') n \<noteq> []" by (simp add: dropWhile_eq_Nil_conv)
  then have "dropWhile (\<lambda>c. c \<noteq> CHR ''.'') n = CHR ''.'' # m"
    using m hd_dropWhile [of "\<lambda>c. c \<noteq> CHR ''.''" n] by (metis list.collapse)
  then have "n = takeWhile (\<lambda>c. c \<noteq> CHR ''.'') n @ CHR ''.'' # m" by (metis takeWhile_dropWhile_id)
  moreover have "CHR ''.'' \<notin> set (takeWhile (\<lambda>c. c \<noteq> CHR ''.'') n)" by (auto dest: set_takeWhileD)
  ultimately show "\<exists>l. n = l @ CHR ''.'' # m \<and> CHR ''.'' \<notin> set l" by blast
qed (auto simp: get_parent_account_name_def dropWhile_append)

lemma get_parent_None: "get_parent_account_name n = None \<longleftrightarrow> CHR ''.'' \<notin> set n"
  by (simp add: get_parent_account_name_def)

text \<open>The names that end a name after a dot are its parent and the names that end the parent.\<close>

lemma ancestor_of_parent:
  assumes "get_parent_account_name n = Some p"
  shows "(\<exists>l. n = l @ CHR ''.'' # m) \<longleftrightarrow> m = p \<or> (\<exists>l. p = l @ CHR ''.'' # m)"
proof -
  obtain k where k: "n = k @ CHR ''.'' # p" "CHR ''.'' \<notin> set k" using assms by (auto simp: get_parent_iff)
  show ?thesis
  proof
    assume "\<exists>l. n = l @ CHR ''.'' # m"
    then obtain l where "k @ CHR ''.'' # p = l @ CHR ''.'' # m" using k(1) by auto
    then consider (eq) "k = l" "p = m" | (more) us where "l = k @ CHR ''.'' # us" "p = us @ CHR ''.'' # m"
      using k(2) by (auto simp: append_eq_append_conv2 Cons_eq_append_conv append_eq_Cons_conv)
    then show "m = p \<or> (\<exists>l. p = l @ CHR ''.'' # m)" by cases auto
  qed (use k in \<open>auto intro: exI [of _ "k @ CHR ''.'' # _"]\<close>)
qed

lemma any_parent_has_signed_iff:
  "any_parent_has_signed X e n \<longleftrightarrow>
     (\<exists>l m r. n = l @ CHR ''.'' # m \<and> get_account_record_of_name (current_state e) m = Some r \<and> \<not> is_retracted r \<and>
        (check_signature e (address_of_key X (active_key r)) \<or> check_signature e (address_of_key X (owner_key r))))"
proof (induction n rule: measure_induct_rule [of length])
  case (less n)
  show ?case
  proof (cases "get_parent_account_name n")
    case None
    then have "\<not> any_parent_has_signed X e n" by (simp add: any_parent_has_signed.simps)
    moreover have "\<nexists>l m. n = l @ CHR ''.'' # m" using None by (auto simp: get_parent_None)
    ultimately show ?thesis by blast
  next
    case (Some p)
    let ?ok = "\<lambda>m r. get_account_record_of_name (current_state e) m = Some r \<and> \<not> is_retracted r \<and>
      (check_signature e (address_of_key X (active_key r)) \<or> check_signature e (address_of_key X (owner_key r)))"
    have "any_parent_has_signed X e n \<longleftrightarrow> (\<exists>r. ?ok p r) \<or> any_parent_has_signed X e p"
      by (subst any_parent_has_signed.simps) (auto simp: Some split: option.split)
    also have "any_parent_has_signed X e p \<longleftrightarrow> (\<exists>l m r. p = l @ CHR ''.'' # m \<and> ?ok m r)"
      using less parent_shorter [OF Some] by blast
    finally show ?thesis using ancestor_of_parent [OF Some] by metis
  qed
qed

section \<open>Valid names\<close>

abbreviation name_char :: "char \<Rightarrow> bool" where
  "name_char c \<equiv> isalnum c \<and> \<not> isupper c \<or> c = CHR ''-''"

lemma valid_name_length:
  assumes "is_valid_account_name X n"
  shows "n \<noteq> []" "length n \<le> BTS_BLOCKCHAIN_MAX_NAME_SIZE" "isalnum (last n)"
  using assms
  by (subst (asm) is_valid_account_name.simps, auto simp: BTS_BLOCKCHAIN_MIN_NAME_SIZE_def split: if_split_asm)+

lemma valid_name_label:
  assumes "is_valid_account_name X n"
  shows "list_all name_char (takeWhile (\<lambda>c. c \<noteq> CHR ''.'') n)"
  using assms by (subst (asm) is_valid_account_name.simps) (auto simp: Let_def split: if_split_asm)

lemma valid_name_parent:
  assumes "is_valid_account_name X n" and p: "get_parent_account_name n = Some p"
  shows "is_valid_account_name X p"
proof -
  have "last n \<noteq> CHR ''.''" using valid_name_length(3) [OF assms(1)]
    by (auto simp: isalnum_def isalpha_def isupper_def islower_def)
  then have "p \<noteq> []" using p by (auto simp: get_parent_iff)
  then show ?thesis
    using assms by (subst (asm) is_valid_account_name.simps) (auto simp: Let_def split: if_split_asm)
qed

lemma valid_name_ancestor:
  assumes "is_valid_account_name X n" and "n = l @ CHR ''.'' # m"
  shows "is_valid_account_name X m"
  using assms
proof (induction n arbitrary: l rule: measure_induct_rule [of length])
  case (less n)
  obtain p where p: "get_parent_account_name n = Some p"
    using less.prems(2) get_parent_None [of n] by (cases "get_parent_account_name n") auto
  then have "m = p \<or> (\<exists>l. p = l @ CHR ''.'' # m)" using less.prems(2) ancestor_of_parent by blast
  then show ?case using less valid_name_parent [OF less.prems(1) p] parent_shorter [OF p] by blast
qed

lemma valid_name_chars:
  assumes "is_valid_account_name X n"
  shows "list_all (\<lambda>c. name_char c \<or> c = CHR ''.'') n"
  using assms
proof (induction n rule: measure_induct_rule [of length])
  case (less n)
  have label: "list_all (\<lambda>c. name_char c \<or> c = CHR ''.'') (takeWhile (\<lambda>c. c \<noteq> CHR ''.'') n)"
    using valid_name_label [OF less.prems] by (auto simp: list_all_iff)
  show ?case
  proof (cases "get_parent_account_name n")
    case None
    then have "takeWhile (\<lambda>c. c \<noteq> CHR ''.'') n = n" by (auto simp: get_parent_None takeWhile_eq_all_conv)
    then show ?thesis using label by (simp only:)
  next
    case (Some p)
    then obtain k where k: "n = k @ CHR ''.'' # p" "CHR ''.'' \<notin> set k" by (auto simp: get_parent_iff)
    then have "takeWhile (\<lambda>c. c \<noteq> CHR ''.'') n = k" by (auto simp: takeWhile_tail takeWhile_append2)
    then show ?thesis
      using label less.IH [OF parent_shorter [OF Some] valid_name_parent [OF less.prems Some]] k(1) by simp
  qed
qed

section \<open>Properties\<close>

text \<open>
  Who may act for an account: the recursive check is true exactly when the account itself, not
  retracted, has signed with its active or owner key, or some account whose name ends the name of the
  account after a dot has, at any height of the hierarchy.
\<close>

theorem parents_may_sign:
  "account_or_any_parent_has_signed X e a \<longleftrightarrow>
     (\<exists>m r. (m = account_name a \<and> r = a \<or>
             (\<exists>l. account_name a = l @ CHR ''.'' # m) \<and> get_account_record_of_name (current_state e) m = Some r) \<and>
        \<not> is_retracted r \<and>
        (check_signature e (address_of_key X (active_key r)) \<or> check_signature e (address_of_key X (owner_key r))))"
  unfolding account_or_any_parent_has_signed_def any_parent_has_signed_iff by auto

text \<open>
  C34. A valid account name has between one and 63 characters, all of them small letters, digits, dashes
  or dots, and every name that ends it after a dot is a valid name too.
\<close>

theorem valid_names_have_valid_parents:
  assumes "is_valid_account_name X n"
  shows "1 \<le> length n \<and> length n \<le> BTS_BLOCKCHAIN_MAX_NAME_SIZE \<and>
    list_all (\<lambda>c. isalnum c \<and> \<not> isupper c \<or> c = CHR ''-'' \<or> c = CHR ''.'') n \<and>
    (\<forall>l m. n = l @ CHR ''.'' # m \<longrightarrow> is_valid_account_name X m)"
  using valid_name_length [OF assms] valid_name_chars [OF assms] valid_name_ancestor [OF assms]
  by (auto simp: Suc_le_eq list_all_iff)

theorem valid_names_have_valid_parents_witness:
  "is_valid_account_name ext_std ''bob''"
proof -
  have "is_valid_account_name ext_std ''al.bob''" by code_simp
  moreover have "''al.bob'' = ''al'' @ CHR ''.'' # ''bob''" by simp
  ultimately show ?thesis using valid_names_have_valid_parents by blast
qed

end
