(* ===== verification/Market_Operations.thy ===== *)
theory Market_Operations
  imports Eval_State
begin

text \<open>
  The operations on market orders and short positions: \<^verbatim>\<open>market_operations.cpp\<close>, with the interest
  computations of \<^verbatim>\<open>market_engine.cpp\<close> they use, and \<^verbatim>\<open>feed_operations.cpp\<close>.
\<close>

section \<open>Interest\<close>

definition yearly_fraction :: "ext \<Rightarrow> price \<Rightarrow> 64 word \<Rightarrow> exn + (real128 \<times> real128)" where
  "yearly_fraction X apr age_seconds =
     bindE (asset_mul_price X (asset_of BTS_BLOCKCHAIN_MAX_SHARES (base_asset_id apr)) apr) (\<lambda>n.
     bindE (real128_div X (real128_of_uint64 X (amount n)) (real128_of_uint64 X BTS_BLOCKCHAIN_MAX_SHARES)) (\<lambda>iapr.
     bindE (real128_div X (real128_of_uint64 X age_seconds) (real128_of_uint64 X (365 * 24 * 60 * 60))) (\<lambda>percent_of_year.
     Inr (iapr, percent_of_year))))"

definition get_interest_paid :: "ext \<Rightarrow> asset \<Rightarrow> price \<Rightarrow> 64 word \<Rightarrow> exn + asset" where
  "get_interest_paid X total_amount_paid apr age_seconds =
     (let total_paid = real128_of_uint64 X (amount total_amount_paid)
      in bindE (yearly_fraction X apr age_seconds) (\<lambda>(iapr, percent_of_year).
         bindE (real128_div X total_paid
                  (real128_add X (real128_of_uint64 X 1) (real128_mul X iapr percent_of_year))) (\<lambda>delta_principle.
         bindE (real128_to_uint64 X (real128_sub X total_paid delta_principle)) (\<lambda>v.
         Inr (asset_of v (asset_id total_amount_paid))))))"

definition get_interest_owed :: "ext \<Rightarrow> asset \<Rightarrow> price \<Rightarrow> 64 word \<Rightarrow> exn + asset" where
  "get_interest_owed X principle apr age_seconds =
     (let total_principle = real128_of_uint64 X (amount principle)
      in bindE (yearly_fraction X apr age_seconds) (\<lambda>(iapr, percent_of_year).
         bindE (real128_to_uint64 X (real128_mul X (real128_mul X total_principle iapr) percent_of_year)) (\<lambda>v.
         Inr (asset_of v (asset_id principle)))))"

section \<open>Bids, asks and shorts\<close>

text \<open>
  The part the three handlers share: a negative amount withdraws from the order, a positive one
  adds to it. The absolute value of the smallest number wraps around.
\<close>

definition adjust_order ::
    "share_type \<Rightarrow> asset \<Rightarrow> order_record option \<Rightarrow> eval_state \<Rightarrow> exn + (order_record \<times> eval_state)" where
  "adjust_order amt delta_amount current_order e =
     (if amt = 0 then Inl zero_amount
      else if sint amt < 0 then
        (case current_order of
           None \<Rightarrow> Inl unknown_market_order
         | Some r \<Rightarrow>
             if sint (- amt) > sint (order_balance r) then Inl insufficient_funds
             else bindE (add_balance (asset_neg delta_amount) e) (\<lambda>e1. Inr (r, e1)))
      else
        bindE (sub_balance null_address delta_amount e) (\<lambda>e1.
        Inr (case current_order of Some r \<Rightarrow> r | None \<Rightarrow> new_order_record, e1)))"

definition bid_evaluate :: "share_type \<Rightarrow> market_index_key \<Rightarrow> eval_state \<Rightarrow> exn + eval_state" where
  "bid_evaluate amt k e =
     (if price_eq (order_price k) null_price then Inl zero_price
      else if \<not> check_signature e (owner k) then Inl missing_signature
      else
        let delta_amount = asset_of amt (quote_asset_id (order_price k))
        in bindE (validate_asset e delta_amount) (\<lambda>_.
           bindE (adjust_order amt delta_amount (get_bid_record (current_state e) k) e) (\<lambda>(r, e1).
           let r' = r \<lparr> order_last_update := now (current_state e1), order_balance := order_balance r + amt \<rparr>
           in Inr (e1 \<lparr> current_state := store_bid_record k r' (current_state e1) \<rparr>))))"

definition ask_evaluate :: "share_type \<Rightarrow> market_index_key \<Rightarrow> eval_state \<Rightarrow> exn + eval_state" where
  "ask_evaluate amt k e =
     (if price_eq (order_price k) null_price then Inl zero_price
      else if \<not> check_signature e (owner k) then Inl missing_signature
      else
        let delta_amount = asset_of amt (base_asset_id (order_price k))
        in bindE (validate_asset e delta_amount) (\<lambda>_.
           bindE (adjust_order amt delta_amount (get_ask_record (current_state e) k) e) (\<lambda>(r, e1).
           let r' = r \<lparr> order_last_update := now (current_state e1), order_balance := order_balance r + amt \<rparr>
           in if \<not> sint (order_balance r') \<ge> 0 then Inl assert_failed
              else Inr (e1 \<lparr> current_state := store_ask_record k r' (current_state e1) \<rparr>))))"

definition short_evaluate :: "share_type \<Rightarrow> market_index_key \<Rightarrow> price option \<Rightarrow> eval_state \<Rightarrow> exn + eval_state" where
  "short_evaluate amt k price_limit e =
     (let p = order_price k; delta_amount = asset_of amt (base_asset_id p); c = current_state e
      in if \<not> ratio p < push_bit 64 10 then Inl assert_failed
         else if \<not> quote_asset_id p > base_asset_id p then Inl assert_failed
         else if asset_id delta_amount \<noteq> 0 then Inl assert_failed
         else
           bindE (validate_asset e delta_amount) (\<lambda>_.
           case get_asset_record c (quote_asset_id p) of
             None \<Rightarrow> Inl assert_failed
           | Some asset_to_short \<Rightarrow>
               if \<not> is_market_issued asset_to_short then Inl assert_failed
               else if sint amt < 0 \<and> \<not> check_signature e (owner k) then Inl missing_signature
               else
                 bindE (adjust_order amt delta_amount (get_short_record c k) e) (\<lambda>(r, e1).
                 let r' = r \<lparr> short_price_limit := price_limit, order_last_update := now (current_state e1),
                              order_balance := order_balance r + amt \<rparr>
                 in if \<not> sint (order_balance r') \<ge> 0 then Inl assert_failed
                    else Inr (e1 \<lparr> current_state := store_short_record k r' (current_state e1) \<rparr>))))"

section \<open>Short positions\<close>

definition call_price :: "ext \<Rightarrow> market_index_key \<Rightarrow> collateral_record \<Rightarrow> exn + price" where
  "call_price X k r =
     price_of X (asset_of (payoff_balance r) (quote_asset_id (order_price k)))
                (asset_of (sdiv64 (collateral_balance r * 2) 3) (base_asset_id (order_price k)))"

text \<open>How a payment splits into principle and interest; the new debt is returned with them.\<close>

definition split_cover ::
    "ext \<Rightarrow> asset \<Rightarrow> collateral_record \<Rightarrow> 64 word \<Rightarrow> exn + (asset \<times> asset \<times> collateral_record)" where
  "split_cover X delta_amount r elapsed_sec =
     (let principle = asset_of (payoff_balance r) (asset_id delta_amount)
      in bindE (get_interest_owed X principle (interest_rate r) elapsed_sec) (\<lambda>owed.
         bindE (asset_add owed principle) (\<lambda>total_debt.
         if asset_ge delta_amount total_debt then
           bindE (asset_sub delta_amount principle) (\<lambda>interest.
           Inr (principle, interest, r \<lparr> payoff_balance := 0 \<rparr>))
         else
           bindE (get_interest_paid X delta_amount (interest_rate r) elapsed_sec) (\<lambda>interest.
           bindE (asset_sub delta_amount interest) (\<lambda>paid.
           Inr (paid, interest, r \<lparr> payoff_balance := payoff_balance r - amount paid \<rparr>))))))"

definition cover_evaluate ::
    "ext \<Rightarrow> share_type \<Rightarrow> market_index_key \<Rightarrow> price option \<Rightarrow> eval_state \<Rightarrow> exn + eval_state" where
  "cover_evaluate X amt k new_cover_price e0 =
     (let p = order_price k; delta_amount = asset_of amt (quote_asset_id p)
      in if price_eq p null_price then Inl zero_price
         else if amt = 0 \<and> new_cover_price = None then Inl zero_amount
         else if sint amt < 0 then Inl negative_deposit
         else if \<not> check_signature e0 (owner k) then Inl missing_signature
         else
           bindE (sub_balance null_address delta_amount e0) (\<lambda>e.
           case get_collateral_record (current_state e) k of
             None \<Rightarrow> Inl unknown_market_order
           | Some r \<Rightarrow>
           (case get_asset_record (current_state e) (quote_asset_id p) of
             None \<Rightarrow> Inl assert_failed
           | Some asset_to_cover \<Rightarrow>
               let start_time = int (collateral_expiration r) - int BTS_BLOCKCHAIN_MAX_SHORT_PERIOD_SEC;
                   elapsed = int (now (current_state e)) - start_time;
                   elapsed_sec = (if elapsed < 0 then 0 else elapsed)
               in bindE (split_cover X delta_amount r (word_of_int (elapsed_sec mod 2 ^ 32))) (\<lambda>(paid, interest, r1).
                  if \<not> sint (amount paid) \<ge> 0 then Inl assert_failed
                  else if \<not> sint (amount interest) \<ge> 0 then Inl assert_failed
                  else if \<not> sint (payoff_balance r1) \<ge> 0 then Inl assert_failed
                  else
                    let c1 = store_asset_record
                               (asset_to_cover \<lparr>
                                  current_share_supply := current_share_supply asset_to_cover - amount paid,
                                  collected_fees := collected_fees asset_to_cover + amount interest \<rparr>)
                               (current_state e);
                        c2 = store_collateral_record k new_collateral_record c1;
                        e2 = e \<lparr> current_state := c2 \<rparr>
                    in if \<not> quote_asset_id (interest_rate r1) > base_asset_id (interest_rate r1)
                       then Inl assert_failed
                       else if sint (payoff_balance r1) > 0 then
                         bindE (call_price X k r1) (\<lambda>new_call_price.
                         let key_price =
                           (case new_cover_price of
                              Some np \<Rightarrow> if new_call_price < np then np else new_call_price
                            | None \<Rightarrow> new_call_price)
                         in Inr (e2 \<lparr> current_state :=
                                   store_collateral_record (Market_index_key key_price (owner k)) r1 c2 \<rparr>))
                       else add_balance (asset_of (collateral_balance r1) (base_asset_id p)) e2))))"

definition add_collateral_evaluate :: "ext \<Rightarrow> share_type \<Rightarrow> market_index_key \<Rightarrow> eval_state \<Rightarrow> exn + eval_state" where
  "add_collateral_evaluate X amt k e0 =
     (if price_eq (order_price k) null_price then Inl zero_price
      else if amt = 0 then Inl zero_amount
      else if sint amt < 0 then Inl negative_deposit
      else
        bindE (sub_balance null_address (asset_of amt (base_asset_id (order_price k))) e0) (\<lambda>e.
        case get_collateral_record (current_state e) k of
          None \<Rightarrow> Inl unknown_market_order
        | Some r \<Rightarrow>
            let r1 = r \<lparr> collateral_balance := collateral_balance r + amt \<rparr>;
                c1 = store_collateral_record k new_collateral_record (current_state e)
            in bindE (call_price X k r1) (\<lambda>new_call_price.
               Inr (e \<lparr> current_state :=
                          store_collateral_record (Market_index_key new_call_price (owner k)) r1 c1 \<rparr>))))"

definition remove_collateral_evaluate :: "share_type \<Rightarrow> address \<Rightarrow> eval_state \<Rightarrow> exn + eval_state" where
  "remove_collateral_evaluate amt owner_addr e = Inl assert_failed"

section \<open>Feeds\<close>

text \<open>An active delegate without an account record would dereference an empty optional.\<close>

definition update_feed_evaluate :: "ext \<Rightarrow> feed_index \<Rightarrow> feed_value \<Rightarrow> eval_state \<Rightarrow> exn + eval_state" where
  "update_feed_evaluate X i v e =
     (let c = current_state e
      in bindE (is_active_delegate c (snd i)) (\<lambda>active.
         if \<not> active then Inl assert_failed
         else case get_account_record c (snd i) of
                None \<Rightarrow> Inl (Fc_exception ''undefined_behaviour'')
              | Some r \<Rightarrow>
                  if \<not> check_signature e (address_of_key X (active_key r)) then Inl assert_failed
                  else
                    bindE (set_market_dirty (fst i) 0
                             (set_feed \<lparr> feed = i, feed_value_of = v, feed_last_update = now c \<rparr> c)) (\<lambda>c'.
                    Inr (e \<lparr> current_state := c' \<rparr>))))"

end
