(* ===== verification/Evaluation.thy ===== *)
theory Evaluation
  imports Balance_Operations Account_Operations Market_Operations
begin

text \<open>
  The evaluation of a whole transaction: the dispatch of \<^verbatim>\<open>operation_factory::evaluate\<close> and
  \<^verbatim>\<open>transaction_evaluation_state::evaluate\<close>.
\<close>

section \<open>Dispatch\<close>

primrec balance_operation_evaluate :: "ext \<Rightarrow> balance_operation \<Rightarrow> eval_state \<Rightarrow> exn + eval_state" where
  "balance_operation_evaluate X (Withdraw_operation bid amt input) = withdraw_evaluate X bid amt input"
| "balance_operation_evaluate X (Withdraw_all_operation bid input) = withdraw_all_evaluate bid input"
| "balance_operation_evaluate X (Deposit_operation amt cond) = deposit_evaluate X amt cond"
| "balance_operation_evaluate X (Define_delegate_slate_operation slate) = define_delegate_slate_evaluate X slate"
| "balance_operation_evaluate X (Burn_operation a i msg sig) = burn_evaluate X a i msg sig"
| "balance_operation_evaluate X (Release_escrow_operation bid by r s) = release_escrow_evaluate bid by r s"
| "balance_operation_evaluate X (Claim_operation bid amt source dest sig) = claim_evaluate X bid amt source dest sig"

primrec account_operation_evaluate :: "ext \<Rightarrow> account_operation \<Rightarrow> eval_state \<Rightarrow> exn + eval_state" where
  "account_operation_evaluate X (Register_account_operation n d ok ak rate meta) =
     register_account_evaluate X n d ok ak rate meta"
| "account_operation_evaluate X (Update_account_operation i d k rate) = update_account_evaluate X i d k rate"
| "account_operation_evaluate X (Withdraw_pay_operation amt i) = withdraw_pay_evaluate X amt i"
| "account_operation_evaluate X (Link_account_operation s t d) = link_account_evaluate s t d"

primrec market_operation_evaluate :: "ext \<Rightarrow> market_operation \<Rightarrow> eval_state \<Rightarrow> exn + eval_state" where
  "market_operation_evaluate X (Bid_operation amt k) = bid_evaluate amt k"
| "market_operation_evaluate X (Ask_operation amt k) = ask_evaluate amt k"
| "market_operation_evaluate X (Short_operation amt k l) = short_evaluate amt k l"
| "market_operation_evaluate X (Cover_operation amt k np) = cover_evaluate X amt k np"
| "market_operation_evaluate X (Add_collateral_operation amt k) = add_collateral_evaluate X amt k"
| "market_operation_evaluate X (Remove_collateral_operation amt a) = remove_collateral_evaluate amt a"

text \<open>
  An operation whose type has no converter is not supported; data that does not unpack raises
  when the converter unpacks it.
\<close>

primrec evaluate_operation :: "ext \<Rightarrow> operation \<Rightarrow> eval_state \<Rightarrow> exn + eval_state" where
  "evaluate_operation X (Balance_op op) = balance_operation_evaluate X op"
| "evaluate_operation X (Account_op op) = account_operation_evaluate X op"
| "evaluate_operation X (Market_op op) = market_operation_evaluate X op"
| "evaluate_operation X (Update_feed_operation i v) = update_feed_evaluate X i v"
| "evaluate_operation X (Unreadable_operation t s) = (\<lambda>e. Inl unpack_failed)"
| "evaluate_operation X (Unregistered_operation t s) = (\<lambda>e. Inl unsupported_chain_operation)"

section \<open>Signatures of the transaction\<close>

text \<open>Every signature stands for the addresses of its key in all supported formats.\<close>

definition addresses_of_key :: "ext \<Rightarrow> key \<Rightarrow> address list" where
  "addresses_of_key X k =
     [address_of_key X k,
      address_of_pts X (pts_address_of_key X k False 28),
      address_of_pts X (pts_address_of_key X k True 28),
      address_of_pts X (pts_address_of_key X k False 56),
      address_of_pts X (pts_address_of_key X k True 56),
      address_of_pts X (pts_address_of_key X k False 0),
      address_of_pts X (pts_address_of_key X k True 0)]"

definition recover_signed_keys ::
    "ext \<Rightarrow> digest_type \<Rightarrow> bool \<Rightarrow> signature_type list \<Rightarrow> address list \<Rightarrow> exn + address list" where
  "recover_signed_keys X digest enforce_canonical sigs keys =
     foldE (\<lambda>sig ks. bindE (recover_key X sig digest enforce_canonical) (\<lambda>k.
       Inr (fold List.insert (addresses_of_key X k) ks))) sigs keys"

section \<open>Evaluation\<close>

definition evaluate_operations :: "ext \<Rightarrow> operation list \<Rightarrow> eval_state \<Rightarrow> exn + eval_state" where
  "evaluate_operations X ops e =
     foldE (\<lambda>op e. bindE (evaluate_operation X op e) (\<lambda>e'.
       Inr (e' \<lparr> current_op_index := Suc (current_op_index e') \<rparr>))) ops e"

text \<open>The checks on the transaction itself and the recovery of its signing keys.\<close>

definition begin_evaluation :: "ext \<Rightarrow> signed_transaction \<Rightarrow> bool \<Rightarrow> bool \<Rightarrow> eval_state \<Rightarrow> exn + eval_state" where
  "begin_evaluation X trx_arg skip enforce_canonical e =
     (let e0 = (reset e) \<lparr> skip_signature_check := skip \<rparr>;
          c = current_state e0;
          digest = transaction_hash X trx_arg (eval_chain_id e0)
      in if now c \<ge> trx_expiration trx_arg then Inl expired_transaction
         else if now c + BTS_BLOCKCHAIN_MAX_TRANSACTION_EXPIRATION_SEC < trx_expiration trx_arg
         then Inl invalid_transaction_expiration
         else if is_known_transaction c (trx_expiration trx_arg) digest \<and> get_head_block_num c \<ge> FORK_25
         then Inl duplicate_transaction
         else
           let e1 = e0 \<lparr> trx := trx_arg \<rparr>
           in bindE (if skip then Inr (signed_keys e1)
                     else recover_signed_keys X digest enforce_canonical (signatures trx_arg) (signed_keys e1)) (\<lambda>keys.
              Inr (e1 \<lparr> signed_keys := keys, current_op_index := 0 \<rparr>)))"

definition evaluate :: "ext \<Rightarrow> signed_transaction \<Rightarrow> bool \<Rightarrow> bool \<Rightarrow> eval_state \<Rightarrow> exn + eval_state" where
  "evaluate X trx_arg skip enforce_canonical e =
     bindE (begin_evaluation X trx_arg skip enforce_canonical e) (\<lambda>e2.
     bindE (evaluate_operations X (trx_operations trx_arg) e2) (\<lambda>e3.
     bindE (post_evaluate X e3) (\<lambda>e4.
     bindE (validate_required_fee e4) (\<lambda>_.
     update_delegate_votes X e4))))"

end
