(* ===== verification/Conservation.thy ===== *)
theory Conservation
  imports Chain_Laws Evaluation
begin

text \<open>
  Conservation of shares. \<open>chain_total c a\<close> is what \<^verbatim>\<open>chain_database::calculate_supply\<close> adds up for
  the asset \<open>a\<close>: collected fees, balances, asks, and for the base asset shorts, collateral and
  delegate pay, for the others bids. \<open>holdings c a\<close> is what the ledger holds of \<open>a\<close>, with no
  asset left out: the orders and positions of every market are counted under the asset they were
  paid in. During the evaluation of a transaction \<open>books e a\<close>, the holdings plus the balance of the
  transaction minus the recorded share supply, does not change, except that a cover or added
  collateral may overwrite another position of the same owner; at the end the balance of the
  transaction has become fees. All sums are sums of 64-bit words, so the statements include
  arithmetic that wraps around.
\<close>

section \<open>Totals\<close>

definition fees_of :: "chain \<Rightarrow> asset_id_type \<Rightarrow> share_type" where
  "fees_of c a = (case get_asset_record c a of Some r \<Rightarrow> collected_fees r | None \<Rightarrow> 0)"

definition supply_of :: "chain \<Rightarrow> asset_id_type \<Rightarrow> share_type" where
  "supply_of c a = (case get_asset_record c a of Some r \<Rightarrow> current_share_supply r | None \<Rightarrow> 0)"

definition balance_in :: "asset_id_type \<Rightarrow> balance_id_type \<Rightarrow> balance_record \<Rightarrow> share_type" where
  "balance_in a i r = (if condition_asset_id (condition r) = a then balance r else 0)"

definition ask_in :: "asset_id_type \<Rightarrow> market_index_key \<Rightarrow> order_record \<Rightarrow> share_type" where
  "ask_in a k r = (if base_asset_id (order_price k) = a then order_balance r else 0)"

definition bid_in :: "asset_id_type \<Rightarrow> market_index_key \<Rightarrow> order_record \<Rightarrow> share_type" where
  "bid_in a k r = (if quote_asset_id (order_price k) = a then order_balance r else 0)"

definition short_in :: "market_index_key \<Rightarrow> order_record \<Rightarrow> share_type" where
  "short_in k r = order_balance r"

definition collateral_in :: "market_index_key \<Rightarrow> collateral_record \<Rightarrow> share_type" where
  "collateral_in k r = collateral_balance r"

definition pay_in :: "account_id_type \<Rightarrow> account_record \<Rightarrow> share_type" where
  "pay_in i r = (case delegate_info r of Some d \<Rightarrow> pay_balance d | None \<Rightarrow> 0)"

definition chain_total :: "chain \<Rightarrow> asset_id_type \<Rightarrow> share_type" where
  "chain_total c a =
     fees_of c a + msum (balance_in a) (get_balance_record c) + msum (ask_in a) (get_ask_record c) +
     (if a = 0 then msum short_in (get_short_record c) + msum collateral_in (get_collateral_record c) +
                    msum pay_in (get_account_record c)
      else msum (bid_in a) (get_bid_record c))"

text \<open>
  What the ledger holds of an asset: the same sum with bids and collateral counted in every asset.
  The two differ by the bids quoted in the base asset and by the collateral put up in another asset.
\<close>

definition position_in :: "asset_id_type \<Rightarrow> market_index_key \<Rightarrow> collateral_record \<Rightarrow> share_type" where
  "position_in a k r = (if base_asset_id (order_price k) = a then collateral_balance r else 0)"

definition holdings :: "chain \<Rightarrow> asset_id_type \<Rightarrow> share_type" where
  "holdings c a =
     fees_of c a + msum (balance_in a) (get_balance_record c) + msum (ask_in a) (get_ask_record c) +
     msum (bid_in a) (get_bid_record c) + msum (position_in a) (get_collateral_record c) +
     (if a = 0 then msum short_in (get_short_record c) + msum pay_in (get_account_record c) else 0)"

definition uncounted :: "chain \<Rightarrow> asset_id_type \<Rightarrow> share_type" where
  "uncounted c a = msum (position_in a) (get_collateral_record c) +
     (if a = 0 then msum (bid_in 0) (get_bid_record c) - msum collateral_in (get_collateral_record c) else 0)"

lemma holdings_split: "holdings c a = chain_total c a + uncounted c a"
  by (simp add: holdings_def chain_total_def uncounted_def)

lemma holdings_are_counted:
  assumes "\<And>k r. get_bid_record c k = Some r \<Longrightarrow> quote_asset_id (order_price k) \<noteq> 0"
    and "\<And>k r. get_collateral_record c k = Some r \<Longrightarrow> base_asset_id (order_price k) = 0"
  shows "holdings c a = chain_total c a"
proof -
  have "msum (bid_in 0) (get_bid_record c) = 0"
    unfolding msum_def using assms(1) by (intro sum.neutral) (auto simp: bid_in_def)
  moreover have "msum (position_in a) (get_collateral_record c) =
      (if a = 0 then msum collateral_in (get_collateral_record c) else 0)"
    unfolding msum_def using assms(2)
    by (auto simp: position_in_def collateral_in_def intro!: sum.cong sum.neutral)
  ultimately show ?thesis by (simp add: holdings_split uncounted_def)
qed

text \<open>The computation of the database, in the order of its loops.\<close>

definition calculate_supply :: "chain_database \<Rightarrow> asset_id_type \<Rightarrow> exn + asset" where
  "calculate_supply d a =
     (case map_of (asset_db d) a of
        None \<Rightarrow> Inl assert_failed
      | Some r \<Rightarrow>
          bindE (foldE (\<lambda>(i, b) total.
                   if condition_asset_id (condition b) = asset_id total then asset_add total (get_balance b)
                   else Inr total) (in_order (balance_db d)) (asset_of (collected_fees r) a)) (\<lambda>total.
          let asks = fold (\<lambda>(k, b) t. if base_asset_id (order_price k) = a then t + order_balance b else t)
                       (in_order (ask_db d)) (amount total);
              rest =
                (if a = 0 then
                   let shorts = fold (\<lambda>(k, b) t. t + order_balance b) (in_order (short_db d)) asks;
                       coll = fold (\<lambda>(k, b) t. t + collateral_balance b) (in_order (collateral_db d)) shorts
                   in fold (\<lambda>(i, b) t. case delegate_info b of Some del \<Rightarrow> t + pay_balance del | None \<Rightarrow> t)
                        (in_order (account_db d)) coll
                 else fold (\<lambda>(k, b) t. if quote_asset_id (order_price k) = a then t + order_balance b else t)
                        (in_order (bid_db d)) asks)
          in Inr (total \<lparr> amount := rest \<rparr>)))"

definition calculate_debt :: "chain_database \<Rightarrow> asset_id_type \<Rightarrow> exn + asset" where
  "calculate_debt d a =
     (case map_of (asset_db d) a of
        None \<Rightarrow> Inl assert_failed
      | Some r \<Rightarrow>
          if \<not> is_market_issued r then Inl assert_failed
          else Inr (asset_of (fold (\<lambda>(k, b) t. if quote_asset_id (order_price k) = a
                                               then t + payoff_balance b else t)
                                (in_order (collateral_db d)) 0) a))"

text \<open>What stays constant while a transaction is evaluated.\<close>

definition books :: "eval_state \<Rightarrow> asset_id_type \<Rightarrow> share_type" where
  "books e a = holdings (current_state e) a + balance_of e a - supply_of (current_state e) a"

lemma books_split:
  "books e a = chain_total (current_state e) a + uncounted (current_state e) a + balance_of e a -
     supply_of (current_state e) a"
  by (simp add: books_def holdings_split)

text \<open>
  The state of the chain during an evaluation: a pending state whose records are stored under
  their own keys and whose account ids do not exceed the last one given out.
\<close>

definition chain_ok :: "ext \<Rightarrow> chain \<Rightarrow> bool" where
  "chain_ok X c \<longleftrightarrow>
     is_pending c \<and>
     (\<forall>i r. get_asset_record c i = Some r \<longrightarrow> asset_record_id r = i) \<and>
     (\<forall>i r. get_balance_record c i = Some r \<longrightarrow> balance_record_id X r = i) \<and>
     (\<forall>i r. get_account_record c i = Some r \<longrightarrow> account_id r = i) \<and>
     (\<forall>n. get_property c last_account_id = Inr (Int_property n) \<longrightarrow>
        (\<forall>i. get_account_record c i \<noteq> None \<longrightarrow> i \<le> n))"

section \<open>How stores change the totals\<close>

lemma supply_of_frames [simp]:
  "supply_of (store_balance_record X br c) a = supply_of c a"
  "supply_of (store_account_record X ar c) a = supply_of c a"
  "supply_of (store_bid_record k r c) a = supply_of c a"
  "supply_of (store_ask_record k r c) a = supply_of c a"
  "supply_of (store_short_record k r c) a = supply_of c a"
  "supply_of (store_collateral_record k cr c) a = supply_of c a"
  "supply_of (store_delegate_slate i s c) a = supply_of c a"
  "supply_of (set_property pi pv c) a = supply_of c a"
  "supply_of (set_feed f c) a = supply_of c a"
  "supply_of (store_burn_record bk bv c) a = supply_of c a"
  by (simp_all add: supply_of_def)

lemma chain_total_frames [simp]:
  "chain_total (store_delegate_slate i s c) a = chain_total c a"
  "chain_total (set_property pi pv c) a = chain_total c a"
  "chain_total (set_feed f c) a = chain_total c a"
  "chain_total (store_burn_record bk bv c) a = chain_total c a"
  by (simp_all add: chain_total_def fees_of_def)

lemma uncounted_frames [simp]:
  "uncounted (store_asset_record ar c) a = uncounted c a"
  "uncounted (store_balance_record X br c) a = uncounted c a"
  "uncounted (store_account_record X acr c) a = uncounted c a"
  "uncounted (store_ask_record k r c) a = uncounted c a"
  "uncounted (store_short_record k r c) a = uncounted c a"
  "uncounted (store_delegate_slate i s c) a = uncounted c a"
  "uncounted (set_property pi pv c) a = uncounted c a"
  "uncounted (set_feed f c) a = uncounted c a"
  "uncounted (store_burn_record bk bv c) a = uncounted c a"
  by (simp_all add: uncounted_def)

lemma holdings_frames [simp]:
  "holdings (store_delegate_slate i s c) a = holdings c a"
  "holdings (set_property pi pv c) a = holdings c a"
  "holdings (set_feed f c) a = holdings c a"
  "holdings (store_burn_record bk bv c) a = holdings c a"
  by (simp_all add: holdings_split)

lemma total_store_asset:
  assumes "is_pending c"
  shows "chain_total (store_asset_record r c) a =
      (if a = asset_record_id r then chain_total c a - fees_of c a + collected_fees r else chain_total c a)"
    and "supply_of (store_asset_record r c) a =
      (if a = asset_record_id r then current_share_supply r else supply_of c a)"
  using assms by (simp_all add: chain_total_def fees_of_def supply_of_def get_store_asset)

lemma total_store_balance:
  assumes "is_pending c"
  shows "chain_total (store_balance_record X r c) a =
    chain_total c a - entry (balance_in a) (get_balance_record c) (balance_record_id X r)
      + balance_in a (balance_record_id X r) r"
  using balances.sum_put [OF assms, of _ X r "balance_in a"]
  by (simp add: chain_total_def fees_of_def)

lemma total_store_account:
  assumes "is_pending c"
  shows "chain_total (store_account_record X r c) a =
    (if a = 0 then chain_total c a - entry pay_in (get_account_record c) (account_id r) + pay_in (account_id r) r
     else chain_total c a)"
  using accounts.sum_put [OF assms, of _ r pay_in X]
  by (simp add: chain_total_def fees_of_def)

lemma total_store_bid:
  assumes "is_pending c"
  shows "chain_total (store_bid_record k r c) a =
    (if a = 0 then chain_total c a
     else chain_total c a - entry (bid_in a) (get_bid_record c) k + bid_in a k r)"
  using bids.sum_put [where f = "bid_in a" and k = k and v = r, OF assms] by (simp add: chain_total_def fees_of_def)

lemma total_store_ask:
  assumes "is_pending c"
  shows "chain_total (store_ask_record k r c) a =
    chain_total c a - entry (ask_in a) (get_ask_record c) k + ask_in a k r"
  using asks.sum_put [where f = "ask_in a" and k = k and v = r, OF assms] by (simp add: chain_total_def fees_of_def)

lemma total_store_short:
  assumes "is_pending c"
  shows "chain_total (store_short_record k r c) a =
    (if a = 0 then chain_total c a - entry short_in (get_short_record c) k + short_in k r
     else chain_total c a)"
  using shorts.sum_put [where f = short_in and k = k and v = r, OF assms] by (simp add: chain_total_def fees_of_def)

lemma total_store_collateral:
  assumes "is_pending c"
  shows "chain_total (store_collateral_record k r c) a =
    (if a = 0 then chain_total c a - entry collateral_in (get_collateral_record c) k + collateral_in k r
     else chain_total c a)"
  using collaterals.sum_put [where f = collateral_in and k = k and v = r, OF assms] by (simp add: chain_total_def fees_of_def)

lemma holdings_store_asset:
  assumes "is_pending c"
  shows "holdings (store_asset_record r c) a =
      (if a = asset_record_id r then holdings c a - fees_of c a + collected_fees r else holdings c a)"
  by (simp add: holdings_split total_store_asset [OF assms])

lemma holdings_store_bid:
  assumes "is_pending c"
  shows "holdings (store_bid_record k r c) a = holdings c a - entry (bid_in a) (get_bid_record c) k + bid_in a k r"
  using bids.sum_put [where f = "bid_in a" and k = k and v = r, OF assms] by (simp add: holdings_def fees_of_def)

lemma holdings_store_collateral:
  assumes "is_pending c"
  shows "holdings (store_collateral_record k r c) a =
    holdings c a - entry (position_in a) (get_collateral_record c) k + position_in a k r"
  using collaterals.sum_put [where f = "position_in a" and k = k and v = r, OF assms]
  by (simp add: holdings_def fees_of_def)

lemmas total_stores = total_store_asset total_store_balance total_store_account total_store_bid
  total_store_ask total_store_short total_store_collateral

section \<open>Well-formed chains stay well-formed\<close>

lemma get_set_property [store_simps]:
  "is_pending c \<Longrightarrow> get_property (set_property i v c) = (get_property c)(i := Inr v)"
  by (cases c) (auto simp: fun_eq_iff pending_set_property_def)

lemma chain_ok_frames [simp, intro]:
  assumes "chain_ok X c"
  shows "chain_ok X (store_asset_record ar c)"
    "chain_ok X (store_balance_record X br c)"
    "chain_ok X (store_delegate_slate i s c)"
    "chain_ok X (store_bid_record k r c)"
    "chain_ok X (store_ask_record k r c)"
    "chain_ok X (store_short_record k r c)"
    "chain_ok X (store_collateral_record k cr c)"
    "chain_ok X (set_feed f c)"
    "chain_ok X (store_burn_record bk bv c)"
  using assms unfolding chain_ok_def by (simp_all add: store_simps)

lemma chain_ok_store_account [intro]:
  assumes "chain_ok X c" and "get_account_record c (account_id r) \<noteq> None"
  shows "chain_ok X (store_account_record X r c)"
  using assms unfolding chain_ok_def by (simp add: store_simps)

lemma chain_ok_new_account:
  assumes "chain_ok X c" and "get_property c last_account_id = Inr (Int_property n)" and "account_id r = n + 1"
  shows "chain_ok X (store_account_record X r (set_property last_account_id (Int_property (n + 1)) c))"
    and "get_account_record c (n + 1) = None"
proof -
  have le: "i \<le> n" if "get_account_record c i \<noteq> None" for i
    using assms(1,2) that unfolding chain_ok_def by blast
  then show none: "get_account_record c (n + 1) = None" by fastforce
  show "chain_ok X (store_account_record X r (set_property last_account_id (Int_property (n + 1)) c))"
    using assms le unfolding chain_ok_def by (auto simp: store_simps order.trans [OF le])
qed

lemma chain_ok_pending: "chain_ok X c \<Longrightarrow> is_pending c"
  by (simp add: chain_ok_def)

lemma chain_ok_ids:
  assumes "chain_ok X c"
  shows "get_asset_record c i = Some ar \<Longrightarrow> asset_record_id ar = i"
    and "get_balance_record c j = Some br \<Longrightarrow> balance_record_id X br = j"
    and "get_account_record c l = Some acr \<Longrightarrow> account_id acr = l"
  using assms by (auto simp: chain_ok_def)

section \<open>The balance of the transaction\<close>

lemma sub_balance_Inr:
  assumes "sub_balance bid x e = Inr e'"
  shows "current_state e' = current_state e" "trx e' = trx e" "signed_keys e' = signed_keys e"
    "skip_signature_check e' = skip_signature_check e" "net_delegate_votes e' = net_delegate_votes e"
    "balance_of e' a = balance_of e a - (if a = asset_id x then amount x else 0)"
  using assms
  by (auto simp: sub_balance_def balance_of_def bindE_Inr_iff split: option.splits if_splits)

lemma add_balance_Inr:
  assumes "add_balance x e = Inr e'"
  shows "current_state e' = current_state e" "trx e' = trx e" "signed_keys e' = signed_keys e"
    "skip_signature_check e' = skip_signature_check e" "net_delegate_votes e' = net_delegate_votes e"
    "balance_of e' a = balance_of e a + (if a = asset_id x then amount x else 0)"
  using assms
  by (auto simp: add_balance_def balance_of_def bindE_Inr_iff split: option.splits if_splits)

lemma adjust_vote_Inr:
  assumes "adjust_vote sid v e = Inr e'"
  shows "current_state e' = current_state e" "trx e' = trx e" "signed_keys e' = signed_keys e"
    "skip_signature_check e' = skip_signature_check e" "balance_of e' a = balance_of e a"
  using assms by (auto simp: adjust_vote_def balance_of_def split: option.splits if_splits)

lemma balance_of_updates [simp]:
  "balance_of (e \<lparr> current_state := c \<rparr>) a = balance_of e a"
  "balance_of (e \<lparr> net_delegate_votes := nv \<rparr>) a = balance_of e a"
  "balance_of (e \<lparr> yield := y \<rparr>) a = balance_of e a"
  "balance_of (e \<lparr> required_fees := f \<rparr>) a = balance_of e a"
  "balance_of (e \<lparr> alt_fees_paid := f \<rparr>) a = balance_of e a"
  "balance_of (e \<lparr> current_op_index := n \<rparr>) a = balance_of e a"
  by (simp_all add: balance_of_def)

text \<open>What an operation keeps: the books of every asset and the well-formedness of the chain.\<close>

definition keeps_books :: "ext \<Rightarrow> eval_state \<Rightarrow> eval_state \<Rightarrow> bool" where
  "keeps_books X e e' \<longleftrightarrow>
     (\<forall>a. books e' a = books e a) \<and> (chain_ok X (current_state e) \<longrightarrow> chain_ok X (current_state e'))"

lemma keeps_books_refl [simp]: "keeps_books X e e"
  by (simp add: keeps_books_def)

lemma keeps_books_trans: "keeps_books X e e1 \<Longrightarrow> keeps_books X e1 e2 \<Longrightarrow> keeps_books X e e2"
  by (auto simp: keeps_books_def)

section \<open>Balance operations\<close>

lemma optional_vote_Inr:
  assumes "(if b then adjust_vote sid v e else Inr e) = Inr e'"
  shows "current_state e' = current_state e" "trx e' = trx e" "signed_keys e' = signed_keys e"
    "skip_signature_check e' = skip_signature_check e" "balance_of e' a = balance_of e a"
  using assms adjust_vote_Inr by (cases b; simp)+

lemma deposit_keeps_books:
  assumes "deposit_evaluate X amt cond e = Inr e'" and ok: "chain_ok X (current_state e)"
  shows "keeps_books X e e'"
proof -
  let ?c = "current_state e" and ?i = "address_of_condition X cond"
  define cur where "cur = (case get_balance_record ?c ?i of Some r \<Rightarrow> r | None \<Rightarrow> balance_record_of cond)"
  obtain date e1 e2 where
    sub: "sub_balance ?i (asset_of amt (condition_asset_id (condition cur))) e = Inr e1" and
    vote: "(if condition_asset_id (condition cur) = 0 \<and> delegate_slate_id (condition cur) \<noteq> 0
            then adjust_vote (delegate_slate_id (condition cur)) amt e1 else Inr e1) = Inr e2" and
    e': "e' = e2 \<lparr> current_state := store_balance_record X
           (cur \<lparr> balance_last_update := now ?c, deposit_date := date, balance := balance cur + amt \<rparr>)
           (current_state e2) \<rparr>"
    using assms(1)
    by (simp add: deposit_evaluate_def Let_def if_Inr_iff bindE_Inr_iff flip: cur_def cong: if_cong) blast
  note frames = sub_balance_Inr [OF sub] optional_vote_Inr [OF vote]
  have id: "balance_record_id X cur = ?i"
    using chain_ok_ids(2) [OF ok] by (auto simp: cur_def balance_record_of_def balance_record_id_def split: option.splits)
  then have id': "balance_record_id X (cur \<lparr> balance_last_update := now ?c, deposit_date := date, balance := b \<rparr>) = ?i" for b
    by (simp add: balance_record_id_def)
  have "entry (balance_in a) (get_balance_record ?c) ?i = balance_in a ?i cur" for a
    by (auto simp: cur_def entry_def balance_in_def balance_record_of_def split: option.splits)
  then show ?thesis
    using ok chain_ok_pending [OF ok]
    by (auto simp: keeps_books_def books_split e' frames total_store_balance id' balance_in_def)
qed

lemma pay_yield_cases:
  assumes "pay_yield X r e = Inr (r1, e2)" and arec: "get_asset_record (current_state e) (condition_asset_id (condition r)) = Some arec"
  shows "(r1 = r \<and> e2 = e) \<or>
    (\<exists>y. is_market_issued arec \<and> 0 < sint y \<and>
         r1 = r \<lparr> balance := balance r + y, deposit_date := now (current_state e) \<rparr> \<and>
         current_state e2 = store_asset_record (arec \<lparr> collected_fees := collected_fees arec - y \<rparr>) (current_state e) \<and>
         trx_balance e2 = trx_balance e)"
proof (cases "is_market_issued arec")
  case False
  then show ?thesis using assms(1) arec by (simp add: pay_yield_def)
next
  case True
  then obtain y :: asset where y: "(if sint (amount y) > 0 then
      Inr (r \<lparr> balance := balance r + amount y, deposit_date := now (current_state e) \<rparr>,
           e \<lparr> yield := AList.update (condition_asset_id (condition r))
                 ((case map_of (yield e) (condition_asset_id (condition r)) of Some v \<Rightarrow> v | None \<Rightarrow> 0) + amount y)
                 (yield e),
               current_state := store_asset_record
                 (arec \<lparr> collected_fees := collected_fees arec - amount y \<rparr>) (current_state e) \<rparr>)
      else Inr (r, e)) = (Inr (r1, e2) :: exn + _)"
    using assms(1) arec by (simp add: pay_yield_def Let_def) (elim bindE_InrE, rule that, assumption)
  show ?thesis
  proof (cases "sint (amount y) > 0")
    case pos: True
    with y True show ?thesis by (intro disjI2 exI [of _ "amount y"]) auto
  qed (use y in auto)
qed

lemma pay_yield_Inr:
  assumes "pay_yield X r e = Inr (r1, e2)" and ok: "chain_ok X (current_state e)"
  shows "condition r1 = condition r" "balance_of e2 a = balance_of e a"
    "chain_ok X (current_state e2)"
    "get_balance_record (current_state e2) = get_balance_record (current_state e)"
    "supply_of (current_state e2) a = supply_of (current_state e) a"
    "chain_total (current_state e2) a + balance_in a i r1 = chain_total (current_state e) a + balance_in a i r"
    "uncounted (current_state e2) a = uncounted (current_state e) a"
proof -
  let ?c = "current_state e"
  from assms(1) obtain arec where arec: "get_asset_record ?c (condition_asset_id (condition r)) = Some arec"
    by (auto simp: pay_yield_def Let_def split: option.splits)
  have id: "asset_record_id arec = condition_asset_id (condition r)"
    using chain_ok_ids(1) [OF ok arec] .
  have old: "fees_of ?c (condition_asset_id (condition r)) = collected_fees arec"
    "supply_of ?c (condition_asset_id (condition r)) = current_share_supply arec"
    by (simp_all add: fees_of_def supply_of_def arec)
  have cs: "(r1 = r \<and> e2 = e) \<or>
    (\<exists>y. r1 = r \<lparr> balance := balance r + y, deposit_date := now ?c \<rparr> \<and>
         current_state e2 = store_asset_record (arec \<lparr> collected_fees := collected_fees arec - y \<rparr>) ?c \<and>
         trx_balance e2 = trx_balance e)"
    using pay_yield_cases [OF assms(1) arec] by blast
  show "condition r1 = condition r" using cs by auto
  show "balance_of e2 a = balance_of e a" using cs by (auto simp: balance_of_def)
  show "chain_ok X (current_state e2)" using ok cs by auto
  show "get_balance_record (current_state e2) = get_balance_record (current_state e)"
    using cs by auto
  show "uncounted (current_state e2) a = uncounted (current_state e) a" using cs by auto
  show "supply_of (current_state e2) a = supply_of (current_state e) a"
    using id old chain_ok_pending [OF ok] cs by (auto simp: total_store_asset)
  show "chain_total (current_state e2) a + balance_in a i r1 = chain_total (current_state e) a + balance_in a i r"
    using cs
  proof (elim disjE exE conjE)
    fix y
    assume r1: "r1 = r \<lparr> balance := balance r + y, deposit_date := now ?c \<rparr>"
      and e2: "current_state e2 = store_asset_record (arec \<lparr> collected_fees := collected_fees arec - y \<rparr>) ?c"
    show ?thesis
      unfolding e2 total_store_asset(1) [OF chain_ok_pending [OF ok]]
      by (simp add: id r1 balance_in_def flip: old(1))
  qed simp
qed

lemma store_balance_books:
  assumes ok: "chain_ok X c" and old: "get_balance_record c i = Some r" and same: "condition r' = condition r"
  shows "chain_total (store_balance_record X r' c) a =
    chain_total c a - (if condition_asset_id (condition r) = a then balance r - balance r' else 0)"
proof -
  have "balance_record_id X r' = i"
    using chain_ok_ids(2) [OF ok old] same by (simp add: balance_record_id_def)
  then show ?thesis
    using old same chain_ok_pending [OF ok]
    by (simp add: total_store_balance entry_def balance_in_def)
qed

lemma withdraw_steps:
  assumes "withdraw_evaluate X bid amt input e = Inr e'"
  obtains r e1 r1 e2 where
    "0 < sint amt" and "get_balance_record (current_state e) bid = Some r" and
    "sint amt \<le> sint (balance r)" and
    "check_withdraw_condition X e (condition_data (condition r)) input = Inr ()" and
    "(if condition_asset_id (condition r) = 0 \<and> delegate_slate_id (condition r) \<noteq> 0
      then adjust_vote (delegate_slate_id (condition r)) (- amt) e else Inr e) = Inr e1" and
    "pay_yield X r e1 = Inr (r1, e2)" and
    "add_balance (asset_of amt (condition_asset_id (condition r1)))
      (e2 \<lparr> current_state := store_balance_record X
         (r1 \<lparr> balance := balance r1 - amt, balance_last_update := now (current_state e2) \<rparr>)
         (current_state e2) \<rparr>) = Inr e'"
proof -
  from assms obtain r where r: "get_balance_record (current_state e) bid = Some r"
    by (auto simp: withdraw_evaluate_def split: if_splits option.splits)
  from assms r have pos: "0 < sint amt" and le: "sint amt \<le> sint (balance r)"
    by (auto simp: withdraw_evaluate_def split: if_splits)
  then obtain u e1 re2 where *: "check_withdraw_condition X e (condition_data (condition r)) input = Inr u"
    "(if condition_asset_id (condition r) = 0 \<and> delegate_slate_id (condition r) \<noteq> 0
      then adjust_vote (delegate_slate_id (condition r)) (- amt) e else Inr e) = Inr e1"
    "pay_yield X r e1 = Inr re2"
    "add_balance (asset_of amt (condition_asset_id (condition (fst re2))))
      (snd re2 \<lparr> current_state := store_balance_record X
         (fst re2 \<lparr> balance := balance (fst re2) - amt, balance_last_update := now (current_state (snd re2)) \<rparr>)
         (current_state (snd re2)) \<rparr>) = Inr e'"
    using assms r
    by (simp add: withdraw_evaluate_def Let_def case_prod_unfold) (elim bindE_InrE, rule that, assumption+)
  obtain r1 e2 where "re2 = (r1, e2)" by (cases re2)
  with * show ?thesis using that [OF pos r le] by simp
qed

lemma withdraw_keeps_books:
  assumes "withdraw_evaluate X bid amt input e = Inr e'" and ok: "chain_ok X (current_state e)"
  shows "keeps_books X e e'"
  using assms(1)
proof (rule withdraw_steps)
  fix r e1 r1 e2
  assume r: "get_balance_record (current_state e) bid = Some r"
    and vote: "(if condition_asset_id (condition r) = 0 \<and> delegate_slate_id (condition r) \<noteq> 0
      then adjust_vote (delegate_slate_id (condition r)) (- amt) e else Inr e) = Inr e1"
    and pay: "pay_yield X r e1 = Inr (r1, e2)"
    and add: "add_balance (asset_of amt (condition_asset_id (condition r1)))
      (e2 \<lparr> current_state := store_balance_record X
         (r1 \<lparr> balance := balance r1 - amt, balance_last_update := now (current_state e2) \<rparr>)
         (current_state e2) \<rparr>) = Inr e'"
  note v = optional_vote_Inr [OF vote]
  have ok1: "chain_ok X (current_state e1)" using ok v by simp
  note y = pay_yield_Inr [OF pay ok1]
  have r2: "get_balance_record (current_state e2) bid = Some r" using r v y(4) by simp
  note st = store_balance_books [OF y(3) r2]
  have "books e' a = books e a" for a
    using y(6) [of a bid] y(1) add_balance_Inr(1,6) [OF add] v
    by (auto simp: books_split st y balance_in_def algebra_simps)
  then show ?thesis using y(3) add_balance_Inr(1) [OF add] by (simp add: keeps_books_def)
qed

lemma claim_keeps_books:
  assumes "claim_evaluate X bid amt source dest sig e = Inr e'" and ok: "chain_ok X (current_state e)"
  shows "keeps_books X e e'"
proof -
  obtain r where r: "check_claim_input e bid = Inr r" and w: "withdraw_claim_input X amt r e = Inr e'"
    using assms(1) by (auto simp: claim_evaluate_def bindE_Inr_iff)
  have old: "get_balance_record (current_state e) bid = Some r" "condition_asset_id (condition r) = 0"
    using r by (auto simp: check_claim_input_def split: option.splits if_splits)
  obtain e1 where vote: "(if delegate_slate_id (condition r) \<noteq> 0
        then adjust_vote (delegate_slate_id (condition r)) (- amt) e else Inr e) = Inr e1"
    and bal: "balance r = amt"
    and add: "add_balance (asset_of amt 0) (e1 \<lparr> current_state := store_balance_record X
        (r \<lparr> balance := 0, balance_last_update := now (current_state e1) \<rparr>) (current_state e1) \<rparr>) = Inr e'"
    using w by (simp add: withdraw_claim_input_def Let_def if_Inr_iff bindE_Inr_iff cong: if_cong) blast
  note v = optional_vote_Inr [OF vote]
  note st = store_balance_books [OF ok old(1)]
  show ?thesis
    using add_balance_Inr(1,6) [OF add] old(2) bal ok
    by (auto simp: keeps_books_def books_split v st)
qed

lemma define_delegate_slate_keeps_books:
  assumes "define_delegate_slate_evaluate X slate e = Inr e'"
  shows "keeps_books X e e'"
  using assms
  by (auto simp: define_delegate_slate_evaluate_def bindE_Inr_iff keeps_books_def books_split
      split: if_splits option.splits)

lemma burn_keeps_books:
  assumes "burn_evaluate X x acc msg sig e = Inr e'" and ok: "chain_ok X (current_state e)"
  shows "keeps_books X e e'"
proof -
  let ?c = "current_state e"
  obtain arec where arec: "get_asset_record ?c (asset_id x) = Some arec"
    using assms(1) by (auto simp: burn_evaluate_def split: if_splits option.splits)
  obtain e2 where sub: "sub_balance null_address x (e \<lparr> current_state := store_asset_record
        (arec \<lparr> current_share_supply := current_share_supply arec - amount x \<rparr>) ?c \<rparr>) = Inr e2"
    and e': "e' = e2 \<lparr> current_state := store_burn_record (acc, transaction_id_hash X (trx e2))
        \<lparr> burn_amount = x, burn_message = msg, burn_signer = sig \<rparr> (current_state e2) \<rparr>"
    using assms(1) arec
    by (simp add: burn_evaluate_def Let_def if_Inr_iff bindE_Inr_iff cong: if_cong) blast
  have id: "asset_record_id arec = asset_id x" using chain_ok_ids(1) [OF ok arec] .
  have old: "fees_of ?c (asset_id x) = collected_fees arec" "supply_of ?c (asset_id x) = current_share_supply arec"
    by (simp_all add: fees_of_def supply_of_def arec)
  show ?thesis
    using sub_balance_Inr(1,6) [OF sub] ok id old chain_ok_pending [OF ok]
    by (auto simp: keeps_books_def books_split e' total_store_asset)
qed

section \<open>Account operations\<close>

lemma store_account_books:
  assumes ok: "chain_ok X c" and old: "get_account_record c i = Some r"
    and same: "account_id r' = i" "pay_in i r' = pay_in i r"
  shows "chain_total (store_account_record X r' c) a = chain_total c a"
  using assms chain_ok_pending [OF ok] by (simp add: total_store_account entry_def)

lemma set_active_key_Inr:
  assumes "set_active_key t k r = Inr r'"
  shows "account_id r' = account_id r" "delegate_info r' = delegate_info r" "account_name r' = account_name r"
    "owner_key r' = owner_key r"
  using assms by (auto simp: set_active_key_def split: if_splits)

lemma as_int_Inr_iff: "as_int v = Inr i \<longleftrightarrow> v = Int_property i"
  by (cases v) (auto simp: as_int_def)

lemma register_account_steps:
  assumes "register_account_evaluate X name data owner_k active_k rate meta e = Inr e'"
  obtains n r fees where "get_property (current_state e) last_account_id = Inr (Int_property n)"
    and "account_id r = n + 1" and "pay_in (n + 1) r = 0" and "account_name r = name" and "owner_key r = owner_k"
    and "e' = e \<lparr> required_fees := fees, current_state := store_account_record X r
               (set_property last_account_id (Int_property (n + 1)) (current_state e)) \<rparr>"
proof -
  obtain fees i c1 r r1 fees1 where new: "new_account_id (current_state e) = Inr (i, c1)"
    and key: "set_active_key (now (current_state e)) active_k
                      \<lparr> account_id = i, account_name = name, account_public_data = data,
                        owner_key = owner_k, active_key_history = [],
                        account_registration_date = now (current_state e),
                        account_last_update = now (current_state e),
                        delegate_info = None, meta_data = None \<rparr> = Inr r"
    and del: "(if pay_rate_is_delegate rate then
                      bindE (get_delegate_registration_fee c1) (\<lambda>max_reg_fee.
                      bindE (asset_add fees (delegate_fee max_reg_fee rate)) (\<lambda>fees'.
                      Inr (r \<lparr> delegate_info := Some (new_delegate_stats \<lparr> pay_rate := rate \<rparr>) \<rparr>, fees')))
                    else Inr (r, fees)) = Inr (r1, fees1)"
    and e': "e' = e \<lparr> required_fees := fees1,
                      current_state := store_account_record X (r1 \<lparr> meta_data := meta \<rparr>) c1 \<rparr>"
    using assms unfolding register_account_evaluate_def Let_def if_Inr_iff
    by (elim conjE bindE_InrE) (auto simp: if_Inr_iff elim!: bindE_InrE split: prod.splits if_split_asm)
  from new obtain n where n: "get_property (current_state e) last_account_id = Inr (Int_property n)"
    "i = n + 1" "c1 = set_property last_account_id (Int_property (n + 1)) (current_state e)"
    by (auto simp: new_account_id_def get_last_account_id_def as_int_Inr_iff bindE_Inr_iff)
  have r: "account_id r = n + 1" "delegate_info r = None" "account_name r = name" "owner_key r = owner_k"
    using set_active_key_Inr [OF key] n(2) by simp_all
  have "account_id r1 = n + 1" "pay_in (n + 1) r1 = 0" "account_name r1 = name" "owner_key r1 = owner_k"
    using del r by (auto simp: pay_in_def new_delegate_stats_def elim!: bindE_InrE split: if_split_asm)
  then show ?thesis
    using that [of n "r1 \<lparr> meta_data := meta \<rparr>" fees1] n e' by (simp add: pay_in_def)
qed

lemma register_account_keeps_books:
  assumes "register_account_evaluate X name data owner_k active_k rate meta e = Inr e'"
    and ok: "chain_ok X (current_state e)"
  shows "keeps_books X e e'"
  using assms(1)
proof (rule register_account_steps)
  fix n r fees
  let ?c = "set_property last_account_id (Int_property (n + 1)) (current_state e)"
  assume n: "get_property (current_state e) last_account_id = Inr (Int_property n)"
    and r: "account_id r = n + 1" "pay_in (n + 1) r = 0"
    and e': "e' = e \<lparr> required_fees := fees, current_state := store_account_record X r ?c \<rparr>"
  note new = chain_ok_new_account [OF ok n r(1)]
  have "is_pending ?c" using chain_ok_pending [OF ok] by simp
  then have "chain_total (store_account_record X r ?c) a = chain_total (current_state e) a" for a
    using new(2) r by (simp add: total_store_account entry_def)
  then show ?thesis using new(1) by (simp add: keeps_books_def books_split e')
qed

lemma update_account_key_Inr:
  assumes "update_account_key X k r e = Inr r'"
  shows "account_id r' = account_id r" "delegate_info r' = delegate_info r"
  using assms set_active_key_Inr(1,2)
  by (auto simp: update_account_key_def split: if_split_asm)

lemma update_account_delegate_Inr:
  assumes "update_account_delegate rate r e = Inr (r', fees)"
  shows "account_id r' = account_id r" "pay_in i r' = pay_in i r"
    "is_delegate r \<Longrightarrow> is_delegate r'"
    "delegate_info r = Some d \<Longrightarrow> \<exists>d'. delegate_info r' = Some d' \<and> uint (pay_rate d') \<le> uint (pay_rate d)"
  using assms
  by (auto simp: update_account_delegate_def pay_in_def is_delegate_def new_delegate_stats_def
      elim!: bindE_InrE split: if_split_asm option.splits)

lemma update_account_steps:
  assumes "update_account_evaluate X i data k rate e = Inr e'"
  obtains r r1 r2 r3 fees r6 where "get_account_record (current_state e) i = Some r"
    and "\<not> is_retracted r" and "update_account_key X k r e = Inr r1"
    and "account_id r2 = account_id r1" and "delegate_info r2 = delegate_info r1"
    and "update_account_delegate rate r2 e = Inr (r3, fees)"
    and "account_id r6 = account_id r3" and "delegate_info r6 = delegate_info r3"
    and "e' = e \<lparr> required_fees := fees, current_state := store_account_record X r6 (current_state e) \<rparr>"
proof -
  obtain r where r: "get_account_record (current_state e) i = Some r" "\<not> is_retracted r"
    using assms by (auto simp: update_account_evaluate_def split: option.split_asm if_split_asm)
  define upd where "upd r1 = (case data of Some v \<Rightarrow> r1 \<lparr> account_public_data := v \<rparr> | None \<Rightarrow> r1)" for r1 :: account_record
  have upd: "account_id (upd r1) = account_id r1" "delegate_info (upd r1) = delegate_info r1" for r1
    by (auto simp: upd_def split: option.split)
  obtain r1 r3 fees r6 where 1: "update_account_key X k r e = Inr r1"
    and 2: "update_account_delegate rate (upd r1) e = Inr (r3, fees)"
    and 3: "(case k of None \<Rightarrow> Inr (r3 \<lparr> account_last_update := now (current_state e) \<rparr>)
             | Some k \<Rightarrow> bindE (set_active_key (now (current_state e)) k
                   (r3 \<lparr> account_last_update := now (current_state e) \<rparr>)) (\<lambda>r5.
                 if get_account_record_of_address (current_state e) (address_of_key X k) \<noteq> None
                 then Inl account_key_in_use else Inr r5)) = Inr r6"
    and e': "e' = e \<lparr> required_fees := fees, current_state := store_account_record X r6 (current_state e) \<rparr>"
    using assms r unfolding update_account_evaluate_def Let_def upd_def [symmetric]
    by (auto elim!: bindE_InrE split: prod.split_asm)
  have "account_id r6 = account_id r3" "delegate_info r6 = delegate_info r3"
    using 3 set_active_key_Inr(1,2) by (auto simp: if_Inr_iff elim!: bindE_InrE split: option.split_asm)
  then show ?thesis using that [OF r 1 upd 2 _ _ e'] by simp
qed

lemma update_account_keeps_books:
  assumes "update_account_evaluate X i data k rate e = Inr e'" and ok: "chain_ok X (current_state e)"
  shows "keeps_books X e e'"
  using assms(1)
proof (rule update_account_steps)
  fix r r1 r2 r3 fees r6
  assume r: "get_account_record (current_state e) i = Some r"
    and 1: "update_account_key X k r e = Inr r1"
    and 2: "account_id r2 = account_id r1" "delegate_info r2 = delegate_info r1"
    and 3: "update_account_delegate rate r2 e = Inr (r3, fees)"
    and 4: "account_id r6 = account_id r3" "delegate_info r6 = delegate_info r3"
    and e': "e' = e \<lparr> required_fees := fees, current_state := store_account_record X r6 (current_state e) \<rparr>"
  have id: "account_id r6 = i"
    using 4 2 update_account_delegate_Inr(1) [OF 3] update_account_key_Inr(1) [OF 1] chain_ok_ids(3) [OF ok r]
    by simp
  have "pay_in i r6 = pay_in i r"
    using 4 2 update_account_delegate_Inr(2) [OF 3] update_account_key_Inr(2) [OF 1] by (simp add: pay_in_def)
  then have "chain_total (store_account_record X r6 (current_state e)) a = chain_total (current_state e) a" for a
    by (rule store_account_books [OF ok r id])
  then show ?thesis
    using ok r id by (auto simp: keeps_books_def books_split e')
qed

lemma withdraw_pay_steps:
  assumes "withdraw_pay_evaluate X amt i e = Inr e'"
  obtains r d where "0 < sint amt" and "get_account_record (current_state e) \<bar>i\<bar> = Some r"
    and "\<not> is_retracted r" and "delegate_info r = Some d"
    and "check_signature e (address_of_key X (active_key r))" and "sint amt \<le> sint (pay_balance d)"
    and "add_balance (asset_of amt 0)
                  (e \<lparr> net_delegate_votes := add_vote (- amt) \<bar>i\<bar> (net_delegate_votes e),
                       current_state := store_account_record X
                         (r \<lparr> delegate_info := Some (d \<lparr> pay_balance := pay_balance d - amt \<rparr>) \<rparr>)
                         (current_state e) \<rparr>) = Inr e'"
proof -
  from assms obtain r where r: "get_account_record (current_state e) \<bar>i\<bar> = Some r" "\<not> is_retracted r"
    "0 < sint amt"
    by (auto simp: withdraw_pay_evaluate_def split: option.split_asm if_split_asm)
  from assms r obtain d where d: "delegate_info r = Some d"
    by (auto simp: withdraw_pay_evaluate_def split: option.split_asm if_split_asm)
  from assms r d show ?thesis
    using that [OF r(3,1,2) d] by (auto simp: withdraw_pay_evaluate_def split: if_split_asm)
qed

lemma withdraw_pay_keeps_books:
  assumes "withdraw_pay_evaluate X amt i e = Inr e'" and ok: "chain_ok X (current_state e)"
  shows "keeps_books X e e'"
  using assms(1)
proof (rule withdraw_pay_steps)
  fix r :: account_record and d :: delegate_stats
  let ?r = "r \<lparr> delegate_info := Some (d \<lparr> pay_balance := pay_balance d - amt \<rparr>) \<rparr>"
  assume r: "get_account_record (current_state e) \<bar>i\<bar> = Some r" and d: "delegate_info r = Some d"
    and add: "add_balance (asset_of amt 0)
                  (e \<lparr> net_delegate_votes := add_vote (- amt) \<bar>i\<bar> (net_delegate_votes e),
                       current_state := store_account_record X ?r (current_state e) \<rparr>) = Inr e'"
  have id: "account_id ?r = \<bar>i\<bar>" using chain_ok_ids(3) [OF ok r] by simp
  have "chain_total (store_account_record X ?r (current_state e)) a =
      chain_total (current_state e) a - (if a = 0 then amt else 0)" for a
    using r d id chain_ok_pending [OF ok] by (simp add: total_store_account entry_def pay_in_def)
  then show ?thesis
    using add_balance_Inr(1,6) [OF add] ok r id
    by (auto simp: keeps_books_def books_split intro!: chain_ok_store_account)
qed

section \<open>Market operations\<close>

lemma adjust_order_Inr:
  assumes "adjust_order amt (asset_of amt q) old e = Inr (r, e1)"
  shows "current_state e1 = current_state e" "amt \<noteq> 0"
    "balance_of e1 a = balance_of e a - (if a = q then amt else 0)"
    "order_balance r = (case old of Some r \<Rightarrow> order_balance r | None \<Rightarrow> 0)"
  using assms sub_balance_Inr(1,6) add_balance_Inr(1,6)
  by (auto simp: adjust_order_def asset_neg_def new_order_record_def elim!: bindE_InrE
      split: if_split_asm option.split_asm option.split)

lemma bid_keeps_books:
  assumes "bid_evaluate amt k e = Inr e'" and ok: "chain_ok X (current_state e)"
  shows "keeps_books X e e'"
proof -
  obtain r e1 where adj: "adjust_order amt (asset_of amt (quote_asset_id (order_price k)))
      (get_bid_record (current_state e) k) e = Inr (r, e1)"
    and e': "e' = e1 \<lparr> current_state := store_bid_record k (r \<lparr> order_last_update := now (current_state e1),
      order_balance := order_balance r + amt \<rparr>) (current_state e1) \<rparr>"
    using assms(1) by (auto simp: bid_evaluate_def Let_def elim!: bindE_InrE split: if_split_asm prod.split_asm)
  show ?thesis
    using ok adjust_order_Inr [OF adj] chain_ok_pending [OF ok]
    by (auto simp: keeps_books_def books_def e' holdings_store_bid bid_in_def entry_def split: option.split)
qed

lemma ask_keeps_books:
  assumes "ask_evaluate amt k e = Inr e'" and ok: "chain_ok X (current_state e)"
  shows "keeps_books X e e'"
proof -
  obtain r e1 where adj: "adjust_order amt (asset_of amt (base_asset_id (order_price k)))
      (get_ask_record (current_state e) k) e = Inr (r, e1)"
    and e': "e' = e1 \<lparr> current_state := store_ask_record k (r \<lparr> order_last_update := now (current_state e1),
      order_balance := order_balance r + amt \<rparr>) (current_state e1) \<rparr>"
    using assms(1) by (auto simp: ask_evaluate_def Let_def elim!: bindE_InrE split: if_split_asm prod.split_asm)
  show ?thesis
    using ok adjust_order_Inr [OF adj] chain_ok_pending [OF ok]
    by (auto simp: keeps_books_def books_split e' total_store_ask ask_in_def entry_def split: option.split)
qed

lemma short_keeps_books:
  assumes "short_evaluate amt k lim e = Inr e'" and ok: "chain_ok X (current_state e)"
  shows "keeps_books X e e'"
proof -
  obtain r e1 where adj: "adjust_order amt (asset_of amt (base_asset_id (order_price k)))
      (get_short_record (current_state e) k) e = Inr (r, e1)" and base: "base_asset_id (order_price k) = 0"
    and e': "e' = e1 \<lparr> current_state := store_short_record k (r \<lparr> short_price_limit := lim,
      order_last_update := now (current_state e1), order_balance := order_balance r + amt \<rparr>) (current_state e1) \<rparr>"
    using assms(1)
    by (auto simp: short_evaluate_def Let_def elim!: bindE_InrE split: if_split_asm prod.split_asm option.split_asm)
  show ?thesis
    using ok base adjust_order_Inr [OF adj] chain_ok_pending [OF ok]
    by (auto simp: keeps_books_def books_split e' total_store_short short_in_def entry_def split: option.split)
qed

text \<open>
  A cover or added collateral moves the position to a new key and stores it there over whatever the
  ledger has at that key. The key, when the operation gets that far, with the position stored there:
\<close>

definition cover_position ::
    "ext \<Rightarrow> share_type \<Rightarrow> market_index_key \<Rightarrow> price option \<Rightarrow> chain \<Rightarrow> (market_index_key \<times> collateral_record) option" where
  "cover_position X amt k np c =
     (case get_collateral_record c k of
        None \<Rightarrow> None
      | Some r \<Rightarrow>
          let elapsed = int (now c) - (int (collateral_expiration r) - int BTS_BLOCKCHAIN_MAX_SHORT_PERIOD_SEC)
          in case split_cover X (asset_of amt (quote_asset_id (order_price k))) r
                    (word_of_int ((if elapsed < 0 then 0 else elapsed) mod 2 ^ 32)) of
               Inl x \<Rightarrow> None
             | Inr (paid, interest, r1) \<Rightarrow>
                 if sint (payoff_balance r1) > 0 then
                   (case call_price X k r1 of
                      Inl x \<Rightarrow> None
                    | Inr p \<Rightarrow> Some (Market_index_key
                        (case np of Some q \<Rightarrow> if p < q then q else p | None \<Rightarrow> p) (owner k), r1))
                 else None)"

definition raised_position ::
    "ext \<Rightarrow> share_type \<Rightarrow> market_index_key \<Rightarrow> chain \<Rightarrow> (market_index_key \<times> collateral_record) option" where
  "raised_position X amt k c =
     (case get_collateral_record c k of
        None \<Rightarrow> None
      | Some r \<Rightarrow>
          let r1 = r \<lparr> collateral_balance := collateral_balance r + amt \<rparr>
          in case call_price X k r1 of
               Inl x \<Rightarrow> None
             | Inr p \<Rightarrow> Some (Market_index_key p (owner k), r1))"

text \<open>
  What such a move loses of an asset: the collateral of another position at the new key, and, when
  the new key belongs to a market with another base asset, the collateral itself, which is then held
  in that asset. \<open>drift\<close> adds it up over the operations of a transaction; it is zero when no position
  moves, and when positions move within their market to keys that are free.
\<close>

definition move_loss ::
    "chain \<Rightarrow> market_index_key \<Rightarrow> (market_index_key \<times> collateral_record) option \<Rightarrow> asset_id_type \<Rightarrow> share_type" where
  "move_loss c k moved a =
     (case moved of
        None \<Rightarrow> 0
      | Some (k', r) \<Rightarrow> (if k' = k then 0 else entry (position_in a) (get_collateral_record c) k')
                       + position_in a k r - position_in a k' r)"

fun operation_drift :: "ext \<Rightarrow> chain \<Rightarrow> operation \<Rightarrow> asset_id_type \<Rightarrow> share_type" where
  "operation_drift X c (Market_op (Cover_operation amt k np)) a = move_loss c k (cover_position X amt k np c) a"
| "operation_drift X c (Market_op (Add_collateral_operation amt k)) a = move_loss c k (raised_position X amt k c) a"
| "operation_drift X c op a = 0"

lemma move_loss_free:
  assumes "get_collateral_record c k' = None" and "base_asset_id (order_price k') = base_asset_id (order_price k)"
  shows "move_loss c k (Some (k', r)) a = 0"
  using assms by (simp add: move_loss_def entry_def position_in_def)

lemma move_position_holdings:
  assumes pend: "is_pending c" and old: "get_collateral_record c k = Some r"
  shows "holdings (store_collateral_record k' r1 (store_collateral_record k new_collateral_record c)) a
      + move_loss c k (Some (k', r1)) a = holdings c a - position_in a k r + position_in a k r1"
    and "holdings (store_collateral_record k new_collateral_record c) a = holdings c a - position_in a k r"
proof -
  have 3: "is_pending (store_collateral_record k new_collateral_record c)" using pend by simp
  have null: "position_in a k new_collateral_record = 0" by (simp add: position_in_def new_collateral_record_def)
  show 1: "holdings (store_collateral_record k new_collateral_record c) a = holdings c a - position_in a k r"
    using pend old null by (simp add: holdings_store_collateral entry_def)
  have 2: "entry (position_in a) (get_collateral_record (store_collateral_record k new_collateral_record c)) k' =
      (if k' = k then 0 else entry (position_in a) (get_collateral_record c) k')"
    using pend null by (auto simp: get_store_collateral entry_def)
  show "holdings (store_collateral_record k' r1 (store_collateral_record k new_collateral_record c)) a
      + move_loss c k (Some (k', r1)) a = holdings c a - position_in a k r + position_in a k r1"
    unfolding holdings_store_collateral [OF 3] 1 2 by (simp add: move_loss_def)
qed

text \<open>What an operation does to the books of every asset, up to its drift.\<close>

definition drifts_books :: "ext \<Rightarrow> (asset_id_type \<Rightarrow> share_type) \<Rightarrow> eval_state \<Rightarrow> eval_state \<Rightarrow> bool" where
  "drifts_books X f e e' \<longleftrightarrow>
     (\<forall>a. books e' a + f a = books e a) \<and> (chain_ok X (current_state e) \<longrightarrow> chain_ok X (current_state e'))"

lemma keeps_drifts: "keeps_books X e e' \<Longrightarrow> (\<And>a. f a = 0) \<Longrightarrow> drifts_books X f e e'"
  by (simp add: drifts_books_def keeps_books_def)

lemma drifts_books_trans:
  "drifts_books X f e e1 \<Longrightarrow> drifts_books X g e1 e2 \<Longrightarrow> drifts_books X (\<lambda>a. f a + g a) e e2"
  by (auto simp: drifts_books_def ac_simps)

lemma split_cover_Inr:
  assumes "split_cover X (asset_of amt q) r t = Inr (paid, interest, r1)"
  shows "amount paid + amount interest = amt" "collateral_balance r1 = collateral_balance r"
  using assms
  by (auto simp: split_cover_def Let_def asset_sub_Inr_iff elim!: bindE_InrE split: if_split_asm)

lemma cover_steps:
  assumes "cover_evaluate X amt k np e0 = Inr e'"
  obtains e r arec t paid interest r1 c2 where
    "check_signature e0 (owner k)" and
    "sub_balance null_address (asset_of amt (quote_asset_id (order_price k))) e0 = Inr e" and
    "get_collateral_record (current_state e) k = Some r" and
    "get_asset_record (current_state e) (quote_asset_id (order_price k)) = Some arec" and
    "split_cover X (asset_of amt (quote_asset_id (order_price k))) r t = Inr (paid, interest, r1)" and
    "c2 = store_collateral_record k new_collateral_record (store_asset_record
       (arec \<lparr> current_share_supply := current_share_supply arec - amount paid,
               collected_fees := collected_fees arec + amount interest \<rparr>) (current_state e))" and
    "(\<exists>pr. cover_position X amt k np (current_state e0) = Some (Market_index_key pr (owner k), r1) \<and>
       e' = e \<lparr> current_state := store_collateral_record (Market_index_key pr (owner k)) r1 c2 \<rparr>) \<or>
     cover_position X amt k np (current_state e0) = None \<and>
     add_balance (asset_of (collateral_balance r1) (base_asset_id (order_price k)))
       (e \<lparr> current_state := c2 \<rparr>) = Inr e'"
proof -
  from assms obtain e where sig: "check_signature e0 (owner k)"
    and sub: "sub_balance null_address (asset_of amt (quote_asset_id (order_price k))) e0 = Inr e"
    by (auto simp: cover_evaluate_def Let_def elim!: bindE_InrE split: if_split_asm)
  from assms sub obtain r where r: "get_collateral_record (current_state e) k = Some r"
    by (auto simp: cover_evaluate_def Let_def split: if_split_asm option.split_asm)
  from assms sub r obtain arec where a: "get_asset_record (current_state e) (quote_asset_id (order_price k)) = Some arec"
    by (auto simp: cover_evaluate_def Let_def split: if_split_asm option.split_asm)
  define t where "t = (word_of_int ((let elapsed = int (now (current_state e)) -
      (int (collateral_expiration r) - int BTS_BLOCKCHAIN_MAX_SHORT_PERIOD_SEC)
      in if elapsed < 0 then 0 else elapsed) mod 2 ^ 32) :: 64 word)"
  from assms sub r a obtain paid interest r1 where
    sp: "split_cover X (asset_of amt (quote_asset_id (order_price k))) r t = Inr (paid, interest, r1)"
    unfolding t_def
    by (auto simp: cover_evaluate_def Let_def elim!: bindE_InrE split: if_split_asm prod.split_asm)
  define c2 where "c2 = store_collateral_record k new_collateral_record (store_asset_record
       (arec \<lparr> current_share_supply := current_share_supply arec - amount paid,
               collected_fees := collected_fees arec + amount interest \<rparr>) (current_state e))"
  have pos: "cover_position X amt k np (current_state e0) =
      (if sint (payoff_balance r1) > 0 then
         (case call_price X k r1 of
            Inl x \<Rightarrow> None
          | Inr p \<Rightarrow> Some (Market_index_key
              (case np of Some q \<Rightarrow> if p < q then q else p | None \<Rightarrow> p) (owner k), r1))
       else None)"
    using r sp unfolding t_def
    by (simp add: cover_position_def Let_def sub_balance_Inr(1) [OF sub, symmetric])
  have "(\<exists>pr. cover_position X amt k np (current_state e0) = Some (Market_index_key pr (owner k), r1) \<and>
       e' = e \<lparr> current_state := store_collateral_record (Market_index_key pr (owner k)) r1 c2 \<rparr>) \<or>
     cover_position X amt k np (current_state e0) = None \<and>
     add_balance (asset_of (collateral_balance r1) (base_asset_id (order_price k)))
       (e \<lparr> current_state := c2 \<rparr>) = Inr e'"
    using assms sub r a sp unfolding t_def c2_def pos
    by (auto simp: cover_evaluate_def Let_def elim!: bindE_InrE split: if_split_asm)
  with sig sub r a sp c2_def show ?thesis by (rule that)
qed

lemma paid_from_balance:
  fixes h :: "'n::ab_group_add"
  assumes "h' + m = h + i" and "s' = s - p" and "b' = b - (p + i)"
  shows "h' + b' - s' + m = h + b - s"
proof -
  have "h = h' + m - i" using assms(1) by (simp add: algebra_simps)
  then show ?thesis unfolding assms(2,3) by (simp add: algebra_simps)
qed

lemma cover_drifts_books:
  assumes "cover_evaluate X amt k np e0 = Inr e'" and ok: "chain_ok X (current_state e0)"
  shows "drifts_books X (move_loss (current_state e0) k (cover_position X amt k np (current_state e0))) e0 e'"
  using assms(1)
proof (rule cover_steps)
  fix e r t r1 c2 and arec :: asset_record and paid interest :: asset
  let ?q = "quote_asset_id (order_price k)"
  let ?a = "arec \<lparr> current_share_supply := current_share_supply arec - amount paid,
               collected_fees := collected_fees arec + amount interest \<rparr>"
  assume sub: "sub_balance null_address (asset_of amt ?q) e0 = Inr e"
    and r: "get_collateral_record (current_state e) k = Some r"
    and a: "get_asset_record (current_state e) ?q = Some arec"
    and sp: "split_cover X (asset_of amt ?q) r t = Inr (paid, interest, r1)"
    and c2: "c2 = store_collateral_record k new_collateral_record (store_asset_record ?a (current_state e))"
    and e': "(\<exists>pr. cover_position X amt k np (current_state e0) = Some (Market_index_key pr (owner k), r1) \<and>
       e' = e \<lparr> current_state := store_collateral_record (Market_index_key pr (owner k)) r1 c2 \<rparr>) \<or>
     cover_position X amt k np (current_state e0) = None \<and>
     add_balance (asset_of (collateral_balance r1) (base_asset_id (order_price k)))
       (e \<lparr> current_state := c2 \<rparr>) = Inr e'"
  note s = sub_balance_Inr [OF sub]
  note paid = split_cover_Inr [OF sp]
  have ok1: "chain_ok X (current_state e)" using ok s by simp
  let ?c1 = "store_asset_record ?a (current_state e)"
  have id: "asset_record_id ?a = ?q" using chain_ok_ids(1) [OF ok1 a] by simp
  have pend: "is_pending ?c1" using chain_ok_pending [OF ok1] by simp
  have r1: "get_collateral_record ?c1 k = Some r" using r by simp
  have same: "position_in a' k r1 = position_in a' k r" for a' by (simp add: position_in_def paid)
  have old: "fees_of (current_state e) ?q = collected_fees arec" "supply_of (current_state e) ?q = current_share_supply arec"
    using a by (simp_all add: fees_of_def supply_of_def)
  have tot: "holdings ?c1 a' = holdings (current_state e) a' + (if a' = ?q then amount interest else 0)"
    and sup: "supply_of ?c1 a' = supply_of (current_state e) a' - (if a' = ?q then amount paid else 0)" for a'
    using old id by (simp_all add: holdings_store_asset total_store_asset chain_ok_pending [OF ok1])
  have loss: "move_loss ?c1 k m a' = move_loss (current_state e0) k m a'" for m a'
    by (cases m) (auto simp: move_loss_def s)
  note mv = move_position_holdings [OF pend r1]
  have "chain_ok X c2" using ok1 by (simp add: c2)
  then have "chain_ok X (current_state e')"
    using e' add_balance_Inr(1) by fastforce
  moreover have "books e' a' + move_loss (current_state e0) k (cover_position X amt k np (current_state e0)) a' = books e0 a'" for a'
    using e'
  proof (elim disjE exE conjE)
    fix pr
    assume pos: "cover_position X amt k np (current_state e0) = Some (Market_index_key pr (owner k), r1)"
      and e1: "e' = e \<lparr> current_state := store_collateral_record (Market_index_key pr (owner k)) r1 c2 \<rparr>"
    have "holdings (current_state e') a' + move_loss (current_state e0) k (cover_position X amt k np (current_state e0)) a'
        = holdings (current_state e0) a' + (if a' = ?q then amount interest else 0)"
      using mv(1) [of "Market_index_key pr (owner k)" r1 a'] unfolding loss pos same tot c2 e1 by (simp add: s)
    moreover have "supply_of (current_state e') a' = supply_of (current_state e0) a' - (if a' = ?q then amount paid else 0)"
      by (simp add: e1 c2 sup [unfolded s(1)] s)
    moreover have "balance_of e' a' = balance_of e0 a' - (if a' = ?q then amount paid + amount interest else 0)"
      using paid by (simp add: e1 s)
    ultimately show ?thesis unfolding books_def
      by (intro paid_from_balance [where i = "if a' = ?q then amount interest else 0"
            and p = "if a' = ?q then amount paid else 0"]) auto
  next
    assume pos: "cover_position X amt k np (current_state e0) = None"
      and add: "add_balance (asset_of (collateral_balance r1) (base_asset_id (order_price k)))
       (e \<lparr> current_state := c2 \<rparr>) = Inr e'"
    show ?thesis using paid
      by (auto simp: books_def c2 pos move_loss_def mv(2) [unfolded s(1)] tot [unfolded s(1)] sup [unfolded s(1)] s
          add_balance_Inr(1,6) [OF add] position_in_def)
  qed
  ultimately show ?thesis by (simp add: drifts_books_def)
qed

lemma add_collateral_drifts_books:
  assumes "add_collateral_evaluate X amt k e0 = Inr e'" and ok: "chain_ok X (current_state e0)"
  shows "drifts_books X (move_loss (current_state e0) k (raised_position X amt k (current_state e0))) e0 e'"
proof -
  obtain e where sub: "sub_balance null_address (asset_of amt (base_asset_id (order_price k))) e0 = Inr e"
    using assms(1) by (auto simp: add_collateral_evaluate_def Let_def elim!: bindE_InrE split: if_split_asm)
  obtain r where r: "get_collateral_record (current_state e) k = Some r"
    using assms(1) sub by (auto simp: add_collateral_evaluate_def split: if_split_asm option.split_asm)
  let ?r = "r \<lparr> collateral_balance := collateral_balance r + amt \<rparr>"
  obtain p where p: "call_price X k ?r = Inr p"
    and e': "e' = e \<lparr> current_state := store_collateral_record (Market_index_key p (owner k)) ?r
      (store_collateral_record k new_collateral_record (current_state e)) \<rparr>"
    using assms(1) sub r
    by (auto simp: add_collateral_evaluate_def Let_def elim!: bindE_InrE split: if_split_asm)
  note s = sub_balance_Inr [OF sub]
  have ok1: "chain_ok X (current_state e)" using ok s by simp
  have pos: "raised_position X amt k (current_state e0) = Some (Market_index_key p (owner k), ?r)"
    using r p by (simp add: raised_position_def s Let_def)
  have "books e' a + move_loss (current_state e0) k (raised_position X amt k (current_state e0)) a = books e0 a" for a
    using move_position_holdings(1) [OF chain_ok_pending [OF ok1] r, of "Market_index_key p (owner k)" ?r a]
    by (auto simp: books_def e' pos s position_in_def algebra_simps)
  then show ?thesis using ok1 by (simp add: drifts_books_def e')
qed

end
