(* ===== verification/Transactions.thy ===== *)
theory Transactions
  imports Conservation
begin

text \<open>
  Whole transactions: what every operation leaves alone of the evaluation state, the books over a
  sequence of operations, the collection of fees, the update of the votes, and the theorems on
  \<^verbatim>\<open>transaction_evaluation_state::evaluate\<close>.
\<close>

section \<open>What operations leave alone\<close>

definition tidy :: "eval_state \<Rightarrow> bool" where
  "tidy e \<longleftrightarrow> distinct (map fst (trx_balance e))"

definition same_context :: "eval_state \<Rightarrow> eval_state \<Rightarrow> bool" where
  "same_context e e' \<longleftrightarrow>
     signed_keys e' = signed_keys e \<and> skip_signature_check e' = skip_signature_check e \<and>
     trx e' = trx e \<and> alt_fees_paid e' = alt_fees_paid e \<and> (tidy e \<longrightarrow> tidy e')"

lemma same_context_refl [simp]: "same_context e e"
  by (simp add: same_context_def)

lemma same_context_trans: "same_context e e1 \<Longrightarrow> same_context e1 e2 \<Longrightarrow> same_context e e2"
  by (auto simp: same_context_def)

lemma same_context_updates [simp]:
  "same_context e (e1 \<lparr> current_state := c \<rparr>) = same_context e e1"
  "same_context e (e1 \<lparr> required_fees := f \<rparr>) = same_context e e1"
  "same_context e (e1 \<lparr> net_delegate_votes := v \<rparr>) = same_context e e1"
  "same_context e (e1 \<lparr> yield := y \<rparr>) = same_context e e1"
  "same_context e (e1 \<lparr> current_op_index := n \<rparr>) = same_context e e1"
  "same_context (e \<lparr> current_state := c \<rparr>) e1 = same_context e e1"
  "same_context (e \<lparr> net_delegate_votes := v \<rparr>) e1 = same_context e e1"
  by (simp_all add: same_context_def tidy_def)

lemma sub_balance_context: "sub_balance bid x e = Inr e' \<Longrightarrow> same_context e e'"
  by (auto simp: sub_balance_def same_context_def tidy_def bindE_Inr_iff distinct_update split: option.splits)

lemma add_balance_context: "add_balance x e = Inr e' \<Longrightarrow> same_context e e'"
  by (auto simp: add_balance_def same_context_def tidy_def bindE_Inr_iff distinct_update split: option.splits)

lemma adjust_vote_context: "adjust_vote sid v e = Inr e' \<Longrightarrow> same_context e e'"
  by (auto simp: adjust_vote_def split: if_splits option.splits)

lemma optional_vote_context: "(if b then adjust_vote sid v e else Inr e) = Inr e' \<Longrightarrow> same_context e e'"
  by (auto intro: adjust_vote_context split: if_splits)

lemmas context_rules = sub_balance_context add_balance_context adjust_vote_context optional_vote_context

lemma pay_yield_context: "pay_yield X r e = Inr (r1, e1) \<Longrightarrow> same_context e e1"
  by (auto simp: pay_yield_def Let_def elim!: bindE_InrE split: option.split_asm if_split_asm)

lemma withdraw_context:
  assumes "withdraw_evaluate X bid amt input e = Inr e'"
  shows "same_context e e'"
  using assms
proof (rule withdraw_steps)
  fix r e1 r1 e2
  assume "(if condition_asset_id (condition r) = 0 \<and> delegate_slate_id (condition r) \<noteq> 0
      then adjust_vote (delegate_slate_id (condition r)) (- amt) e else Inr e) = Inr e1"
    and "pay_yield X r e1 = Inr (r1, e2)"
    and "add_balance (asset_of amt (condition_asset_id (condition r1)))
      (e2 \<lparr> current_state := store_balance_record X
         (r1 \<lparr> balance := balance r1 - amt, balance_last_update := now (current_state e2) \<rparr>)
         (current_state e2) \<rparr>) = Inr e'"
  from optional_vote_context [OF this(1)] pay_yield_context [OF this(2)] add_balance_context [OF this(3)]
  show ?thesis by simp (blast intro: same_context_trans)
qed

lemma deposit_context: "deposit_evaluate X amt cond e = Inr e' \<Longrightarrow> same_context e e'"
  by (auto simp: deposit_evaluate_def Let_def elim!: bindE_InrE split: if_split_asm
      dest!: sub_balance_context adjust_vote_context intro: same_context_trans)

lemma claim_context: "claim_evaluate X bid amt source dest sig e = Inr e' \<Longrightarrow> same_context e e'"
  by (auto simp: claim_evaluate_def withdraw_claim_input_def Let_def elim!: bindE_InrE split: if_split_asm
      dest!: add_balance_context adjust_vote_context) (blast intro: same_context_trans)+

lemma define_delegate_slate_context:
  "define_delegate_slate_evaluate X slate e = Inr e' \<Longrightarrow> same_context e e'"
  by (auto simp: define_delegate_slate_evaluate_def bindE_Inr_iff split: if_splits option.splits)

lemma burn_context: "burn_evaluate X x acc msg sig e = Inr e' \<Longrightarrow> same_context e e'"
  by (auto simp: burn_evaluate_def Let_def elim!: bindE_InrE split: if_split_asm option.split_asm
      dest!: sub_balance_context)

lemma register_account_context:
  assumes "register_account_evaluate X name data owner_k active_k rate meta e = Inr e'"
  shows "same_context e e'"
  using assms by (rule register_account_steps) simp

lemma update_account_context:
  assumes "update_account_evaluate X i data k rate e = Inr e'"
  shows "same_context e e'"
  using assms by (rule update_account_steps) simp

lemma withdraw_pay_context:
  assumes "withdraw_pay_evaluate X amt i e = Inr e'"
  shows "same_context e e'"
  using assms by (rule withdraw_pay_steps) (use add_balance_context in fastforce)

lemma adjust_order_context: "adjust_order amt x old e = Inr (r, e1) \<Longrightarrow> same_context e e1"
  by (auto simp: adjust_order_def elim!: bindE_InrE split: if_split_asm option.split_asm
      dest!: sub_balance_context add_balance_context)

lemma bid_context: "bid_evaluate amt k e = Inr e' \<Longrightarrow> same_context e e'"
  by (auto simp: bid_evaluate_def Let_def elim!: bindE_InrE split: if_split_asm prod.split_asm
      dest!: adjust_order_context)

lemma ask_context: "ask_evaluate amt k e = Inr e' \<Longrightarrow> same_context e e'"
  by (auto simp: ask_evaluate_def Let_def elim!: bindE_InrE split: if_split_asm prod.split_asm
      dest!: adjust_order_context)

lemma short_context: "short_evaluate amt k lim e = Inr e' \<Longrightarrow> same_context e e'"
  by (auto simp: short_evaluate_def Let_def elim!: bindE_InrE
      split: if_split_asm prod.split_asm option.split_asm dest!: adjust_order_context)

lemma cover_context:
  assumes "cover_evaluate X amt k np e0 = Inr e'"
  shows "same_context e0 e'"
  using assms
proof (rule cover_steps)
  fix e r arec t paid interest r1 c2
  assume "sub_balance null_address (asset_of amt (quote_asset_id (order_price k))) e0 = Inr e"
    and "(\<exists>pr. cover_position X amt k np (current_state e0) = Some (Market_index_key pr (owner k), r1) \<and>
       e' = e \<lparr> current_state := store_collateral_record (Market_index_key pr (owner k)) r1 c2 \<rparr>) \<or>
     cover_position X amt k np (current_state e0) = None \<and>
     add_balance (asset_of (collateral_balance r1) (base_asset_id (order_price k)))
       (e \<lparr> current_state := c2 \<rparr>) = Inr e'"
  then show ?thesis
    by (auto dest!: sub_balance_context add_balance_context intro: same_context_trans)
qed

lemma add_collateral_context: "add_collateral_evaluate X amt k e0 = Inr e' \<Longrightarrow> same_context e0 e'"
  by (auto simp: add_collateral_evaluate_def Let_def elim!: bindE_InrE
      split: if_split_asm option.split_asm dest!: sub_balance_context)

lemma update_feed_context: "update_feed_evaluate X i v e = Inr e' \<Longrightarrow> same_context e e'"
  by (auto simp: update_feed_evaluate_def Let_def elim!: bindE_InrE split: if_split_asm option.split_asm)

lemmas operation_contexts = withdraw_context deposit_context claim_context define_delegate_slate_context
  burn_context register_account_context update_account_context withdraw_pay_context bid_context
  ask_context short_context cover_context add_collateral_context update_feed_context

lemma evaluate_operation_context:
  assumes "evaluate_operation X op e = Inr e'"
  shows "same_context e e'"
proof (cases op)
  case (Balance_op x)
  then show ?thesis
    using assms by (cases x) (auto simp: withdraw_all_evaluate_def release_escrow_evaluate_def intro: operation_contexts)
next
  case (Account_op x)
  then show ?thesis
    using assms by (cases x) (auto simp: link_account_evaluate_def intro: operation_contexts)
next
  case (Market_op x)
  then show ?thesis
    using assms by (cases x) (auto simp: remove_collateral_evaluate_def intro: operation_contexts)
qed (use assms in \<open>auto intro: operation_contexts\<close>)

section \<open>The books over a sequence of operations\<close>

text \<open>The drift of a sequence of operations: the sum of the drifts of the operations that run.\<close>

fun drift :: "ext \<Rightarrow> operation list \<Rightarrow> eval_state \<Rightarrow> asset_id_type \<Rightarrow> share_type" where
  "drift X [] e a = 0"
| "drift X (op # ops) e a =
     operation_drift X (current_state e) op a +
     (case evaluate_operation X op e of
        Inl x \<Rightarrow> 0
      | Inr e' \<Rightarrow> drift X ops (e' \<lparr> current_op_index := Suc (current_op_index e') \<rparr>) a)"

text \<open>Operations that move no position have no drift.\<close>

fun moves_position :: "operation \<Rightarrow> bool" where
  "moves_position (Market_op (Cover_operation amt k np)) = True"
| "moves_position (Market_op (Add_collateral_operation amt k)) = True"
| "moves_position op = False"

lemma operation_drift_none: "\<not> moves_position op \<Longrightarrow> operation_drift X c op a = 0"
  by (cases "(X, c, op, a)" rule: operation_drift.cases) auto

lemma drift_none: "list_all (\<lambda>op. \<not> moves_position op) ops \<Longrightarrow> drift X ops e a = 0"
  by (induction ops arbitrary: e) (auto simp: operation_drift_none split: sum.split)

lemma set_market_dirty_frames:
  assumes "set_market_dirty q b c = Inr c'"
  shows "holdings c' a = holdings c a" "supply_of c' a = supply_of c a" "chain_ok X c' = chain_ok X c"
proof -
  obtain p d where c: "c = Pending p d" "c' = Pending (p \<lparr> p_dirty_markets := List.insert (q, b) (p_dirty_markets p) \<rparr>) d"
    using assms by (cases c) auto
  have g: "get_asset_record c' = get_asset_record c" "get_balance_record c' = get_balance_record c"
    "get_account_record c' = get_account_record c" "get_bid_record c' = get_bid_record c"
    "get_ask_record c' = get_ask_record c" "get_short_record c' = get_short_record c"
    "get_collateral_record c' = get_collateral_record c" "get_property c' = get_property c"
    "is_pending c' = is_pending c"
    by (auto simp: c fun_eq_iff)
  show "holdings c' a = holdings c a" "supply_of c' a = supply_of c a" "chain_ok X c' = chain_ok X c"
    by (simp_all add: holdings_def supply_of_def fees_of_def chain_ok_def g)
qed

lemma update_feed_keeps_books:
  assumes "update_feed_evaluate X i v e = Inr e'"
  shows "keeps_books X e e'"
proof -
  obtain c' where c': "set_market_dirty (fst i) 0
      (set_feed \<lparr> feed = i, feed_value_of = v, feed_last_update = now (current_state e) \<rparr> (current_state e)) = Inr c'"
    and e': "e' = e \<lparr> current_state := c' \<rparr>"
    using assms by (auto simp: update_feed_evaluate_def Let_def elim!: bindE_InrE split: if_split_asm option.split_asm)
  show ?thesis by (simp add: keeps_books_def books_def e' set_market_dirty_frames [OF c'])
qed

lemmas operation_books = withdraw_keeps_books deposit_keeps_books claim_keeps_books define_delegate_slate_keeps_books
  burn_keeps_books register_account_keeps_books update_account_keeps_books withdraw_pay_keeps_books
  bid_keeps_books ask_keeps_books short_keeps_books update_feed_keeps_books

lemma market_operation_drifts_books:
  assumes "evaluate_operation X (Market_op x) e = Inr e'" and "chain_ok X (current_state e)"
  shows "drifts_books X (operation_drift X (current_state e) (Market_op x)) e e'"
  using assms
proof (cases x)
  case (Cover_operation amt k np)
  then show ?thesis using assms cover_drifts_books by (fastforce simp: drifts_books_def)
next
  case (Add_collateral_operation amt k)
  then show ?thesis using assms add_collateral_drifts_books by (fastforce simp: drifts_books_def)
qed (use assms in \<open>auto simp: remove_collateral_evaluate_def intro: operation_books intro!: keeps_drifts\<close>)

lemma evaluate_operation_drifts_books:
  assumes "evaluate_operation X op e = Inr e'" and "chain_ok X (current_state e)"
  shows "drifts_books X (operation_drift X (current_state e) op) e e'"
proof (cases op)
  case (Balance_op x)
  have "keeps_books X e e'"
    using assms Balance_op
    by (cases x) (auto simp: withdraw_all_evaluate_def release_escrow_evaluate_def intro: operation_books)
  with Balance_op show ?thesis by (simp add: keeps_drifts)
next
  case (Account_op x)
  have "keeps_books X e e'"
    using assms Account_op by (cases x) (auto simp: link_account_evaluate_def intro: operation_books)
  with Account_op show ?thesis by (simp add: keeps_drifts)
next
  case (Market_op x)
  then show ?thesis using assms market_operation_drifts_books by blast
qed (use assms in \<open>auto intro: operation_books intro!: keeps_drifts\<close>)

lemma drifts_books_chain_ok: "drifts_books X f e e' \<Longrightarrow> chain_ok X (current_state e) \<Longrightarrow> chain_ok X (current_state e')"
  by (simp add: drifts_books_def)

lemma evaluate_operations_drifts_books:
  assumes "evaluate_operations X ops e = Inr e'" and "chain_ok X (current_state e)"
  shows "drifts_books X (drift X ops e) e e' \<and> same_context e e'"
  using assms
proof (induction ops arbitrary: e)
  case Nil
  then show ?case by (simp add: evaluate_operations_def drifts_books_def)
next
  case (Cons op ops)
  from Cons.prems(1) obtain e1 where e1: "evaluate_operation X op e = Inr e1"
    and rest: "evaluate_operations X ops (e1 \<lparr> current_op_index := Suc (current_op_index e1) \<rparr>) = Inr e'"
    by (auto simp: evaluate_operations_def elim!: bindE_InrE)
  let ?e1 = "e1 \<lparr> current_op_index := Suc (current_op_index e1) \<rparr>"
  have "drifts_books X (operation_drift X (current_state e) op) e e1"
    using evaluate_operation_drifts_books [OF e1] Cons.prems by simp
  then have step: "drifts_books X (operation_drift X (current_state e) op) e ?e1"
    by (simp add: drifts_books_def books_def)
  have ih: "drifts_books X (drift X ops ?e1) ?e1 e' \<and> same_context ?e1 e'"
    using Cons.IH [OF rest] drifts_books_chain_ok [OF step Cons.prems(2)] by simp
  have "same_context e ?e1" using evaluate_operation_context [OF e1] by simp
  with ih have "same_context e e'" by (blast intro: same_context_trans)
  moreover have "drifts_books X (\<lambda>a. operation_drift X (current_state e) op a + drift X ops ?e1 a) e e'"
    using drifts_books_trans [OF step] ih by blast
  ultimately show ?case using e1 by simp
qed

section \<open>Fees and votes at the end\<close>

text \<open>The amount a list of balances holds of an asset.\<close>

definition held :: "asset_id_type \<Rightarrow> (asset_id_type, share_type) table \<Rightarrow> share_type" where
  "held a t = tsum (\<lambda>k v. if k = a then v else 0) t"

lemma held_map_of: "distinct (map fst t) \<Longrightarrow> held a t = (case map_of t a of Some v \<Rightarrow> v | None \<Rightarrow> 0)"
proof (induction t)
  case (Cons x t)
  obtain k v where x: "x = (k, v)" by (cases x)
  have "k = a \<Longrightarrow> map_of t a = None"
    using Cons.prems x by (auto simp: map_of_eq_None_iff)
  then show ?case using Cons by (cases "k = a") (simp_all add: x held_def tsum_def)
qed (simp add: held_def tsum_def)

lemma held_in_order: "tidy e \<Longrightarrow> held a (in_order (trx_balance e)) = balance_of e a"
  by (simp add: tidy_def held_map_of map_of_in_order balance_of_def)

lemma convert_fees_Inr:
  assumes "foldE (convert_fee X) fees e = Inr e'"
  shows "current_state e' = current_state e"
proof (rule foldE_invariant [OF assms, where P = "\<lambda>e'. current_state e' = current_state e"])
  fix x s s'
  assume "current_state s = current_state e" and "convert_fee X x s = Inr s'"
  then show "current_state s' = current_state e"
    by (auto simp: convert_fee_def elim!: bindE_InrE split: if_split_asm option.split_asm)
qed simp

lemma collect_fee_Inr:
  assumes "collect_fee fee e = Inr e'" and ok: "chain_ok X (current_state e)"
  shows "chain_ok X (current_state e')" "supply_of (current_state e') a = supply_of (current_state e) a"
    "holdings (current_state e') a = holdings (current_state e) a + (if fst fee = a then snd fee else 0)"
proof -
  consider (pos) r where "get_asset_record (current_state e) (fst fee) = Some r"
      "e' = e \<lparr> current_state := store_asset_record (r \<lparr> collected_fees := collected_fees r + snd fee \<rparr>) (current_state e) \<rparr>"
    | (zero) "snd fee = 0" "e' = e"
    using assms(1) by (fastforce simp: collect_fee_def split: if_split_asm option.split_asm)
  then have "chain_ok X (current_state e') \<and> supply_of (current_state e') a = supply_of (current_state e) a \<and>
    holdings (current_state e') a = holdings (current_state e) a + (if fst fee = a then snd fee else 0)"
  proof cases
    case pos
    have "asset_record_id r = fst fee" using chain_ok_ids(1) [OF ok pos(1)] .
    moreover have "fees_of (current_state e) (fst fee) = collected_fees r"
      "supply_of (current_state e) (fst fee) = current_share_supply r"
      using pos(1) by (simp_all add: fees_of_def supply_of_def)
    ultimately show ?thesis
      using ok pos(2) by (auto simp: total_store_asset holdings_store_asset chain_ok_pending [OF ok])
  qed (use ok in auto)
  then show "chain_ok X (current_state e')" "supply_of (current_state e') a = supply_of (current_state e) a"
    "holdings (current_state e') a = holdings (current_state e) a + (if fst fee = a then snd fee else 0)"
    by auto
qed

lemma collect_fees_Inr:
  assumes "foldE collect_fee fees e = Inr e'" and "chain_ok X (current_state e)"
  shows "chain_ok X (current_state e') \<and> supply_of (current_state e') a = supply_of (current_state e) a \<and>
    holdings (current_state e') a = holdings (current_state e) a + held a fees"
  using assms
proof (induction fees arbitrary: e)
  case Nil
  then show ?case by (simp add: held_def tsum_def)
next
  case (Cons fee fees)
  from Cons.prems(1) obtain e1 where e1: "collect_fee fee e = Inr e1" and rest: "foldE collect_fee fees e1 = Inr e'"
    by (auto elim!: bindE_InrE)
  note step = collect_fee_Inr [OF e1 Cons.prems(2)]
  show ?case using Cons.IH [OF rest step(1)] step
    by (cases fee) (auto simp: held_def tsum_def)
qed

lemma post_evaluate_Inr:
  assumes "post_evaluate X e = Inr e'" and ok: "chain_ok X (current_state e)" and "tidy e"
  shows "chain_ok X (current_state e')" "supply_of (current_state e') a = supply_of (current_state e) a"
    "holdings (current_state e') a = holdings (current_state e) a + balance_of e a"
proof -
  define e0 where "e0 = e \<lparr> trx_balance := (case map_of (trx_balance e) 0 of
      None \<Rightarrow> AList.update 0 0 (trx_balance e) | Some _ \<Rightarrow> trx_balance e) \<rparr>"
  obtain e1 where 1: "foldE (convert_fee X) (in_order (trx_balance e0)) e0 = Inr e1"
    and 2: "foldE collect_fee (in_order (trx_balance e0)) e1 = Inr e'"
    using assms(1) by (auto simp: post_evaluate_def Let_def e0_def elim!: bindE_InrE)
  have e0: "current_state e0 = current_state e" "tidy e0" "balance_of e0 a = balance_of e a"
    using \<open>tidy e\<close>
    by (cases "map_of (trx_balance e) 0"; simp add: e0_def tidy_def balance_of_def distinct_update)+
  have cs: "current_state e1 = current_state e" using convert_fees_Inr [OF 1] e0 by simp
  have "chain_ok X (current_state e1)" using ok cs by simp
  from collect_fees_Inr [OF 2 this, of a] held_in_order [OF e0(2), of a] cs e0(3)
  show "chain_ok X (current_state e')" "supply_of (current_state e') a = supply_of (current_state e) a"
    "holdings (current_state e') a = holdings (current_state e) a + balance_of e a"
    by simp_all
qed

lemma update_delegate_votes_Inr:
  assumes "update_delegate_votes X e = Inr e'" and ok: "chain_ok X (current_state e)"
  shows "chain_ok X (current_state e') \<and> holdings (current_state e') a = holdings (current_state e) a \<and>
    supply_of (current_state e') a = supply_of (current_state e) a"
  using assms(1) unfolding update_delegate_votes_def
proof (rule foldE_invariant)
  fix x s s'
  assume inv: "chain_ok X (current_state s) \<and> holdings (current_state s) a = holdings (current_state e) a \<and>
    supply_of (current_state s) a = supply_of (current_state e) a"
    and step: "(case x of (i, v) \<Rightarrow> \<lambda>e.
       case get_account_record (current_state e) i of
         None \<Rightarrow> Inl assert_failed
       | Some r \<Rightarrow> bindE (adjust_votes_for v r) (\<lambda>r'.
           Inr (e \<lparr> current_state := store_account_record X r' (current_state e) \<rparr>))) s = Inr s'"
  obtain i v where x: "x = (i, v)" by (cases x)
  from step obtain r r' where r: "get_account_record (current_state s) i = Some r" "adjust_votes_for v r = Inr r'"
    and s': "s' = s \<lparr> current_state := store_account_record X r' (current_state s) \<rparr>"
    by (auto simp: x elim!: bindE_InrE split: option.split_asm)
  have id: "account_id r' = i" "pay_in i r' = pay_in i r"
    using chain_ok_ids(3) [OF _ r(1), of X] inv r(2)
    by (auto simp: adjust_votes_for_def pay_in_def split: option.splits)
  have ok': "chain_ok X (current_state s)" using inv by blast
  have "chain_ok X (current_state s')" using ok' r(1) id by (auto simp: s')
  then show "chain_ok X (current_state s') \<and> holdings (current_state s') a = holdings (current_state e) a \<and>
    supply_of (current_state s') a = supply_of (current_state e) a"
    using store_account_books [OF ok' r(1) id] inv by (simp add: s' holdings_split)
qed (use ok in simp)

section \<open>Whole transactions\<close>

lemma begin_evaluation_Inr:
  assumes "begin_evaluation X t skip canonical e = Inr e'"
  shows "current_state e' = current_state e" "trx_balance e' = []" "trx e' = t"
    "skip_signature_check e' = skip" "net_delegate_votes e' = []"
  using assms
  by (auto simp: begin_evaluation_def reset_def Let_def elim!: bindE_InrE split: if_split_asm)

lemma evaluate_steps:
  assumes "evaluate X t skip canonical e = Inr e'"
  obtains e2 e3 e4 where "begin_evaluation X t skip canonical e = Inr e2"
    and "evaluate_operations X (trx_operations t) e2 = Inr e3" and "post_evaluate X e3 = Inr e4"
    and "validate_required_fee e4 = Inr ()" and "update_delegate_votes X e4 = Inr e'"
  using assms by (auto simp: evaluate_def elim!: bindE_InrE)

lemma evaluate_books:
  assumes "evaluate X t skip canonical e = Inr e'" and ok: "chain_ok X (current_state e)"
    and 1: "begin_evaluation X t skip canonical e = Inr e2"
  shows "holdings (current_state e') a - supply_of (current_state e') a + drift X (trx_operations t) e2 a =
    holdings (current_state e) a - supply_of (current_state e) a" "chain_ok X (current_state e')"
proof -
  obtain e3 e4 where 2: "evaluate_operations X (trx_operations t) e2 = Inr e3" and 3: "post_evaluate X e3 = Inr e4"
    and 4: "update_delegate_votes X e4 = Inr e'"
    using assms(1) 1 by (auto elim: evaluate_steps)
  note b = begin_evaluation_Inr [OF 1]
  have ok2: "chain_ok X (current_state e2)" using ok b by simp
  have ops: "drifts_books X (drift X (trx_operations t) e2) e2 e3" "same_context e2 e3"
    using evaluate_operations_drifts_books [OF 2 ok2] by auto
  have "tidy e2" using b by (simp add: tidy_def)
  then have "tidy e3" using ops by (simp add: same_context_def)
  moreover have ok3: "chain_ok X (current_state e3)" using drifts_books_chain_ok [OF ops(1) ok2] .
  ultimately have p: "chain_ok X (current_state e4)" "supply_of (current_state e4) a = supply_of (current_state e3) a"
    "holdings (current_state e4) a = holdings (current_state e3) a + balance_of e3 a"
    using post_evaluate_Inr [OF 3] by auto
  have "books e3 a + drift X (trx_operations t) e2 a = books e2 a" using ops by (simp add: drifts_books_def)
  moreover have "balance_of e2 a = 0" using b by (simp add: balance_of_def)
  ultimately show "holdings (current_state e') a - supply_of (current_state e') a + drift X (trx_operations t) e2 a =
    holdings (current_state e) a - supply_of (current_state e) a"
    using p update_delegate_votes_Inr [OF 4 p(1), of a] b by (simp add: books_def algebra_simps)
  show "chain_ok X (current_state e')" using update_delegate_votes_Inr [OF 4 p(1)] by blast
qed

end
