(* ===== verification/Authority.thy ===== *)
theory Authority
  imports Transactions
begin

text \<open>
  Who may change what. The balance a signature guards does not change in a transaction its owner
  has not signed; delegate pay and pay rates are guarded by the active key and by the old rate.
\<close>

lemma evaluate_operation_chain_ok:
  assumes "evaluate_operation X op e = Inr e'" and "chain_ok X (current_state e)"
  shows "chain_ok X (current_state e')"
  using drifts_books_chain_ok [OF evaluate_operation_drifts_books [OF assms] assms(2)] .

section \<open>Operations that leave balances alone\<close>

definition same_balances :: "eval_state \<Rightarrow> eval_state \<Rightarrow> bool" where
  "same_balances e e' \<longleftrightarrow> get_balance_record (current_state e') = get_balance_record (current_state e)"

lemma burn_balances: "burn_evaluate X x acc msg sig e = Inr e' \<Longrightarrow> same_balances e e'"
  by (auto simp: burn_evaluate_def same_balances_def Let_def sub_balance_Inr(1) elim!: bindE_InrE
      split: if_split_asm option.split_asm)

lemma define_delegate_slate_balances:
  "define_delegate_slate_evaluate X slate e = Inr e' \<Longrightarrow> same_balances e e'"
  by (auto simp: define_delegate_slate_evaluate_def same_balances_def bindE_Inr_iff split: if_splits option.splits)

lemma register_account_balances:
  assumes "register_account_evaluate X name data owner_k active_k rate meta e = Inr e'"
  shows "same_balances e e'"
  using assms by (rule register_account_steps) (simp add: same_balances_def)

lemma update_account_balances:
  assumes "update_account_evaluate X i data k rate e = Inr e'"
  shows "same_balances e e'"
  using assms by (rule update_account_steps) (simp add: same_balances_def)

lemma withdraw_pay_balances:
  assumes "withdraw_pay_evaluate X amt i e = Inr e'"
  shows "same_balances e e'"
  using assms by (rule withdraw_pay_steps) (use add_balance_Inr(1) in \<open>fastforce simp: same_balances_def\<close>)

lemma adjust_order_state:
  assumes "adjust_order amt x old e = Inr (r, e1)"
  shows "current_state e1 = current_state e"
  using assms sub_balance_Inr(1) add_balance_Inr(1)
  by (auto simp: adjust_order_def elim!: bindE_InrE split: if_split_asm option.split_asm)

lemma bid_balances: "bid_evaluate amt k e = Inr e' \<Longrightarrow> same_balances e e'"
  by (auto simp: bid_evaluate_def same_balances_def Let_def adjust_order_state elim!: bindE_InrE
      split: if_split_asm prod.split_asm)

lemma ask_balances: "ask_evaluate amt k e = Inr e' \<Longrightarrow> same_balances e e'"
  by (auto simp: ask_evaluate_def same_balances_def Let_def adjust_order_state elim!: bindE_InrE
      split: if_split_asm prod.split_asm)

lemma short_balances: "short_evaluate amt k lim e = Inr e' \<Longrightarrow> same_balances e e'"
  by (auto simp: short_evaluate_def same_balances_def Let_def adjust_order_state elim!: bindE_InrE
      split: if_split_asm prod.split_asm option.split_asm)

lemma cover_balances:
  assumes "cover_evaluate X amt k np e0 = Inr e'"
  shows "same_balances e0 e'"
  using assms
proof (rule cover_steps)
  fix e r t r1 c2 and arec :: asset_record and paid interest :: asset
  assume sub: "sub_balance null_address (asset_of amt (quote_asset_id (order_price k))) e0 = Inr e"
    and c2: "c2 = store_collateral_record k new_collateral_record (store_asset_record
       (arec \<lparr> current_share_supply := current_share_supply arec - amount paid,
               collected_fees := collected_fees arec + amount interest \<rparr>) (current_state e))"
    and e': "(\<exists>pr. cover_position X amt k np (current_state e0) = Some (Market_index_key pr (owner k), r1) \<and>
       e' = e \<lparr> current_state := store_collateral_record (Market_index_key pr (owner k)) r1 c2 \<rparr>) \<or>
     cover_position X amt k np (current_state e0) = None \<and>
     add_balance (asset_of (collateral_balance r1) (base_asset_id (order_price k)))
       (e \<lparr> current_state := c2 \<rparr>) = Inr e'"
  from e' show ?thesis
    using add_balance_Inr(1) sub_balance_Inr(1) [OF sub] by (fastforce simp: same_balances_def c2)
qed

lemma add_collateral_balances: "add_collateral_evaluate X amt k e0 = Inr e' \<Longrightarrow> same_balances e0 e'"
  by (auto simp: add_collateral_evaluate_def same_balances_def Let_def sub_balance_Inr(1) elim!: bindE_InrE
      split: if_split_asm option.split_asm)

lemma set_market_dirty_balances:
  "set_market_dirty q b c = Inr c' \<Longrightarrow> get_balance_record c' = get_balance_record c"
  by (cases c) (auto simp: fun_eq_iff)

lemma update_feed_balances: "update_feed_evaluate X i v e = Inr e' \<Longrightarrow> same_balances e e'"
  by (auto simp: update_feed_evaluate_def same_balances_def Let_def set_market_dirty_balances elim!: bindE_InrE
      split: if_split_asm option.split_asm)

lemmas operation_balances = burn_balances define_delegate_slate_balances register_account_balances
  update_account_balances withdraw_pay_balances bid_balances ask_balances short_balances cover_balances
  add_collateral_balances update_feed_balances

section \<open>Operations on balances\<close>

lemma deposit_other_balance:
  assumes "deposit_evaluate X amt cond e = Inr e'" and ok: "chain_ok X (current_state e)"
    and "address_of_condition X cond \<noteq> bid"
  shows "get_balance_record (current_state e') bid = get_balance_record (current_state e) bid"
proof -
  let ?c = "current_state e" and ?i = "address_of_condition X cond"
  define cur where "cur = (case get_balance_record ?c ?i of Some r \<Rightarrow> r | None \<Rightarrow> balance_record_of cond)"
  obtain date e1 e2 where
    sub: "sub_balance ?i (asset_of amt (condition_asset_id (condition cur))) e = Inr e1" and
    vote: "(if condition_asset_id (condition cur) = 0 \<and> delegate_slate_id (condition cur) \<noteq> 0
            then adjust_vote (delegate_slate_id (condition cur)) amt e1 else Inr e1) = Inr e2" and
    e': "e' = e2 \<lparr> current_state := store_balance_record X
           (cur \<lparr> balance_last_update := now ?c, deposit_date := date, balance := balance cur + amt \<rparr>)
           (current_state e2) \<rparr>"
    using assms(1)
    by (simp add: deposit_evaluate_def Let_def if_Inr_iff bindE_Inr_iff flip: cur_def cong: if_cong) blast
  have "balance_record_id X cur = ?i"
    using chain_ok_ids(2) [OF ok] by (auto simp: cur_def balance_record_of_def balance_record_id_def split: option.splits)
  then show ?thesis
    using assms(3) sub_balance_Inr(1) [OF sub] optional_vote_Inr(1) [OF vote] chain_ok_pending [OF ok]
    by (simp add: e' get_store_balance balance_record_id_def)
qed

lemma withdraw_other_balance:
  assumes "withdraw_evaluate X i amt input e = Inr e'" and ok: "chain_ok X (current_state e)" and "i \<noteq> bid"
  shows "get_balance_record (current_state e') bid = get_balance_record (current_state e) bid"
  using assms(1)
proof (rule withdraw_steps)
  fix r e1 r1 e2
  assume r: "get_balance_record (current_state e) i = Some r"
    and vote: "(if condition_asset_id (condition r) = 0 \<and> delegate_slate_id (condition r) \<noteq> 0
      then adjust_vote (delegate_slate_id (condition r)) (- amt) e else Inr e) = Inr e1"
    and pay: "pay_yield X r e1 = Inr (r1, e2)"
    and add: "add_balance (asset_of amt (condition_asset_id (condition r1)))
      (e2 \<lparr> current_state := store_balance_record X
         (r1 \<lparr> balance := balance r1 - amt, balance_last_update := now (current_state e2) \<rparr>)
         (current_state e2) \<rparr>) = Inr e'"
  note v = optional_vote_Inr [OF vote]
  have ok1: "chain_ok X (current_state e1)" using ok v by simp
  note y = pay_yield_Inr [OF pay ok1]
  have "balance_record_id X r = i" using chain_ok_ids(2) [OF ok r] .
  then show ?thesis
    using add_balance_Inr(1) [OF add] y(1,4) v \<open>i \<noteq> bid\<close> chain_ok_pending [OF y(3)]
    by (simp add: get_store_balance balance_record_id_def)
qed

lemma claim_other_balance:
  assumes "claim_evaluate X i amt source dest sig e = Inr e'" and ok: "chain_ok X (current_state e)" and "i \<noteq> bid"
  shows "get_balance_record (current_state e') bid = get_balance_record (current_state e) bid"
proof -
  obtain r where r: "check_claim_input e i = Inr r" and w: "withdraw_claim_input X amt r e = Inr e'"
    using assms(1) by (auto simp: claim_evaluate_def bindE_Inr_iff)
  have old: "get_balance_record (current_state e) i = Some r"
    using r by (auto simp: check_claim_input_def split: option.splits if_splits)
  obtain e1 where vote: "(if delegate_slate_id (condition r) \<noteq> 0
        then adjust_vote (delegate_slate_id (condition r)) (- amt) e else Inr e) = Inr e1"
    and add: "add_balance (asset_of amt 0) (e1 \<lparr> current_state := store_balance_record X
        (r \<lparr> balance := 0, balance_last_update := now (current_state e1) \<rparr>) (current_state e1) \<rparr>) = Inr e'"
    using w by (simp add: withdraw_claim_input_def Let_def if_Inr_iff bindE_Inr_iff cong: if_cong) blast
  have "balance_record_id X r = i" using chain_ok_ids(2) [OF ok old] .
  then show ?thesis
    using add_balance_Inr(1) [OF add] optional_vote_Inr(1) [OF vote] \<open>i \<noteq> bid\<close> chain_ok_pending [OF ok]
    by (simp add: get_store_balance balance_record_id_def)
qed

text \<open>
  Operations that do not concern the balance \<open>bid\<close> otherwise than by an ordinary withdrawal: no
  deposit into it, no claim of it, no withdrawal with a foreign signature in its input data.
\<close>

fun ordinary_for :: "ext \<Rightarrow> balance_id_type \<Rightarrow> operation \<Rightarrow> bool" where
  "ordinary_for X bid (Balance_op (Deposit_operation amt cond)) = (address_of_condition X cond \<noteq> bid)"
| "ordinary_for X bid (Balance_op (Claim_operation i amt source dest sig)) = (i \<noteq> bid)"
| "ordinary_for X bid (Balance_op (Withdraw_operation i amt input)) = (i = bid \<longrightarrow> input = [])"
| "ordinary_for X bid op = True"

lemma unsigned_balance_step:
  assumes "evaluate_operation X op e = Inr e'" and ok: "chain_ok X (current_state e)"
    and "ordinary_for X bid op" and r: "get_balance_record (current_state e) bid = Some r"
    and c: "condition_data (condition r) = Withdraw_with_signature own memo"
    and sig: "\<not> check_signature e own"
  shows "get_balance_record (current_state e') bid = Some r"
proof (cases op)
  case (Balance_op x)
  show ?thesis
  proof (cases x)
    case (Withdraw_operation i amt input)
    then have w: "withdraw_evaluate X i amt input e = Inr e'" using assms(1) Balance_op by simp
    show ?thesis
    proof (cases "i = bid")
      case True
      then have "input = []" using assms(3) Balance_op Withdraw_operation by simp
      with w True r c sig show ?thesis
        by (auto simp: check_withdraw_condition_def elim!: withdraw_steps)
    qed (use withdraw_other_balance [OF w ok] r in simp)
  next
    case Deposit_operation
    then show ?thesis using assms Balance_op deposit_other_balance by simp
  next
    case Claim_operation
    then show ?thesis using assms Balance_op claim_other_balance by simp
  qed (use assms Balance_op operation_balances in
        \<open>auto simp: same_balances_def withdraw_all_evaluate_def release_escrow_evaluate_def\<close>)
next
  case (Account_op x)
  then show ?thesis
    using assms operation_balances by (cases x) (auto simp: link_account_evaluate_def same_balances_def)
next
  case (Market_op x)
  then show ?thesis
    using assms operation_balances by (cases x) (auto simp: remove_collateral_evaluate_def same_balances_def)
qed (use assms operation_balances in \<open>auto simp: same_balances_def\<close>)

lemma unsigned_balance_operations:
  assumes "evaluate_operations X ops e = Inr e'" and "chain_ok X (current_state e)"
    and "list_all (ordinary_for X bid) ops" and "get_balance_record (current_state e) bid = Some r"
    and "condition_data (condition r) = Withdraw_with_signature own memo" and "\<not> check_signature e own"
  shows "get_balance_record (current_state e') bid = Some r"
  using assms
proof (induction ops arbitrary: e)
  case Nil
  then show ?case by (simp add: evaluate_operations_def)
next
  case (Cons op ops)
  from Cons.prems(1) obtain e1 where e1: "evaluate_operation X op e = Inr e1"
    and rest: "evaluate_operations X ops (e1 \<lparr> current_op_index := Suc (current_op_index e1) \<rparr>) = Inr e'"
    by (auto simp: evaluate_operations_def elim!: bindE_InrE)
  have "get_balance_record (current_state e1) bid = Some r"
    using unsigned_balance_step [OF e1] Cons.prems by simp
  moreover have "chain_ok X (current_state e1)"
    using evaluate_operation_chain_ok [OF e1] Cons.prems by simp
  moreover have "\<not> check_signature e1 own"
    using evaluate_operation_context [OF e1] Cons.prems(6) by (simp add: same_context_def check_signature_def)
  ultimately show ?case
    using Cons.IH [OF rest] Cons.prems by (simp add: check_signature_def)
qed

section \<open>The end of the evaluation leaves balances alone\<close>

lemma post_evaluate_balances:
  assumes "post_evaluate X e = Inr e'"
  shows "same_balances e e'"
proof -
  define e0 where "e0 = e \<lparr> trx_balance := (case map_of (trx_balance e) 0 of
      None \<Rightarrow> AList.update 0 0 (trx_balance e) | Some _ \<Rightarrow> trx_balance e) \<rparr>"
  obtain e1 where 1: "foldE (convert_fee X) (in_order (trx_balance e0)) e0 = Inr e1"
    and 2: "foldE collect_fee (in_order (trx_balance e0)) e1 = Inr e'"
    using assms by (auto simp: post_evaluate_def Let_def e0_def elim!: bindE_InrE)
  have "same_balances e1 e'"
    using 2
  proof (rule foldE_invariant)
    fix x s s'
    assume "same_balances e1 s" and "collect_fee x s = Inr s'"
    then show "same_balances e1 s'"
      by (auto simp: collect_fee_def same_balances_def split: if_split_asm option.split_asm)
  qed (simp add: same_balances_def)
  then show ?thesis using convert_fees_Inr [OF 1] by (simp add: same_balances_def e0_def)
qed

lemma update_delegate_votes_balances:
  assumes "update_delegate_votes X e = Inr e'"
  shows "same_balances e e'"
  using assms unfolding update_delegate_votes_def
  by (rule foldE_invariant)
    (auto simp: same_balances_def elim!: bindE_InrE split: option.split_asm)

lemma evaluate_unsigned_balance:
  assumes "evaluate X t skip canonical e = Inr e'" and beg: "begin_evaluation X t skip canonical e = Inr e2"
    and ok: "chain_ok X (current_state e)" and ops: "list_all (ordinary_for X bid) (trx_operations t)"
    and r: "get_balance_record (current_state e) bid = Some r"
    and c: "condition_data (condition r) = Withdraw_with_signature own memo"
    and sig: "\<not> check_signature e2 own"
  shows "get_balance_record (current_state e') bid = Some r"
  using assms(1)
proof (rule evaluate_steps)
  fix e2' e3 e4
  assume "begin_evaluation X t skip canonical e = Inr e2'"
    and 2: "evaluate_operations X (trx_operations t) e2' = Inr e3"
    and 3: "post_evaluate X e3 = Inr e4" and 4: "update_delegate_votes X e4 = Inr e'"
  then have e2: "e2' = e2" using beg by simp
  have "get_balance_record (current_state e3) bid = Some r"
    using unsigned_balance_operations [OF 2 _ ops _ c] begin_evaluation_Inr(1) [OF beg] ok r sig by (simp add: e2)
  then show ?thesis
    using post_evaluate_balances [OF 3] update_delegate_votes_balances [OF 4] by (simp add: same_balances_def)
qed

section \<open>Fees\<close>

text \<open>The passes over the balances raise on a negative entry and do not change the balances.\<close>

lemma convert_fee_nonneg:
  assumes "convert_fee X fee e = Inr e'"
  shows "0 \<le> sint (snd fee)" "trx_balance e' = trx_balance e" "required_fees e' = required_fees e"
  using assms by (auto simp: convert_fee_def elim!: bindE_InrE split: if_split_asm option.split_asm)

lemma convert_fees_nonneg:
  assumes "foldE (convert_fee X) fees e = Inr e'"
  shows "list_all (\<lambda>fee. 0 \<le> sint (snd fee)) fees \<and> trx_balance e' = trx_balance e \<and>
    required_fees e' = required_fees e"
  using assms
proof (induction fees arbitrary: e)
  case (Cons fee fees)
  then obtain e1 where e1: "convert_fee X fee e = Inr e1" and "foldE (convert_fee X) fees e1 = Inr e'"
    by (auto elim!: bindE_InrE)
  with Cons.IH [OF this(2)] convert_fee_nonneg [OF e1] show ?case by simp
qed simp

lemma collect_fees_fields:
  assumes "foldE collect_fee fees e = Inr e'"
  shows "trx_balance e' = trx_balance e \<and> required_fees e' = required_fees e \<and> alt_fees_paid e' = alt_fees_paid e"
  using assms
  by (rule foldE_invariant) (auto simp: collect_fee_def split: if_split_asm option.split_asm)

lemma update_delegate_votes_fields:
  assumes "update_delegate_votes X e = Inr e'"
  shows "trx_balance e' = trx_balance e \<and> required_fees e' = required_fees e \<and> alt_fees_paid e' = alt_fees_paid e"
  using assms unfolding update_delegate_votes_def
  by (rule foldE_invariant) (auto elim!: bindE_InrE split: option.split_asm)

lemma post_evaluate_nonneg:
  assumes "post_evaluate X e = Inr e'"
  shows "0 \<le> sint (balance_of e' a)"
proof -
  define e0 where "e0 = e \<lparr> trx_balance := (case map_of (trx_balance e) 0 of
      None \<Rightarrow> AList.update 0 0 (trx_balance e) | Some _ \<Rightarrow> trx_balance e) \<rparr>"
  obtain e1 where 1: "foldE (convert_fee X) (in_order (trx_balance e0)) e0 = Inr e1"
    and 2: "foldE collect_fee (in_order (trx_balance e0)) e1 = Inr e'"
    using assms by (auto simp: post_evaluate_def Let_def e0_def elim!: bindE_InrE)
  have "trx_balance e' = trx_balance e0"
    using collect_fees_fields [OF 2] convert_fees_nonneg [OF 1] by simp
  moreover have "list_all (\<lambda>fee. 0 \<le> sint (snd fee)) (trx_balance e0)"
    using convert_fees_nonneg [OF 1] by (simp add: list_all_iff)
  ultimately show ?thesis
    by (auto simp: balance_of_def list_all_iff split: option.split dest!: map_of_SomeD)
qed

lemma validate_required_fee_Inr:
  assumes "validate_required_fee e = Inr ()"
  shows "sint (amount (required_fees e)) \<le> sint (balance_of e 0) + sint (amount (alt_fees_paid e))"
proof -
  obtain xts_fees total where xts: "(case map_of (trx_balance e) 0 of
              Some v \<Rightarrow> asset_add (asset_of 0 0) (asset_of v 0)
            | None \<Rightarrow> Inr (asset_of 0 0)) = Inr xts_fees"
    and total: "asset_add xts_fees (alt_fees_paid e) = Inr total"
    and enough: "\<not> asset_less total (required_fees e)"
    using assms unfolding validate_required_fee_def by (elim bindE_InrE) (simp split: if_split_asm)
  have "sint (amount xts_fees) = sint (balance_of e 0)"
    using xts asset_add_exact(1) by (cases "map_of (trx_balance e) 0") (auto simp: balance_of_def)
  then show ?thesis using asset_add_exact(1) [OF total] enough by (simp add: asset_less_def)
qed

lemma evaluate_fees:
  assumes "evaluate X t skip canonical e = Inr e'"
  shows "0 \<le> sint (balance_of e' a)"
    and "sint (amount (required_fees e')) \<le> sint (balance_of e' 0) + sint (amount (alt_fees_paid e'))"
  using assms
  by (auto elim!: evaluate_steps dest!: update_delegate_votes_fields validate_required_fee_Inr post_evaluate_nonneg [where a = a]
      simp: balance_of_def)

end
