(* ===== verification/Writes.thy ===== *)
theory Writes
  imports Authority Chain_Interface
begin

text \<open>
  Everything a block does to its pending state is a sequence of stores. The step relation \<open>writes\<close>
  has one rule per store of the chain interface; the operations, the end of a transaction, the market
  engine and the block production only make such steps. What every store keeps is then kept by a
  whole block (theory \<open>Block_Writes\<close>), by induction on the steps: the tables of the pending state stay keyed by their
  records, and the state below is never touched.
\<close>

inductive writes :: "ext \<Rightarrow> chain \<Rightarrow> chain \<Rightarrow> bool" for X c where
  none: "writes X c c"
| property: "writes X c c' \<Longrightarrow> writes X c (set_property i v c')"
| asset: "writes X c c' \<Longrightarrow> writes X c (store_asset_record ar c')"
| balance: "writes X c c' \<Longrightarrow> writes X c (store_balance_record X br c')"
| account: "writes X c c' \<Longrightarrow> writes X c (store_account_record X acr c')"
| slate: "writes X c c' \<Longrightarrow> writes X c (store_delegate_slate j sl c')"
| bid: "writes X c c' \<Longrightarrow> writes X c (store_bid_record k r c')"
| ask: "writes X c c' \<Longrightarrow> writes X c (store_ask_record k r c')"
| short: "writes X c c' \<Longrightarrow> writes X c (store_short_record k r c')"
| collateral: "writes X c c' \<Longrightarrow> writes X c (store_collateral_record k cr c')"
| slot: "writes X c c' \<Longrightarrow> writes X c (store_slot_record sr c')"
| feed: "writes X c c' \<Longrightarrow> writes X c (set_feed f c')"
| burn: "writes X c c' \<Longrightarrow> writes X c (store_burn_record bk bv c')"
| status: "writes X c c' \<Longrightarrow> writes X c (store_market_status ms c')"
| recent: "writes X c c' \<Longrightarrow> writes X c (store_recent_operation op c')"
| market_transactions: "writes X c c' \<Longrightarrow> writes X c (set_market_transactions ts c')"
| history: "writes X c c' \<Longrightarrow> writes X c (store_market_history_record hk hr c')"
| transaction: "writes X c c' \<Longrightarrow> store_transaction X t tr c' = Inr c2 \<Longrightarrow> writes X c c2"
| dirty: "writes X c c' \<Longrightarrow> set_market_dirty q b c' = Inr c2 \<Longrightarrow> writes X c c2"

declare writes.none [simp, intro]

lemma writes_trans:
  assumes "writes X c c1" "writes X c1 c2"
  shows "writes X c c2"
  using assms(2,1) by induction (auto intro: writes.intros)

lemmas write_rules [simp] = writes.property writes.asset writes.balance writes.account writes.slate writes.bid writes.ask
  writes.short writes.collateral writes.slot writes.feed writes.burn writes.status writes.recent
  writes.market_transactions writes.history

section \<open>What stores keep\<close>

lemma store_transaction_top:
  assumes "store_transaction X t tr c = Inr c'"
  shows "below c' = below c" "is_pending c' = is_pending c" "top_ok X c' = top_ok X c"
  using assms
  by (cases c; auto simp: pending_store_transaction_def pending_ok_def Let_def elim!: bindE_InrE
      split: option.split_asm if_split_asm)+

lemma set_market_dirty_top:
  assumes "set_market_dirty q b c = Inr c'"
  shows "below c' = below c" "is_pending c' = is_pending c" "top_ok X c' = top_ok X c"
  using assms by (cases c; auto simp: pending_ok_def)+

lemma writes_below: "writes X c c' \<Longrightarrow> below c' = below c \<and> is_pending c' = is_pending c"
  by (induction rule: writes.induct) (simp_all add: store_transaction_top set_market_dirty_top)

lemma writes_top_ok: "writes X c c' \<Longrightarrow> top_ok X c \<Longrightarrow> top_ok X c'"
  by (induction rule: writes.induct) (simp_all add: store_transaction_top set_market_dirty_top top_ok_stores)

lemma writes_pending:
  assumes "writes X (Pending p c) c'"
  obtains p' where "c' = Pending p' c" "pending_ok X p \<longrightarrow> pending_ok X p'"
  using writes_below [OF assms] writes_top_ok [OF assms] by (cases c') auto

section \<open>Operations\<close>

lemma deposit_writes: "deposit_evaluate X amt cond e = Inr e' \<Longrightarrow> writes X (current_state e) (current_state e')"
  by (auto simp: deposit_evaluate_def Let_def sub_balance_Inr(1) adjust_vote_Inr
      elim!: bindE_InrE split: if_split_asm)

lemma pay_yield_writes: "pay_yield X r e = Inr (r1, e1) \<Longrightarrow> writes X (current_state e) (current_state e1)"
  by (auto simp: pay_yield_def Let_def elim!: bindE_InrE split: option.split_asm if_split_asm)

lemma withdraw_writes:
  assumes "withdraw_evaluate X bid amt input e = Inr e'"
  shows "writes X (current_state e) (current_state e')"
  using assms
proof (rule withdraw_steps)
  fix r e1 r1 e2
  assume "(if condition_asset_id (condition r) = 0 \<and> delegate_slate_id (condition r) \<noteq> 0
      then adjust_vote (delegate_slate_id (condition r)) (- amt) e else Inr e) = Inr e1"
    and "pay_yield X r e1 = Inr (r1, e2)"
    and "add_balance (asset_of amt (condition_asset_id (condition r1)))
      (e2 \<lparr> current_state := store_balance_record X
         (r1 \<lparr> balance := balance r1 - amt, balance_last_update := now (current_state e2) \<rparr>)
         (current_state e2) \<rparr>) = Inr e'"
  from optional_vote_Inr(1) [OF this(1)] pay_yield_writes [OF this(2)] add_balance_Inr(1) [OF this(3)]
  show ?thesis by auto
qed

lemma claim_writes: "claim_evaluate X bid amt source dest sig e = Inr e' \<Longrightarrow> writes X (current_state e) (current_state e')"
  by (auto simp: claim_evaluate_def withdraw_claim_input_def Let_def add_balance_Inr(1) adjust_vote_Inr
      elim!: bindE_InrE split: if_split_asm)

lemma define_delegate_slate_writes:
  "define_delegate_slate_evaluate X slate e = Inr e' \<Longrightarrow> writes X (current_state e) (current_state e')"
  by (auto simp: define_delegate_slate_evaluate_def bindE_Inr_iff split: if_splits option.splits)

lemma burn_writes: "burn_evaluate X x acc msg sig e = Inr e' \<Longrightarrow> writes X (current_state e) (current_state e')"
  by (auto simp: burn_evaluate_def Let_def sub_balance_Inr(1) elim!: bindE_InrE
      split: if_split_asm option.split_asm)

lemma register_account_writes:
  assumes "register_account_evaluate X name data owner_k active_k rate meta e = Inr e'"
  shows "writes X (current_state e) (current_state e')"
  using assms by (rule register_account_steps) auto

lemma update_account_writes:
  assumes "update_account_evaluate X i data k rate e = Inr e'"
  shows "writes X (current_state e) (current_state e')"
  using assms by (rule update_account_steps) auto

lemma withdraw_pay_writes:
  assumes "withdraw_pay_evaluate X amt i e = Inr e'"
  shows "writes X (current_state e) (current_state e')"
  using assms by (rule withdraw_pay_steps) (auto dest!: add_balance_Inr(1))

lemma bid_writes: "bid_evaluate amt k e = Inr e' \<Longrightarrow> writes X (current_state e) (current_state e')"
  by (auto simp: bid_evaluate_def Let_def adjust_order_state elim!: bindE_InrE
      split: if_split_asm prod.split_asm)

lemma ask_writes: "ask_evaluate amt k e = Inr e' \<Longrightarrow> writes X (current_state e) (current_state e')"
  by (auto simp: ask_evaluate_def Let_def adjust_order_state elim!: bindE_InrE
      split: if_split_asm prod.split_asm)

lemma short_writes: "short_evaluate amt k lim e = Inr e' \<Longrightarrow> writes X (current_state e) (current_state e')"
  by (auto simp: short_evaluate_def Let_def adjust_order_state elim!: bindE_InrE
      split: if_split_asm prod.split_asm option.split_asm)

lemma cover_writes:
  assumes "cover_evaluate X amt k np e0 = Inr e'"
  shows "writes X (current_state e0) (current_state e')"
  using assms
proof (rule cover_steps)
  fix e r t r1 c2 and arec :: asset_record and paid interest :: asset
  assume sub: "sub_balance null_address (asset_of amt (quote_asset_id (order_price k))) e0 = Inr e"
    and c2: "c2 = store_collateral_record k new_collateral_record (store_asset_record
       (arec \<lparr> current_share_supply := current_share_supply arec - amount paid,
               collected_fees := collected_fees arec + amount interest \<rparr>) (current_state e))"
    and e': "(\<exists>pr. cover_position X amt k np (current_state e0) = Some (Market_index_key pr (owner k), r1) \<and>
       e' = e \<lparr> current_state := store_collateral_record (Market_index_key pr (owner k)) r1 c2 \<rparr>) \<or>
     cover_position X amt k np (current_state e0) = None \<and>
     add_balance (asset_of (collateral_balance r1) (base_asset_id (order_price k)))
       (e \<lparr> current_state := c2 \<rparr>) = Inr e'"
  from e' show ?thesis
    using sub_balance_Inr(1) [OF sub] by (auto simp: c2 dest!: add_balance_Inr(1))
qed

lemma add_collateral_writes: "add_collateral_evaluate X amt k e0 = Inr e' \<Longrightarrow> writes X (current_state e0) (current_state e')"
  by (auto simp: add_collateral_evaluate_def Let_def sub_balance_Inr(1) elim!: bindE_InrE
      split: if_split_asm option.split_asm)

lemma update_feed_writes:
  assumes "update_feed_evaluate X i v e = Inr e'"
  shows "writes X (current_state e) (current_state e')"
proof -
  obtain c' where c': "set_market_dirty (fst i) 0
      (set_feed \<lparr> feed = i, feed_value_of = v, feed_last_update = now (current_state e) \<rparr> (current_state e)) = Inr c'"
    and e': "e' = e \<lparr> current_state := c' \<rparr>"
    using assms by (auto simp: update_feed_evaluate_def Let_def elim!: bindE_InrE split: if_split_asm option.split_asm)
  show ?thesis using writes.dirty [OF _ c'] by (simp add: e')
qed

lemmas operation_writes = deposit_writes withdraw_writes claim_writes define_delegate_slate_writes burn_writes
  register_account_writes update_account_writes withdraw_pay_writes bid_writes ask_writes short_writes cover_writes
  add_collateral_writes update_feed_writes

lemma evaluate_operation_writes:
  assumes "evaluate_operation X op e = Inr e'"
  shows "writes X (current_state e) (current_state e')"
proof (cases op)
  case (Balance_op x)
  then show ?thesis
    using assms by (cases x) (auto simp: withdraw_all_evaluate_def release_escrow_evaluate_def intro: operation_writes)
next
  case (Account_op x)
  then show ?thesis
    using assms by (cases x) (auto simp: link_account_evaluate_def intro: operation_writes)
next
  case (Market_op x)
  then show ?thesis
    using assms by (cases x) (auto simp: remove_collateral_evaluate_def intro: operation_writes)
qed (use assms in \<open>auto intro: operation_writes\<close>)

section \<open>Transactions\<close>

lemma foldE_writes:
  assumes "foldE f xs s = Inr s'" and "\<And>x s s'. f x s = Inr s' \<Longrightarrow> writes X (g s) (g s')"
  shows "writes X (g s) (g s')"
  by (rule foldE_invariant [OF assms(1), where P = "\<lambda>s'. writes X (g s) (g s')"]) (auto intro: writes_trans assms(2))

lemma evaluate_operations_writes:
  assumes "evaluate_operations X ops e = Inr e'"
  shows "writes X (current_state e) (current_state e')"
  by (rule foldE_writes [OF assms [unfolded evaluate_operations_def]])
    (auto dest!: evaluate_operation_writes elim!: bindE_InrE)

lemma post_evaluate_writes:
  assumes "post_evaluate X e = Inr e'"
  shows "writes X (current_state e) (current_state e')"
proof -
  define e0 where "e0 = e \<lparr> trx_balance := (case map_of (trx_balance e) 0 of
      None \<Rightarrow> AList.update 0 0 (trx_balance e) | Some _ \<Rightarrow> trx_balance e) \<rparr>"
  obtain e1 where 1: "foldE (convert_fee X) (in_order (trx_balance e0)) e0 = Inr e1"
    and 2: "foldE collect_fee (in_order (trx_balance e0)) e1 = Inr e'"
    using assms(1) by (auto simp: post_evaluate_def Let_def e0_def elim!: bindE_InrE)
  have "writes X (current_state e1) (current_state e')"
    by (rule foldE_writes [OF 2]) (auto simp: collect_fee_def split: if_split_asm option.split_asm)
  then show ?thesis using convert_fees_Inr [OF 1] by (simp add: e0_def)
qed

lemma update_delegate_votes_writes:
  assumes "update_delegate_votes X e = Inr e'"
  shows "writes X (current_state e) (current_state e')"
  by (rule foldE_writes [OF assms [unfolded update_delegate_votes_def]]) (auto elim!: bindE_InrE split: option.split_asm)

lemma evaluate_writes:
  assumes "evaluate X t skip canonical e = Inr e'"
  shows "writes X (current_state e) (current_state e')"
  using assms
proof (rule evaluate_steps)
  fix e2 e3 e4
  assume "begin_evaluation X t skip canonical e = Inr e2" "evaluate_operations X (trx_operations t) e2 = Inr e3"
    "post_evaluate X e3 = Inr e4" "update_delegate_votes X e4 = Inr e'"
  from begin_evaluation_Inr(1) [OF this(1)] evaluate_operations_writes [OF this(2)] post_evaluate_writes [OF this(3)]
    update_delegate_votes_writes [OF this(4)]
  show ?thesis by (metis writes_trans)
qed

section \<open>Applying changes\<close>

lemma fold_writes:
  assumes "\<And>x c. writes X c (f x c)"
  shows "writes X c (fold f xs c)"
proof (induction xs arbitrary: c)
  case (Cons x xs)
  show ?case using writes_trans [OF assms Cons] by simp
qed simp

lemma write_folds [simp]:
  assumes "writes X c c'"
  shows "writes X c (fold (\<lambda>(i, v). set_property i v) t0 c')" "writes X c (fold (\<lambda>(i, r). store_asset_record r) t1 c')"
    "writes X c (fold (\<lambda>(i, r). store_account_record X r) t2 c')" "writes X c (fold (\<lambda>(i, r). store_balance_record X r) t3 c')"
    "writes X c (fold (\<lambda>(k, r). store_bid_record k r) t4 c')" "writes X c (fold (\<lambda>(k, r). store_ask_record k r) t4 c')"
    "writes X c (fold (\<lambda>(k, r). store_short_record k r) t4 c')" "writes X c (fold (\<lambda>(k, r). store_collateral_record k r) t5 c')"
    "writes X c (fold (\<lambda>(i, s). store_delegate_slate i s) t6 c')" "writes X c (fold (\<lambda>(t, r). store_slot_record r) t7 c')"
    "writes X c (fold (\<lambda>(k, r). store_market_history_record k r) t8 c')"
    "writes X c (fold (\<lambda>(k, r). store_market_status r) t9 c')" "writes X c (fold (\<lambda>(k, r). set_feed r) t10 c')"
    "writes X c (fold store_recent_operation ops c')"
    "writes X c (fold (\<lambda>(k, v). store_burn_record k v) t12 c')"
  by (rule writes_trans [OF assms fold_writes]; auto)+

lemma apply_changes_writes:
  assumes "apply_changes X p c = Inr c'"
  shows "writes X c c'"
proof -
  have recent: "writes X c (fold (\<lambda>(t, ops). fold store_recent_operation ops) ts c1)" if "writes X c c1" for c1 ts
    by (rule writes_trans [OF that fold_writes]) auto
  have "writes X c1 c2" if "foldE (\<lambda>(i, r). store_transaction X i r) ts c1 = Inr c2" for ts c1 c2
    by (rule foldE_writes [OF that, where g = "\<lambda>c. c"]) (auto intro: writes.transaction [OF writes.none])
  then have trx: "writes X c c1 \<longrightarrow> writes X c c2" if "foldE (\<lambda>(i, r). store_transaction X i r) ts c1 = Inr c2" for ts c1 c2
    using that writes_trans by blast
  show ?thesis using assms
    by (auto simp: apply_changes_def Let_def set_dirty_markets_def recent elim!: bindE_InrE dest!: trx)
qed

end
