(* ===== verification/Market_Engine.thy ===== *)
theory Market_Engine
  imports Market_Operations
begin

text \<open>
  The market engine: \<^verbatim>\<open>market_engine.cpp\<close>. An engine matches the orders of one market on a pending
  state of its own. The order tables of the database do not change while it runs, so an iterator is
  the list of the entries it has still to visit: in key order for asks, in reverse key order for bids,
  shorts and margin positions. The functions that settle an order take the order and return it, since
  they change the order in memory as well as its record. An exception leaves the state of the block
  as it was, except for the status of the market.
\<close>

section \<open>State\<close>

record engine =
  pending_state :: chain
  current_bid :: "market_order option"
  current_ask :: "market_order option"
  current_collat_record :: collateral_record
  engine_quote_id :: asset_id_type
  engine_base_id :: asset_id_type
  feed_price :: "price option"
  orders_filled :: int
  engine_transactions :: "market_transaction list"
  bid_itr :: "(market_index_key \<times> order_record) list"
  ask_itr :: "(market_index_key \<times> order_record) list"
  short_itr :: "(market_index_key \<times> order_record) list"
  collateral_itr :: "(market_index_key \<times> collateral_record) list"

text \<open>The local variables of the matching loop.\<close>

record matching = engine +
  quote_asset :: asset_record
  base_asset :: asset_record
  last_orders_filled :: int
  trading_volume :: asset
  market_opening_price :: price
  market_closing_price :: price

abbreviation undefined_behaviour :: exn where
  "undefined_behaviour \<equiv> Fc_exception ''undefined_behaviour''"

definition new_market_transaction :: market_transaction where
  "new_market_transaction = \<lparr> bid_owner = null_address, ask_owner = null_address, bid_price = null_price,
     ask_price = null_price, bid_paid = asset_of 0 0, bid_received = asset_of 0 0, short_collateral = None,
     ask_paid = asset_of 0 0, ask_received = asset_of 0 0, returned_collateral = None,
     bid_type = null_order, ask_type = null_order, fees_collected = asset_of 0 0 \<rparr>"

definition asset_min :: "asset \<Rightarrow> asset \<Rightarrow> asset" where
  "asset_min a b = (if asset_less b a then b else a)"

definition in_market :: "'x engine_scheme \<Rightarrow> price \<Rightarrow> bool" where
  "in_market s p \<longleftrightarrow> quote_asset_id p = engine_quote_id s \<and> base_asset_id p = engine_base_id s"

section \<open>The next orders\<close>

definition get_next_short :: "'x engine_scheme \<Rightarrow> bool \<times> 'x engine_scheme" where
  "get_next_short s =
     (case short_itr s of
        [] \<Rightarrow> (False, s)
      | (k, r) # rest \<Rightarrow>
          if in_market s (order_price k)
          then (True, s \<lparr> short_itr := rest,
                  current_bid := Some \<lparr> order_type_of = short_order, market_index = k, order_state = r,
                    order_collateral = Some (order_balance r), order_interest_rate = Some (order_price k),
                    order_expiration = None \<rparr> \<rparr>)
          else (False, s))"

definition take_bid :: "market_index_key \<Rightarrow> order_record \<Rightarrow> 'x engine_scheme \<Rightarrow> 'x engine_scheme" where
  "take_bid k r s = s \<lparr> bid_itr := tl (bid_itr s),
     current_bid := Some \<lparr> order_type_of = bid_order, market_index = k, order_state = r,
       order_collateral = None, order_interest_rate = None, order_expiration = None \<rparr> \<rparr>"

definition advance_bid :: "'x engine_scheme \<Rightarrow> bool \<times> 'x engine_scheme" where
  "advance_bid s0 =
     (let s = s0 \<lparr> orders_filled := orders_filled s0 + 1, current_bid := None \<rparr>
      in case bid_itr s of
           (k, r) # rest \<Rightarrow>
             if in_market s (order_price k) then
               if (case feed_price s of Some f \<Rightarrow> price_less (order_price k) f | None \<Rightarrow> False)
               then (case get_next_short s of
                       (True, s1) \<Rightarrow> (True, s1)
                     | (False, s1) \<Rightarrow> (True, take_bid k r s1))
               else (True, take_bid k r s)
             else get_next_short s
         | [] \<Rightarrow> get_next_short s)"

definition get_next_bid :: "ext \<Rightarrow> 'x engine_scheme \<Rightarrow> exn + (bool \<times> 'x engine_scheme)" where
  "get_next_bid X s =
     (case current_bid s of
        Some m \<Rightarrow> bindE (get_quantity X m) (\<lambda>q.
          if sint (amount q) > 0 then Inr (True, s) else Inr (advance_bid s))
      | None \<Rightarrow> Inr (advance_bid s))"

definition take_ask :: "'x engine_scheme \<Rightarrow> bool \<times> 'x engine_scheme" where
  "take_ask s =
     (case ask_itr s of
        [] \<Rightarrow> (False, s)
      | (k, r) # rest \<Rightarrow>
          if in_market s (order_price k)
          then (True, s \<lparr> ask_itr := rest,
                  current_ask := Some \<lparr> order_type_of = ask_order, market_index = k, order_state = r,
                    order_collateral = None, order_interest_rate = None, order_expiration = None \<rparr> \<rparr>)
          else (False, s \<lparr> ask_itr := rest \<rparr>))"

definition cover_of :: "market_index_key \<Rightarrow> collateral_record \<Rightarrow> market_order" where
  "cover_of k r = \<lparr> order_type_of = cover_order, market_index = k,
     order_state = new_order_record \<lparr> order_balance := payoff_balance r \<rparr>,
     order_collateral = Some (collateral_balance r), order_interest_rate = Some (interest_rate r),
     order_expiration = Some (collateral_expiration r) \<rparr>"

text \<open>Margin calls come before asks; the first position that is not called ends them.\<close>

definition advance_ask :: "'x engine_scheme \<Rightarrow> bool \<times> 'x engine_scheme" where
  "advance_ask s0 =
     (let s = s0 \<lparr> current_ask := None, orders_filled := orders_filled s0 + 1 \<rparr>
      in case collateral_itr s of
           (k, r) # rest \<Rightarrow>
             if current_bid s = None then take_ask s
             else if in_market s (order_price k) then
               let s1 = s \<lparr> current_collat_record := r \<rparr>
               in if (case feed_price s of Some f \<Rightarrow> price_less f (order_price k) | None \<Rightarrow> False) \<or>
                     collateral_expiration r \<le> now (pending_state s)
                  then (True, s1 \<lparr> current_ask := Some (cover_of k r), collateral_itr := rest \<rparr>)
                  else take_ask (s1 \<lparr> collateral_itr := [] \<rparr>)
             else take_ask (s \<lparr> collateral_itr := [] \<rparr>)
         | [] \<Rightarrow> take_ask s)"

definition get_next_ask :: "'x engine_scheme \<Rightarrow> bool \<times> 'x engine_scheme" where
  "get_next_ask s =
     (case current_ask s of
        Some m \<Rightarrow> if sint (order_balance (order_state m)) > 0 then (True, s) else advance_ask s
      | None \<Rightarrow> advance_ask s)"

section \<open>Margin positions\<close>

definition get_current_cover_age :: "market_order \<Rightarrow> chain \<Rightarrow> 64 word" where
  "get_current_cover_age m c =
     word_of_int ((int BTS_BLOCKCHAIN_MAX_SHORT_PERIOD_SEC - (int (the (order_expiration m)) - int (now c))) mod 2 ^ 32)"

definition get_current_cover_debt :: "ext \<Rightarrow> collateral_record \<Rightarrow> market_order \<Rightarrow> chain \<Rightarrow> exn + asset" where
  "get_current_cover_debt X collat m c =
     bindE (order_get_balance m) (\<lambda>bal.
     bindE (get_interest_owed X bal (interest_rate collat) (get_current_cover_age m c)) (\<lambda>owed.
     asset_add owed bal))"

definition minimum_ask :: "ext \<Rightarrow> price option \<Rightarrow> exn + price" where
  "minimum_ask X feed_opt =
     (case feed_opt of
        None \<Rightarrow> Inl assert_failed
      | Some f \<Rightarrow>
          bindE (uint128_div X (uint128_mul X (ratio f) (uint128_of_int64 X 9)) (uint128_of_int64 X 10)) (\<lambda>rt.
          Inr (Price rt (base_asset_id f) (quote_asset_id f))))"

section \<open>Settling orders\<close>

definition payout_condition :: "address \<Rightarrow> asset_id_type \<Rightarrow> withdraw_condition" where
  "payout_condition own a = \<lparr> condition_asset_id = a, delegate_slate_id = 0,
     condition_data = Withdraw_with_signature own None \<rparr>"

definition pay_out :: "ext \<Rightarrow> address \<Rightarrow> asset_id_type \<Rightarrow> share_type \<Rightarrow> chain \<Rightarrow> chain" where
  "pay_out X own a amt c =
     (let cond = payout_condition own a;
          r = (case get_balance_record c (address_of_condition X cond) of
                 Some r \<Rightarrow> r | None \<Rightarrow> balance_record_of cond)
      in store_balance_record X (r \<lparr> balance := balance r + amt, balance_last_update := now c,
           deposit_date := now c \<rparr>) c)"

abbreviation with_balance :: "share_type \<Rightarrow> market_order \<Rightarrow> market_order" where
  "with_balance b m \<equiv> m \<lparr> order_state := (order_state m) \<lparr> order_balance := b \<rparr> \<rparr>"

definition push_market_transaction :: "market_transaction \<Rightarrow> 'x engine_scheme \<Rightarrow> exn + 'x engine_scheme" where
  "push_market_transaction mtrx s =
     (if (amount (ask_paid mtrx) \<noteq> 0 \<or> amount (ask_received mtrx) \<noteq> 0 \<or>
          asset_id (bid_received mtrx) \<noteq> 0 \<or> amount (bid_paid mtrx) \<noteq> 0) \<and>
         \<not> (sint (amount (bid_paid mtrx)) \<ge> 0 \<and> sint (amount (ask_paid mtrx)) \<ge> 0 \<and>
            sint (amount (bid_received mtrx)) \<ge> 0 \<and> sint (amount (ask_received mtrx)) \<ge> 0 \<and>
            asset_ge (bid_paid mtrx) (ask_received mtrx) \<and> asset_ge (ask_paid mtrx) (bid_received mtrx) \<and>
            sint (amount (fees_collected mtrx)) \<ge> 0)
      then Inl assert_failed
      else Inr (s \<lparr> engine_transactions := engine_transactions s @ [mtrx] \<rparr>))"

definition cancel_current_short ::
    "ext \<Rightarrow> asset_id_type \<Rightarrow> market_transaction \<Rightarrow> market_order \<Rightarrow> chain \<Rightarrow>
     exn + (market_transaction \<times> market_order \<times> chain)" where
  "cancel_current_short X quote mtrx m c =
     (if order_type_of m \<noteq> short_order then Inl assert_failed
      else if bid_type mtrx \<noteq> short_order then Inl assert_failed
      else
        bindE (order_get_balance m) (\<lambda>bal.
        let mtrx' = mtrx \<lparr> ask_paid := asset_of 0 0, ask_received := asset_of 0 quote, bid_received := bal,
                           bid_paid := asset_of 0 quote, short_collateral := None \<rparr>;
            m' = with_balance 0 m;
            c1 = pay_out X (bid_owner mtrx') 0 (amount bal) c
        in Inr (mtrx', m', store_short_record (market_index m') (order_state m') c1)))"

text \<open>Collateral that is too small for a position of its own is added to the collateral of the short.\<close>

definition complete_collateral :: "asset_record \<Rightarrow> asset \<Rightarrow> asset \<Rightarrow> exn + asset" where
  "complete_collateral base bal coll =
     bindE (asset_sub bal coll) (\<lambda>rest.
     if uint (amount rest) < uint (precision base div 100) \<and> asset_less coll bal
     then bindE (asset_sub bal coll) (asset_add coll) else Inr coll)"

text \<open>The margin position a short opens, or adds to, with its key.\<close>

definition short_position ::
    "ext \<Rightarrow> market_transaction \<Rightarrow> market_order \<Rightarrow> asset \<Rightarrow> chain \<Rightarrow> exn + (market_index_key \<times> collateral_record)" where
  "short_position X mtrx m collateral c =
     bindE (price_of X (bid_paid mtrx) (collateral \<lparr> amount := sdiv64 (amount collateral * 2) 3 \<rparr>)) (\<lambda>cover_price.
     let k = Market_index_key cover_price (owner (market_index m));
         r = (case get_collateral_record c k of Some r \<Rightarrow> r | None \<Rightarrow> new_collateral_record);
         r' = r \<lparr> collateral_balance := collateral_balance r + amount collateral,
                 payoff_balance := payoff_balance r + amount (bid_paid mtrx),
                 interest_rate := order_price (market_index m),
                 collateral_expiration := now c + BTS_BLOCKCHAIN_MAX_SHORT_PERIOD_SEC \<rparr>
     in bindE (require (sint (payoff_balance r') \<ge> 0) assert_failed) (\<lambda>_.
        bindE (require (sint (collateral_balance r') \<ge> 0) assert_failed) (\<lambda>_.
        bindE (require (quote_asset_id (interest_rate r') > base_asset_id (interest_rate r')) assert_failed) (\<lambda>_.
        Inr (k, r')))))"

definition pay_current_short ::
    "ext \<Rightarrow> market_transaction \<Rightarrow> asset_record \<Rightarrow> asset_record \<Rightarrow> market_order \<Rightarrow> chain \<Rightarrow>
     exn + (market_transaction \<times> asset_record \<times> market_order \<times> chain)" where
  "pay_current_short X mtrx quote base m c =
     bindE (require (order_type_of m = short_order) assert_failed) (\<lambda>_.
     bindE (require (bid_type mtrx = short_order) assert_failed) (\<lambda>_.
     bindE (of_option undefined_behaviour (short_collateral mtrx)) (\<lambda>coll0.
     bindE (order_get_balance m) (\<lambda>bal.
     bindE (complete_collateral base bal coll0) (\<lambda>coll.
     bindE (asset_add coll (ask_paid mtrx)) (\<lambda>collateral.
     let mtrx' = mtrx \<lparr> short_collateral := Some coll \<rparr>;
         quote' = quote \<lparr> current_share_supply := current_share_supply quote + amount (bid_paid mtrx) \<rparr>;
         m' = with_balance (order_balance (order_state m) - amount coll) m
     in if sint (amount (bid_paid mtrx)) \<le> 0
        then bindE (require (sint (amount (bid_paid mtrx)) \<ge> 0) assert_failed) (\<lambda>_. Inr (mtrx', quote', m', c))
        else
          bindE (short_position X mtrx m collateral c) (\<lambda>(k, r).
          bindE (require (sint (order_balance (order_state m')) \<ge> 0) assert_failed) (\<lambda>_.
          Inr (mtrx', quote', m',
               store_short_record (market_index m') (order_state m') (store_collateral_record k r c))))))))))"

definition pay_current_bid ::
    "ext \<Rightarrow> asset_id_type \<Rightarrow> market_transaction \<Rightarrow> asset_record \<Rightarrow> market_order \<Rightarrow> chain \<Rightarrow>
     exn + (asset_record \<times> market_order \<times> chain)" where
  "pay_current_bid X base_aid mtrx quote m c =
     (if order_type_of m \<noteq> bid_order then Inl assert_failed
      else if bid_type mtrx \<noteq> bid_order then Inl assert_failed
      else
        let m1 = with_balance (order_balance (order_state m) - amount (bid_paid mtrx)) m
        in if \<not> sint (order_balance (order_state m1)) \<ge> 0 then Inl assert_failed
           else
             let c1 = pay_out X (bid_owner mtrx) base_aid (amount (bid_received mtrx)) c
             in bindE (get_quote_quantity X m1) (\<lambda>rest.
                bindE (asset_mul_price X rest (get_price m1)) (\<lambda>worth.
                let (quote', m2) =
                  (if amount worth = 0
                   then (quote \<lparr> collected_fees := collected_fees quote + amount rest \<rparr>, with_balance 0 m1)
                   else (quote, m1))
                in Inr (quote', m2, store_bid_record (market_index m2) (order_state m2) c1))))"

definition pay_current_ask ::
    "ext \<Rightarrow> asset_id_type \<Rightarrow> market_transaction \<Rightarrow> asset_record \<Rightarrow> market_order \<Rightarrow> chain \<Rightarrow>
     exn + (asset_record \<times> market_order \<times> chain)" where
  "pay_current_ask X quote_aid mtrx base m c =
     (if order_type_of m \<noteq> ask_order then Inl assert_failed
      else if ask_type mtrx \<noteq> ask_order then Inl assert_failed
      else
        let m1 = with_balance (order_balance (order_state m) - amount (ask_paid mtrx)) m
        in if \<not> sint (order_balance (order_state m1)) \<ge> 0 then Inl assert_failed
           else
             let c1 = pay_out X (ask_owner mtrx) quote_aid (amount (ask_received mtrx)) c
             in bindE (get_quantity X m1) (\<lambda>rest.
                bindE (asset_mul_price X rest (get_price m1)) (\<lambda>worth.
                let (base', m2) =
                  (if amount worth = 0
                   then (base \<lparr> collected_fees := collected_fees base + amount rest \<rparr>, with_balance 0 m1)
                   else (base, m1))
                in Inr (base', m2, store_ask_record (market_index m2) (order_state m2) c1))))"

text \<open>How a payment on a position splits into principal and interest, and what is left of the debt.\<close>

definition split_payment ::
    "ext \<Rightarrow> asset_id_type \<Rightarrow> asset \<Rightarrow> collateral_record \<Rightarrow> market_order \<Rightarrow> chain \<Rightarrow> exn + (asset \<times> asset \<times> share_type)" where
  "split_payment X quote_aid received collat m c =
     (let principle = asset_of (payoff_balance collat) quote_aid;
          cover_age = get_current_cover_age m c
      in bindE (get_current_cover_debt X collat m c) (\<lambda>total_debt.
         if asset_ge received total_debt then
           bindE (asset_sub received principle) (\<lambda>interest_paid. Inr (principle, interest_paid, 0))
         else
           bindE (get_interest_paid X received (interest_rate collat) cover_age) (\<lambda>interest_paid.
           bindE (asset_sub received interest_paid) (\<lambda>principle_paid.
           Inr (principle_paid, interest_paid, order_balance (order_state m) - amount principle_paid)))))"

text \<open>A margin call before the position expires costs five percent of the collateral that is left.\<close>

definition return_collateral ::
    "ext \<Rightarrow> asset_id_type \<Rightarrow> market_transaction \<Rightarrow> collateral_record \<Rightarrow> address \<Rightarrow> share_type \<Rightarrow> chain \<Rightarrow>
     exn + (market_transaction \<times> chain)" where
  "return_collateral X base_aid mtrx collat own left_over c =
     bindE (if collateral_expiration collat > now c then
              let fee = sdiv64 (left_over * 5000) 100000
              in if amount (fees_collected mtrx) \<noteq> 0 then Inl assert_failed
                 else bindE (asset_add (fees_collected mtrx) (asset_of fee base_aid)) (\<lambda>fees.
                      Inr (mtrx \<lparr> fees_collected := fees \<rparr>, left_over - fee))
            else Inr (mtrx, left_over)) (\<lambda>(mtrx', returned).
     Inr (mtrx' \<lparr> returned_collateral := Some (asset_of returned 0) \<rparr>, pay_out X own base_aid returned c))"

text \<open>A position without collateral is closed, and what is left of its debt is taken from the fees.\<close>

definition write_off :: "share_type \<Rightarrow> share_type \<Rightarrow> asset_record \<Rightarrow> asset_record \<times> share_type" where
  "write_off coll debt quote =
     (if coll = 0 then (quote \<lparr> collected_fees := collected_fees quote - debt \<rparr>, 0) else (quote, debt))"

definition close_position ::
    "ext \<Rightarrow> asset_id_type \<Rightarrow> market_transaction \<Rightarrow> asset_record \<times> share_type \<Rightarrow> share_type \<Rightarrow> collateral_record \<Rightarrow>
     market_order \<Rightarrow> chain \<Rightarrow> exn + (market_transaction \<times> asset_record \<times> collateral_record \<times> market_order \<times> chain)" where
  "close_position X base_aid mtrx = (\<lambda>(quote, debt) coll collat m c.
     bindE (if debt = 0 \<and> sint coll > 0 then
              bindE (return_collateral X base_aid mtrx collat (owner (market_index m)) coll c)
                (\<lambda>(mtrx', c'). Inr (mtrx', 0, c'))
            else Inr (mtrx, coll, c)) (\<lambda>(mtrx1, coll', c1).
     let m' = (with_balance debt m) \<lparr> order_collateral := Some coll' \<rparr>;
         collat' = collat \<lparr> collateral_balance := coll', payoff_balance := debt \<rparr>
     in Inr (mtrx1, quote, collat', m', store_collateral_record (market_index m') collat' c1)))"

definition pay_current_cover ::
    "ext \<Rightarrow> asset_id_type \<Rightarrow> market_transaction \<Rightarrow> asset_record \<Rightarrow> collateral_record \<Rightarrow> market_order \<Rightarrow> chain \<Rightarrow>
     exn + (market_transaction \<times> asset_record \<times> collateral_record \<times> market_order \<times> chain)" where
  "pay_current_cover X base_aid mtrx quote collat m c =
     bindE (require (order_type_of m = cover_order) assert_failed) (\<lambda>_.
     bindE (require (ask_type mtrx = cover_order) assert_failed) (\<lambda>_.
     bindE (require (quote_asset_id (interest_rate collat) > base_asset_id (interest_rate collat)) assert_failed) (\<lambda>_.
     bindE (of_option undefined_behaviour (order_collateral m)) (\<lambda>coll0.
     bindE (split_payment X (asset_record_id quote) (ask_received mtrx) collat m c)
       (\<lambda>(principle_paid, interest_paid, debt).
     bindE (require (sint (amount principle_paid) \<ge> 0) assert_failed) (\<lambda>_.
     bindE (require (sint (amount interest_paid) \<ge> 0) assert_failed) (\<lambda>_.
     bindE (require (sint debt \<ge> 0) assert_failed) (\<lambda>_.
     let coll = coll0 - amount (ask_paid mtrx)
     in bindE (require (sint coll \<ge> 0) assert_failed) (\<lambda>_.
        let quote' = quote \<lparr> current_share_supply := current_share_supply quote - amount principle_paid,
                             collected_fees := collected_fees quote + amount interest_paid \<rparr>
        in close_position X base_aid mtrx (write_off coll debt quote') coll collat m c)))))))))"

section \<open>Matching two orders\<close>

definition half_price :: "ext \<Rightarrow> price \<Rightarrow> exn + price" where
  "half_price X p =
     bindE (uint128_div X (ratio p) (uint128_of_int64 X 2)) (\<lambda>rt.
     Inr (Price rt (base_asset_id p) (quote_asset_id p)))"

text \<open>What a match has to change: the transaction, the two asset records, the two orders, the state.\<close>

definition settle ::
    "market_transaction \<Rightarrow> asset_record \<Rightarrow> asset_record \<Rightarrow> market_order \<Rightarrow> market_order \<Rightarrow> collateral_record \<Rightarrow> chain \<Rightarrow>
     matching \<Rightarrow> market_transaction \<times> matching" where
  "settle mtrx quote base bid ask collat c s =
     (mtrx, s \<lparr> quote_asset := quote, base_asset := base, current_bid := Some bid, current_ask := Some ask,
              current_collat_record := collat, pending_state := c \<rparr>)"

definition settle_short_cover ::
    "ext \<Rightarrow> market_transaction \<Rightarrow> market_order \<Rightarrow> market_order \<Rightarrow> matching \<Rightarrow> exn + (market_transaction \<times> matching)" where
  "settle_short_cover X mtrx bid ask s =
     bindE (pay_current_short X mtrx (quote_asset s) (base_asset s) bid (pending_state s)) (\<lambda>(mtrx1, quote1, bid1, c1).
     bindE (pay_current_cover X (engine_base_id s) mtrx1 quote1 (current_collat_record s) ask c1)
       (\<lambda>(mtrx2, quote2, collat, ask1, c2).
     Inr (settle mtrx2 quote2 (base_asset s) bid1 ask1 collat c2 s)))"

definition match_short_cover ::
    "ext \<Rightarrow> market_transaction \<Rightarrow> market_order \<Rightarrow> market_order \<Rightarrow> matching \<Rightarrow> exn + (market_transaction \<times> matching)" where
  "match_short_cover X mtrx0 bid ask s =
     (case (feed_price s, order_collateral ask) of
        (Some feed_p, Some coll) \<Rightarrow>
          bindE (half_price X feed_p) (\<lambda>collateral_rate.
          let cover_collateral = asset_of coll (engine_base_id s)
          in bindE (asset_mul_price X cover_collateral (bid_price mtrx0)) (\<lambda>max_usd_cover_can_afford.
             bindE (get_current_cover_debt X (current_collat_record s) ask (pending_state s)) (\<lambda>cover_debt.
             bindE (order_get_balance bid) (\<lambda>bal.
             bindE (asset_mul_price X bal collateral_rate) (\<lambda>usd_for_short_sale.
             let usd_exchanged = asset_min (asset_min usd_for_short_sale max_usd_cover_can_afford) cover_debt
             in bindE (if asset_eq usd_exchanged max_usd_cover_can_afford then Inr cover_collateral
                       else asset_mul_price X usd_exchanged (ask_price mtrx0)) (\<lambda>paid.
                bindE (if asset_eq usd_exchanged usd_for_short_sale then Inr bal
                       else asset_mul_price X usd_exchanged collateral_rate) (\<lambda>coll'.
                let mtrx = mtrx0 \<lparr> ask_received := usd_exchanged, ask_paid := paid, bid_received := paid,
                                   bid_paid := usd_exchanged, short_collateral := Some coll' \<rparr>
                in settle_short_cover X mtrx bid ask s)))))))
      | _ \<Rightarrow> Inl undefined_behaviour)"

definition settle_bid_cover ::
    "ext \<Rightarrow> market_transaction \<Rightarrow> market_order \<Rightarrow> market_order \<Rightarrow> matching \<Rightarrow> exn + (market_transaction \<times> matching)" where
  "settle_bid_cover X mtrx bid ask s =
     bindE (pay_current_bid X (engine_base_id s) mtrx (quote_asset s) bid (pending_state s)) (\<lambda>(quote1, bid1, c1).
     bindE (pay_current_cover X (engine_base_id s) mtrx quote1 (current_collat_record s) ask c1)
       (\<lambda>(mtrx1, quote2, collat, ask1, c2).
     Inr (settle mtrx1 quote2 (base_asset s) bid1 ask1 collat c2 s)))"

definition match_bid_cover ::
    "ext \<Rightarrow> market_transaction \<Rightarrow> market_order \<Rightarrow> market_order \<Rightarrow> matching \<Rightarrow> exn + (market_transaction \<times> matching)" where
  "match_bid_cover X mtrx0 bid ask s =
     (case order_collateral ask of
        None \<Rightarrow> Inl undefined_behaviour
      | Some coll \<Rightarrow>
          let cover_collateral = asset_of coll (engine_base_id s)
          in bindE (asset_mul_price X cover_collateral (bid_price mtrx0)) (\<lambda>max_usd_cover_can_afford.
             bindE (get_current_cover_debt X (current_collat_record s) ask (pending_state s)) (\<lambda>cover_debt.
             bindE (order_get_balance bid) (\<lambda>usd_for_sale.
             let usd_exchanged = asset_min (asset_min usd_for_sale max_usd_cover_can_afford) cover_debt
             in bindE (if asset_eq usd_exchanged max_usd_cover_can_afford then Inr cover_collateral
                       else asset_mul_price X usd_exchanged (ask_price mtrx0)) (\<lambda>paid.
                let mtrx = mtrx0 \<lparr> ask_received := usd_exchanged, ask_paid := paid, bid_received := paid,
                                   bid_paid := usd_exchanged \<rparr>
                in settle_bid_cover X mtrx bid ask s)))))"

text \<open>The rest of an ask that is filled by a short goes to the fees of the quote asset.\<close>

definition settle_short_ask ::
    "ext \<Rightarrow> market_transaction \<Rightarrow> market_order \<Rightarrow> market_order \<Rightarrow> matching \<Rightarrow> exn + (market_transaction \<times> matching)" where
  "settle_short_ask X mtrx bid ask s =
     bindE (pay_current_short X mtrx (quote_asset s) (base_asset s) bid (pending_state s)) (\<lambda>(mtrx1, quote1, bid1, c1).
     bindE (pay_current_ask X (engine_quote_id s) mtrx1 quote1 ask c1) (\<lambda>(quote2, ask1, c2).
     Inr (settle mtrx1 quote2 (base_asset s) bid1 ask1 (current_collat_record s) c2 s)))"

definition match_short_ask ::
    "ext \<Rightarrow> market_transaction \<Rightarrow> market_order \<Rightarrow> market_order \<Rightarrow> matching \<Rightarrow> exn + (market_transaction \<times> matching)" where
  "match_short_ask X mtrx0 bid ask s =
     (case feed_price s of
        None \<Rightarrow> Inl undefined_behaviour
      | Some feed_p \<Rightarrow>
          bindE (half_price X feed_p) (\<lambda>collateral_rate.
          bindE (get_quote_quantity X ask) (\<lambda>ask_quantity_usd.
          bindE (order_get_balance bid) (\<lambda>bal.
          bindE (asset_mul_price X bal collateral_rate) (\<lambda>short_quantity_usd.
          let usd_exchanged = asset_min short_quantity_usd ask_quantity_usd
          in bindE (if asset_eq usd_exchanged short_quantity_usd
                    then bindE (asset_mul_price X usd_exchanged (ask_price mtrx0)) (\<lambda>paid. Inr (paid, bal))
                    else bindE (order_get_balance ask) (\<lambda>paid.
                         bindE (asset_mul_price X usd_exchanged collateral_rate) (\<lambda>coll. Inr (paid, coll))))
               (\<lambda>(paid, coll).
             let mtrx = mtrx0 \<lparr> ask_received := usd_exchanged, ask_paid := paid, short_collateral := Some coll,
                                bid_received := paid, bid_paid := usd_exchanged \<rparr>
             in settle_short_ask X mtrx bid ask s))))))"

definition settle_bid_ask ::
    "ext \<Rightarrow> market_transaction \<Rightarrow> market_order \<Rightarrow> market_order \<Rightarrow> matching \<Rightarrow> exn + (market_transaction \<times> matching)" where
  "settle_bid_ask X mtrx bid ask s =
     bindE (pay_current_bid X (engine_base_id s) mtrx (quote_asset s) bid (pending_state s)) (\<lambda>(quote1, bid1, c1).
     bindE (pay_current_ask X (engine_quote_id s) mtrx (base_asset s) ask c1) (\<lambda>(base1, ask1, c2).
     Inr (settle mtrx quote1 base1 bid1 ask1 (current_collat_record s) c2 s)))"

definition match_bid_ask ::
    "ext \<Rightarrow> market_transaction \<Rightarrow> market_order \<Rightarrow> market_order \<Rightarrow> matching \<Rightarrow> exn + (market_transaction \<times> matching)" where
  "match_bid_ask X mtrx0 bid ask s =
     bindE (get_quantity X bid) (\<lambda>bid_quantity_xts.
     bindE (get_quantity X ask) (\<lambda>ask_quantity_xts.
     let quantity_xts = asset_min bid_quantity_xts ask_quantity_xts
     in bindE (asset_mul_price X quantity_xts (ask_price mtrx0)) (\<lambda>received.
        bindE (asset_mul_price X quantity_xts (bid_price mtrx0)) (\<lambda>paid0.
        bindE (if asset_eq quantity_xts bid_quantity_xts then order_get_balance bid else Inr paid0) (\<lambda>paid.
        bindE (if asset_eq quantity_xts ask_quantity_xts then order_get_balance ask else Inr quantity_xts) (\<lambda>sold.
        bindE (asset_sub paid received) (\<lambda>fees.
        let mtrx = mtrx0 \<lparr> ask_received := received, bid_paid := paid, ask_paid := sold,
                           bid_received := quantity_xts, fees_collected := fees \<rparr>
        in settle_bid_ask X mtrx bid ask s)))))))"

end
