(* ===== verification/Market_Execution.thy ===== *)
theory Market_Execution
  imports Market_Engine Chain_Interface
begin

text \<open>
  One run of the market engine: \<^verbatim>\<open>market_engine::execute\<close>, the market history it writes, and
  \<^verbatim>\<open>chain_database_impl::execute_markets\<close>, which runs an engine for every market that has changed.
  The matching loop is a function that terminates: every turn takes an order from one of the four
  books, or ends in the assertion against an endless loop.
\<close>

section \<open>The terms of a match\<close>

datatype turn = Skip_bid | Skip_ask | Stop_matching | Match market_transaction

definition market_transaction_of :: "market_order \<Rightarrow> market_order \<Rightarrow> market_transaction" where
  "market_transaction_of bid ask = new_market_transaction \<lparr>
     bid_owner := owner (market_index bid), ask_owner := owner (market_index ask),
     bid_price := get_price bid, ask_price := get_price ask,
     bid_type := order_type_of bid, ask_type := order_type_of ask \<rparr>"

text \<open>A short trades at the feed price, or at its own limit when that is lower.\<close>

definition short_terms :: "matching \<Rightarrow> market_order \<Rightarrow> market_transaction \<Rightarrow> exn + turn" where
  "short_terms s bid mtrx =
     (if order_type_of bid \<noteq> short_order then Inr (Match mtrx)
      else if \<not> is_market_issued (quote_asset s) then Inl assert_failed
      else case feed_price s of
             None \<Rightarrow> Inr Skip_bid
           | Some f \<Rightarrow>
               (case short_price_limit (order_state bid) of
                  None \<Rightarrow> Inr (Match (mtrx \<lparr> bid_price := f \<rparr>))
                | Some l \<Rightarrow>
                    if price_less l (ask_price mtrx) then Inr Skip_bid
                    else Inr (Match (mtrx \<lparr> bid_price := (if price_less f l then f else l) \<rparr>))))"

text \<open>A margin call trades at the price of the bid, unless it is too low; other asks end the matching at a spread.\<close>

definition ask_terms :: "ext \<Rightarrow> matching \<Rightarrow> market_order \<Rightarrow> market_transaction \<Rightarrow> exn + turn" where
  "ask_terms X s ask mtrx =
     (if order_type_of ask = cover_order then
        if \<not> is_market_issued (quote_asset s) then Inl assert_failed
        else if feed_price s = None then Inr Skip_ask
        else
          bindE (if price_less (ask_price mtrx) (bid_price mtrx) \<and>
                    collateral_expiration (current_collat_record s) > now (pending_state s)
                 then Inr True
                 else bindE (minimum_ask X (feed_price s)) (\<lambda>m. Inr (price_less (bid_price mtrx) m))) (\<lambda>skip.
          Inr (if skip then Skip_ask else Match (mtrx \<lparr> ask_price := bid_price mtrx \<rparr>)))
      else if price_less (bid_price mtrx) (ask_price mtrx) then Inr Stop_matching
      else Inr (Match mtrx))"

definition terms :: "ext \<Rightarrow> matching \<Rightarrow> market_order \<Rightarrow> market_order \<Rightarrow> exn + turn" where
  "terms X s bid ask =
     bindE (short_terms s bid (market_transaction_of bid ask)) (\<lambda>t.
     case t of Match mtrx \<Rightarrow> ask_terms X s ask mtrx | _ \<Rightarrow> Inr t)"

definition match_orders ::
    "ext \<Rightarrow> market_transaction \<Rightarrow> market_order \<Rightarrow> market_order \<Rightarrow> matching \<Rightarrow> exn + (market_transaction \<times> matching)" where
  "match_orders X mtrx bid ask s =
     (case (order_type_of ask, order_type_of bid) of
        (cover_order, short_order) \<Rightarrow> match_short_cover X mtrx bid ask s
      | (cover_order, bid_order) \<Rightarrow> match_bid_cover X mtrx bid ask s
      | (ask_order, short_order) \<Rightarrow> match_short_ask X mtrx bid ask s
      | (ask_order, bid_order) \<Rightarrow> match_bid_ask X mtrx bid ask s
      | _ \<Rightarrow> Inr (mtrx, s))"

section \<open>The matching loop\<close>

text \<open>What the loop adds up after a match: trading volume, first and last price, fees.\<close>

definition add_volume :: "market_transaction \<Rightarrow> matching \<Rightarrow> exn + matching" where
  "add_volume mtrx s =
     (if asset_id (ask_received mtrx) = 0
      then bindE (asset_add (trading_volume s) (ask_received mtrx)) (\<lambda>v. Inr (s \<lparr> trading_volume := v \<rparr>))
      else if asset_id (bid_received mtrx) = 0
      then bindE (asset_add (trading_volume s) (bid_received mtrx)) (\<lambda>v. Inr (s \<lparr> trading_volume := v \<rparr>))
      else Inr s)"

definition note_prices :: "market_transaction \<Rightarrow> matching \<Rightarrow> matching" where
  "note_prices mtrx s = s \<lparr>
     market_opening_price := (if price_eq (market_opening_price s) null_price then bid_price mtrx
                              else market_opening_price s),
     market_closing_price := bid_price mtrx \<rparr>"

definition collect_match_fees :: "market_transaction \<Rightarrow> matching \<Rightarrow> matching" where
  "collect_match_fees mtrx s =
     (let f = fees_collected mtrx
      in if asset_id f = asset_record_id (base_asset s)
         then s \<lparr> base_asset := (base_asset s) \<lparr> collected_fees := collected_fees (base_asset s) + amount f \<rparr> \<rparr>
         else if asset_id f = asset_record_id (quote_asset s)
         then s \<lparr> quote_asset := (quote_asset s) \<lparr> collected_fees := collected_fees (quote_asset s) + amount f \<rparr> \<rparr>
         else s)"

text \<open>One turn of the loop; the flag says whether there is another.\<close>

definition match_turn :: "ext \<Rightarrow> market_order \<Rightarrow> market_order \<Rightarrow> matching \<Rightarrow> exn + (bool \<times> matching)" where
  "match_turn X bid ask s =
     bindE (terms X s bid ask) (\<lambda>t.
     case t of
       Skip_bid \<Rightarrow> Inr (True, s \<lparr> current_bid := None \<rparr>)
     | Skip_ask \<Rightarrow> Inr (True, s \<lparr> current_ask := None \<rparr>)
     | Stop_matching \<Rightarrow> Inr (False, s)
     | Match mtrx0 \<Rightarrow>
         bindE (match_orders X mtrx0 bid ask s) (\<lambda>(mtrx, s1).
         bindE (push_market_transaction mtrx s1) (\<lambda>s2.
         bindE (add_volume mtrx s2) (\<lambda>s3.
         Inr (True, collect_match_fees mtrx (note_prices mtrx s3))))))"

definition next_orders :: "ext \<Rightarrow> 'x engine_scheme \<Rightarrow> exn + (bool \<times> 'x engine_scheme)" where
  "next_orders X s =
     bindE (get_next_bid X s) (\<lambda>(found, s1).
     if \<not> found then Inr (False, s1) else Inr (get_next_ask s1))"

definition match_iteration :: "ext \<Rightarrow> matching \<Rightarrow> exn + (bool \<times> matching)" where
  "match_iteration X s =
     bindE (next_orders X s) (\<lambda>(found, s1).
     if \<not> found then Inr (False, s1)
     else if orders_filled s1 = last_orders_filled s1 then Inl assert_failed
     else
       let s2 = s1 \<lparr> last_orders_filled := orders_filled s1 \<rparr>
       in case (current_bid s2, current_ask s2) of
            (Some bid, Some ask) \<Rightarrow> match_turn X bid ask s2
          | _ \<Rightarrow> Inl undefined_behaviour)"

section \<open>Termination of the loop\<close>

definition orders_left :: "'x engine_scheme \<Rightarrow> nat" where
  "orders_left s = length (bid_itr s) + length (ask_itr s) + length (short_itr s) + length (collateral_itr s)"

text \<open>A step that visits the books leaves the books as they are, or takes an order and counts it.\<close>

definition visits :: "'x engine_scheme \<Rightarrow> 'x engine_scheme \<Rightarrow> bool" where
  "visits s s' \<longleftrightarrow> orders_left s' = orders_left s \<and> orders_filled s' = orders_filled s \<or> orders_left s' < orders_left s"

lemma get_next_short_cases:
  obtains "get_next_short s = (False, s)"
  | k r rest where "short_itr s = (k, r) # rest" and "in_market s (order_price k)"
      and "get_next_short s = (True, s \<lparr> short_itr := rest,
             current_bid := Some \<lparr> order_type_of = short_order, market_index = k, order_state = r,
               order_collateral = Some (order_balance r), order_interest_rate = Some (order_price k),
               order_expiration = None \<rparr> \<rparr>)"
proof (cases "short_itr s")
  case Nil
  then show ?thesis by (intro that(1)) (simp add: get_next_short_def)
next
  case (Cons x rest)
  then show ?thesis
    by (cases x; cases "in_market s (order_price (fst x))")
      (auto simp: get_next_short_def intro: that)
qed

text \<open>The bid that comes next is the one at hand, a short, or the head of the bids.\<close>

lemma advance_bid_cases:
  fixes s :: "'x engine_scheme"
  defines "s0 \<equiv> s \<lparr> orders_filled := orders_filled s + 1, current_bid := None \<rparr>"
  obtains "advance_bid s = get_next_short s0"
  | k r rest where "bid_itr s = (k, r) # rest" and "in_market s (order_price k)"
      and "advance_bid s = (True, take_bid k r s0)"
proof (cases "bid_itr s")
  case Nil
  then show ?thesis by (intro that(1)) (simp add: advance_bid_def s0_def Let_def)
next
  case (Cons x rest)
  obtain k r where x: "x = (k, r)" by (cases x)
  have m: "in_market s0 = in_market s" by (simp add: fun_eq_iff in_market_def s0_def)
  show ?thesis
  proof (cases "in_market s (order_price k)")
    case False
    then show ?thesis using Cons x m by (intro that(1)) (simp add: advance_bid_def s0_def [symmetric] Let_def, simp add: s0_def)
  next
    case True
    have itr: "bid_itr s0 = (k, r) # rest" using Cons x by (simp add: s0_def)
    have "advance_bid s = (if (case feed_price s0 of Some f \<Rightarrow> price_less (order_price k) f | None \<Rightarrow> False)
        then (case get_next_short s0 of (True, s1) \<Rightarrow> (True, s1) | (False, s1) \<Rightarrow> (True, take_bid k r s1))
        else (True, take_bid k r s0))"
      unfolding advance_bid_def s0_def [symmetric] Let_def using itr True m by simp
    moreover have "(case get_next_short s0 of (True, s1) \<Rightarrow> (True, s1) | (False, s1) \<Rightarrow> (True, take_bid k r s1)) =
        get_next_short s0 \<or>
      (case get_next_short s0 of (True, s1) \<Rightarrow> (True, s1) | (False, s1) \<Rightarrow> (True, take_bid k r s1)) =
        (True, take_bid k r s0)"
      by (cases rule: get_next_short_cases [of s0]) simp_all
    ultimately show ?thesis using that(1) that(2) [OF Cons [unfolded x] True] by presburger
  qed
qed

lemma get_next_bid_visits:
  assumes "get_next_bid X s = Inr (True, s')"
  shows "visits s s'"
proof -
  consider (same) "s' = s" | (advanced) "advance_bid s = (True, s')"
    using assms by (auto simp: get_next_bid_def split: option.split_asm if_split_asm elim!: bindE_InrE)
  then show ?thesis
  proof cases
    case same
    then show ?thesis by (simp add: visits_def)
  next
    case advanced
    show ?thesis
    proof (cases rule: advance_bid_cases [of s])
      case 1
      then show ?thesis using advanced
        by (cases rule: get_next_short_cases
            [of "s \<lparr> orders_filled := orders_filled s + 1, current_bid := None \<rparr>"])
          (auto simp: visits_def orders_left_def)
    next
      case (2 k r rest)
      then show ?thesis using advanced by (auto simp: visits_def orders_left_def take_bid_def)
    qed
  qed
qed

lemma take_ask_left:
  "take_ask s = (True, s') \<Longrightarrow> orders_left s' < orders_left s"
  by (auto simp: take_ask_def orders_left_def split: list.split_asm prod.split_asm if_split_asm)

text \<open>The ask that comes next is a margin call, or the head of the asks.\<close>

lemma advance_ask_cases:
  fixes s :: "'x engine_scheme"
  defines "s0 \<equiv> s \<lparr> current_ask := None, orders_filled := orders_filled s + 1 \<rparr>"
  obtains "advance_ask s = take_ask s0"
  | r where "advance_ask s = take_ask (s0 \<lparr> current_collat_record := r, collateral_itr := [] \<rparr>)"
  | "advance_ask s = take_ask (s0 \<lparr> collateral_itr := [] \<rparr>)"
  | k r rest where "collateral_itr s = (k, r) # rest" and "current_bid s \<noteq> None" and "in_market s (order_price k)"
      and "advance_ask s = (True, s0 \<lparr> current_collat_record := r, current_ask := Some (cover_of k r),
             collateral_itr := rest \<rparr>)"
proof -
  have m: "in_market s0 = in_market s" by (simp add: fun_eq_iff in_market_def s0_def)
  have b: "current_bid s0 = current_bid s" "collateral_itr s0 = collateral_itr s" by (simp_all add: s0_def)
  show ?thesis
  proof (cases "collateral_itr s")
    case Nil
    then show ?thesis
      unfolding advance_ask_def s0_def [symmetric] Let_def b by (intro that(1)) (simp add: advance_ask_def s0_def Let_def)
  next
    case (Cons x rest)
    obtain k r where x: "x = (k, r)" by (cases x)
    have eq: "advance_ask s = (if current_bid s = None then take_ask s0
       else if in_market s (order_price k) then
         if (case feed_price s0 of Some f \<Rightarrow> price_less f (order_price k) | None \<Rightarrow> False) \<or>
            collateral_expiration r \<le> now (pending_state s0)
         then (True, s0 \<lparr> current_collat_record := r, current_ask := Some (cover_of k r), collateral_itr := rest \<rparr>)
         else take_ask (s0 \<lparr> current_collat_record := r, collateral_itr := [] \<rparr>)
       else take_ask (s0 \<lparr> collateral_itr := [] \<rparr>))"
      unfolding advance_ask_def s0_def [symmetric] Let_def b m Cons x by (simp only: list.case prod.case)
    show ?thesis
    proof (cases "current_bid s \<noteq> None \<and> in_market s (order_price k)")
      case True
      then show ?thesis using that(2) [of r] that(4) [OF Cons [unfolded x]] eq by presburger
    next
      case False
      then show ?thesis using that(1) that(3) eq by presburger
    qed
  qed
qed

lemma get_next_ask_cases: "get_next_ask s = (True, s) \<or> get_next_ask s = advance_ask s"
  by (simp add: get_next_ask_def split: option.split)

lemma get_next_ask_visits:
  assumes "get_next_ask s = (True, s')"
  shows "visits s s'"
proof -
  consider (same) "s' = s" | (advanced) "advance_ask s = (True, s')"
    using assms get_next_ask_cases [of s] by (metis prod.inject)
  then show ?thesis
  proof cases
    case same
    then show ?thesis by (simp add: visits_def)
  next
    case advanced
    have taken: "orders_left s' < orders_left t" if "advance_ask s = take_ask t" for t
      by (rule take_ask_left) (use that advanced in simp)
    have "orders_left s' < orders_left s"
    proof (cases rule: advance_ask_cases [of s])
      case 1 from taken [OF this] show ?thesis by (simp add: orders_left_def)
    next
      case (2 r) from taken [OF this] show ?thesis by (simp add: orders_left_def)
    next
      case 3 from taken [OF this] show ?thesis by (simp add: orders_left_def)
    next
      case (4 k r rest)
      then show ?thesis using advanced by (auto simp: orders_left_def)
    qed
    then show ?thesis by (simp add: visits_def)
  qed
qed

lemma next_orders_visits:
  assumes "next_orders X s = Inr (True, s')"
  shows "visits s s'"
proof -
  from assms obtain s1 where b: "get_next_bid X s = Inr (True, s1)" and a: "get_next_ask s1 = (True, s')"
    by (auto simp: next_orders_def elim!: bindE_InrE split: if_split_asm)
  from get_next_bid_visits [OF b] get_next_ask_visits [OF a] show ?thesis
    by (auto simp: visits_def)
qed

text \<open>Looking for orders changes neither the ledger nor what the engine has recorded.\<close>

definition same_view :: "'x engine_scheme \<Rightarrow> 'x engine_scheme \<Rightarrow> bool" where
  "same_view s s' \<longleftrightarrow> pending_state s' = pending_state s \<and> engine_quote_id s' = engine_quote_id s \<and>
     engine_base_id s' = engine_base_id s \<and> feed_price s' = feed_price s \<and>
     engine_transactions s' = engine_transactions s \<and> engine.more s' = engine.more s"

lemma same_view_refl [simp, intro]: "same_view s s"
  by (simp add: same_view_def)

lemma same_view_trans: "same_view s s1 \<Longrightarrow> same_view s1 s2 \<Longrightarrow> same_view s s2"
  by (simp add: same_view_def)

lemma get_next_short_view: "same_view s (snd (get_next_short s))"
  by (cases rule: get_next_short_cases [of s]) (simp_all add: same_view_def)

lemma advance_bid_view: "same_view s (snd (advance_bid s))"
proof -
  let ?s0 = "s \<lparr> orders_filled := orders_filled s + 1, current_bid := None \<rparr>"
  have "same_view s ?s0" by (simp add: same_view_def)
  then show ?thesis
    by (cases rule: advance_bid_cases [of s])
      (use get_next_short_view [of ?s0] in \<open>simp_all add: same_view_def take_bid_def\<close>)
qed

lemma take_ask_view: "same_view s (snd (take_ask s))"
proof (cases "ask_itr s")
  case (Cons x rest)
  then show ?thesis by (cases x) (simp add: take_ask_def same_view_def)
qed (simp add: take_ask_def)

lemma advance_ask_view: "same_view s (snd (advance_ask s))"
proof -
  let ?s0 = "s \<lparr> current_ask := None, orders_filled := orders_filled s + 1 \<rparr>"
  have *: "same_view s (snd (take_ask t))" if "same_view s t" for t
    by (rule same_view_trans [OF that take_ask_view])
  show ?thesis
  proof (cases rule: advance_ask_cases [of s])
    case 1 show ?thesis unfolding 1 by (rule *) (simp add: same_view_def)
  next
    case (2 r) show ?thesis unfolding 2 by (rule *) (simp add: same_view_def)
  next
    case 3 show ?thesis unfolding 3 by (rule *) (simp add: same_view_def)
  next
    case (4 k r rest)
    then show ?thesis by (simp add: same_view_def)
  qed
qed

lemma get_next_ask_view: "same_view s (snd (get_next_ask s))"
  using get_next_ask_cases [of s] advance_ask_view [of s] by auto

lemma get_next_bid_view: "get_next_bid X s = Inr r \<Longrightarrow> same_view s (snd r)"
  using advance_bid_view [of s]
  by (auto simp: get_next_bid_def elim!: bindE_InrE split: option.split_asm if_split_asm)

lemma next_orders_view:
  assumes "next_orders X s = Inr (b, s')"
  shows "same_view s s'"
proof -
  from assms obtain found s1 where b: "get_next_bid X s = Inr (found, s1)"
    and "s' = (if found then snd (get_next_ask s1) else s1)"
    by (auto simp: next_orders_def elim!: bindE_InrE split: if_split_asm)
  then show ?thesis
    using get_next_bid_view [OF b] same_view_trans [OF _ get_next_ask_view, of s s1] by simp
qed

text \<open>A match settles two orders and leaves the books and the counters alone.\<close>

definition same_books :: "matching \<Rightarrow> matching \<Rightarrow> bool" where
  "same_books s s' \<longleftrightarrow> orders_left s' = orders_left s \<and> orders_filled s' = orders_filled s \<and>
     last_orders_filled s' = last_orders_filled s"

lemma same_books_trans: "same_books s s1 \<Longrightarrow> same_books s1 s2 \<Longrightarrow> same_books s s2"
  by (simp add: same_books_def)

lemma settled_books: "settle m q b bid ask r c s = (m', s') \<Longrightarrow> same_books s s'"
  by (auto simp: settle_def same_books_def orders_left_def)

lemma match_short_cover_books: "match_short_cover X m bid ask s = Inr (m', s') \<Longrightarrow> same_books s s'"
  unfolding match_short_cover_def settle_short_cover_def Let_def
  by (auto elim!: bindE_InrE dest!: settled_books split: option.split_asm prod.split_asm)

lemma match_bid_cover_books: "match_bid_cover X m bid ask s = Inr (m', s') \<Longrightarrow> same_books s s'"
  unfolding match_bid_cover_def settle_bid_cover_def Let_def
  by (auto elim!: bindE_InrE dest!: settled_books split: option.split_asm prod.split_asm)

lemma match_short_ask_books: "match_short_ask X m bid ask s = Inr (m', s') \<Longrightarrow> same_books s s'"
  unfolding match_short_ask_def settle_short_ask_def Let_def
  by (auto elim!: bindE_InrE dest!: settled_books split: option.split_asm prod.split_asm)

lemma match_bid_ask_books: "match_bid_ask X m bid ask s = Inr (m', s') \<Longrightarrow> same_books s s'"
  unfolding match_bid_ask_def settle_bid_ask_def Let_def
  by (auto elim!: bindE_InrE dest!: settled_books split: option.split_asm prod.split_asm)

lemma match_orders_cases [consumes 1, case_names short_cover bid_cover short_ask bid_ask none]:
  assumes "match_orders X m bid ask s = r"
  obtains "order_type_of ask = cover_order" "order_type_of bid = short_order" "match_short_cover X m bid ask s = r"
  | "order_type_of ask = cover_order" "order_type_of bid = bid_order" "match_bid_cover X m bid ask s = r"
  | "order_type_of ask = ask_order" "order_type_of bid = short_order" "match_short_ask X m bid ask s = r"
  | "order_type_of ask = ask_order" "order_type_of bid = bid_order" "match_bid_ask X m bid ask s = r"
  | "r = Inr (m, s)"
  using assms by (cases "order_type_of ask"; cases "order_type_of bid") (simp_all add: match_orders_def)

lemma match_orders_books:
  assumes "match_orders X m bid ask s = Inr (m', s')"
  shows "same_books s s'"
  using assms
proof (cases rule: match_orders_cases)
  case none
  then show ?thesis by (simp add: same_books_def)
qed (auto dest: match_short_cover_books match_bid_cover_books match_short_ask_books match_bid_ask_books)

lemma note_match_books:
  assumes "push_market_transaction m s = Inr s1" and "add_volume m s1 = Inr s2"
  shows "same_books s (collect_match_fees m (note_prices m s2))"
  using assms by (auto simp: push_market_transaction_def add_volume_def collect_match_fees_def note_prices_def
      same_books_def orders_left_def Let_def elim!: bindE_InrE split: if_split_asm)

lemma match_turn_books:
  assumes "match_turn X bid ask s = Inr (b, s')"
  shows "same_books s s'"
proof -
  from assms obtain t where t: "(case t of
       Skip_bid \<Rightarrow> Inr (True, s \<lparr> current_bid := None \<rparr>)
     | Skip_ask \<Rightarrow> Inr (True, s \<lparr> current_ask := None \<rparr>)
     | Stop_matching \<Rightarrow> Inr (False, s)
     | Match mtrx0 \<Rightarrow>
         bindE (match_orders X mtrx0 bid ask s) (\<lambda>(mtrx, s1).
         bindE (push_market_transaction mtrx s1) (\<lambda>s2.
         bindE (add_volume mtrx s2) (\<lambda>s3.
         Inr (True, collect_match_fees mtrx (note_prices mtrx s3)))))) = Inr (b, s')"
    unfolding match_turn_def by (auto elim!: bindE_InrE)
  show ?thesis
  proof (cases t)
    case (Match mtrx0)
    with t obtain m s1 s2 s3 where "match_orders X mtrx0 bid ask s = Inr (m, s1)"
      and "push_market_transaction m s1 = Inr s2" and "add_volume m s2 = Inr s3"
      and "s' = collect_match_fees m (note_prices m s3)"
      by (auto elim!: bindE_InrE)
    then show ?thesis by (blast intro: same_books_trans match_orders_books note_match_books)
  qed (use t in \<open>auto simp: same_books_def orders_left_def\<close>)
qed

definition loop_measure :: "matching \<Rightarrow> nat" where
  "loop_measure s = orders_left s + (if last_orders_filled s = orders_filled s then 0 else 1)"

lemma next_orders_last:
  assumes "next_orders X s = Inr (b, s')"
  shows "matching.last_orders_filled s' = last_orders_filled s"
  using next_orders_view [OF assms] by (cases s; cases s') (simp add: same_view_def engine.defs)

lemma match_iteration_cases [consumes 1, case_names none turn]:
  assumes "match_iteration X s = Inr (b, s')"
  obtains "next_orders X s = Inr (False, s')" "\<not> b"
  | s1 bid ask where "next_orders X s = Inr (True, s1)" "orders_filled s1 \<noteq> last_orders_filled s1"
      "current_bid s1 = Some bid" "current_ask s1 = Some ask"
      "match_turn X bid ask (s1 \<lparr> last_orders_filled := orders_filled s1 \<rparr>) = Inr (b, s')"
  using assms unfolding match_iteration_def Let_def
  by (auto elim!: bindE_InrE split: if_split_asm option.split_asm)

lemma match_iteration_decreases:
  assumes "match_iteration X s = Inr (True, s')"
  shows "loop_measure s' < loop_measure s"
  using assms
proof (cases rule: match_iteration_cases)
  case (turn s1 bid ask)
  from match_turn_books [OF turn(5)] have "loop_measure s' = orders_left s1"
    by (simp add: same_books_def loop_measure_def orders_left_def)
  with next_orders_visits [OF turn(1)] next_orders_last [OF turn(1)] turn(2) show ?thesis
    by (auto simp: visits_def loop_measure_def)
qed simp

function match_loop :: "ext \<Rightarrow> matching \<Rightarrow> exn + matching" where
  "match_loop X s =
     (case match_iteration X s of
        Inl e \<Rightarrow> Inl e
      | Inr (go_on, s') \<Rightarrow> if go_on then match_loop X s' else Inr s')"
  by pat_completeness auto

termination
  by (relation "measure (\<lambda>(X, s). loop_measure s)") (auto intro: match_iteration_decreases)

declare match_loop.simps [simp del]

section \<open>Opening a market\<close>

text \<open>The first key of the market that follows.\<close>

definition next_pair :: "asset_id_type \<Rightarrow> asset_id_type \<Rightarrow> exn + price" where
  "next_pair q b = (if b + 1 = q then zero_price_of (q + 1) 0 else zero_price_of q (b + 1))"

text \<open>The entries before a key, the last one first, and the entries from a key on, or all of them when there is none.\<close>

definition before_key :: "market_index_key \<Rightarrow> (market_index_key, 'r) table \<Rightarrow> (market_index_key \<times> 'r) list" where
  "before_key k t = rev (takeWhile (\<lambda>x. fst x < k) (in_order t))"

definition from_key :: "market_index_key \<Rightarrow> (market_index_key, 'r) table \<Rightarrow> (market_index_key \<times> 'r) list" where
  "from_key k t = (case dropWhile (\<lambda>x. fst x < k) (in_order t) of [] \<Rightarrow> in_order t | xs \<Rightarrow> xs)"

definition open_market ::
    "chain_database \<Rightarrow> asset_id_type \<Rightarrow> asset_id_type \<Rightarrow> chain \<Rightarrow> exn + matching" where
  "open_market d q b prior =
     (let c = Pending new_pending_state prior
      in case (get_asset_record c q, get_asset_record c b) of
           (Some quote, Some base) \<Rightarrow>
             bindE (next_pair q b) (\<lambda>pair.
             bindE (zero_price_of q b) (\<lambda>first.
             let k = Market_index_key pair null_address
             in bindE (get_median_delegate_price (Database d) q b) (\<lambda>feed_p.
                Inr \<lparr> pending_state = c, current_bid = None, current_ask = None,
                      current_collat_record = new_collateral_record, engine_quote_id = q, engine_base_id = b,
                      feed_price = feed_p, orders_filled = 0, engine_transactions = [],
                      bid_itr = before_key k (bid_db d),
                      ask_itr = from_key (Market_index_key first null_address) (ask_db d),
                      short_itr = before_key k (short_db d),
                      collateral_itr = before_key k (collateral_db d),
                      quote_asset = quote, base_asset = base, last_orders_filled = - 1,
                      trading_volume = asset_of 0 b, market_opening_price = null_price,
                      market_closing_price = null_price \<rparr>)))
         | _ \<Rightarrow> Inl assert_failed)"

text \<open>A market-issued asset does not trade before there has been a feed.\<close>

definition require_feed :: "matching \<Rightarrow> exn + unit" where
  "require_feed s =
     (if is_market_issued (quote_asset s) \<and> feed_price s = None \<and>
         (case get_market_status (pending_state s) (engine_quote_id s) (engine_base_id s) of
            None \<Rightarrow> True | Some st \<Rightarrow> last_valid_feed_price st = None)
      then Inl insufficient_feeds else Inr ())"

section \<open>Market history\<close>

definition history_eq :: "market_history_record \<Rightarrow> market_history_record \<Rightarrow> bool" where
  "history_eq a b \<longleftrightarrow> price_eq (highest_bid a) (highest_bid b) \<and> price_eq (lowest_ask a) (lowest_ask b) \<and>
     volume a = volume b"

text \<open>The entry for one block is left out when the one before it is the same.\<close>

definition record_block ::
    "chain_database \<Rightarrow> asset_id_type \<Rightarrow> asset_id_type \<Rightarrow> time_point_sec \<Rightarrow> market_history_record \<Rightarrow> chain \<Rightarrow> chain" where
  "record_block d q b t r c =
     (let prev = rev (takeWhile (\<lambda>x. fst x < (b, q, each_block, head_block_timestamp d)) (in_order (market_history_db d)))
      in case prev of
           ((b', q', each_block, t'), r') # _ \<Rightarrow>
             if q' = q \<and> b' = b \<and> history_eq r' r then c else store_market_history_record (b, q, each_block, t) r c
         | _ \<Rightarrow> store_market_history_record (b, q, each_block, t) r c)"

text \<open>The entry for an hour or a day is merged with the one it has, and stored when an extreme has changed.\<close>

definition record_period ::
    "chain_database \<Rightarrow> market_history_key \<Rightarrow> market_history_record \<Rightarrow> chain \<Rightarrow> chain" where
  "record_period d k r c =
     (case map_of (market_history_db d) k of
        None \<Rightarrow> store_market_history_record k r c
      | Some old \<Rightarrow>
          if price_less (highest_bid old) (highest_bid r) \<or> price_less (lowest_ask r) (lowest_ask old)
          then store_market_history_record k
                 (old \<lparr> volume := volume old + volume r, closing_price := closing_price r,
                    highest_bid := (if price_less (highest_bid r) (highest_bid old) then highest_bid old else highest_bid r),
                    lowest_ask := (if price_less (lowest_ask old) (lowest_ask r) then lowest_ask old else lowest_ask r) \<rparr>) c
          else c)"

definition update_market_history :: "ext \<Rightarrow> chain_database \<Rightarrow> time_point_sec \<Rightarrow> matching \<Rightarrow> exn + matching" where
  "update_market_history X d t s =
     (if \<not> sint (amount (trading_volume s)) > 0 then Inr s
      else bindE (next_orders X s) (\<lambda>(found, s1).
        case (current_bid s1, current_ask s1) of
          (Some bid, Some ask) \<Rightarrow>
            if \<not> found then Inr s1
            else
              let q = engine_quote_id s1; b = engine_base_id s1;
                  r = \<lparr> highest_bid = get_price bid, lowest_ask = get_price ask,
                        opening_price = market_opening_price s1, closing_price = market_closing_price s1,
                        volume = amount (trading_volume s1) \<rparr>
              in Inr (s1 \<lparr> pending_state :=
                   record_period d (b, q, each_day, t - t mod (60 * 60 * 24)) r
                    (record_period d (b, q, each_hour, t - t mod (60 * 60)) r
                     (record_block d q b t r (pending_state s1))) \<rparr>)
        | _ \<Rightarrow> Inr s1))"

section \<open>Executing a market\<close>

definition market_status_of :: "asset_id_type \<Rightarrow> asset_id_type \<Rightarrow> chain \<Rightarrow> exn + market_status" where
  "market_status_of q b c =
     (case get_market_status c q b of
        Some st \<Rightarrow> Inr st
      | None \<Rightarrow> if \<not> q > b then Inl assert_failed else Inr (new_market_status q b))"

definition store_results :: "matching \<Rightarrow> exn + matching" where
  "store_results s =
     (let c = store_asset_record (base_asset s) (store_asset_record (quote_asset s) (pending_state s))
      in bindE (market_status_of (engine_quote_id s) (engine_base_id s) c) (\<lambda>st.
         Inr (s \<lparr> pending_state :=
           store_market_status ((update_feed_price (feed_price s) st) \<lparr> last_error := None \<rparr>) c \<rparr>)))"

definition commit_market :: "ext \<Rightarrow> matching \<Rightarrow> exn + (chain \<times> market_transaction list)" where
  "commit_market X s =
     (case pending_state s of
        Pending p c \<Rightarrow> bindE (apply_changes X p c) (\<lambda>c'. Inr (c', engine_transactions s))
      | Database d \<Rightarrow> Inl undefined_behaviour)"

definition run_market ::
    "ext \<Rightarrow> chain_database \<Rightarrow> time_point_sec \<Rightarrow> matching \<Rightarrow> exn + (chain \<times> market_transaction list)" where
  "run_market X d t s0 =
     bindE (require_feed s0) (\<lambda>_.
     bindE (get_next_bid X s0) (\<lambda>(_, s1).
     bindE (match_loop X (snd (get_next_ask s1))) (\<lambda>s2.
     bindE (store_results s2) (\<lambda>s3.
     bindE (update_market_history X d t s3) (commit_market X)))))"

text \<open>
  The transactions of the market and the new state of the block. No transactions means that the
  run failed: then only the status of the market is new, and it holds the error.
\<close>

definition execute ::
    "ext \<Rightarrow> chain_database \<Rightarrow> asset_id_type \<Rightarrow> asset_id_type \<Rightarrow> time_point_sec \<Rightarrow> chain \<Rightarrow>
     exn + (market_transaction list option \<times> chain)" where
  "execute X d q b t prior =
     (let opened = open_market d q b prior
      in case bindE opened (run_market X d t) of
           Inr (c, ts) \<Rightarrow> Inr (Some ts, c)
         | Inl e \<Rightarrow>
             bindE (market_status_of q b prior) (\<lambda>st.
             let feed_p = (case opened of Inr s \<Rightarrow> feed_price s | Inl _ \<Rightarrow> None)
             in Inr (None, store_market_status ((update_feed_price feed_p st) \<lparr> last_error := Some e \<rparr>) prior)))"

definition execute_market ::
    "ext \<Rightarrow> chain_database \<Rightarrow> time_point_sec \<Rightarrow> asset_id_type \<times> asset_id_type \<Rightarrow>
     market_transaction list \<times> chain \<Rightarrow> exn + (market_transaction list \<times> chain)" where
  "execute_market X d t pair = (\<lambda>(ts, c).
     if \<not> fst pair > snd pair then Inl assert_failed
     else bindE (execute X d (fst pair) (snd pair) t c) (\<lambda>(done_ts, c').
          Inr (case done_ts of Some ts' \<Rightarrow> ts @ ts' | None \<Rightarrow> ts, c')))"

definition execute_markets :: "ext \<Rightarrow> chain_database \<Rightarrow> time_point_sec \<Rightarrow> chain \<Rightarrow> exn + chain" where
  "execute_markets X d t c =
     bindE (foldE (execute_market X d t) (sort (remdups (get_dirty_markets (Database d)))) ([], c)) (\<lambda>(ts, c').
     Inr (set_market_transactions ts c'))"

text \<open>The cancellation of every short, each with a market transaction of its own.\<close>

definition cancel_short :: "ext \<Rightarrow> market_index_key \<times> order_record \<Rightarrow> 'x engine_scheme \<Rightarrow> exn + 'x engine_scheme" where
  "cancel_short X = (\<lambda>(k, r) s.
     bindE (cancel_current_short X (quote_asset_id (order_price k))
              (new_market_transaction \<lparr> bid_owner := owner k, bid_type := short_order \<rparr>)
              \<lparr> order_type_of = short_order, market_index = k, order_state = r, order_collateral = None,
                order_interest_rate = None, order_expiration = None \<rparr> (pending_state s)) (\<lambda>(mtrx, m, c).
     push_market_transaction mtrx (s \<lparr> current_bid := Some m, pending_state := c \<rparr>)))"

definition cancel_all_shorts :: "ext \<Rightarrow> chain_database \<Rightarrow> engine \<Rightarrow> exn + chain" where
  "cancel_all_shorts X d s =
     bindE (foldE (cancel_short X) (in_order (short_db d)) s) (\<lambda>s'.
     case pending_state s' of
       Pending p c \<Rightarrow> apply_changes X p c
     | Database d \<Rightarrow> Inl undefined_behaviour)"

end
