(* ===== verification/Commit_Laws.thy ===== *)
theory Commit_Laws
  imports Conservation
begin

text \<open>
  Applying a pending state to another one. The state below then returns exactly the records the
  pending state returned, null records included, so nothing that is computed from the records
  changes.
\<close>

context record_store
begin

lemma get_write:
  assumes "ok s" and "distinct (map fst t)" and "\<forall>(k, v) \<in> set t. fits k v"
  shows "get (fold (\<lambda>(k, v). put k v) t s) = get s ++ map_of t"
  using assms
proof (induction t arbitrary: s)
  case (Cons kv t)
  obtain k v where kv: "kv = (k, v)" by (cases kv)
  have "k \<notin> dom (map_of t)" using Cons.prems(2) by (simp add: kv dom_map_of_conv_image_fst)
  then show ?case
    using Cons by (auto simp: kv get_put ok_put map_add_upd_left map_add_def fun_eq_iff split: option.split)
qed simp

end

lemma is_pending_fold:
  assumes "\<And>x c. is_pending (f x c) = is_pending c"
  shows "is_pending (fold f t c) = is_pending c"
  using assms by (induction t arbitrary: c) simp_all

lemma is_pending_store_transaction: "store_transaction X i r c = Inr c' \<Longrightarrow> is_pending c' = is_pending c"
  by (cases c) (auto elim!: bindE_InrE)

lemma is_pending_write_transactions:
  "foldE (\<lambda>(i, r). store_transaction X i r) t c = Inr c' \<Longrightarrow> is_pending c' = is_pending c"
  by (rule foldE_invariant, assumption, rule refl) (auto dest: is_pending_store_transaction)

lemma is_pending_writes [simp]:
  "is_pending (fold (\<lambda>(i, v). set_property i v) t0 c) = is_pending c"
  "is_pending (fold (\<lambda>(i, r). store_asset_record r) t1 c) = is_pending c"
  "is_pending (fold (\<lambda>(i, r). store_account_record X r) t2 c) = is_pending c"
  "is_pending (fold (\<lambda>(i, r). store_balance_record X r) t3 c) = is_pending c"
  "is_pending (fold (\<lambda>(k, r). store_bid_record k r) t4 c) = is_pending c"
  "is_pending (fold (\<lambda>(k, r). store_ask_record k r) t4 c) = is_pending c"
  "is_pending (fold (\<lambda>(k, r). store_short_record k r) t4 c) = is_pending c"
  "is_pending (fold (\<lambda>(k, r). store_collateral_record k r) t5 c) = is_pending c"
  "is_pending (fold (\<lambda>(i, s). store_delegate_slate i s) t6 c) = is_pending c"
  "is_pending (fold (\<lambda>(t, r). store_slot_record r) t7 c) = is_pending c"
  "is_pending (fold (\<lambda>(k, r). store_market_history_record k r) t8 c) = is_pending c"
  "is_pending (fold (\<lambda>(k, r). store_market_status r) t9 c) = is_pending c"
  "is_pending (fold (\<lambda>(k, r). set_feed r) t10 c) = is_pending c"
  "is_pending (fold (\<lambda>(t, ops). fold store_recent_operation ops) t11 c) = is_pending c"
  "is_pending (fold (\<lambda>(k, v). store_burn_record k v) t12 c) = is_pending c"
  by (rule is_pending_fold, auto intro!: is_pending_fold)+

text \<open>What the pending state returns: its own entry, or the entry below.\<close>

lemma get_pending:
  "get_asset_record (Pending p c) = get_asset_record c ++ map_of (p_assets p)"
  "get_balance_record (Pending p c) = get_balance_record c ++ map_of (p_balances p)"
  "get_account_record (Pending p c) = get_account_record c ++ map_of (p_accounts p)"
  "get_bid_record (Pending p c) = get_bid_record c ++ map_of (p_bids p)"
  "get_ask_record (Pending p c) = get_ask_record c ++ map_of (p_asks p)"
  "get_short_record (Pending p c) = get_short_record c ++ map_of (p_shorts p)"
  "get_collateral_record (Pending p c) = get_collateral_record c ++ map_of (p_collateral p)"
  by (simp_all add: fun_eq_iff map_add_def)

lemma write_tables:
  assumes "is_pending c"
  shows "table_ok (\<lambda>i r. i = asset_record_id r) t1 \<Longrightarrow>
      get_asset_record (fold (\<lambda>(i, r). store_asset_record r) t1 c) = get_asset_record c ++ map_of t1"
    and "table_ok (\<lambda>i r. i = balance_record_id X r) t2 \<Longrightarrow>
      get_balance_record (fold (\<lambda>(i, r). store_balance_record X r) t2 c) = get_balance_record c ++ map_of t2"
    and "table_ok (\<lambda>i r. i = account_id r) t3 \<Longrightarrow>
      get_account_record (fold (\<lambda>(i, r). store_account_record X r) t3 c) = get_account_record c ++ map_of t3"
    and "table_ok (\<lambda>k r. True) t4 \<Longrightarrow>
      get_bid_record (fold (\<lambda>(k, r). store_bid_record k r) (in_order t4) c) = get_bid_record c ++ map_of t4"
    and "table_ok (\<lambda>k r. True) t4 \<Longrightarrow>
      get_ask_record (fold (\<lambda>(k, r). store_ask_record k r) (in_order t4) c) = get_ask_record c ++ map_of t4"
    and "table_ok (\<lambda>k r. True) t4 \<Longrightarrow>
      get_short_record (fold (\<lambda>(k, r). store_short_record k r) (in_order t4) c) = get_short_record c ++ map_of t4"
    and "table_ok (\<lambda>k r. True) t5 \<Longrightarrow>
      get_collateral_record (fold (\<lambda>(k, r). store_collateral_record k r) (in_order t5) c) = get_collateral_record c ++ map_of t5"
  using assets.get_write [OF assms, of t1] balances.get_write [OF assms, of t2 X] accounts.get_write [OF assms, of t3 X]
    bids.get_write [OF assms, of "in_order t4"] asks.get_write [OF assms, of "in_order t4"]
    shorts.get_write [OF assms, of "in_order t4"] collaterals.get_write [OF assms, of "in_order t5"]
  by (auto simp: table_ok_def map_of_in_order)

lemma apply_changes_get:
  assumes app: "apply_changes X p c = Inr c'" and ok: "pending_ok X p" and pend: "is_pending c"
  shows "get_asset_record c' = get_asset_record (Pending p c)"
    "get_balance_record c' = get_balance_record (Pending p c)"
    "get_account_record c' = get_account_record (Pending p c)"
    "get_bid_record c' = get_bid_record (Pending p c)"
    "get_ask_record c' = get_ask_record (Pending p c)"
    "get_short_record c' = get_short_record (Pending p c)"
    "get_collateral_record c' = get_collateral_record (Pending p c)"
    "is_pending c'"
proof -
  from app obtain c9 where t: "foldE (\<lambda>(i, r). store_transaction X i r) (p_transactions p)
      (fold (\<lambda>(k, r). store_collateral_record k r) (in_order (p_collateral p))
      (fold (\<lambda>(k, r). store_short_record k r) (in_order (p_shorts p))
      (fold (\<lambda>(k, r). store_ask_record k r) (in_order (p_asks p))
      (fold (\<lambda>(k, r). store_bid_record k r) (in_order (p_bids p))
      (fold (\<lambda>(i, r). store_balance_record X r) (p_balances p)
      (fold (\<lambda>(i, r). store_account_record X r) (p_accounts p)
      (fold (\<lambda>(i, r). store_asset_record r) (p_assets p)
      (fold (\<lambda>(i, v). set_property i v) (p_properties p) c)))))))) = Inr c9"
    and c': "c' = set_dirty_markets (p_dirty_markets p) (set_market_transactions (p_market_transactions p)
      (fold (\<lambda>(k, v). store_burn_record k v) (in_order (p_burns p))
      (fold (\<lambda>(t, ops). fold store_recent_operation ops) (in_order (p_recent_operations p))
      (fold (\<lambda>(k, r). set_feed r) (in_order (p_feeds p))
      (fold (\<lambda>(k, r). store_market_status r) (in_order (p_market_statuses p))
      (fold (\<lambda>(k, r). store_market_history_record k r) (in_order (p_market_history p))
      (fold (\<lambda>(t, r). store_slot_record r) (in_order (p_slots p))
      (fold (\<lambda>(i, s). store_delegate_slate i s) (p_slates p) c9))))))))"
    by (auto simp: apply_changes_def Let_def bindE_Inr_iff)
  note frames = frame_write_transactions [OF t] is_pending_write_transactions [OF t]
  note facts = set_dirty_markets_def frames write_tables get_pending pend
  note okD = ok [unfolded pending_ok_def]
  show "get_asset_record c' = get_asset_record (Pending p c)" unfolding c' using okD by (simp add: facts)
  show "get_balance_record c' = get_balance_record (Pending p c)" unfolding c' using okD by (simp add: facts)
  show "get_account_record c' = get_account_record (Pending p c)" unfolding c' using okD by (simp add: facts)
  show "get_bid_record c' = get_bid_record (Pending p c)" unfolding c' using okD by (simp add: facts)
  show "get_ask_record c' = get_ask_record (Pending p c)" unfolding c' using okD by (simp add: facts)
  show "get_short_record c' = get_short_record (Pending p c)" unfolding c' using okD by (simp add: facts)
  show "get_collateral_record c' = get_collateral_record (Pending p c)" unfolding c' using okD by (simp add: facts)
  show "is_pending c'" unfolding c' by (simp add: facts)
qed

text \<open>So the totals do not change when a pending state is applied.\<close>

lemma apply_changes_total:
  assumes "apply_changes X p c = Inr c'" and "pending_ok X p" and "is_pending c"
  shows "chain_total c' a = chain_total (Pending p c) a" "supply_of c' a = supply_of (Pending p c) a"
  using apply_changes_get [OF assms] unfolding chain_total_def fees_of_def supply_of_def by (simp_all del: get_asset_record.simps)

end
