(* ===== verification/Market_Laws.thy ===== *)
theory Market_Laws
  imports Market_Execution Commit_Laws
begin

text \<open>
  What a run of the market engine keeps. Every match of a bid with an ask moves shares between
  the two orders, the balances of their owners and the fees of the two assets, and the totals of
  all assets stay what they were; a run over the market of an asset that is not issued by the market
  consists of such matches. Markets are never matched across a spread, and a run that
  fails changes nothing but the status of the market.
\<close>

section \<open>Payments\<close>

text \<open>Conditions with the same address are for the same asset: no collision of the hash.\<close>

definition separates_assets :: "ext \<Rightarrow> bool" where
  "separates_assets X \<longleftrightarrow>
     (\<forall>c c'. address_of_condition X c = address_of_condition X c' \<longrightarrow> condition_asset_id c = condition_asset_id c')"

lemma pay_out_frames [simp]:
  "get_asset_record (pay_out X own b amt c) = get_asset_record c"
  "get_account_record (pay_out X own b amt c) = get_account_record c"
  "get_bid_record (pay_out X own b amt c) = get_bid_record c"
  "get_ask_record (pay_out X own b amt c) = get_ask_record c"
  "get_short_record (pay_out X own b amt c) = get_short_record c"
  "get_collateral_record (pay_out X own b amt c) = get_collateral_record c"
  "is_pending (pay_out X own b amt c) = is_pending c"
  "below (pay_out X own b amt c) = below c"
  "now (pay_out X own b amt c) = now c"
  "supply_of (pay_out X own b amt c) a = supply_of c a"
  "top_ok X c \<Longrightarrow> top_ok X (pay_out X own b amt c)"
  "chain_ok X c \<Longrightarrow> chain_ok X (pay_out X own b amt c)"
  by (simp_all add: pay_out_def Let_def top_ok_stores)

lemma pay_out_total:
  assumes ok: "chain_ok X c" and sep: "separates_assets X"
  shows "chain_total (pay_out X own b amt c) a = chain_total c a + (if a = b then amt else 0)"
proof -
  define i where "i = address_of_condition X (payout_condition own b)"
  define r where "r = (case get_balance_record c i of Some r \<Rightarrow> r | None \<Rightarrow> balance_record_of (payout_condition own b))"
  have id: "balance_record_id X r = i"
    using chain_ok_ids(2) [OF ok] by (auto simp: r_def i_def balance_record_of_def balance_record_id_def split: option.splits)
  have "condition_asset_id (condition r) = condition_asset_id (payout_condition own b)"
    using sep [unfolded separates_assets_def, rule_format, of "condition r" "payout_condition own b"] id
    unfolding balance_record_id_def i_def by blast
  then have asset: "condition_asset_id (condition r) = b" by (simp add: payout_condition_def)
  have e: "entry (balance_in a) (get_balance_record c) i = balance_in a i r"
    by (auto simp: r_def entry_def balance_in_def balance_record_of_def split: option.splits)
  have id': "balance_record_id X (r \<lparr> balance := balance r + amt, balance_last_update := now c, deposit_date := now c \<rparr>) = i"
    using id by (simp add: balance_record_id_def)
  show ?thesis
    using total_store_balance [OF chain_ok_pending [OF ok]] e id' asset
    by (simp add: pay_out_def Let_def balance_in_def flip: i_def r_def)
qed

section \<open>Settling a bid and an ask\<close>

text \<open>An order at hand is the record of the ledger.\<close>

lemma pay_current_bid_Inr:
  assumes pay: "pay_current_bid X b mtrx quote m c = Inr (quote', m', c')"
    and ok: "chain_ok X c" and sep: "separates_assets X"
    and rec: "get_bid_record c (market_index m) = Some (order_state m)"
    and q: "quote_asset_id (get_price m) = q" "q \<noteq> 0"
  shows "chain_total c' a + (if a = q then collected_fees quote' - collected_fees quote else 0) =
      chain_total c a + (if a = b then amount (bid_received mtrx) else 0) - (if a = q then amount (bid_paid mtrx) else 0)"
    and "quote' = quote \<lparr> collected_fees := collected_fees quote' \<rparr>"
    and "market_index m' = market_index m" "order_type_of m' = bid_order"
    and "c' = store_bid_record (market_index m) (order_state m') (pay_out X (bid_owner mtrx) b (amount (bid_received mtrx)) c)"
proof -
  define bal where "bal = order_balance (order_state m) - amount (bid_paid mtrx)"
  have t: "order_type_of m = bid_order"
    and r: "quote' = quote \<lparr> collected_fees := collected_fees quote + bal \<rparr> \<and> m' = with_balance 0 m \<or>
        quote' = quote \<and> m' = with_balance bal m"
    and c': "c' = store_bid_record (market_index m') (order_state m') (pay_out X (bid_owner mtrx) b (amount (bid_received mtrx)) c)"
    using pay unfolding pay_current_bid_def Let_def
    by (auto simp: get_quote_quantity_def order_get_balance_def bal_def elim!: bindE_InrE split: if_split_asm)
  show "market_index m' = market_index m" "order_type_of m' = bid_order"
    and "quote' = quote \<lparr> collected_fees := collected_fees quote' \<rparr>"
    using r t by auto
  then show c'': "c' = store_bid_record (market_index m) (order_state m') (pay_out X (bid_owner mtrx) b (amount (bid_received mtrx)) c)"
    using c' by simp
  have "collected_fees quote' - collected_fees quote + order_balance (order_state m') = bal"
    using r by auto
  then have eq: "order_balance (order_state m') = bal - (collected_fees quote' - collected_fees quote)"
    by (simp add: algebra_simps)
  have pend: "is_pending (pay_out X (bid_owner mtrx) b (amount (bid_received mtrx)) c)"
    using chain_ok_pending [OF ok] by simp
  show "chain_total c' a + (if a = q then collected_fees quote' - collected_fees quote else 0) =
      chain_total c a + (if a = b then amount (bid_received mtrx) else 0) - (if a = q then amount (bid_paid mtrx) else 0)"
    using q rec unfolding c'' total_store_bid [OF pend] pay_out_total [OF ok sep]
    by (auto simp: entry_def bid_in_def eq bal_def get_price_def)
qed

lemma pay_current_ask_Inr:
  assumes pay: "pay_current_ask X q mtrx base m c = Inr (base', m', c')"
    and ok: "chain_ok X c" and sep: "separates_assets X"
    and rec: "get_ask_record c (market_index m) = Some (order_state m)"
    and b: "base_asset_id (get_price m) = b"
  shows "chain_total c' a + (if a = b then collected_fees base' - collected_fees base else 0) =
      chain_total c a + (if a = q then amount (ask_received mtrx) else 0) - (if a = b then amount (ask_paid mtrx) else 0)"
    and "base' = base \<lparr> collected_fees := collected_fees base' \<rparr>"
    and "market_index m' = market_index m" "order_type_of m' = ask_order"
    and "c' = store_ask_record (market_index m) (order_state m') (pay_out X (ask_owner mtrx) q (amount (ask_received mtrx)) c)"
proof -
  define bal where "bal = order_balance (order_state m) - amount (ask_paid mtrx)"
  have t: "order_type_of m = ask_order"
    and r: "base' = base \<lparr> collected_fees := collected_fees base + bal \<rparr> \<and> m' = with_balance 0 m \<or>
        base' = base \<and> m' = with_balance bal m"
    and c': "c' = store_ask_record (market_index m') (order_state m') (pay_out X (ask_owner mtrx) q (amount (ask_received mtrx)) c)"
    using pay unfolding pay_current_ask_def Let_def
    by (auto simp: get_quantity_def order_get_balance_def bal_def elim!: bindE_InrE split: if_split_asm)
  show "market_index m' = market_index m" "order_type_of m' = ask_order"
    and "base' = base \<lparr> collected_fees := collected_fees base' \<rparr>"
    using r t by auto
  then show c'': "c' = store_ask_record (market_index m) (order_state m') (pay_out X (ask_owner mtrx) q (amount (ask_received mtrx)) c)"
    using c' by simp
  have "collected_fees base' - collected_fees base + order_balance (order_state m') = bal"
    using r by auto
  then have eq: "order_balance (order_state m') = bal - (collected_fees base' - collected_fees base)"
    by (simp add: algebra_simps)
  have pend: "is_pending (pay_out X (ask_owner mtrx) q (amount (ask_received mtrx)) c)"
    using chain_ok_pending [OF ok] by simp
  show "chain_total c' a + (if a = b then collected_fees base' - collected_fees base else 0) =
      chain_total c a + (if a = q then amount (ask_received mtrx) else 0) - (if a = b then amount (ask_paid mtrx) else 0)"
    using b rec unfolding c'' total_store_ask [OF pend] pay_out_total [OF ok sep]
    by (auto simp: entry_def ask_in_def eq bal_def get_price_def)
qed

section \<open>The books of a run\<close>

text \<open>The state of the ledger as the run would store it now: the asset records are still local variables.\<close>

definition ledger :: "matching \<Rightarrow> chain" where
  "ledger s = store_asset_record (base_asset s) (store_asset_record (quote_asset s) (pending_state s))"

definition engine_books :: "matching \<Rightarrow> asset_id_type \<Rightarrow> share_type" where
  "engine_books s a = chain_total (ledger s) a - supply_of (ledger s) a"

text \<open>The market of the run: two assets, of which the first is not issued by the market itself.\<close>

definition market_ok :: "ext \<Rightarrow> matching \<Rightarrow> bool" where
  "market_ok X s \<longleftrightarrow>
     chain_ok X (pending_state s) \<and> top_ok X (pending_state s) \<and>
     (\<exists>c. below (pending_state s) = Some c \<and> is_pending c) \<and> engine_quote_id s \<noteq> 0 \<and>
     engine_quote_id s \<noteq> engine_base_id s \<and>
     asset_record_id (quote_asset s) = engine_quote_id s \<and> asset_record_id (base_asset s) = engine_base_id s \<and>
     \<not> is_market_issued (quote_asset s)"

lemma engine_books_eq:
  assumes "market_ok X s"
  shows "engine_books s a = chain_total (pending_state s) a +
    (if a = engine_base_id s
     then collected_fees (base_asset s) - fees_of (pending_state s) a - current_share_supply (base_asset s)
     else if a = engine_quote_id s
     then collected_fees (quote_asset s) - fees_of (pending_state s) a - current_share_supply (quote_asset s)
     else - supply_of (pending_state s) a)"
  using assms chain_ok_pending [of X "pending_state s"]
  by (simp add: engine_books_def ledger_def market_ok_def total_store_asset fees_of_def get_store_asset)

lemma fees_of_frames [simp]:
  "fees_of (pay_out X own b amt c) a = fees_of c a"
  "fees_of (store_bid_record k r c) a = fees_of c a"
  "fees_of (store_ask_record k r c) a = fees_of c a"
  by (simp_all add: fees_of_def)

lemma asset_mul_price_ids:
  assumes "asset_mul_price X x p = Inr y" and "quote_asset_id p \<noteq> base_asset_id p"
  shows "asset_id x = base_asset_id p \<Longrightarrow> asset_id y = quote_asset_id p"
    and "asset_id x = quote_asset_id p \<Longrightarrow> asset_id y = base_asset_id p"
  using assms by (auto simp: asset_mul_price_def elim!: bindE_InrE split: if_split_asm)

lemma order_balance_asset:
  assumes "order_get_balance m = Inr x"
  shows "order_type_of m = bid_order \<Longrightarrow> x = asset_of (order_balance (order_state m)) (quote_asset_id (get_price m))"
    and "order_type_of m = ask_order \<Longrightarrow> x = asset_of (order_balance (order_state m)) (base_asset_id (get_price m))"
  using assms by (simp_all add: order_get_balance_def get_price_def)

text \<open>The amounts of a match between a bid and an ask, and the two payments.\<close>

lemma match_bid_ask_steps:
  assumes "match_bid_ask X mtrx0 bid ask s = Inr (mtrx, s')"
    and t: "order_type_of bid = bid_order" "order_type_of ask = ask_order"
    and m: "in_market s (get_price bid)" "in_market s (get_price ask)" "engine_quote_id s \<noteq> engine_base_id s"
    and p: "in_market s (ask_price mtrx0)" "in_market s (bid_price mtrx0)"
  obtains quote1 bid1 c1 base1 ask1 c2 where
    "pay_current_bid X (engine_base_id s) mtrx (quote_asset s) bid (pending_state s) = Inr (quote1, bid1, c1)"
    and "pay_current_ask X (engine_quote_id s) mtrx (base_asset s) ask c1 = Inr (base1, ask1, c2)"
    and "s' = s \<lparr> quote_asset := quote1, base_asset := base1, current_bid := Some bid1, current_ask := Some ask1,
              current_collat_record := current_collat_record s, pending_state := c2 \<rparr>"
    and "asset_id (fees_collected mtrx) = engine_quote_id s"
    and "amount (fees_collected mtrx) = amount (bid_paid mtrx) - amount (ask_received mtrx)"
    and "amount (ask_paid mtrx) = amount (bid_received mtrx)"
proof -
  obtain bq aq received paid0 paid sold fees quote1 bid1 c1 base1 ask1 c2 where
    1: "get_quantity X bid = Inr bq" "get_quantity X ask = Inr aq"
      "asset_mul_price X (asset_min bq aq) (ask_price mtrx0) = Inr received"
      "asset_mul_price X (asset_min bq aq) (bid_price mtrx0) = Inr paid0"
    and paid: "(if asset_eq (asset_min bq aq) bq then order_get_balance bid else Inr paid0) = Inr paid"
    and sold: "(if asset_eq (asset_min bq aq) aq then order_get_balance ask else Inr (asset_min bq aq)) = Inr sold"
    and fees: "asset_sub paid received = Inr fees"
    and mtrx: "mtrx = mtrx0 \<lparr> ask_received := received, bid_paid := paid, ask_paid := sold,
                 bid_received := asset_min bq aq, fees_collected := fees \<rparr>"
    and pays: "pay_current_bid X (engine_base_id s) mtrx (quote_asset s) bid (pending_state s) = Inr (quote1, bid1, c1)"
      "pay_current_ask X (engine_quote_id s) mtrx (base_asset s) ask c1 = Inr (base1, ask1, c2)"
    and s': "(mtrx, s') = settle mtrx quote1 base1 bid1 ask1 (current_collat_record s) c2 s"
    using assms(1) unfolding match_bid_ask_def settle_bid_ask_def Let_def by (elim bindE_InrE) (auto simp: settle_def elim!: bindE_InrE)
  have aq: "aq = asset_of (order_balance (order_state ask)) (base_asset_id (get_price ask))"
    using 1(2) t(2) order_balance_asset(2) by (simp add: get_quantity_def)
  obtain bb where bb: "order_get_balance bid = Inr bb" "asset_mul_price X bb (get_price bid) = Inr bq"
    using 1(1) t(1) by (auto simp: get_quantity_def elim!: bindE_InrE)
  have ids: "asset_id aq = engine_base_id s" "asset_id bq = engine_base_id s" "asset_id bb = engine_quote_id s"
    using aq m order_balance_asset(1) [OF bb(1) t(1)] asset_mul_price_ids(2) [OF bb(2)] by (auto simp: in_market_def)
  then have q: "asset_id (asset_min bq aq) = engine_base_id s" by (simp add: asset_min_def)
  have r: "asset_id received = engine_quote_id s"
    using asset_mul_price_ids(1) [OF 1(3)] q p(1) m(3) unfolding in_market_def by metis
  have "amount sold = amount (asset_min bq aq)"
    using sold aq t(2) order_balance_asset(2) [of ask sold] by (auto simp: asset_eq_def split: if_split_asm)
  moreover have "fees = asset_of (amount paid - amount received) (engine_quote_id s)"
    using fees r by (simp add: asset_sub_Inr_iff)
  ultimately show ?thesis
    using that [OF pays] s' by (simp add: mtrx settle_def)
qed

section \<open>The orders that are still open\<close>

definition open_bids :: "'x engine_scheme \<Rightarrow> (market_index_key \<times> order_record) list" where
  "open_bids s = (case current_bid s of
       Some m \<Rightarrow> if order_type_of m = bid_order then [(market_index m, order_state m)] else []
     | None \<Rightarrow> []) @ bid_itr s"

definition open_asks :: "'x engine_scheme \<Rightarrow> (market_index_key \<times> order_record) list" where
  "open_asks s = (case current_ask s of
       Some m \<Rightarrow> if order_type_of m = ask_order then [(market_index m, order_state m)] else []
     | None \<Rightarrow> []) @ ask_itr s"

text \<open>The open orders are what the ledger holds, each once, and the orders at hand belong to the market.\<close>

definition holds_all :: "('k \<rightharpoonup> 'v) \<Rightarrow> ('k \<times> 'v) list \<Rightarrow> bool" where
  "holds_all m xs \<longleftrightarrow> distinct (map fst xs) \<and> (\<forall>(k, v) \<in> set xs. m k = Some v)"

lemma holds_all_Cons: "holds_all m ((k, v) # xs) \<longleftrightarrow> m k = Some v \<and> k \<notin> fst ` set xs \<and> holds_all m xs"
  by (auto simp: holds_all_def)

lemma holds_all_upd: "holds_all m xs \<Longrightarrow> k \<notin> fst ` set xs \<Longrightarrow> holds_all (m(k \<mapsto> v)) xs"
  by (force simp: holds_all_def)

definition orders_ok :: "'x engine_scheme \<Rightarrow> bool" where
  "orders_ok s \<longleftrightarrow> holds_all (get_bid_record (pending_state s)) (open_bids s) \<and>
     holds_all (get_ask_record (pending_state s)) (open_asks s) \<and>
     (\<forall>m. current_bid s = Some m \<longrightarrow> order_type_of m \<in> {bid_order, short_order} \<and> in_market s (get_price m)) \<and>
     (\<forall>m. current_ask s = Some m \<longrightarrow> order_type_of m \<in> {ask_order, cover_order} \<and> in_market s (get_price m))"

text \<open>The state after a match of a bid and an ask whose fees have been collected.\<close>

lemma match_bid_ask_ledger:
  assumes match: "match_bid_ask X (market_transaction_of bid ask) bid ask s = Inr (mtrx, s1)"
    and types: "order_type_of bid = bid_order" "order_type_of ask = ask_order"
    and cur: "current_bid s = Some bid" "current_ask s = Some ask"
    and ok: "market_ok X s" "orders_ok s" and sep: "separates_assets X"
  obtains quote' base' bid' ask' c' where
    "collect_match_fees mtrx s1 = s \<lparr> quote_asset := quote', base_asset := base', current_bid := Some bid',
       current_ask := Some ask', current_collat_record := current_collat_record s, pending_state := c' \<rparr>"
    and "quote' = (quote_asset s) \<lparr> collected_fees := collected_fees quote' \<rparr>"
    and "base' = (base_asset s) \<lparr> collected_fees := collected_fees base' \<rparr>"
    and "market_index bid' = market_index bid" "order_type_of bid' = bid_order"
    and "market_index ask' = market_index ask" "order_type_of ask' = ask_order"
    and "chain_ok X c'" "top_ok X c'" "below c' = below (pending_state s)"
      "get_asset_record c' = get_asset_record (pending_state s)"
    and "get_bid_record c' = (get_bid_record (pending_state s))(market_index bid \<mapsto> order_state bid')"
    and "get_ask_record c' = (get_ask_record (pending_state s))(market_index ask \<mapsto> order_state ask')"
    and "\<And>a. chain_total c' a = chain_total (pending_state s) a
           - (if a = engine_quote_id s then collected_fees quote' - collected_fees (quote_asset s) else 0)
           - (if a = engine_base_id s then collected_fees base' - collected_fees (base_asset s) else 0)"
proof -
  let ?q = "engine_quote_id s" and ?b = "engine_base_id s" and ?c = "pending_state s"
  have m: "in_market s (get_price bid)" "in_market s (get_price ask)" and qb: "?q \<noteq> ?b" "?q \<noteq> 0"
    and ids: "asset_record_id (quote_asset s) = ?q" "asset_record_id (base_asset s) = ?b"
    and c: "chain_ok X ?c" "top_ok X ?c" "is_pending ?c"
    using ok cur chain_ok_pending by (auto simp: orders_ok_def market_ok_def)
  have "in_market s (ask_price (market_transaction_of bid ask))" "in_market s (bid_price (market_transaction_of bid ask))"
    using m by (simp_all add: market_transaction_of_def)
  then obtain quote1 bid1 c1 base1 ask1 c2 where
    pb: "pay_current_bid X ?b mtrx (quote_asset s) bid ?c = Inr (quote1, bid1, c1)"
    and pa: "pay_current_ask X ?q mtrx (base_asset s) ask c1 = Inr (base1, ask1, c2)"
    and s1: "s1 = s \<lparr> quote_asset := quote1, base_asset := base1, current_bid := Some bid1, current_ask := Some ask1,
              current_collat_record := current_collat_record s, pending_state := c2 \<rparr>"
    and fees: "asset_id (fees_collected mtrx) = ?q"
      "amount (fees_collected mtrx) = amount (bid_paid mtrx) - amount (ask_received mtrx)"
    and sold: "amount (ask_paid mtrx) = amount (bid_received mtrx)"
    using match_bid_ask_steps [OF match types m qb(1)] by blast
  have r: "get_bid_record ?c (market_index bid) = Some (order_state bid)" "get_ask_record ?c (market_index ask) = Some (order_state ask)"
    using ok(2) cur types by (simp_all add: orders_ok_def open_bids_def open_asks_def holds_all_Cons)
  have q: "quote_asset_id (get_price bid) = ?q" and b: "base_asset_id (get_price ask) = ?b"
    using m by (simp_all add: in_market_def)
  note B = pay_current_bid_Inr [OF pb c(1) sep r(1) q qb(2)]
  have c1: "chain_ok X c1" "top_ok X c1" "get_ask_record c1 = get_ask_record ?c" "is_pending c1"
    using c by (simp_all add: B(5) top_ok_stores)
  note A = pay_current_ask_Inr [OF pa c1(1) sep r(2) [folded c1(3)] b]
  let ?quote = "quote1 \<lparr> collected_fees := collected_fees quote1 + amount (fees_collected mtrx) \<rparr>"
  have base1: "asset_record_id base1 = ?b" by (subst A(2)) (simp add: ids)
  have "asset_record_id quote1 = ?q" by (subst B(2)) (simp add: ids)
  then have s2: "collect_match_fees mtrx s1 = s \<lparr> quote_asset := ?quote, base_asset := base1, current_bid := Some bid1,
       current_ask := Some ask1, current_collat_record := current_collat_record s, pending_state := c2 \<rparr>"
    using fees(1) qb base1 by (simp add: collect_match_fees_def s1)
  have q2: "?quote = (quote_asset s) \<lparr> collected_fees := collected_fees ?quote \<rparr>" by (subst B(2)) simp
  have total: "chain_total c2 a = chain_total ?c a
      - (if a = ?q then collected_fees ?quote - collected_fees (quote_asset s) else 0)
      - (if a = ?b then collected_fees base1 - collected_fees (base_asset s) else 0)" for a
    using B(1) [of a] A(1) [of a] qb sold by (auto simp: fees(2) algebra_simps split: if_split_asm)
  have c2: "chain_ok X c2" "top_ok X c2" "below c2 = below ?c" "get_asset_record c2 = get_asset_record ?c"
    "get_bid_record c2 = (get_bid_record ?c)(market_index bid \<mapsto> order_state bid1)"
    "get_ask_record c2 = (get_ask_record ?c)(market_index ask \<mapsto> order_state ask1)"
    using c c1 by (simp_all add: A(5) B(5) get_store_ask get_store_bid top_ok_stores)
  show ?thesis by (rule that [OF s2 q2 A(2) B(3,4) A(3,4) c2 total])
qed

lemma match_bid_ask_keeps:
  assumes match: "match_bid_ask X (market_transaction_of bid ask) bid ask s = Inr (mtrx, s1)"
    and types: "order_type_of bid = bid_order" "order_type_of ask = ask_order"
    and cur: "current_bid s = Some bid" "current_ask s = Some ask"
    and ok: "market_ok X s" "orders_ok s" and sep: "separates_assets X"
  shows "market_ok X (collect_match_fees mtrx s1)" "orders_ok (collect_match_fees mtrx s1)"
    "engine_books (collect_match_fees mtrx s1) a = engine_books s a"
proof -
  obtain quote' base' bid' ask' c' where
    s2: "collect_match_fees mtrx s1 = s \<lparr> quote_asset := quote', base_asset := base', current_bid := Some bid',
       current_ask := Some ask', current_collat_record := current_collat_record s, pending_state := c' \<rparr>"
    and quote: "quote' = (quote_asset s) \<lparr> collected_fees := collected_fees quote' \<rparr>"
    and base: "base' = (base_asset s) \<lparr> collected_fees := collected_fees base' \<rparr>"
    and orders: "market_index bid' = market_index bid" "order_type_of bid' = bid_order"
      "market_index ask' = market_index ask" "order_type_of ask' = ask_order"
    and c': "chain_ok X c'" "top_ok X c'" "below c' = below (pending_state s)"
      "get_asset_record c' = get_asset_record (pending_state s)"
      "get_bid_record c' = (get_bid_record (pending_state s))(market_index bid \<mapsto> order_state bid')"
      "get_ask_record c' = (get_ask_record (pending_state s))(market_index ask \<mapsto> order_state ask')"
    and total: "\<And>a. chain_total c' a = chain_total (pending_state s) a
           - (if a = engine_quote_id s then collected_fees quote' - collected_fees (quote_asset s) else 0)
           - (if a = engine_base_id s then collected_fees base' - collected_fees (base_asset s) else 0)"
    using match_bid_ask_ledger [OF assms] by metis
  have r: "asset_record_id quote' = asset_record_id (quote_asset s)" "asset_record_id base' = asset_record_id (base_asset s)"
    "is_market_issued quote' = is_market_issued (quote_asset s)"
    "current_share_supply quote' = current_share_supply (quote_asset s)"
    "current_share_supply base' = current_share_supply (base_asset s)"
    by (subst quote base, simp add: is_market_issued_def)+
  show mk: "market_ok X (collect_match_fees mtrx s1)"
    using ok(1) c' r unfolding s2 by (simp add: market_ok_def)
  show "orders_ok (collect_match_fees mtrx s1)"
    using ok(2) cur types orders c' unfolding s2
    by (simp add: orders_ok_def open_bids_def open_asks_def holds_all_Cons holds_all_upd in_market_def get_price_def)
  have f: "fees_of c' x = fees_of (pending_state s) x" "supply_of c' x = supply_of (pending_state s) x" for x
    by (simp_all add: fees_of_def supply_of_def c')
  show "engine_books (collect_match_fees mtrx s1) a = engine_books s a"
    using ok(1) unfolding engine_books_eq [OF mk] engine_books_eq [OF ok(1)] unfolding s2
    by (simp add: f r total market_ok_def)
qed

section \<open>Looking for orders keeps the open orders\<close>

lemma holds_all_append: "holds_all m (xs @ ys) \<Longrightarrow> holds_all m ys"
  by (auto simp: holds_all_def)

lemma get_next_short_orders:
  assumes "orders_ok s" and "current_bid s = None"
  shows "orders_ok (snd (get_next_short s))"
  by (cases rule: get_next_short_cases [of s])
    (use assms in \<open>auto simp: orders_ok_def open_bids_def open_asks_def in_market_def get_price_def\<close>)

lemma advance_bid_orders:
  assumes "orders_ok s"
  shows "orders_ok (snd (advance_bid s))"
proof -
  let ?s0 = "s \<lparr> orders_filled := orders_filled s + 1, current_bid := None \<rparr>"
  have s0: "orders_ok ?s0"
    using assms holds_all_append [of _ _ "bid_itr s"]
    by (auto simp: orders_ok_def open_bids_def open_asks_def in_market_def)
  show ?thesis
  proof (cases rule: advance_bid_cases [of s])
    case 1
    then show ?thesis using get_next_short_orders [OF s0] by simp
  next
    case (2 k r rest)
    then show ?thesis using s0
      by (auto simp: orders_ok_def open_bids_def open_asks_def take_bid_def in_market_def get_price_def)
  qed
qed

lemma take_ask_orders:
  assumes "orders_ok s" and "current_ask s = None"
  shows "orders_ok (snd (take_ask s))"
proof (cases "ask_itr s")
  case Nil
  then show ?thesis using assms by (simp add: take_ask_def)
next
  case (Cons x rest)
  then show ?thesis using assms holds_all_append [of _ "[x]" rest]
    by (cases x) (auto simp: take_ask_def orders_ok_def open_bids_def open_asks_def in_market_def get_price_def)
qed

lemma advance_ask_orders:
  assumes "orders_ok s"
  shows "orders_ok (snd (advance_ask s))"
proof -
  let ?s0 = "s \<lparr> current_ask := None, orders_filled := orders_filled s + 1 \<rparr>"
  have s0: "orders_ok (?s0 \<lparr> current_collat_record := r, collateral_itr := cs \<rparr>)" for r cs
    using assms holds_all_append [of _ _ "ask_itr s"]
    by (auto simp: orders_ok_def open_bids_def open_asks_def in_market_def)
  have s1: "orders_ok ?s0" "orders_ok (?s0 \<lparr> collateral_itr := [] \<rparr>)"
    using s0 [where r = "current_collat_record s" and cs = "collateral_itr s"]
      s0 [where r = "current_collat_record s" and cs = "[]"] by simp_all
  show ?thesis
  proof (cases rule: advance_ask_cases [of s])
    case 1 show ?thesis unfolding 1 by (rule take_ask_orders [OF s1(1)]) simp
  next
    case (2 r) show ?thesis unfolding 2 by (rule take_ask_orders [OF s0]) simp
  next
    case 3 show ?thesis unfolding 3 by (rule take_ask_orders [OF s1(2)]) simp
  next
    case (4 k r rest)
    then show ?thesis using s0 [where r = r and cs = rest]
      by (auto simp: orders_ok_def open_bids_def open_asks_def in_market_def get_price_def cover_of_def)
  qed
qed

lemma get_next_bid_orders: "get_next_bid X s = Inr (b, s') \<Longrightarrow> orders_ok s \<Longrightarrow> orders_ok s'"
  using advance_bid_orders [of s]
  by (auto simp: get_next_bid_def elim!: bindE_InrE split: option.split_asm if_split_asm)

lemma get_next_ask_orders: "orders_ok s \<Longrightarrow> orders_ok (snd (get_next_ask s))"
  using get_next_ask_cases [of s] advance_ask_orders [of s] by auto

lemma next_orders_orders:
  assumes "next_orders X s = Inr (b, s')" and "orders_ok s"
  shows "orders_ok s'"
proof -
  from assms(1) obtain found s1 where b: "get_next_bid X s = Inr (found, s1)"
    and s': "s' = (if found then snd (get_next_ask s1) else s1)"
    by (auto simp: next_orders_def elim!: bindE_InrE split: if_split_asm)
  have "orders_ok s1"
    using get_next_bid_orders [OF b assms(2)] .
  then show ?thesis using s' get_next_ask_orders [of s1] by simp
qed

section \<open>A whole run keeps the books\<close>

text \<open>In the market of an asset that is not issued by the market, only bids and asks are matched.\<close>

lemma user_market_terms:
  assumes "terms X s bid ask = Inr t" and "\<not> is_market_issued (quote_asset s)"
    and "order_type_of bid \<in> {bid_order, short_order}" "order_type_of ask \<in> {ask_order, cover_order}"
  shows "order_type_of bid = bid_order" "order_type_of ask = ask_order"
    and "t = Stop_matching \<or> t = Match (market_transaction_of bid ask)"
  using assms by (auto simp: terms_def short_terms_def ask_terms_def split: if_split_asm)

text \<open>What is noted after a match touches neither the ledger nor the orders.\<close>

lemma note_match_frames:
  assumes "push_market_transaction m s = Inr s1" and "add_volume m s1 = Inr s2"
  obtains ts v first final where "collect_match_fees m (note_prices m s2) = (collect_match_fees m s) \<lparr>
      engine_transactions := ts, trading_volume := v, market_opening_price := first, market_closing_price := final \<rparr>"
proof -
  obtain ts where s1: "s1 = s \<lparr> engine_transactions := ts \<rparr>"
    using assms(1) by (auto simp: push_market_transaction_def split: if_split_asm)
  have "\<exists>v. s2 = s1 \<lparr> trading_volume := v \<rparr>"
    using assms(2) by (auto simp: add_volume_def elim!: bindE_InrE split: if_split_asm) (metis matching.surjective matching.update_convs(4))
  then obtain v where s2: "s2 = s1 \<lparr> trading_volume := v \<rparr>" ..
  show ?thesis
    by (rule that [where ts = ts and v = v and final = "bid_price m"
          and first = "if price_eq (market_opening_price s) null_price then bid_price m else market_opening_price s"], cases s) (simp add: s1 s2 note_prices_def collect_match_fees_def Let_def)
qed

lemma notes_keep [simp]:
  fixes s ts v first final
  defines "s' \<equiv> s \<lparr> engine_transactions := ts, trading_volume := v, market_opening_price := first, market_closing_price := final \<rparr>"
  shows "market_ok X s' = market_ok X s" "orders_ok s' = orders_ok s" "engine_books s' a = engine_books s a"
  by (simp_all add: s'_def market_ok_def orders_ok_def open_bids_def open_asks_def in_market_def engine_books_def ledger_def)

lemma match_turn_keeps:
  assumes turn: "match_turn X bid ask s = Inr (b, s')" and cur: "current_bid s = Some bid" "current_ask s = Some ask"
    and ok: "market_ok X s" "orders_ok s" and sep: "separates_assets X"
  shows "market_ok X s'" "orders_ok s'" "engine_books s' a = engine_books s a"
proof -
  obtain t where t: "terms X s bid ask = Inr t" using turn by (auto simp: match_turn_def elim!: bindE_InrE)
  have "\<not> is_market_issued (quote_asset s)" using ok(1) unfolding market_ok_def by blast
  moreover have "order_type_of bid \<in> {bid_order, short_order}" "order_type_of ask \<in> {ask_order, cover_order}"
    using ok(2) cur unfolding orders_ok_def by blast+
  ultimately have ty: "order_type_of bid = bid_order" "order_type_of ask = ask_order"
    and t_cases: "t = Stop_matching \<or> t = Match (market_transaction_of bid ask)"
    using user_market_terms [OF t] by blast+
  consider "s' = s" | m s1 s2 s3 where "match_bid_ask X (market_transaction_of bid ask) bid ask s = Inr (m, s1)"
      and "push_market_transaction m s1 = Inr s2" "add_volume m s2 = Inr s3"
      and "s' = collect_match_fees m (note_prices m s3)"
    using turn t t_cases ty by (auto simp: match_turn_def match_orders_def elim!: bindE_InrE)
  then have "market_ok X s' \<and> orders_ok s' \<and> engine_books s' a = engine_books s a"
  proof cases
    case 1
    then show ?thesis using ok by simp
  next
    case (2 m s1 s2 s3)
    from note_match_frames [OF 2(2,3)] 2(4) match_bid_ask_keeps [OF 2(1) ty cur ok sep]
    show ?thesis by (metis notes_keep)
  qed
  then show "market_ok X s'" "orders_ok s'" "engine_books s' a = engine_books s a" by blast+
qed

lemma same_view_matching:
  assumes "same_view s (s' :: matching)"
  shows "quote_asset s' = quote_asset s" "base_asset s' = base_asset s"
    "engine_transactions s' = engine_transactions s" "pending_state s' = pending_state s"
    "engine_quote_id s' = engine_quote_id s" "engine_base_id s' = engine_base_id s" "feed_price s' = feed_price s"
  using assms by (cases s; cases s'; simp add: same_view_def engine.defs)+

lemma same_view_keeps:
  assumes "same_view s (s' :: matching)"
  shows "market_ok X s' = market_ok X s" "engine_books s' a = engine_books s a"
  by (simp_all add: market_ok_def engine_books_def ledger_def same_view_matching [OF assms])

lemma match_iteration_keeps:
  assumes step: "match_iteration X s = Inr (b, s')" and ok: "market_ok X s" "orders_ok s" and sep: "separates_assets X"
  shows "market_ok X s' \<and> orders_ok s' \<and> engine_books s' a = engine_books s a"
proof -
  have n: "market_ok X s1 \<and> orders_ok s1 \<and> engine_books s1 a = engine_books s a"
    if "next_orders X s = Inr (found, s1)" for found s1
    using ok same_view_keeps [OF next_orders_view [OF that]] next_orders_orders [OF that] by simp
  from step show ?thesis
  proof (cases rule: match_iteration_cases)
    case none
    then show ?thesis using n by blast
  next
    case (turn s1 bid ask)
    let ?s2 = "s1 \<lparr> last_orders_filled := orders_filled s1 \<rparr>"
    have "market_ok X ?s2" "orders_ok ?s2" "engine_books ?s2 a = engine_books s a"
      using n [OF turn(1)]
      by (simp_all add: market_ok_def orders_ok_def open_bids_def open_asks_def in_market_def engine_books_def ledger_def)
    then show ?thesis using match_turn_keeps [OF turn(5) _ _ _ _ sep] turn(3,4) by simp
  qed
qed

lemma match_loop_induct [consumes 1, case_names stop again]:
  assumes "match_loop X s = Inr s'"
    and stop: "\<And>s s'. match_iteration X s = Inr (False, s') \<Longrightarrow> P s s'"
    and again: "\<And>s s1 s'. match_iteration X s = Inr (True, s1) \<Longrightarrow> match_loop X s1 = Inr s' \<Longrightarrow> P s1 s' \<Longrightarrow> P s s'"
  shows "P s s'"
  using assms(1)
proof (induction "loop_measure s" arbitrary: s rule: less_induct)
  case less
  from less.prems obtain go_on s1 where step: "match_iteration X s = Inr (go_on, s1)"
    and rest: "(if go_on then match_loop X s1 else Inr s1) = Inr s'"
    by (subst (asm) match_loop.simps) (auto split: sum.split_asm)
  show ?case
  proof (cases go_on)
    case True
    then show ?thesis
      using again step rest less.hyps [OF match_iteration_decreases] by simp
  next
    case False
    then show ?thesis using stop step rest by simp
  qed
qed

lemma match_loop_keeps:
  assumes "match_loop X s = Inr s'" and "market_ok X s" "orders_ok s" and sep: "separates_assets X"
  shows "market_ok X s' \<and> orders_ok s' \<and> engine_books s' a = engine_books s a"
  using assms
proof (induction rule: match_loop_induct)
  case (stop s s')
  then show ?case using match_iteration_keeps by blast
next
  case (again s s1 s')
  show ?case using again.IH match_iteration_keeps [OF again.hyps(1) again.prems(1,2) sep] sep by simp
qed

lemma chain_ok_new:
  assumes "chain_ok X c"
  shows "chain_ok X (Pending new_pending_state c)"
  using assms by (simp add: chain_ok_def new_pending_state_def)

lemma holds_all_in_order: "holds_all m (in_order t) = holds_all m t"
  by (simp add: holds_all_def)

lemma holds_all_part:
  assumes "holds_all m t"
  shows "holds_all m (before_key k t)" "holds_all m (from_key k t)"
proof -
  have part: "holds_all m xs" if "distinct (map fst xs)" "set xs \<subseteq> set t" for xs
    using assms that by (auto simp: holds_all_def)
  let ?L = "in_order t" and ?P = "\<lambda>x. fst x < k"
  have "map fst (takeWhile ?P ?L) @ map fst (dropWhile ?P ?L) = map fst ?L" by (simp flip: map_append)
  moreover have "distinct (map fst ?L)" using assms by (simp add: holds_all_def)
  ultimately have d: "distinct (map fst (takeWhile ?P ?L))" "distinct (map fst (dropWhile ?P ?L))"
    by (metis distinct_append)+
  show "holds_all m (before_key k t)"
    by (rule part) (use d(1) in \<open>auto simp: before_key_def distinct_rev rev_map [symmetric] dest: set_takeWhileD\<close>)
  have "holds_all m (dropWhile ?P ?L)"
    by (rule part) (use d(2) in \<open>auto dest: set_dropWhileD\<close>)
  then show "holds_all m (from_key k t)"
    using assms by (auto simp: from_key_def holds_all_in_order split: list.split)
qed

lemma open_market_ok:
  assumes o: "open_market d q b prior = Inr s" and ok: "chain_ok X prior" and ids: "q > b" "b \<ge> 0"
    and quote: "get_asset_record prior q = Some quote" "\<not> is_market_issued quote"
    and books: "holds_all (get_bid_record prior) (bid_db d)" "holds_all (get_ask_record prior) (ask_db d)"
  shows "market_ok X s" "orders_ok s" "engine_books s a = chain_total prior a - supply_of prior a"
proof -
  let ?c = "Pending new_pending_state prior"
  have g: "get_asset_record ?c = get_asset_record prior" "get_bid_record ?c = get_bid_record prior"
    "get_ask_record ?c = get_ask_record prior" "chain_total ?c a = chain_total prior a" "supply_of ?c a = supply_of prior a"
    unfolding chain_total_def fees_of_def supply_of_def get_pending by (simp_all add: new_pending_state_def)
  obtain base k1 k2 where base: "get_asset_record prior b = Some base"
    and s: "pending_state s = ?c" "current_bid s = None" "current_ask s = None" "engine_quote_id s = q" "engine_base_id s = b"
      "quote_asset s = quote" "base_asset s = base"
    and itr: "bid_itr s = before_key k1 (bid_db d)" "ask_itr s = from_key k2 (ask_db d)"
    using o quote(1) unfolding open_market_def Let_def g
    by (auto simp del: get_median_delegate_price.simps elim!: bindE_InrE split: option.split_asm)
  show mk: "market_ok X s"
    using ids chain_ok_new [OF ok] chain_ok_pending [OF ok] quote(2) chain_ok_ids(1) [OF ok quote(1)] chain_ok_ids(1) [OF ok base]
    by (simp add: market_ok_def s)
  show "orders_ok s"
    using books holds_all_part by (auto simp: orders_ok_def s itr open_bids_def open_asks_def g)
  show "engine_books s a = chain_total prior a - supply_of prior a"
    using quote(1) base unfolding engine_books_eq [OF mk] s g fees_of_def supply_of_def by simp
qed

text \<open>Market status and history carry no shares.\<close>

lemma status_frames [simp]:
  "chain_total (store_market_status st c) a = chain_total c a"
  "supply_of (store_market_status st c) a = supply_of c a"
  "chain_total (store_market_history_record k r c) a = chain_total c a"
  "supply_of (store_market_history_record k r c) a = supply_of c a"
  by (simp_all add: chain_total_def fees_of_def supply_of_def)

lemma record_frames [simp]:
  "chain_total (record_block d q b t r c) a = chain_total c a"
  "supply_of (record_block d q b t r c) a = supply_of c a"
  "below (record_block d q b t r c) = below c"
  "top_ok X c \<Longrightarrow> top_ok X (record_block d q b t r c)"
  "chain_total (record_period d k r c) a = chain_total c a"
  "supply_of (record_period d k r c) a = supply_of c a"
  "below (record_period d k r c) = below c"
  "top_ok X c \<Longrightarrow> top_ok X (record_period d k r c)"
  by (auto simp: record_block_def record_period_def Let_def top_ok_stores
      split: list.split option.split prod.split time_granularity.split)

lemma update_market_history_frames:
  assumes "update_market_history X d t s = Inr s'"
  shows "chain_total (pending_state s') a = chain_total (pending_state s) a"
    "supply_of (pending_state s') a = supply_of (pending_state s) a"
    "below (pending_state s') = below (pending_state s)"
    "top_ok X (pending_state s) \<Longrightarrow> top_ok X (pending_state s')"
proof -
  have v: "pending_state s1 = pending_state s" if "next_orders X s = Inr (b, s1)" for b s1
    using next_orders_view [OF that] by (rule same_view_matching)
  show "chain_total (pending_state s') a = chain_total (pending_state s) a"
    "supply_of (pending_state s') a = supply_of (pending_state s) a"
    "below (pending_state s') = below (pending_state s)"
    "top_ok X (pending_state s) \<Longrightarrow> top_ok X (pending_state s')"
    using assms unfolding update_market_history_def Let_def
    by (auto elim!: bindE_InrE split: if_split_asm option.split_asm prod.split_asm dest!: v)
qed

lemma run_market_keeps:
  assumes run: "run_market X d t s = Inr (c', ts)" and ok: "market_ok X s" "orders_ok s" and sep: "separates_assets X"
  shows "chain_total c' a - supply_of c' a = engine_books s a" "is_pending c'"
proof -
  obtain b s1 s2 s3 s4 where n: "get_next_bid X s = Inr (b, s1)" and l: "match_loop X (snd (get_next_ask s1)) = Inr s2"
    and r: "store_results s2 = Inr s3" and h: "update_market_history X d t s3 = Inr s4" and c: "commit_market X s4 = Inr (c', ts)"
    using run unfolding run_market_def by (auto elim!: bindE_InrE)
  let ?s = "snd (get_next_ask s1)"
  have v: "same_view s ?s" using get_next_bid_view [OF n] same_view_trans [OF _ get_next_ask_view] by simp
  have "orders_ok ?s" using get_next_ask_orders get_next_bid_orders [OF n ok(2)] by blast
  then have s2: "market_ok X s2" "engine_books s2 a = engine_books s a"
    using match_loop_keeps [OF l _ _ sep] ok(1) same_view_keeps [OF v] by auto
  obtain st where s3: "pending_state s3 = store_market_status st (ledger s2)"
    using r unfolding store_results_def Let_def ledger_def by (auto elim!: bindE_InrE)
  obtain p c0 where p: "pending_state s4 = Pending p c0" and app: "apply_changes X p c0 = Inr c'"
    using c unfolding commit_market_def by (auto elim!: bindE_InrE split: chain.split_asm)
  note F = update_market_history_frames [OF h, unfolded s3]
  have "pending_ok X p" using F(4) s2(1) by (simp add: p ledger_def market_ok_def top_ok_stores)
  moreover have "is_pending c0" using F(3) s2(1) by (auto simp: p ledger_def market_ok_def)
  ultimately have T: "chain_total c' a = chain_total (Pending p c0) a" "supply_of c' a = supply_of (Pending p c0) a"
    and "is_pending c'"
    using apply_changes_total [OF app] apply_changes_get(8) [OF app] by blast+
  then show "is_pending c'" by blast
  show "chain_total c' a - supply_of c' a = engine_books s a"
    using T F(1,2) [of a] s2(2) by (simp add: p engine_books_def)
qed

lemma execute_keeps:
  assumes ex: "execute X d q b t prior = Inr (r, c')" and ok: "chain_ok X prior" and ids: "q > b" "b \<ge> 0"
    and quote: "get_asset_record prior q = Some quote" "\<not> is_market_issued quote"
    and books: "holds_all (get_bid_record prior) (bid_db d)" "holds_all (get_ask_record prior) (ask_db d)"
    and sep: "separates_assets X"
  shows "chain_total c' a - supply_of c' a = chain_total prior a - supply_of prior a"
proof -
  consider (ran) s ts where "open_market d q b prior = Inr s" "run_market X d t s = Inr (c', ts)"
    | (failed) st where "c' = store_market_status st prior"
    using ex unfolding execute_def Let_def
    by (auto elim!: bindE_InrE split: sum.split_asm prod.split_asm simp: bindE_Inr_iff)
  then show ?thesis
  proof cases
    case ran
    note o = open_market_ok [OF ran(1) ok ids quote books]
    show ?thesis using run_market_keeps(1) [OF ran(2) o(1,2) sep] o(3) by simp
  qed simp
qed

end
