(* ===== verification/Supply.thy ===== *)
theory Supply
  imports Conservation
begin

text \<open>
  The audit of the database. \<^verbatim>\<open>chain_database::calculate_supply\<close> loops over the tables and adds up;
  on tables with one entry per key its result is the total of the chain, so the books of an asset
  balance exactly when the audit returns the recorded share supply.
\<close>

definition database_ok :: "chain_database \<Rightarrow> bool" where
  "database_ok d \<longleftrightarrow>
     distinct (map fst (balance_db d)) \<and> distinct (map fst (ask_db d)) \<and> distinct (map fst (bid_db d)) \<and>
     distinct (map fst (short_db d)) \<and> distinct (map fst (collateral_db d)) \<and> distinct (map fst (account_db d))"

lemma tsum_in_order: "tsum f (in_order t) = tsum f t"
  unfolding tsum_def in_order_def
  by (metis mset_map mset_sort sum_mset_sum_list)

lemma fold_add_tsum:
  assumes "\<And>k v t. g (k, v) t = t + (f k v :: 'n::comm_monoid_add)"
  shows "fold g xs s = s + tsum f xs"
  using assms by (induction xs arbitrary: s) (auto simp: tsum_def add.assoc)

lemma fold_in_order_msum:
  assumes "\<And>k v t. g (k, v) t = t + (f k v :: 'n::comm_monoid_add)" and "distinct (map fst xs)"
  shows "fold g (in_order xs) s = s + msum f (map_of xs)"
  using assms(2) by (simp add: fold_add_tsum [where f = f, OF assms(1)] tsum_in_order msum_map_of)

lemma audit_balances:
  assumes "foldE (\<lambda>(i, b) tot.
      if condition_asset_id (condition b) = asset_id tot then asset_add tot (get_balance b) else Inr tot) xs tot = Inr tot'"
  shows "asset_id tot' = asset_id tot \<and> amount tot' = amount tot + tsum (balance_in (asset_id tot)) xs"
  using assms
proof (induction xs arbitrary: tot)
  case Nil
  then show ?case by (simp add: tsum_def)
next
  case (Cons x xs)
  obtain i b where x: "x = (i, b)" by (cases x)
  from Cons.prems obtain t1 where
    1: "(if condition_asset_id (condition b) = asset_id tot then asset_add tot (get_balance b) else Inr tot) = Inr t1"
    and 2: "foldE (\<lambda>(i, b) tot.
      if condition_asset_id (condition b) = asset_id tot then asset_add tot (get_balance b) else Inr tot) xs t1 = Inr tot'"
    by (auto simp: x elim!: bindE_InrE)
  have "asset_id t1 = asset_id tot \<and> amount t1 = amount tot + balance_in (asset_id tot) i b"
    using 1 by (auto simp: asset_add_Inr_iff balance_in_def get_balance_def split: if_split_asm)
  with Cons.IH [OF 2] show ?case by (simp add: x tsum_def)
qed

lemma calculate_supply_Inr:
  assumes "calculate_supply d a = Inr t" and ok: "database_ok d"
  shows "asset_id t = a" and "amount t = chain_total (Database d) a"
proof -
  let ?audit = "\<lambda>(i, b) tot.
      if condition_asset_id (condition b) = asset_id tot then asset_add tot (get_balance b) else Inr tot"
  from assms(1) obtain r tot where r: "map_of (asset_db d) a = Some r"
    and tot: "foldE ?audit (in_order (balance_db d)) (asset_of (collected_fees r) a) = Inr tot"
    and t: "t = tot \<lparr> amount :=
       (let asks = fold (\<lambda>(k, b) t. if base_asset_id (order_price k) = a then t + order_balance b else t)
                       (in_order (ask_db d)) (amount tot)
        in if a = 0 then
             let shorts = fold (\<lambda>(k, b) t. t + order_balance b) (in_order (short_db d)) asks;
                 coll = fold (\<lambda>(k, b) t. t + collateral_balance b) (in_order (collateral_db d)) shorts
             in fold (\<lambda>(i, b) t. case delegate_info b of Some del \<Rightarrow> t + pay_balance del | None \<Rightarrow> t)
                  (in_order (account_db d)) coll
           else fold (\<lambda>(k, b) t. if quote_asset_id (order_price k) = a then t + order_balance b else t)
                  (in_order (bid_db d)) asks) \<rparr>"
    unfolding calculate_supply_def by (auto simp: Let_def elim!: bindE_InrE split: option.split_asm)
  note a = audit_balances [OF tot]
  show "asset_id t = a" using a by (simp add: t)
  have fees: "fees_of (Database d) a = collected_fees r" by (simp add: fees_of_def r)
  have f1: "fold (\<lambda>(k, b) t. if base_asset_id (order_price k) = a then t + order_balance b else t) (in_order (ask_db d)) s
      = s + msum (ask_in a) (map_of (ask_db d))" for s
    by (rule fold_in_order_msum) (use ok in \<open>auto simp: ask_in_def database_ok_def\<close>)
  have f2: "fold (\<lambda>(k, b) t. t + order_balance b) (in_order (short_db d)) s = s + msum short_in (map_of (short_db d))" for s
    by (rule fold_in_order_msum) (use ok in \<open>auto simp: short_in_def database_ok_def\<close>)
  have f3: "fold (\<lambda>(k, b) t. t + collateral_balance b) (in_order (collateral_db d)) s
      = s + msum collateral_in (map_of (collateral_db d))" for s
    by (rule fold_in_order_msum) (use ok in \<open>auto simp: collateral_in_def database_ok_def\<close>)
  have f4: "fold (\<lambda>(i, b) t. case delegate_info b of Some del \<Rightarrow> t + pay_balance del | None \<Rightarrow> t) (in_order (account_db d)) s
      = s + msum pay_in (map_of (account_db d))" for s
    by (rule fold_in_order_msum) (use ok in \<open>auto simp: pay_in_def database_ok_def split: option.split\<close>)
  have f5: "fold (\<lambda>(k, b) t. if quote_asset_id (order_price k) = a then t + order_balance b else t) (in_order (bid_db d)) s
      = s + msum (bid_in a) (map_of (bid_db d))" for s
    by (rule fold_in_order_msum) (use ok in \<open>auto simp: bid_in_def database_ok_def\<close>)
  have bal: "amount tot = collected_fees r + msum (balance_in a) (map_of (balance_db d))"
    using a ok by (simp add: tsum_in_order msum_map_of database_ok_def)
  have g: "get_balance_record (Database d) = map_of (balance_db d)" "get_ask_record (Database d) = map_of (ask_db d)"
    "get_bid_record (Database d) = map_of (bid_db d)" "get_short_record (Database d) = map_of (short_db d)"
    "get_collateral_record (Database d) = map_of (collateral_db d)" "get_account_record (Database d) = map_of (account_db d)"
    by (simp_all add: fun_eq_iff)
  show "amount t = chain_total (Database d) a"
    unfolding t Let_def f1 f2 f3 f4 f5 bal chain_total_def fees g by simp
qed

end
