(* ===== verification/Scenario.thy ===== *)
theory Scenario
  imports Authority Supply "HOL-Library.Code_Target_Nat"
begin

text \<open>
  A small concrete ledger and a transfer on it. The statements of the development with hypotheses
  are applied to this ledger, with the model of the library functions of the theory \<open>External\<close>,
  to show that their hypotheses can be met together.
\<close>

definition signature_condition :: "asset_id_type \<Rightarrow> address \<Rightarrow> withdraw_condition" where
  "signature_condition a o' = \<lparr> condition_asset_id = a, delegate_slate_id = 0,
     condition_data = Withdraw_with_signature o' None \<rparr>"

definition sample_asset :: "asset_id_type \<Rightarrow> account_id_type \<Rightarrow> share_type \<Rightarrow> share_type \<Rightarrow> asset_record" where
  "sample_asset i issuer supply fees = \<lparr> asset_record_id = i, symbol = ''A'', asset_name = ''asset'', description = [],
     asset_public_data = [], issuer_account_id = issuer, precision = 100000, asset_registration_date = 0,
     asset_last_update = 0, current_share_supply = supply, maximum_share_supply = 1000000000,
     collected_fees = fees \<rparr>"

definition sample_balance :: "asset_id_type \<Rightarrow> address \<Rightarrow> share_type \<Rightarrow> balance_record" where
  "sample_balance a o' amt = \<lparr> balance = amt, condition = signature_condition a o', genesis_info = None,
     balance_last_update = 100, deposit_date = 100 \<rparr>"

definition sample_delegate :: account_record where
  "sample_delegate = \<lparr> account_id = 1, account_name = ''alice'', account_public_data = [], owner_key = 21,
     active_key_history = [(100, 22)], account_registration_date = 100, account_last_update = 100,
     delegate_info = Some (new_delegate_stats \<lparr> pay_rate := 50, pay_balance := 3000 \<rparr>), meta_data = None \<rparr>"

definition sample_database :: chain_database where
  "sample_database = \<lparr> db_chain_id = 77, skip_signature_verification = False, relay_fee = 0, wall_clock = 1000,
     head_block_num = 5, head_block_timestamp = 990, head_block_id = 3, market_transactions_db = [], slate_db = [],
     property_db = [(last_account_id, Int_property 1)], unique_transactions_db = [],
     id_to_transaction_record_db = [],
     asset_db = [(0, sample_asset 0 0 4004000 1000), (1, sample_asset 1 (- 2) 700 0)],
     symbol_index_db = [],
     balance_db = [(17, sample_balance 0 7 3000000), (19, (sample_balance 0 9 1000000) \<lparr> genesis_info := Some (asset_of 1000000 0, ''P'') \<rparr>),
                   (117, sample_balance 1 7 700)],
     burn_db = [], account_db = [(1, sample_delegate)], address_to_account_db = [(22, 1)],
     account_index_db = [(''alice'', 1)], delegate_vote_index_db = [(Vote_del 0 1, 0)], slot_record_db = [],
     ask_db = [], bid_db = [], short_db = [], collateral_db = [], feed_db = [], market_status_db = [],
     market_history_db = [], db_recent_operations = [] \<rparr>"

definition sample_chain :: chain where
  "sample_chain = Pending new_pending_state (Database sample_database)"

definition sample_state :: eval_state where
  "sample_state = new_eval_state sample_chain 77"

definition sample_transfer :: signed_transaction where
  "sample_transfer = \<lparr> trx_expiration = 1200, trx_delegate_slate_id = None,
     trx_operations = [Balance_op (Withdraw_operation 17 1000000 []),
                       Balance_op (Deposit_operation 900000 (signature_condition 0 8))],
     signatures = [7] \<rparr>"

definition after_transfer :: eval_state where
  "after_transfer = projr (evaluate ext_std sample_transfer False False sample_state)"

lemma accepted: "\<not> isl x \<Longrightarrow> x = Inr (projr x)"
  by (cases x) auto

lemma sample_transfer_accepted:
  "evaluate ext_std sample_transfer False False sample_state = Inr after_transfer"
  unfolding after_transfer_def by (rule accepted) code_simp

lemma current_state_sample [simp]: "current_state sample_state = sample_chain"
  by (simp add: sample_state_def new_eval_state_def evaluation.defs)

lemma sample_chain_ok: "chain_ok ext_std sample_chain"
proof -
  have "balance_record_id ext_std (sample_balance 0 7 b) = 17" "balance_record_id ext_std (sample_balance 1 7 b) = 117"
    "balance_record_id ext_std ((sample_balance 0 9 b) \<lparr> genesis_info := g \<rparr>) = 19" for b g
    by (simp_all add: balance_record_id_def sample_balance_def signature_condition_def ext_std_def fc_lib.defs)
  then show ?thesis
    by (auto simp: chain_ok_def sample_chain_def sample_database_def new_pending_state_def sample_asset_def
        sample_delegate_def db_get_property_def split: if_split_asm)
qed

lemma sample_database_ok: "database_ok sample_database"
  by (simp add: database_ok_def sample_database_def)

definition begun_transfer :: eval_state where
  "begun_transfer = projr (begin_evaluation ext_std sample_transfer False False sample_state)"

lemma sample_transfer_begun:
  "begin_evaluation ext_std sample_transfer False False sample_state = Inr begun_transfer"
  unfolding begun_transfer_def by (rule accepted) code_simp

end
