(* ===== verification/Delegates.thy ===== *)
theory Delegates
  imports Scenario
begin

text \<open>
  Delegates and block production: the election of the active delegates from the vote index, their
  random order, who signs a slot, the checks of a block header, the production statistics, the
  confirmation requirement, delegate pay and the random seed (\<^verbatim>\<open>chain_database.cpp\<close>). In these
  functions \<open>d\<close> is the database and \<open>c\<close> the pending state of the block on top of it.
\<close>

section \<open>Election\<close>

text \<open>The loop over the vote index, which is ordered by votes.\<close>

fun by_vote_loop :: "nat \<Rightarrow> nat \<Rightarrow> nat \<Rightarrow> account_id_type list \<Rightarrow> (vote_del, nat) table \<Rightarrow> account_id_type list" where
  "by_vote_loop first cnt pos sorted_delegates [] = sorted_delegates"
| "by_vote_loop first cnt pos sorted_delegates ((k, v) # rest) =
     (if length sorted_delegates < cnt
      then by_vote_loop first cnt (pos + 1)
             (if pos \<ge> first then sorted_delegates @ [delegate_id k] else sorted_delegates) rest
      else sorted_delegates)"

definition get_delegates_by_vote :: "chain_database \<Rightarrow> nat \<Rightarrow> nat \<Rightarrow> account_id_type list" where
  "get_delegates_by_vote d first cnt = by_vote_loop first cnt 0 [] (in_order (delegate_vote_index_db d))"

definition next_round_active_delegates :: "chain_database \<Rightarrow> account_id_type list" where
  "next_round_active_delegates d = get_delegates_by_vote d 0 BTS_BLOCKCHAIN_NUM_DELEGATES"

section \<open>Random order\<close>

definition swap_at :: "nat \<Rightarrow> nat \<Rightarrow> 'a list \<Rightarrow> 'a list" where
  "swap_at i j xs = xs[i := xs ! j, j := xs ! i]"

text \<open>The inner loop uses up to four words of the hash; the outer loop skips one position after it.\<close>

definition shuffle_words :: "64 word list \<Rightarrow> nat \<times> 'a list \<Rightarrow> nat \<times> 'a list" where
  "shuffle_words ws s =
     fold (\<lambda>x (i, xs). if i < length xs then (i + 1, swap_at i (unat (ws ! x) mod length xs) xs) else (i, xs))
       [0..<4] s"

lemma shuffle_words_pos: "i < fst (shuffle_words ws (i, xs)) \<or> length xs \<le> i"
  by (simp add: shuffle_words_def upt_rec)

lemma shuffle_words_length: "length (snd (shuffle_words ws (i, xs))) = length xs"
  by (simp add: shuffle_words_def upt_rec swap_at_def)

function shuffle :: "ext \<Rightarrow> hash_type \<Rightarrow> nat \<Rightarrow> 'a list \<Rightarrow> 'a list" where
  "shuffle X seed i xs =
     (if i < length xs then
        let (i', xs') = shuffle_words (sha256_words X seed) (i, xs)
        in shuffle X (sha256_next X seed) (i' + 1) xs'
      else xs)"
  by pat_completeness auto

termination
proof (relation "measure (\<lambda>(X, seed, i, xs). length xs - i)", goal_cases)
  case (2 X seed i xs s i' xs')
  then have "shuffle_words (sha256_words X seed) (i, xs) = (i', xs')" by simp
  then show ?case
    using 2(1) shuffle_words_pos [of i "sha256_words X seed" xs] shuffle_words_length [of "sha256_words X seed" i xs]
    by simp
qed simp

declare shuffle.simps [simp del]

definition update_active_delegate_list :: "ext \<Rightarrow> chain_database \<Rightarrow> full_block \<Rightarrow> chain \<Rightarrow> exn + chain" where
  "update_active_delegate_list X d b c =
     (if unat (block_num (full_block.block_header b)) mod BTS_BLOCKCHAIN_NUM_DELEGATES = 0 then
        bindE (get_current_random_seed c) (\<lambda>seed.
        Inr (set_active_delegates (shuffle X (sha256_next X seed) 0 (next_round_active_delegates d)) c))
      else Inr c)"

definition update_random_seed :: "ext \<Rightarrow> hash_type \<Rightarrow> chain \<Rightarrow> exn + chain" where
  "update_random_seed X new_secret c =
     bindE (get_current_random_seed c) (\<lambda>current_seed.
     Inr (set_property last_random_seed_id (Hash_property (random_seed_hash X new_secret current_seed)) c))"

section \<open>Who signs\<close>

definition get_delegate_record_for_signee :: "ext \<Rightarrow> chain_database \<Rightarrow> key \<Rightarrow> exn + account_record" where
  "get_delegate_record_for_signee X d block_signee =
     (case get_account_record_of_address (Database d) (address_of_key X block_signee) of
        None \<Rightarrow> Inl assert_failed
      | Some r \<Rightarrow> if \<not> is_delegate r then Inl assert_failed else Inr r)"

definition get_slot_signee :: "chain_database \<Rightarrow> time_point_sec \<Rightarrow> account_id_type list \<Rightarrow> exn + account_record" where
  "get_slot_signee d timestamp ordered_delegates =
     (let delegate_pos = get_slot_number timestamp mod BTS_BLOCKCHAIN_NUM_DELEGATES
      in if \<not> delegate_pos < length ordered_delegates then Inl assert_failed
         else case get_account_record (Database d) (ordered_delegates ! delegate_pos) of
                None \<Rightarrow> Inl assert_failed
              | Some r \<Rightarrow> if \<not> is_delegate r then Inl assert_failed else Inr r)"

definition verify_header :: "ext \<Rightarrow> chain_database \<Rightarrow> full_block \<Rightarrow> key \<Rightarrow> exn + unit" where
  "verify_header X d b block_signee =
     (let h = full_block.block_header b
      in if uint (block_num h) > 1 \<and> block_num h \<noteq> head_block_num d + 1 then Inl block_numbers_not_sequential
         else if previous h \<noteq> head_block_id d then Inl invalid_previous_block_id
         else if block_timestamp h mod BTS_BLOCKCHAIN_BLOCK_INTERVAL_SEC \<noteq> 0 then Inl invalid_block_time
         else if uint (block_num h) > 1 \<and> block_timestamp h \<le> head_block_timestamp d then Inl time_in_past
         else if block_timestamp h > wall_clock d + BTS_BLOCKCHAIN_BLOCK_INTERVAL_SEC * 2 then Inl time_in_future
         else if \<not> validate_digest X b then Inl invalid_block_digest
         else if \<not> validate_unique X b then Inl assert_failed
         else
           bindE (get_active_delegates (Database d)) (\<lambda>active.
           bindE (get_slot_signee d (block_timestamp h) active) (\<lambda>expected_delegate.
           if block_signee \<noteq> active_key expected_delegate then Inl invalid_delegate_signee else Inr ())))"

section \<open>Production statistics\<close>

definition update_delegate_info ::
    "ext \<Rightarrow> (delegate_stats \<Rightarrow> delegate_stats) \<Rightarrow> account_id_type \<Rightarrow> chain \<Rightarrow> exn + chain" where
  "update_delegate_info X f i c =
     (case get_account_record c i of
        None \<Rightarrow> Inl assert_failed
      | Some r \<Rightarrow> (case delegate_info r of
                     None \<Rightarrow> Inl assert_failed
                   | Some s \<Rightarrow> Inr (store_account_record X (r \<lparr> delegate_info := Some (f s) \<rparr>) c)))"

text \<open>The loop over the slots between the head block and the produced one.\<close>

function missed_slots ::
    "ext \<Rightarrow> chain_database \<Rightarrow> account_id_type list \<Rightarrow> time_point_sec \<Rightarrow> time_point_sec \<Rightarrow> int \<Rightarrow> chain \<Rightarrow>
     exn + (int \<times> chain)" where
  "missed_slots X d active t produced required c =
     (if t < produced then
        bindE (get_slot_signee d t active) (\<lambda>r.
        bindE (update_delegate_info X (\<lambda>s. s \<lparr> blocks_missed := blocks_missed s + 1 \<rparr>) (account_id r) c) (\<lambda>c1.
        missed_slots X d active (t + BTS_BLOCKCHAIN_BLOCK_INTERVAL_SEC) produced (required + 2)
          (store_slot_record \<lparr> slot_start_time = t, block_producer_id = account_id r, slot_block_id = None \<rparr> c1)))
      else Inr (required, c))"
  by pat_completeness auto

termination
  by (relation "measure (\<lambda>(X, d, active, t, produced, required, c). produced - t)")
    (auto simp: BTS_BLOCKCHAIN_BLOCK_INTERVAL_SEC_def)

declare missed_slots.simps [simp del]

definition clamp_confirmations :: "int \<Rightarrow> int" where
  "clamp_confirmations required =
     (let r = (if required < 1 then 1 else required)
      in if r > int BTS_BLOCKCHAIN_NUM_DELEGATES * 3 then 3 * int BTS_BLOCKCHAIN_NUM_DELEGATES else r)"

definition update_delegate_production_info ::
    "ext \<Rightarrow> chain_database \<Rightarrow> full_block \<Rightarrow> key \<Rightarrow> chain \<Rightarrow> exn + chain" where
  "update_delegate_production_info X d b block_signee c =
     (let h = full_block.block_header b
      in bindE (get_delegate_record_for_signee X d block_signee) (\<lambda>signee_record.
         let i = account_id signee_record
         in case get_account_record c i of
              None \<Rightarrow> Inl assert_failed
            | Some r \<Rightarrow>
            (case delegate_info r of
              None \<Rightarrow> Inl assert_failed
            | Some s \<Rightarrow>
                if uint (blocks_produced s) > 0 \<and> secret_hash X (previous_secret h) \<noteq> next_secret_hash s
                then Inl assert_failed
                else
                  let c1 = store_account_record X (r \<lparr> delegate_info := Some (s \<lparr>
                             blocks_produced := blocks_produced s + 1,
                             next_secret_hash := header_next_secret_hash h,
                             last_block_num_produced := block_num h \<rparr>) \<rparr>) c;
                      c2 = store_slot_record \<lparr> slot_start_time = block_timestamp h, block_producer_id = i,
                             slot_block_id = Some (block_id X b) \<rparr> c1
                  in bindE (get_property c2 confirmation_requirement) (\<lambda>prop.
                     bindE (as_int prop) (\<lambda>required.
                     bindE (get_active_delegates (Database d)) (\<lambda>active.
                     bindE (missed_slots X d active
                              (if uint (head_block_num d) > 0
                               then head_block_timestamp d + BTS_BLOCKCHAIN_BLOCK_INTERVAL_SEC
                               else block_timestamp h)
                              (block_timestamp h) required c2) (\<lambda>(required', c3).
                     Inr (set_property confirmation_requirement
                            (Int_property (clamp_confirmations (required' - 1))) c3))))))))"

section \<open>Pay\<close>

definition pay_delegate :: "ext \<Rightarrow> chain_database \<Rightarrow> key \<Rightarrow> chain \<Rightarrow> exn + chain" where
  "pay_delegate X d block_signee c =
     bindE (get_delegate_record_for_signee X d block_signee) (\<lambda>signee_record.
     case get_account_record c (account_id signee_record) of
       None \<Rightarrow> Inl assert_failed
     | Some r \<Rightarrow>
     (case delegate_info r of
       None \<Rightarrow> Inl assert_failed
     | Some s \<Rightarrow>
         if \<not> uint (pay_rate s) \<le> 100 then Inl assert_failed
         else
           bindE (get_delegate_pay_rate c) (\<lambda>max_available_paycheck.
           let accepted_paycheck = sdiv64 (ucast (pay_rate s) * max_available_paycheck) 100
           in case get_asset_record c 0 of
                None \<Rightarrow> Inl assert_failed
              | Some base \<Rightarrow>
                  let c1 = store_asset_record (base \<lparr> collected_fees := collected_fees base - max_available_paycheck \<rparr>) c;
                      c2 = store_account_record X (r \<lparr> delegate_info := Some (s \<lparr>
                             pay_balance := pay_balance s + accepted_paycheck,
                             votes_for := votes_for s + accepted_paycheck \<rparr>) \<rparr>) c1
                  in (case get_asset_record c2 0 of
                        None \<Rightarrow> Inl assert_failed
                      | Some base2 \<Rightarrow>
                          Inr (store_asset_record (base2 \<lparr> current_share_supply :=
                                 current_share_supply base2 - (max_available_paycheck - accepted_paycheck) \<rparr>) c2)))))"

section \<open>The elected delegates\<close>

lemma by_vote_loop_eq:
  assumes "length acc \<le> cnt"
  shows "by_vote_loop first cnt pos acc xs =
    acc @ take (cnt - length acc) (map (\<lambda>x. delegate_id (fst x)) (drop (first - pos) xs))"
  using assms
proof (induction xs arbitrary: pos acc)
  case (Cons x xs)
  obtain k v where x: "x = (k, v)" by (cases x)
  show ?case
  proof (cases "length acc < cnt")
    case True
    show ?thesis
    proof (cases "first \<le> pos")
      case True
      with Cons \<open>length acc < cnt\<close> show ?thesis
        by (simp add: x Suc_diff_le take_Suc_conv_app_nth [symmetric] take_Cons' flip: Suc_diff_le)
    next
      case False
      then have "drop (first - pos) (x # xs) = drop (first - Suc pos) xs"
        by (simp add: Suc_diff_Suc drop_Cons')
      with Cons False \<open>length acc < cnt\<close> show ?thesis by (simp add: x)
    qed
  qed (use Cons.prems in \<open>simp add: x\<close>)
qed simp

lemma get_delegates_by_vote_eq:
  "get_delegates_by_vote d first cnt =
     map (\<lambda>x. delegate_id (fst x)) (take cnt (drop first (in_order (delegate_vote_index_db d))))"
  by (simp add: get_delegates_by_vote_def by_vote_loop_eq take_map)

text \<open>The vote index has exactly one entry per delegate, with the votes of its record.\<close>

definition votes_indexed :: "chain_database \<Rightarrow> bool" where
  "votes_indexed d \<longleftrightarrow>
     distinct (map fst (delegate_vote_index_db d)) \<and>
     (\<forall>i r. map_of (account_db d) i = Some r \<longrightarrow> account_id r = i) \<and>
     (\<forall>v i. Vote_del v i \<in> fst ` set (delegate_vote_index_db d) \<longleftrightarrow>
        (\<exists>r s. map_of (account_db d) i = Some r \<and> delegate_info r = Some s \<and> votes_for s = v))"

lemma keys_of_table:
  "fst ` set (AList.update k v t) = insert k (fst ` set t)"
  "fst ` set (AList.delete k t) = fst ` set t - {k}"
  by (auto simp: dom_map_of_conv_image_fst [symmetric])

lemma remove_vote_keys:
  "fst ` set (remove_vote old i t) =
     fst ` set t - {Vote_del (votes_for s) i | r s. old = Some r \<and> delegate_info r = Some s}"
  by (auto simp: remove_vote_def keys_of_table split: option.split)

lemma remove_vote_distinct:
  "distinct (map fst t) \<Longrightarrow> distinct (map fst (remove_vote old i t))"
  by (auto simp: remove_vote_def distinct_delete split: option.split)

definition votes_of :: "chain_database \<Rightarrow> account_id_type \<Rightarrow> share_type option" where
  "votes_of d i =
     (case map_of (account_db d) i of
        None \<Rightarrow> None | Some r \<Rightarrow> (case delegate_info r of None \<Rightarrow> None | Some s \<Rightarrow> Some (votes_for s)))"

lemma votes_indexed_iff:
  "votes_indexed d \<Longrightarrow> Vote_del v i \<in> fst ` set (delegate_vote_index_db d) \<longleftrightarrow> votes_of d i = Some v"
  by (auto simp: votes_indexed_def votes_of_def split: option.splits)

lemma sorted_take_drop:
  assumes "sorted (map f xs)" and "x \<in> set (take n xs)" and "y \<in> set (drop n xs)"
  shows "f x \<le> f y"
proof -
  have "sorted (map f (take n xs) @ map f (drop n xs))"
    using assms(1) by (simp flip: map_append)
  then show ?thesis using assms(2,3) by (auto simp: sorted_append)
qed

section \<open>The order of the delegates\<close>

lemma mset_swap_at: "i < length xs \<Longrightarrow> j < length xs \<Longrightarrow> mset (swap_at i j xs) = mset xs"
  unfolding swap_at_def by (subst mset_swap) auto

lemma shuffle_words_mset: "mset (snd (shuffle_words ws (i, xs))) = mset xs"
proof -
  have "mset (snd (fold (\<lambda>x (i, xs). if i < length xs then (i + 1, swap_at i (unat (ws ! x) mod length xs) xs)
      else (i, xs)) ns s)) = mset (snd s)" for ns s
  proof (induction ns arbitrary: s)
    case (Cons n ns)
    obtain i xs where s: "s = (i, xs)" by (cases s)
    have "i < length xs \<Longrightarrow> mset (swap_at i (unat (ws ! n) mod length xs) xs) = mset xs"
      by (rule mset_swap_at) (auto intro!: mod_less_divisor)
    then show ?case using Cons by (simp add: s)
  qed simp
  from this [of "[0..<4]" "(i, xs)"] show ?thesis by (simp only: shuffle_words_def snd_conv)
qed

lemma shuffle_mset: "mset (shuffle X seed i xs) = mset xs"
proof (induction X seed i xs rule: shuffle.induct)
  case (1 X seed i xs)
  show ?case
  proof (cases "i < length xs")
    case True
    obtain i' xs' where w: "shuffle_words (sha256_words X seed) (i, xs) = (i', xs')" by fastforce
    then have "mset xs' = mset xs" using shuffle_words_mset [of "sha256_words X seed" i xs] by simp
    with 1 [OF True w [symmetric]] True w show ?thesis by (subst shuffle.simps) simp
  qed (subst shuffle.simps, simp)
qed

section \<open>The confirmation requirement\<close>

lemma clamp_confirmations_bounds: "1 \<le> clamp_confirmations r" "clamp_confirmations r \<le> 303"
  by (simp_all add: clamp_confirmations_def Let_def BTS_BLOCKCHAIN_NUM_DELEGATES_def)

lemma missed_slots_required:
  assumes "missed_slots X d active t produced required c = Inr (required', c')"
  shows "required' = required + 2 * int ((produced - t + 9) div 10)"
  using assms
proof (induction X d active t produced required c rule: missed_slots.induct)
  case (1 X d active t produced required c)
  show ?case
  proof (cases "t < produced")
    case True
    from 1(2) True obtain r c1 where r: "get_slot_signee d t active = Inr r"
      and c1: "update_delegate_info X (\<lambda>s. s \<lparr> blocks_missed := blocks_missed s + 1 \<rparr>) (account_id r) c = Inr c1"
      and rest: "missed_slots X d active (t + BTS_BLOCKCHAIN_BLOCK_INTERVAL_SEC) produced (required + 2)
          (store_slot_record \<lparr> slot_start_time = t, block_producer_id = account_id r, slot_block_id = None \<rparr> c1)
        = Inr (required', c')"
      by (subst (asm) missed_slots.simps) (auto elim!: bindE_InrE)
    obtain n where n: "produced = t + Suc n" using True less_imp_Suc_add by auto
    have slots: "(produced - t + 9) div 10 = Suc ((produced - (t + 10) + 9) div 10)"
      unfolding n by (cases "n < 9") auto
    show ?thesis
      unfolding slots using 1(1) [OF True r c1 rest] by (simp add: BTS_BLOCKCHAIN_BLOCK_INTERVAL_SEC_def)
  next
    case False
    with 1(2) show ?thesis by (subst (asm) missed_slots.simps) simp
  qed
qed

lemma is_pending_missed_slots:
  assumes "missed_slots X d active t produced required c = Inr (required', c')"
  shows "is_pending c' = is_pending c"
  using assms
proof (induction X d active t produced required c rule: missed_slots.induct)
  case (1 X d active t produced required c)
  show ?case
  proof (cases "t < produced")
    case True
    from 1(2) True obtain r c1 where r: "get_slot_signee d t active = Inr r"
      and c1: "update_delegate_info X (\<lambda>s. s \<lparr> blocks_missed := blocks_missed s + 1 \<rparr>) (account_id r) c = Inr c1"
      and rest: "missed_slots X d active (t + BTS_BLOCKCHAIN_BLOCK_INTERVAL_SEC) produced (required + 2)
          (store_slot_record \<lparr> slot_start_time = t, block_producer_id = account_id r, slot_block_id = None \<rparr> c1)
        = Inr (required', c')"
      by (subst (asm) missed_slots.simps) (auto elim!: bindE_InrE)
    have "is_pending c1 = is_pending c"
      using c1 by (auto simp: update_delegate_info_def split: option.split_asm)
    with 1(1) [OF True r c1 rest] show ?thesis by simp
  next
    case False
    with 1(2) show ?thesis by (subst (asm) missed_slots.simps) simp
  qed
qed

text \<open>How many slots lie between the head block and a new one.\<close>

definition slots_between :: "chain_database \<Rightarrow> full_block \<Rightarrow> nat" where
  "slots_between d b =
     (if uint (head_block_num d) > 0
      then (block_timestamp (full_block.block_header b) - (head_block_timestamp d + 10) + 9) div 10 else 0)"

lemma production_info_confirmations:
  assumes "update_delegate_production_info X d b k c = Inr c'" and "is_pending c"
  obtains n where "get_property c confirmation_requirement = Inr (Int_property n)"
    and "get_property c' confirmation_requirement =
      Inr (Int_property (clamp_confirmations (n + 2 * int (slots_between d b) - 1)))"
proof -
  let ?h = "full_block.block_header b"
  obtain sr where sr: "get_delegate_record_for_signee X d k = Inr sr"
    using assms(1) unfolding update_delegate_production_info_def Let_def by (elim bindE_InrE)
  obtain r where r: "get_account_record c (account_id sr) = Some r"
    using assms(1) sr by (auto simp: update_delegate_production_info_def Let_def split: option.split_asm)
  obtain s where s: "delegate_info r = Some s"
    using assms(1) sr r by (auto simp: update_delegate_production_info_def Let_def split: option.split_asm)
  define c2 where "c2 = store_slot_record \<lparr> slot_start_time = block_timestamp ?h, block_producer_id = account_id sr,
      slot_block_id = Some (block_id X b) \<rparr> (store_account_record X (r \<lparr> delegate_info := Some (s \<lparr>
         blocks_produced := blocks_produced s + 1, next_secret_hash := header_next_secret_hash ?h,
         last_block_num_produced := block_num ?h \<rparr>) \<rparr>) c)"
  obtain pv n active req c3 where "get_property c2 confirmation_requirement = Inr pv" "as_int pv = Inr n"
    and miss: "missed_slots X d active (if uint (head_block_num d) > 0
         then head_block_timestamp d + BTS_BLOCKCHAIN_BLOCK_INTERVAL_SEC else block_timestamp ?h)
         (block_timestamp ?h) n c2 = Inr (req, c3)"
    and c': "c' = set_property confirmation_requirement (Int_property (clamp_confirmations (req - 1))) c3"
    using assms(1) sr r s
    by (auto simp: update_delegate_production_info_def Let_def c2_def elim!: bindE_InrE split: if_split_asm)
  then have n: "get_property c confirmation_requirement = Inr (Int_property n)"
    by (simp add: c2_def as_int_Inr_iff)
  have "req = n + 2 * int (slots_between d b)"
    using missed_slots_required [OF miss] by (simp add: slots_between_def BTS_BLOCKCHAIN_BLOCK_INTERVAL_SEC_def)
  moreover have "is_pending c3" using is_pending_missed_slots [OF miss] assms(2) by (simp add: c2_def)
  ultimately show ?thesis using that [OF n] by (simp add: c' get_set_property)
qed

lemma production_info_secret:
  assumes "update_delegate_production_info X d b k c = Inr c'"
  shows "\<exists>sr r s. get_delegate_record_for_signee X d k = Inr sr \<and> get_account_record c (account_id sr) = Some r \<and>
    delegate_info r = Some s \<and>
    (blocks_produced s = 0 \<or> secret_hash X (previous_secret (full_block.block_header b)) = next_secret_hash s)"
proof -
  obtain sr where sr: "get_delegate_record_for_signee X d k = Inr sr"
    using assms unfolding update_delegate_production_info_def Let_def by (elim bindE_InrE)
  obtain r where r: "get_account_record c (account_id sr) = Some r"
    using assms sr by (auto simp: update_delegate_production_info_def Let_def split: option.split_asm)
  obtain s where s: "delegate_info r = Some s"
    using assms sr r by (auto simp: update_delegate_production_info_def Let_def split: option.split_asm)
  have "\<not> 0 < uint (blocks_produced s) \<or> secret_hash X (previous_secret (full_block.block_header b)) = next_secret_hash s"
    using assms sr r s by (auto simp: update_delegate_production_info_def Let_def split: if_split_asm)
  then show ?thesis using sr r s by (auto simp: less_le uint_0_iff)
qed

section \<open>Delegate pay keeps the books\<close>

abbreviation paycheck :: "delegate_stats \<Rightarrow> share_type" where
  "paycheck s \<equiv> sdiv64 (ucast (pay_rate s) * BTS_MAX_DELEGATE_PAY_PER_BLOCK) 100"

lemma pay_delegate_steps:
  assumes "pay_delegate X d k c = Inr c'" and ok: "chain_ok X c"
  obtains i r s base where "get_account_record c i = Some r" and "delegate_info r = Some s"
    and "get_asset_record c 0 = Some base" and "uint (pay_rate s) \<le> 100"
    and "c' = store_asset_record (base \<lparr> collected_fees := collected_fees base - BTS_MAX_DELEGATE_PAY_PER_BLOCK,
         current_share_supply := current_share_supply base - (BTS_MAX_DELEGATE_PAY_PER_BLOCK - paycheck s) \<rparr>)
       (store_account_record X (r \<lparr> delegate_info := Some (s \<lparr>
           pay_balance := pay_balance s + paycheck s, votes_for := votes_for s + paycheck s \<rparr>) \<rparr>)
       (store_asset_record (base \<lparr> collected_fees := collected_fees base - BTS_MAX_DELEGATE_PAY_PER_BLOCK \<rparr>) c))"
proof -
  obtain sr where sr: "get_delegate_record_for_signee X d k = Inr sr"
    using assms(1) unfolding pay_delegate_def by (elim bindE_InrE)
  obtain r where r: "get_account_record c (account_id sr) = Some r"
    using assms(1) sr by (auto simp: pay_delegate_def split: option.split_asm)
  obtain s where s: "delegate_info r = Some s"
    using assms(1) sr r by (auto simp: pay_delegate_def split: option.split_asm)
  have rate: "uint (pay_rate s) \<le> 100" using assms(1) sr r s by (auto simp: pay_delegate_def split: if_split_asm)
  obtain base where base: "get_asset_record c 0 = Some base"
    using assms(1) sr r s rate by (auto simp: pay_delegate_def get_delegate_pay_rate_def split: option.split_asm)
  have id: "asset_record_id base = 0" using chain_ok_ids(1) [OF ok base] .
  show ?thesis
    using assms(1) sr r s rate base id chain_ok_pending [OF ok] that [OF r s base rate]
    by (simp add: pay_delegate_def get_delegate_pay_rate_def Let_def get_store_asset)
qed

lemma pay_delegate_books:
  assumes "pay_delegate X d k c = Inr c'" and ok: "chain_ok X c"
  shows "chain_total c' a - supply_of c' a = chain_total c a - supply_of c a" and "chain_ok X c'"
proof -
  obtain i r s base where r: "get_account_record c i = Some r" "delegate_info r = Some s"
    and base: "get_asset_record c 0 = Some base"
    and c': "c' = store_asset_record (base \<lparr> collected_fees := collected_fees base - BTS_MAX_DELEGATE_PAY_PER_BLOCK,
         current_share_supply := current_share_supply base - (BTS_MAX_DELEGATE_PAY_PER_BLOCK - paycheck s) \<rparr>)
       (store_account_record X (r \<lparr> delegate_info := Some (s \<lparr>
           pay_balance := pay_balance s + paycheck s, votes_for := votes_for s + paycheck s \<rparr>) \<rparr>)
       (store_asset_record (base \<lparr> collected_fees := collected_fees base - BTS_MAX_DELEGATE_PAY_PER_BLOCK \<rparr>) c))"
    using assms by (rule pay_delegate_steps)
  let ?b1 = "base \<lparr> collected_fees := collected_fees base - BTS_MAX_DELEGATE_PAY_PER_BLOCK \<rparr>"
  let ?c1 = "store_asset_record ?b1 c"
  let ?r = "r \<lparr> delegate_info := Some (s \<lparr> pay_balance := pay_balance s + paycheck s,
      votes_for := votes_for s + paycheck s \<rparr>) \<rparr>"
  let ?c2 = "store_account_record X ?r ?c1"
  have id: "asset_record_id base = 0" "account_id r = i"
    using chain_ok_ids [OF ok] base r by auto
  have pend: "is_pending c" "is_pending ?c1" "is_pending ?c2" using chain_ok_pending [OF ok] by simp_all
  have old: "fees_of c 0 = collected_fees base" "supply_of c 0 = current_share_supply base"
    using base by (simp_all add: fees_of_def supply_of_def)
  have f: "fees_of ?c2 0 = collected_fees base - BTS_MAX_DELEGATE_PAY_PER_BLOCK"
    using id pend by (simp add: fees_of_def get_store_asset)
  have t1: "chain_total ?c1 a = chain_total c a - (if a = 0 then BTS_MAX_DELEGATE_PAY_PER_BLOCK else 0)"
    using id old by (simp add: total_store_asset [OF pend(1)])
  have t2: "chain_total ?c2 a = chain_total ?c1 a + (if a = 0 then paycheck s else 0)"
    using id r by (simp add: total_store_account [OF pend(2)] entry_def pay_in_def)
  have "chain_total c' a = chain_total ?c2 a"
    unfolding c' total_store_asset(1) [OF pend(3)] using id f by simp
  moreover have "supply_of c' a = supply_of c a -
      (if a = 0 then BTS_MAX_DELEGATE_PAY_PER_BLOCK - paycheck s else 0)"
    unfolding c' total_store_asset(2) [OF pend(3)] using id old by (simp add: total_store_asset(2) [OF pend(1)])
  ultimately show "chain_total c' a - supply_of c' a = chain_total c a - supply_of c a"
    using t1 t2 by simp
  have "chain_ok X ?c2" using ok id r by (intro chain_ok_store_account) auto
  then show "chain_ok X c'" unfolding c' by simp
qed

lemma votes_indexed_store_account:
  assumes "votes_indexed d"
  shows "votes_indexed (db_store_account_record X r d)"
proof -
  note ok = assms [unfolded votes_indexed_def]
  show ?thesis
  proof (cases "account_is_null r")
    case True
    then show ?thesis
      using ok
      by (auto simp: votes_indexed_def db_store_account_record_def Let_def remove_vote_keys remove_vote_distinct)
  next
    case False
    then show ?thesis
      using ok
      by (cases "delegate_info r")
        (auto simp: votes_indexed_def db_store_account_record_def Let_def remove_vote_keys keys_of_table
          remove_vote_distinct distinct_update)
  qed
qed

section \<open>Properties\<close>

text \<open>
  C25. The vote index follows the accounts: storing an account record, whether it is new, changed, no
  longer a delegate or null, keeps exactly one entry per delegate with the votes of its record.
\<close>

theorem vote_index_follows_accounts:
  assumes "votes_indexed d"
  shows "votes_indexed (db_store_account_record X r d)"
  using assms by (rule votes_indexed_store_account)

lemma sample_votes_indexed: "votes_indexed sample_database"
  by (auto simp: votes_indexed_def sample_database_def sample_delegate_def new_delegate_stats_def split: if_split_asm)

theorem vote_index_follows_accounts_witness:
  "votes_indexed (db_store_account_record ext_std (sample_delegate \<lparr> delegate_info :=
     Some (new_delegate_stats \<lparr> votes_for := 9 \<rparr>) \<rparr>) sample_database)"
  by (rule vote_index_follows_accounts) (rule sample_votes_indexed)

text \<open>
  C24. The elected delegates are those with the most votes: an account on the list of the first
  delegates has more votes than any delegate that is not, or as many and a smaller identifier.
\<close>

theorem elected_delegates_lead:
  assumes ok: "votes_indexed d" and i: "i \<in> set (get_delegates_by_vote d 0 n)"
    and j: "votes_of d j = Some w" "j \<notin> set (get_delegates_by_vote d 0 n)"
  shows "\<exists>v. votes_of d i = Some v \<and> (sint w < sint v \<or> v = w \<and> i < j)"
proof -
  let ?L = "in_order (delegate_vote_index_db d)"
  from i obtain x where x: "x \<in> set (take n ?L)" "delegate_id (fst x) = i"
    by (auto simp: get_delegates_by_vote_eq)
  then have "fst x \<in> fst ` set (delegate_vote_index_db d)"
    by (metis image_eqI in_set_takeD set_in_order)
  then have vi: "votes_of d i = Some (votes (fst x))"
    using votes_indexed_iff [OF ok, of "votes (fst x)" i] x(2) by (metis vote_del.collapse)
  have "Vote_del w j \<in> fst ` set ?L" using votes_indexed_iff [OF ok] j(1) by simp
  then obtain y where y: "y \<in> set ?L" "fst y = Vote_del w j" by auto
  have "y \<notin> set (take n ?L)" using j(2) y(2) by (force simp: get_delegates_by_vote_eq)
  then have "y \<in> set (drop n ?L)" using y(1) by (metis Un_iff append_take_drop_id set_append)
  then have "fst x \<le> fst y" using sorted_take_drop [OF sorted_in_order x(1)] by simp
  moreover have "fst x \<noteq> fst y" using x j(2) i y(2) by auto
  ultimately have "fst x < Vote_del w j" using y(2) by simp
  then show ?thesis using vi x(2) by (auto simp: less_vote_del split: if_split_asm)
qed

definition two_delegates :: chain_database where
  "two_delegates = sample_database \<lparr>
     account_db := [(1, sample_delegate), (2, sample_delegate \<lparr> account_id := 2, account_name := ''bob'',
       delegate_info := Some (new_delegate_stats \<lparr> votes_for := 9 \<rparr>) \<rparr>)],
     delegate_vote_index_db := [(Vote_del 0 1, 0), (Vote_del 9 2, 0)] \<rparr>"

theorem elected_delegates_lead_witness:
  "\<exists>v. votes_of two_delegates 2 = Some v \<and> (sint (0 :: 64 word) < sint v \<or> v = 0 \<and> (2 :: int) < 1)"
proof -
  have "votes_indexed two_delegates"
    by (auto simp: votes_indexed_def two_delegates_def sample_delegate_def new_delegate_stats_def split: if_split_asm)
  moreover have "get_delegates_by_vote two_delegates 0 1 = [2]" by code_simp
  moreover have "votes_of two_delegates 1 = Some 0" by code_simp
  ultimately show ?thesis using elected_delegates_lead [of two_delegates 2 1 1 0] by simp
qed

text \<open>
  At the start of a round the active delegates are the elected ones, each exactly once, in the
  random order: the shuffle neither loses nor repeats a delegate, whatever the hash function returns.
\<close>

theorem active_delegates_are_the_elected:
  assumes "update_active_delegate_list X d b c = Inr c'" and "is_pending c"
    and "unat (block_num (full_block.block_header b)) mod BTS_BLOCKCHAIN_NUM_DELEGATES = 0"
  shows "\<exists>ids. get_active_delegates c' = Inr ids \<and> mset ids = mset (next_round_active_delegates d)"
  using assms
  by (auto simp: update_active_delegate_list_def get_active_delegates_def set_active_delegates_def
      get_set_property shuffle_mset elim!: bindE_InrE)

definition sample_header :: block_header where
  "sample_header = \<lparr> previous = 3, block_num = 6, block_timestamp = 1010, transaction_digest = 0,
     header_next_secret_hash = 5, previous_secret = 4 \<rparr>"

definition sample_block :: full_block where
  "sample_block = \<lparr> block_header = sample_header, delegate_signature = 22, user_transactions = [] \<rparr>"

definition round_block :: full_block where
  "round_block = sample_block \<lparr> block_header := sample_header \<lparr> block_num := 202 \<rparr> \<rparr>"

definition production_database :: chain_database where
  "production_database = sample_database \<lparr> property_db := [(last_account_id, Int_property 1),
     (confirmation_requirement, Int_property 10), (last_random_seed_id, Hash_property 1),
     (active_delegate_list_id, Ids_property (replicate 101 1))] \<rparr>"

definition production_chain :: chain where
  "production_chain = Pending new_pending_state (Database production_database)"

theorem active_delegates_are_the_elected_witness:
  "\<exists>ids. get_active_delegates (projr (update_active_delegate_list ext_std two_delegates round_block production_chain)) = Inr ids \<and>
     mset ids = {#1, 2#}"
proof -
  have "\<not> isl (update_active_delegate_list ext_std two_delegates round_block production_chain)" by code_simp
  note a = accepted [OF this]
  have m: "unat (block_num (full_block.block_header round_block)) mod BTS_BLOCKCHAIN_NUM_DELEGATES = 0" by code_simp
  have "next_round_active_delegates two_delegates = [2, 1]" by code_simp
  then show ?thesis
    using active_delegates_are_the_elected [OF a _ m] by (simp add: production_chain_def add_mset_commute)
qed

text \<open>
  A block is accepted for its slot exactly if its number and previous block continue the chain, its
  time is a slot start after the head block and at most two slots ahead of the clock, its digest
  is the one of its transactions, none of them twice, and its signer is the active key of the delegate
  whose turn the slot is.
\<close>

theorem header_is_verified_iff:
  "verify_header X d b k = Inr () \<longleftrightarrow>
     (let h = full_block.block_header b in
      (uint (block_num h) \<le> 1 \<or> block_num h = head_block_num d + 1 \<and> head_block_timestamp d < block_timestamp h) \<and>
      previous h = head_block_id d \<and> BTS_BLOCKCHAIN_BLOCK_INTERVAL_SEC dvd block_timestamp h \<and>
      block_timestamp h \<le> wall_clock d + 2 * BTS_BLOCKCHAIN_BLOCK_INTERVAL_SEC \<and>
      calculate_transaction_digest X b = transaction_digest h \<and>
      distinct (map (transaction_id_hash X) (user_transactions b)) \<and>
      (\<exists>active i r. get_active_delegates (Database d) = Inr active \<and>
         i = get_slot_number (block_timestamp h) mod BTS_BLOCKCHAIN_NUM_DELEGATES \<and> i < length active \<and>
         map_of (account_db d) (active ! i) = Some r \<and> is_delegate r \<and> k = active_key r))"
  unfolding verify_header_def get_slot_signee_def Let_def validate_digest_def validate_unique_def user_transaction_ids_def
  by (auto simp: bindE_Inr_iff dvd_eq_mod_eq_0 if_Inr_iff split: option.split)

text \<open>
  Confirmations: a produced block sets the required number of confirmations to the old one plus two
  for every slot missed since the head block minus one, kept between one and three rounds; the
  producer must have revealed the secret it committed to in its last block.
\<close>

theorem production_updates_confirmations:
  assumes "update_delegate_production_info X d b k c = Inr c'" and "is_pending c"
  shows "\<exists>n m. get_property c confirmation_requirement = Inr (Int_property n) \<and>
    get_property c' confirmation_requirement = Inr (Int_property m) \<and>
    m = max 1 (min 303 (n + 2 * int (slots_between d b) - 1)) \<and>
    (\<exists>sr r s. get_delegate_record_for_signee X d k = Inr sr \<and> get_account_record c (account_id sr) = Some r \<and>
       delegate_info r = Some s \<and>
       (blocks_produced s = 0 \<or> secret_hash X (previous_secret (full_block.block_header b)) = next_secret_hash s))"
proof -
  obtain n where n: "get_property c confirmation_requirement = Inr (Int_property n)"
    "get_property c' confirmation_requirement =
      Inr (Int_property (clamp_confirmations (n + 2 * int (slots_between d b) - 1)))"
    using assms by (rule production_info_confirmations)
  have "clamp_confirmations i = max 1 (min 303 i)" for i
    by (simp add: clamp_confirmations_def Let_def BTS_BLOCKCHAIN_NUM_DELEGATES_def)
  then show ?thesis using n production_info_secret [OF assms(1)] by auto
qed

theorem production_updates_confirmations_witness:
  "\<exists>m. get_property (projr (update_delegate_production_info ext_std production_database sample_block 22 production_chain))
     confirmation_requirement = Inr (Int_property m) \<and> m = 11"
proof -
  have "\<not> isl (update_delegate_production_info ext_std production_database sample_block 22 production_chain)" by code_simp
  note a = accepted [OF this]
  have "get_property production_chain confirmation_requirement = Inr (Int_property 10)" by code_simp
  moreover have "slots_between production_database sample_block = 1" by code_simp
  ultimately show ?thesis
    using production_updates_confirmations [OF a] by (simp add: production_chain_def)
qed

text \<open>
  Delegate pay keeps the books: the part of the block reward the delegate does not take is removed
  from the share supply, so that what the ledger holds minus the supply is unchanged for every asset.
\<close>

theorem delegate_pay_keeps_the_books:
  assumes "pay_delegate X d k c = Inr c'" and "chain_ok X c"
  shows "chain_total c' a - supply_of c' a = chain_total c a - supply_of c a \<and> chain_ok X c'"
  using pay_delegate_books [OF assms] by simp

theorem delegate_pay_keeps_the_books_witness:
  "chain_ok ext_std (projr (pay_delegate ext_std sample_database 22 sample_chain))"
proof -
  have "\<not> isl (pay_delegate ext_std sample_database 22 sample_chain)" by code_simp
  from delegate_pay_keeps_the_books [OF accepted [OF this] sample_chain_ok] show ?thesis by simp
qed

end
