(* ===== verification/Fork_Tree.thy ===== *)
theory Fork_Tree
  imports Delegates
begin

text \<open>
  The tree of all blocks the node has seen (\<^verbatim>\<open>chain_database.cpp\<close>): which blocks follow which,
  which of them are linked to the genesis block, valid, and part of the current chain. A block that
  names an unknown previous block leaves a placeholder for it; when the missing block arrives,
  everything above it becomes linked. The tables are those of the database; a raised exception leaves
  no state, as in the other theories. The loops over the layers of the tree are not bounded by the
  code, so they are partial functions, and the theorems show that they return.
\<close>

section \<open>Data\<close>

record block_fork_data =
  next_blocks :: "block_id_type list"
  is_linked :: bool
  is_valid :: "bool option"
  invalid_reason :: "exn option"
  is_included :: bool
  is_known :: bool

definition new_fork_data :: block_fork_data where
  "new_fork_data = \<lparr> next_blocks = [], is_linked = False, is_valid = None, invalid_reason = None,
     is_included = False, is_known = False \<rparr>"

definition invalid :: "block_fork_data \<Rightarrow> bool" where
  "invalid f = (case is_valid f of None \<Rightarrow> False | Some v \<Rightarrow> \<not> v)"

definition valid :: "block_fork_data \<Rightarrow> bool" where
  "valid f = (case is_valid f of None \<Rightarrow> False | Some v \<Rightarrow> v)"

definition can_link :: "block_fork_data \<Rightarrow> bool" where
  "can_link f \<longleftrightarrow> is_linked f \<and> \<not> invalid f"

record block_record =
  record_header :: block_header
  record_signature :: signature_type
  record_transaction_ids :: "transaction_id_type list"
  random_seed :: hash_type
  block_size :: nat
  latency :: int
  processing_time :: int

definition new_block_record :: "ext \<Rightarrow> full_block \<Rightarrow> hash_type \<Rightarrow> int \<Rightarrow> block_record" where
  "new_block_record X b seed l = \<lparr> record_header = full_block.block_header b,
     record_signature = delegate_signature b, record_transaction_ids = user_transaction_ids X b,
     random_seed = seed, block_size = packed_block_size X b, latency = l, processing_time = 0 \<rparr>"

record fork_tree =
  block_id_to_block_data_db :: "(block_id_type, full_block) table"
  block_id_to_block_record_db :: "(block_id_type, block_record) table"
  fork_number_db :: "(32 word, block_id_type list) table"
  fork_db :: "(block_id_type, block_fork_data) table"

definition fetch :: "('k, 'v) table \<Rightarrow> 'k \<Rightarrow> exn + 'v" where
  "fetch t k = (case map_of t k of None \<Rightarrow> Inl key_not_found | Some v \<Rightarrow> Inr v)"

definition store_fork :: "block_id_type \<Rightarrow> block_fork_data \<Rightarrow> fork_tree \<Rightarrow> fork_tree" where
  "store_fork i f t = t \<lparr> fork_db := AList.update i f (fork_db t) \<rparr>"

section \<open>Lookups\<close>

definition get_block_header :: "fork_tree \<Rightarrow> block_id_type \<Rightarrow> exn + block_header" where
  "get_block_header t i =
     (case map_of (block_id_to_block_record_db t) i of
        None \<Rightarrow> Inl unknown_block | Some r \<Rightarrow> Inr (record_header r))"

definition is_known_block :: "fork_tree \<Rightarrow> block_id_type \<Rightarrow> bool" where
  "is_known_block t i = (case map_of (fork_db t) i of None \<Rightarrow> False | Some f \<Rightarrow> is_known f)"

definition is_included_block :: "fork_tree \<Rightarrow> block_id_type \<Rightarrow> bool" where
  "is_included_block t i = (case map_of (fork_db t) i of None \<Rightarrow> False | Some f \<Rightarrow> is_included f)"

definition fetch_blocks_at_number :: "fork_tree \<Rightarrow> 32 word \<Rightarrow> block_id_type list" where
  "fetch_blocks_at_number t n = (case map_of (fork_number_db t) n of None \<Rightarrow> [] | Some ids \<Rightarrow> ids)"

section \<open>Walking the tree\<close>

text \<open>
  One round of the two marking loops visits every block of a set and collects the blocks that follow.
\<close>

primrec visit_layer ::
    "('s \<Rightarrow> block_id_type \<Rightarrow> exn + ('s \<times> block_id_type list)) \<Rightarrow> block_id_type list \<Rightarrow>
     's \<times> block_id_type list \<Rightarrow> exn + ('s \<times> block_id_type list)" where
  "visit_layer visit [] s = Inr s"
| "visit_layer visit (item # ids) s =
     bindE (visit (fst s) item) (\<lambda>(s', next). visit_layer visit ids (s', List.union next (snd s)))"

partial_function (option) walk_layers ::
    "('s \<Rightarrow> block_id_type \<Rightarrow> exn + ('s \<times> block_id_type list)) \<Rightarrow> block_id_type list \<Rightarrow> 's \<Rightarrow> (exn + 's) option" where
  "walk_layers visit next_ids s =
     (if next_ids = [] then Some (Inr s)
      else case visit_layer visit next_ids (s, []) of
             Inl e \<Rightarrow> Some (Inl e)
           | Inr (s', pending) \<Rightarrow> walk_layers visit pending s')"

declare walk_layers.simps [code]

text \<open>The state of the first loop: the highest block number so far, its block and its fork data.\<close>

type_synonym linking = "(32 word \<times> block_id_type \<times> block_fork_data) \<times> fork_tree"

definition visit_linked :: "linking \<Rightarrow> block_id_type \<Rightarrow> exn + (linking \<times> block_id_type list)" where
  "visit_linked s item =
     (let (best, t) = s
      in bindE (fetch (fork_db t) item) (\<lambda>f.
         let f' = f \<lparr> is_linked := True \<rparr>; t' = store_fork item f' t
         in bindE (fetch (block_id_to_block_record_db t') item) (\<lambda>r.
            Inr ((if block_num (record_header r) > fst best
                  then (block_num (record_header r), item, f') else best, t'), next_blocks f))))"

definition recursive_mark_as_linked ::
    "block_id_type list \<Rightarrow> fork_tree \<Rightarrow> (exn + ((block_id_type \<times> block_fork_data) \<times> fork_tree)) option" where
  "recursive_mark_as_linked ids t =
     (case walk_layers visit_linked ids ((0, 0, new_fork_data), t) of
        None \<Rightarrow> None
      | Some r \<Rightarrow> Some (bindE r (\<lambda>((highest_block_num, last_block_id, longest_fork), t').
                                 Inr ((last_block_id, longest_fork), t'))))"

definition visit_invalid :: "exn \<Rightarrow> fork_tree \<Rightarrow> block_id_type \<Rightarrow> exn + (fork_tree \<times> block_id_type list)" where
  "visit_invalid reason t item =
     bindE (fetch (fork_db t) item) (\<lambda>f.
     Inr (store_fork item (f \<lparr> is_valid := Some False, invalid_reason := Some reason \<rparr>) t, next_blocks f))"

definition recursive_mark_as_invalid :: "exn \<Rightarrow> block_id_type list \<Rightarrow> fork_tree \<Rightarrow> (exn + fork_tree) option" where
  "recursive_mark_as_invalid reason ids t = walk_layers (visit_invalid reason) ids t"

section \<open>Operations\<close>

text \<open>The tables a new block is entered into before it is linked into the tree.\<close>

definition index_block ::
    "ext \<Rightarrow> chain_database \<Rightarrow> block_id_type \<Rightarrow> full_block \<Rightarrow> fork_tree \<Rightarrow> exn + fork_tree" where
  "index_block X d i b t =
     (let h = full_block.block_header b;
          t1 = t \<lparr> block_id_to_block_data_db := AList.update i b (block_id_to_block_data_db t) \<rparr>
      in bindE (if map_of (block_id_to_block_record_db t1) i = None then
                  bindE (get_current_random_seed (Database d)) (\<lambda>seed.
                  Inr (t1 \<lparr> block_id_to_block_record_db := AList.update i
                         (new_block_record X b seed (int (wall_clock d) - int (block_timestamp h)))
                         (block_id_to_block_record_db t1) \<rparr>))
                else Inr t1) (\<lambda>t2.
         let parallel_blocks = fetch_blocks_at_number t2 (block_num h)
         in Inr (if i \<notin> set parallel_blocks
                 then t2 \<lparr> fork_number_db := AList.update (block_num h) (parallel_blocks @ [i]) (fork_number_db t2) \<rparr>
                 else t2)))"

definition link_previous :: "block_id_type \<Rightarrow> block_id_type \<Rightarrow> fork_tree \<Rightarrow> block_fork_data \<times> fork_tree" where
  "link_previous prev i t =
     (let f = (case map_of (fork_db t) prev of
                 Some f \<Rightarrow> f \<lparr> next_blocks := List.insert i (next_blocks f) \<rparr>
               | None \<Rightarrow> new_fork_data \<lparr> next_blocks := [i], is_linked := (prev = 0) \<rparr>)
      in (f, store_fork prev f t))"

definition store_and_index ::
    "ext \<Rightarrow> chain_database \<Rightarrow> block_id_type \<Rightarrow> full_block \<Rightarrow> fork_tree \<Rightarrow>
     (exn + ((block_id_type \<times> block_fork_data) \<times> fork_tree)) option" where
  "store_and_index X d i b t =
     (case index_block X d i b t of
        Inl e \<Rightarrow> Some (Inl e)
      | Inr t1 \<Rightarrow>
          let (prev_fork_data, t2) = link_previous (previous (full_block.block_header b)) i t1
          in case map_of (fork_db t2) i of
               Some current_fork \<Rightarrow>
                 if \<not> is_linked current_fork \<and> is_linked prev_fork_data then
                   (let current_fork' = current_fork \<lparr> is_linked := True \<rparr>
                    in case recursive_mark_as_linked (next_blocks current_fork') t2 of
                         None \<Rightarrow> None
                       | Some r \<Rightarrow> Some (bindE r (\<lambda>(longest_fork, t3).
                                     Inr (longest_fork, store_fork i current_fork' t3))))
                 else Some (Inr ((i, current_fork), store_fork i current_fork t2))
             | None \<Rightarrow>
                 let current_fork = new_fork_data \<lparr> is_known := True, is_linked := is_linked prev_fork_data \<rparr>
                 in Some (Inr ((i, current_fork), store_fork i current_fork t2)))"

definition mark_invalid :: "block_id_type \<Rightarrow> exn \<Rightarrow> fork_tree \<Rightarrow> (exn + fork_tree) option" where
  "mark_invalid i reason t =
     (case fetch (fork_db t) i of
        Inl e \<Rightarrow> Some (Inl e)
      | Inr f \<Rightarrow>
          let f' = f \<lparr> is_valid := Some False, invalid_reason := Some reason \<rparr>
          in recursive_mark_as_invalid reason (next_blocks f') (store_fork i f' t))"

definition mark_included :: "block_id_type \<Rightarrow> bool \<Rightarrow> fork_tree \<Rightarrow> exn + fork_tree" where
  "mark_included i included t =
     bindE (fetch (fork_db t) i) (\<lambda>f.
     let f1 = f \<lparr> is_included := included \<rparr>;
         f2 = (if included then f1 \<lparr> is_valid := Some True \<rparr> else f1)
     in Inr (store_fork i f2 t))"

text \<open>The loop of \<^verbatim>\<open>get_fork_history\<close>; the history is built from the newest block down.\<close>

partial_function (option) fork_history ::
    "fork_tree \<Rightarrow> block_id_type \<Rightarrow> block_id_type list \<Rightarrow> (exn + block_id_type list) option" where
  "fork_history t next_id history =
     (case get_block_header t next_id of
        Inl e \<Rightarrow> Some (Inl e)
      | Inr h \<Rightarrow>
          let history' = history @ [previous h]
          in if previous h = 0 then Some (Inr history')
             else case fetch (fork_db t) (previous h) of
                    Inl e \<Rightarrow> Some (Inl e)
                  | Inr f \<Rightarrow> if \<not> is_linked f then Some (Inl assert_failed)
                             else if is_included f then Some (Inr history')
                             else fork_history t (previous h) history')"

declare fork_history.simps [code]

definition get_fork_history :: "fork_tree \<Rightarrow> block_id_type \<Rightarrow> (exn + block_id_type list) option" where
  "get_fork_history t i = fork_history t i [i]"

section \<open>The blocks above a block\<close>

type_synonym fork_nodes = "block_id_type \<rightharpoonup> block_fork_data"

definition edges :: "fork_nodes \<Rightarrow> (block_id_type \<times> block_id_type) set" where
  "edges N = {(i, n). \<exists>f. N i = Some f \<and> n \<in> set (next_blocks f)}"

definition above :: "fork_nodes \<Rightarrow> block_id_type set \<Rightarrow> block_id_type set" where
  "above N S = (edges N)\<^sup>* `` S"

definition marked :: "(block_fork_data \<Rightarrow> block_fork_data) \<Rightarrow> block_id_type set \<Rightarrow> fork_nodes \<Rightarrow> fork_nodes" where
  "marked mark S N = (\<lambda>i. if i \<in> S then map_option mark (N i) else N i)"

lemma dom_marked [simp]: "dom (marked mark S N) = dom N"
  by (auto simp: marked_def split: if_split_asm)

lemma edges_marked:
  assumes "\<And>f. next_blocks (mark f) = next_blocks f"
  shows "edges (marked mark S N) = edges N"
  using assms by (fastforce simp: edges_def marked_def split: if_split_asm)

lemma marked_marked:
  assumes "\<And>f. mark (mark f) = mark f"
  shows "marked mark S (marked mark T N) = marked mark (S \<union> T) N"
  using assms by (auto simp: marked_def fun_eq_iff map_option.compositionality o_def)

lemma marked_one: "N i = Some f \<Longrightarrow> N(i \<mapsto> mark f) = marked mark {i} N"
  by (auto simp: marked_def fun_eq_iff)

lemma marked_empty [simp]: "marked mark {} N = N"
  by (simp add: marked_def)

lemma above_unfold: "above N S = S \<union> above N (edges N `` S)"
  unfolding above_def by (auto elim: converse_rtranclE intro: converse_rtrancl_into_rtrancl)

lemma above_empty [simp]: "above N {} = {}"
  by (simp add: above_def)

text \<open>
  What the walks need of the tree: every next block is in the tree, and some rank grows along the
  edges, so that the tree has no cycle. The rank of a block is its height above the block where its chain of
  previous blocks ends; since a block names its previous block by hash, such a rank exists.
\<close>

definition ranked :: "(block_id_type \<Rightarrow> nat) \<Rightarrow> fork_nodes \<Rightarrow> bool" where
  "ranked rank N \<longleftrightarrow> finite (dom N) \<and> (\<forall>(i, n) \<in> edges N. n \<in> dom N \<and> rank i < rank n)"

section \<open>What a walk does\<close>

text \<open>Visiting the blocks of a list in order.\<close>

abbreviation visit_all ::
    "('s \<Rightarrow> block_id_type \<Rightarrow> exn + ('s \<times> block_id_type list)) \<Rightarrow> block_id_type list \<Rightarrow> 's \<Rightarrow> exn + 's" where
  "visit_all visit \<equiv> foldE (\<lambda>i s. bindE (visit s i) (\<lambda>(s', next). Inr s'))"

lemma visit_layer_all: "visit_layer visit ids (s, p) = Inr (s', p') \<Longrightarrow> visit_all visit ids s = Inr s'"
  by (induction ids arbitrary: s p) (auto elim!: bindE_InrE)

locale layer_walk =
  fixes visit :: "'s \<Rightarrow> block_id_type \<Rightarrow> exn + ('s \<times> block_id_type list)"
    and nodes :: "'s \<Rightarrow> fork_nodes"
    and rest :: "'s \<Rightarrow> 'b"
    and ready :: "'b \<Rightarrow> block_id_type set"
    and mark :: "block_fork_data \<Rightarrow> block_fork_data"
  assumes visit_Inr: "nodes s i = Some f \<Longrightarrow> i \<in> ready (rest s) \<Longrightarrow>
      \<exists>s'. visit s i = Inr (s', next_blocks f) \<and> nodes s' = (nodes s)(i \<mapsto> mark f) \<and> rest s' = rest s"
    and mark_next: "next_blocks (mark f) = next_blocks f"
    and mark_mark: "mark (mark f) = mark f"
begin

lemma layer:
  assumes "set ids \<subseteq> dom (nodes s) \<inter> ready (rest s)"
  shows "\<exists>s' p'. visit_layer visit ids (s, p) = Inr (s', p') \<and> nodes s' = marked mark (set ids) (nodes s) \<and>
    rest s' = rest s \<and> set p' = edges (nodes s) `` set ids \<union> set p"
  using assms
proof (induction ids arbitrary: s p)
  case (Cons i ids)
  then obtain f where f: "nodes s i = Some f" "i \<in> ready (rest s)" by auto
  then obtain s1 where s1: "visit s i = Inr (s1, next_blocks f)" "nodes s1 = (nodes s)(i \<mapsto> mark f)"
    "rest s1 = rest s" using visit_Inr by blast
  have n1: "nodes s1 = marked mark {i} (nodes s)" using s1(2) f(1) by (simp add: marked_one)
  obtain s' p' where s': "visit_layer visit ids (s1, List.union (next_blocks f) p) = Inr (s', p')"
    "nodes s' = marked mark (set ids) (nodes s1)" "rest s' = rest s1"
    "set p' = edges (nodes s1) `` set ids \<union> (set (next_blocks f) \<union> set p)"
    using Cons.IH [of s1 "List.union (next_blocks f) p"] Cons.prems n1 s1(3) by auto
  have "edges (nodes s1) = edges (nodes s)" unfolding n1 by (rule edges_marked) (rule mark_next)
  moreover have "edges (nodes s) `` set (i # ids) = set (next_blocks f) \<union> edges (nodes s) `` set ids"
    using f by (auto simp: edges_def)
  moreover have "nodes s' = marked mark (set (i # ids)) (nodes s)"
    unfolding s'(2) n1 by (simp add: marked_marked [OF mark_mark])
  ultimately show ?case using s1(1,3) s'(1,3,4) by auto
qed simp

lemma walk_ranked:
  fixes rank :: "block_id_type \<Rightarrow> nat"
  assumes "set ids \<subseteq> dom (nodes s) \<inter> ready (rest s)" and "edges (nodes s) `` UNIV \<subseteq> dom (nodes s) \<inter> ready (rest s)"
    and "\<And>i n. (i, n) \<in> edges (nodes s) \<Longrightarrow> rank i < rank n" and "\<And>i. i \<in> dom (nodes s) \<Longrightarrow> rank i < M"
    and "\<And>i. i \<in> set ids \<Longrightarrow> k \<le> rank i"
  shows "\<exists>s'. walk_layers visit ids s = Some (Inr s') \<and> nodes s' = marked mark (above (nodes s) (set ids)) (nodes s) \<and>
    rest s' = rest s \<and> (\<exists>order. visit_all visit order s = Inr s' \<and> set order = above (nodes s) (set ids))"
  using assms
proof (induction "M - k" arbitrary: k ids s rule: less_induct)
  case less
  show ?case
  proof (cases "ids = []")
    case False
    obtain s1 p where s1: "visit_layer visit ids (s, []) = Inr (s1, p)" "nodes s1 = marked mark (set ids) (nodes s)"
      "rest s1 = rest s" "set p = edges (nodes s) `` set ids"
      using layer [OF less.prems(1), of "[]"] by auto
    have e1: "edges (nodes s1) = edges (nodes s)" unfolding s1(2) by (rule edges_marked) (rule mark_next)
    have "k < M" using False less.prems(1,4,5) by (meson Int_iff last_in_set order.strict_trans1 subset_iff)
    then have m: "M - Suc k < M - k" by simp
    have p: "set p \<subseteq> dom (nodes s1) \<inter> ready (rest s1)" "edges (nodes s1) `` UNIV \<subseteq> dom (nodes s1) \<inter> ready (rest s1)"
      unfolding s1(2-4) edges_marked [OF mark_next] dom_marked using less.prems(2) by auto
    have r: "rank i < rank n" if "(i, n) \<in> edges (nodes s1)" for i n using less.prems(3) that e1 by simp
    have b: "rank i < M" if "i \<in> dom (nodes s1)" for i using less.prems(4) that unfolding s1(2) dom_marked .
    have "Suc k \<le> rank n" if "n \<in> set p" for n
      using that less.prems(3,5) unfolding s1(4) by (force simp: Suc_le_eq intro: order.strict_trans1)
    with less.hyps [OF m p r b] obtain s' where s': "walk_layers visit p s1 = Some (Inr s')"
      "nodes s' = marked mark (above (nodes s1) (set p)) (nodes s1)" "rest s' = rest s1"
      and vis: "\<exists>order. visit_all visit order s1 = Inr s' \<and> set order = above (nodes s1) (set p)"
      by blast
    have ab: "above (nodes s1) (set p) = above (nodes s) (edges (nodes s) `` set ids)"
      by (simp add: above_def e1 s1(4))
    from vis obtain order where "visit_all visit order s1 = Inr s'" "set order = above (nodes s1) (set p)" by blast
    then have "visit_all visit (ids @ order) s = Inr s'" "set (ids @ order) = above (nodes s) (set ids)"
      using visit_layer_all [OF s1(1)] above_unfold [of "nodes s" "set ids"] ab by (simp_all add: foldE_append)
    then have "\<exists>order. visit_all visit order s = Inr s' \<and> set order = above (nodes s) (set ids)" by blast
    moreover from ab have "nodes s' = marked mark (above (nodes s) (set ids)) (nodes s)"
      using above_unfold [of "nodes s" "set ids"] by (simp add: s' s1 marked_marked [OF mark_mark] Un_commute)
    ultimately show ?thesis using s'(1,3) s1(1,3) False by (subst walk_layers.simps) simp
  qed (simp add: walk_layers.simps exI [of _ "[]"])
qed

lemma walk:
  assumes "set ids \<subseteq> dom (nodes s) \<inter> ready (rest s)" and "edges (nodes s) `` UNIV \<subseteq> ready (rest s)" and "ranked rank (nodes s)"
  obtains s' where "walk_layers visit ids s = Some (Inr s')"
    and "nodes s' = marked mark (above (nodes s) (set ids)) (nodes s)" and "rest s' = rest s"
    and "\<exists>order. visit_all visit order s = Inr s' \<and> set order = above (nodes s) (set ids)"
proof -
  have fin: "finite (rank ` dom (nodes s))" using assms(3) by (simp add: ranked_def)
  then have "\<And>i. i \<in> dom (nodes s) \<Longrightarrow> rank i < Suc (Max (rank ` dom (nodes s)))" by (simp add: less_Suc_eq_le)
  then show ?thesis
    using walk_ranked [of ids s rank "Suc (Max (rank ` dom (nodes s)))" 0] assms that by (fastforce simp: ranked_def)
qed

end

text \<open>The first loop also keeps the block with the highest number.\<close>

locale scored_walk = layer_walk +
  fixes num :: "'a \<Rightarrow> block_id_type \<Rightarrow> 32 word"
    and best :: "'a \<Rightarrow> 32 word \<times> block_id_type"
  assumes visit_best: "visit s i = Inr (s', ns) \<Longrightarrow>
      num s' = num s \<and> best s' = (if fst (best s) < num s i then (num s i, i) else best s)"
begin

lemma visit_all_best:
  assumes "visit_all visit order s = Inr s'"
  shows "fst (best s) \<le> fst (best s')" and "i \<in> set order \<Longrightarrow> num s i \<le> fst (best s')"
    and "best s' \<noteq> best s \<Longrightarrow> snd (best s') \<in> set order \<and> num s (snd (best s')) = fst (best s')"
proof -
  have "num s' = num s \<and> fst (best s) \<le> fst (best s') \<and> (\<forall>i \<in> set order. num s i \<le> fst (best s')) \<and>
      (best s' \<noteq> best s \<longrightarrow> snd (best s') \<in> set order \<and> num s (snd (best s')) = fst (best s'))"
    using assms
  proof (induction order arbitrary: s)
    case (Cons i order)
    then obtain s1 ns where s1: "visit s i = Inr (s1, ns)" and rest: "visit_all visit order s1 = Inr s'"
      by (auto elim!: bindE_InrE)
    then show ?case
      using visit_best [OF s1] Cons.IH [OF rest] by (cases "fst (best s) < num s i") (auto simp: not_less)
  qed simp
  then show "fst (best s) \<le> fst (best s')" "i \<in> set order \<Longrightarrow> num s i \<le> fst (best s')"
    "best s' \<noteq> best s \<Longrightarrow> snd (best s') \<in> set order \<and> num s (snd (best s')) = fst (best s')" by auto
qed

end

section \<open>The two walks\<close>

lemma fetch_Inr [simp]: "fetch t k = Inr v \<longleftrightarrow> map_of t k = Some v"
  by (auto simp: fetch_def split: option.split)

lemma nodes_store_fork [simp]: "map_of (fork_db (store_fork i f t)) = (map_of (fork_db t))(i \<mapsto> f)"
  by (simp add: store_fork_def fun_eq_iff update_conv)

lemma store_fork_tables [simp]:
  "block_id_to_block_record_db (store_fork i f t) = block_id_to_block_record_db t"
  "block_id_to_block_data_db (store_fork i f t) = block_id_to_block_data_db t"
  "fork_number_db (store_fork i f t) = fork_number_db t"
  by (simp_all add: store_fork_def)

abbreviation nodes_of :: "fork_tree \<Rightarrow> fork_nodes" where
  "nodes_of t \<equiv> map_of (fork_db t)"

abbreviation recorded :: "fork_tree \<Rightarrow> block_id_type set" where
  "recorded t \<equiv> dom (map_of (block_id_to_block_record_db t))"

definition number_of :: "fork_tree \<Rightarrow> block_id_type \<Rightarrow> 32 word" where
  "number_of t i = (case map_of (block_id_to_block_record_db t) i of None \<Rightarrow> 0 | Some r \<Rightarrow> block_num (record_header r))"

lemma number_of_store_fork [simp]: "number_of (store_fork i f t) = number_of t"
  by (simp add: number_of_def fun_eq_iff)

text \<open>The tables a walk does not touch.\<close>

definition block_tables where
  "block_tables t = (block_id_to_block_data_db t, block_id_to_block_record_db t, fork_number_db t)"

lemma block_tables_store_fork [simp]: "block_tables (store_fork i f t) = block_tables t"
  by (simp add: block_tables_def)

interpretation linked: scored_walk visit_linked "\<lambda>s. nodes_of (snd s)" "\<lambda>s. block_tables (snd s)"
  "\<lambda>r. dom (map_of (fst (snd r)))"
  "\<lambda>f. f \<lparr> is_linked := True \<rparr>" "\<lambda>s. number_of (snd s)" "\<lambda>s. (fst (fst s), fst (snd (fst s)))"
  by unfold_locales
    (auto simp: visit_linked_def fetch_def Let_def number_of_def [of _ i for i] block_tables_def elim!: bindE_InrE split: prod.splits option.splits if_splits)

interpretation invalidated: layer_walk "visit_invalid reason" nodes_of block_tables "\<lambda>r. UNIV"
  "\<lambda>f. f \<lparr> is_valid := Some False, invalid_reason := Some reason \<rparr>" for reason
  by unfold_locales (auto simp: visit_invalid_def fetch_def)

end
