(* ===== verification/Blocks.thy ===== *)
theory Blocks
  imports Fork_Tree Market_Execution
begin

text \<open>
  The chain of blocks (\<^verbatim>\<open>chain_database.cpp\<close>): a block is verified, evaluated on a pending state and
  applied (\<open>extend_chain\<close>), taken back with its undo state (\<open>pop_block\<close>), and a longer fork replaces the
  current one (\<open>switch_to_fork\<close>, \<open>push_block\<close>). The node also keeps the transactions that wait for a
  block. An exception does not roll the node back, so an operation of the node returns the node it
  leaves behind with its result; loops without a bound return \<open>None\<close> when they do not end. Snapshot files,
  observers and log output are left out, and the validation of waiting transactions, which the
  source starts as a task of its own, is an operation.
\<close>

section \<open>State\<close>

datatype fee_index = Fee_index (index_fees: share_type) (index_trx: transaction_id_type)

text \<open>The highest fee comes first, and the lowest id among equal fees.\<close>

instantiation fee_index :: linorder
begin

definition less_fee_index:
  "a < b \<longleftrightarrow> (if index_fees a = index_fees b then index_trx a < index_trx b
             else sint (index_fees b) < sint (index_fees a))"

definition less_eq_fee_index: "a \<le> b \<longleftrightarrow> a < b \<or> a = (b :: fee_index)"

instance
proof
  fix x y z :: fee_index
  show "x < y \<longleftrightarrow> x \<le> y \<and> \<not> y \<le> x"
    by (cases x; cases y) (auto simp: less_eq_fee_index less_fee_index)
  show "x \<le> y \<or> y \<le> x"
    by (cases x; cases y) (auto simp: less_eq_fee_index less_fee_index sint64_inject [symmetric])
  show "x \<le> x" by (simp add: less_eq_fee_index)
  show "x \<le> y \<Longrightarrow> y \<le> z \<Longrightarrow> x \<le> z"
    by (auto simp: less_eq_fee_index less_fee_index split: if_split_asm)
  show "x \<le> y \<Longrightarrow> y \<le> x \<Longrightarrow> x = y"
    by (auto simp: less_eq_fee_index less_fee_index split: if_split_asm)
qed

end

record node =
  ledger_db :: chain_database
  forks :: fork_tree
  head_header :: block_header
  head_signature :: signature_type
  undo_state_db :: "(block_id_type, pending_chain_state) table"
  block_num_to_id_db :: "(32 word, block_id_type) table"
  pending_transaction_db :: "(digest_type, signed_transaction) table"
  pending_fee_index :: "(fee_index, eval_state) table"
  pending_trx_state :: pending_chain_state

text \<open>
  A computation on a state \<open>'s\<close> that may raise an exception, which keeps the changes made before it, or not return.
\<close>

type_synonym ('s, 'a) computation = "'s \<Rightarrow> ((exn + 'a) \<times> 's) option"

type_synonym 'a action = "(node, 'a) computation"

definition returnA :: "'a \<Rightarrow> ('s, 'a) computation" where
  "returnA x n = Some (Inr x, n)"

definition raiseA :: "exn \<Rightarrow> ('s, 'a) computation" where
  "raiseA e n = Some (Inl e, n)"

definition liftE :: "exn + 'a \<Rightarrow> ('s, 'a) computation" where
  "liftE r n = Some (r, n)"

definition modifyA :: "('s \<Rightarrow> 's) \<Rightarrow> ('s, unit) computation" where
  "modifyA f n = Some (Inr (), f n)"

definition bindA :: "('s, 'a) computation \<Rightarrow> ('a \<Rightarrow> ('s, 'b) computation) \<Rightarrow> ('s, 'b) computation" where
  "bindA m f n = (case m n of
       None \<Rightarrow> None
     | Some (Inl e, n') \<Rightarrow> Some (Inl e, n')
     | Some (Inr x, n') \<Rightarrow> f x n')"

definition catchA :: "('s, 'a) computation \<Rightarrow> (exn \<Rightarrow> ('s, 'a) computation) \<Rightarrow> ('s, 'a) computation" where
  "catchA m h n = (case m n of Some (Inl e, n') \<Rightarrow> h e n' | r \<Rightarrow> r)"

primrec forA :: "('a \<Rightarrow> ('s, unit) computation) \<Rightarrow> 'a list \<Rightarrow> ('s, unit) computation" where
  "forA f [] = returnA ()"
| "forA f (x # xs) = bindA (f x) (\<lambda>_. forA f xs)"

section \<open>Evaluating a block\<close>

definition CHECKPOINT_BLOCKS :: "(32 word, block_id_type) table" where
  "CHECKPOINT_BLOCKS = []"

definition last_checkpoint_block_num :: "32 word" where
  "last_checkpoint_block_num = (if CHECKPOINT_BLOCKS = [] then 0 else fst (last (in_order CHECKPOINT_BLOCKS)))"

definition block_signee :: "ext \<Rightarrow> chain_database \<Rightarrow> full_block \<Rightarrow> exn + key" where
  "block_signee X d b =
     (if CHECKPOINT_BLOCKS \<noteq> [] \<and> last_checkpoint_block_num > block_num (full_block.block_header b) then
        bindE (get_active_delegates (Database d)) (\<lambda>active.
        bindE (get_slot_signee d (block_timestamp (full_block.block_header b)) active) (\<lambda>r. Inr (active_key r)))
      else signee X (block_num (full_block.block_header b) > BTS_CHECK_CANONICAL_SIGNATURE_FORK_BLOCK_NUM) b)"

definition verify_checkpoint :: "ext \<Rightarrow> full_block \<Rightarrow> exn + unit" where
  "verify_checkpoint X b =
     (case map_of CHECKPOINT_BLOCKS (block_num (full_block.block_header b)) of
        Some i \<Rightarrow> if i \<noteq> block_id X b then Inl failed_checkpoint_verification else Inr ()
      | None \<Rightarrow> Inr ())"

text \<open>One transaction of a block is evaluated on the state of the block itself.\<close>

definition apply_transaction ::
    "ext \<Rightarrow> chain_database \<Rightarrow> 32 word \<Rightarrow> signed_transaction \<Rightarrow> nat \<times> chain \<Rightarrow> exn + (nat \<times> chain)" where
  "apply_transaction X d num t = (\<lambda>(trx_num, c).
     bindE (evaluate X t (skip_signature_verification d) (num > BTS_CHECK_CANONICAL_SIGNATURE_FORK_BLOCK_NUM)
              (new_eval_state c (db_chain_id d))) (\<lambda>e.
     bindE (store_transaction X (transaction_id_hash X t)
              \<lparr> trx_state = evaluation.truncate e, chain_location = (unat num, trx_num) \<rparr> (current_state e)) (\<lambda>c'.
     Inr (Suc trx_num, c'))))"

definition apply_transactions :: "ext \<Rightarrow> chain_database \<Rightarrow> full_block \<Rightarrow> chain \<Rightarrow> exn + chain" where
  "apply_transactions X d b c =
     bindE (foldE (apply_transaction X d (block_num (full_block.block_header b))) (user_transactions b) (0, c)) (\<lambda>(_, c').
     Inr c')"

definition evaluate_block :: "ext \<Rightarrow> chain_database \<Rightarrow> full_block \<Rightarrow> exn + chain" where
  "evaluate_block X d b =
     bindE (block_signee X d b) (\<lambda>k.
     bindE (verify_checkpoint X b) (\<lambda>_.
     bindE (verify_header X d b k) (\<lambda>_.
     bindE (update_delegate_production_info X d b k (Pending new_pending_state (Database d))) (\<lambda>c1.
     bindE (pay_delegate X d k c1) (\<lambda>c2.
     bindE (execute_markets X d (block_timestamp (full_block.block_header b)) c2) (\<lambda>c3.
     bindE (apply_transactions X d b c3) (\<lambda>c4.
     bindE (update_active_delegate_list X d b c4) (\<lambda>c5.
     update_random_seed X (previous_secret (full_block.block_header b)) c5))))))))"

section \<open>Extending the chain\<close>

definition get_block_id :: "node \<Rightarrow> 32 word \<Rightarrow> exn + block_id_type" where
  "get_block_id n num = fetch (block_num_to_id_db n) num"

text \<open>The undo state of the block that lies one undo history back is not needed any more.\<close>

definition forget_undo_state :: "unit action" where
  "forget_undo_state n =
     (let num = head_block_num (ledger_db n) - of_nat BTS_BLOCKCHAIN_MAX_UNDO_HISTORY
      in if sint num > 0
         then bindA (liftE (get_block_id n num)) (\<lambda>old_id.
              modifyA (\<lambda>n. n \<lparr> undo_state_db := AList.delete old_id (undo_state_db n) \<rparr>)) n
         else returnA () n)"

definition save_undo_state :: "ext \<Rightarrow> block_id_type \<Rightarrow> pending_chain_state \<Rightarrow> unit action" where
  "save_undo_state X i p n =
     (if block_num (head_header n) < last_checkpoint_block_num then returnA () n
      else bindA (liftE (get_undo_state X (Database (ledger_db n)) p new_pending_state)) (\<lambda>undo_state.
           bindA (modifyA (\<lambda>n. n \<lparr> undo_state_db := AList.update i undo_state (undo_state_db n) \<rparr>)) (\<lambda>_.
           forget_undo_state)) n)"

text \<open>The changes of a pending state become the database.\<close>

definition commit :: "ext \<Rightarrow> pending_chain_state \<Rightarrow> unit action" where
  "commit X p n =
     bindA (liftE (apply_changes X p (Database (ledger_db n)))) (\<lambda>c.
       case c of
         Database d \<Rightarrow> modifyA (\<lambda>n. n \<lparr> ledger_db := d \<rparr>)
       | Pending _ _ \<Rightarrow> raiseA undefined_behaviour) n"

definition include_block :: "block_id_type \<Rightarrow> bool \<Rightarrow> unit action" where
  "include_block i included n =
     bindA (liftE (mark_included i included (forks n))) (\<lambda>t. modifyA (\<lambda>n. n \<lparr> forks := t \<rparr>)) n"

definition invalidate_block :: "block_id_type \<Rightarrow> exn \<Rightarrow> unit action" where
  "invalidate_block i e n =
     (case mark_invalid i e (forks n) of
        None \<Rightarrow> None
      | Some r \<Rightarrow> bindA (liftE r) (\<lambda>t. modifyA (\<lambda>n. n \<lparr> forks := t \<rparr>)) n)"

definition set_head_header :: "block_header \<Rightarrow> signature_type \<Rightarrow> node \<Rightarrow> node" where
  "set_head_header h sig n = n \<lparr> head_header := h, head_signature := sig,
     ledger_db := (ledger_db n) \<lparr> head_block_num := block_num h, head_block_timestamp := block_timestamp h \<rparr> \<rparr>"

definition set_head_id :: "block_id_type \<Rightarrow> node \<Rightarrow> node" where
  "set_head_id i n = n \<lparr> ledger_db := (ledger_db n) \<lparr> head_block_id := i \<rparr> \<rparr>"

definition update_head_block :: "ext \<Rightarrow> full_block \<Rightarrow> node \<Rightarrow> node" where
  "update_head_block X b n = set_head_id (block_id X b) (set_head_header (full_block.block_header b) (delegate_signature b) n)"

definition clear_pending :: "ext \<Rightarrow> full_block \<Rightarrow> node \<Rightarrow> node" where
  "clear_pending X b n = n \<lparr>
     pending_transaction_db := fold (\<lambda>t. AList.delete (transaction_hash X t (db_chain_id (ledger_db n))))
       (user_transactions b) (pending_transaction_db n),
     pending_fee_index := [], pending_trx_state := new_pending_state \<rparr>"

definition purge_unique_transactions :: "node \<Rightarrow> node" where
  "purge_unique_transactions n = n \<lparr> ledger_db := (ledger_db n) \<lparr> unique_transactions_db :=
     filter (\<lambda>x. \<not> fst x < db_now (ledger_db n)) (unique_transactions_db (ledger_db n)) \<rparr> \<rparr>"

definition pending_part :: "chain \<Rightarrow> exn + pending_chain_state" where
  "pending_part c = (case c of Pending p _ \<Rightarrow> Inr p | Database _ \<Rightarrow> Inl undefined_behaviour)"

definition apply_block :: "ext \<Rightarrow> full_block \<Rightarrow> unit action" where
  "apply_block X b n =
     bindA (liftE (bindE (evaluate_block X (ledger_db n) b) pending_part)) (\<lambda>p.
     bindA (save_undo_state X (block_id X b) p) (\<lambda>_.
     bindA (commit X p) (\<lambda>_.
     bindA (include_block (block_id X b) True) (\<lambda>_.
     bindA (modifyA (update_head_block X b)) (\<lambda>_.
     bindA (modifyA (clear_pending X b)) (\<lambda>_.
     modifyA (\<lambda>n. n \<lparr> block_num_to_id_db :=
       AList.update (block_num (full_block.block_header b)) (block_id X b) (block_num_to_id_db n) \<rparr>))))))) n"

definition extend_chain :: "ext \<Rightarrow> full_block \<Rightarrow> unit action" where
  "extend_chain X b =
     bindA (catchA (apply_block X b) (\<lambda>e. bindA (invalidate_block (block_id X b) e) (\<lambda>_. raiseA e))) (\<lambda>_.
     modifyA purge_unique_transactions)"

section \<open>Taking back the last block\<close>

definition pop_block :: "ext \<Rightarrow> unit action" where
  "pop_block X n =
     (if block_num (head_header n) = 0 then returnA () n
      else
        let i = head_block_id (ledger_db n)
        in bindA (include_block i False) (\<lambda>_.
           bindA (modifyA (\<lambda>n. n \<lparr> block_num_to_id_db := AList.delete (block_num (head_header n)) (block_num_to_id_db n) \<rparr>)) (\<lambda>_.
           bindA (liftE (fetch (undo_state_db n) i)) (\<lambda>undo_state.
           bindA (commit X undo_state) (\<lambda>_.
           bindA (modifyA (\<lambda>n. set_head_id (previous (head_header n)) n)) (\<lambda>_.
           bindA (\<lambda>n. Some (bindE (get_block_header (forks n) (head_block_id (ledger_db n))) (\<lambda>_.
                     fetch (block_id_to_block_record_db (forks n)) (head_block_id (ledger_db n))), n)) (\<lambda>r.
           modifyA (set_head_header (record_header r) (record_signature r)))))))) n)"

text \<open>The loop of \<^verbatim>\<open>switch_to_fork\<close> that takes blocks back until the fork begins.\<close>

partial_function (option) pop_until :: "ext \<Rightarrow> block_id_type \<Rightarrow> node \<Rightarrow> ((exn + unit) \<times> node) option" where
  "pop_until X i n =
     (if i = head_block_id (ledger_db n) then Some (Inr (), n)
      else case pop_block X n of
             None \<Rightarrow> None
           | Some (Inl e, n') \<Rightarrow> Some (Inl e, n')
           | Some (Inr u, n') \<Rightarrow> pop_until X i n')"

declare pop_until.simps [code]

definition switch_to_fork :: "ext \<Rightarrow> block_id_type \<Rightarrow> unit action" where
  "switch_to_fork X i n =
     (case get_fork_history (forks n) i of
        None \<Rightarrow> None
      | Some r \<Rightarrow>
          bindA (liftE r) (\<lambda>history.
          if history = [] then raiseA assert_failed
          else bindA (pop_until X (last history)) (\<lambda>_.
               forA (\<lambda>j. bindA (\<lambda>n. Some (fetch (block_id_to_block_data_db (forks n)) j, n)) (extend_chain X))
                 (rev (butlast history)))) n)"

section \<open>A new block\<close>

definition index_new_block :: "ext \<Rightarrow> full_block \<Rightarrow> (block_id_type \<times> block_fork_data) action" where
  "index_new_block X b n =
     (case store_and_index X (ledger_db n) (block_id X b) b (forks n) of
        None \<Rightarrow> None
      | Some (Inl e) \<Rightarrow> Some (Inl e, n)
      | Some (Inr (longest_fork, t)) \<Rightarrow> Some (Inr longest_fork, n \<lparr> forks := t \<rparr>))"

definition get_block_fork_data :: "block_id_type \<Rightarrow> block_fork_data action" where
  "get_block_fork_data i n = Some (of_option assert_failed (map_of (fork_db (forks n)) i), n)"

definition longer_than_head :: "block_id_type \<times> block_fork_data \<Rightarrow> bool action" where
  "longer_than_head longest n =
     (if \<not> can_link (snd longest) then Some (Inr False, n)
      else Some (bindE (fetch (block_id_to_block_record_db (forks n)) (fst longest)) (\<lambda>r.
             Inr (block_num (record_header r) > block_num (head_header n))), n))"

text \<open>The time the block took is a parameter.\<close>

definition store_processing_time :: "int \<Rightarrow> block_id_type \<Rightarrow> unit action" where
  "store_processing_time elapsed i n =
     (case map_of (block_id_to_block_record_db (forks n)) i of
        None \<Rightarrow> raiseA assert_failed n
      | Some r \<Rightarrow> modifyA (\<lambda>n. n \<lparr> forks := (forks n) \<lparr> block_id_to_block_record_db :=
                    AList.update i (r \<lparr> processing_time := elapsed \<rparr>) (block_id_to_block_record_db (forks n)) \<rparr> \<rparr>) n)"

definition is_too_old :: "chain_database \<Rightarrow> full_block \<Rightarrow> bool" where
  "is_too_old d b \<longleftrightarrow> unat (head_block_num d) > BTS_BLOCKCHAIN_MAX_UNDO_HISTORY \<and>
     block_num (full_block.block_header b) \<le> head_block_num d - of_nat BTS_BLOCKCHAIN_MAX_UNDO_HISTORY"

definition push_block :: "ext \<Rightarrow> int \<Rightarrow> full_block \<Rightarrow> block_fork_data action" where
  "push_block X elapsed b n =
     (if is_too_old (ledger_db n) b then raiseA block_older_than_undo_history n
      else
        let i = block_id X b; current_head_id = head_block_id (ledger_db n)
        in bindA (index_new_block X b) (\<lambda>longest_fork.
           bindA (get_block_fork_data i) (\<lambda>fork_data.
           bindA (if previous (full_block.block_header b) = current_head_id
                  then bindA (extend_chain X b) (\<lambda>_. get_block_fork_data i)
                  else bindA (longer_than_head longest_fork) (\<lambda>longer.
                       if longer
                       then catchA (bindA (switch_to_fork X (fst longest_fork)) (\<lambda>_. get_block_fork_data i))
                              (\<lambda>e. bindA (switch_to_fork X current_head_id) (\<lambda>_. returnA fork_data))
                       else returnA fork_data)) (\<lambda>new_fork_data.
           bindA (store_processing_time elapsed i) (\<lambda>_.
           returnA new_fork_data)))) n)"

section \<open>Waiting transactions\<close>

definition BTS_BLOCKCHAIN_MAX_PENDING_QUEUE_SIZE :: nat where
  "BTS_BLOCKCHAIN_MAX_PENDING_QUEUE_SIZE = 10"

definition evaluate_transaction :: "ext \<Rightarrow> signed_transaction \<Rightarrow> share_type \<Rightarrow> node \<Rightarrow> exn + (eval_state \<times> node)" where
  "evaluate_transaction X t required n =
     (let c = Pending new_pending_state (Pending (pending_trx_state n) (Database (ledger_db n)))
      in bindE (evaluate X t False (get_head_block_num c > BTS_CHECK_CANONICAL_SIGNATURE_FORK_BLOCK_NUM)
                  (new_eval_state c (db_chain_id (ledger_db n)))) (\<lambda>e.
         if sint (balance_of e 0 + amount (alt_fees_paid e)) < sint required then Inl insufficient_relay_fee
         else case current_state e of
                Pending p below_p \<Rightarrow>
                  bindE (apply_changes X p below_p) (\<lambda>c'.
                  bindE (pending_part c') (\<lambda>p'. Inr (e, n \<lparr> pending_trx_state := p' \<rparr>)))
              | Database _ \<Rightarrow> Inl undefined_behaviour))"

definition get_transaction_error :: "ext \<Rightarrow> signed_transaction \<Rightarrow> share_type \<Rightarrow> node \<Rightarrow> exn option" where
  "get_transaction_error X t min_fee n =
     (let c = Pending new_pending_state (Database (ledger_db n))
      in case bindE (evaluate X t False (get_head_block_num c > BTS_CHECK_CANONICAL_SIGNATURE_FORK_BLOCK_NUM)
                       (new_eval_state c (db_chain_id (ledger_db n)))) (\<lambda>e.
              if sint (balance_of e 0) < sint min_fee then Inl insufficient_relay_fee else Inr ()) of
           Inl e \<Rightarrow> Some e | Inr _ \<Rightarrow> None)"

definition index_fee :: "ext \<Rightarrow> signed_transaction \<Rightarrow> eval_state \<Rightarrow> node \<Rightarrow> node" where
  "index_fee X t e n = n \<lparr> pending_fee_index :=
     AList.update (Fee_index (balance_of e 0) (transaction_id_hash X t)) e (pending_fee_index n) \<rparr>"

text \<open>The fee for relaying grows with the square of what is too many.\<close>

definition required_relay_fee :: "bool \<Rightarrow> node \<Rightarrow> share_type" where
  "required_relay_fee override_limits n =
     (let waiting = length (pending_fee_index n); over = of_nat (waiting - BTS_BLOCKCHAIN_MAX_PENDING_QUEUE_SIZE)
      in if \<not> override_limits \<and> waiting > BTS_BLOCKCHAIN_MAX_PENDING_QUEUE_SIZE
         then relay_fee (ledger_db n) * over * over else relay_fee (ledger_db n))"

definition store_pending_transaction ::
    "ext \<Rightarrow> signed_transaction \<Rightarrow> bool \<Rightarrow> node \<Rightarrow> exn + (eval_state option \<times> node)" where
  "store_pending_transaction X t override_limits n =
     (let i = transaction_hash X t (db_chain_id (ledger_db n))
      in if map_of (pending_transaction_db n) i \<noteq> None then Inr (None, n)
         else bindE (evaluate_transaction X t (required_relay_fee override_limits n) n) (\<lambda>(e, n1).
              Inr (Some e, (index_fee X t e n1) \<lparr> pending_transaction_db := AList.update i t (pending_transaction_db n) \<rparr>)))"

definition revalidate_transaction :: "ext \<Rightarrow> digest_type \<times> signed_transaction \<Rightarrow> node \<Rightarrow> node" where
  "revalidate_transaction X = (\<lambda>(i, t) n.
     case evaluate_transaction X t (relay_fee (ledger_db n)) n of
       Inr (e, n') \<Rightarrow> index_fee X t e n'
     | Inl _ \<Rightarrow> n \<lparr> pending_transaction_db := AList.delete i (pending_transaction_db n) \<rparr>)"

definition revalidate_pending :: "ext \<Rightarrow> node \<Rightarrow> node" where
  "revalidate_pending X n =
     fold (revalidate_transaction X) (in_order (pending_transaction_db n))
       (n \<lparr> pending_fee_index := [], pending_trx_state := new_pending_state \<rparr>)"

definition get_pending_transactions :: "node \<Rightarrow> eval_state list" where
  "get_pending_transactions n = map snd (in_order (pending_fee_index n))"

section \<open>Generating a block\<close>

text \<open>A waiting transaction that is valid on the state of the block is taken, any other is left out.\<close>

definition try_transaction ::
    "ext \<Rightarrow> chain_database \<Rightarrow> signed_transaction \<Rightarrow> chain \<times> signed_transaction list \<Rightarrow> chain \<times> signed_transaction list" where
  "try_transaction X d t = (\<lambda>(c, ts).
     case bindE (evaluate X t False True (new_eval_state (Pending new_pending_state c) (db_chain_id d))) (\<lambda>e.
            case current_state e of
              Pending p below_p \<Rightarrow> apply_changes X p below_p
            | Database _ \<Rightarrow> Inl undefined_behaviour) of
       Inr c' \<Rightarrow> (c', ts @ [t])
     | Inl _ \<Rightarrow> (c, ts))"

fun select_transactions ::
    "ext \<Rightarrow> chain_database \<Rightarrow> nat \<Rightarrow> signed_transaction list \<Rightarrow> chain \<times> signed_transaction list \<Rightarrow> chain \<times> signed_transaction list" where
  "select_transactions X d used [] s = s"
| "select_transactions X d used (t # ts) s =
     (if used + packed_size X t > BTS_BLOCKCHAIN_MAX_BLOCK_SIZE then s
      else select_transactions X d (used + packed_size X t) ts (try_transaction X d t s))"

text \<open>\<open>quota\<close> is the number of transactions that are tried before five seconds have passed.\<close>

definition generate_block :: "ext \<Rightarrow> nat \<Rightarrow> time_point_sec \<Rightarrow> node \<Rightarrow> exn + full_block" where
  "generate_block X quota t n =
     bindE (execute_markets X (ledger_db n) t (Pending new_pending_state (Database (ledger_db n)))) (\<lambda>c.
     let (_, ts) = select_transactions X (ledger_db n) 0 (take (Suc quota) (map trx (get_pending_transactions n))) (c, []);
         h = head_header n;
         b = \<lparr> block_header = \<lparr> previous = (if block_num h \<noteq> 0 then block_id_hash X h (head_signature n) else 0),
                 block_num = block_num h + 1, block_timestamp = t, transaction_digest = 0,
                 header_next_secret_hash = 0, previous_secret = 0 \<rparr>,
               delegate_signature = 0, user_transactions = ts \<rparr>
     in Inr (b \<lparr> block_header := (full_block.block_header b) \<lparr> transaction_digest := calculate_transaction_digest X b \<rparr> \<rparr>))"

end
