(* ===== verification/Block_Writes.thy ===== *)
theory Block_Writes
  imports Writes Market_Laws Blocks
begin

text \<open>
  The market engine and a whole block only make stores on the pending state of the block.
\<close>

section \<open>The market engine\<close>

lemma pay_out_writes [simp]: "writes X c c' \<Longrightarrow> writes X c (pay_out X own a amt c')"
  by (simp add: pay_out_def Let_def)

lemma pay_current_short_writes:
  "pay_current_short X m quote base bid c = Inr (m', quote', bid', c') \<Longrightarrow> writes X c c'"
  unfolding pay_current_short_def Let_def by (auto elim!: bindE_InrE split: if_split_asm)

lemma pay_current_bid_writes: "pay_current_bid X b m quote bid c = Inr (quote', bid', c') \<Longrightarrow> writes X c c'"
  unfolding pay_current_bid_def Let_def by (auto elim!: bindE_InrE split: if_split_asm)

lemma pay_current_ask_writes: "pay_current_ask X q m base ask c = Inr (base', ask', c') \<Longrightarrow> writes X c c'"
  unfolding pay_current_ask_def Let_def by (auto elim!: bindE_InrE split: if_split_asm)

lemma return_collateral_writes: "return_collateral X b m r own x c = Inr (m', c') \<Longrightarrow> writes X c c'"
  unfolding return_collateral_def Let_def by (auto elim!: bindE_InrE split: if_split_asm)

lemma pay_current_cover_writes:
  "pay_current_cover X b m quote r ask c = Inr (m', quote', r', ask', c') \<Longrightarrow> writes X c c'"
  unfolding pay_current_cover_def close_position_def Let_def
  by (auto elim!: bindE_InrE dest!: return_collateral_writes split: option.split_asm if_split_asm prod.split_asm)

lemma settle_state: "settle m q b bid ask r c s = (m', s') \<Longrightarrow> pending_state s' = c"
  by (auto simp: settle_def)

lemmas payment_writes = pay_current_short_writes pay_current_bid_writes pay_current_ask_writes pay_current_cover_writes

lemma match_orders_writes:
  assumes "match_orders X m bid ask s = Inr (m', s')"
  shows "writes X (pending_state s) (pending_state s')"
  using assms
proof (cases rule: match_orders_cases)
  case short_cover
  then show ?thesis unfolding match_short_cover_def settle_short_cover_def Let_def
    by (auto elim!: bindE_InrE dest!: settle_state payment_writes intro: writes_trans split: option.split_asm prod.split_asm)
next
  case bid_cover
  then show ?thesis unfolding match_bid_cover_def settle_bid_cover_def Let_def
    by (auto elim!: bindE_InrE dest!: settle_state payment_writes intro: writes_trans split: option.split_asm prod.split_asm)
next
  case short_ask
  then show ?thesis unfolding match_short_ask_def settle_short_ask_def Let_def
    by (auto elim!: bindE_InrE dest!: settle_state payment_writes intro: writes_trans split: option.split_asm prod.split_asm)
next
  case bid_ask
  then show ?thesis unfolding match_bid_ask_def settle_bid_ask_def Let_def
    by (auto elim!: bindE_InrE dest!: settle_state payment_writes intro: writes_trans split: option.split_asm prod.split_asm)
qed simp

lemma note_match_state:
  assumes "push_market_transaction m s = Inr s1" and "add_volume m s1 = Inr s2"
  shows "pending_state (collect_match_fees m (note_prices m s2)) = pending_state s"
  using assms by (auto simp: push_market_transaction_def add_volume_def collect_match_fees_def note_prices_def Let_def
      elim!: bindE_InrE split: if_split_asm)

lemma match_turn_writes:
  assumes "match_turn X bid ask s = Inr (b, s')"
  shows "writes X (pending_state s) (pending_state s')"
  using assms unfolding match_turn_def
  by (auto elim!: bindE_InrE dest!: match_orders_writes simp: note_match_state split: turn.split_asm)

lemma match_iteration_writes:
  assumes "match_iteration X s = Inr (b, s')"
  shows "writes X (pending_state s) (pending_state s')"
  using assms
proof (cases rule: match_iteration_cases)
  case none
  then show ?thesis using next_orders_view by (fastforce simp: same_view_def)
next
  case (turn s1 bid ask)
  then show ?thesis using next_orders_view [OF turn(1)] match_turn_writes [OF turn(5)] by (simp add: same_view_def)
qed

lemma match_loop_writes:
  assumes "match_loop X s = Inr s'"
  shows "writes X (pending_state s) (pending_state s')"
  using assms by (induction rule: match_loop_induct) (auto dest: match_iteration_writes intro: writes_trans)

lemma store_results_writes: "store_results s = Inr s' \<Longrightarrow> writes X (pending_state s) (pending_state s')"
  by (auto simp: store_results_def Let_def elim!: bindE_InrE)

lemma update_market_history_writes:
  assumes "update_market_history X d t s = Inr s'"
  shows "writes X (pending_state s) (pending_state s')"
proof -
  have block: "writes X c (record_block d q b t r c')" if "writes X c c'" for c c' q b r
    using that by (auto simp: record_block_def Let_def split: list.split prod.split time_granularity.split)
  have period: "writes X c (record_period d k r c')" if "writes X c c'" for c c' k r
    using that by (auto simp: record_period_def split: option.split)
  show ?thesis using assms unfolding update_market_history_def Let_def
    by (auto elim!: bindE_InrE dest!: next_orders_view simp: same_view_def block period
        split: if_split_asm option.split_asm prod.split_asm)
qed

lemma run_market_writes:
  assumes "run_market X d t s0 = Inr (c', ts)" and "pending_state s0 = Pending p c"
  shows "writes X c c'"
proof -
  obtain b s1 s2 s3 s4 where 1: "get_next_bid X s0 = Inr (b, s1)" and 2: "match_loop X (snd (get_next_ask s1)) = Inr s2"
    and 3: "store_results s2 = Inr s3" and 4: "update_market_history X d t s3 = Inr s4" and 5: "commit_market X s4 = Inr (c', ts)"
    using assms(1) by (auto simp: run_market_def elim!: bindE_InrE)
  have "pending_state s1 = pending_state s0" using get_next_bid_view [OF 1] by (simp add: same_view_def)
  moreover have "pending_state (snd (get_next_ask s1)) = pending_state s1" using get_next_ask_view [of s1] by (simp add: same_view_def)
  ultimately have "writes X (Pending p c) (pending_state s4)"
    using match_loop_writes [OF 2] store_results_writes [OF 3] update_market_history_writes [OF 4] assms(2)
    by (metis writes_trans)
  then obtain p' where "pending_state s4 = Pending p' c" by (rule writes_pending)
  with 5 show ?thesis by (auto simp: commit_market_def elim!: bindE_InrE dest: apply_changes_writes)
qed

lemma open_market_state: "open_market d q b c = Inr s \<Longrightarrow> pending_state s = Pending new_pending_state c"
  by (auto simp: open_market_def Let_def elim!: bindE_InrE split: option.split_asm)

lemma execute_writes:
  assumes "execute X d q b t c = Inr (r, c')"
  shows "writes X c c'"
  using assms unfolding execute_def Let_def
  by (auto elim!: bindE_InrE dest!: open_market_state dest: run_market_writes split: sum.split_asm)

lemma execute_markets_writes:
  assumes "execute_markets X d t c = Inr c'"
  shows "writes X c c'"
proof -
  obtain ts c1 where 1: "foldE (execute_market X d t) (sort (remdups (get_dirty_markets (Database d)))) ([], c) = Inr (ts, c1)"
    and c': "c' = set_market_transactions ts c1"
    using assms by (auto simp: execute_markets_def elim!: bindE_InrE)
  have "writes X (snd ([] :: market_transaction list, c)) (snd (ts, c1))"
    by (rule foldE_writes [OF 1]) (auto simp: execute_market_def elim!: bindE_InrE dest: execute_writes split: if_split_asm)
  then show ?thesis by (simp add: c')
qed

section \<open>Blocks\<close>

lemma current_state_new [simp]: "current_state (new_eval_state c i) = c"
  by (simp add: new_eval_state_def evaluation.defs)

lemma apply_transactions_writes:
  assumes "apply_transactions X d b c = Inr c'"
  shows "writes X c c'"
proof -
  obtain n where 1: "foldE (apply_transaction X d (block_num (full_block.block_header b))) (user_transactions b) (0, c) = Inr (n, c')"
    using assms by (auto simp: apply_transactions_def elim!: bindE_InrE)
  have "writes X (snd (0 :: nat, c)) (snd (n, c'))"
    by (rule foldE_writes [OF 1])
      (auto simp: apply_transaction_def elim!: bindE_InrE dest!: evaluate_writes intro: writes.transaction)
  then show ?thesis by simp
qed

lemma missed_slots_writes: "missed_slots X d active t produced required c = Inr (n, c') \<Longrightarrow> writes X c c'"
proof (induction X d active t produced required c rule: missed_slots.induct)
  case (1 X d active t produced required c)
  show ?case
  proof (cases "t < produced")
    case True
    with 1(2) obtain r c1 where step: "get_slot_signee d t active = Inr r"
      "update_delegate_info X (\<lambda>s. s \<lparr> blocks_missed := blocks_missed s + 1 \<rparr>) (account_id r) c = Inr c1"
      and rest: "missed_slots X d active (t + BTS_BLOCKCHAIN_BLOCK_INTERVAL_SEC) produced (required + 2)
        (store_slot_record \<lparr> slot_start_time = t, block_producer_id = account_id r, slot_block_id = None \<rparr> c1) = Inr (n, c')"
      by (subst (asm) missed_slots.simps) (auto elim!: bindE_InrE)
    have "writes X c c1" using step(2) by (auto simp: update_delegate_info_def split: option.split_asm)
    with 1(1) [OF True step rest] show ?thesis by (meson writes_trans writes.slot)
  qed (use 1(2) in \<open>simp add: missed_slots.simps\<close>)
qed

lemma update_delegate_production_info_writes:
  assumes "update_delegate_production_info X d b k c = Inr c'"
  shows "writes X c c'"
  using assms unfolding update_delegate_production_info_def Let_def
  by (auto elim!: bindE_InrE dest!: missed_slots_writes split: option.split_asm if_split_asm) (meson writes_trans writes.intros)+

lemma pay_delegate_writes: "pay_delegate X d k c = Inr c' \<Longrightarrow> writes X c c'"
  unfolding pay_delegate_def Let_def by (auto elim!: bindE_InrE split: option.split_asm if_split_asm)

lemma end_of_block_writes:
  "update_active_delegate_list X d b c = Inr c' \<Longrightarrow> writes X c c'"
  "update_random_seed X secret c = Inr c' \<Longrightarrow> writes X c c'"
  by (auto simp: update_active_delegate_list_def set_active_delegates_def update_random_seed_def elim!: bindE_InrE
      split: if_split_asm)

lemma evaluate_block_writes:
  assumes "evaluate_block X d b = Inr c'"
  shows "writes X (Pending new_pending_state (Database d)) c'"
proof -
  obtain k c1 c2 c3 c4 c5 where
    "update_delegate_production_info X d b k (Pending new_pending_state (Database d)) = Inr c1" "pay_delegate X d k c1 = Inr c2"
    "execute_markets X d (block_timestamp (full_block.block_header b)) c2 = Inr c3" "apply_transactions X d b c3 = Inr c4"
    "update_active_delegate_list X d b c4 = Inr c5" "update_random_seed X (previous_secret (full_block.block_header b)) c5 = Inr c'"
    using assms by (auto simp: evaluate_block_def elim!: bindE_InrE)
  note steps = update_delegate_production_info_writes [OF this(1)] pay_delegate_writes [OF this(2)]
    execute_markets_writes [OF this(3)] apply_transactions_writes [OF this(4)] end_of_block_writes(1) [OF this(5)]
    end_of_block_writes(2) [OF this(6)]
  show ?thesis by (meson steps writes_trans)
qed

text \<open>The changes of a block are a well-formed pending state on the unchanged database.\<close>

lemma evaluate_block_pending:
  assumes "evaluate_block X d b = Inr c'"
  obtains p where "c' = Pending p (Database d)" "pending_ok X p"
  using evaluate_block_writes [OF assms] by (rule writes_pending) (simp add: pending_ok_new)

end
