(* ===== verification/Undo.thy ===== *)
theory Undo
  imports Chain_Laws
begin

text \<open>
  Undoing a block. \<open>get_undo_state\<close> collects for every record a pending state changes the value the
  chain below has for it, a null record where there is none; applying the changes and then the
  undo state gives back the records of the chain.
\<close>

section \<open>A table of previous values\<close>

definition restore :: "('k \<Rightarrow> 'v \<Rightarrow> 'v) \<Rightarrow> ('k, 'v) table \<Rightarrow> ('k, 'v) table \<Rightarrow> ('k, 'v) table" where
  "restore w t t0 = fold (\<lambda>(i, r). AList.update i (w i r)) t t0"

lemma map_of_restore:
  assumes "distinct (map fst t)"
  shows "map_of (restore w t t0) i = (case map_of t i of Some r \<Rightarrow> Some (w i r) | None \<Rightarrow> map_of t0 i)"
  using assms
proof (induction t arbitrary: t0)
  case (Cons x t)
  obtain k v where x: "x = (k, v)" by (cases x)
  have "map_of t k = None" using Cons.prems by (auto simp: x map_of_eq_None_iff)
  then show ?case using Cons by (cases "i = k"; cases "map_of t i") (auto simp: x restore_def)
qed (simp add: restore_def)

lemma table_ok_restore:
  assumes "table_ok fits t0" and "\<And>i r. (i, r) \<in> set t \<Longrightarrow> fits i (w i r)"
  shows "table_ok fits (restore w t t0)"
  using assms
proof (induction t arbitrary: t0)
  case (Cons x t)
  obtain k v where x: "x = (k, v)" by (cases x)
  have "table_ok fits (AList.update k (w k v) t0)"
    using Cons.prems by (simp add: x table_ok_update)
  then show ?case using Cons.IH Cons.prems(2) by (simp add: x restore_def)
qed (simp add: restore_def)

text \<open>
  If a table is written over a map and then the table of previous values, what is not null is
  as before.
\<close>

lemma overlay_restore:
  assumes "distinct (map fst t)" and "\<And>i r v. map_of t i = Some r \<Longrightarrow> m i = Some v \<Longrightarrow> w i r = v"
    and "\<And>i r. map_of t i = Some r \<Longrightarrow> m i = None \<Longrightarrow> null (w i r)"
  shows "overlay null (overlay null (live null m) (map_of t)) (map_of (restore w t [])) = live null m"
proof (rule ext)
  fix i
  show "overlay null (overlay null (live null m) (map_of t)) (map_of (restore w t [])) i = live null m i"
    using assms(2,3) [of i]
    by (cases "map_of t i"; cases "m i") (auto simp: map_of_restore [OF assms(1)] overlay_def live_def)
qed

section \<open>The undo state\<close>

definition keyed :: "ext \<Rightarrow> chain \<Rightarrow> bool" where
  "keyed X c \<longleftrightarrow>
     (\<forall>i r. get_asset_record c i = Some r \<longrightarrow> asset_record_id r = i) \<and>
     (\<forall>i r. get_balance_record c i = Some r \<longrightarrow> balance_record_id X r = i) \<and>
     (\<forall>i r. get_account_record c i = Some r \<longrightarrow> account_id r = i) \<and>
     (\<forall>k r. get_feed c k = Some r \<longrightarrow> feed r = k)"

definition prev_asset :: "chain \<Rightarrow> asset_id_type \<Rightarrow> asset_record \<Rightarrow> asset_record" where
  "prev_asset c i r = (case get_asset_record c i of Some p \<Rightarrow> p | None \<Rightarrow> asset_make_null r)"

definition prev_account :: "chain \<Rightarrow> account_id_type \<Rightarrow> account_record \<Rightarrow> account_record" where
  "prev_account c i r = (case get_account_record c i of Some p \<Rightarrow> p | None \<Rightarrow> account_make_null r)"

definition prev_balance :: "chain \<Rightarrow> balance_id_type \<Rightarrow> balance_record \<Rightarrow> balance_record" where
  "prev_balance c i r = (case get_balance_record c i of Some p \<Rightarrow> p | None \<Rightarrow> balance_make_null r)"

definition prev_slate :: "chain \<Rightarrow> slate_id_type \<Rightarrow> delegate_slate \<Rightarrow> delegate_slate" where
  "prev_slate c i r = (case get_delegate_slate c i of Some p \<Rightarrow> p | None \<Rightarrow> [])"

definition prev_order :: "(market_index_key \<rightharpoonup> order_record) \<Rightarrow> market_index_key \<Rightarrow> order_record \<Rightarrow> order_record" where
  "prev_order m k r = (case m k of Some p \<Rightarrow> p | None \<Rightarrow> new_order_record)"

definition prev_collateral :: "chain \<Rightarrow> market_index_key \<Rightarrow> collateral_record \<Rightarrow> collateral_record" where
  "prev_collateral c k r = (case get_collateral_record c k of Some p \<Rightarrow> p | None \<Rightarrow> new_collateral_record)"

definition prev_feed :: "chain \<Rightarrow> feed_index \<Rightarrow> feed_record \<Rightarrow> feed_record" where
  "prev_feed c k r = (case get_feed c k of Some p \<Rightarrow> p | None \<Rightarrow> feed_record_of k)"

lemmas prev_defs = prev_asset_def prev_account_def prev_balance_def prev_slate_def prev_order_def
  prev_collateral_def prev_feed_def

text \<open>Each loop of \<^verbatim>\<open>get_undo_state\<close> fills one table.\<close>

lemma undo_fold:
  assumes "\<And>i r u. (i, r) \<in> set t \<Longrightarrow> tab (st i r u) = AList.update i (w i r) (tab u)"
  shows "tab (fold (\<lambda>(i, r). st i r) t u) = restore w t (tab u)"
  using assms by (induction t arbitrary: u) (auto simp: restore_def split: prod.splits)

lemma fold_keeps:
  assumes "\<And>i r u. tab (st i r u) = tab u"
  shows "tab (fold (\<lambda>(i, r). st i r) t u) = tab u"
  using assms by (induction t arbitrary: u) (auto split: prod.splits)

lemmas pending_store_defs = pending_store_asset_record_def pending_store_account_record_def
  pending_store_balance_record_def pending_store_delegate_slate_def pending_store_bid_record_def
  pending_store_ask_record_def pending_store_short_record_def pending_store_collateral_record_def
  pending_store_slot_record_def pending_store_market_status_def pending_set_feed_def
  pending_store_burn_record_def pending_set_property_def

lemma undo_properties_tables:
  assumes "undo_properties c p u = Inr u'"
  shows "p_assets u' = p_assets u"
    "p_slates u' = p_slates u"
    "p_accounts u' = p_accounts u"
    "p_balances u' = p_balances u"
    "p_bids u' = p_bids u"
    "p_asks u' = p_asks u"
    "p_shorts u' = p_shorts u"
    "p_collateral u' = p_collateral u"
    "p_slots u' = p_slots u"
    "p_feeds u' = p_feeds u"
    "p_burns u' = p_burns u"
  using assms unfolding undo_properties_def
  by (rule foldE_invariant, simp, auto simp: pending_set_property_def elim!: bindE_InrE)+

lemma undo_transactions_tables:
  assumes "undo_transactions X c p u = Inr u'"
  shows "p_assets u' = p_assets u"
    "p_slates u' = p_slates u"
    "p_accounts u' = p_accounts u"
    "p_balances u' = p_balances u"
    "p_bids u' = p_bids u"
    "p_asks u' = p_asks u"
    "p_shorts u' = p_shorts u"
    "p_collateral u' = p_collateral u"
    "p_slots u' = p_slots u"
    "p_feeds u' = p_feeds u"
    "p_burns u' = p_burns u"
  using assms unfolding undo_transactions_def
  by (rule foldE_invariant, simp,
      auto simp: pending_store_transaction_def Let_def elim!: bindE_InrE split: option.split_asm)+

lemma undo_records_tables:
  assumes "pending_ok X p" and "keyed X c"
  shows "p_assets (undo_records X c p u) = restore (prev_asset c) (p_assets p) (p_assets u)"
    "p_slates (undo_records X c p u) = restore (prev_slate c) (p_slates p) (p_slates u)"
    "p_accounts (undo_records X c p u) = restore (prev_account c) (p_accounts p) (p_accounts u)"
    "p_balances (undo_records X c p u) = restore (prev_balance c) (p_balances p) (p_balances u)"
    "p_bids (undo_records X c p u) = p_bids u"
    "p_asks (undo_records X c p u) = p_asks u"
    "p_shorts (undo_records X c p u) = p_shorts u"
    "p_collateral (undo_records X c p u) = p_collateral u"
    "p_slots (undo_records X c p u) = p_slots u"
    "p_feeds (undo_records X c p u) = p_feeds u"
    "p_burns (undo_records X c p u) = p_burns u"
proof -
  have keys: "(i, a) \<in> set (p_assets p) \<Longrightarrow> i = asset_record_id a"
    "(j, b) \<in> set (p_balances p) \<Longrightarrow> j = balance_record_id X b"
    "(k, d) \<in> set (p_accounts p) \<Longrightarrow> k = account_id d" for i a j b k d
    using assms(1) by (auto simp: pending_ok_def table_ok_def)
  have ids: "get_asset_record c i = Some a \<Longrightarrow> asset_record_id a = i"
    "get_balance_record c j = Some b \<Longrightarrow> balance_record_id X b = j"
    "get_account_record c k = Some d \<Longrightarrow> account_id d = k" for i a j b k d
    using assms(2) by (auto simp: keyed_def)
  show "p_assets (undo_records X c p u) = restore (prev_asset c) (p_assets p) (p_assets u)"
    unfolding undo_records_def Let_def
    by (simp add: fold_keeps [where tab = p_assets] pending_store_defs split: option.split,
        rule undo_fold [where tab = p_assets])
       (use keys ids in \<open>auto simp: pending_store_defs prev_defs asset_make_null_def split: option.split\<close>)
  show "p_slates (undo_records X c p u) = restore (prev_slate c) (p_slates p) (p_slates u)"
    unfolding undo_records_def Let_def
    by (simp add: fold_keeps [where tab = p_slates] pending_store_defs split: option.split,
        subst undo_fold [where tab = p_slates and w = "prev_slate c"])
       (auto simp: fold_keeps [where tab = p_slates] pending_store_defs prev_defs split: option.split)
  show "p_accounts (undo_records X c p u) = restore (prev_account c) (p_accounts p) (p_accounts u)"
    unfolding undo_records_def Let_def
    by (simp add: fold_keeps [where tab = p_accounts] pending_store_defs split: option.split,
        subst undo_fold [where tab = p_accounts and w = "prev_account c"])
       (use keys ids in \<open>auto simp: fold_keeps [where tab = p_accounts] pending_store_defs prev_defs
           account_make_null_def split: option.split\<close>)
  show "p_balances (undo_records X c p u) = restore (prev_balance c) (p_balances p) (p_balances u)"
    unfolding undo_records_def Let_def
    by (subst undo_fold [where tab = p_balances and w = "prev_balance c"])
       (use keys ids in \<open>auto simp: fold_keeps [where tab = p_balances] pending_store_defs prev_defs
           balance_make_null_def balance_record_id_def split: option.split\<close>)
qed (simp_all add: undo_records_def Let_def fold_keeps [where tab = p_bids] fold_keeps [where tab = p_asks]
      fold_keeps [where tab = p_shorts] fold_keeps [where tab = p_collateral] fold_keeps [where tab = p_slots]
      fold_keeps [where tab = p_feeds] fold_keeps [where tab = p_burns] pending_store_defs split: option.split)

lemma undo_orders_tables:
  shows "p_bids (undo_orders c p u) = restore (prev_order (get_bid_record c)) (in_order (p_bids p)) (p_bids u)"
    "p_asks (undo_orders c p u) = restore (prev_order (get_ask_record c)) (in_order (p_asks p)) (p_asks u)"
    "p_shorts (undo_orders c p u) = restore (prev_order (get_short_record c)) (in_order (p_shorts p)) (p_shorts u)"
    "p_collateral (undo_orders c p u) = restore (prev_collateral c) (in_order (p_collateral p)) (p_collateral u)"
    "p_assets (undo_orders c p u) = p_assets u"
    "p_slates (undo_orders c p u) = p_slates u"
    "p_accounts (undo_orders c p u) = p_accounts u"
    "p_balances (undo_orders c p u) = p_balances u"
    "p_feeds (undo_orders c p u) = p_feeds u"
  unfolding undo_orders_def Let_def
  by (simp_all add: fold_keeps [where tab = p_assets] fold_keeps [where tab = p_slates] fold_keeps [where tab = p_accounts] fold_keeps [where tab = p_balances] fold_keeps [where tab = p_bids] fold_keeps [where tab = p_asks] fold_keeps [where tab = p_shorts] fold_keeps [where tab = p_collateral] fold_keeps [where tab = p_feeds]
      undo_fold [where tab = p_bids and w = "prev_order (get_bid_record c)"]
      undo_fold [where tab = p_asks and w = "prev_order (get_ask_record c)"]
      undo_fold [where tab = p_shorts and w = "prev_order (get_short_record c)"]
      undo_fold [where tab = p_collateral and w = "prev_collateral c"] pending_store_defs prev_defs)

lemma undo_rest_tables:
  assumes "keyed X c"
  shows "p_feeds (undo_rest c p u) = restore (prev_feed c) (in_order (p_feeds p)) (p_feeds u)"
    "p_assets (undo_rest c p u) = p_assets u"
    "p_slates (undo_rest c p u) = p_slates u"
    "p_accounts (undo_rest c p u) = p_accounts u"
    "p_balances (undo_rest c p u) = p_balances u"
    "p_bids (undo_rest c p u) = p_bids u"
    "p_asks (undo_rest c p u) = p_asks u"
    "p_shorts (undo_rest c p u) = p_shorts u"
    "p_collateral (undo_rest c p u) = p_collateral u"
proof -
  have ids: "get_feed c k = Some r \<Longrightarrow> feed r = k" for k r
    using assms unfolding keyed_def by blast
  show "p_feeds (undo_rest c p u) = restore (prev_feed c) (in_order (p_feeds p)) (p_feeds u)"
    unfolding undo_rest_def Let_def
    by (simp add: fold_keeps [where tab = p_feeds] pending_store_defs split: option.split,
        subst undo_fold [where tab = p_feeds and w = "prev_feed c"])
       (use ids in \<open>auto simp: fold_keeps [where tab = p_feeds] pending_store_defs prev_defs
           feed_record_of_def split: option.split\<close>)
qed (simp_all add: undo_rest_def Let_def fold_keeps [where tab = p_assets] fold_keeps [where tab = p_slates] fold_keeps [where tab = p_accounts] fold_keeps [where tab = p_balances] fold_keeps [where tab = p_bids] fold_keeps [where tab = p_asks] fold_keeps [where tab = p_shorts] fold_keeps [where tab = p_collateral] pending_store_defs
      split: option.split)

lemma fold_pair_invariant:
  assumes "\<And>i r u. P u \<Longrightarrow> P (st i r u)" and "P u"
  shows "P (fold (\<lambda>(i, r). st i r) t u)"
  using assms by (induction t arbitrary: u) auto

lemma pending_ok_stores:
  assumes "pending_ok X u"
  shows "pending_ok X (pending_set_property i v u)" "pending_ok X (pending_store_asset_record r1 u)"
    "pending_ok X (pending_store_account_record X r2 u)" "pending_ok X (pending_store_balance_record X r3 u)"
    "pending_ok X (pending_store_delegate_slate j s u)" "pending_ok X (pending_store_bid_record k o1 u)"
    "pending_ok X (pending_store_ask_record k o1 u)" "pending_ok X (pending_store_short_record k o1 u)"
    "pending_ok X (pending_store_collateral_record k o2 u)" "pending_ok X (pending_store_slot_record sl u)"
    "pending_ok X (pending_store_market_status ms u)" "pending_ok X (pending_set_feed f u)"
    "pending_ok X (pending_store_burn_record b bv u)"
  using assms by (simp_all add: pending_ok_def pending_store_defs)

lemma pending_ok_undo:
  assumes "get_undo_state X c p u0 = Inr u" and "pending_ok X u0"
  shows "pending_ok X u"
proof -
  obtain u1 u2 where 1: "undo_properties c p u0 = Inr u1"
    and 2: "undo_transactions X c p (undo_records X c p u1) = Inr u2"
    and u: "u = undo_rest c p (undo_orders c p u2)"
    using assms(1) by (auto simp: get_undo_state_def elim!: bindE_InrE)
  have "pending_ok X u1"
    using assms(2) undo_properties_tables [OF 1] by (simp add: pending_ok_def)
  then have "pending_ok X (undo_records X c p u1)"
    unfolding undo_records_def Let_def
    by (intro fold_pair_invariant [where P = "pending_ok X"]) (auto intro: pending_ok_stores split: option.split)
  then have "pending_ok X u2" using undo_transactions_tables [OF 2] by (simp add: pending_ok_def)
  then have "pending_ok X (undo_orders c p u2)"
    unfolding undo_orders_def Let_def by (intro fold_pair_invariant [where P = "pending_ok X"]) (auto intro: pending_ok_stores)
  then show ?thesis
    unfolding u undo_rest_def Let_def
    by (intro pending_ok_stores(1) fold_pair_invariant [where P = "pending_ok X"]) (auto intro: pending_ok_stores split: option.split)
qed

lemma undo_tables:
  assumes "get_undo_state X c p new_pending_state = Inr u" and ok: "pending_ok X p" and keys: "keyed X c"
  shows "p_assets u = restore (prev_asset c) (p_assets p) []"
    "p_slates u = restore (prev_slate c) (p_slates p) []"
    "p_accounts u = restore (prev_account c) (p_accounts p) []"
    "p_balances u = restore (prev_balance c) (p_balances p) []"
    "p_bids u = restore (prev_order (get_bid_record c)) (in_order (p_bids p)) []"
    "p_asks u = restore (prev_order (get_ask_record c)) (in_order (p_asks p)) []"
    "p_shorts u = restore (prev_order (get_short_record c)) (in_order (p_shorts p)) []"
    "p_collateral u = restore (prev_collateral c) (in_order (p_collateral p)) []"
    "p_feeds u = restore (prev_feed c) (in_order (p_feeds p)) []"
proof -
  obtain u1 u2 where 1: "undo_properties c p new_pending_state = Inr u1"
    and 2: "undo_transactions X c p (undo_records X c p u1) = Inr u2"
    and u: "u = undo_rest c p (undo_orders c p u2)"
    using assms(1) by (auto simp: get_undo_state_def elim!: bindE_InrE)
  show "p_assets u = restore (prev_asset c) (p_assets p) []"
    "p_slates u = restore (prev_slate c) (p_slates p) []"
    "p_accounts u = restore (prev_account c) (p_accounts p) []"
    "p_balances u = restore (prev_balance c) (p_balances p) []"
    "p_bids u = restore (prev_order (get_bid_record c)) (in_order (p_bids p)) []"
    "p_asks u = restore (prev_order (get_ask_record c)) (in_order (p_asks p)) []"
    "p_shorts u = restore (prev_order (get_short_record c)) (in_order (p_shorts p)) []"
    "p_collateral u = restore (prev_collateral c) (in_order (p_collateral p)) []"
    "p_feeds u = restore (prev_feed c) (in_order (p_feeds p)) []"
    by (simp_all add: u undo_rest_tables [OF keys] undo_orders_tables undo_transactions_tables [OF 2]
        undo_records_tables [OF ok keys] undo_properties_tables [OF 1] new_pending_state_def)
qed

section \<open>Undoing restores the records\<close>

lemma nulls:
  "asset_is_null (asset_make_null r)" "account_is_null (account_make_null a)" "balance_is_null (balance_make_null b)"
  "order_is_null new_order_record" "collateral_is_null new_collateral_record" "feed_is_null (feed_record_of k)"
  by (simp_all add: asset_is_null_def asset_make_null_def account_is_null_def account_make_null_def
      balance_is_null_def balance_make_null_def order_is_null_def new_order_record_def
      collateral_is_null_def new_collateral_record_def feed_is_null_def feed_record_of_def)

lemma balance_layers:
  "live balance_is_null (overlay (\<lambda>r. False) m t) = overlay balance_is_null (live balance_is_null m) t"
  by (auto simp: fun_eq_iff live_def overlay_def split: option.splits)

text \<open>Chains with the same records may differ in the head block and in other bookkeeping.\<close>

definition same_views :: "chain \<Rightarrow> chain \<Rightarrow> bool" where
  "same_views c c' \<longleftrightarrow> asset_view c' = asset_view c \<and> account_view c' = account_view c \<and> slate_view c' = slate_view c \<and>
     get_balance_record c' = get_balance_record c \<and> bid_view c' = bid_view c \<and> ask_view c' = ask_view c \<and>
     short_view c' = short_view c \<and> collateral_view c' = collateral_view c \<and> feed_view c' = feed_view c"

lemma undo_views_on:
  assumes undo: "get_undo_state X c p new_pending_state = Inr u" and ok: "pending_ok X p" and keys: "keyed X c"
    and applied: "apply_changes X p c = Inr c0" and same: "same_views c0 c1" and c2: "apply_changes X u c1 = Inr c2"
  shows "asset_view c2 = asset_view c"
    "account_view c2 = account_view c"
    "slate_view c2 = slate_view c"
    "live balance_is_null (get_balance_record c2) = live balance_is_null (get_balance_record c)"
    "bid_view c2 = bid_view c"
    "ask_view c2 = ask_view c"
    "short_view c2 = short_view c"
    "collateral_view c2 = collateral_view c"
    "feed_view c2 = feed_view c"
proof -
  note T = undo_tables [OF undo ok keys]
  note v2 = apply_changes_view [OF c2 pending_ok_undo [OF undo pending_ok_new]]
    and v0 = apply_changes_view [OF applied ok]
  have v1: "asset_view c1 = asset_view (Pending p c)" "account_view c1 = account_view (Pending p c)"
    "slate_view c1 = slate_view (Pending p c)" "balance_view c1 = balance_view (Pending p c)"
    "bid_view c1 = bid_view (Pending p c)" "ask_view c1 = ask_view (Pending p c)" "short_view c1 = short_view (Pending p c)"
    "collateral_view c1 = collateral_view (Pending p c)" "feed_view c1 = feed_view (Pending p c)"
    using same v0 by (simp_all add: same_views_def)
  have d: "distinct (map fst (p_assets p))" "distinct (map fst (p_slates p))" "distinct (map fst (p_accounts p))"
    "distinct (map fst (p_balances p))" "distinct (map fst (in_order (p_bids p)))"
    "distinct (map fst (in_order (p_asks p)))" "distinct (map fst (in_order (p_shorts p)))"
    "distinct (map fst (in_order (p_collateral p)))" "distinct (map fst (in_order (p_feeds p)))"
    using ok by (auto simp: pending_ok_def table_ok_def)
  note m = map_of_in_order [OF d(5) [simplified]] map_of_in_order [OF d(6) [simplified]]
    map_of_in_order [OF d(7) [simplified]] map_of_in_order [OF d(8) [simplified]]
    map_of_in_order [OF d(9) [simplified]]
  show "asset_view c2 = asset_view c"
    unfolding v2 asset_view_pending v1 T
    by (rule overlay_restore [OF d(1)]) (simp_all add: prev_defs nulls)
  show "account_view c2 = account_view c"
    unfolding v2 account_view_pending v1 T
    by (rule overlay_restore [OF d(3)]) (simp_all add: prev_defs nulls)
  show "slate_view c2 = slate_view c"
    unfolding v2 slate_view_pending v1 T
    by (rule overlay_restore [OF d(2)]) (simp_all add: prev_defs)
  have "get_balance_record c1 = overlay (\<lambda>r. False) (get_balance_record c) (map_of (p_balances p))"
    using v1(4) balance_view_pending [of p c] by simp
  then have b: "get_balance_record c2 = overlay (\<lambda>r. False) (overlay (\<lambda>r. False) (get_balance_record c)
      (map_of (p_balances p))) (map_of (restore (prev_balance c) (p_balances p) []))"
    using v2(2) balance_view_pending [of u c1] by (simp add: T)
  show "live balance_is_null (get_balance_record c2) = live balance_is_null (get_balance_record c)"
    unfolding b balance_layers by (rule overlay_restore [OF d(4)]) (simp_all add: prev_defs nulls)
  show "bid_view c2 = bid_view c"
    unfolding v2 bid_view_pending v1 T m(1) [symmetric]
    by (rule overlay_restore [OF d(5)]) (simp_all add: prev_defs nulls)
  show "ask_view c2 = ask_view c"
    unfolding v2 ask_view_pending v1 T m(2) [symmetric]
    by (rule overlay_restore [OF d(6)]) (simp_all add: prev_defs nulls)
  show "short_view c2 = short_view c"
    unfolding v2 short_view_pending v1 T m(3) [symmetric]
    by (rule overlay_restore [OF d(7)]) (simp_all add: prev_defs nulls)
  show "collateral_view c2 = collateral_view c"
    unfolding v2 collateral_view_pending v1 T m(4) [symmetric]
    by (rule overlay_restore [OF d(8)]) (simp_all add: prev_defs nulls)
  show "feed_view c2 = feed_view c"
    unfolding v2 feed_view_pending v1 T m(5) [symmetric]
    by (rule overlay_restore [OF d(9)]) (simp_all add: prev_defs nulls)
qed

lemma undo_views:
  assumes "get_undo_state X c p new_pending_state = Inr u" "pending_ok X p" "keyed X c"
    and "apply_changes X p c = Inr c1" "apply_changes X u c1 = Inr c2"
  shows "asset_view c2 = asset_view c"
    "account_view c2 = account_view c"
    "slate_view c2 = slate_view c"
    "live balance_is_null (get_balance_record c2) = live balance_is_null (get_balance_record c)"
    "bid_view c2 = bid_view c"
    "ask_view c2 = ask_view c"
    "short_view c2 = short_view c"
    "collateral_view c2 = collateral_view c"
    "feed_view c2 = feed_view c"
  by (rule undo_views_on [OF assms(1-4) _ assms(5)]; simp add: same_views_def)+

end
