(* ===== verification/Fork_Laws.thy ===== *)
theory Fork_Laws
  imports Fork_Tree
begin

text \<open>
  What the block tree promises: a block is linked exactly when a chain of blocks leads from the genesis
  block to it, and every operation keeps that; storing and invalidating a block always return; the
  history of a fork is the chain of previous blocks down to the current chain.
\<close>

section \<open>Linked means connected to the genesis block\<close>

definition linked_in :: "fork_nodes \<Rightarrow> block_id_type \<Rightarrow> bool" where
  "linked_in N i \<longleftrightarrow> (\<exists>f. N i = Some f \<and> is_linked f)"

text \<open>
  A linked tree, with the previous block \<open>P\<close> of every block: the genesis block is linked and follows no
  block, a block is linked exactly when its previous block is, and no other block is linked.
\<close>

definition linked_tree :: "(block_id_type \<Rightarrow> nat) \<Rightarrow> (block_id_type \<rightharpoonup> block_id_type) \<Rightarrow> fork_nodes \<Rightarrow> bool" where
  "linked_tree rank P N \<longleftrightarrow>
     ranked rank N \<and> (\<forall>(i, n) \<in> edges N. P n = Some i \<and> (linked_in N n \<longleftrightarrow> linked_in N i)) \<and>
     (\<forall>n. linked_in N n \<longrightarrow> n = 0 \<or> n \<in> Range (edges N)) \<and> linked_in N 0 \<and> 0 \<notin> Range (edges N)"

lemma above_mono_edge: "a \<in> above N S \<Longrightarrow> (a, b) \<in> edges N \<Longrightarrow> b \<in> above N S"
  by (auto simp: above_def intro: rtrancl_into_rtrancl)

lemma above_cases:
  assumes "b \<in> above N S"
  obtains "b \<in> S" | a where "a \<in> above N S" "(a, b) \<in> edges N"
  using assms by (auto simp: above_def elim: rtranclE)

lemma linked_iff_above:
  assumes "linked_tree rank P N"
  shows "linked_in N i \<longleftrightarrow> i \<in> above N {0}"
proof
  note ok = assms [unfolded linked_tree_def ranked_def]
  show "i \<in> above N {0}" if "linked_in N i"
    using that
  proof (induction i rule: measure_induct_rule [of rank])
    case (less i)
    show ?case
    proof (cases "i = 0")
      case False
      with less.prems ok obtain a where a: "(a, i) \<in> edges N" by blast
      then have "rank a < rank i" "linked_in N a" using ok less.prems by auto
      then show ?thesis using less.IH a above_mono_edge by blast
    qed (simp add: above_def)
  qed
  assume "i \<in> above N {0}"
  then have "(0, i) \<in> (edges N)\<^sup>*" by (simp add: above_def)
  then show "linked_in N i" by induction (use ok in auto)
qed

text \<open>Adding an edge to a block.\<close>

definition add_next :: "block_id_type \<Rightarrow> block_id_type \<Rightarrow> fork_nodes \<Rightarrow> fork_nodes" where
  "add_next p i N = N(p \<mapsto> (case N p of
     Some f \<Rightarrow> f \<lparr> next_blocks := List.insert i (next_blocks f) \<rparr>
   | None \<Rightarrow> new_fork_data \<lparr> next_blocks := [i], is_linked := (p = 0) \<rparr>))"

lemma edges_add_next: "edges (add_next p i N) = insert (p, i) (edges N)"
  by (auto simp: edges_def add_next_def split: option.splits if_split_asm)

lemma linked_add_next: "linked_in N 0 \<Longrightarrow> linked_in (add_next p i N) j \<longleftrightarrow> linked_in N j"
  by (cases "p = 0") (auto simp: linked_in_def add_next_def new_fork_data_def split: option.splits if_split_asm)

lemma linked_marked:
  "linked_in (marked (\<lambda>f. f \<lparr> is_linked := True \<rparr>) S N) j \<longleftrightarrow> j \<in> S \<inter> dom N \<or> linked_in N j"
  by (cases "N j") (auto simp: linked_in_def marked_def)

lemma dom_add_next [simp]: "dom (add_next p i N) = insert p (dom N)"
  by (simp add: add_next_def)

lemma edges_new_leaf:
  assumes "i \<notin> dom N" and "next_blocks f = []"
  shows "edges (N(i \<mapsto> f)) = edges N"
  using assms by (auto simp: edges_def dom_def split: if_split_asm)

lemma linked_tree_new_leaf:
  assumes "linked_tree rank P N" and "rank p < rank i" and "i \<noteq> 0" and "P i = Some p" and "i \<notin> insert p (dom N)"
    and "next_blocks f = []" and "is_linked f \<longleftrightarrow> linked_in N p"
  shows "linked_tree rank P ((add_next p i N)(i \<mapsto> f))"
proof -
  note ok = assms(1) [unfolded linked_tree_def ranked_def]
  have e: "edges ((add_next p i N)(i \<mapsto> f)) = insert (p, i) (edges N)"
    using assms(5,6) by (simp add: edges_new_leaf edges_add_next)
  have l: "linked_in ((add_next p i N)(i \<mapsto> f)) j \<longleftrightarrow> (if j = i then linked_in N p else linked_in N j)" for j
    using linked_add_next [of N p i j] ok assms(7) by (auto simp: linked_in_def)
  have "Domain (edges N) \<subseteq> dom N" by (auto simp: edges_def)
  then have i: "i \<notin> Domain (edges N)" "i \<notin> Range (edges N)" "p \<noteq> i"
    using assms(5) ok by (blast, blast, simp)
  show ?thesis
    unfolding linked_tree_def ranked_def e l using ok assms(2-5) i by auto
qed

lemma linked_tree_known:
  assumes "linked_tree rank P N" and "rank p < rank i" and "i \<noteq> 0" and "P i = Some p" and "i \<in> dom N"
    and "linked_in N i \<or> \<not> linked_in N p"
  shows "linked_tree rank P (add_next p i N)"
proof -
  note ok = assms(1) [unfolded linked_tree_def ranked_def]
  have l: "linked_in (add_next p i N) j \<longleftrightarrow> linked_in N j" for j using linked_add_next ok by blast
  have "linked_in N i \<longleftrightarrow> linked_in N p"
  proof (cases "linked_in N i")
    case True
    then obtain a where "(a, i) \<in> edges N" using ok assms(3) by blast
    then show ?thesis using ok assms(4) True by auto
  qed (use assms(6) in auto)
  then show ?thesis
    unfolding linked_tree_def ranked_def l edges_add_next using ok assms(2-5) by auto
qed

lemma linked_tree_missing_link:
  assumes "linked_tree rank P N" and "rank p < rank i" and "i \<noteq> 0" and "P i = Some p" and "i \<in> dom N"
    and "linked_in N p"
  shows "linked_tree rank P (marked (\<lambda>f. f \<lparr> is_linked := True \<rparr>) (above (add_next p i N) {i}) (add_next p i N))"
    (is "linked_tree rank P ?M")
proof -
  let ?N1 = "add_next p i N" and ?S = "above (add_next p i N) {i}"
  note ok = assms(1) [unfolded linked_tree_def ranked_def]
  have e: "edges ?M = insert (p, i) (edges N)" by (simp add: edges_marked edges_add_next)
  have parent: "P n = Some a" "n \<in> insert p (dom N)" "rank a < rank n" if "(a, n) \<in> edges ?N1" for a n
    using that ok assms(2,4,5) by (auto simp: edges_add_next)
  have dom: "j \<in> dom ?N1" if "j \<in> ?S" for j
    using that by (rule above_cases) (use assms(5) parent in auto)
  have l: "linked_in ?M j \<longleftrightarrow> j \<in> ?S \<or> linked_in N j" for j
    using linked_add_next [of N p i j] ok dom [of j] by (auto simp: linked_marked)
  have edge: "linked_in ?M n \<longleftrightarrow> linked_in ?M a" if n: "(a, n) \<in> edges ?N1" for a n
  proof (cases "n \<in> ?S")
    case True
    then have "n = i \<or> a \<in> ?S"
    proof (rule above_cases)
      fix c assume c: "c \<in> ?S" "(c, n) \<in> edges ?N1"
      then have "c = a" using parent(1) [OF n] parent(1) [OF c(2)] by simp
      then show ?thesis using c(1) by simp
    qed simp
    then show ?thesis using True parent(1) [OF n] assms(4,6) by (auto simp: l)
  next
    case False
    then have "(a, n) \<in> edges N" "a \<notin> ?S"
      using n above_mono_edge [of a ?N1 "{i}" n] above_unfold [of ?N1 "{i}"] by (auto simp: edges_add_next)
    then show ?thesis using False ok by (auto simp: l)
  qed
  have range: "n = 0 \<or> n \<in> Range (edges ?N1)" if "linked_in ?M n" for n
    using that unfolding l
  proof
    assume "n \<in> ?S"
    then show ?thesis by (rule above_cases) (auto simp: edges_add_next)
  qed (use ok in \<open>auto simp: edges_add_next\<close>)
  show ?thesis
    unfolding linked_tree_def ranked_def e using ok assms(2-5) edge range by (auto simp: l edges_add_next)
qed

section \<open>Storing a block\<close>

definition previous_of :: "fork_tree \<Rightarrow> block_id_type \<rightharpoonup> block_id_type" where
  "previous_of t n = map_option (\<lambda>r. previous (record_header r)) (map_of (block_id_to_block_record_db t) n)"

definition tree_ok :: "(block_id_type \<Rightarrow> nat) \<Rightarrow> fork_tree \<Rightarrow> bool" where
  "tree_ok rank t \<longleftrightarrow> linked_tree rank (previous_of t) (nodes_of t)"

lemma previous_of_store_fork [simp]: "previous_of (store_fork i f t) = previous_of t"
  by (simp add: previous_of_def fun_eq_iff)

lemma recorded_previous: "dom (previous_of t) = recorded t"
  by (auto simp: previous_of_def)

lemma edges_recorded: "linked_tree rank (previous_of t) N \<Longrightarrow> Range (edges N) \<subseteq> recorded t"
  unfolding linked_tree_def recorded_previous [symmetric] by blast

lemma same_tables:
  assumes "block_tables t' = block_tables t"
  shows "previous_of t' = previous_of t" "number_of t' = number_of t"
    "block_id_to_block_data_db t' = block_id_to_block_data_db t"
  using assms by (auto simp: block_tables_def previous_of_def number_of_def fun_eq_iff)

lemma recursive_mark_as_linked_walk:
  assumes "set ids \<subseteq> dom (nodes_of t) \<inter> recorded t" and "Range (edges (nodes_of t)) \<subseteq> recorded t"
    and "ranked rank (nodes_of t)"
  obtains best t' where "recursive_mark_as_linked ids t = Some (Inr (best, t'))"
    and "nodes_of t' = marked (\<lambda>f. f \<lparr> is_linked := True \<rparr>) (above (nodes_of t) (set ids)) (nodes_of t)"
    and "block_tables t' = block_tables t"
    and "\<And>n. n \<in> above (nodes_of t) (set ids) \<Longrightarrow> 0 < number_of t n \<Longrightarrow>
      fst best \<in> above (nodes_of t) (set ids) \<and> number_of t n \<le> number_of t (fst best)"
proof -
  let ?s = "((0, 0, new_fork_data), t) :: linking"
  have pre: "set ids \<subseteq> dom (nodes_of (snd ?s)) \<inter> dom (map_of (fst (snd (block_tables (snd ?s)))))"
    "edges (nodes_of (snd ?s)) `` UNIV \<subseteq> dom (map_of (fst (snd (block_tables (snd ?s)))))" "ranked rank (nodes_of (snd ?s))"
    using assms by (auto simp: block_tables_def)
  obtain s' where s': "walk_layers visit_linked ids ?s = Some (Inr s')"
    "nodes_of (snd s') = marked (\<lambda>f. f \<lparr> is_linked := True \<rparr>) (above (nodes_of t) (set ids)) (nodes_of t)"
    "block_tables (snd s') = block_tables t"
    and "\<exists>order. visit_all visit_linked order ?s = Inr s' \<and> set order = above (nodes_of t) (set ids)"
    by (rule linked.walk [OF pre, unfolded snd_conv])
  then obtain order where ord: "visit_all visit_linked order ?s = Inr s'" "set order = above (nodes_of t) (set ids)"
    by blast
  obtain num i f t' where st: "s' = ((num, i, f), t')" by (metis prod.exhaust)
  have best: "number_of t n \<le> num \<and> (num \<noteq> 0 \<longrightarrow> i \<in> set order \<and> number_of t i = num)" if "n \<in> set order" for n
    using linked.visit_all_best(2,3) [OF ord(1)] that st by auto
  show ?thesis
  proof (rule that [of "(i, f)" t'])
    show "fst (i, f) \<in> above (nodes_of t) (set ids) \<and> number_of t n \<le> number_of t (fst (i, f))"
      if "n \<in> above (nodes_of t) (set ids)" "0 < number_of t n" for n
    proof -
      have "number_of t n \<le> num" "num \<noteq> 0 \<longrightarrow> i \<in> set order \<and> number_of t i = num"
        using best that(1) ord(2) by blast+
      moreover from this that(2) have "num \<noteq> 0" by auto
      ultimately show ?thesis using ord(2) by simp
    qed
  qed (use s' st in \<open>simp_all add: recursive_mark_as_linked_def\<close>)
qed

lemma index_block_Inr:
  assumes "get_current_random_seed (Database d) = Inr seed"
  obtains t1 where "index_block X d i b t = Inr t1" and "nodes_of t1 = nodes_of t"
    and "map_of (block_id_to_block_data_db t1) i = Some b"
    and "previous_of t1 = (if previous_of t i = None
           then (previous_of t)(i \<mapsto> previous (full_block.block_header b)) else previous_of t)"
proof (cases "map_of (block_id_to_block_record_db t) i")
  case None
  then show ?thesis
    using that assms
    by (auto simp: index_block_def Let_def previous_of_def new_block_record_def fun_eq_iff update_conv)
next
  case (Some r)
  then show ?thesis
    using that by (auto simp: index_block_def Let_def previous_of_def fun_eq_iff update_conv)
qed

lemma link_previous_nodes:
  "link_previous p i t = (the (add_next p i (nodes_of t) p), store_fork p (the (add_next p i (nodes_of t) p)) t)"
  "nodes_of (store_fork p (the (add_next p i (nodes_of t) p)) t) = add_next p i (nodes_of t)"
  by (auto simp: link_previous_def Let_def add_next_def split: option.split)

lemma linked_tree_more:
  "linked_tree rank P N \<Longrightarrow> (\<And>n a. P n = Some a \<Longrightarrow> P' n = Some a) \<Longrightarrow> linked_tree rank P' N"
  unfolding linked_tree_def by fastforce

text \<open>
  The assumptions on a block that is stored: it is not the genesis block, it comes after its previous
  block in the rank, and a block already stored under its identifier names the same previous block.
\<close>

definition proper_block :: "(block_id_type \<Rightarrow> nat) \<Rightarrow> block_id_type \<Rightarrow> full_block \<Rightarrow> fork_tree \<Rightarrow> bool" where
  "proper_block rank i b t \<longleftrightarrow>
     i \<noteq> 0 \<and> rank (previous (full_block.block_header b)) < rank i \<and>
     (previous_of t i = None \<or> previous_of t i = Some (previous (full_block.block_header b)))"

lemma marked_insert: "N i = Some g \<Longrightarrow> (marked mark S N)(i \<mapsto> mark g) = marked mark (insert i S) N"
  by (auto simp: marked_def fun_eq_iff)

text \<open>The case of the missing link, after the previous block is updated.\<close>

lemma missing_link_steps:
  assumes lt: "linked_tree rank (previous_of t2) N" and N1: "nodes_of t2 = add_next p i N"
    and ri: "rank p < rank i" "i \<noteq> 0" "previous_of t2 i = Some p" and g: "nodes_of t2 i = Some g" "i \<in> dom N"
    and l: "linked_in N p"
  obtains best t3 where "recursive_mark_as_linked (next_blocks g) t2 = Some (Inr (best, t3))"
    and "tree_ok rank (store_fork i (g \<lparr> is_linked := True \<rparr>) t3)" and "block_tables t3 = block_tables t2"
    and "edges (nodes_of (store_fork i (g \<lparr> is_linked := True \<rparr>) t3)) = insert (p, i) (edges N)"
    and "\<And>n. n \<in> above (nodes_of t2) (set (next_blocks g)) \<Longrightarrow> 0 < number_of t2 n \<Longrightarrow>
      fst best \<in> above (nodes_of t2) (set (next_blocks g)) \<and> number_of t2 n \<le> number_of t2 (fst best)"
proof -
  let ?link = "\<lambda>f :: block_fork_data. f \<lparr> is_linked := True \<rparr>" and ?N1 = "add_next p i N"
  have next_g: "edges ?N1 `` {i} = set (next_blocks g)" using g(1) N1 by (auto simp: edges_def)
  note ok = linked_tree_missing_link [OF lt ri(1,2,3) g(2) l]
  have r: "ranked rank ?N1" "Range (edges ?N1) \<subseteq> recorded t2"
    using ok edges_recorded [OF ok] by (auto simp: linked_tree_def ranked_def edges_marked)
  have sub: "set (next_blocks g) \<subseteq> dom ?N1 \<inter> recorded t2"
  proof
    fix n assume "n \<in> set (next_blocks g)"
    then have "(i, n) \<in> edges ?N1" using next_g by blast
    then show "n \<in> dom ?N1 \<inter> recorded t2" using r unfolding ranked_def by blast
  qed
  obtain best t3 where t3: "recursive_mark_as_linked (next_blocks g) t2 = Some (Inr (best, t3))"
    "nodes_of t3 = marked ?link (above ?N1 (set (next_blocks g))) ?N1" "block_tables t3 = block_tables t2"
    "\<And>n. n \<in> above ?N1 (set (next_blocks g)) \<Longrightarrow> 0 < number_of t2 n \<Longrightarrow>
      fst best \<in> above ?N1 (set (next_blocks g)) \<and> number_of t2 n \<le> number_of t2 (fst best)"
    by (rule recursive_mark_as_linked_walk [of "next_blocks g" t2 rank, unfolded N1, OF sub r(2,1)]) blast
  have "nodes_of (store_fork i (?link g) t3) = marked ?link (above ?N1 {i}) ?N1"
    using g(1) N1 above_unfold [of ?N1 "{i}"] marked_insert [of ?N1 i g ?link] by (simp add: t3(2) next_g)
  then show ?thesis
    using that [OF t3(1) _ t3(3) _ t3(4) [folded N1]] ok same_tables(1) [OF t3(3)]
    by (simp add: tree_ok_def edges_marked edges_add_next)
qed

lemma store_and_index_steps:
  assumes ok: "tree_ok rank t" and i: "proper_block rank i b t"
    and seed: "get_current_random_seed (Database d) = Inr seed"
  defines "p \<equiv> previous (full_block.block_header b)"
  obtains best t' where "store_and_index X d i b t = Some (Inr (best, t'))" and "tree_ok rank t'"
    and "map_of (block_id_to_block_data_db t') i = Some b" and "i \<in> dom (nodes_of t')"
    and "edges (nodes_of t') = insert (p, i) (edges (nodes_of t))"
proof -
  obtain t1 where t1: "index_block X d i b t = Inr t1" "nodes_of t1 = nodes_of t"
    "map_of (block_id_to_block_data_db t1) i = Some b"
    "previous_of t1 = (if previous_of t i = None then (previous_of t)(i \<mapsto> p) else previous_of t)"
    unfolding p_def using index_block_Inr [OF seed] by blast
  let ?N = "nodes_of t" and ?P = "previous_of t1"
  have P: "?P i = Some p" using i t1(4) by (auto simp: proper_block_def p_def)
  have lt: "linked_tree rank ?P ?N"
    by (rule linked_tree_more [of rank "previous_of t"]) (use ok t1(4) in \<open>auto simp: tree_ok_def\<close>)
  have ri: "rank p < rank i" "i \<noteq> 0" "p \<noteq> i" using i by (auto simp: proper_block_def p_def)
  define f where "f = the (add_next p i ?N p)"
  define t2 where "t2 = store_fork p f t1"
  have t2: "link_previous p i t1 = (f, t2)" "nodes_of t2 = add_next p i ?N" "previous_of t2 = ?P"
    "map_of (block_id_to_block_data_db t2) i = Some b"
    using link_previous_nodes [of p i t1] t1(2,3) by (simp_all add: f_def t2_def)
  have f: "is_linked f \<longleftrightarrow> linked_in ?N p"
    using linked_add_next [of ?N p i p] lt by (auto simp: linked_tree_def linked_in_def f_def add_next_def)
  have step: "store_and_index X d i b t = r" if "(case nodes_of t2 i of
       Some g \<Rightarrow> if \<not> is_linked g \<and> is_linked f then
           (case recursive_mark_as_linked (next_blocks g) t2 of None \<Rightarrow> None
            | Some r \<Rightarrow> Some (bindE r (\<lambda>(best, t3). Inr (best, store_fork i (g \<lparr> is_linked := True \<rparr>) t3))))
         else Some (Inr ((i, g), store_fork i g t2))
     | None \<Rightarrow> Some (Inr ((i, new_fork_data \<lparr> is_known := True, is_linked := is_linked f \<rparr>),
         store_fork i (new_fork_data \<lparr> is_known := True, is_linked := is_linked f \<rparr>) t2))) = r" for r
    using that t1(1) t2(1) unfolding store_and_index_def p_def [symmetric]
    by (cases "nodes_of t2 i") (auto simp: Let_def split: if_split_asm)
  show ?thesis
  proof (cases "nodes_of t2 i")
    case None
    then have "i \<notin> insert p (dom ?N)" using t2(2) by (metis dom_add_next domIff)
    then show ?thesis
      using that [OF step] None linked_tree_new_leaf [OF lt ri(1,2) P, of "new_fork_data \<lparr> is_known := True, is_linked := is_linked f \<rparr>"]
        edges_new_leaf [of i "add_next p i ?N"] f t2
      by (simp add: tree_ok_def new_fork_data_def edges_add_next)
  next
    case (Some g)
    then have g: "i \<in> dom ?N" "?N i = Some g" using t2(2) ri(3) by (auto simp: add_next_def)
    show ?thesis
    proof (cases "\<not> is_linked g \<and> is_linked f")
      case True
      then have l: "linked_in ?N p" using f by simp
      obtain best t3 where t3: "recursive_mark_as_linked (next_blocks g) t2 = Some (Inr (best, t3))"
        "tree_ok rank (store_fork i (g \<lparr> is_linked := True \<rparr>) t3)" "block_tables t3 = block_tables t2"
        "edges (nodes_of (store_fork i (g \<lparr> is_linked := True \<rparr>) t3)) = insert (p, i) (edges ?N)"
        by (rule missing_link_steps [OF lt [folded t2(3)] t2(2) ri(1,2) P [folded t2(3)] Some g(1) l])
      then show ?thesis
        using that [OF step] Some True same_tables(3) [OF t3(3)] t2(4) by simp
    next
      case False
      then have "linked_tree rank ?P (add_next p i ?N)"
        using linked_tree_known [OF lt ri(1,2) P g(1)] f g(2) by (auto simp: linked_in_def)
      moreover have "nodes_of (store_fork i g t2) = add_next p i ?N" using Some t2(2) by (simp add: map_upd_triv)
      ultimately show ?thesis
        using that [OF step] Some False t2 by (auto simp: tree_ok_def edges_add_next)
    qed
  qed
qed

section \<open>Invalid blocks and the history of a fork\<close>

abbreviation invalidate :: "exn \<Rightarrow> block_fork_data \<Rightarrow> block_fork_data" where
  "invalidate reason f \<equiv> f \<lparr> is_valid := Some False, invalid_reason := Some reason \<rparr>"

lemma mark_invalid_steps:
  assumes r: "ranked rank (nodes_of t)" and f: "nodes_of t i = Some f"
  obtains t' where "mark_invalid i reason t = Some (Inr t')"
    and "nodes_of t' = marked (invalidate reason) (above (nodes_of t) {i}) (nodes_of t)"
    and "block_tables t' = block_tables t"
proof -
  let ?N = "nodes_of t" and ?t1 = "store_fork i (invalidate reason f) t"
  have N1: "nodes_of ?t1 = marked (invalidate reason) {i} ?N" using marked_one [of ?N i f "invalidate reason"] f by simp
  have e: "edges (nodes_of ?t1) = edges ?N" unfolding N1 by (rule edges_marked) simp
  have d: "dom (nodes_of ?t1) = dom ?N" unfolding N1 by simp
  have next_f: "edges ?N `` {i} = set (next_blocks f)" using f by (auto simp: edges_def)
  have "n \<in> dom ?N" if "n \<in> set (next_blocks f)" for n
  proof -
    have "(i, n) \<in> edges ?N" using that next_f by blast
    then show ?thesis using r unfolding ranked_def by blast
  qed
  then have "set (next_blocks f) \<subseteq> dom (nodes_of ?t1) \<inter> UNIV" "edges (nodes_of ?t1) `` UNIV \<subseteq> UNIV" "ranked rank (nodes_of ?t1)"
    using r unfolding ranked_def e d by auto
  then obtain t' where t': "walk_layers (visit_invalid reason) (next_blocks f) ?t1 = Some (Inr t')"
    "nodes_of t' = marked (invalidate reason) (above (nodes_of ?t1) (set (next_blocks f))) (nodes_of ?t1)"
    "block_tables t' = block_tables ?t1"
    by (rule invalidated.walk)
  have "above (nodes_of ?t1) (set (next_blocks f)) \<union> {i} = above ?N {i}"
    using above_unfold [of ?N "{i}"] unfolding above_def e next_f by (simp add: Un_commute)
  then have "nodes_of t' = marked (invalidate reason) (above ?N {i}) ?N"
    unfolding t'(2) N1 by (simp add: marked_marked)
  then show ?thesis
    using that t' f by (simp add: mark_invalid_def recursive_mark_as_invalid_def fetch_def)
qed

text \<open>A chain of previous blocks.\<close>

fun down :: "(block_id_type \<rightharpoonup> block_id_type) \<Rightarrow> block_id_type \<Rightarrow> block_id_type list \<Rightarrow> bool" where
  "down P i [] \<longleftrightarrow> True"
| "down P i (a # h) \<longleftrightarrow> P i = Some a \<and> down P a h"

lemma fork_history_returns:
  assumes ok: "tree_ok rank t" and "linked_in (nodes_of t) i" and "i \<noteq> 0"
  shows "\<exists>h. fork_history t i history = Some (Inr (history @ h)) \<and> h \<noteq> [] \<and> down (previous_of t) i h \<and>
    (last h = 0 \<or> is_included_block t (last h)) \<and> list_all (\<lambda>j. j \<noteq> 0 \<and> \<not> is_included_block t j) (butlast h)"
  using assms(2,3)
proof (induction i arbitrary: history rule: measure_induct_rule [of rank])
  case (less i)
  note lt = ok [unfolded tree_ok_def linked_tree_def ranked_def]
  obtain a where a: "(a, i) \<in> edges (nodes_of t)" using lt less.prems by blast
  then obtain r where r: "map_of (block_id_to_block_record_db t) i = Some r" "previous (record_header r) = a"
    using lt by (fastforce simp: previous_of_def)
  then have P: "previous_of t i = Some a" by (simp add: previous_of_def)
  have "rank a < rank i" "linked_in (nodes_of t) a" using lt a less.prems by auto
  then obtain f where f: "nodes_of t a = Some f" "is_linked f" and ra: "rank a < rank i"
    by (auto simp: linked_in_def)
  note eq = fork_history.simps [of t i history]
  show ?case
  proof (cases "a = 0 \<or> is_included f")
    case True
    then have "fork_history t i history = Some (Inr (history @ [a]))"
      using r f by (subst eq) (auto simp: get_block_header_def fetch_def Let_def)
    then show ?thesis using True P f by (intro exI [of _ "[a]"]) (auto simp: is_included_block_def)
  next
    case False
    then have "fork_history t i history = fork_history t a (history @ [a])"
      using r f by (subst eq) (simp add: get_block_header_def fetch_def Let_def)
    moreover obtain h where "fork_history t a (history @ [a]) = Some (Inr ((history @ [a]) @ h))" "h \<noteq> []"
      "down (previous_of t) a h" "last h = 0 \<or> is_included_block t (last h)"
      "list_all (\<lambda>j. j \<noteq> 0 \<and> \<not> is_included_block t j) (butlast h)"
      using less.IH [OF ra, of "history @ [a]"] False f by (auto simp: linked_in_def)
    ultimately show ?thesis
      using False P f by (intro exI [of _ "a # h"]) (auto simp: is_included_block_def)
  qed
qed

section \<open>Properties\<close>

text \<open>
  C3. Storing a block keeps the tree correct, in every case the code distinguishes: the loops return, the
  data of the block is stored, the only new connection is the one from its previous block, and
  afterwards a block is marked as linked exactly when a chain of blocks leads to it from the genesis block.
\<close>

theorem store_and_index_keeps_the_tree:
  assumes "tree_ok rank t" and "proper_block rank i b t" and "get_current_random_seed (Database d) = Inr seed"
  shows "\<exists>best t'. store_and_index X d i b t = Some (Inr (best, t')) \<and> tree_ok rank t' \<and>
    map_of (block_id_to_block_data_db t') i = Some b \<and>
    edges (nodes_of t') = insert (previous (full_block.block_header b), i) (edges (nodes_of t)) \<and>
    (\<forall>j. linked_in (nodes_of t') j \<longleftrightarrow> (0, j) \<in> (edges (nodes_of t'))\<^sup>*)"
proof -
  obtain best t' where "store_and_index X d i b t = Some (Inr (best, t'))" "tree_ok rank t'"
    "map_of (block_id_to_block_data_db t') i = Some b"
    "edges (nodes_of t') = insert (previous (full_block.block_header b), i) (edges (nodes_of t))"
    using assms by (rule store_and_index_steps)
  moreover from this have "linked_in (nodes_of t') j \<longleftrightarrow> (0, j) \<in> (edges (nodes_of t'))\<^sup>*" for j
    using linked_iff_above [of rank "previous_of t'" "nodes_of t'" j] by (simp add: tree_ok_def above_def)
  ultimately show ?thesis by blast
qed

definition genesis_tree :: fork_tree where
  "genesis_tree = \<lparr> block_id_to_block_data_db = [], block_id_to_block_record_db = [], fork_number_db = [],
     fork_db = [(0, new_fork_data \<lparr> is_valid := Some True, is_included := True, is_linked := True, is_known := True \<rparr>)] \<rparr>"

lemma genesis_tree_ok: "tree_ok rank genesis_tree"
proof -
  have "edges (nodes_of genesis_tree) = {}" by (auto simp: edges_def genesis_tree_def new_fork_data_def split: if_split_asm)
  then show ?thesis
    by (auto simp: tree_ok_def linked_tree_def ranked_def linked_in_def genesis_tree_def split: if_split_asm)
qed

text \<open>Block 5 follows block 3, which follows the genesis block; block 5 arrives first.\<close>

definition orphan_block :: full_block where
  "orphan_block = sample_block"

definition missing_block :: full_block where
  "missing_block = sample_block \<lparr> block_header := sample_header \<lparr> previous := 0, block_num := 5, block_timestamp := 990 \<rparr> \<rparr>"

definition orphan_tree :: fork_tree where
  "orphan_tree = snd (projr (the (store_and_index ext_std production_database 5 orphan_block genesis_tree)))"

lemma production_seed: "get_current_random_seed (Database production_database) = Inr 1"
  by code_simp

theorem store_and_index_keeps_the_tree_witness:
  "\<exists>best t'. store_and_index ext_std production_database 5 orphan_block genesis_tree = Some (Inr (best, t')) \<and>
     \<not> linked_in (nodes_of t') 5"
proof -
  have p: "proper_block id 5 orphan_block genesis_tree"
    by (simp add: proper_block_def orphan_block_def sample_block_def sample_header_def previous_of_def genesis_tree_def)
  obtain best t' where t': "store_and_index ext_std production_database 5 orphan_block genesis_tree = Some (Inr (best, t'))"
    "edges (nodes_of t') = insert (3, 5) (edges (nodes_of genesis_tree))"
    "linked_in (nodes_of t') 5 \<longleftrightarrow> (0, 5) \<in> (edges (nodes_of t'))\<^sup>*"
    using store_and_index_keeps_the_tree [OF genesis_tree_ok p production_seed, of ext_std]
    by (auto simp: orphan_block_def sample_block_def sample_header_def)
  have "edges (nodes_of genesis_tree) = {}" by (auto simp: edges_def genesis_tree_def new_fork_data_def split: if_split_asm)
  then have "(0, 5) \<notin> (edges (nodes_of t'))\<^sup>*" using t'(2) by (auto elim: converse_rtranclE)
  then show ?thesis using t' by blast
qed

text \<open>
  Marking a block invalid returns, marks exactly the block and all blocks above it with the reason,
  and changes nothing else.
\<close>

theorem mark_invalid_reaches_all_above:
  assumes "ranked rank (nodes_of t)" and "nodes_of t i = Some f"
  shows "\<exists>t'. mark_invalid i reason t = Some (Inr t') \<and>
    (\<forall>j. map_of (fork_db t') j =
       (if (i, j) \<in> (edges (nodes_of t))\<^sup>*
        then map_option (\<lambda>g. g \<lparr> is_valid := Some False, invalid_reason := Some reason \<rparr>) (nodes_of t j)
        else nodes_of t j))"
proof -
  obtain t' where t': "mark_invalid i reason t = Some (Inr t')"
    "nodes_of t' = marked (invalidate reason) (above (nodes_of t) {i}) (nodes_of t)"
    using assms by (rule mark_invalid_steps)
  have "nodes_of t' j = (if (i, j) \<in> (edges (nodes_of t))\<^sup>* then map_option (invalidate reason) (nodes_of t j) else nodes_of t j)" for j
    unfolding t'(2) by (simp add: marked_def above_def)
  then show ?thesis using t'(1) by blast
qed

theorem mark_invalid_reaches_all_above_witness:
  "\<exists>t'. mark_invalid 0 assert_failed genesis_tree = Some (Inr t') \<and> (\<exists>f. map_of (fork_db t') 0 = Some f \<and> invalid f)"
proof -
  have "ranked id (nodes_of genesis_tree)" using genesis_tree_ok by (simp add: tree_ok_def linked_tree_def)
  moreover obtain f where "nodes_of genesis_tree 0 = Some f" by (simp add: genesis_tree_def)
  ultimately obtain t' where "mark_invalid 0 assert_failed genesis_tree = Some (Inr t')"
    "map_of (fork_db t') 0 = Some (invalidate assert_failed f)"
    using mark_invalid_reaches_all_above [of id genesis_tree 0 f assert_failed] by auto
  then show ?thesis by (simp add: invalid_def)
qed

text \<open>
  C28. The history of a linked fork: the loop returns the chain of previous blocks from the given block down to
  the first one that is in the current chain (or the genesis block), with no such block before the last.
\<close>

theorem fork_history_leads_to_the_chain:
  assumes "tree_ok rank t" and "linked_in (nodes_of t) i" and "i \<noteq> 0"
  shows "\<exists>h. get_fork_history t i = Some (Inr (i # h)) \<and> h \<noteq> [] \<and> down (previous_of t) i h \<and>
    (last h = 0 \<or> is_included_block t (last h)) \<and> list_all (\<lambda>j. j \<noteq> 0 \<and> \<not> is_included_block t j) (butlast h)"
  using fork_history_returns [OF assms, of "[i]"] by (simp add: get_fork_history_def)

definition linked_tree_sample :: fork_tree where
  "linked_tree_sample = snd (projr (the (store_and_index ext_std production_database 3 missing_block genesis_tree)))"

theorem fork_history_leads_to_the_chain_witness:
  "\<exists>h. get_fork_history linked_tree_sample 3 = Some (Inr (3 # h)) \<and> h \<noteq> []"
proof -
  have prev: "previous (full_block.block_header missing_block) = 0" by (simp add: missing_block_def)
  have p: "proper_block id 3 missing_block genesis_tree"
    by (simp add: proper_block_def missing_block_def sample_block_def sample_header_def previous_of_def genesis_tree_def)
  obtain best t' where t': "store_and_index ext_std production_database 3 missing_block genesis_tree = Some (Inr (best, t'))"
    "tree_ok id t'" "edges (nodes_of t') = insert (0, 3) (edges (nodes_of genesis_tree))"
    by (rule store_and_index_steps [OF genesis_tree_ok p production_seed, where X = ext_std, unfolded prev])
  then have "linked_tree_sample = t'" by (simp add: linked_tree_sample_def)
  moreover have "linked_in (nodes_of t') 3"
    using linked_iff_above [OF t'(2) [unfolded tree_ok_def], of 3] t'(3) by (auto simp: above_def)
  ultimately show ?thesis using fork_history_leads_to_the_chain [OF t'(2), of 3] by auto
qed

lemma index_block_nodes:
  assumes "index_block X d i b t = Inr t1"
  shows "nodes_of t1 = nodes_of t"
  using assms by (auto simp: index_block_def Let_def elim!: bindE_InrE split: if_split_asm)

text \<open>
  A block that arrives after a block that follows it is never known: the placeholder made for it is
  kept, with the flag unset.
\<close>

theorem late_block_stays_unknown:
  assumes "store_and_index X d i b t = Some (Inr (best, t'))" and "nodes_of t i = Some f" and "\<not> is_known f"
    and "previous (full_block.block_header b) \<noteq> i"
  shows "\<not> is_known_block t' i"
proof -
  let ?p = "previous (full_block.block_header b)"
  obtain t1 where t1: "index_block X d i b t = Inr t1"
    using assms(1) by (auto simp: store_and_index_def split: sum.split_asm)
  obtain g t2 where t2: "link_previous ?p i t1 = (g, t2)" "nodes_of t2 i = Some f"
    using link_previous_nodes [of ?p i t1] assms(2,4) index_block_nodes [OF t1] by (simp add: add_next_def)
  then show ?thesis
    using assms(1,3) t1
    by (auto simp: store_and_index_def is_known_block_def Let_def elim!: bindE_InrE split: if_split_asm option.split_asm)
qed

theorem late_block_stays_unknown_witness:
  "\<exists>best t'. store_and_index ext_std production_database 3 missing_block orphan_tree = Some (Inr (best, t')) \<and>
     \<not> is_known_block t' 3"
proof -
  let ?r = "store_and_index ext_std production_database 3 missing_block orphan_tree"
  have "(case ?r of Some (Inr x) \<Rightarrow> True | _ \<Rightarrow> False)" by code_simp
  then obtain best t' where r: "?r = Some (Inr (best, t'))" by (auto split: option.split_asm sum.split_asm)
  have "(case nodes_of orphan_tree 3 of Some f \<Rightarrow> \<not> is_known f | None \<Rightarrow> False)" by code_simp
  then obtain f where f: "nodes_of orphan_tree 3 = Some f" "\<not> is_known f" by (auto split: option.split_asm)
  have "previous (full_block.block_header missing_block) \<noteq> 3" by (simp add: missing_block_def)
  then show ?thesis using late_block_stays_unknown [OF r f] r by blast
qed

end
