(* ===== verification/Block_Laws.thy ===== *)
theory Block_Laws
  imports Block_Writes Undo Fork_Laws
begin

text \<open>
  Applying a block and taking it back. A block that is not valid leaves the ledger as it was and is
  marked in the block tree; a block that is applied can be taken back with its undo state, which
  restores the records and the head of the chain but not the set of dirty markets.
\<close>

section \<open>Actions\<close>

lemma action_simps [simp]:
  "returnA x n = Some (Inr x, n)" "raiseA e n = Some (Inl e, n)" "liftE r n = Some (r, n)" "modifyA f n = Some (Inr (), f n)"
  by (simp_all add: returnA_def raiseA_def liftE_def modifyA_def)

lemma bindA_simps [simp]:
  "m n = Some (Inl e, n') \<Longrightarrow> bindA m f n = Some (Inl e, n')"
  "m n = Some (Inr x, n') \<Longrightarrow> bindA m f n = f x n'"
  "m n = None \<Longrightarrow> bindA m f n = None"
  by (simp_all add: bindA_def)

lemma bindA_InrE:
  assumes "bindA m f n = Some (Inr y, n')"
  obtains x n1 where "m n = Some (Inr x, n1)" "f x n1 = Some (Inr y, n')"
  using assms by (auto simp: bindA_def split: option.split_asm sum.split_asm)

lemma liftE_InrE: "liftE r n = Some (Inr x, n') \<Longrightarrow> (r = Inr x \<Longrightarrow> n' = n \<Longrightarrow> P) \<Longrightarrow> P"
  by simp

lemma modifyA_InrE: "modifyA f n = Some (Inr x, n') \<Longrightarrow> (n' = f n \<Longrightarrow> P) \<Longrightarrow> P"
  by simp

lemmas action_elims = bindA_InrE liftE_InrE modifyA_InrE

section \<open>Computations that keep a relation\<close>

definition preserves :: "('s \<Rightarrow> 's \<Rightarrow> bool) \<Rightarrow> ('s, 'a) computation \<Rightarrow> bool" where
  "preserves R m \<longleftrightarrow> (\<forall>s r s'. m s = Some (r, s') \<longrightarrow> R s s')"

lemma preservesD: "preserves R m \<Longrightarrow> m s = Some (r, s') \<Longrightarrow> R s s'"
  by (auto simp: preserves_def)

lemma preserves_simple [intro]:
  "reflp R \<Longrightarrow> preserves R (returnA x)" "reflp R \<Longrightarrow> preserves R (raiseA e)" "reflp R \<Longrightarrow> preserves R (liftE v)"
  "(\<And>s. R s (f s)) \<Longrightarrow> preserves R (modifyA f)"
  by (auto simp: preserves_def dest: reflpD)

lemma preserves_bindA [intro]:
  assumes "transp R" and "preserves R m" and "\<And>x. preserves R (f x)"
  shows "preserves R (bindA m f)"
  using assms by (fastforce simp: preserves_def bindA_def dest: transpD split: option.split_asm sum.split_asm prod.split_asm)

lemma preserves_catchA [intro]:
  assumes "transp R" and "preserves R m" and "\<And>e. preserves R (h e)"
  shows "preserves R (catchA m h)"
  using assms by (fastforce simp: preserves_def catchA_def dest: transpD split: option.split_asm sum.split_asm prod.split_asm)

lemma preserves_forA:
  assumes "reflp R" and "transp R" and "\<And>x. preserves R (f x)"
  shows "preserves R (forA f xs)"
  by (induction xs) (simp_all only: forA.simps, (intro preserves_simple preserves_bindA assms | assumption)+)

lemma preservesI: "(\<And>s r s'. m s = Some (r, s') \<Longrightarrow> R s s') \<Longrightarrow> preserves R m"
  by (auto simp: preserves_def)

lemma preserves_cases:
  "(b \<Longrightarrow> preserves R x) \<Longrightarrow> (\<not> b \<Longrightarrow> preserves R y) \<Longrightarrow> preserves R (if b then x else y)"
  "preserves R u \<Longrightarrow> (\<And>v. preserves R (w v)) \<Longrightarrow> preserves R (case_option u w z)"
  "(\<And>a b. preserves R (g a b)) \<Longrightarrow> preserves R (case_prod g q)"
  by (auto split: option.split prod.split)

lemma preserves_reader: "reflp R \<Longrightarrow> preserves R (\<lambda>s. map_option (\<lambda>r. (r, s)) (f s))"
  by (auto simp: preserves_def dest: reflpD)

lemmas preserves_rules = preserves_simple preserves_bindA preserves_catchA preserves_cases preserves_reader preserves_forA

section \<open>Changes to the database\<close>

lemma writes_database:
  "writes X c c' \<Longrightarrow> c = Database d \<Longrightarrow>
   \<exists>d'. c' = Database d' \<and> head_block_num d' = head_block_num d \<and> head_block_id d' = head_block_id d \<and>
     head_block_timestamp d' = head_block_timestamp d"
proof (induction rule: writes.induct)
  case (transaction c' t tr c2)
  then show ?case by (auto simp: db_store_transaction_def Let_def elim!: bindE_InrE split: if_split_asm)
qed (auto simp: db_set_property_def db_store_asset_record_def db_store_balance_record_def db_store_account_record_def
    db_store_delegate_slate_def db_store_slot_record_def db_store_burn_record_def db_store_bid_record_def db_store_ask_record_def db_store_short_record_def
    db_store_collateral_record_def db_set_feed_def db_store_market_status_def Let_def
    split: option.split)


lemma apply_changes_database:
  assumes "apply_changes X p (Database d) = Inr c'"
  obtains d' where "c' = Database d'" "head_block_num d' = head_block_num d" "head_block_id d' = head_block_id d"
    "head_block_timestamp d' = head_block_timestamp d"
  using writes_database [OF apply_changes_writes [OF assms] refl] by blast

text \<open>Applying changes can only fail at a transaction, and an undo state has only transactions that can be stored.\<close>

definition storable :: "ext \<Rightarrow> transaction_id_type \<times> transaction_record \<Rightarrow> bool" where
  "storable X = (\<lambda>(i, r). trx_operations (trx (trx_state r)) = [] \<or> i = transaction_id_hash X (trx (trx_state r)))"

lemma store_transactions_total:
  assumes "list_all (storable X) ts" and "head_block_num d < FORK_25"
  shows "\<exists>c'. foldE (\<lambda>(i, r). store_transaction X i r) ts (Database d) = Inr c'"
  using assms
proof (induction ts arbitrary: d)
  case (Cons x ts)
  obtain i r where x: "x = (i, r)" by (cases x)
  have "\<exists>d'. db_store_transaction X i r d = Inr d' \<and> head_block_num d' = head_block_num d"
    using Cons.prems by (auto simp: x storable_def db_store_transaction_def Let_def not_le [symmetric])
  then obtain d' where "db_store_transaction X i r d = Inr d'" "head_block_num d' = head_block_num d" by blast
  with Cons show ?case by (simp add: x)
qed simp

lemma undo_transactions_storable:
  assumes "undo_transactions X (Database d) p u = Inr u'" and "list_all (storable X) (p_transactions u)"
  shows "list_all (storable X) (p_transactions u')"
  using assms(1) unfolding undo_transactions_def
proof (rule foldE_invariant)
  have upd: "list_all (storable X) (AList.update i r t)" if "storable X (i, r)" "list_all (storable X) t" for i r t
    using that by (induction t) auto
  have new: "storable X (i, \<lparr> trx_state = new_evaluation, chain_location = l \<rparr>)"
    and old: "storable X (transaction_id_hash X (trx (trx_state r)), r)" for i l r
    by (simp_all add: storable_def new_evaluation_def new_transaction_def)
  show "list_all (storable X) (p_transactions s')"
    if "list_all (storable X) (p_transactions s)" and "(case x of (i, r) \<Rightarrow> \<lambda>u. bindE (get_transaction X (Database d) i) (\<lambda>prev.
        case prev of
          Some r' \<Rightarrow> pending_store_transaction X None i r' u
        | None \<Rightarrow> pending_store_transaction X None i
                   \<lparr> trx_state = new_evaluation, chain_location = (0, 0) \<rparr> u)) s = Inr s'" for x s s'
    using that by (cases x) (auto simp: pending_store_transaction_def Let_def new old intro!: upd
        elim!: bindE_InrE split: option.split_asm if_split_asm)
qed (rule assms(2))

lemma undo_stateE:
  assumes "get_undo_state X (Database d) p new_pending_state = Inr u"
  obtains u1 u2 where "p_transactions u1 = []" and "p_dirty_markets u1 = []"
    and "undo_transactions X (Database d) p (undo_records X (Database d) p u1) = Inr u2"
    and "u = undo_rest (Database d) p (undo_orders (Database d) p u2)"
proof -
  obtain u1 u2 where 1: "undo_properties (Database d) p new_pending_state = Inr u1"
    and 2: "undo_transactions X (Database d) p (undo_records X (Database d) p u1) = Inr u2"
    and u: "u = undo_rest (Database d) p (undo_orders (Database d) p u2)"
    using assms by (auto simp: get_undo_state_def elim!: bindE_InrE)
  have "p_transactions u1 = [] \<and> p_dirty_markets u1 = []"
    by (rule foldE_invariant [OF 1 [unfolded undo_properties_def], where P = "\<lambda>u. p_transactions u = [] \<and> p_dirty_markets u = []"])
      (auto simp: pending_set_property_def new_pending_state_def elim!: bindE_InrE)
  then show ?thesis using that 2 u by blast
qed

lemma undo_keeps:
  "p_transactions (undo_records X c p u) = p_transactions u" "p_dirty_markets (undo_records X c p u) = p_dirty_markets u"
  "p_transactions (undo_orders c p u) = p_transactions u"
  "p_transactions (undo_rest c p u) = p_transactions u" "p_dirty_markets (undo_rest c p u) = p_dirty_markets u"
  unfolding undo_records_def undo_orders_def undo_rest_def Let_def
  by (simp_all add: fold_keeps [where tab = p_transactions] fold_keeps [where tab = p_dirty_markets]
      pending_store_defs pending_set_property_def split: option.split)

lemma undo_state_storable:
  assumes "get_undo_state X (Database d) p new_pending_state = Inr u"
  shows "list_all (storable X) (p_transactions u)"
  using assms by (rule undo_stateE) (auto simp: undo_keeps dest: undo_transactions_storable)

lemma undo_state_clean:
  assumes "get_undo_state X (Database d) p new_pending_state = Inr u"
    and "p_bids p = []" "p_asks p = []" "p_shorts p = []" "p_collateral p = []"
  shows "p_dirty_markets u = []"
proof -
  obtain u1 u2 where 1: "p_dirty_markets u1 = []"
    and 2: "undo_transactions X (Database d) p (undo_records X (Database d) p u1) = Inr u2"
    and u: "u = undo_rest (Database d) p (undo_orders (Database d) p u2)"
    using assms(1) by (rule undo_stateE)
  have "p_dirty_markets u2 = []"
    by (rule foldE_invariant [OF 2 [unfolded undo_transactions_def], where P = "\<lambda>u. p_dirty_markets u = []"])
      (auto simp: pending_store_transaction_def Let_def undo_keeps 1 elim!: bindE_InrE split: option.split_asm if_split_asm)
  then show ?thesis using assms(2-) by (simp add: u undo_keeps undo_orders_def in_order_def)
qed

lemma apply_undo_total:
  assumes "list_all (storable X) (p_transactions u)" and "head_block_num d < FORK_25"
  shows "\<exists>d'. apply_changes X u (Database d) = Inr (Database d')"
proof -
  let ?c = "fold (\<lambda>(k, r). store_collateral_record k r) (in_order (p_collateral u))
      (fold (\<lambda>(k, r). store_short_record k r) (in_order (p_shorts u))
      (fold (\<lambda>(k, r). store_ask_record k r) (in_order (p_asks u))
      (fold (\<lambda>(k, r). store_bid_record k r) (in_order (p_bids u))
      (fold (\<lambda>(i, r). store_balance_record X r) (p_balances u)
      (fold (\<lambda>(i, r). store_account_record X r) (p_accounts u)
      (fold (\<lambda>(i, r). store_asset_record r) (p_assets u)
      (fold (\<lambda>(i, v). set_property i v) (p_properties u) (Database d))))))))"
  have "writes X (Database d) ?c" by simp
  from writes_database [OF this refl] obtain d1 where d1: "?c = Database d1" "head_block_num d1 = head_block_num d" by blast
  with store_transactions_total [OF assms(1), of d1] assms(2)
  obtain c9 where "foldE (\<lambda>(i, r). store_transaction X i r) (p_transactions u) ?c = Inr c9" by auto
  then obtain c2 where c2: "apply_changes X u (Database d) = Inr c2" by (simp add: apply_changes_def Let_def)
  then show ?thesis using apply_changes_database [OF c2] by metis
qed

text \<open>The dirty markets of the database are those the applied state has collected itself.\<close>

lemma apply_changes_last:
  "apply_changes X p c = Inr c' \<Longrightarrow> \<exists>c9. c' = set_dirty_markets (p_dirty_markets p) c9"
  by (auto simp: apply_changes_def Let_def elim!: bindE_InrE)

lemma apply_changes_dirty:
  assumes "apply_changes X p (Database d) = Inr (Database d')"
  shows "get_dirty_markets (Database d') = p_dirty_markets p"
proof -
  from apply_changes_last [OF assms] obtain c where c: "Database d' = set_property dirty_markets (Markets_property (p_dirty_markets p)) c"
    by (auto simp: set_dirty_markets_def)
  then obtain d1 where "c = Database d1" by (cases c) auto
  with c show ?thesis by (simp add: get_dirty_markets_def db_get_property_def db_set_property_def)
qed

section \<open>Applying a block\<close>

lemma no_checkpoints [simp]: "CHECKPOINT_BLOCKS = []" "last_checkpoint_block_num = 0"
  by (simp_all add: CHECKPOINT_BLOCKS_def last_checkpoint_block_num_def)

lemma save_undo_state_steps:
  assumes "save_undo_state X i p n = Some (Inr x, n')"
  obtains u t where "get_undo_state X (Database (ledger_db n)) p new_pending_state = Inr u"
    and "n' = n \<lparr> undo_state_db := t \<rparr>" and "i \<notin> ran (map_of (block_num_to_id_db n)) \<longrightarrow> map_of t i = Some u"
proof -
  obtain u where u: "get_undo_state X (Database (ledger_db n)) p new_pending_state = Inr u"
    and rest: "forget_undo_state (n \<lparr> undo_state_db := AList.update i u (undo_state_db n) \<rparr>) = Some (Inr x, n')"
    using assms by (auto simp: save_undo_state_def bindA_def split: sum.split_asm)
  show ?thesis
  proof (cases "sint (head_block_num (ledger_db n) - of_nat BTS_BLOCKCHAIN_MAX_UNDO_HISTORY) > 0")
    case True
    with rest obtain old where "map_of (block_num_to_id_db n) (head_block_num (ledger_db n) - of_nat BTS_BLOCKCHAIN_MAX_UNDO_HISTORY) = Some old"
      and "n' = n \<lparr> undo_state_db := AList.delete old (AList.update i u (undo_state_db n)) \<rparr>"
      by (auto simp: forget_undo_state_def Let_def bindA_def get_block_id_def fetch_def split: option.split_asm sum.split_asm)
    with u show ?thesis by (intro that) (auto simp: ran_def)
  next
    case False
    with rest u show ?thesis by (intro that) (auto simp: forget_undo_state_def Let_def)
  qed
qed

lemma commit_steps:
  assumes "commit X p n = Some (Inr x, n')"
  obtains d where "apply_changes X p (Database (ledger_db n)) = Inr (Database d)" and "n' = n \<lparr> ledger_db := d \<rparr>"
  using assms by (auto simp: commit_def bindA_def split: sum.split_asm chain.split_asm)

lemma include_block_steps:
  assumes "include_block i b n = Some (Inr x, n')"
  obtains t where "mark_included i b (forks n) = Inr t" and "n' = n \<lparr> forks := t \<rparr>"
  using assms by (auto simp: include_block_def bindA_def split: sum.split_asm)

lemma apply_block_steps:
  assumes "apply_block X b n = Some (Inr x, n')"
  obtains p u d f undos where
    "evaluate_block X (ledger_db n) b = Inr (Pending p (Database (ledger_db n)))" and "pending_ok X p" and
    "get_undo_state X (Database (ledger_db n)) p new_pending_state = Inr u" and
    "apply_changes X p (Database (ledger_db n)) = Inr (Database d)" and
    "mark_included (block_id X b) True (forks n) = Inr f" and
    "block_id X b \<notin> ran (map_of (block_num_to_id_db n)) \<longrightarrow> map_of undos (block_id X b) = Some u" and
    "n' = (clear_pending X b (update_head_block X b (n \<lparr> undo_state_db := undos, ledger_db := d, forks := f \<rparr>)))
       \<lparr> block_num_to_id_db := AList.update (block_num (full_block.block_header b)) (block_id X b) (block_num_to_id_db n) \<rparr>"
proof -
  obtain p n1 n2 n3 and y1 y2 y3 :: unit where ev: "bindE (evaluate_block X (ledger_db n) b) pending_part = Inr p"
    and 1: "save_undo_state X (block_id X b) p n = Some (Inr y1, n1)" and 2: "commit X p n1 = Some (Inr y2, n2)"
    and 3: "include_block (block_id X b) True n2 = Some (Inr y3, n3)"
    and n': "n' = (clear_pending X b (update_head_block X b n3)) \<lparr> block_num_to_id_db :=
       AList.update (block_num (full_block.block_header b)) (block_id X b)
         (block_num_to_id_db (clear_pending X b (update_head_block X b n3))) \<rparr>"
    using assms unfolding apply_block_def by (elim action_elims) (hypsubst, rule that)
  obtain c where c: "evaluate_block X (ledger_db n) b = Inr c" "pending_part c = Inr p" using ev by (auto elim: bindE_InrE)
  obtain p' where "c = Pending p' (Database (ledger_db n))" "pending_ok X p'" using c(1) by (rule evaluate_block_pending)
  with c(2) have p: "c = Pending p (Database (ledger_db n))" "pending_ok X p" by (simp_all add: pending_part_def)
  obtain u t where u: "get_undo_state X (Database (ledger_db n)) p new_pending_state = Inr u"
    "n1 = n \<lparr> undo_state_db := t \<rparr>" "block_id X b \<notin> ran (map_of (block_num_to_id_db n)) \<longrightarrow> map_of t (block_id X b) = Some u"
    using save_undo_state_steps [OF 1] by blast
  obtain d where d: "apply_changes X p (Database (ledger_db n1)) = Inr (Database d)" "n2 = n1 \<lparr> ledger_db := d \<rparr>"
    using commit_steps [OF 2] by blast
  obtain f where f: "mark_included (block_id X b) True (forks n2) = Inr f" "n3 = n2 \<lparr> forks := f \<rparr>"
    using include_block_steps [OF 3] by blast
  show ?thesis
  proof (rule that [OF c(1) [unfolded p(1)] p(2) u(1)])
    show "apply_changes X p (Database (ledger_db n)) = Inr (Database d)" using d(1) by (simp add: u(2))
    show "mark_included (block_id X b) True (forks n) = Inr f" using f(1) by (simp add: d(2) u(2))
    show "block_id X b \<notin> ran (map_of (block_num_to_id_db n)) \<longrightarrow> map_of t (block_id X b) = Some u" by (rule u(3))
    show "n' = (clear_pending X b (update_head_block X b (n \<lparr> undo_state_db := t, ledger_db := d, forks := f \<rparr>)))
       \<lparr> block_num_to_id_db := AList.update (block_num (full_block.block_header b)) (block_id X b) (block_num_to_id_db n) \<rparr>"
      unfolding n' f(2) d(2) u(2) by (simp add: clear_pending_def update_head_block_def set_head_id_def set_head_header_def)
  qed
qed

lemma extend_chain_steps:
  assumes "extend_chain X b n = Some (Inr x, n')"
  obtains n1 where "apply_block X b n = Some (Inr (), n1)" and "n' = purge_unique_transactions n1"
proof -
  obtain y n1 where c: "catchA (apply_block X b) (\<lambda>e. bindA (invalidate_block (block_id X b) e) (\<lambda>_. raiseA e)) n = Some (Inr y, n1)"
    and n': "n' = purge_unique_transactions n1"
    using assms unfolding extend_chain_def by (auto elim!: bindA_InrE)
  have "apply_block X b n = Some (Inr (), n1)"
    using c by (auto simp: catchA_def bindA_def split: option.split_asm sum.split_asm)
  then show ?thesis using n' that by blast
qed

section \<open>Taking a block back\<close>

text \<open>
  A node whose records are keyed, whose head block is recorded in the block tree, and a block that is
  not in the current chain.
\<close>

definition node_ok :: "ext \<Rightarrow> node \<Rightarrow> bool" where
  "node_ok X n \<longleftrightarrow> keyed X (Database (ledger_db n)) \<and>
     head_block_num (ledger_db n) = block_num (head_header n) \<and>
     head_block_timestamp (ledger_db n) = block_timestamp (head_header n) \<and>
     (\<exists>r. map_of (block_id_to_block_record_db (forks n)) (head_block_id (ledger_db n)) = Some r \<and>
        record_header r = head_header n \<and> record_signature r = head_signature n)"

definition new_block :: "ext \<Rightarrow> full_block \<Rightarrow> node \<Rightarrow> bool" where
  "new_block X b n \<longleftrightarrow> block_num (full_block.block_header b) \<noteq> 0 \<and> block_num (full_block.block_header b) < FORK_25 \<and>
     block_id X b \<notin> ran (map_of (block_num_to_id_db n)) \<and>
     map_of (block_num_to_id_db n) (block_num (full_block.block_header b)) = None"

definition restored :: "chain \<Rightarrow> chain \<Rightarrow> bool" where
  "restored c c' \<longleftrightarrow> asset_view c' = asset_view c \<and> account_view c' = account_view c \<and> slate_view c' = slate_view c \<and>
     live balance_is_null (get_balance_record c') = live balance_is_null (get_balance_record c) \<and>
     bid_view c' = bid_view c \<and> ask_view c' = ask_view c \<and> short_view c' = short_view c \<and>
     collateral_view c' = collateral_view c \<and> feed_view c' = feed_view c"

definition same_head :: "node \<Rightarrow> node \<Rightarrow> bool" where
  "same_head n n' \<longleftrightarrow> head_block_id (ledger_db n') = head_block_id (ledger_db n) \<and>
     head_block_num (ledger_db n') = head_block_num (ledger_db n) \<and>
     head_block_timestamp (ledger_db n') = head_block_timestamp (ledger_db n) \<and>
     head_header n' = head_header n \<and> head_signature n' = head_signature n \<and>
     map_of (block_num_to_id_db n') = map_of (block_num_to_id_db n)"

lemma evaluate_block_previous:
  assumes "evaluate_block X d b = Inr c"
  shows "previous (full_block.block_header b) = head_block_id d"
proof -
  obtain k where "verify_header X d b k = Inr ()" using assms by (auto simp: evaluate_block_def elim!: bindE_InrE)
  then show ?thesis by (auto simp: verify_header_def Let_def split: if_split_asm)
qed

lemma mark_included_Inr:
  assumes "mark_included i b t = Inr t'"
  shows "\<exists>f. map_of (fork_db t') i = Some f \<and> is_included f = b" "block_id_to_block_record_db t' = block_id_to_block_record_db t"
    "block_id_to_block_data_db t' = block_id_to_block_data_db t"
    "is_included_block t' j \<longleftrightarrow> (if j = i then b else is_included_block t j)"
proof -
  obtain f where t': "t' = store_fork i f t" and f: "is_included f = b"
    using assms by (auto simp: mark_included_def Let_def elim!: bindE_InrE split: if_split_asm)
  show "\<exists>f. map_of (fork_db t') i = Some f \<and> is_included f = b" "block_id_to_block_record_db t' = block_id_to_block_record_db t"
    "block_id_to_block_data_db t' = block_id_to_block_data_db t"
    by (simp_all add: t' store_fork_def f)
  show "is_included_block t' j \<longleftrightarrow> (if j = i then b else is_included_block t j)"
    by (simp add: t' store_fork_def is_included_block_def f)
qed

lemma mark_included_total: "map_of (fork_db t) i = Some f \<Longrightarrow> \<exists>t'. mark_included i b t = Inr t'"
  by (simp add: mark_included_def fetch_def Let_def)

lemma pop_block_steps:
  assumes "block_num (head_header n) \<noteq> 0" and "mark_included (head_block_id (ledger_db n)) False (forks n) = Inr f"
    and "map_of (undo_state_db n) (head_block_id (ledger_db n)) = Some u"
    and "apply_changes X u (Database (ledger_db n)) = Inr (Database d)"
    and "map_of (block_id_to_block_record_db f) (previous (head_header n)) = Some r"
  shows "pop_block X n = Some (Inr (), set_head_header (record_header r) (record_signature r)
    (set_head_id (previous (head_header n)) (n \<lparr> forks := f,
       block_num_to_id_db := AList.delete (block_num (head_header n)) (block_num_to_id_db n), ledger_db := d \<rparr>)))"
  using assms
  by (simp add: pop_block_def Let_def include_block_def commit_def fetch_def bindA_def set_head_id_def get_block_header_def)

lemma pop_after_extend:
  assumes ext: "extend_chain X b n = Some (Inr (), n1)" and ok: "node_ok X n" and new: "new_block X b n"
  obtains n2 u p where "pop_block X n1 = Some (Inr (), n2)" and "restored (Database (ledger_db n)) (Database (ledger_db n2))"
    and "same_head n n2" and "\<And>j. is_included_block (forks n2) j \<longleftrightarrow> j \<noteq> block_id X b \<and> is_included_block (forks n) j"
    and "block_id_to_block_record_db (forks n2) = block_id_to_block_record_db (forks n)"
    and "block_id_to_block_data_db (forks n2) = block_id_to_block_data_db (forks n)"
    and "evaluate_block X (ledger_db n) b = Inr (Pending p (Database (ledger_db n)))"
    and "get_undo_state X (Database (ledger_db n)) p new_pending_state = Inr u"
    and "get_dirty_markets (Database (ledger_db n2)) = p_dirty_markets u"
proof -
  let ?h = "full_block.block_header b" and ?i = "block_id X b"
  obtain n0 where a: "apply_block X b n = Some (Inr (), n0)" and n1: "n1 = purge_unique_transactions n0"
    using ext by (rule extend_chain_steps)
  obtain p u d f undos where ev: "evaluate_block X (ledger_db n) b = Inr (Pending p (Database (ledger_db n)))"
    and pok: "pending_ok X p" and undo: "get_undo_state X (Database (ledger_db n)) p new_pending_state = Inr u"
    and app: "apply_changes X p (Database (ledger_db n)) = Inr (Database d)"
    and inc: "mark_included ?i True (forks n) = Inr f"
    and saved: "?i \<notin> ran (map_of (block_num_to_id_db n)) \<longrightarrow> map_of undos ?i = Some u"
    and n0: "n0 = (clear_pending X b (update_head_block X b (n \<lparr> undo_state_db := undos, ledger_db := d, forks := f \<rparr>)))
       \<lparr> block_num_to_id_db := AList.update (block_num ?h) ?i (block_num_to_id_db n) \<rparr>"
    using a by (rule apply_block_steps)
  note n1 = n1 [unfolded n0]
  have N: "head_header n1 = ?h" "head_block_id (ledger_db n1) = ?i" "head_block_num (ledger_db n1) = block_num ?h"
    "forks n1 = f" "undo_state_db n1 = undos" "block_num_to_id_db n1 = AList.update (block_num ?h) ?i (block_num_to_id_db n)"
    and same: "same_views (Database d) (Database (ledger_db n1))"
    by (simp_all add: n1 purge_unique_transactions_def clear_pending_def update_head_block_def set_head_id_def
        set_head_header_def same_views_def fun_eq_iff live_def)
  have num: "block_num ?h \<noteq> 0" "head_block_num (ledger_db n1) < FORK_25" and u: "map_of undos ?i = Some u"
    using new saved by (auto simp: new_block_def N)
  obtain f' where f': "mark_included ?i False f = Inr f'"
    using mark_included_Inr(1) [OF inc] mark_included_total by blast
  obtain d2 where d2: "apply_changes X u (Database (ledger_db n1)) = Inr (Database d2)"
    using apply_undo_total [OF undo_state_storable [OF undo] num(2)] by blast
  have prev: "previous ?h = head_block_id (ledger_db n)" using ev by (rule evaluate_block_previous)
  obtain r where r: "map_of (block_id_to_block_record_db f') (head_block_id (ledger_db n)) = Some r"
    "record_header r = head_header n" "record_signature r = head_signature n"
    using ok mark_included_Inr(2) [OF inc] mark_included_Inr(2) [OF f'] by (auto simp: node_ok_def)
  let ?n2 = "set_head_header (record_header r) (record_signature r) (set_head_id (previous (head_header n1)) (n1 \<lparr> forks := f',
       block_num_to_id_db := AList.delete (block_num (head_header n1)) (block_num_to_id_db n1), ledger_db := d2 \<rparr>))"
  have pop: "pop_block X n1 = Some (Inr (), ?n2)"
    by (rule pop_block_steps) (use num f' u d2 r prev in \<open>simp_all add: N\<close>)
  have views: "same_views (Database d2) (Database (ledger_db ?n2))"
    by (simp add: set_head_id_def set_head_header_def same_views_def fun_eq_iff live_def)
  have "restored (Database (ledger_db n)) (Database d2)"
    using undo_views_on [OF undo pok _ app same d2] ok by (simp add: restored_def node_ok_def)
  then have "restored (Database (ledger_db n)) (Database (ledger_db ?n2))"
    using views by (simp add: restored_def same_views_def)
  moreover have "same_head n ?n2"
    using ok new prev r by (auto simp: same_head_def node_ok_def new_block_def set_head_id_def set_head_header_def N fun_eq_iff)
  moreover have "forks ?n2 = f'" by (simp add: set_head_id_def set_head_header_def)
  then have "is_included_block (forks ?n2) j \<longleftrightarrow> j \<noteq> ?i \<and> is_included_block (forks n) j"
    "block_id_to_block_record_db (forks ?n2) = block_id_to_block_record_db (forks n)"
    "block_id_to_block_data_db (forks ?n2) = block_id_to_block_data_db (forks n)" for j
    using mark_included_Inr [OF f'] mark_included_Inr [OF inc] by simp_all
  moreover have "get_dirty_markets (Database (ledger_db ?n2)) = p_dirty_markets u"
    using apply_changes_dirty [OF d2]
    by (simp add: set_head_id_def set_head_header_def get_dirty_markets_def db_get_property_def)
  ultimately show ?thesis using that [OF pop] ev undo by blast
qed


section \<open>A concrete node\<close>

text \<open>The head block has the id 3; the block with the id 1011 follows it. A market waits to be matched.\<close>

definition sample_head :: block_header where
  "sample_head = sample_header \<lparr> previous := 0, block_num := 5, block_timestamp := 990 \<rparr>"

definition sample_node :: node where
  "sample_node = \<lparr>
     ledger_db = production_database \<lparr> property_db :=
       AList.update dirty_markets (Markets_property [(1, 0)]) (property_db production_database) \<rparr>,
     forks = genesis_tree \<lparr>
       block_id_to_block_record_db := [(3, \<lparr> record_header = sample_head, record_signature = 22,
         record_transaction_ids = [], random_seed = 1, block_size = 0, latency = 0, processing_time = 0 \<rparr>)],
       fork_db := [(3, new_fork_data \<lparr> next_blocks := [1011], is_valid := Some True, is_included := True, is_linked := True, is_known := True \<rparr>),
         (1011, new_fork_data \<lparr> is_linked := True, is_known := True \<rparr>)] \<rparr>,
     head_header = sample_head, head_signature = 22, undo_state_db = [], block_num_to_id_db = [(5, 3)],
     pending_transaction_db = [], pending_fee_index = [], pending_trx_state = new_pending_state \<rparr>"

definition after_block :: node where
  "after_block = snd (the (extend_chain ext_std sample_block sample_node))"

text \<open>The block is applied if it evaluates to changes that can be applied and undone, near the start of the chain.\<close>

definition undoable :: "ext \<Rightarrow> chain_database \<Rightarrow> pending_chain_state \<Rightarrow> bool" where
  "undoable X d p \<longleftrightarrow> \<not> isl (get_undo_state X (Database d) p new_pending_state) \<and> \<not> isl (apply_changes X p (Database d))"

lemma extend_chain_returns:
  assumes "evaluate_block X (ledger_db n) b = Inr (Pending p (Database (ledger_db n)))" and "undoable X (ledger_db n) p"
    and "sint (head_block_num (ledger_db n) - of_nat BTS_BLOCKCHAIN_MAX_UNDO_HISTORY) \<le> 0"
    and "nodes_of (forks n) (block_id X b) = Some f"
  shows "\<exists>n'. extend_chain X b n = Some (Inr (), n')"
proof -
  obtain u where u: "get_undo_state X (Database (ledger_db n)) p new_pending_state = Inr u"
    using assms(2) by (cases "get_undo_state X (Database (ledger_db n)) p new_pending_state") (auto simp: undoable_def)
  obtain c where "apply_changes X p (Database (ledger_db n)) = Inr c"
    using assms(2) by (cases "apply_changes X p (Database (ledger_db n))") (auto simp: undoable_def)
  then obtain d where d: "apply_changes X p (Database (ledger_db n)) = Inr (Database d)"
    using apply_changes_database by metis
  obtain t where t: "mark_included (block_id X b) True (forks n) = Inr t" using mark_included_total [OF assms(4)] by blast
  have "\<exists>n'. apply_block X b n = Some (Inr (), n')"
    using assms(1,3) u d t
    by (simp add: apply_block_def pending_part_def save_undo_state_def forget_undo_state_def commit_def include_block_def bindA_def Let_def not_less)
  then obtain n' where "apply_block X b n = Some (Inr (), n')" by blast
  then show ?thesis by (simp add: extend_chain_def catchA_def bindA_def)
qed

definition no_orders :: "pending_chain_state \<Rightarrow> bool" where
  "no_orders p \<longleftrightarrow> p_bids p = [] \<and> p_asks p = [] \<and> p_shorts p = [] \<and> p_collateral p = []"

lemma sample_block_changes:
  obtains p where "evaluate_block ext_std (ledger_db sample_node) sample_block = Inr (Pending p (Database (ledger_db sample_node)))"
    and "undoable ext_std (ledger_db sample_node) p" and "no_orders p"
proof -
  let ?r = "evaluate_block ext_std (ledger_db sample_node) sample_block"
  have 1: "case ?r of Inr (Pending p c) \<Rightarrow> undoable ext_std (ledger_db sample_node) p \<and> no_orders p | _ \<Rightarrow> False"
    by code_simp
  then obtain c where c: "?r = Inr c" by (auto split: sum.split_asm)
  then obtain p where "c = Pending p (Database (ledger_db sample_node))" by (rule evaluate_block_pending)
  with that 1 c show ?thesis by simp
qed

lemma sample_block_id: "block_id ext_std sample_block = 1011"
  by code_simp

lemma sample_block_applied: "extend_chain ext_std sample_block sample_node = Some (Inr (), after_block)"
proof -
  obtain p where p: "evaluate_block ext_std (ledger_db sample_node) sample_block = Inr (Pending p (Database (ledger_db sample_node)))"
    "undoable ext_std (ledger_db sample_node) p" by (rule sample_block_changes)
  have "sint (head_block_num (ledger_db sample_node) - of_nat BTS_BLOCKCHAIN_MAX_UNDO_HISTORY) \<le> 0" by code_simp
  moreover have "nodes_of (forks sample_node) (block_id ext_std sample_block) = Some (new_fork_data \<lparr> is_linked := True, is_known := True \<rparr>)"
    by (simp add: sample_block_id sample_node_def)
  ultimately show ?thesis using extend_chain_returns [OF p] by (auto simp: after_block_def)
qed

lemma sample_node_ok: "node_ok ext_std sample_node"
proof -
  have "keyed ext_std (Database sample_database)"
    using sample_chain_ok by (auto simp: chain_ok_def keyed_def sample_chain_def new_pending_state_def sample_database_def)
  then have "keyed ext_std (Database (ledger_db sample_node))" by (simp add: keyed_def sample_node_def production_database_def)
  then show ?thesis by (simp add: node_ok_def sample_node_def sample_head_def sample_header_def production_database_def sample_database_def)
qed

lemma sample_block_new: "new_block ext_std sample_block sample_node"
  by (simp add: new_block_def sample_block_id sample_node_def) (simp add: sample_block_def sample_header_def FORK_25_def)

section \<open>Blocks that are rejected, and blocks that are taken back\<close>

text \<open>
  C6. A block that is not valid leaves the node as it was, apart from the block tree: the exception is
  passed on, and the block and every block above it are marked invalid with that exception as the
  reason, while all other blocks keep their state.
\<close>

theorem rejected_block_changes_only_the_tree:
  assumes "evaluate_block X (ledger_db n) b = Inl e"
    and "ranked rank (nodes_of (forks n))" and "nodes_of (forks n) (block_id X b) = Some f"
  shows "\<exists>t. extend_chain X b n = Some (Inl e, n \<lparr> forks := t \<rparr>) \<and>
    nodes_of t = marked (invalidate e) (above (nodes_of (forks n)) {block_id X b}) (nodes_of (forks n))"
proof -
  obtain t where t: "mark_invalid (block_id X b) e (forks n) = Some (Inr t)"
    "nodes_of t = marked (invalidate e) (above (nodes_of (forks n)) {block_id X b}) (nodes_of (forks n))"
    using assms(2,3) by (rule mark_invalid_steps)
  have "apply_block X b n = Some (Inl e, n)" using assms(1) by (simp add: apply_block_def bindE_def)
  then have "extend_chain X b n = Some (Inl e, n \<lparr> forks := t \<rparr>)"
    using t(1) by (simp add: extend_chain_def catchA_def bindA_def invalidate_block_def)
  then show ?thesis using t(2) by blast
qed


text \<open>
  C39. The set of dirty markets is not restored: after a block that has touched no order is taken back,
  no market is dirty, whatever the markets were that waited to be matched before the block.
\<close>

theorem pop_block_forgets_dirty_markets:
  assumes "extend_chain X b n = Some (Inr (), n1)" and "node_ok X n" and "new_block X b n"
    and "evaluate_block X (ledger_db n) b = Inr (Pending p (Database (ledger_db n)))"
    and "no_orders p"
  shows "\<exists>n2. pop_block X n1 = Some (Inr (), n2) \<and> get_dirty_markets (Database (ledger_db n2)) = []"
  using assms(1-3)
proof (rule pop_after_extend)
  fix n2 u p'
  assume 1: "pop_block X n1 = Some (Inr (), n2)"
    and 2: "evaluate_block X (ledger_db n) b = Inr (Pending p' (Database (ledger_db n)))"
    and 3: "get_undo_state X (Database (ledger_db n)) p' new_pending_state = Inr u"
    and 4: "get_dirty_markets (Database (ledger_db n2)) = p_dirty_markets u"
  have "p' = p" using 2 assms(4) by simp
  then have "p_dirty_markets u = []" using undo_state_clean [OF 3] assms(5) by (simp add: no_orders_def)
  with 1 4 show ?thesis by auto
qed

definition later_block :: full_block where
  "later_block = sample_block \<lparr> block_header := sample_header \<lparr> block_num := 7 \<rparr> \<rparr>"

theorem rejected_block_changes_only_the_tree_witness:
  "\<exists>t. extend_chain ext_std later_block sample_node = Some (Inl block_numbers_not_sequential, sample_node \<lparr> forks := t \<rparr>) \<and>
    map_option invalid (nodes_of t 1011) = Some True"
proof -
  have i: "block_id ext_std later_block = 1011" by code_simp
  have e: "projl (evaluate_block ext_std (ledger_db sample_node) later_block) = block_numbers_not_sequential"
    "isl (evaluate_block ext_std (ledger_db sample_node) later_block)" by code_simp+
  then have "evaluate_block ext_std (ledger_db sample_node) later_block = Inl block_numbers_not_sequential"
    by (metis sum.collapse(1))
  moreover have "ranked id (nodes_of (forks sample_node))"
    by (auto simp: ranked_def edges_def sample_node_def genesis_tree_def new_fork_data_def split: if_split_asm)
  moreover have f: "nodes_of (forks sample_node) (block_id ext_std later_block) = Some (new_fork_data \<lparr> is_linked := True, is_known := True \<rparr>)"
    by (simp add: i sample_node_def)
  ultimately obtain t where "extend_chain ext_std later_block sample_node = Some (Inl block_numbers_not_sequential, sample_node \<lparr> forks := t \<rparr>)"
    and t: "nodes_of t = marked (invalidate block_numbers_not_sequential) (above (nodes_of (forks sample_node)) {1011}) (nodes_of (forks sample_node))"
    using rejected_block_changes_only_the_tree [of ext_std sample_node later_block _ id] i by metis
  moreover have "map_option invalid (nodes_of t 1011) = Some True"
    using f by (simp add: t i marked_def above_def invalid_def)
  ultimately show ?thesis by blast
qed


theorem pop_block_forgets_dirty_markets_witness:
  "get_dirty_markets (Database (ledger_db sample_node)) = [(1, 0)] \<and>
   (\<exists>n2. pop_block ext_std after_block = Some (Inr (), n2) \<and> get_dirty_markets (Database (ledger_db n2)) = [])"
proof -
  obtain p where p: "evaluate_block ext_std (ledger_db sample_node) sample_block = Inr (Pending p (Database (ledger_db sample_node)))"
    "no_orders p" by (rule sample_block_changes)
  have "get_dirty_markets (Database (ledger_db sample_node)) = [(1, 0)]" by code_simp
  then show ?thesis
    using pop_block_forgets_dirty_markets [OF sample_block_applied sample_node_ok sample_block_new p] by blast
qed

end
