(* ===== verification/Genesis.thy ===== *)
theory Genesis
  imports Complex_Main Block_Laws
begin

text \<open>
  The first state of the chain (\<^verbatim>\<open>chain_database_impl::initialize_genesis\<close>): the accounts, balances
  and assets of the genesis configuration are stored, every balance votes for a random slate of
  delegates, the shares are scaled to a fixed total, and the result is checked. Reading and hashing
  the configuration file is not modelled: the configuration and its hash are arguments.

  The random number generator of \<^verbatim>\<open>boost\<close>, the text of an address and the low half of a
  128-bit number are parameters, the fields of \<open>genesis_lib\<close>. The loop that draws delegates until a
  slate has its size may not end for a generator that never draws some of them, so it is a partial
  function, and the values of the functions that call it are optional.
\<close>

section \<open>Data\<close>

type_synonym rng = nat

record genesis_lib =
  low_bits :: "128 word \<Rightarrow> 64 word"
  pts_string :: "pts_address \<Rightarrow> string"
  mt11213b :: "32 word \<Rightarrow> rng"
  uniform_int :: "nat \<Rightarrow> rng \<Rightarrow> nat \<times> rng"

text \<open>A double is a rational number; a conversion to an integer truncates it.\<close>

type_synonym double = rat

definition truncated :: "double \<Rightarrow> int" where
  "truncated v = (if v \<ge> 0 then \<lfloor>v\<rfloor> else \<lceil>v\<rceil>)"

definition double_to_uint64 :: "double \<Rightarrow> 64 word" where
  "double_to_uint64 v = word_of_int (truncated v)"

definition double_to_int64 :: "double \<Rightarrow> 64 word" where
  "double_to_int64 v = word_of_int (truncated v)"

record name_config =
  config_name :: string
  config_owner :: key
  config_pay_rate :: int

record asset_config =
  config_symbol :: string
  config_asset_name :: string
  config_description :: string
  config_precision :: "64 word"
  config_min_price :: double
  config_max_price :: double

record genesis_block_config =
  config_timestamp :: time_point_sec
  config_market_assets :: "asset_config list"
  config_names :: "name_config list"
  config_balances :: "(pts_address \<times> double) list"

definition BTS_BLOCKCHAIN_INITIAL_SHARES :: "64 word" where
  "BTS_BLOCKCHAIN_INITIAL_SHARES = BTS_BLOCKCHAIN_MAX_SHARES div 100"

definition GENESIS_VOTE_PERMILLE :: nat where
  "GENESIS_VOTE_PERMILLE = 80"

section \<open>Computations that may not end\<close>

definition bindR :: "(exn + 'a) option \<Rightarrow> ('a \<Rightarrow> (exn + 'b) option) \<Rightarrow> (exn + 'b) option" where
  "bindR m f = (case m of None \<Rightarrow> None | Some (Inl e) \<Rightarrow> Some (Inl e) | Some (Inr x) \<Rightarrow> f x)"

primrec foldR :: "('a \<Rightarrow> 's \<Rightarrow> (exn + 's) option) \<Rightarrow> 'a list \<Rightarrow> 's \<Rightarrow> (exn + 's) option" where
  "foldR f [] s = Some (Inr s)"
| "foldR f (x # xs) s = bindR (f x s) (foldR f xs)"

section \<open>Random slates\<close>

definition create_rng :: "ext \<Rightarrow> genesis_lib \<Rightarrow> digest_type \<Rightarrow> rng" where
  "create_rng X L cid = mt11213b L (ucast (sha256_words X cid ! 0))"

definition add_one_to_slate ::
    "genesis_lib \<Rightarrow> account_id_type list \<Rightarrow> account_id_type list \<Rightarrow> rng \<Rightarrow> account_id_type list \<times> rng" where
  "add_one_to_slate L delegate_ids slate prng =
     (case uniform_int L (length delegate_ids - 1) prng of (i, prng') \<Rightarrow> (List.insert (delegate_ids ! i) slate, prng'))"

definition remove_one_from_slate ::
    "genesis_lib \<Rightarrow> account_id_type list \<Rightarrow> account_id_type list \<Rightarrow> rng \<Rightarrow> account_id_type list \<times> rng" where
  "remove_one_from_slate L delegate_ids slate prng =
     (case uniform_int L (length delegate_ids - 1) prng of (i, prng') \<Rightarrow> (remove1 (delegate_ids ! i) slate, prng'))"

partial_function (option) adjust_slate ::
    "genesis_lib \<Rightarrow> account_id_type list \<Rightarrow> nat \<Rightarrow> account_id_type list \<Rightarrow> rng \<Rightarrow> (account_id_type list \<times> rng) option" where
  "adjust_slate L delegate_ids target slate prng =
     (if length slate = target then Some (slate, prng)
      else if length slate > target
      then (case remove_one_from_slate L delegate_ids slate prng of (slate', prng') \<Rightarrow>
              adjust_slate L delegate_ids target slate' prng')
      else (case add_one_to_slate L delegate_ids slate prng of (slate', prng') \<Rightarrow>
              adjust_slate L delegate_ids target slate' prng'))"

declare adjust_slate.simps [code]

definition prefill_slate ::
    "genesis_lib \<Rightarrow> account_id_type list \<Rightarrow> rng \<Rightarrow> (account_id_type list \<times> rng) option" where
  "prefill_slate L delegate_ids prng =
     adjust_slate L delegate_ids ((BTS_BLOCKCHAIN_NUM_DELEGATES * GENESIS_VOTE_PERMILLE) div 1000)
       (if GENESIS_VOTE_PERMILLE < 500 then fold List.insert delegate_ids [] else []) prng"

definition fill_remaining_slate ::
    "genesis_lib \<Rightarrow> account_id_type list \<Rightarrow> account_id_type list \<Rightarrow> rng \<Rightarrow> (exn + account_id_type list \<times> rng) option" where
  "fill_remaining_slate L delegate_ids slate prng =
     (let remaining = int (BTS_BLOCKCHAIN_NUM_DELEGATES * GENESIS_VOTE_PERMILLE) - int (length slate) * 1000
      in if remaining = 0 then Some (Inr (slate, prng))
         else if \<not> (0 < remaining \<and> remaining < 1000) then Some (Inl assert_failed)
         else case uniform_int L 999 prng of (n, prng') \<Rightarrow>
                if int n \<ge> remaining then Some (Inr (slate, prng'))
                else map_option Inr (adjust_slate L delegate_ids (length slate + 1) slate prng'))"

definition store_slate :: "ext \<Rightarrow> delegate_slate \<Rightarrow> chain_database \<Rightarrow> slate_id_type \<times> chain_database" where
  "store_slate X slate d =
     (if length slate = 0 then (0, d)
      else let i = slate_id X slate
           in (i, if get_delegate_slate (Database d) i = None then db_store_delegate_slate i slate d else d))"

definition generate_random_slate ::
    "ext \<Rightarrow> genesis_lib \<Rightarrow> account_id_type list \<Rightarrow> chain_database \<Rightarrow> rng \<Rightarrow> (exn + slate_id_type \<times> chain_database \<times> rng) option" where
  "generate_random_slate X L delegate_ids d prng =
     bindR (map_option Inr (prefill_slate L delegate_ids prng)) (\<lambda>(selected, prng1).
     bindR (fill_remaining_slate L delegate_ids selected prng1) (\<lambda>(selected', prng2).
       case store_slate X (sort selected') d of (i, d') \<Rightarrow> Some (Inr (i, d', prng2))))"

section \<open>Accounts\<close>

type_synonym delegate_map = "(account_id_type, account_record) table"

definition add_votes :: "delegate_slate \<Rightarrow> share_type \<Rightarrow> delegate_map \<Rightarrow> exn + delegate_map" where
  "add_votes slate amt delegates =
     foldE (\<lambda>acct m. case map_of m acct of
         None \<Rightarrow> Inl assert_failed
       | Some r \<Rightarrow> bindE (adjust_votes_for amt r) (\<lambda>r'. Inr (AList.update acct r' m))) slate delegates"

definition store_delegates :: "ext \<Rightarrow> delegate_map \<Rightarrow> chain_database \<Rightarrow> chain_database" where
  "store_delegates X delegates d = fold (\<lambda>(i, r). db_store_account_record X r) (in_order delegates) d"

definition god_record :: account_record where
  "god_record = \<lparr> account_id = 0, account_name = ''god'', account_public_data = [], owner_key = null_key,
     active_key_history = [], account_registration_date = 0, account_last_update = 0, delegate_info = None,
     meta_data = None \<rparr>"

definition genesis_account :: "time_point_sec \<Rightarrow> account_id_type \<Rightarrow> name_config \<Rightarrow> exn + account_record" where
  "genesis_account timestamp i c =
     bindE (set_active_key timestamp (config_owner c) \<lparr> account_id = i, account_name = config_name c,
       account_public_data = [], owner_key = config_owner c, active_key_history = [],
       account_registration_date = timestamp, account_last_update = timestamp, delegate_info = None,
       meta_data = None \<rparr>) (\<lambda>r.
     Inr (if config_pay_rate c \<le> 100
          then r \<lparr> delegate_info := Some (new_delegate_stats \<lparr> pay_rate := word_of_int (config_pay_rate c) \<rparr>) \<rparr>
          else r))"

definition add_name ::
    "ext \<Rightarrow> time_point_sec \<Rightarrow> name_config \<Rightarrow> account_id_type \<times> account_id_type list \<times> delegate_map \<times> chain_database
     \<Rightarrow> exn + account_id_type \<times> account_id_type list \<times> delegate_map \<times> chain_database" where
  "add_name X timestamp c = (\<lambda>(i, delegate_ids, delegates, d).
     bindE (genesis_account timestamp i c) (\<lambda>r.
     Inr (if config_pay_rate c \<le> 100
          then (i + 1, delegate_ids @ [i], AList.update i r delegates, d)
          else (i + 1, delegate_ids, delegates, db_store_account_record X r d))))"

section \<open>Balances\<close>

definition total_unscaled :: "ext \<Rightarrow> genesis_block_config \<Rightarrow> 128 word" where
  "total_unscaled X config =
     fold (\<lambda>(addr, v) t. uint128_add X t (uint128_of_uint64 X (double_to_uint64 v))) (config_balances config) 0"

definition initial_shares :: "ext \<Rightarrow> genesis_lib \<Rightarrow> 128 word \<Rightarrow> double \<Rightarrow> exn + share_type" where
  "initial_shares X L unscaled v =
     bindE (uint128_div X (uint128_mul X (uint128_of_int64 X (double_to_int64 v))
             (uint128_of_int64 X BTS_BLOCKCHAIN_INITIAL_SHARES)) unscaled) (\<lambda>q.
     Inr (low_bits L q))"

type_synonym balance_map = "(pts_address, balance_record) table"

definition genesis_balance :: "ext \<Rightarrow> pts_address \<Rightarrow> share_type \<Rightarrow> slate_id_type \<Rightarrow> time_point_sec \<Rightarrow> balance_record" where
  "genesis_balance X addr shares slate timestamp =
     (balance_record_of \<lparr> condition_asset_id = 0, delegate_slate_id = slate,
        condition_data = Withdraw_with_signature (address_of_pts X addr) None \<rparr>)
     \<lparr> balance := shares, balance_last_update := timestamp \<rparr>"

text \<open>A balance that the configuration lists again is added to the first one and keeps its slate.\<close>

definition find_balance ::
    "ext \<Rightarrow> genesis_lib \<Rightarrow> time_point_sec \<Rightarrow> account_id_type list \<Rightarrow> pts_address \<Rightarrow> share_type \<Rightarrow> balance_map \<Rightarrow> chain_database \<Rightarrow> rng
     \<Rightarrow> (exn + balance_record \<times> chain_database \<times> rng) option" where
  "find_balance X L timestamp delegate_ids addr shares balances d prng =
     (case map_of balances addr of
        Some cur \<Rightarrow> Some (Inr (cur \<lparr> balance := balance cur + shares \<rparr>, d, prng))
      | None \<Rightarrow> bindR (generate_random_slate X L delegate_ids d prng) (\<lambda>(slate, d', prng').
                Some (Inr (genesis_balance X addr shares slate timestamp, d', prng'))))"

definition add_genesis_balance ::
    "ext \<Rightarrow> genesis_lib \<Rightarrow> time_point_sec \<Rightarrow> 128 word \<Rightarrow> account_id_type list \<Rightarrow> pts_address \<times> double
     \<Rightarrow> balance_map \<times> delegate_map \<times> chain_database \<times> rng
     \<Rightarrow> (exn + balance_map \<times> delegate_map \<times> chain_database \<times> rng) option" where
  "add_genesis_balance X L timestamp unscaled delegate_ids = (\<lambda>(addr, v) (balances, delegates, d, prng).
     bindR (Some (initial_shares X L unscaled v)) (\<lambda>shares.
     bindR (find_balance X L timestamp delegate_ids addr shares balances d prng) (\<lambda>(cur, d1, prng1).
     bindR (Some (of_option assert_failed (get_delegate_slate (Database d1) (delegate_slate_id (condition cur))))) (\<lambda>slate.
     bindR (Some (add_votes slate shares delegates)) (\<lambda>delegates'.
     let cur' = cur \<lparr> genesis_info := Some (get_balance cur, pts_string L addr) \<rparr>
     in Some (Inr (AList.update addr cur' balances, delegates', db_store_balance_record X cur' d1, prng1)))))))"

text \<open>The loop over the stored balances.\<close>

definition total_balances :: "chain_database \<Rightarrow> exn + asset" where
  "total_balances d =
     foldE (\<lambda>(i, r) total. if sint (amount (get_balance r)) \<ge> 0 then asset_add total (get_balance r) else Inl assert_failed)
       (in_order (balance_db d)) (asset_of 0 0)"

section \<open>Assets\<close>

definition base_asset :: "time_point_sec \<Rightarrow> share_type \<Rightarrow> asset_record" where
  "base_asset timestamp supply = \<lparr> asset_record_id = 0, symbol = ''XCL'', asset_name = ''LarkX'',
     description = ''LarkX P2P Currency'', asset_public_data = [], issuer_account_id = account_id god_record,
     precision = BTS_BLOCKCHAIN_PRECISION, asset_registration_date = timestamp, asset_last_update = timestamp,
     current_share_supply = supply, maximum_share_supply = BTS_BLOCKCHAIN_MAX_SHARES, collected_fees = 0 \<rparr>"

definition market_asset :: "time_point_sec \<Rightarrow> asset_id_type \<Rightarrow> asset_config \<Rightarrow> asset_record" where
  "market_asset timestamp i c = \<lparr> asset_record_id = i, symbol = config_symbol c, asset_name = config_asset_name c,
     description = config_description c, asset_public_data = [], issuer_account_id = market_issued_asset,
     precision = config_precision c, asset_registration_date = timestamp, asset_last_update = timestamp,
     current_share_supply = 0, maximum_share_supply = BTS_BLOCKCHAIN_MAX_SHARES, collected_fees = 0 \<rparr>"

definition add_market_asset :: "time_point_sec \<Rightarrow> asset_config \<Rightarrow> asset_id_type \<times> chain_database \<Rightarrow> asset_id_type \<times> chain_database" where
  "add_market_asset timestamp c = (\<lambda>(i, d). (i + 1, db_store_asset_record (market_asset timestamp (i + 1) c) d))"

section \<open>The check of the database\<close>

definition sanity_check :: "chain_database \<Rightarrow> exn + unit" where
  "sanity_check d =
     bindE (foldE (\<lambda>(i, r) total.
        if asset_id (get_balance r) = 0
        then if sint (amount (get_balance r)) \<ge> 0 then asset_add total (get_balance r) else Inl assert_failed
        else Inr total) (in_order (balance_db d)) (asset_of 0 0)) (\<lambda>total.
     bindE (foldE (\<lambda>(i, r) total. case delegate_info r of
          Some s \<Rightarrow> asset_add total (asset_of (pay_balance s) 0)
        | None \<Rightarrow> Inr total) (in_order (account_db d)) total) (\<lambda>total'.
     case get_asset_record (Database d) 0 of
       None \<Rightarrow> Inl assert_failed
     | Some ar \<Rightarrow>
         if current_share_supply ar \<noteq> amount total' then Inl assert_failed
         else if sint (current_share_supply ar) > sint (maximum_share_supply ar) then Inl assert_failed
         else Inr ()))"

section \<open>The genesis state\<close>

definition genesis_fork :: block_fork_data where
  "genesis_fork = new_fork_data \<lparr> is_valid := Some True, is_included := True, is_linked := True, is_known := True \<rparr>"

definition genesis_properties :: "genesis_block_config \<Rightarrow> asset_id_type \<Rightarrow> chain_database \<Rightarrow> chain_database" where
  "genesis_properties config last_asset d =
     (let d1 = db_set_property active_delegate_list_id (Ids_property (next_round_active_delegates d)) d;
          d2 = db_set_property last_asset_id (Int_property last_asset) d1;
          d3 = db_set_property last_proposal_id (Int_property 0) d2;
          d4 = db_set_property last_account_id (Int_property (int (length (config_names config)))) d3;
          d5 = db_set_property last_random_seed_id (Hash_property 0) d4
      in db_set_property confirmation_requirement (Int_property (int (BTS_BLOCKCHAIN_NUM_DELEGATES * 2))) d5)"

definition genesis_assets :: "genesis_block_config \<Rightarrow> share_type \<Rightarrow> chain_database \<Rightarrow> asset_id_type \<times> chain_database" where
  "genesis_assets config supply d =
     fold (add_market_asset (config_timestamp config)) (config_market_assets config)
       (0, db_store_asset_record (base_asset (config_timestamp config) supply) d)"

definition genesis_names ::
    "ext \<Rightarrow> genesis_block_config \<Rightarrow> chain_database \<Rightarrow> exn + account_id_type list \<times> delegate_map \<times> chain_database" where
  "genesis_names X config d =
     bindE (foldE (add_name X (config_timestamp config)) (config_names config) (1, [], [], db_store_account_record X god_record d))
       (\<lambda>(i, delegate_ids, delegates, d'). Inr (delegate_ids, delegates, d'))"

definition genesis_balances ::
    "ext \<Rightarrow> genesis_lib \<Rightarrow> genesis_block_config \<Rightarrow> account_id_type list \<Rightarrow> delegate_map \<Rightarrow> chain_database \<Rightarrow> (exn + chain_database) option" where
  "genesis_balances X L config delegate_ids delegates d =
     bindR (foldR (add_genesis_balance X L (config_timestamp config) (total_unscaled X config) delegate_ids) (config_balances config)
        ([], delegates, d, create_rng X L (db_chain_id d))) (\<lambda>(balances, delegates', d', prng).
     Some (Inr (store_delegates X delegates' d')))"

definition finish_genesis :: "genesis_block_config \<Rightarrow> fork_tree \<Rightarrow> chain_database \<Rightarrow> exn + chain_database \<times> fork_tree" where
  "finish_genesis config t d =
     bindE (total_balances d) (\<lambda>total.
     case genesis_assets config (amount total) d of (last_asset, d1) \<Rightarrow>
       let t' = store_fork 0 genesis_fork t; d2 = genesis_properties config last_asset d1
       in bindE (sanity_check d2) (\<lambda>_. Inr (d2, t')))"

definition create_genesis ::
    "ext \<Rightarrow> genesis_lib \<Rightarrow> genesis_block_config \<Rightarrow> digest_type \<Rightarrow> chain_database \<Rightarrow> fork_tree
     \<Rightarrow> (exn + chain_database \<times> fork_tree) option" where
  "create_genesis X L config cid d t =
     (let d1 = db_set_property chain_id (Hash_property cid) (d \<lparr> db_chain_id := cid \<rparr>)
      in if length (filter (\<lambda>c. config_pay_rate c \<le> 100) (config_names config)) < BTS_BLOCKCHAIN_NUM_DELEGATES
         then Some (Inl assert_failed)
         else
           bindR (Some (genesis_names X config d1)) (\<lambda>(delegate_ids, delegates, d2).
           bindR (genesis_balances X L config delegate_ids delegates d2) (\<lambda>d3.
           Some (finish_genesis config t d3))))"

definition initialize_genesis ::
    "ext \<Rightarrow> genesis_lib \<Rightarrow> genesis_block_config \<Rightarrow> digest_type \<Rightarrow> bool \<Rightarrow> chain_database \<Rightarrow> fork_tree
     \<Rightarrow> (exn + digest_type \<times> chain_database \<times> fork_tree) option" where
  "initialize_genesis X L config cid chain_id_only d t =
     (if db_chain_id d \<noteq> 0 \<and> \<not> chain_id_only
      then Some (bindE (sanity_check d) (\<lambda>_. Inr (db_chain_id d, d, t)))
      else if chain_id_only then Some (Inr (cid, d, t))
      else bindR (create_genesis X L config cid d t) (\<lambda>(d', t'). Some (Inr (cid, d', t'))))"

end
