(* ===== verification/Genesis_Laws.thy ===== *)
theory Genesis_Laws
  imports Genesis
begin

text \<open>
  The genesis state. The drawing of random slates ends for every generator that draws each delegate
  again and again; the state that results balances its books and meets the conditions the other
  theories ask of a database, so the statements about transactions and blocks hold from there on.
\<close>

section \<open>The random number generator\<close>

definition rng_ok :: "genesis_lib \<Rightarrow> bool" where
  "rng_ok L \<longleftrightarrow> (\<forall>hi s. fst (uniform_int L hi s) \<le> hi)"

abbreviation rng_after :: "genesis_lib \<Rightarrow> nat \<Rightarrow> nat \<Rightarrow> rng \<Rightarrow> rng" where
  "rng_after L hi n \<equiv> ((\<lambda>s. snd (uniform_int L hi s)) ^^ n)"

text \<open>Every number in the range is drawn at some time, from every state of the generator.\<close>

definition fair :: "genesis_lib \<Rightarrow> nat \<Rightarrow> bool" where
  "fair L hi \<longleftrightarrow> (\<forall>s. \<forall>i\<le>hi. \<exists>n. fst (uniform_int L hi (rng_after L hi n s)) = i)"

lemma fair_first:
  assumes "fair L hi" and "i \<le> hi" and "Q i"
  obtains n where "Q (fst (uniform_int L hi (rng_after L hi n s)))"
    and "\<And>m. m < n \<Longrightarrow> \<not> Q (fst (uniform_int L hi (rng_after L hi m s)))"
proof -
  obtain n where "fst (uniform_int L hi (rng_after L hi n s)) = i" using assms(1,2) unfolding fair_def by blast
  then have "Q (fst (uniform_int L hi (rng_after L hi n s)))" using assms(3) by simp
  then show ?thesis
    using that [of "LEAST n. Q (fst (uniform_int L hi (rng_after L hi n s)))"]
    by (metis (mono_tags, lifting) LeastI not_less_Least)
qed

lemma rng_after_Suc: "uniform_int L hi s = (j, s') \<Longrightarrow> rng_after L hi (Suc n) s = rng_after L hi n s'"
  by (simp add: funpow_Suc_right del: funpow.simps)

section \<open>The slates\<close>

text \<open>A draw that does not change the slate only advances the generator.\<close>

lemma adjust_slate_idle:
  assumes "length slate \<noteq> target"
    and "\<And>m. m < n \<Longrightarrow> (ids ! fst (uniform_int L (length ids - 1) (rng_after L (length ids - 1) m s)) \<in> set slate) =
      (length slate < target)"
  shows "adjust_slate L ids target slate s = adjust_slate L ids target slate (rng_after L (length ids - 1) n s)"
  using assms(2)
proof (induction n arbitrary: s)
  case (Suc n)
  let ?hi = "length ids - 1"
  obtain j s' where u: "uniform_int L ?hi s = (j, s')" by (cases "uniform_int L ?hi s")
  have "(ids ! j \<in> set slate) = (length slate < target)" using Suc.prems [of 0] u by simp
  then have step: "adjust_slate L ids target slate s = adjust_slate L ids target slate s'"
    using assms(1) u by (subst adjust_slate.simps)
      (auto simp: add_one_to_slate_def remove_one_from_slate_def remove1_idem)
  have "adjust_slate L ids target slate s' = adjust_slate L ids target slate (rng_after L ?hi n s')"
  proof (rule Suc.IH)
    fix m assume "m < n"
    then show "(ids ! fst (uniform_int L ?hi (rng_after L ?hi m s')) \<in> set slate) = (length slate < target)"
      using Suc.prems [of "Suc m"] unfolding rng_after_Suc [OF u] by simp
  qed
  with step show ?case unfolding rng_after_Suc [OF u] by simp
qed simp

definition slate_of :: "account_id_type list \<Rightarrow> nat \<Rightarrow> account_id_type list \<Rightarrow> bool" where
  "slate_of ids n slate \<longleftrightarrow> length slate = n \<and> distinct slate \<and> set slate \<subseteq> set ids"

lemma index_bound: "x \<in> set xs \<Longrightarrow> \<exists>i \<le> length xs - 1. xs ! i = x"
  by (metis Suc_pred' in_set_conv_nth length_pos_if_in_set less_Suc_eq_le)

lemma adjust_slate_shrinks:
  assumes "fair L (length ids - 1)" and "slate_of ids n slate" and "target \<le> n"
  shows "\<exists>slate' s'. adjust_slate L ids target slate s = Some (slate', s') \<and> slate_of ids target slate'"
  using assms(2,3)
proof (induction "n - target" arbitrary: n slate s)
  case 0
  then show ?case by (subst adjust_slate.simps) (auto simp: slate_of_def)
next
  case (Suc k)
  let ?hi = "length ids - 1"
  have len: "length slate = n" "target < n" using Suc.prems Suc.hyps(2) by (auto simp: slate_of_def)
  then have "hd slate \<in> set ids" "hd slate \<in> set slate" using Suc.prems by (cases slate; auto simp: slate_of_def)+
  then obtain i where i: "i \<le> ?hi" "ids ! i \<in> set slate" by (metis index_bound)
  obtain m where m: "ids ! fst (uniform_int L ?hi (rng_after L ?hi m s)) \<in> set slate"
    "\<And>k. k < m \<Longrightarrow> ids ! fst (uniform_int L ?hi (rng_after L ?hi k s)) \<notin> set slate"
    using fair_first [OF assms(1) i(1), where Q = "\<lambda>j. ids ! j \<in> set slate", OF i(2)] by blast
  obtain j s' where u: "uniform_int L ?hi (rng_after L ?hi m s) = (j, s')" by (cases "uniform_int L ?hi (rng_after L ?hi m s)")
  have "adjust_slate L ids target slate s = adjust_slate L ids target slate (rng_after L ?hi m s)"
    by (rule adjust_slate_idle) (use len m(2) in auto)
  also have "\<dots> = adjust_slate L ids target (remove1 (ids ! j) slate) s'"
    using len u by (subst adjust_slate.simps) (simp add: remove_one_from_slate_def)
  finally have eq: "adjust_slate L ids target slate s = adjust_slate L ids target (remove1 (ids ! j) slate) s'" .
  have "slate_of ids (n - 1) (remove1 (ids ! j) slate)"
    using Suc.prems(1) m(1) u by (auto simp: slate_of_def length_remove1 dest: notin_set_remove1)
  then show ?case unfolding eq using Suc.hyps len by (intro Suc.hyps(1)) auto
qed

lemma adjust_slate_grows:
  assumes "fair L (length ids - 1)" and "rng_ok L" and "slate_of ids n slate" and "n \<le> target" and "target \<le> card (set ids)"
  shows "\<exists>slate' s'. adjust_slate L ids target slate s = Some (slate', s') \<and> slate_of ids target slate'"
  using assms(3,4)
proof (induction "target - n" arbitrary: n slate s)
  case 0
  then show ?case by (subst adjust_slate.simps) (auto simp: slate_of_def)
next
  case (Suc k)
  let ?hi = "length ids - 1"
  have len: "length slate = n" "n < target" using Suc.prems Suc.hyps(2) by (auto simp: slate_of_def)
  have "card (set slate) < card (set ids)" using Suc.prems(1) len assms(5) by (simp add: slate_of_def distinct_card)
  then have "\<not> set ids \<subseteq> set slate" by (meson List.finite_set card_mono not_le)
  then obtain i where i: "i \<le> ?hi" "ids ! i \<notin> set slate" by (metis index_bound subsetI)
  obtain m where m: "ids ! fst (uniform_int L ?hi (rng_after L ?hi m s)) \<notin> set slate"
    "\<And>k. k < m \<Longrightarrow> \<not> ids ! fst (uniform_int L ?hi (rng_after L ?hi k s)) \<notin> set slate"
    using fair_first [OF assms(1) i(1), where Q = "\<lambda>j. ids ! j \<notin> set slate", OF i(2)] by blast
  obtain j s' where u: "uniform_int L ?hi (rng_after L ?hi m s) = (j, s')" by (cases "uniform_int L ?hi (rng_after L ?hi m s)")
  have "adjust_slate L ids target slate s = adjust_slate L ids target slate (rng_after L ?hi m s)"
    by (rule adjust_slate_idle) (use len m(2) in auto)
  also have "\<dots> = adjust_slate L ids target (List.insert (ids ! j) slate) s'"
    using len u by (subst adjust_slate.simps) (simp add: add_one_to_slate_def)
  finally have eq: "adjust_slate L ids target slate s = adjust_slate L ids target (List.insert (ids ! j) slate) s'" .
  have "j \<le> ?hi" using assms(2) u unfolding rng_ok_def by (metis fst_conv)
  moreover have "ids \<noteq> []" using assms(5) len by auto
  ultimately have "ids ! j \<in> set ids" by (intro nth_mem) (cases ids, auto)
  then have "slate_of ids (Suc n) (List.insert (ids ! j) slate)"
    using Suc.prems(1) m(1) u by (auto simp: slate_of_def List.insert_def)
  then show ?case unfolding eq using Suc.hyps len by (intro Suc.hyps(1)) auto
qed

text \<open>A slate of the genesis state has eight or nine delegates.\<close>

lemma slate_sizes [simp]: "BTS_BLOCKCHAIN_NUM_DELEGATES * GENESIS_VOTE_PERMILLE div 1000 = 8" "GENESIS_VOTE_PERMILLE < 500"
  by (simp_all add: BTS_BLOCKCHAIN_NUM_DELEGATES_def GENESIS_VOTE_PERMILLE_def)

lemma fold_insert_all: "distinct (xs @ acc) \<Longrightarrow> slate_of (xs @ acc) (length xs + length acc) (fold List.insert xs acc)"
proof (induction xs arbitrary: acc)
  case (Cons x xs)
  then have "slate_of (xs @ x # acc) (length xs + length (x # acc)) (fold List.insert xs (x # acc))" by (intro Cons.IH) auto
  moreover have "List.insert x acc = x # acc" using Cons.prems by simp
  ultimately show ?case by (simp add: slate_of_def)
qed (simp add: slate_of_def)

lemma random_slate_returns:
  assumes "fair L (length ids - 1)" and "rng_ok L" and "distinct ids" and "length ids \<ge> BTS_BLOCKCHAIN_NUM_DELEGATES"
  obtains slate s' where "slate_of ids 8 slate \<or> slate_of ids 9 slate"
    and "generate_random_slate X L ids d s = Some (Inr (slate_id X (sort slate), snd (store_slate X (sort slate) d), s'))"
proof -
  have n: "length ids \<ge> 101" using assms(4) by (simp add: BTS_BLOCKCHAIN_NUM_DELEGATES_def)
  have all: "slate_of ids (length ids) (fold List.insert ids [])" using fold_insert_all [of ids "[]"] assms(3) by simp
  obtain slate s1 where 1: "prefill_slate L ids s = Some (slate, s1)" "slate_of ids 8 slate"
    using adjust_slate_shrinks [OF assms(1) all, of 8 s] n by (auto simp: prefill_slate_def)
  obtain k s2 where u: "uniform_int L 999 s1 = (k, s2)" by (cases "uniform_int L 999 s1")
  obtain slate9 s9 where 9: "adjust_slate L ids 9 slate s2 = Some (slate9, s9)" "slate_of ids 9 slate9"
    using adjust_slate_grows [OF assms(1,2) 1(2), of 9 s2] n assms(3) by (auto simp: distinct_card)
  have len: "length slate = 8" using 1(2) by (simp add: slate_of_def)
  have "fill_remaining_slate L ids slate s1 = Some (Inr (if k \<ge> 80 then (slate, s2) else (slate9, s9)))"
    using 9(1) by (simp add: fill_remaining_slate_def len u BTS_BLOCKCHAIN_NUM_DELEGATES_def GENESIS_VOTE_PERMILLE_def)
  then show ?thesis
    using that [of "if k \<ge> 80 then slate else slate9" "if k \<ge> 80 then s2 else s9"] 1 9
    by (auto simp: generate_random_slate_def bindR_def store_slate_def slate_of_def slate_id_def Let_def split: if_split)
qed

section \<open>The tables of the genesis state\<close>

text \<open>
  What holds of the database while the genesis state is built, where \<open>n\<close> is the number of accounts:
  there are no orders, the records are stored under their own keys, nothing is collected as fees or
  pay, and every balance is in the base asset.
\<close>

definition genesis_ok :: "ext \<Rightarrow> int \<Rightarrow> chain_database \<Rightarrow> bool" where
  "genesis_ok X n d \<longleftrightarrow>
     ask_db d = [] \<and> bid_db d = [] \<and> short_db d = [] \<and> collateral_db d = [] \<and> feed_db d = [] \<and>
     table_ok (\<lambda>i r. i = asset_record_id r \<and> collected_fees r = 0 \<and> (i = 0 \<or> current_share_supply r = 0)) (asset_db d) \<and>
     table_ok (\<lambda>i r. i = balance_record_id X r \<and> condition_asset_id (condition r) = 0) (balance_db d) \<and>
     table_ok (\<lambda>i r. i = account_id r \<and> 1 \<le> i \<and> i \<le> n \<and> pay_in i r = 0) (account_db d) \<and>
     votes_indexed d"

definition fresh_database :: "chain_database \<Rightarrow> bool" where
  "fresh_database d \<longleftrightarrow>
     ask_db d = [] \<and> bid_db d = [] \<and> short_db d = [] \<and> collateral_db d = [] \<and> feed_db d = [] \<and>
     asset_db d = [] \<and> balance_db d = [] \<and> account_db d = [] \<and> delegate_vote_index_db d = []"

lemma fresh_genesis_ok: "fresh_database d \<Longrightarrow> genesis_ok X n d"
  by (simp add: fresh_database_def genesis_ok_def votes_indexed_def)

lemma table_ok_delete [simp]: "table_ok fits t \<Longrightarrow> table_ok fits (AList.delete k t)"
  using distinct_delete [of t k] by (auto simp: table_ok_def AList.delete_eq)

lemma account_db_store:
  "account_db (db_store_account_record X r d) =
     (if account_is_null r then AList.delete (account_id r) (account_db d) else AList.update (account_id r) r (account_db d))"
  by (auto simp: db_store_account_record_def Let_def map_of_eq_None_iff delete_id)

lemma genesis_ok_store_account:
  assumes "genesis_ok X n d" and "1 \<le> account_id r" and "account_id r \<le> n" and "pay_in (account_id r) r = 0"
  shows "genesis_ok X n (db_store_account_record X r d)"
proof -
  have "asset_db (db_store_account_record X r d) = asset_db d" "balance_db (db_store_account_record X r d) = balance_db d"
    "ask_db (db_store_account_record X r d) = ask_db d" "bid_db (db_store_account_record X r d) = bid_db d"
    "short_db (db_store_account_record X r d) = short_db d" "collateral_db (db_store_account_record X r d) = collateral_db d"
    "feed_db (db_store_account_record X r d) = feed_db d"
    by (simp_all add: db_store_account_record_def Let_def)
  then show ?thesis using assms votes_indexed_store_account [of d X r] by (simp add: genesis_ok_def account_db_store)
qed

lemma genesis_ok_simps [simp]:
  "genesis_ok X n (db_set_property p v d) = genesis_ok X n d"
  "genesis_ok X n (db_store_delegate_slate i s d) = genesis_ok X n d"
  "genesis_ok X n (d \<lparr> db_chain_id := cid \<rparr>) = genesis_ok X n d"
  by (simp_all add: genesis_ok_def db_set_property_def db_store_delegate_slate_def votes_indexed_def)

lemma genesis_ok_store_balance:
  "genesis_ok X n d \<Longrightarrow> condition_asset_id (condition r) = 0 \<Longrightarrow> genesis_ok X n (db_store_balance_record X r d)"
  by (simp add: genesis_ok_def db_store_balance_record_def votes_indexed_def)

lemma genesis_ok_store_asset:
  "genesis_ok X n d \<Longrightarrow> collected_fees r = 0 \<Longrightarrow> asset_record_id r = 0 \<or> current_share_supply r = 0 \<Longrightarrow>
   genesis_ok X n (db_store_asset_record r d)"
  by (auto simp: genesis_ok_def db_store_asset_record_def votes_indexed_def)

lemma genesis_ok_god: "genesis_ok X n d \<Longrightarrow> genesis_ok X n (db_store_account_record X god_record d)"
proof -
  assume ok: "genesis_ok X n d"
  then have "map_of (account_db d) 0 = None" by (force simp: genesis_ok_def table_ok_def map_of_eq_None_iff)
  then have "db_store_account_record X god_record d = d"
    by (simp add: db_store_account_record_def god_record_def account_is_null_def Let_def)
  with ok show ?thesis by simp
qed

text \<open>The delegates that are not stored yet.\<close>

definition delegates_ok :: "int \<Rightarrow> account_id_type list \<Rightarrow> delegate_map \<Rightarrow> bool" where
  "delegates_ok n ids m \<longleftrightarrow> distinct ids \<and> set ids = fst ` set m \<and>
     table_ok (\<lambda>i r. i = account_id r \<and> 1 \<le> i \<and> i \<le> n \<and> pay_in i r = 0 \<and> delegate_info r \<noteq> None) m"

lemma table_ok_mono: "table_ok P t \<Longrightarrow> (\<And>k v. P k v \<Longrightarrow> Q k v) \<Longrightarrow> table_ok Q t"
  by (auto simp: table_ok_def)

lemma genesis_ok_mono: "genesis_ok X n d \<Longrightarrow> n \<le> m \<Longrightarrow> genesis_ok X m d"
  by (auto simp: genesis_ok_def elim!: table_ok_mono)

lemma delegates_ok_mono: "delegates_ok n ids m \<Longrightarrow> n \<le> k \<Longrightarrow> delegates_ok k ids m"
  by (auto simp: delegates_ok_def elim!: table_ok_mono)

lemma genesis_account_facts:
  assumes "genesis_account t i c = Inr r"
  shows "account_id r = i" "pay_in j r = 0" "delegate_info r \<noteq> None \<longleftrightarrow> config_pay_rate c \<le> 100" "owner_key r = config_owner c"
  using assms by (auto simp: genesis_account_def set_active_key_def pay_in_def new_delegate_stats_def split: if_split_asm elim!: bindE_InrE)

lemma add_name_ok:
  assumes "add_name X t c (i, ids, m, d) = Inr (i', ids', m', d')" and "1 \<le> i"
    and "genesis_ok X (i - 1) d" and "delegates_ok (i - 1) ids m"
  shows "i' = i + 1" and "genesis_ok X i d'" and "delegates_ok i ids' m'"
    and "length ids' = length ids + (if config_pay_rate c \<le> 100 then 1 else 0)"
proof -
  obtain r where r: "genesis_account t i c = Inr r"
    and e: "(i', ids', m', d') = (if config_pay_rate c \<le> 100 then (i + 1, ids @ [i], AList.update i r m, d)
      else (i + 1, ids, m, db_store_account_record X r d))"
    using assms(1) by (auto simp: add_name_def elim!: bindE_InrE split: if_split_asm)
  note f = genesis_account_facts [OF r]
  have ok: "genesis_ok X i d" "delegates_ok i ids m"
    using assms(3,4) by (auto elim: genesis_ok_mono delegates_ok_mono)
  have new: "i \<notin> set ids" using assms(4) by (force simp: delegates_ok_def table_ok_def)
  show "i' = i + 1" "length ids' = length ids + (if config_pay_rate c \<le> 100 then 1 else 0)"
    using e by (auto split: if_split_asm)
  show "genesis_ok X i d'"
    using e ok(1) f assms(2) by (auto intro!: genesis_ok_store_account split: if_split_asm)
  have "delegates_ok i (ids @ [i]) (AList.update i r m)" if "config_pay_rate c \<le> 100"
    using ok(2) new f assms(2) that by (auto simp: delegates_ok_def keys_of_table)
  then show "delegates_ok i ids' m'" using e ok(2) by (auto split: if_split_asm)
qed

lemma foldE_names:
  assumes "foldE (add_name X t) cs (i, ids, m, d) = Inr (i', ids', m', d')" and "1 \<le> i"
    and "genesis_ok X (i - 1) d" and "delegates_ok (i - 1) ids m"
  shows "i' = i + int (length cs) \<and> genesis_ok X (i' - 1) d' \<and> delegates_ok (i' - 1) ids' m' \<and>
    length ids' = length ids + length (filter (\<lambda>c. config_pay_rate c \<le> 100) cs)"
  using assms
proof (induction cs arbitrary: i ids m d)
  case (Cons c cs)
  obtain i1 ids1 m1 d1 where 1: "add_name X t c (i, ids, m, d) = Inr (i1, ids1, m1, d1)"
    and 2: "foldE (add_name X t) cs (i1, ids1, m1, d1) = Inr (i', ids', m', d')"
    using Cons.prems(1) by (auto elim!: bindE_InrE)
  note ok = add_name_ok [OF 1 Cons.prems(2-4)]
  with Cons.IH [OF 2] Cons.prems(2) show ?case by (auto split: if_split_asm)
qed simp

lemma genesis_names_ok:
  assumes "genesis_names X config d = Inr (ids, m, d')" and "genesis_ok X 0 d"
  shows "genesis_ok X (int (length (config_names config))) d' \<and> delegates_ok (int (length (config_names config))) ids m \<and>
    length ids = length (filter (\<lambda>c. config_pay_rate c \<le> 100) (config_names config))"
proof -
  obtain i where "foldE (add_name X (config_timestamp config)) (config_names config)
      (1, [], [], db_store_account_record X god_record d) = Inr (i, ids, m, d')"
    using assms(1) by (auto simp: genesis_names_def elim!: bindE_InrE)
  moreover have "delegates_ok 0 [] []" by (simp add: delegates_ok_def)
  ultimately show ?thesis using foldE_names [of X "config_timestamp config"] genesis_ok_god [OF assms(2)] by fastforce
qed

text \<open>Computations that may not end.\<close>

lemma bindR_InrE:
  assumes "bindR m f = Some (Inr y)"
  obtains x where "m = Some (Inr x)" and "f x = Some (Inr y)"
  using assms by (auto simp: bindR_def split: option.split_asm sum.split_asm)

lemma bindR_returns: "m \<noteq> None \<Longrightarrow> (\<And>x. m = Some (Inr x) \<Longrightarrow> f x \<noteq> None) \<Longrightarrow> bindR m f \<noteq> None"
  by (auto simp: bindR_def split: option.split sum.split)

lemma foldR_invariant:
  assumes "foldR f xs s = Some (Inr s')" and "P s"
    and "\<And>x s s'. x \<in> set xs \<Longrightarrow> P s \<Longrightarrow> f x s = Some (Inr s') \<Longrightarrow> P s'"
  shows "P s'"
  using assms by (induction xs arbitrary: s) (auto elim!: bindR_InrE)

lemma foldR_returns:
  assumes "\<And>x s. f x s \<noteq> None"
  shows "foldR f xs s \<noteq> None"
proof (induction xs arbitrary: s)
  case (Cons x xs)
  show ?case unfolding foldR.simps by (rule bindR_returns [OF assms Cons.IH])
qed simp

lemma generate_random_slate_db:
  assumes "generate_random_slate X L ids d s = Some (Inr (i, d', s'))"
  shows "d' = d \<or> (\<exists>sl. d' = db_store_delegate_slate i sl d)"
  using assms by (auto simp: generate_random_slate_def store_slate_def Let_def elim!: bindR_InrE split: if_split_asm)

definition balances_ok :: "balance_map \<Rightarrow> bool" where
  "balances_ok = table_ok (\<lambda>a r. condition_asset_id (condition r) = 0)"

lemma find_balance_ok:
  assumes "find_balance X L t ids addr shares bs d s = Some (Inr (cur, d', s'))" and "balances_ok bs" and "genesis_ok X n d"
  shows "condition_asset_id (condition cur) = 0" and "genesis_ok X n d'"
proof -
  have "map_of bs a = Some cur0 \<Longrightarrow> condition_asset_id (condition cur0) = 0" for a cur0
    using assms(2) by (auto simp: balances_ok_def table_ok_def dest!: map_of_SomeD)
  then show "condition_asset_id (condition cur) = 0"
    using assms(1) by (auto simp: find_balance_def genesis_balance_def balance_record_of_def elim!: bindR_InrE split: option.split_asm)
  show "genesis_ok X n d'"
    using assms(1,3) by (auto simp: find_balance_def elim!: bindR_InrE split: option.split_asm dest!: generate_random_slate_db)
qed

lemma add_votes_ok:
  assumes "add_votes slate amt m = Inr m'" and "delegates_ok n ids m"
  shows "delegates_ok n ids m'"
  using assms(1) unfolding add_votes_def
proof (rule foldE_invariant)
  fix acct m m'
  assume ok: "delegates_ok n ids m" and e: "(case map_of m acct of None \<Rightarrow> Inl assert_failed
    | Some r \<Rightarrow> bindE (adjust_votes_for amt r) (\<lambda>r'. Inr (AList.update acct r' m))) = Inr m'"
  obtain r st where r: "map_of m acct = Some r" "delegate_info r = Some st"
    and m': "m' = AList.update acct (r \<lparr> delegate_info := Some (st \<lparr> votes_for := votes_for st + amt \<rparr>) \<rparr>) m"
    using e by (auto simp: adjust_votes_for_def split: option.split_asm)
  have "acct \<in> fst ` set m" using r(1) by (metis domI dom_map_of_conv_image_fst)
  moreover have "acct = account_id r \<and> 1 \<le> acct \<and> acct \<le> n \<and> pay_in acct r = 0"
    using ok map_of_SomeD [OF r(1)] by (auto simp: delegates_ok_def table_ok_def)
  ultimately show "delegates_ok n ids m'"
    using ok r(2) by (auto simp: m' delegates_ok_def keys_of_table pay_in_def)
qed (rule assms(2))

lemma add_genesis_balance_ok:
  assumes "add_genesis_balance X L t u ids x (bs, m, d, s) = Some (Inr (bs', m', d', s'))"
    and "balances_ok bs" and "delegates_ok n ids m" and "genesis_ok X n d"
  shows "balances_ok bs'" and "delegates_ok n ids m'" and "genesis_ok X n d'"
proof -
  obtain addr v shares cur d1 slate where f: "find_balance X L t ids addr shares bs d s = Some (Inr (cur, d1, s'))"
    and v: "add_votes slate shares m = Inr m'"
    and e: "bs' = AList.update addr (cur \<lparr> genesis_info := Some (get_balance cur, pts_string L addr) \<rparr>) bs"
      "d' = db_store_balance_record X (cur \<lparr> genesis_info := Some (get_balance cur, pts_string L addr) \<rparr>) d1"
    using assms(1) by (cases x) (auto simp: add_genesis_balance_def Let_def elim!: bindR_InrE)
  note ok = find_balance_ok [OF f assms(2,4)]
  show "balances_ok bs'" using ok assms(2) by (simp add: e balances_ok_def)
  show "delegates_ok n ids m'" using v assms(3) by (rule add_votes_ok)
  show "genesis_ok X n d'" unfolding e(2) using ok by (intro genesis_ok_store_balance) auto
qed

lemma genesis_balances_ok:
  assumes "genesis_balances X L config ids m d = Some (Inr d')" and "delegates_ok n ids m" and "genesis_ok X n d"
  shows "genesis_ok X n d'"
proof -
  obtain bs m1 d1 s where f: "foldR (add_genesis_balance X L (config_timestamp config) (total_unscaled X config) ids) (config_balances config)
      ([], m, d, create_rng X L (db_chain_id d)) = Some (Inr (bs, m1, d1, s))" and d': "d' = store_delegates X m1 d1"
    using assms(1) by (auto simp: genesis_balances_def elim!: bindR_InrE)
  have "case (bs, m1, d1, s) of (bs, m, d, s) \<Rightarrow> balances_ok bs \<and> delegates_ok n ids m \<and> genesis_ok X n d"
    using f by (rule foldR_invariant) (use assms(2,3) in \<open>auto simp: balances_ok_def [THEN fun_cong, of "[]"] dest: add_genesis_balance_ok\<close>)
  then have ok: "delegates_ok n ids m1" "genesis_ok X n d1" by auto
  have step: "genesis_ok X n (fold (\<lambda>(i, r). db_store_account_record X r) t d1)"
    if "table_ok (\<lambda>i r. i = account_id r \<and> 1 \<le> i \<and> i \<le> n \<and> pay_in i r = 0 \<and> delegate_info r \<noteq> None) t" for t
    using that ok(2) by (induction t arbitrary: d1) (auto simp: table_ok_def intro!: genesis_ok_store_account)
  show ?thesis
    unfolding d' store_delegates_def using ok(1) by (intro step) (simp add: table_ok_in_order delegates_ok_def)
qed

lemma genesis_assets_ok:
  assumes "genesis_ok X n d" and "genesis_assets config supply d = (last_asset, d')"
  shows "genesis_ok X n d'" and "map_of (asset_db d') 0 = Some (base_asset (config_timestamp config) supply)" and "balance_db d' = balance_db d"
proof -
  let ?b = "base_asset (config_timestamp config) supply"
  have step: "genesis_ok X n (snd (fold (add_market_asset t) cs (i, d))) \<and>
      map_of (asset_db (snd (fold (add_market_asset t) cs (i, d)))) 0 = Some ?b \<and>
      balance_db (snd (fold (add_market_asset t) cs (i, d))) = balance_db d"
    if "genesis_ok X n d" "map_of (asset_db d) 0 = Some ?b" "0 \<le> i" for t cs i d
    using that
  proof (induction cs arbitrary: i d)
    case (Cons c cs)
    let ?d = "db_store_asset_record (market_asset t (i + 1) c) d"
    have "genesis_ok X n ?d" using Cons.prems(1) by (rule genesis_ok_store_asset) (simp_all add: market_asset_def)
    moreover have "map_of (asset_db ?d) 0 = Some ?b" "balance_db ?d = balance_db d"
      using Cons.prems by (auto simp: db_store_asset_record_def market_asset_def asset_is_null_def)
    ultimately show ?case using Cons.IH [of ?d "i + 1"] Cons.prems(3) by (simp add: add_market_asset_def)
  qed simp
  let ?d = "db_store_asset_record ?b d"
  have "genesis_ok X n ?d" using assms(1) by (rule genesis_ok_store_asset) (simp_all add: base_asset_def)
  moreover have "map_of (asset_db ?d) 0 = Some ?b" "balance_db ?d = balance_db d"
    by (simp_all add: db_store_asset_record_def base_asset_def god_record_def asset_is_null_def)
  ultimately show "genesis_ok X n d'" "map_of (asset_db d') 0 = Some ?b" "balance_db d' = balance_db d"
    using step [of ?d 0 "config_timestamp config" "config_market_assets config"] assms(2) by (simp_all add: genesis_assets_def)
qed

section \<open>The check of the database\<close>

lemma sanity_total_balances:
  assumes "foldE (\<lambda>(i, r) total. if asset_id (get_balance r) = 0
      then if sint (amount (get_balance r)) \<ge> 0 then asset_add total (get_balance r) else Inl assert_failed
      else Inr total) xs tot = Inr tot'"
  shows "amount tot' = amount tot + tsum (balance_in 0) xs"
  using assms
proof (induction xs arbitrary: tot)
  case (Cons x xs)
  obtain i r where x: "x = (i, r)" by (cases x)
  obtain t1 where 1: "(if asset_id (get_balance r) = 0
      then if sint (amount (get_balance r)) \<ge> 0 then asset_add tot (get_balance r) else Inl assert_failed
      else Inr tot) = Inr t1" and 2: "foldE (\<lambda>(i, r) total. if asset_id (get_balance r) = 0
      then if sint (amount (get_balance r)) \<ge> 0 then asset_add total (get_balance r) else Inl assert_failed
      else Inr total) xs t1 = Inr tot'"
    using Cons.prems by (auto simp: x elim!: bindE_InrE)
  have "amount t1 = amount tot + balance_in 0 i r"
    using 1 by (auto simp: asset_add_Inr_iff balance_in_def get_balance_def split: if_split_asm)
  with Cons.IH [OF 2] show ?case by (simp add: x tsum_def)
qed (simp add: tsum_def)

lemma sanity_total_pay:
  assumes "foldE (\<lambda>(i, r) total. case delegate_info r of
      Some s \<Rightarrow> asset_add total (asset_of (pay_balance s) 0) | None \<Rightarrow> Inr total) xs tot = Inr tot'"
  shows "amount tot' = amount tot + tsum pay_in xs"
  using assms
proof (induction xs arbitrary: tot)
  case (Cons x xs)
  obtain i r where x: "x = (i, r)" by (cases x)
  obtain t1 where 1: "(case delegate_info r of
      Some s \<Rightarrow> asset_add tot (asset_of (pay_balance s) 0) | None \<Rightarrow> Inr tot) = Inr t1"
    and 2: "foldE (\<lambda>(i, r) total. case delegate_info r of
      Some s \<Rightarrow> asset_add total (asset_of (pay_balance s) 0) | None \<Rightarrow> Inr total) xs t1 = Inr tot'"
    using Cons.prems by (auto simp: x elim!: bindE_InrE)
  have "amount t1 = amount tot + pay_in i r"
    using 1 by (auto simp: asset_add_Inr_iff pay_in_def split: option.split_asm)
  with Cons.IH [OF 2] show ?case by (simp add: x tsum_def)
qed (simp add: tsum_def)

lemma sanity_check_supply:
  assumes "sanity_check d = Inr u" and "database_ok d"
  shows "supply_of (Database d) 0 = msum (balance_in 0) (map_of (balance_db d)) + msum pay_in (map_of (account_db d))"
proof -
  obtain t t' ar where 1: "foldE (\<lambda>(i, r) total. if asset_id (get_balance r) = 0
      then if sint (amount (get_balance r)) \<ge> 0 then asset_add total (get_balance r) else Inl assert_failed
      else Inr total) (in_order (balance_db d)) (asset_of 0 0) = Inr t"
    and 2: "foldE (\<lambda>(i, r) total. case delegate_info r of
      Some s \<Rightarrow> asset_add total (asset_of (pay_balance s) 0) | None \<Rightarrow> Inr total) (in_order (account_db d)) t = Inr t'"
    and ar: "map_of (asset_db d) 0 = Some ar" "current_share_supply ar = amount t'"
    using assms(1) unfolding sanity_check_def by (auto elim!: bindE_InrE split: option.split_asm if_split_asm)
  show ?thesis
    using sanity_total_balances [OF 1] sanity_total_pay [OF 2] ar assms(2)
    by (simp add: supply_of_def tsum_in_order msum_map_of database_ok_def)
qed

section \<open>The genesis state\<close>

lemma create_genesis_steps:
  assumes "create_genesis X L config cid d t = Some (Inr (d', t'))" and "fresh_database d"
  shows "genesis_ok X (int (length (config_names config))) d'" and "sanity_check d' = Inr ()"
    and "t' = store_fork 0 genesis_fork t" and "\<exists>last_asset d4. d' = genesis_properties config last_asset d4"
proof -
  let ?n = "int (length (config_names config))" and ?d1 = "db_set_property chain_id (Hash_property cid) (d \<lparr> db_chain_id := cid \<rparr>)"
  obtain ids m d2 d3 where 2: "genesis_names X config ?d1 = Inr (ids, m, d2)"
    and 3: "genesis_balances X L config ids m d2 = Some (Inr d3)" and f: "finish_genesis config t d3 = Inr (d', t')"
    using assms(1) by (auto simp: create_genesis_def Let_def elim!: bindR_InrE split: if_split_asm)
  obtain total where total: "total_balances d3 = Inr total" using f by (auto simp: finish_genesis_def elim: bindE_InrE)
  obtain last_asset d4 where 4: "genesis_assets config (amount total) d3 = (last_asset, d4)"
    by (cases "genesis_assets config (amount total) d3")
  have s: "sanity_check (genesis_properties config last_asset d4) = Inr ()"
    and e: "d' = genesis_properties config last_asset d4" "t' = store_fork 0 genesis_fork t"
    using f by (auto simp: finish_genesis_def Let_def total 4 elim!: bindE_InrE)
  have "genesis_ok X 0 ?d1" using fresh_genesis_ok [OF assms(2)] by simp
  from genesis_names_ok [OF 2 this] have "genesis_ok X ?n d3" using genesis_balances_ok [OF 3] by blast
  then have "genesis_ok X ?n d4" using genesis_assets_ok 4 by blast
  then show "genesis_ok X ?n d'" by (simp add: e genesis_properties_def Let_def)
  show "sanity_check d' = Inr ()" "t' = store_fork 0 genesis_fork t" "\<exists>last_asset d4. d' = genesis_properties config last_asset d4"
    using s e by auto
qed

lemma genesis_ok_database_ok: "genesis_ok X n d \<Longrightarrow> database_ok d"
  by (simp add: genesis_ok_def database_ok_def table_ok_def)

lemma table_ok_lookup: "table_ok P t \<Longrightarrow> \<forall>k v. map_of t k = Some v \<longrightarrow> P k v"
  by (auto simp: table_ok_def dest!: map_of_SomeD)

lemma genesis_books:
  assumes ok: "genesis_ok X n d" and "sanity_check d = Inr ()"
  shows "chain_total (Database d) a = supply_of (Database d) a"
proof -
  have g: "get_balance_record (Database d) = map_of (balance_db d)" "get_ask_record (Database d) = Map.empty"
    "get_bid_record (Database d) = Map.empty" "get_short_record (Database d) = Map.empty"
    "get_collateral_record (Database d) = Map.empty" "get_account_record (Database d) = map_of (account_db d)"
    using ok by (simp_all add: fun_eq_iff genesis_ok_def)
  have fees: "fees_of (Database d) a = 0" for a
    using ok by (auto simp: fees_of_def genesis_ok_def dest!: table_ok_lookup split: option.split)
  show ?thesis
  proof (cases "a = 0")
    case True
    with sanity_check_supply [OF assms(2) genesis_ok_database_ok [OF ok]] show ?thesis by (simp add: chain_total_def fees g)
  next
    case False
    have "balance_in a i (the (map_of (balance_db d) i)) = 0" if "i \<in> dom (map_of (balance_db d))" for i
      using that ok False by (auto simp: balance_in_def genesis_ok_def dest!: table_ok_lookup)
    then have "msum (balance_in a) (map_of (balance_db d)) = 0" by (simp add: msum_def)
    moreover have "supply_of (Database d) a = 0"
      using ok False by (auto simp: supply_of_def genesis_ok_def dest!: table_ok_lookup split: option.split)
    ultimately show ?thesis using False by (simp add: chain_total_def fees g)
  qed
qed

section \<open>The genesis balances\<close>

text \<open>Every balance is a genesis balance of the base asset, and the slate it votes for is stored.\<close>

definition genesis_balance_ok :: "chain \<Rightarrow> balance_record \<Rightarrow> bool" where
  "genesis_balance_ok c r \<longleftrightarrow> condition_asset_id (condition r) = 0 \<and> genesis_info r \<noteq> None \<and>
     get_delegate_slate c (delegate_slate_id (condition r)) \<noteq> None"

definition slates_known :: "chain_database \<Rightarrow> bool" where
  "slates_known d \<longleftrightarrow> table_ok (\<lambda>i r. genesis_balance_ok (Database d) r) (balance_db d)"

lemma slates_known_mono:
  assumes "slates_known d" and "balance_db d' = balance_db d" and "\<And>i. map_of (slate_db d) i \<noteq> None \<Longrightarrow> map_of (slate_db d') i \<noteq> None"
  shows "slates_known d'"
  using assms by (fastforce simp: slates_known_def table_ok_def genesis_balance_ok_def)

lemma generate_random_slate_known:
  assumes "generate_random_slate X L ids d s = Some (Inr (i, d', s'))" and "slates_known d"
  shows "slates_known d'"
proof -
  obtain sl where sl: "store_slate X sl d = (i, d')"
    using assms(1) by (auto simp: generate_random_slate_def elim!: bindR_InrE split: prod.split_asm)
  show ?thesis
    by (rule slates_known_mono [OF assms(2)])
      (use sl in \<open>auto simp: store_slate_def db_store_delegate_slate_def Let_def update_conv' split: if_split_asm\<close>)
qed

lemma find_balance_known:
  assumes "find_balance X L t ids addr shares bs d s = Some (Inr (cur, d', s'))" and "slates_known d" and "balances_ok bs"
  shows "slates_known d'" and "condition_asset_id (condition cur) = 0"
proof -
  have "map_of bs a = Some cur0 \<Longrightarrow> condition_asset_id (condition cur0) = 0" for a cur0
    using assms(3) by (auto simp: balances_ok_def table_ok_def dest!: map_of_SomeD)
  then show "condition_asset_id (condition cur) = 0" "slates_known d'"
    using assms(1,2) by (auto simp: find_balance_def genesis_balance_def balance_record_of_def elim!: bindR_InrE
        split: option.split_asm dest: generate_random_slate_known)
qed

lemma add_genesis_balance_known:
  assumes "add_genesis_balance X L t u ids x (bs, m, d, s) = Some (Inr (bs', m', d', s'))" and "balances_ok bs" and "slates_known d"
  shows "balances_ok bs'" and "slates_known d'"
proof -
  obtain addr v shares cur d1 slate where f: "find_balance X L t ids addr shares bs d s = Some (Inr (cur, d1, s'))"
    and sl: "of_option assert_failed (get_delegate_slate (Database d1) (delegate_slate_id (condition cur))) = Inr slate"
    and e: "bs' = AList.update addr (cur \<lparr> genesis_info := Some (get_balance cur, pts_string L addr) \<rparr>) bs"
      "d' = db_store_balance_record X (cur \<lparr> genesis_info := Some (get_balance cur, pts_string L addr) \<rparr>) d1"
    using assms(1) by (cases x) (auto simp: add_genesis_balance_def Let_def elim!: bindR_InrE)
  note ok = find_balance_known [OF f assms(3,2)]
  show "balances_ok bs'" using ok assms(2) by (simp add: e balances_ok_def)
  have "map_of (slate_db d1) (delegate_slate_id (condition cur)) \<noteq> None"
    using sl by (auto simp: of_option_def split: option.split_asm)
  then show "slates_known d'"
    using ok by (simp add: e slates_known_def db_store_balance_record_def genesis_balance_ok_def)
qed

lemma stored_accounts_known:
  "slates_known d \<Longrightarrow> slates_known (db_store_account_record X r d)"
  by (erule slates_known_mono) (simp_all add: db_store_account_record_def Let_def)

lemma genesis_balances_known:
  assumes "genesis_balances X L config ids m d = Some (Inr d')" and "slates_known d"
  shows "slates_known d'"
proof -
  obtain bs m1 d1 s where f: "foldR (add_genesis_balance X L (config_timestamp config) (total_unscaled X config) ids) (config_balances config)
      ([], m, d, create_rng X L (db_chain_id d)) = Some (Inr (bs, m1, d1, s))" and d': "d' = store_delegates X m1 d1"
    using assms(1) by (auto simp: genesis_balances_def elim!: bindR_InrE)
  have "case (bs, m1, d1, s) of (bs, m, d, s) \<Rightarrow> balances_ok bs \<and> slates_known d"
    using f by (rule foldR_invariant) (use assms(2) in \<open>auto simp: balances_ok_def [THEN fun_cong, of "[]"] dest: add_genesis_balance_known\<close>)
  then have "slates_known d1" by auto
  moreover have "slates_known d1 \<Longrightarrow> slates_known (fold (\<lambda>(i, r). db_store_account_record X r) t d1)" for t d1
    by (induction t arbitrary: d1) (auto intro: stored_accounts_known)
  ultimately show ?thesis by (simp add: d' store_delegates_def)
qed

lemma genesis_names_known:
  assumes "genesis_names X config d = Inr (ids, m, d')" and "slates_known d"
  shows "slates_known d'"
proof -
  obtain i where f: "foldE (add_name X (config_timestamp config)) (config_names config) (1, [], [], db_store_account_record X god_record d) =
      Inr (i, ids, m, d')"
    using assms(1) by (auto simp: genesis_names_def elim!: bindE_InrE)
  have "case (i, ids, m, d') of (i, ids, m, d) \<Rightarrow> slates_known d"
    using f by (rule foldE_invariant)
      (use assms(2) in \<open>auto simp: add_name_def intro: stored_accounts_known elim!: bindE_InrE split: if_split_asm\<close>)
  then show ?thesis by simp
qed

lemma genesis_assets_known:
  assumes "genesis_assets config supply d = (last_asset, d')" and "slates_known d"
  shows "slates_known d'"
proof -
  have store: "slates_known d \<Longrightarrow> slates_known (db_store_asset_record r d)" for r d
    by (erule slates_known_mono) (simp_all add: db_store_asset_record_def)
  have "slates_known d \<Longrightarrow> slates_known (snd (fold (add_market_asset t) cs (i, d)))" for t cs i d
    by (induction cs arbitrary: i d) (simp_all add: add_market_asset_def store)
  then show ?thesis using assms store by (metis genesis_assets_def snd_conv)
qed

lemma genesis_balances_are_ok:
  assumes "create_genesis X L config cid d t = Some (Inr (d', t'))" and "fresh_database d"
    and "get_balance_record (Database d') i = Some r"
  shows "genesis_balance_ok (Database d') r"
proof -
  let ?d1 = "db_set_property chain_id (Hash_property cid) (d \<lparr> db_chain_id := cid \<rparr>)"
  obtain ids m d2 d3 where 2: "genesis_names X config ?d1 = Inr (ids, m, d2)"
    and 3: "genesis_balances X L config ids m d2 = Some (Inr d3)" and f: "finish_genesis config t d3 = Inr (d', t')"
    using assms(1) by (auto simp: create_genesis_def Let_def elim!: bindR_InrE split: if_split_asm)
  obtain total last_asset d4 where 4: "genesis_assets config total d3 = (last_asset, d4)"
    and d': "d' = genesis_properties config last_asset d4"
    using f by (auto simp: finish_genesis_def Let_def elim!: bindE_InrE split: prod.split_asm)
  have "slates_known ?d1" using assms(2) by (simp add: slates_known_def fresh_database_def db_set_property_def)
  then have "slates_known d4" using genesis_names_known [OF 2] genesis_balances_known [OF 3] genesis_assets_known [OF 4] by blast
  then have "slates_known d'"
    by (rule slates_known_mono) (simp_all add: d' genesis_properties_def Let_def db_set_property_def)
  then show ?thesis using assms(3) by (auto simp: slates_known_def dest!: table_ok_lookup)
qed

text \<open>The properties the first block needs.\<close>

lemma genesis_properties_facts:
  "get_active_delegates (Database (genesis_properties config i d)) = Inr (next_round_active_delegates (genesis_properties config i d))"
  "get_property (Database (genesis_properties config i d)) last_account_id = Inr (Int_property (int (length (config_names config))))"
  "get_current_random_seed (Database (genesis_properties config i d)) = Inr 0"
  by (simp_all add: genesis_properties_def Let_def get_active_delegates_def db_get_property_def db_set_property_def
      get_current_random_seed_def as_digest_def next_round_active_delegates_def get_delegates_by_vote_def)

lemma genesis_chain_ok:
  assumes "genesis_ok X n d" and "get_property (Database d) last_account_id = Inr (Int_property n)"
  shows "chain_ok X (Pending new_pending_state (Database d))"
  using assms by (auto simp: chain_ok_def genesis_ok_def new_pending_state_def dest!: table_ok_lookup)

definition fresh_tree :: "fork_tree \<Rightarrow> bool" where
  "fresh_tree t \<longleftrightarrow> t = \<lparr> block_id_to_block_data_db = [], block_id_to_block_record_db = [], fork_number_db = [], fork_db = [] \<rparr>"

lemma fresh_tree_genesis: "fresh_tree t \<Longrightarrow> store_fork 0 genesis_fork t = genesis_tree"
  by (simp add: fresh_tree_def store_fork_def genesis_tree_def genesis_fork_def)

lemma add_genesis_balance_returns:
  assumes "fair L (length ids - 1)" and "rng_ok L" and "distinct ids" and "length ids \<ge> BTS_BLOCKCHAIN_NUM_DELEGATES"
  shows "add_genesis_balance X L t u ids x st \<noteq> None"
proof -
  have f: "find_balance X L t ids addr shares bs d s \<noteq> None" for addr shares bs d s
  proof (cases "map_of bs addr")
    case None
    obtain i d' s' where "generate_random_slate X L ids d s = Some (Inr (i, d', s'))"
      using assms by (rule random_slate_returns)
    with None show ?thesis by (simp add: find_balance_def bindR_def)
  qed (simp add: find_balance_def)
  show ?thesis
    unfolding add_genesis_balance_def
    by (auto intro!: bindR_returns [OF option.distinct(2)] bindR_returns [OF f] simp: Let_def iff del: not_None_eq split: prod.split)
qed

section \<open>A configuration without balances\<close>

lemma foldE_total: "(\<And>x s. \<exists>s'. f x s = Inr s') \<Longrightarrow> \<exists>s'. foldE f xs s = Inr s'"
proof (induction xs arbitrary: s)
  case (Cons x xs)
  obtain s1 where "f x s = Inr s1" using Cons.prems by blast
  then show ?case using Cons by simp
qed simp

lemma genesis_names_total:
  assumes "config_timestamp config \<noteq> 0"
  shows "\<exists>ids m d'. genesis_names X config d = Inr (ids, m, d')"
proof -
  have "\<exists>st'. add_name X (config_timestamp config) c st = Inr st'" for c st
    using assms by (cases st) (simp add: add_name_def genesis_account_def set_active_key_def)
  then obtain st where st: "foldE (add_name X (config_timestamp config)) (config_names config)
      (1, [], [], db_store_account_record X god_record d) = Inr st"
    using foldE_total [of "add_name X (config_timestamp config)"] by blast
  obtain i ids m d' where "st = (i, ids, m, d')" by (cases st)
  with st show ?thesis by (simp add: genesis_names_def)
qed

lemma balance_db_store_account [simp]: "balance_db (db_store_account_record X r d) = balance_db d"
  by (simp add: db_store_account_record_def Let_def)

lemma genesis_names_balances: "genesis_names X config d = Inr (ids, m, d') \<Longrightarrow> balance_db d' = balance_db d"
proof -
  assume "genesis_names X config d = Inr (ids, m, d')"
  then obtain i where f: "foldE (add_name X (config_timestamp config)) (config_names config)
      (1, [], [], db_store_account_record X god_record d) = Inr (i, ids, m, d')"
    by (auto simp: genesis_names_def elim!: bindE_InrE)
  have "balance_db (snd (snd (snd (i, ids, m, d')))) = balance_db d"
    using f by (rule foldE_invariant) (auto simp: add_name_def elim!: bindE_InrE split: if_split_asm)
  then show ?thesis by simp
qed

lemma sanity_no_pay:
  assumes "table_ok (\<lambda>i r. i = account_id r \<and> 1 \<le> i \<and> i \<le> n \<and> pay_in i r = 0) t"
  shows "foldE (\<lambda>(i, r) total. case delegate_info r of
      Some s \<Rightarrow> asset_add total (asset_of (pay_balance s) 0) | None \<Rightarrow> Inr total) t (asset_of 0 0) = Inr (asset_of 0 0)"
  using assms
proof (induction t)
  case (Cons x t)
  obtain i r where x: "x = (i, r)" by (cases x)
  have "pay_in i r = 0" using Cons.prems by (auto simp: x table_ok_def)
  then have "(case delegate_info r of Some s \<Rightarrow> asset_add (asset_of 0 0) (asset_of (pay_balance s) 0) | None \<Rightarrow> Inr (asset_of 0 0)) = Inr (asset_of 0 0)"
    by (auto simp: pay_in_def asset_add_def INT64_MAX_def INT64_MIN_def split: option.split_asm)
  moreover have "table_ok (\<lambda>i r. i = account_id r \<and> 1 \<le> i \<and> i \<le> n \<and> pay_in i r = 0) t"
    using Cons.prems by (simp add: table_ok_def)
  ultimately show ?case using Cons.IH by (simp add: x)
qed simp

lemma genesis_without_balances:
  assumes "config_timestamp config \<noteq> 0" and "config_balances config = []" and "fresh_database d"
    and "length (filter (\<lambda>c. config_pay_rate c \<le> 100) (config_names config)) \<ge> BTS_BLOCKCHAIN_NUM_DELEGATES"
  shows "\<exists>d' t'. create_genesis X L config cid d t = Some (Inr (d', t'))"
proof -
  let ?d1 = "db_set_property chain_id (Hash_property cid) (d \<lparr> db_chain_id := cid \<rparr>)" and ?n = "int (length (config_names config))"
  obtain ids m d2 where 2: "genesis_names X config ?d1 = Inr (ids, m, d2)" using genesis_names_total [OF assms(1)] by blast
  obtain d3 where d3: "d3 = store_delegates X m d2" and 3: "genesis_balances X L config ids m d2 = Some (Inr d3)"
    by (simp add: genesis_balances_def bindR_def assms(2))
  have ok2: "genesis_ok X ?n d2" "delegates_ok ?n ids m"
    using genesis_names_ok [OF 2] fresh_genesis_ok [OF assms(3)] by auto
  have "balance_db (fold (\<lambda>(i, r). db_store_account_record X r) t d2) = balance_db d2" for t
    by (induction t arbitrary: d2) auto
  then have b3: "balance_db d3 = []"
    using genesis_names_balances [OF 2] assms(3) by (simp add: d3 store_delegates_def fresh_database_def db_set_property_def)
  obtain last_asset d4 where 4: "genesis_assets config 0 d3 = (last_asset, d4)" by (cases "genesis_assets config 0 d3")
  note a = genesis_assets_ok [OF genesis_balances_ok [OF 3 ok2(2,1)] 4]
  let ?d5 = "genesis_properties config last_asset d4"
  have d5: "balance_db ?d5 = []" "account_db ?d5 = account_db d4" "asset_db ?d5 = asset_db d4"
    using a(3) b3 by (simp_all add: genesis_properties_def Let_def db_set_property_def)
  have Nil: "in_order [] = []" by (simp add: in_order_def)
  have "table_ok (\<lambda>i r. i = account_id r \<and> 1 \<le> i \<and> i \<le> ?n \<and> pay_in i r = 0) (in_order (account_db d4))"
    using a(1) by (simp add: genesis_ok_def table_ok_in_order)
  from sanity_no_pay [OF this] have "sanity_check ?d5 = Inr ()"
    using a(2) by (simp add: sanity_check_def d5 Nil base_asset_def BTS_BLOCKCHAIN_MAX_SHARES_def)
  then have "finish_genesis config t d3 = Inr (?d5, store_fork 0 genesis_fork t)"
    using b3 4 by (simp add: finish_genesis_def total_balances_def in_order_def Let_def)
  then show ?thesis using 2 3 assms(4) by (simp add: create_genesis_def bindR_def)
qed

section \<open>A concrete configuration\<close>

definition genesis_std :: genesis_lib where
  "genesis_std = \<lparr> low_bits = ucast, pts_string = (\<lambda>a. decimal a), mt11213b = (\<lambda>w. unat w),
     uniform_int = (\<lambda>hi s. (s mod Suc hi, Suc s)) \<rparr>"

definition sample_config :: genesis_block_config where
  "sample_config = \<lparr> config_timestamp = 500,
     config_market_assets = [\<lparr> config_symbol = ''USD'', config_asset_name = ''Dollar'', config_description = [],
       config_precision = 10000, config_min_price = 0, config_max_price = 0 \<rparr>],
     config_names = map (\<lambda>i. \<lparr> config_name = decimal i, config_owner = Suc i, config_pay_rate = 50 \<rparr>) [0..<101],
     config_balances = [] \<rparr>"

definition empty_database :: chain_database where
  "empty_database = sample_database \<lparr> db_chain_id := 0, head_block_num := 0, head_block_timestamp := 0, head_block_id := 0,
     property_db := [], asset_db := [], balance_db := [], account_db := [], address_to_account_db := [],
     account_index_db := [], delegate_vote_index_db := [] \<rparr>"

definition empty_tree :: fork_tree where
  "empty_tree = \<lparr> block_id_to_block_data_db = [], block_id_to_block_record_db = [], fork_number_db = [], fork_db = [] \<rparr>"

lemma empty_database_fresh: "fresh_database empty_database" "fresh_tree empty_tree"
  by (simp_all add: fresh_database_def empty_database_def sample_database_def fresh_tree_def empty_tree_def)

lemma genesis_std_ok: "rng_ok genesis_std" "fair genesis_std hi"
proof -
  show "rng_ok genesis_std" by (simp add: rng_ok_def genesis_std_def less_Suc_eq_le [symmetric])
  have "rng_after genesis_std hi n s = s + n" for n s by (induction n) (simp_all add: genesis_std_def)
  moreover have "(s + (i + s * hi)) mod Suc hi = i" if "i \<le> hi" for s i
  proof -
    have "s + (i + s * hi) = i + s * Suc hi" by simp
    then show ?thesis using that by (metis le_imp_less_Suc mod_less mod_mult_self1)
  qed
  ultimately have "fst (uniform_int genesis_std hi (rng_after genesis_std hi (i + s * hi) s)) = i" if "i \<le> hi" for s i
    using that by (simp add: genesis_std_def add.commute)
  then show "fair genesis_std hi" unfolding fair_def by blast
qed

lemma sample_genesis: "\<exists>d t. create_genesis ext_std genesis_std sample_config 77 empty_database empty_tree = Some (Inr (d, t))"
proof (rule genesis_without_balances [OF _ _ empty_database_fresh(1)])
  have "filter (\<lambda>c. config_pay_rate c \<le> 100) (config_names sample_config) = config_names sample_config"
    by (simp add: sample_config_def filter_id_conv)
  then show "length (filter (\<lambda>c. config_pay_rate c \<le> 100) (config_names sample_config)) \<ge> BTS_BLOCKCHAIN_NUM_DELEGATES"
    by (simp add: sample_config_def BTS_BLOCKCHAIN_NUM_DELEGATES_def)
qed (simp_all add: sample_config_def)

section \<open>Properties\<close>

text \<open>
  C5. The genesis state is a good start: when it has been created on empty tables, the recorded supply of
  every asset is the total of its shares, the records are stored under their own keys and no account
  has an id above the last one given out, the vote index agrees with the accounts, the active
  delegates are the elected ones, and the block tree is that of the genesis block. These are the
  conditions under which transactions and blocks keep the books. There is no account with the id 0,
  although one is stored: its record has no key and counts as removed.
\<close>

theorem genesis_state_is_good:
  assumes "create_genesis X L config cid d t = Some (Inr (d', t'))" and "fresh_database d" and "fresh_tree t"
  shows "(\<forall>a. chain_total (Database d') a = supply_of (Database d') a) \<and>
    chain_ok X (Pending new_pending_state (Database d')) \<and> database_ok d' \<and> votes_indexed d' \<and>
    get_active_delegates (Database d') = Inr (next_round_active_delegates d') \<and> tree_ok rank t' \<and>
    get_account_record (Database d') 0 = None"
proof -
  note s = create_genesis_steps [OF assms(1,2)]
  obtain i d4 where d': "d' = genesis_properties config i d4" using s(4) by blast
  have "get_account_record (Database d') 0 = None"
    using s(1) by (force simp: genesis_ok_def table_ok_def map_of_eq_None_iff)
  moreover have "tree_ok rank t'" using genesis_tree_ok by (simp add: s(3) fresh_tree_genesis [OF assms(3)])
  moreover have "chain_ok X (Pending new_pending_state (Database d'))"
    unfolding d' by (rule genesis_chain_ok [OF s(1) [unfolded d'] genesis_properties_facts(2)])
  ultimately show ?thesis
    using genesis_books [OF s(1,2)] genesis_ok_database_ok [OF s(1)] s(1) genesis_properties_facts(1) [of config i d4]
    by (simp add: d' genesis_ok_def)
qed

theorem genesis_state_is_good_witness:
  "\<exists>d t. create_genesis ext_std genesis_std sample_config 77 empty_database empty_tree = Some (Inr (d, t)) \<and>
     chain_ok ext_std (Pending new_pending_state (Database d)) \<and> tree_ok id t"
proof -
  obtain d t where "create_genesis ext_std genesis_std sample_config 77 empty_database empty_tree = Some (Inr (d, t))"
    using sample_genesis by blast
  with genesis_state_is_good [OF this empty_database_fresh, of id] show ?thesis by blast
qed

text \<open>
  C29. The creation of the genesis state ends: if the random number generator draws every delegate again
  and again, every slate reaches its size, so the state is created or an exception is raised.
\<close>

theorem create_genesis_returns:
  assumes "fair L (length (filter (\<lambda>c. config_pay_rate c \<le> 100) (config_names config)) - 1)" and "rng_ok L"
    and "fresh_database d"
  shows "\<exists>r. create_genesis X L config cid d t = Some r"
proof -
  let ?k = "length (filter (\<lambda>c. config_pay_rate c \<le> 100) (config_names config))"
  let ?d1 = "db_set_property chain_id (Hash_property cid) (d \<lparr> db_chain_id := cid \<rparr>)"
  have ok: "genesis_ok X 0 ?d1" using fresh_genesis_ok [OF assms(3)] by simp
  have b: "genesis_balances X L config ids m d2 \<noteq> None"
    if "genesis_names X config ?d1 = Inr (ids, m, d2)" and "\<not> ?k < BTS_BLOCKCHAIN_NUM_DELEGATES" for ids m d2
  proof -
    have "length ids = ?k" "distinct ids" using genesis_names_ok [OF that(1) ok] by (auto simp: delegates_ok_def)
    then have "add_genesis_balance X L t u ids x st \<noteq> None" for t u x st
      using assms(1,2) that(2) by (intro add_genesis_balance_returns) auto
    then show ?thesis unfolding genesis_balances_def by (intro bindR_returns foldR_returns) (auto split: prod.split)
  qed
  have "create_genesis X L config cid d t \<noteq> None"
  proof (cases "?k < BTS_BLOCKCHAIN_NUM_DELEGATES")
    case False
    show ?thesis
    proof (cases "genesis_names X config ?d1")
      case (Inr x)
      obtain ids m d2 where x: "x = (ids, m, d2)" by (cases x)
      obtain r where "genesis_balances X L config ids m d2 = Some r" using b [OF Inr [unfolded x] False] by blast
      with False Inr x show ?thesis by (cases r) (simp_all add: create_genesis_def bindR_def)
    qed (use False in \<open>simp add: create_genesis_def bindR_def\<close>)
  qed (simp add: create_genesis_def)
  then show ?thesis by blast
qed

theorem create_genesis_returns_witness:
  "\<exists>r. create_genesis ext_std genesis_std sample_config 77 empty_database empty_tree = Some r"
  by (rule create_genesis_returns [OF genesis_std_ok(2,1) empty_database_fresh(1)])

end
