(* ===== verification/Sync.thy ===== *)
theory Sync
  imports Block_Laws
begin

text \<open>
  How nodes find out which blocks they miss (\<^verbatim>\<open>client.cpp\<close>). A node summarises its chain as a
  synopsis, the ids of blocks at distances from the end that double; the other node looks for the
  last block of the synopsis that is in its own chain and answers with the ids from there on. The
  loops work on 32-bit block numbers and may not end when these wrap around, so they are partial
  functions. The asserts of the source are those of a release build: they do nothing.
\<close>

section \<open>Lookups\<close>

definition get_block_num :: "node \<Rightarrow> block_id_type \<Rightarrow> exn + 32 word" where
  "get_block_num n i =
     (if i = 0 then Inr 0 else bindE (fetch (block_id_to_block_record_db (forks n)) i) (\<lambda>r. Inr (block_num (record_header r))))"

definition get_block :: "node \<Rightarrow> block_id_type \<Rightarrow> exn + full_block" where
  "get_block n i = fetch (block_id_to_block_data_db (forks n)) i"

definition get_block_of_num :: "node \<Rightarrow> 32 word \<Rightarrow> exn + full_block" where
  "get_block_of_num n num = bindE (fetch (block_num_to_id_db n) num) (get_block n)"

section \<open>The synopsis\<close>

text \<open>The loop over block numbers; \<open>pick\<close> is what its body adds to the synopsis.\<close>

partial_function (option) halving_loop ::
    "(32 word \<Rightarrow> exn + block_id_type list) \<Rightarrow> 32 word \<Rightarrow> 32 word \<Rightarrow> 32 word \<Rightarrow> block_id_type list \<Rightarrow> (exn + block_id_type list) option" where
  "halving_loop pick high true_high low synopsis =
     (case pick low of
        Inl e \<Rightarrow> Some (Inl e)
      | Inr ids \<Rightarrow>
          let low' = low + (true_high - low + 2) div 2
          in if low' \<le> high then halving_loop pick high true_high low' (synopsis @ ids)
             else Some (Inr (synopsis @ ids)))"

declare halving_loop.simps [code]

definition synopsis_block :: "ext \<Rightarrow> node \<Rightarrow> 32 word \<Rightarrow> block_id_type list \<Rightarrow> 32 word \<Rightarrow> exn + block_id_type list" where
  "synopsis_block X n non_fork_high fork low =
     (if low \<le> non_fork_high then bindE (get_block_of_num n low) (\<lambda>b. Inr [block_id X b])
      else let i = unat (low - non_fork_high - 1)
           in if i < length fork then Inr [fork ! i] else Inl undefined_behaviour)"

definition synopsis_of_range ::
    "ext \<Rightarrow> node \<Rightarrow> 32 word \<Rightarrow> 32 word \<Rightarrow> block_id_type list \<Rightarrow> 32 word \<Rightarrow> (exn + block_id_type list) option" where
  "synopsis_of_range X n high non_fork_high fork after =
     halving_loop (synopsis_block X n non_fork_high fork) high (high + after) 1 []"

text \<open>Where the summary ends: the last block number, the last one in the current chain, and the blocks of the fork.\<close>

definition fork_range :: "node \<Rightarrow> block_id_type list \<Rightarrow> exn + 32 word \<times> 32 word \<times> block_id_type list" where
  "fork_range n history =
     (if history = [] then Inl undefined_behaviour
      else let last_non_fork_block = last history;
               fork = rev (butlast history);
               non_fork_high = (if last_non_fork_block = 0 then 0
                                else case get_block_num n last_non_fork_block of Inr num \<Rightarrow> num | Inl _ \<Rightarrow> 0)
           in Inr (non_fork_high + of_nat (length fork), non_fork_high, fork))"

definition get_blockchain_synopsis ::
    "ext \<Rightarrow> node \<Rightarrow> block_id_type \<Rightarrow> 32 word \<Rightarrow> (exn + block_id_type list) option" where
  "get_blockchain_synopsis X n reference_point after =
     (if reference_point \<noteq> 0 then
        if is_included_block (forks n) reference_point then
          case get_block_num n reference_point of
            Inr num \<Rightarrow> synopsis_of_range X n num num [] after
          | Inl e \<Rightarrow> if e = key_not_found then Some (Inr []) else Some (Inl e)
        else case get_fork_history (forks n) reference_point of
               None \<Rightarrow> None
             | Some r \<Rightarrow> (case bindE r (fork_range n) of
                  Inr (high, non_fork_high, fork) \<Rightarrow> synopsis_of_range X n high non_fork_high fork after
                | Inl e \<Rightarrow> if e = key_not_found then Some (Inr []) else Some (Inl e))
      else let high = head_block_num (ledger_db n)
           in if high = 0 then Some (Inr []) else synopsis_of_range X n high high [] after)"

section \<open>The answer to a synopsis\<close>

definition synopsis_size_limit :: nat where
  "synopsis_size_limit = bit_length (BTS_BLOCKCHAIN_BLOCKS_PER_YEAR * 20) - 1"

text \<open>The loop over the synopsis from its end; a block that is not known is skipped.\<close>

fun last_seen_block :: "node \<Rightarrow> block_id_type list \<Rightarrow> exn + 32 word" where
  "last_seen_block n [] = Inr 1"
| "last_seen_block n (i # is) =
     (case get_block_num n i of
        Inr num \<Rightarrow> if is_included_block (forks n) i then Inr num else last_seen_block n is
      | Inl e \<Rightarrow> if e = key_not_found then last_seen_block n is else Inl e)"

fun block_ids_from :: "node \<Rightarrow> 32 word \<Rightarrow> nat \<Rightarrow> exn + block_id_type list" where
  "block_ids_from n num 0 = Inr []"
| "block_ids_from n num (Suc k) =
     bindE (get_block_id n num) (\<lambda>i. bindE (block_ids_from n (num + 1) k) (\<lambda>is. Inr (i # is)))"

definition get_item_ids :: "node \<Rightarrow> block_id_type list \<Rightarrow> 32 word \<Rightarrow> exn + block_id_type list \<times> 32 word" where
  "get_item_ids n synopsis limit =
     (if length synopsis > synopsis_size_limit then Inl (Fc_exception ''exception'')
      else bindE (last_seen_block n (rev synopsis)) (\<lambda>seen.
        let head = head_block_num (ledger_db n)
        in if head = 0 then Inr ([], 0)
           else let last_seen = (if seen > head then head else seen);
                    remaining = head - last_seen + 1;
                    items = min limit remaining
                in case block_ids_from n last_seen (unat items) of
                     Inr ids \<Rightarrow> Inr (ids, remaining - items)
                   | Inl e \<Rightarrow> if e = key_not_found then Inr ([], 0) else Inl e))"

section \<open>Messages\<close>

definition trx_message_type :: nat where
  "trx_message_type = 1000"

definition block_message_type :: nat where
  "block_message_type = 1001"

datatype message = Block_message full_block block_id_type | Trx_message signed_transaction | Other_message nat

fun msg_type :: "message \<Rightarrow> nat" where
  "msg_type (Block_message b i) = block_message_type"
| "msg_type (Trx_message t) = trx_message_type"
| "msg_type (Other_message ty) = ty"

record client =
  chain_db :: node
  client_sync_mode :: bool
  remaining_items_to_sync :: "32 word"
  simulate_disconnect :: bool
  exception_db :: "exn list"
  pending_trxs :: "(transaction_id_type, signed_transaction) table"

text \<open>What the network code reports; the messages to the user are left out.\<close>

definition sync_status :: "32 word \<Rightarrow> client \<Rightarrow> client" where
  "sync_status item_count cl = cl \<lparr> remaining_items_to_sync := item_count \<rparr>"

definition has_item :: "ext \<Rightarrow> node \<Rightarrow> nat \<Rightarrow> block_id_type \<Rightarrow> exn + bool" where
  "has_item X n item_type i =
     (if item_type = block_message_type then Inr (is_known_block (forks n) i)
      else if item_type = trx_message_type then bindE (get_transaction X (Database (ledger_db n)) i) (\<lambda>r. Inr (r \<noteq> None))
      else Inr False)"

text \<open>A transaction that is found is not returned.\<close>

definition get_item :: "ext \<Rightarrow> client \<Rightarrow> nat \<Rightarrow> block_id_type \<Rightarrow> exn + message" where
  "get_item X cl item_type i =
     (if item_type = block_message_type then
        bindE (get_block (chain_db cl) i) (\<lambda>b. if i = block_id X b then Inr (Block_message b (block_id X b)) else Inl assert_failed)
      else if item_type = trx_message_type then
        (let trx_message_to_send = map_of (pending_trxs cl) i in Inl key_not_found)
      else Inl key_not_found)"

definition log_exception :: "exn \<Rightarrow> client \<Rightarrow> client" where
  "log_exception e cl = cl \<lparr> exception_db := exception_db cl @ [e] \<rparr>"

definition push_new_block :: "ext \<Rightarrow> int \<Rightarrow> full_block \<Rightarrow> block_id_type \<Rightarrow> bool \<Rightarrow> block_fork_data action" where
  "push_new_block X elapsed b i sync_mode n =
     (case map_of (fork_db (forks n)) i of
        Some f \<Rightarrow> if is_known f
                  then if sync_mode \<and> \<not> is_linked f then raiseA unlinkable_block n else returnA f n
                  else bindA (push_block X elapsed b) (\<lambda>r. if sync_mode \<and> \<not> is_linked r then raiseA unlinkable_block else returnA r) n
      | None \<Rightarrow> bindA (push_block X elapsed b) (\<lambda>r. if sync_mode \<and> \<not> is_linked r then raiseA unlinkable_block else returnA r) n)"

text \<open>The messages to the user about the progress of the synchronisation are left out.\<close>

definition on_new_block ::
    "ext \<Rightarrow> int \<Rightarrow> full_block \<Rightarrow> block_id_type \<Rightarrow> bool \<Rightarrow> client \<Rightarrow> ((exn + block_fork_data) \<times> client) option" where
  "on_new_block X elapsed b i sync_mode cl0 =
     (let cl = cl0 \<lparr> client_sync_mode := sync_mode,
                 remaining_items_to_sync := (if sync_mode \<and> remaining_items_to_sync cl0 > 0
                   then remaining_items_to_sync cl0 - 1 else remaining_items_to_sync cl0) \<rparr>
      in if simulate_disconnect cl then Some (Inl assert_failed, log_exception assert_failed cl)
         else case push_new_block X elapsed b i sync_mode (chain_db cl) of
                None \<Rightarrow> None
              | Some (Inl e, n) \<Rightarrow> Some (Inl e, log_exception e (cl \<lparr> chain_db := n \<rparr>))
              | Some (Inr f, n) \<Rightarrow> Some (Inr f, cl \<lparr> chain_db := n \<rparr>))"

definition on_new_transaction :: "ext \<Rightarrow> signed_transaction \<Rightarrow> client \<Rightarrow> (exn + bool) \<times> client" where
  "on_new_transaction X t cl =
     (case store_pending_transaction X t False (chain_db cl) of
        Inr (e, n) \<Rightarrow> (Inr (e \<noteq> None), cl \<lparr> chain_db := n \<rparr>)
      | Inl e \<Rightarrow> (Inl e, if e = duplicate_transaction then cl else log_exception e cl))"

definition net_exception :: "exn \<Rightarrow> exn" where
  "net_exception e =
     (if e = insufficient_relay_fee then Fc_exception ''net::insufficient_relay_fee''
      else if e = block_older_than_undo_history then Fc_exception ''net::block_older_than_undo_history''
      else e)"

definition handle_message ::
    "ext \<Rightarrow> int \<Rightarrow> message \<Rightarrow> bool \<Rightarrow> client \<Rightarrow> ((exn + bool) \<times> client) option" where
  "handle_message X elapsed m sync_mode cl =
     (case m of
        Block_message b i \<Rightarrow>
          let old_head_block = head_block_id (ledger_db (chain_db cl))
          in map_option (\<lambda>(r, cl'). (map_sum net_exception (\<lambda>f. is_included f \<noteq> (previous (full_block.block_header b) = old_head_block)) r, cl'))
               (on_new_block X elapsed b i sync_mode cl)
      | Trx_message t \<Rightarrow> Some (case on_new_transaction X t cl of (r, cl') \<Rightarrow> (map_sum net_exception id r, cl'))
      | Other_message ty \<Rightarrow> Some (Inr False, cl))"

end
