(* ===== verification/Peer_Sync.thy ===== *)
theory Peer_Sync
  imports Sync
begin

text \<open>
  The synchronisation of a node with one peer (\<^verbatim>\<open>net/node.cpp\<close>): the request for the ids of the
  blocks that follow, the handlers of such a request and of its answer, and the choice of the blocks
  to fetch from each peer. Sending a message, disconnecting and reporting to the client are returned values; the
  time of a request, the log and the moving of an inbound connection from the list of handshaking connections to
  the active ones are left out. Each handler is one step, although calls of the client and the sending of
  messages may let other tasks run.
\<close>

section \<open>The state of a connection\<close>

type_synonym item_id = "nat \<times> block_id_type"

text \<open>A connection is on exactly one of four lists of the node; the list it is on is a field here.\<close>

datatype connection_list = Handshaking | Active | Closing | Terminating

record peer_connection =
  connection_list :: connection_list
  they_have_requested_close :: bool
  we_have_requested_close :: bool
  ids_of_items_to_get :: "block_id_type list"
  ids_of_items_being_processed :: "block_id_type list"
  number_of_unfetched_item_ids :: "32 word"
  peer_needs_sync_items_from_us :: bool
  we_need_sync_items_from_peer :: bool
  item_ids_requested_from_peer :: "block_id_type option"
  sync_items_requested_from_peer :: "block_id_type list"
  last_block_number_delegate_has_seen :: "32 word"
  last_block_delegate_has_seen :: block_id_type
  last_block_time_delegate_has_seen :: time_point_sec
  inhibit_fetching_sync_blocks :: bool
  inventory_peer_advertised_to_us :: "(item_id, time_point_sec) table"
  inventory_advertised_to_peer :: "(item_id, time_point_sec) table"
  items_requested_from_peer :: "item_id list"
  transaction_fetching_inhibited_until :: time_point_sec
  last_known_fork_block_number :: "32 word"

definition busy :: "peer_connection \<Rightarrow> bool" where
  "busy peer \<longleftrightarrow> items_requested_from_peer peer \<noteq> [] \<or> sync_items_requested_from_peer peer \<noteq> [] \<or>
     item_ids_requested_from_peer peer \<noteq> None"

definition idle :: "peer_connection \<Rightarrow> bool" where
  "idle peer \<longleftrightarrow> \<not> busy peer"

text \<open>A new connection.\<close>

definition new_connection :: peer_connection where
  "new_connection = \<lparr> connection_list = Handshaking, they_have_requested_close = False, we_have_requested_close = False,
     ids_of_items_to_get = [], ids_of_items_being_processed = [], number_of_unfetched_item_ids = 0,
     peer_needs_sync_items_from_us = True, we_need_sync_items_from_peer = True, item_ids_requested_from_peer = None,
     sync_items_requested_from_peer = [], last_block_number_delegate_has_seen = 0, last_block_delegate_has_seen = 0,
     last_block_time_delegate_has_seen = 0, inhibit_fetching_sync_blocks = False, inventory_peer_advertised_to_us = [],
     inventory_advertised_to_peer = [], items_requested_from_peer = [], transaction_fetching_inhibited_until = 0,
     last_known_fork_block_number = 0 \<rparr>"

text \<open>The handlers are computations on the connection; this is the order of two statements.\<close>

abbreviation thenA :: "('s, 'a) computation \<Rightarrow> ('s, 'b) computation \<Rightarrow> ('s, 'b) computation" where
  "thenA m k \<equiv> bindA m (\<lambda>_. k)"

record blockchain_item_ids_inventory_message =
  total_remaining_item_count :: "32 word"
  item_hashes_available :: "block_id_type list"

definition BTS_NET_FUTURE_SYNC_BLOCKS_GRACE_PERIOD_SEC :: nat where
  "BTS_NET_FUTURE_SYNC_BLOCKS_GRACE_PERIOD_SEC = 60 * 60"

definition get_genesis_timestamp :: "node \<Rightarrow> exn + time_point_sec" where
  "get_genesis_timestamp n =
     (case get_asset_record (Database (ledger_db n)) 0 of
        None \<Rightarrow> Inl assert_failed | Some r \<Rightarrow> Inr (asset_registration_date r))"

definition get_block_time :: "node \<Rightarrow> block_id_type \<Rightarrow> exn + time_point_sec" where
  "get_block_time n i =
     (if i = 0 then get_genesis_timestamp n
      else case get_block_header (forks n) i of Inr h \<Rightarrow> Inr (block_timestamp h) | Inl _ \<Rightarrow> Inr 0)"

section \<open>Asking for ids\<close>

definition offered_block :: "peer_connection \<Rightarrow> 32 word \<Rightarrow> exn + block_id_type list" where
  "offered_block peer low =
     (let num = last_block_number_delegate_has_seen peer
      in if low > num then
           let i = unat (low - num - 1)
           in if i < length (ids_of_items_to_get peer) then Inr [ids_of_items_to_get peer ! i] else Inl undefined_behaviour
         else Inr [])"

definition create_blockchain_synopsis_for_peer ::
    "ext \<Rightarrow> node \<Rightarrow> peer_connection \<Rightarrow> (exn + block_id_type list) option" where
  "create_blockchain_synopsis_for_peer X n peer =
     (let reference_point = last_block_delegate_has_seen peer;
          after = of_nat (length (ids_of_items_to_get peer));
          ask = get_blockchain_synopsis X n reference_point after;
          ask_again = (case ask of
              Some (Inr synopsis) \<Rightarrow> if reference_point \<noteq> 0 \<and> synopsis = []
                then get_blockchain_synopsis X n reference_point after else ask
            | _ \<Rightarrow> ask)
      in case ask_again of
           Some (Inr synopsis) \<Rightarrow>
             if after \<noteq> 0
             then let true_high = last_block_number_delegate_has_seen peer + after
                  in halving_loop (offered_block peer) true_high true_high 1 synopsis
             else ask_again
         | _ \<Rightarrow> ask_again)"

text \<open>Each returns the synopsis that is sent to the peer.\<close>

definition reset_fork_tracking :: "node \<Rightarrow> (peer_connection, unit) computation" where
  "reset_fork_tracking n =
     thenA (modifyA (\<lambda>peer. peer \<lparr> last_block_delegate_has_seen := 0, last_block_number_delegate_has_seen := 0 \<rparr>))
     (bindA (liftE (get_block_time n 0)) (\<lambda>t. modifyA (\<lambda>peer. peer \<lparr> last_block_time_delegate_has_seen := t \<rparr>)))"

definition fetch_next_batch_of_item_ids_from_peer ::
    "ext \<Rightarrow> node \<Rightarrow> bool \<Rightarrow> (peer_connection, block_id_type list) computation" where
  "fetch_next_batch_of_item_ids_from_peer X n reset_data =
     thenA (if reset_data then reset_fork_tracking n else returnA ())
     (bindA (\<lambda>peer. map_option (\<lambda>r. (r, peer)) (create_blockchain_synopsis_for_peer X n peer)) (\<lambda>synopsis.
      thenA (modifyA (\<lambda>peer. peer \<lparr> item_ids_requested_from_peer := Some (if synopsis = [] then 0 else last synopsis) \<rparr>))
      (returnA synopsis)))"

definition start_synchronizing_with_peer :: "ext \<Rightarrow> node \<Rightarrow> (peer_connection, block_id_type list) computation" where
  "start_synchronizing_with_peer X n =
     thenA (modifyA (\<lambda>peer. peer \<lparr> ids_of_items_to_get := [], number_of_unfetched_item_ids := 0, we_need_sync_items_from_peer := True \<rparr>))
     (thenA (reset_fork_tracking n)
     (thenA (modifyA (\<lambda>peer. peer \<lparr> inhibit_fetching_sync_blocks := False \<rparr>))
     (fetch_next_batch_of_item_ids_from_peer X n False)))"

section \<open>Answering a peer\<close>

definition answers_in_sync :: "block_id_type list \<Rightarrow> block_id_type list \<Rightarrow> bool" where
  "answers_in_sync synopsis available \<longleftrightarrow>
     synopsis \<noteq> [] \<and> length available = 1 \<and> last available = last synopsis"

text \<open>
  What is sent: the request of our own when synchronisation is restarted, then the answer, and last the notice
  to a peer that is disconnected.
\<close>

record answer =
  restart_request :: "block_id_type list option"
  reply_message :: blockchain_item_ids_inventory_message
  disconnect_from_inhibited_peer :: bool

definition on_fetch_blockchain_item_ids_message ::
    "ext \<Rightarrow> node \<Rightarrow> block_id_type list \<Rightarrow> (peer_connection, answer) computation" where
  "on_fetch_blockchain_item_ids_message X n synopsis peer =
     bindA (liftE (get_item_ids n synopsis 2000)) (\<lambda>(available, remaining).
     let in_sync = answers_in_sync synopsis available;
         disconnect = (available \<noteq> [] \<and> in_sync \<and> inhibit_fetching_sync_blocks peer);
         restart = (\<not> we_need_sync_items_from_peer peer \<and> synopsis \<noteq> [] \<and> \<not> is_known_block (forks n) (last synopsis))
     in thenA (modifyA (\<lambda>peer. peer \<lparr> peer_needs_sync_items_from_us := available \<noteq> [] \<and> \<not> in_sync \<rparr>))
        (bindA (if restart then bindA (start_synchronizing_with_peer X n) (\<lambda>request. returnA (Some request)) else returnA None) (\<lambda>request.
        returnA \<lparr> restart_request = request,
          reply_message = \<lparr> total_remaining_item_count = remaining, item_hashes_available = available \<rparr>,
          disconnect_from_inhibited_peer = disconnect \<rparr>))) peer"

section \<open>The ids a peer offers\<close>

definition calculate_unsynced_block_count_from_all_peers :: "peer_connection list \<Rightarrow> 32 word" where
  "calculate_unsynced_block_count_from_all_peers peers =
     fold (\<lambda>peer m. max m (of_nat (length (ids_of_items_to_get peer)) + number_of_unfetched_item_ids peer)) peers 0"

text \<open>The loop that drops the blocks we have already; it returns the ids that are left.\<close>

primrec flush_seen_items :: "node \<Rightarrow> block_id_type list \<Rightarrow> (peer_connection, block_id_type list) computation" where
  "flush_seen_items n [] = returnA []"
| "flush_seen_items n (i # is) =
     (if is_known_block (forks n) i then
        thenA (modifyA (\<lambda>peer. peer \<lparr> last_block_delegate_has_seen := i,
          last_block_number_delegate_has_seen := last_block_number_delegate_has_seen peer + 1 \<rparr>))
        (bindA (liftE (get_block_time n i)) (\<lambda>t.
         thenA (modifyA (\<lambda>peer. peer \<lparr> last_block_time_delegate_has_seen := t \<rparr>)) (flush_seen_items n is)))
      else returnA (i # is))"

text \<open>The loop that pops ids from the end of our list until it ends with the first id received.\<close>

definition pop_until_first :: "block_id_type \<Rightarrow> block_id_type list \<Rightarrow> block_id_type list" where
  "pop_until_first i ids = rev (dropWhile (\<lambda>j. j \<noteq> i) (rev ids))"

definition join_items :: "node \<Rightarrow> block_id_type list \<Rightarrow> (peer_connection, block_id_type list) computation" where
  "join_items n received peer =
     (let kept = pop_until_first (hd received) (ids_of_items_to_get peer)
      in if kept = [] then
           thenA (modifyA (\<lambda>peer. peer \<lparr> ids_of_items_to_get := [], last_block_delegate_has_seen := hd received \<rparr>))
           (bindA (liftE (get_block_num n (hd received))) (\<lambda>num.
            thenA (modifyA (\<lambda>peer. peer \<lparr> last_block_number_delegate_has_seen := num \<rparr>))
            (bindA (liftE (get_block_time n (hd received))) (\<lambda>t.
             thenA (modifyA (\<lambda>peer. peer \<lparr> last_block_time_delegate_has_seen := t \<rparr>)) (returnA (tl received)))))) peer
         else thenA (modifyA (\<lambda>peer. peer \<lparr> ids_of_items_to_get := butlast kept \<rparr>)) (returnA received) peer)"

text \<open>
  \<open>others\<close> are the other active connections.
\<close>

definition is_first_item_for_other_peer :: "block_id_type \<Rightarrow> peer_connection list \<Rightarrow> bool" where
  "is_first_item_for_other_peer i others =
     list_ex (\<lambda>peer. ids_of_items_to_get peer \<noteq> [] \<and> hd (ids_of_items_to_get peer) = i) others"

definition place_items ::
    "node \<Rightarrow> peer_connection list \<Rightarrow> block_id_type list \<Rightarrow> (peer_connection, block_id_type list) computation" where
  "place_items n others received peer =
     (if received \<noteq> [] \<and> ids_of_items_to_get peer = [] then
        if is_first_item_for_other_peer (hd received) others then returnA received peer else flush_seen_items n received peer
      else if received \<noteq> [] then join_items n received peer
      else returnA received peer)"

text \<open>
  What a handler does after it has updated the connection, and the number of blocks it reports to the client,
  if it reports one.
\<close>

datatype sync_step = Unexpected | Up_to_date | Implausible_offer | Ask_for_more "block_id_type list" | Fetch_items

record sync_result =
  next_step :: sync_step
  unfetched_items :: "32 word"
  reported_status :: "32 word option"

definition is_up_to_date :: "node \<Rightarrow> blockchain_item_ids_inventory_message \<Rightarrow> peer_connection \<Rightarrow> bool" where
  "is_up_to_date n m peer \<longleftrightarrow>
     total_remaining_item_count m = 0 \<and>
     (item_hashes_available m = [] \<or>
      length (item_hashes_available m) = 1 \<and> is_known_block (forks n) (hd (item_hashes_available m))) \<and>
     ids_of_items_to_get peer = [] \<and> number_of_unfetched_item_ids peer = 0"

definition is_implausible :: "time_point_sec \<Rightarrow> peer_connection \<Rightarrow> bool" where
  "is_implausible current_time peer \<longleftrightarrow>
     (last_block_time_delegate_has_seen peer + unat (number_of_unfetched_item_ids peer) * BTS_BLOCKCHAIN_BLOCK_INTERVAL_SEC) mod 2 ^ 32
       > (current_time + BTS_NET_FUTURE_SYNC_BLOCKS_GRACE_PERIOD_SEC) mod 2 ^ 32"

text \<open>The last part of the handler: more ids are asked for, or the blocks are fetched.\<close>

definition continue_sync ::
    "ext \<Rightarrow> node \<Rightarrow> blockchain_item_ids_inventory_message \<Rightarrow> peer_connection list \<Rightarrow> 32 word \<Rightarrow> (peer_connection, sync_result) computation" where
  "continue_sync X n m others total_unfetched peer =
     (let unfetched = calculate_unsynced_block_count_from_all_peers (peer # others);
          status = (if unfetched \<noteq> total_unfetched then Some unfetched else None)
      in bindA (if total_remaining_item_count m = 0 \<and> ids_of_items_to_get peer \<noteq> [] then returnA Fetch_items
           else bindA (fetch_next_batch_of_item_ids_from_peer X n False) (\<lambda>synopsis. returnA (Ask_for_more synopsis))) (\<lambda>step.
         returnA \<lparr> next_step = step, unfetched_items = unfetched, reported_status = status \<rparr>) peer)"

text \<open>\<open>others\<close> are the other active connections, \<open>total_unfetched\<close> is \<^verbatim>\<open>_total_number_of_unfetched_items\<close>.\<close>

definition take_offer ::
    "ext \<Rightarrow> node \<Rightarrow> time_point_sec \<Rightarrow> blockchain_item_ids_inventory_message \<Rightarrow> peer_connection list \<Rightarrow> 32 word
     \<Rightarrow> (peer_connection, sync_result) computation" where
  "take_offer X n current_time m others total_unfetched =
     thenA (modifyA (\<lambda>peer. peer \<lparr> number_of_unfetched_item_ids := total_remaining_item_count m \<rparr>))
     (bindA (place_items n others (item_hashes_available m)) (\<lambda>items.
      thenA (modifyA (\<lambda>peer. peer \<lparr> ids_of_items_to_get := ids_of_items_to_get peer @ items,
        number_of_unfetched_item_ids := total_remaining_item_count m \<rparr>))
      (\<lambda>peer. if is_implausible current_time peer
         then returnA \<lparr> next_step = Implausible_offer, unfetched_items = total_unfetched, reported_status = None \<rparr> peer
         else continue_sync X n m others total_unfetched peer)))"

definition on_blockchain_item_ids_inventory_message ::
    "ext \<Rightarrow> node \<Rightarrow> time_point_sec \<Rightarrow> blockchain_item_ids_inventory_message \<Rightarrow> peer_connection list \<Rightarrow> 32 word
     \<Rightarrow> (peer_connection, sync_result) computation" where
  "on_blockchain_item_ids_inventory_message X n current_time m others total_unfetched peer0 =
     (if item_ids_requested_from_peer peer0 = None
      then returnA \<lparr> next_step = Unexpected, unfetched_items = total_unfetched, reported_status = None \<rparr> peer0
      else
        let peer = peer0 \<lparr> item_ids_requested_from_peer := None \<rparr>
        in if is_up_to_date n m peer then
             let peer' = peer \<lparr> we_need_sync_items_from_peer := False \<rparr>;
                 unfetched = calculate_unsynced_block_count_from_all_peers (peer' # others)
             in returnA \<lparr> next_step = Up_to_date, unfetched_items = unfetched,
                  reported_status = (if unfetched = 0 then Some 0 else None) \<rparr> peer'
           else take_offer X n current_time m others total_unfetched peer)"

section \<open>Choosing the blocks to fetch\<close>

text \<open>
  For one peer: the blocks on its list that have not arrived, are not asked for already and are not
  chosen for another peer, up to a limit.
\<close>

fun choose_items :: "nat \<Rightarrow> (block_id_type \<Rightarrow> bool) \<Rightarrow> block_id_type list \<Rightarrow> block_id_type list \<Rightarrow> block_id_type list \<Rightarrow> block_id_type list" where
  "choose_items limit skip [] chosen requests = requests"
| "choose_items limit skip (i # is) chosen requests =
     (if \<not> skip i \<and> i \<notin> set chosen then
        if length (requests @ [i]) \<ge> limit then requests @ [i]
        else choose_items limit skip is (chosen @ [i]) (requests @ [i])
      else choose_items limit skip is chosen requests)"

text \<open>The part of an iteration of \<^verbatim>\<open>fetch_sync_items_loop\<close> that makes the requests for every connection, in order.\<close>

definition schedule_peer ::
    "nat \<Rightarrow> (block_id_type \<Rightarrow> bool) \<Rightarrow> peer_connection \<Rightarrow> block_id_type list \<times> block_id_type list list
     \<Rightarrow> block_id_type list \<times> block_id_type list list" where
  "schedule_peer limit skip = (\<lambda>peer (chosen, requests).
     if we_need_sync_items_from_peer peer \<and> idle peer \<and> \<not> inhibit_fetching_sync_blocks peer
     then let r = choose_items limit skip (ids_of_items_to_get peer) chosen [] in (chosen @ r, requests @ [r])
     else (chosen, requests @ [[]]))"

definition schedule_sync_requests ::
    "nat \<Rightarrow> (block_id_type \<Rightarrow> bool) \<Rightarrow> peer_connection list \<Rightarrow> block_id_type list list" where
  "schedule_sync_requests limit skip peers = snd (fold (schedule_peer limit skip) peers ([], []))"

end
