(* ===== verification/Net_Node.thy ===== *)
theory Net_Node
  imports Peer_Sync
begin

text \<open>
  The node of the peer-to-peer network (\<^verbatim>\<open>net/node.cpp\<close>, \<^verbatim>\<open>net/peer_connection.cpp\<close>): the cache of
  messages, the fetching of blocks while the node synchronises and of blocks and transactions in normal
  operation, the announcement of new items, and the closing of connections. The messages that are sent are kept
  in a list. The node is one thread with several tasks; every handler and every iteration of a loop is one
  step here, and the promises that wake up the loops are left out, so a loop may run at any time. The hash of a
  message is the parameter \<open>hash\<close>. Statistics, messages to the user, and the database of potential peers are left out.
\<close>

section \<open>The cache of messages\<close>

definition cache_duration_in_blocks :: "32 word" where
  "cache_duration_in_blocks = 2"

record message_info =
  message_hash :: block_id_type
  message_body :: message
  block_clock_when_received :: "32 word"
  message_contents_hash :: block_id_type

record blockchain_tied_message_cache =
  cached_messages :: "message_info list"
  block_clock :: "32 word"

definition block_accepted :: "blockchain_tied_message_cache \<Rightarrow> blockchain_tied_message_cache" where
  "block_accepted c =
     (let clock = block_clock c + 1
      in c \<lparr> block_clock := clock,
           cached_messages := (if clock > cache_duration_in_blocks
             then filter (\<lambda>m. \<not> block_clock_when_received m < clock - cache_duration_in_blocks) (cached_messages c)
             else cached_messages c) \<rparr>)"

text \<open>The index by hash is unique: a message that is in the cache is not replaced.\<close>

definition cache_message :: "message \<Rightarrow> block_id_type \<Rightarrow> block_id_type \<Rightarrow> blockchain_tied_message_cache \<Rightarrow> blockchain_tied_message_cache" where
  "cache_message m h contents c =
     (if h \<in> message_hash ` set (cached_messages c) then c
      else c \<lparr> cached_messages := cached_messages c @ [\<lparr> message_hash = h, message_body = m,
             block_clock_when_received = block_clock c, message_contents_hash = contents \<rparr>] \<rparr>)"

definition get_message :: "block_id_type \<Rightarrow> blockchain_tied_message_cache \<Rightarrow> exn + message" where
  "get_message h c =
     (case List.find (\<lambda>m. message_hash m = h) (cached_messages c) of
        Some m \<Rightarrow> Inr (message_body m) | None \<Rightarrow> Inl key_not_found)"

section \<open>The state of the node\<close>

type_synonym peer_id = nat
type_synonym block_message = "full_block \<times> block_id_type"

datatype net_message =
    Fetch_blockchain_item_ids "block_id_type list"
  | Blockchain_item_ids_inventory blockchain_item_ids_inventory_message
  | Fetch_items_message nat "block_id_type list"
  | Item_not_available item_id
  | Item_ids_inventory nat "block_id_type list"
  | Closing_connection string
  | Client_message message

record p2p_node =
  delegate :: client
  connections :: "(peer_id, peer_connection) table"
  active_sync_requests :: "block_id_type list"
  new_received_sync_items :: "block_message list"
  received_sync_items :: "block_message list"
  handle_message_calls_in_progress :: "block_message list"
  suspend_fetching_sync_blocks :: bool
  items_to_fetch :: "(item_id \<times> 32 word) list"
  items_to_fetch_sequence_counter :: "32 word"
  new_inventory :: "item_id list"
  most_recent_blocks_accepted :: "block_id_type list"
  total_number_of_unfetched_items :: "32 word"
  hard_fork_block_numbers :: "32 word list"
  message_cache :: blockchain_tied_message_cache
  outbox :: "(peer_id \<times> net_message) list"

definition MAXIMUM_NUMBER_OF_BLOCKS_TO_HANDLE_AT_ONE_TIME :: nat where
  "MAXIMUM_NUMBER_OF_BLOCKS_TO_HANDLE_AT_ONE_TIME = 200"

definition MAXIMUM_NUMBER_OF_BLOCKS_TO_PREFETCH :: nat where
  "MAXIMUM_NUMBER_OF_BLOCKS_TO_PREFETCH = 10 * MAXIMUM_NUMBER_OF_BLOCKS_TO_HANDLE_AT_ONE_TIME"

definition BTS_NET_MAX_BLOCKS_PER_PEER_DURING_SYNCING :: nat where
  "BTS_NET_MAX_BLOCKS_PER_PEER_DURING_SYNCING = 100"

definition BTS_NET_DEFAULT_MAX_CONNECTIONS :: nat where
  "BTS_NET_DEFAULT_MAX_CONNECTIONS = 200"

definition BTS_NET_MAX_INVENTORY_SIZE_IN_MINUTES :: nat where
  "BTS_NET_MAX_INVENTORY_SIZE_IN_MINUTES = 2"

definition BTS_NET_INSUFFICIENT_RELAY_FEE_PENALTY_SEC :: nat where
  "BTS_NET_INSUFFICIENT_RELAY_FEE_PENALTY_SEC = 15"

definition BTS_BLOCKCHAIN_MAX_TRX_PER_SECOND :: nat where
  "BTS_BLOCKCHAIN_MAX_TRX_PER_SECOND = 5"

definition get_peer :: "p2p_node \<Rightarrow> peer_id \<Rightarrow> peer_connection option" where
  "get_peer n c = map_of (connections n) c"

definition active_peers :: "p2p_node \<Rightarrow> (peer_id \<times> peer_connection) list" where
  "active_peers n = filter (\<lambda>(c, p). connection_list p = Active) (connections n)"

definition update_peer :: "peer_id \<Rightarrow> (peer_connection \<Rightarrow> peer_connection) \<Rightarrow> p2p_node \<Rightarrow> p2p_node" where
  "update_peer c f n = n \<lparr> connections := map (\<lambda>(d, p). (d, if d = c then f p else p)) (connections n) \<rparr>"

definition update_active :: "(peer_connection \<Rightarrow> peer_connection) \<Rightarrow> p2p_node \<Rightarrow> p2p_node" where
  "update_active f n = n \<lparr> connections := map (\<lambda>(d, p). (d, if connection_list p = Active then f p else p)) (connections n) \<rparr>"

definition send_message :: "peer_id \<Rightarrow> net_message \<Rightarrow> p2p_node \<Rightarrow> p2p_node" where
  "send_message c m n = n \<lparr> outbox := outbox n @ [(c, m)] \<rparr>"

text \<open>A circular buffer: the oldest entry is dropped when the buffer is full.\<close>

definition push_recent_block :: "block_id_type \<Rightarrow> p2p_node \<Rightarrow> p2p_node" where
  "push_recent_block i n =
     (let ids = most_recent_blocks_accepted n @ [i]
      in n \<lparr> most_recent_blocks_accepted := (if length ids > BTS_NET_DEFAULT_MAX_CONNECTIONS then tl ids else ids) \<rparr>)"

section \<open>Connections\<close>

definition move_peer_to_closing_list :: "peer_id \<Rightarrow> p2p_node \<Rightarrow> p2p_node" where
  "move_peer_to_closing_list c = update_peer c (\<lambda>p. p \<lparr> connection_list := Closing \<rparr>)"

definition move_peer_to_active_list :: "peer_id \<Rightarrow> p2p_node \<Rightarrow> p2p_node" where
  "move_peer_to_active_list c = update_peer c (\<lambda>p. p \<lparr> connection_list := Active \<rparr>)"

definition move_peer_to_terminating_list :: "peer_id \<Rightarrow> p2p_node \<Rightarrow> p2p_node" where
  "move_peer_to_terminating_list c = update_peer c (\<lambda>p. p \<lparr> connection_list := Terminating \<rparr>)"

text \<open>When the peer has asked to close, the socket is closed, which is followed by \<^verbatim>\<open>on_connection_closed\<close>.\<close>

definition disconnect_from_peer :: "peer_id \<Rightarrow> string \<Rightarrow> p2p_node \<Rightarrow> p2p_node" where
  "disconnect_from_peer c reason n =
     (case get_peer n c of
        None \<Rightarrow> n
      | Some p \<Rightarrow>
          let n1 = move_peer_to_closing_list c n
          in if they_have_requested_close p then n1
             else send_message c (Closing_connection reason) (update_peer c (\<lambda>p. p \<lparr> we_have_requested_close := True \<rparr>) n1))"

definition on_closing_connection_message :: "peer_id \<Rightarrow> p2p_node \<Rightarrow> p2p_node" where
  "on_closing_connection_message c = update_peer c (\<lambda>p. p \<lparr> they_have_requested_close := True \<rparr>)"

definition is_transaction_fetching_inhibited :: "time_point_sec \<Rightarrow> peer_connection \<Rightarrow> bool" where
  "is_transaction_fetching_inhibited current_time p \<longleftrightarrow> transaction_fetching_inhibited_until p > current_time"

definition clear_old_inventory :: "time_point_sec \<Rightarrow> peer_connection \<Rightarrow> peer_connection" where
  "clear_old_inventory current_time p =
     (let oldest = nat ((int current_time - int (BTS_NET_MAX_INVENTORY_SIZE_IN_MINUTES * 60)) mod 2 ^ 32);
          keep = filter (\<lambda>(i, t). \<not> t < oldest)
      in p \<lparr> inventory_advertised_to_peer := keep (inventory_advertised_to_peer p),
           inventory_peer_advertised_to_us := keep (inventory_peer_advertised_to_us p) \<rparr>)"

definition is_inventory_advertised_to_us_list_full_for_transactions :: "peer_connection \<Rightarrow> bool" where
  "is_inventory_advertised_to_us_list_full_for_transactions p \<longleftrightarrow>
     length (inventory_peer_advertised_to_us p) > BTS_NET_MAX_INVENTORY_SIZE_IN_MINUTES * BTS_BLOCKCHAIN_MAX_TRX_PER_SECOND * 60"

definition is_inventory_advertised_to_us_list_full :: "peer_connection \<Rightarrow> bool" where
  "is_inventory_advertised_to_us_list_full p \<longleftrightarrow>
     length (inventory_peer_advertised_to_us p) > BTS_NET_MAX_INVENTORY_SIZE_IN_MINUTES * BTS_BLOCKCHAIN_MAX_TRX_PER_SECOND * 60 + 5"

section \<open>Fetching blocks while synchronising\<close>

definition have_already_received_sync_item :: "p2p_node \<Rightarrow> block_id_type \<Rightarrow> bool" where
  "have_already_received_sync_item n i \<longleftrightarrow>
     i \<in> snd ` set (received_sync_items n) \<or> i \<in> snd ` set (new_received_sync_items n)"

definition request_sync_items_from_peer :: "peer_id \<times> block_id_type list \<Rightarrow> p2p_node \<Rightarrow> p2p_node" where
  "request_sync_items_from_peer = (\<lambda>(c, ids) n.
     send_message c (Fetch_items_message block_message_type ids)
       (update_peer c (\<lambda>p. p \<lparr> sync_items_requested_from_peer := fold List.insert ids (sync_items_requested_from_peer p) \<rparr>)
         (n \<lparr> active_sync_requests := fold List.insert ids (active_sync_requests n) \<rparr>)))"

text \<open>One iteration of the loop. Only connections with a request get a message.\<close>

definition fetch_sync_items :: "p2p_node \<Rightarrow> p2p_node" where
  "fetch_sync_items n =
     (if suspend_fetching_sync_blocks n then n
      else
        let skip = (\<lambda>i. have_already_received_sync_item n i \<or> i \<in> set (active_sync_requests n));
            requests = schedule_sync_requests BTS_NET_MAX_BLOCKS_PER_PEER_DURING_SYNCING skip (map snd (active_peers n))
        in fold request_sync_items_from_peer
             (filter (\<lambda>(c, ids). ids \<noteq> []) (zip (map fst (active_peers n)) requests)) n)"

section \<open>Fetching items in normal operation\<close>

definition is_item_in_any_peers_inventory :: "item_id \<Rightarrow> p2p_node \<Rightarrow> bool" where
  "is_item_in_any_peers_inventory i n \<longleftrightarrow>
     list_ex (\<lambda>(c, p). i \<in> fst ` set (inventory_peer_advertised_to_us p)) (active_peers n)"

text \<open>Blocks come before transactions, and otherwise items in the order of their sequence numbers, which may wrap around.\<close>

definition item_before :: "item_id \<times> 32 word \<Rightarrow> item_id \<times> 32 word \<Rightarrow> bool" where
  "item_before a b \<longleftrightarrow>
     (if fst (fst a) \<noteq> fst (fst b) then fst (fst a) > fst (fst b) else sint (snd b - snd a) > 0)"

text \<open>An item that is in the set already is not added again, but a sequence number is used.\<close>

definition insert_item :: "item_id \<times> 32 word \<Rightarrow> (item_id \<times> 32 word) list \<Rightarrow> (item_id \<times> 32 word) list" where
  "insert_item x xs =
     (let before = takeWhile (\<lambda>y. item_before y x) xs; after = dropWhile (\<lambda>y. item_before y x) xs
      in if fst x \<in> fst ` set xs \<or> (after \<noteq> [] \<and> \<not> item_before x (hd after)) then xs else before @ x # after)"

definition add_item_to_fetch :: "item_id \<Rightarrow> p2p_node \<Rightarrow> p2p_node" where
  "add_item_to_fetch i n = n \<lparr>
     items_to_fetch := insert_item (i, items_to_fetch_sequence_counter n) (items_to_fetch n),
     items_to_fetch_sequence_counter := items_to_fetch_sequence_counter n + 1 \<rparr>"

text \<open>The peer an item is requested from: the first that is idle, has announced it, and may be asked for it.\<close>

definition peer_to_ask :: "time_point_sec \<Rightarrow> item_id \<Rightarrow> p2p_node \<Rightarrow> peer_id option" where
  "peer_to_ask current_time i n =
     map_option fst (List.find (\<lambda>(c, p). idle p \<and> i \<in> fst ` set (inventory_peer_advertised_to_us p) \<and>
       \<not> (is_transaction_fetching_inhibited current_time p \<and> fst i = trx_message_type)) (active_peers n))"

definition fetch_item :: "time_point_sec \<Rightarrow> item_id \<times> 32 word \<Rightarrow> p2p_node \<times> (peer_id \<times> item_id) list \<Rightarrow> p2p_node \<times> (peer_id \<times> item_id) list" where
  "fetch_item current_time x = (\<lambda>(n, to_send).
     case peer_to_ask current_time (fst x) n of
       None \<Rightarrow> (n, to_send)
     | Some c \<Rightarrow>
         ((update_peer c (\<lambda>p. p \<lparr> items_requested_from_peer := List.insert (fst x) (items_requested_from_peer p) \<rparr>) n)
            \<lparr> items_to_fetch := remove1 x (items_to_fetch n) \<rparr>,
          (c, fst x) # to_send))"

definition fetch_items :: "time_point_sec \<Rightarrow> p2p_node \<Rightarrow> p2p_node" where
  "fetch_items current_time n0 =
     (case fold (fetch_item current_time) (items_to_fetch n0) (n0, []) of
        (n, to_send) \<Rightarrow> fold (\<lambda>(c, i). send_message c (Fetch_items_message (fst i) [snd i])) to_send n)"

section \<open>Announcing items\<close>

definition items_for_peer :: "item_id list \<Rightarrow> peer_connection \<Rightarrow> item_id list" where
  "items_for_peer inventory p =
     (if peer_needs_sync_items_from_us p then []
      else filter (\<lambda>i. i \<notin> fst ` set (inventory_advertised_to_peer p) \<and> i \<notin> fst ` set (inventory_peer_advertised_to_us p)) inventory)"

definition advertise_to_peer :: "time_point_sec \<Rightarrow> item_id list \<Rightarrow> peer_connection \<Rightarrow> peer_connection" where
  "advertise_to_peer current_time inventory p =
     clear_old_inventory current_time (p \<lparr> inventory_advertised_to_peer :=
       inventory_advertised_to_peer p @ map (\<lambda>i. (i, current_time)) (items_for_peer inventory p) \<rparr>)"

text \<open>One message for each type of item.\<close>

definition inventory_messages :: "item_id list \<Rightarrow> net_message list" where
  "inventory_messages items =
     map (\<lambda>ty. Item_ids_inventory ty (map snd (filter (\<lambda>i. fst i = ty) items))) (sort (remdups (map fst items)))"

definition advertise_inventory :: "time_point_sec \<Rightarrow> p2p_node \<Rightarrow> p2p_node" where
  "advertise_inventory current_time n =
     (let inventory = new_inventory n;
          messages = concat (map (\<lambda>(c, p). map (Pair c) (inventory_messages (items_for_peer inventory p))) (active_peers n));
          n1 = update_active (advertise_to_peer current_time inventory) (n \<lparr> new_inventory := [] \<rparr>)
      in n1 \<lparr> outbox := outbox n1 @ messages \<rparr>)"

text \<open>A peer announces items. The loop stops when the list for the peer is full.\<close>

definition advertised_to_a_peer :: "item_id \<Rightarrow> p2p_node \<Rightarrow> bool" where
  "advertised_to_a_peer i n \<longleftrightarrow> list_ex (\<lambda>(c, p). i \<in> fst ` set (inventory_advertised_to_peer p)) (active_peers n)"

definition requested_from_a_peer :: "item_id \<Rightarrow> p2p_node \<Rightarrow> bool" where
  "requested_from_a_peer i n \<longleftrightarrow> list_ex (\<lambda>(c, p). i \<in> set (items_requested_from_peer p)) (active_peers n)"

definition note_advertised :: "time_point_sec \<Rightarrow> item_id \<Rightarrow> peer_connection \<Rightarrow> peer_connection" where
  "note_advertised current_time i p =
     (if i \<in> fst ` set (inventory_peer_advertised_to_us p) then p
      else p \<lparr> inventory_peer_advertised_to_us := inventory_peer_advertised_to_us p @ [(i, current_time)] \<rparr>)"

fun on_item_ids_inventory_message :: "time_point_sec \<Rightarrow> peer_id \<Rightarrow> nat \<Rightarrow> block_id_type list \<Rightarrow> p2p_node \<Rightarrow> p2p_node" where
  "on_item_ids_inventory_message current_time c item_type [] n = n"
| "on_item_ids_inventory_message current_time c item_type (h # hs) n =
     (let i = (item_type, h)
      in if advertised_to_a_peer i n then on_item_ids_inventory_message current_time c item_type hs n
         else case get_peer n c of
                None \<Rightarrow> n
              | Some p \<Rightarrow>
                  if (item_type = trx_message_type \<and> is_inventory_advertised_to_us_list_full_for_transactions p) \<or>
                     is_inventory_advertised_to_us_list_full p then n
                  else
                    let n1 = update_peer c (note_advertised current_time i) n;
                        n2 = (if requested_from_a_peer i n then n1 else add_item_to_fetch i n1)
                    in on_item_ids_inventory_message current_time c item_type hs n2)"

section \<open>Requests of peers\<close>

text \<open>The answers to a request for items, and the last one sent for a request for blocks.\<close>

fun item_replies :: "ext \<Rightarrow> p2p_node \<Rightarrow> nat \<Rightarrow> block_id_type list \<Rightarrow> exn + net_message list \<times> message option" where
  "item_replies X n item_type [] = Inr ([], None)"
| "item_replies X n item_type (h # hs) =
     bindE (case get_message h (message_cache n) of
              Inr m \<Rightarrow> Inr (Client_message m, Some m)
            | Inl _ \<Rightarrow> (case get_item X (delegate n) item_type h of
                 Inr m \<Rightarrow> Inr (Client_message m, Some m)
               | Inl e \<Rightarrow> if e = key_not_found then Inr (Item_not_available (item_type, h), None) else Inl e)) (\<lambda>(reply, m).
     bindE (item_replies X n item_type hs) (\<lambda>(replies, last_sent).
     Inr (reply # replies, case last_sent of
        Some s \<Rightarrow> Some s
      | None \<Rightarrow> if item_type = block_message_type then m else None)))"

text \<open>The record of the last block the peer has is updated before the answers are sent.\<close>

definition note_block_sent :: "p2p_node \<Rightarrow> message \<Rightarrow> (peer_connection, unit) computation" where
  "note_block_sent n m =
     (case m of
        Block_message b i \<Rightarrow>
          thenA (modifyA (\<lambda>p. p \<lparr> last_block_delegate_has_seen := i \<rparr>))
          (bindA (liftE (get_block_num (chain_db (delegate n)) i)) (\<lambda>num.
           thenA (modifyA (\<lambda>p. p \<lparr> last_block_number_delegate_has_seen := num \<rparr>))
           (bindA (liftE (get_block_time (chain_db (delegate n)) i)) (\<lambda>t.
            modifyA (\<lambda>p. p \<lparr> last_block_time_delegate_has_seen := t \<rparr>)))))
      | _ \<Rightarrow> raiseA assert_failed)"

text \<open>A computation on one connection of the node.\<close>

definition on_peer :: "peer_id \<Rightarrow> (peer_connection, 'a) computation \<Rightarrow> (p2p_node, 'a) computation" where
  "on_peer c m n =
     (case get_peer n c of
        None \<Rightarrow> Some (Inl key_not_found, n)
      | Some p \<Rightarrow> map_option (\<lambda>(r, p'). (r, update_peer c (\<lambda>_. p') n)) (m p))"

definition on_fetch_items_message :: "ext \<Rightarrow> peer_id \<Rightarrow> nat \<Rightarrow> block_id_type list \<Rightarrow> (p2p_node, unit) computation" where
  "on_fetch_items_message X c item_type hs n =
     bindA (liftE (item_replies X n item_type hs)) (\<lambda>(replies, last_block_message_sent).
     thenA (case last_block_message_sent of None \<Rightarrow> returnA () | Some m \<Rightarrow> on_peer c (note_block_sent n m))
     (modifyA (fold (send_message c) replies))) n"

definition on_item_not_available_message :: "peer_id \<Rightarrow> item_id \<Rightarrow> p2p_node \<Rightarrow> p2p_node" where
  "on_item_not_available_message c i n =
     (case get_peer n c of
        None \<Rightarrow> n
      | Some p \<Rightarrow>
          if i \<in> set (items_requested_from_peer p) then
            let n1 = update_peer c (\<lambda>p. p \<lparr> items_requested_from_peer := removeAll i (items_requested_from_peer p),
                       inventory_peer_advertised_to_us := AList.delete i (inventory_peer_advertised_to_us p) \<rparr>) n
            in if is_item_in_any_peers_inventory i n1 then add_item_to_fetch i n1 else n1
          else if fst i = block_message_type \<and> snd i \<in> set (sync_items_requested_from_peer p) then
            let n1 = update_peer c (\<lambda>p. p \<lparr> sync_items_requested_from_peer := removeAll (snd i) (sync_items_requested_from_peer p) \<rparr>) n
            in if peer_needs_sync_items_from_us p then update_peer c (\<lambda>p. p \<lparr> inhibit_fetching_sync_blocks := True \<rparr>) n1
               else disconnect_from_peer c ''You are missing a sync item you claim to have'' n1
          else n)"

definition on_connection_closed :: "peer_id \<Rightarrow> p2p_node \<Rightarrow> p2p_node" where
  "on_connection_closed c n =
     (case get_peer n c of
        None \<Rightarrow> n
      | Some p \<Rightarrow>
          let n1 = n \<lparr> connections := AList.delete c (connections n),
                     active_sync_requests := filter (\<lambda>i. i \<notin> set (sync_items_requested_from_peer p)) (active_sync_requests n) \<rparr>
          in fold (\<lambda>i n. if is_item_in_any_peers_inventory i n then add_item_to_fetch i n else n) (items_requested_from_peer p) n1)"

text \<open>The end of a connection that could not be closed: the rescheduling of \<^verbatim>\<open>on_connection_closed\<close> is not done.\<close>

definition terminate_connection :: "peer_id \<Rightarrow> p2p_node \<Rightarrow> p2p_node" where
  "terminate_connection c n = n \<lparr> connections := AList.delete c (connections n) \<rparr>"

section \<open>Hard forks\<close>

definition is_hard_fork_block :: "p2p_node \<Rightarrow> 32 word \<Rightarrow> bool" where
  "is_hard_fork_block n num \<longleftrightarrow> num \<in> set (hard_fork_block_numbers n)"

definition get_next_known_hard_fork_block_number :: "p2p_node \<Rightarrow> 32 word \<Rightarrow> 32 word" where
  "get_next_known_hard_fork_block_number n num =
     (case List.find (\<lambda>k. k > num) (hard_fork_block_numbers n) of Some k \<Rightarrow> k | None \<Rightarrow> 0)"

definition needs_upgrade :: "p2p_node \<Rightarrow> 32 word \<Rightarrow> peer_connection \<Rightarrow> bool" where
  "needs_upgrade n num p \<longleftrightarrow>
     is_hard_fork_block n num \<and> last_known_fork_block_number p \<noteq> 0 \<and>
     (let next_fork = get_next_known_hard_fork_block_number n (last_known_fork_block_number p)
      in next_fork \<noteq> 0 \<and> next_fork \<le> num)"

definition disconnect_peers :: "peer_id list \<Rightarrow> string \<Rightarrow> p2p_node \<Rightarrow> p2p_node" where
  "disconnect_peers cs reason n = fold (\<lambda>c. disconnect_from_peer c reason) cs n"

definition peers_where :: "(peer_connection \<Rightarrow> bool) \<Rightarrow> p2p_node \<Rightarrow> peer_id list" where
  "peers_where P n = map fst (filter (\<lambda>(c, p). P p) (active_peers n))"

section \<open>New items\<close>

definition broadcast :: "ext \<Rightarrow> (message \<Rightarrow> block_id_type) \<Rightarrow> message \<Rightarrow> p2p_node \<Rightarrow> p2p_node" where
  "broadcast X hash m n =
     (let contents = (case m of Block_message b i \<Rightarrow> i | Trx_message t \<Rightarrow> transaction_id_hash X t | Other_message ty \<Rightarrow> 0);
          n1 = (case m of Block_message b i \<Rightarrow> push_recent_block i n | _ \<Rightarrow> n)
      in n1 \<lparr> message_cache := cache_message m (hash m) contents (message_cache n1),
            new_inventory := List.insert (msg_type m, hash m) (new_inventory n1) \<rparr>)"

text \<open>The client handles a message; what it raises is passed on, with the changes it has made.\<close>

definition delegate_handles :: "ext \<Rightarrow> int \<Rightarrow> message \<Rightarrow> bool \<Rightarrow> (p2p_node, bool) computation" where
  "delegate_handles X elapsed m sync_mode n =
     map_option (\<lambda>(r, cl). (r, n \<lparr> delegate := cl \<rparr>)) (handle_message X elapsed m sync_mode (delegate n))"

definition note_block_seen :: "block_message \<Rightarrow> peer_connection \<Rightarrow> peer_connection" where
  "note_block_seen = (\<lambda>(b, i) p. p \<lparr> last_block_delegate_has_seen := i,
     last_block_number_delegate_has_seen := block_num (full_block.block_header b),
     last_block_time_delegate_has_seen := block_timestamp (full_block.block_header b) \<rparr>)"

definition note_normal_block :: "time_point_sec \<Rightarrow> block_message \<Rightarrow> block_id_type \<Rightarrow> p2p_node \<Rightarrow> p2p_node" where
  "note_normal_block current_time m h =
     update_active (\<lambda>p. clear_old_inventory current_time
       (if (block_message_type, h) \<in> fst ` set (inventory_peer_advertised_to_us p) then note_block_seen m p else p))"

definition relay_block :: "ext \<Rightarrow> (message \<Rightarrow> block_id_type) \<Rightarrow> block_message \<Rightarrow> p2p_node \<Rightarrow> p2p_node" where
  "relay_block X hash m n =
     (let n1 = broadcast X hash (Block_message (fst m) (snd m)) n in n1 \<lparr> message_cache := block_accepted (message_cache n1) \<rparr>)"

definition disconnect_old_peers :: "32 word \<Rightarrow> p2p_node \<Rightarrow> p2p_node" where
  "disconnect_old_peers num n =
     disconnect_peers (peers_where (needs_upgrade n num) n) ''You need to upgrade your client due to hard fork'' n"

definition accept_normal_block ::
    "ext \<Rightarrow> (message \<Rightarrow> block_id_type) \<Rightarrow> time_point_sec \<Rightarrow> block_message \<Rightarrow> block_id_type \<Rightarrow> p2p_node \<Rightarrow> p2p_node" where
  "accept_normal_block X hash current_time m h n =
     disconnect_old_peers (block_num (full_block.block_header (fst m))) (relay_block X hash m (note_normal_block current_time m h n))"

definition process_block_during_normal_operation ::
    "ext \<Rightarrow> (message \<Rightarrow> block_id_type) \<Rightarrow> int \<Rightarrow> time_point_sec \<Rightarrow> block_message \<Rightarrow> block_id_type \<Rightarrow> (p2p_node, unit) computation" where
  "process_block_during_normal_operation X hash elapsed current_time m h =
     catchA
       (\<lambda>n. thenA
          (if snd m \<in> set (most_recent_blocks_accepted n) then returnA ()
           else thenA (delegate_handles X elapsed (Block_message (fst m) (snd m)) False) (modifyA (push_recent_block (snd m))))
          (modifyA (accept_normal_block X hash current_time m h)) n)
       (\<lambda>e. modifyA (\<lambda>n. disconnect_peers (peers_where (\<lambda>p. ids_of_items_to_get p \<noteq> [] \<and> hd (ids_of_items_to_get p) = snd m) n)
          ''You offered me a block that I have deemed to be invalid'' n))"

definition process_block_during_sync :: "block_message \<Rightarrow> p2p_node \<Rightarrow> p2p_node" where
  "process_block_during_sync m n = n \<lparr> new_received_sync_items := m # new_received_sync_items n \<rparr>"

definition receive_sync_block :: "peer_id \<Rightarrow> block_message \<Rightarrow> p2p_node \<Rightarrow> p2p_node" where
  "receive_sync_block c m n =
     process_block_during_sync m
       ((update_peer c (\<lambda>p. p \<lparr> sync_items_requested_from_peer := removeAll (snd m) (sync_items_requested_from_peer p) \<rparr>) n)
          \<lparr> active_sync_requests := removeAll (snd m) (active_sync_requests n) \<rparr>)"

definition receive_normal_block ::
    "ext \<Rightarrow> (message \<Rightarrow> block_id_type) \<Rightarrow> int \<Rightarrow> time_point_sec \<Rightarrow> peer_id \<Rightarrow> block_message \<Rightarrow> block_id_type \<Rightarrow> (p2p_node, unit) computation" where
  "receive_normal_block X hash elapsed current_time c m h =
     thenA (modifyA (update_peer c (\<lambda>p. p \<lparr> items_requested_from_peer :=
         removeAll (block_message_type, h) (items_requested_from_peer p) \<rparr>)))
       (process_block_during_normal_operation X hash elapsed current_time m h)"

definition process_block_message ::
    "ext \<Rightarrow> (message \<Rightarrow> block_id_type) \<Rightarrow> int \<Rightarrow> time_point_sec \<Rightarrow> peer_id \<Rightarrow> block_message \<Rightarrow> (p2p_node, unit) computation" where
  "process_block_message X hash elapsed current_time c m n =
     (let h = hash (Block_message (fst m) (snd m))
      in case get_peer n c of
           None \<Rightarrow> returnA () n
         | Some p \<Rightarrow>
             if (block_message_type, h) \<in> set (items_requested_from_peer p)
             then receive_normal_block X hash elapsed current_time c m h n
             else if snd m \<in> set (sync_items_requested_from_peer p) then returnA () (receive_sync_block c m n)
             else returnA () (disconnect_from_peer c ''You sent me a block that I didn't ask for'' n))"

definition handle_ordinary_message ::
    "ext \<Rightarrow> (message \<Rightarrow> block_id_type) \<Rightarrow> int \<Rightarrow> time_point_sec \<Rightarrow> peer_id \<Rightarrow> message \<Rightarrow> (p2p_node, unit) computation" where
  "handle_ordinary_message X hash elapsed current_time c m =
     catchA
       (thenA (modifyA (update_peer c (\<lambda>p. p \<lparr> items_requested_from_peer := removeAll (msg_type m, hash m) (items_requested_from_peer p) \<rparr>)))
         (thenA (delegate_handles X elapsed m False) (modifyA (broadcast X hash m))))
       (\<lambda>e. if e = Fc_exception ''net::insufficient_relay_fee'' \<and> msg_type m = trx_message_type
        then modifyA (update_peer c (\<lambda>p. p \<lparr> transaction_fetching_inhibited_until :=
               current_time + BTS_NET_INSUFFICIENT_RELAY_FEE_PENALTY_SEC \<rparr>))
        else returnA ())"

definition process_ordinary_message ::
    "ext \<Rightarrow> (message \<Rightarrow> block_id_type) \<Rightarrow> int \<Rightarrow> time_point_sec \<Rightarrow> peer_id \<Rightarrow> message \<Rightarrow> (p2p_node, unit) computation" where
  "process_ordinary_message X hash elapsed current_time c m n =
     (case get_peer n c of
        None \<Rightarrow> returnA () n
      | Some p \<Rightarrow>
          if (msg_type m, hash m) \<notin> set (items_requested_from_peer p)
          then returnA () (disconnect_from_peer c ''You sent me a message that I didn't request'' n)
          else handle_ordinary_message X hash elapsed current_time c m n)"

section \<open>Blocks received while synchronising\<close>

text \<open>Handing the first block that some peer lists next to the client. The third component tells whether a block was handed over.\<close>

definition is_next_for :: "block_id_type \<Rightarrow> peer_connection \<Rightarrow> bool" where
  "is_next_for i p \<longleftrightarrow> ids_of_items_to_get p \<noteq> [] \<and> hd (ids_of_items_to_get p) = i"

definition pop_next_item :: "block_id_type \<Rightarrow> peer_connection \<Rightarrow> peer_connection" where
  "pop_next_item i p = (if is_next_for i p
     then p \<lparr> ids_of_items_to_get := tl (ids_of_items_to_get p), ids_of_items_being_processed := List.insert i (ids_of_items_being_processed p) \<rparr>
     else p)"

definition collect_received_items :: "p2p_node \<Rightarrow> p2p_node" where
  "collect_received_items n = n \<lparr> received_sync_items := rev (new_received_sync_items n) @ received_sync_items n, new_received_sync_items := [] \<rparr>"

definition process_next_block :: "p2p_node \<Rightarrow> p2p_node \<times> bool" where
  "process_next_block n0 =
     (let n = collect_received_items n0
      in case List.find (\<lambda>(b, i). list_ex (\<lambda>(c, p). is_next_for i p) (active_peers n)) (received_sync_items n) of
           None \<Rightarrow> (n, False)
         | Some m \<Rightarrow>
             let n1 = update_active (pop_next_item (snd m)) n
             in if snd m \<in> set (most_recent_blocks_accepted n) then (n1, False)
                else (n1 \<lparr> received_sync_items := remove1 m (received_sync_items n),
                         handle_message_calls_in_progress := handle_message_calls_in_progress n @ [m] \<rparr>, True))"

lemma find_is_element: "List.find P xs = Some x \<Longrightarrow> x \<in> set xs \<and> P x"
  by (auto simp: find_Some_iff)

lemma process_next_block_cases:
  assumes "process_next_block n = (n', processed)"
  obtains "n' = collect_received_items n" and "\<not> processed"
  | m where "m \<in> set (received_sync_items (collect_received_items n))"
      and "list_ex (\<lambda>(c, p). is_next_for (snd m) p) (active_peers (collect_received_items n))"
      and "n' = update_active (pop_next_item (snd m)) (collect_received_items n)"
      and "snd m \<in> set (most_recent_blocks_accepted n)" and "\<not> processed"
  | m where "m \<in> set (received_sync_items (collect_received_items n))"
      and "list_ex (\<lambda>(c, p). is_next_for (snd m) p) (active_peers (collect_received_items n))"
      and "n' = (update_active (pop_next_item (snd m)) (collect_received_items n))
        \<lparr> received_sync_items := remove1 m (received_sync_items (collect_received_items n)),
          handle_message_calls_in_progress := handle_message_calls_in_progress n @ [m] \<rparr>"
      and "snd m \<notin> set (most_recent_blocks_accepted n)" and processed
proof -
  have same: "most_recent_blocks_accepted (collect_received_items n) = most_recent_blocks_accepted n"
    "handle_message_calls_in_progress (collect_received_items n) = handle_message_calls_in_progress n"
    by (simp_all add: collect_received_items_def)
  let ?n = "collect_received_items n"
  show ?thesis
  proof (cases "List.find (\<lambda>(b, i). list_ex (\<lambda>(c, p). is_next_for i p) (active_peers ?n)) (received_sync_items ?n)")
    case None
    then show ?thesis using assms that(1) by (simp add: process_next_block_def)
  next
    case (Some m)
    have m: "m \<in> set (received_sync_items ?n)" "list_ex (\<lambda>(c, p). is_next_for (snd m) p) (active_peers ?n)"
      using find_is_element [OF Some] by (simp_all add: case_prod_beta)
    note e = assms [unfolded process_next_block_def Let_def Some option.case same]
    show ?thesis
    proof (cases "snd m \<in> set (most_recent_blocks_accepted n)")
      case True
      with e have "n' = update_active (pop_next_item (snd m)) ?n" "\<not> processed" by simp_all
      then show ?thesis using that(2) [OF m _ True] by simp
    next
      case False
      with e have "n' = (update_active (pop_next_item (snd m)) ?n) \<lparr> received_sync_items := remove1 m (received_sync_items ?n),
          handle_message_calls_in_progress := handle_message_calls_in_progress n @ [m] \<rparr>" processed by simp_all
      then show ?thesis using that(3) [OF m _ False] by simp
    qed
  qed
qed

lemma process_next_block_fewer:
  assumes "process_next_block n = (n', True)"
  shows "length (received_sync_items n') + length (new_received_sync_items n') <
    length (received_sync_items n) + length (new_received_sync_items n)"
  using assms
proof (cases rule: process_next_block_cases)
  case (3 m)
  then have "length (received_sync_items n') < length (received_sync_items (collect_received_items n))"
    using length_pos_if_in_set [OF 3(1)] by (simp add: length_remove1 update_active_def)
  then show ?thesis using 3(3) by (simp add: collect_received_items_def update_active_def)
qed simp_all

function process_backlog_loop :: "p2p_node \<Rightarrow> p2p_node" where
  "process_backlog_loop n =
     (case process_next_block n of (n', processed) \<Rightarrow>
        if length (handle_message_calls_in_progress n') \<ge> MAXIMUM_NUMBER_OF_BLOCKS_TO_HANDLE_AT_ONE_TIME
        then if length (received_sync_items n') \<ge> MAXIMUM_NUMBER_OF_BLOCKS_TO_PREFETCH
             then n' \<lparr> suspend_fetching_sync_blocks := True \<rparr> else n'
        else if processed then process_backlog_loop n' else n')"
  by pat_completeness auto
termination
  by (relation "measure (\<lambda>n. length (received_sync_items n) + length (new_received_sync_items n))")
    (auto dest!: process_next_block_fewer [OF sym])

declare process_backlog_loop.simps [simp del]

definition process_backlog_of_sync_blocks :: "p2p_node \<Rightarrow> p2p_node" where
  "process_backlog_of_sync_blocks n =
     (if length (handle_message_calls_in_progress n) \<ge> MAXIMUM_NUMBER_OF_BLOCKS_TO_HANDLE_AT_ONE_TIME then n
      else process_backlog_loop (n \<lparr> suspend_fetching_sync_blocks := False \<rparr>))"

text \<open>The task that passes a block to the client, and what follows for every connection.\<close>

definition fetch_next_batch :: "ext \<Rightarrow> peer_id \<Rightarrow> (p2p_node, unit) computation" where
  "fetch_next_batch X c n =
     bindA (on_peer c (fetch_next_batch_of_item_ids_from_peer X (chain_db (delegate n)) False)) (\<lambda>synopsis.
     modifyA (send_message c (Fetch_blockchain_item_ids synopsis))) n"

definition start_synchronizing_with :: "ext \<Rightarrow> peer_id \<Rightarrow> (p2p_node, unit) computation" where
  "start_synchronizing_with X c n =
     bindA (on_peer c (start_synchronizing_with_peer X (chain_db (delegate n)))) (\<lambda>synopsis.
     modifyA (send_message c (Fetch_blockchain_item_ids synopsis))) n"

definition has_no_items :: "peer_connection \<Rightarrow> bool" where
  "has_no_items p \<longleftrightarrow> ids_of_items_to_get p = [] \<and> ids_of_items_being_processed p = []"

definition finish_item :: "block_message \<Rightarrow> peer_connection \<Rightarrow> peer_connection" where
  "finish_item m p = (if snd m \<in> set (ids_of_items_being_processed p)
     then note_block_seen m (p \<lparr> ids_of_items_being_processed := removeAll (snd m) (ids_of_items_being_processed p) \<rparr>) else p)"

definition accept_sync_block :: "ext \<Rightarrow> block_message \<Rightarrow> (p2p_node, unit) computation" where
  "accept_sync_block X m n0 =
     (let n = n0 \<lparr> total_number_of_unfetched_items := total_number_of_unfetched_items n0 - 1 \<rparr>;
          old = needs_upgrade n (block_num (full_block.block_header (fst m)));
          peers_to_disconnect = peers_where old n;
          peers_we_need_to_sync_to = peers_where (\<lambda>p. \<not> old p \<and> has_no_items p \<and>
            \<not> peer_needs_sync_items_from_us p \<and> \<not> we_need_sync_items_from_peer p) n;
          peers_with_newly_empty_item_lists = peers_where (\<lambda>p. \<not> old p \<and> snd m \<in> set (ids_of_items_being_processed p) \<and>
            has_no_items (finish_item m p) \<and> number_of_unfetched_item_ids p = 0) n;
          n1 = update_active (\<lambda>p. if old p then p else finish_item m p) n
      in thenA (modifyA (disconnect_peers peers_to_disconnect ''You need to upgrade your client due to hard fork''))
         (thenA (forA (fetch_next_batch X) peers_with_newly_empty_item_lists)
         (forA (start_synchronizing_with X) peers_we_need_to_sync_to)) n1)"

definition reject_sync_block :: "exn \<Rightarrow> block_message \<Rightarrow> p2p_node \<Rightarrow> p2p_node" where
  "reject_sync_block e m n =
     (let offered = (\<lambda>p. snd m \<in> set (ids_of_items_being_processed p))
      in if e = Fc_exception ''net::block_older_than_undo_history''
         then update_active (\<lambda>p. if offered p then p \<lparr> inhibit_fetching_sync_blocks := True \<rparr> else p) n
         else disconnect_peers (peers_where offered n) ''You offered us a block that we reject as invalid'' n)"

definition send_sync_block_to_node_delegate :: "ext \<Rightarrow> int \<Rightarrow> block_message \<Rightarrow> (p2p_node, unit) computation" where
  "send_sync_block_to_node_delegate X elapsed m n =
     (case delegate_handles X elapsed (Block_message (fst m) (snd m)) True
             (n \<lparr> handle_message_calls_in_progress := remove1 m (handle_message_calls_in_progress n) \<rparr>) of
        None \<Rightarrow> None
      | Some (Inr _, n') \<Rightarrow> accept_sync_block X m (push_recent_block (snd m) n')
      | Some (Inl e, n') \<Rightarrow> Some (Inr (), reject_sync_block e m n'))"

section \<open>Messages about block ids\<close>

definition send_answer :: "peer_id \<Rightarrow> answer \<Rightarrow> p2p_node \<Rightarrow> p2p_node" where
  "send_answer c a n =
     (let n1 = (case restart_request a of Some r \<Rightarrow> send_message c (Fetch_blockchain_item_ids r) n | None \<Rightarrow> n);
          n2 = send_message c (Blockchain_item_ids_inventory (reply_message a)) n1
      in if disconnect_from_inhibited_peer a
         then disconnect_from_peer c ''you are on a fork that I'm unable to switch to'' n2 else n2)"

definition receive_fetch_blockchain_item_ids :: "ext \<Rightarrow> peer_id \<Rightarrow> block_id_type list \<Rightarrow> (p2p_node, unit) computation" where
  "receive_fetch_blockchain_item_ids X c synopsis n =
     bindA (on_peer c (on_fetch_blockchain_item_ids_message X (chain_db (delegate n)) synopsis)) (\<lambda>a. modifyA (send_answer c a)) n"

definition take_sync_step :: "peer_id \<Rightarrow> sync_step \<Rightarrow> p2p_node \<Rightarrow> p2p_node" where
  "take_sync_step c s =
     (case s of
        Ask_for_more synopsis \<Rightarrow> send_message c (Fetch_blockchain_item_ids synopsis)
      | Implausible_offer \<Rightarrow> disconnect_from_peer c ''You offered me a list of more sync blocks than could possibly exist''
      | _ \<Rightarrow> id)"

definition receive_blockchain_item_ids_inventory ::
    "ext \<Rightarrow> time_point_sec \<Rightarrow> peer_id \<Rightarrow> blockchain_item_ids_inventory_message \<Rightarrow> (p2p_node, unit) computation" where
  "receive_blockchain_item_ids_inventory X current_time c m n =
     bindA (on_peer c (on_blockchain_item_ids_inventory_message X (chain_db (delegate n)) current_time m
         (map snd (filter (\<lambda>(d, p). d \<noteq> c) (active_peers n))) (total_number_of_unfetched_items n))) (\<lambda>r.
     modifyA (\<lambda>n.
       let n1 = n \<lparr> total_number_of_unfetched_items := unfetched_items r,
                  delegate := (case reported_status r of Some k \<Rightarrow> sync_status k (delegate n) | None \<Rightarrow> delegate n) \<rparr>
       in take_sync_step c (next_step r) n1)) n"

section \<open>The node at work\<close>

definition core_message_type_first :: nat where
  "core_message_type_first = 5000"

definition core_message_type_last :: nat where
  "core_message_type_last = 5099"

text \<open>
  The dispatch of a message that has arrived. The messages that open a connection, and those about addresses, time, firewalls
  and the list of connections, do not change the state modelled here.
\<close>

definition on_message ::
    "ext \<Rightarrow> (message \<Rightarrow> block_id_type) \<Rightarrow> int \<Rightarrow> time_point_sec \<Rightarrow> peer_id \<Rightarrow> net_message \<Rightarrow> (p2p_node, unit) computation" where
  "on_message X hash elapsed current_time c received_message =
     (case received_message of
        Fetch_blockchain_item_ids synopsis \<Rightarrow> receive_fetch_blockchain_item_ids X c synopsis
      | Blockchain_item_ids_inventory m \<Rightarrow> receive_blockchain_item_ids_inventory X current_time c m
      | Fetch_items_message item_type ids \<Rightarrow> on_fetch_items_message X c item_type ids
      | Item_not_available i \<Rightarrow> modifyA (on_item_not_available_message c i)
      | Item_ids_inventory item_type ids \<Rightarrow> modifyA (on_item_ids_inventory_message current_time c item_type ids)
      | Closing_connection reason \<Rightarrow> modifyA (on_closing_connection_message c)
      | Client_message m \<Rightarrow> (case m of
           Block_message b i \<Rightarrow> process_block_message X hash elapsed current_time c (b, i)
         | _ \<Rightarrow> if msg_type m < core_message_type_first \<or> msg_type m > core_message_type_last
                then process_ordinary_message X hash elapsed current_time c m else returnA ()))"

definition new_peer_just_added :: "ext \<Rightarrow> peer_id \<Rightarrow> (p2p_node, unit) computation" where
  "new_peer_just_added X c = thenA (modifyA (move_peer_to_active_list c)) (start_synchronizing_with X c)"

text \<open>
  What may happen next: a message arrives, a loop or a task runs, the client announces a message of its own, a
  connection is opened, becomes active, is given up because of a timeout, or ends.
\<close>

inductive net_step :: "ext \<Rightarrow> (message \<Rightarrow> block_id_type) \<Rightarrow> p2p_node \<Rightarrow> p2p_node \<Rightarrow> bool" for X hash where
  arrives: "on_message X hash elapsed current_time c m n = Some (r, n') \<Longrightarrow> net_step X hash n n'"
| fetch_blocks: "net_step X hash n (fetch_sync_items n)"
| fetch: "net_step X hash n (fetch_items current_time n)"
| announce: "net_step X hash n (advertise_inventory current_time n)"
| backlog: "net_step X hash n (process_backlog_of_sync_blocks n)"
| hand_over: "m \<in> set (handle_message_calls_in_progress n) \<Longrightarrow> send_sync_block_to_node_delegate X elapsed m n = Some (r, n') \<Longrightarrow> net_step X hash n n'"
| client_sends: "net_step X hash n (broadcast X hash m n)"
| connect: "c \<notin> fst ` set (connections n) \<Longrightarrow> net_step X hash n (n \<lparr> connections := connections n @ [(c, new_connection)] \<rparr>)"
| activate: "new_peer_just_added X c n = Some (r, n') \<Longrightarrow> net_step X hash n n'"
| give_up: "net_step X hash n (disconnect_from_peer c reason n)"
| force: "net_step X hash n (move_peer_to_terminating_list c n)"
| closed: "net_step X hash n (on_connection_closed c n)"
| terminate: "get_peer n c = Some p \<Longrightarrow> connection_list p = Terminating \<Longrightarrow> net_step X hash n (terminate_connection c n)"

end
