(* ===== verification/Sync_Laws.thy ===== *)
theory Sync_Laws
  imports Peer_Sync
begin

text \<open>
  The synchronisation of two nodes. The synopsis of a chain has one block for each bit of its length,
  at distances from the end that halve; the answer to it starts at a common block that is no further
  back than the asking node's own fork is long, so the asking node learns the blocks it misses.
\<close>

section \<open>Block numbers of a synopsis\<close>

fun halves :: "nat \<Rightarrow> nat list" where
  "halves m = (if m = 0 then [] else m # halves (m div 2))"

declare halves.simps [simp del]

lemma halves_0 [simp]: "halves 0 = []"
  by (simp add: halves.simps)

lemma halves_step: "m \<noteq> 0 \<Longrightarrow> halves m = m # halves (m div 2)"
  by (subst halves.simps) simp

definition positions :: "nat \<Rightarrow> nat list" where
  "positions N = map (\<lambda>m. N + 1 - m) (halves N)"

lemma length_halves: "length (halves m) = bit_length m"
  by (induction m rule: halves.induct) (subst halves.simps, subst bit_length.simps, simp)

lemma halves_bound: "k \<in> set (halves m) \<Longrightarrow> 1 \<le> k \<and> k \<le> m"
proof (induction m rule: halves.induct)
  case (1 m)
  show ?case
  proof (cases "k = m \<or> m = 0")
    case False
    then have "k \<in> set (halves (m div 2))" using 1(2) halves_step [of m] by auto
    then have "1 \<le> k \<and> k \<le> m div 2" using False 1(1) by simp
    then show ?thesis by linarith
  next
    case True
    with 1(2) show ?thesis by (cases "m = 0") auto
  qed
qed

lemma last_halves: "m \<noteq> 0 \<Longrightarrow> last (halves m) = 1"
proof (induction m rule: halves.induct)
  case (1 m)
  show ?case
  proof (cases "m div 2 = 0")
    case True
    then have "m = 1" using 1(2) by simp
    then show ?thesis by (simp add: halves_step)
  next
    case False
    then have "last (halves (m div 2)) = 1" using 1 by simp
    moreover have "halves (m div 2) \<noteq> []" using halves_step [OF False] by simp
    ultimately show ?thesis using halves_step [OF 1(2)] by simp
  qed
qed

text \<open>The loop visits these numbers.\<close>

definition pick_all :: "(32 word \<Rightarrow> exn + block_id_type list) \<Rightarrow> nat list \<Rightarrow> block_id_type list \<Rightarrow> exn + block_id_type list" where
  "pick_all pick = foldE (\<lambda>p s. bindE (pick (of_nat p)) (\<lambda>is. Inr (s @ is)))"

lemma pick_all_simps [simp]:
  "pick_all pick [] s = Inr s"
  "pick_all pick (p # ps) s = bindE (bindE (pick (of_nat p)) (\<lambda>is. Inr (s @ is))) (pick_all pick ps)"
  by (simp_all add: pick_all_def)

lemma next_position:
  assumes "1 \<le> m" and "m \<le> N" and "N + 1 < 2 ^ 32"
  shows "(of_nat (N + 1 - m) :: 32 word) + (of_nat N - of_nat (N + 1 - m) + 2) div 2 = of_nat (N + 1 - m div 2)"
proof -
  have a: "(of_nat N :: 32 word) - of_nat (N + 1 - m) + 2 = of_nat (m + 1)"
    using assms by (simp add: of_nat_diff)
  have b: "(of_nat (m + 1) :: 32 word) div 2 = of_nat ((m + 1) div 2)"
  proof -
    have "unat (of_nat (m + 1) :: 32 word) = m + 1" using assms by (simp only: unat_of_nat) simp
    then have "unat ((of_nat (m + 1) :: 32 word) div 2) = (m + 1) div 2" by (simp only: unat_div) simp
    moreover have "unat (of_nat ((m + 1) div 2) :: 32 word) = (m + 1) div 2" using assms by (simp only: unat_of_nat) simp
    ultimately show ?thesis by (simp only: word_unat_eq_iff)
  qed
  have "(m + 1) div 2 + m div 2 = m" by presburger
  then have c: "N + 1 - m + (m + 1) div 2 = N + 1 - m div 2" using assms(2) by linarith
  show ?thesis unfolding a b of_nat_add [symmetric] c ..
qed

lemma of_nat_le32: "a < 2 ^ 32 \<Longrightarrow> b < 2 ^ 32 \<Longrightarrow> (of_nat a :: 32 word) \<le> of_nat b \<longleftrightarrow> a \<le> b"
  by (simp add: word_le_nat_alt unat_of_nat)

lemma halving_loop_eq:
  assumes "1 \<le> m" and "m \<le> N" and "N + 1 < 2 ^ 32" and "high \<le> N" and "N + 1 - m \<le> high"
  shows "halving_loop pick (of_nat high) (of_nat N) (of_nat (N + 1 - m)) s =
    Some (pick_all pick (filter (\<lambda>p. p \<le> high) (map (\<lambda>m. N + 1 - m) (halves m))) s)"
  using assms
proof (induction m arbitrary: s rule: halves.induct)
  case (1 m)
  have up: "filter (\<lambda>p. p \<le> high) (map (\<lambda>m. N + 1 - m) (halves k)) = []" if "\<not> N + 1 - k \<le> high" for k
    using that by (auto simp: filter_empty_conv dest!: halves_bound)
  have less: "N + 1 - m div 2 < 2 ^ 32" "high < 2 ^ 32" using 1(4,5) by auto
  show ?case
  proof (cases "pick (of_nat (N + 1 - m))")
    case (Inl e)
    then show ?thesis using 1(2,6) halves_step [of m] by (subst halving_loop.simps) simp
  next
    case (Inr ids)
    have step: "halving_loop pick (of_nat high) (of_nat N) (of_nat (N + 1 - m)) s =
      (if N + 1 - m div 2 \<le> high then halving_loop pick (of_nat high) (of_nat N) (of_nat (N + 1 - m div 2)) (s @ ids)
       else Some (Inr (s @ ids)))"
      by (subst halving_loop.simps) (simp only: Inr sum.case Let_def next_position [OF 1(2-4)] of_nat_le32 [OF less])
    show ?thesis
    proof (cases "N + 1 - m div 2 \<le> high")
      case True
      then have "1 \<le> m div 2" "m div 2 \<le> N" using 1(3,5) by auto
      with True show ?thesis unfolding step using 1(1) [of "s @ ids"] 1(2-6) Inr halves_step [of m] by simp
    next
      case False
      then show ?thesis unfolding step using 1(2,6) Inr up [OF False] halves_step [of m] by simp
    qed
  qed
qed

lemma halving_loop_positions:
  assumes "1 \<le> high" and "high \<le> N" and "N + 1 < 2 ^ 32"
  shows "halving_loop pick (of_nat high) (of_nat N) 1 s = Some (pick_all pick (filter (\<lambda>p. p \<le> high) (positions N)) s)"
  using halving_loop_eq [of N N high pick s] assms by (simp add: positions_def)

section \<open>The chain of a node\<close>

text \<open>The blocks of the current chain, oldest first, as the tables of a node show them.\<close>

definition shows_chain :: "ext \<Rightarrow> node \<Rightarrow> block_id_type list \<Rightarrow> bool" where
  "shows_chain X n ids \<longleftrightarrow>
     length ids + 1 < 2 ^ 32 \<and> head_block_num (ledger_db n) = of_nat (length ids) \<and> 0 \<notin> set ids \<and>
     (\<forall>i. i \<noteq> 0 \<longrightarrow> is_included_block (forks n) i \<longleftrightarrow> i \<in> set ids) \<and>
     (\<forall>k < length ids. map_of (block_num_to_id_db n) (of_nat (Suc k)) = Some (ids ! k) \<and>
        (\<exists>b. map_of (block_id_to_block_data_db (forks n)) (ids ! k) = Some b \<and> block_id X b = ids ! k) \<and>
        (\<exists>r. map_of (block_id_to_block_record_db (forks n)) (ids ! k) = Some r \<and>
           block_num (record_header r) = of_nat (Suc k)))"

lemma shows_chainD:
  assumes "shows_chain X n ids" and "1 \<le> p" and "p \<le> length ids"
  shows "get_block_id n (of_nat p) = Inr (ids ! (p - 1))"
    and "bindE (get_block_of_num n (of_nat p)) (\<lambda>b. Inr [block_id X b]) = Inr [ids ! (p - 1)]"
    and "get_block_num n (ids ! (p - 1)) = Inr (of_nat p)"
    and "is_included_block (forks n) (ids ! (p - 1))"
proof -
  obtain k where k: "p = Suc k" "k < length ids" using assms(2,3) by (cases p) auto
  have "ids ! k \<noteq> 0" using assms(1) k(2) nth_mem unfolding shows_chain_def by metis
  with assms(1) k show "get_block_id n (of_nat p) = Inr (ids ! (p - 1))"
    "bindE (get_block_of_num n (of_nat p)) (\<lambda>b. Inr [block_id X b]) = Inr [ids ! (p - 1)]"
    "get_block_num n (ids ! (p - 1)) = Inr (of_nat p)" "is_included_block (forks n) (ids ! (p - 1))"
    by (auto simp: shows_chain_def get_block_id_def get_block_of_num_def get_block_def get_block_num_def fetch_def)
qed

lemma shows_chain_nonzero: "shows_chain X n ids \<Longrightarrow> i \<in> set ids \<Longrightarrow> i \<noteq> 0"
  unfolding shows_chain_def by metis

lemma positions_bound: "p \<in> set (positions N) \<Longrightarrow> 1 \<le> p \<and> p \<le> N"
  by (auto simp: positions_def dest: halves_bound)

lemma pick_all_singles:
  assumes "\<And>p. p \<in> set ps \<Longrightarrow> pick (of_nat p) = Inr [f p]"
  shows "pick_all pick ps s = Inr (s @ map f ps)"
  using assms by (induction ps arbitrary: s) simp_all

text \<open>What a synopsis of a chain is.\<close>

definition synopsis_of :: "block_id_type list \<Rightarrow> block_id_type list" where
  "synopsis_of ids = map (\<lambda>p. ids ! (p - 1)) (positions (length ids))"

lemma synopsis_whole_chain:
  assumes "shows_chain X n ids"
  shows "get_blockchain_synopsis X n 0 0 = Some (Inr (synopsis_of ids))"
proof (cases "ids = []")
  case True
  then show ?thesis using assms by (simp add: get_blockchain_synopsis_def shows_chain_def synopsis_of_def positions_def)
next
  case False
  let ?N = "length ids"
  have N: "1 \<le> ?N" "?N + 1 < 2 ^ 32" using False assms by (cases ids; auto simp: shows_chain_def)+
  have "unat (of_nat ?N :: 32 word) = ?N" using N by (simp only: unat_of_nat) simp
  then have nz: "(of_nat ?N :: 32 word) \<noteq> 0" using False by (metis length_0_conv unat_0)
  have "synopsis_block X n (of_nat ?N) [] (of_nat p) = Inr [ids ! (p - 1)]" if "p \<in> set (positions ?N)" for p
  proof -
    have p: "1 \<le> p" "p \<le> ?N" using positions_bound [OF that] by auto
    then have "(of_nat p :: 32 word) \<le> of_nat ?N" using N(2) by (subst of_nat_le32) auto
    then show ?thesis using shows_chainD(2) [OF assms p] by (simp add: synopsis_block_def)
  qed
  moreover have "filter (\<lambda>p. p \<le> ?N) (positions ?N) = positions ?N"
    using positions_bound by (auto simp: filter_id_conv)
  ultimately have "halving_loop (synopsis_block X n (of_nat ?N) []) (of_nat ?N) (of_nat ?N) 1 [] = Some (Inr (synopsis_of ids))"
    using halving_loop_positions [OF N(1) order_refl N(2)] by (simp add: pick_all_singles synopsis_of_def)
  then show ?thesis using nz assms by (simp add: get_blockchain_synopsis_def synopsis_of_range_def shows_chain_def)
qed

lemma length_synopsis: "length (synopsis_of ids) = bit_length (length ids)"
  by (simp add: synopsis_of_def positions_def length_halves)

lemma size_limit: "synopsis_size_limit = 25"
  by (simp add: synopsis_size_limit_def BTS_BLOCKCHAIN_BLOCKS_PER_YEAR_def BTS_BLOCKCHAIN_BLOCKS_PER_DAY_def
      BTS_BLOCKCHAIN_BLOCKS_PER_HOUR_def BTS_BLOCKCHAIN_BLOCK_INTERVAL_SEC_def bit_length.simps)

section \<open>The answer\<close>

lemma last_half_above:
  "a < N \<Longrightarrow> \<exists>m. filter (\<lambda>m. a < m) (halves N) \<noteq> [] \<and> last (filter (\<lambda>m. a < m) (halves N)) = m \<and> a < m \<and> m \<le> 2 * a + 1 \<and> m \<le> N"
proof (induction N rule: halves.induct)
  case (1 N)
  note step = halves_step [of N]
  show ?case
  proof (cases "a < N div 2")
    case True
    then obtain m where "filter (\<lambda>m. a < m) (halves (N div 2)) \<noteq> []" "last (filter (\<lambda>m. a < m) (halves (N div 2))) = m"
      "a < m" "m \<le> 2 * a + 1" "m \<le> N div 2"
      using 1(1) 1(2) by auto
    then show ?thesis using step 1(2) by (auto intro: order_trans [OF _ div_le_dividend])
  next
    case False
    then have "filter (\<lambda>m. a < m) (halves (N div 2)) = []" by (auto simp: filter_empty_conv dest!: halves_bound)
    then show ?thesis using step 1(2) False by auto
  qed
qed

lemma last_common_position:
  assumes "1 \<le> c"
  obtains p where "filter (\<lambda>p. p \<le> c) (positions (c + a)) \<noteq> []" and "last (filter (\<lambda>p. p \<le> c) (positions (c + a))) = p"
    and "1 \<le> p" and "p \<le> c" and "c \<le> p + a"
proof -
  let ?N = "c + a"
  obtain m where m: "filter (\<lambda>m. a < m) (halves ?N) \<noteq> []" "last (filter (\<lambda>m. a < m) (halves ?N)) = m" "a < m" "m \<le> 2 * a + 1" "m \<le> ?N"
    using last_half_above [of a ?N] assms by auto
  have "?N + 1 - k \<le> c \<longleftrightarrow> a < k" if "k \<in> set (halves ?N)" for k using halves_bound [OF that] by auto
  then have "filter (\<lambda>p. p \<le> c) (positions ?N) = map (\<lambda>m. ?N + 1 - m) (filter (\<lambda>m. a < m) (halves ?N))"
    by (simp add: positions_def filter_map o_def cong: filter_cong)
  then show ?thesis using that [of "?N + 1 - m"] m by (simp add: last_map)
qed

lemma last_seen_common:
  assumes "\<And>p. p \<in> set ps \<Longrightarrow> p \<le> c \<Longrightarrow> get_block_num n (f p) = Inr (of_nat p) \<and> is_included_block (forks n) (f p)"
    and "\<And>p. p \<in> set ps \<Longrightarrow> \<not> p \<le> c \<Longrightarrow> f p \<noteq> 0 \<and> \<not> is_included_block (forks n) (f p)"
  shows "last_seen_block n (rev (map f ps)) =
    Inr (if filter (\<lambda>p. p \<le> c) ps = [] then 1 else of_nat (last (filter (\<lambda>p. p \<le> c) ps)))"
  using assms
proof (induction ps rule: rev_induct)
  case (snoc p ps)
  have skip: "last_seen_block n (i # is) = last_seen_block n is" if "i \<noteq> 0" "\<not> is_included_block (forks n) i" for i "is"
    using that by (auto simp: get_block_num_def fetch_def split: option.split)
  show ?case
  proof (cases "p \<le> c")
    case True
    with snoc.prems(1) [of p] show ?thesis by simp
  next
    case False
    with snoc.prems(2) [of p] have "last_seen_block n (rev (map f (ps @ [p]))) = last_seen_block n (rev (map f ps))"
      by (simp add: skip del: last_seen_block.simps)
    also have "\<dots> = Inr (if filter (\<lambda>p. p \<le> c) ps = [] then 1 else of_nat (last (filter (\<lambda>p. p \<le> c) ps)))"
      using snoc.prems by (intro snoc.IH) auto
    finally show ?thesis using False by simp
  qed
qed simp

lemma block_ids_from_chain:
  assumes "shows_chain X n ids" and "1 \<le> p" and "p - 1 + k \<le> length ids"
  shows "block_ids_from n (of_nat p) k = Inr (take k (drop (p - 1) ids))"
  using assms(2,3)
proof (induction k arbitrary: p)
  case (Suc k)
  have "block_ids_from n (of_nat (p + 1)) k = Inr (take k (drop p ids))" using Suc.IH [of "p + 1"] Suc.prems by simp
  moreover have "get_block_id n (of_nat p) = Inr (ids ! (p - 1))" using shows_chainD(1) [OF assms(1)] Suc.prems by simp
  moreover have "drop (p - 1) ids = ids ! (p - 1) # drop p ids" using Suc.prems by (simp add: Cons_nth_drop_Suc [symmetric])
  ultimately show ?case by (simp add: add.commute)
qed simp

lemma get_item_ids_from:
  assumes b: "shows_chain X n ids" and "length s \<le> synopsis_size_limit" and seen: "last_seen_block n (rev s) = Inr (of_nat p)"
    and p: "1 \<le> p" "p \<le> length ids"
  shows "get_item_ids n s limit = Inr (take (unat limit) (drop (p - 1) ids), of_nat (length ids + 1 - p - unat limit))"
proof -
  let ?H = "length ids" and ?r = "length ids + 1 - p"
  have H: "?H + 1 < 2 ^ 32" "head_block_num (ledger_db n) = of_nat ?H" using b by (simp_all add: shows_chain_def)
  have u: "unat (of_nat k :: 32 word) = k" if "k \<le> ?H + 1" for k using H(1) that by (simp only: unat_of_nat) simp
  have nz: "(of_nat ?H :: 32 word) \<noteq> 0" using u [of ?H] p by (metis le_add1 not_one_le_zero order_trans unat_0)
  have le: "\<not> (of_nat ?H :: 32 word) < of_nat p" using H(1) p by (simp add: not_less of_nat_le32)
  have r: "(of_nat ?H :: 32 word) - of_nat p + 1 = of_nat ?r" using p by (simp add: of_nat_diff)
  have m: "unat (min limit (of_nat ?r)) = min (unat limit) ?r"
    using u [of ?r] by (simp add: min_def word_le_nat_alt)
  have rest: "of_nat ?r - min limit (of_nat ?r) = (of_nat (?r - unat limit) :: 32 word)"
  proof (cases "limit \<le> of_nat ?r")
    case True
    then have "unat limit \<le> ?r" using u [of ?r] by (simp add: word_le_nat_alt)
    then have "(of_nat (?r - unat limit) :: 32 word) = of_nat ?r - of_nat (unat limit)" by (rule of_nat_diff)
    then show ?thesis using True by (simp add: min_def)
  next
    case False
    then have "?r - unat limit = 0" using u [of ?r] by (simp add: word_le_nat_alt)
    then show ?thesis using False by (simp add: min_def)
  qed
  have "block_ids_from n (of_nat p) (min (unat limit) ?r) = Inr (take (min (unat limit) ?r) (drop (p - 1) ids))"
    using p by (intro block_ids_from_chain [OF b]) auto
  moreover have "take (min (unat limit) ?r) (drop (p - 1) ids) = take (unat limit) (drop (p - 1) ids)"
    using p by (auto simp: min_def)
  ultimately have ids: "block_ids_from n (of_nat p) (min (unat limit) ?r) = Inr (take (unat limit) (drop (p - 1) ids))" by simp
  have "get_item_ids n s limit = (let r = of_nat ?H - of_nat p + 1 in case block_ids_from n (of_nat p) (unat (min limit r)) of
      Inr ids \<Rightarrow> Inr (ids, r - min limit r) | Inl e \<Rightarrow> if e = key_not_found then Inr ([], 0) else Inl e)"
    using assms(2) seen nz le by (simp add: get_item_ids_def H(2) Let_def)
  then show ?thesis unfolding Let_def r m rest ids by simp
qed

lemma exchange:
  assumes a: "shows_chain X a (cs @ as)" and b: "shows_chain X b (cs @ bs)" and apart: "set as \<inter> set (cs @ bs) = {}"
    and "length (cs @ as) < 2 ^ 25" and "bs \<noteq> []"
  obtains p where "get_item_ids b (synopsis_of (cs @ as)) limit =
      Inr (take (unat limit) (drop p (cs @ bs)), of_nat (length (cs @ bs) - p - unat limit))"
    and "p \<le> length cs - 1" and "length cs \<le> p + 1 + length as"
proof -
  let ?c = "length cs" and ?f = "\<lambda>p. (cs @ as) ! (p - 1)" and ?ps = "positions (length (cs @ as))"
  have len: "length (synopsis_of (cs @ as)) \<le> synopsis_size_limit"
    using assms(4) by (simp add: length_synopsis size_limit bit_length_le)
  have seen: "last_seen_block b (rev (synopsis_of (cs @ as))) =
      Inr (if filter (\<lambda>p. p \<le> ?c) ?ps = [] then 1 else of_nat (last (filter (\<lambda>p. p \<le> ?c) ?ps)))"
    unfolding synopsis_of_def
  proof (rule last_seen_common)
    fix p assume "p \<in> set ?ps" and le: "p \<le> ?c"
    then have p: "1 \<le> p" "p \<le> length (cs @ bs)" using positions_bound [of p] by auto
    have "p - 1 < ?c" using p(1) le by linarith
    then have "?f p = (cs @ bs) ! (p - 1)" by (simp add: nth_append)
    then show "get_block_num b (?f p) = Inr (of_nat p) \<and> is_included_block (forks b) (?f p)"
      using shows_chainD(3,4) [OF b p] by simp
  next
    fix p assume "p \<in> set ?ps" and gt: "\<not> p \<le> ?c"
    then have "p - 1 - ?c < length as" "\<not> p - 1 < ?c" using positions_bound [of p "length (cs @ as)"] by auto
    then have "?f p \<in> set as" by (simp only: nth_append if_False nth_mem)
    then have "?f p \<in> set (cs @ as)" "?f p \<notin> set (cs @ bs)" using apart by auto
    then show "?f p \<noteq> 0 \<and> \<not> is_included_block (forks b) (?f p)"
      using a b unfolding shows_chain_def by metis
  qed
  show ?thesis
  proof (cases "cs = []")
    case True
    then have "filter (\<lambda>p. p \<le> ?c) ?ps = []" using positions_bound by (fastforce simp: filter_empty_conv)
    with seen have "last_seen_block b (rev (synopsis_of (cs @ as))) = Inr (of_nat 1)" by simp
    from get_item_ids_from [OF b len this] show ?thesis using that [of 0] True assms(5) by (cases bs) auto
  next
    case False
    then obtain p where p: "filter (\<lambda>p. p \<le> ?c) ?ps \<noteq> []" "last (filter (\<lambda>p. p \<le> ?c) ?ps) = p" "1 \<le> p" "p \<le> ?c" "?c \<le> p + length as"
      using last_common_position [of ?c "length as"] by (auto simp: Suc_le_eq)
    with seen have "last_seen_block b (rev (synopsis_of (cs @ as))) = Inr (of_nat p)" by simp
    from get_item_ids_from [OF b len this] show ?thesis using that [of "p - 1"] p by auto
  qed
qed

section \<open>Requests to a peer that has offered blocks\<close>

lemma sorted_positions: "sorted (positions N)"
proof -
  have "sorted_wrt (\<ge>) (halves m)" for m
  proof (induction m rule: halves.induct)
    case (1 m)
    then show ?case
      by (cases "m = 0") (auto simp: halves_step dest: halves_bound intro: order_trans [OF _ div_le_dividend])
  qed
  then show ?thesis unfolding positions_def sorted_map by (rule sorted_wrt_mono_rel [rotated]) auto
qed

lemma sorted_split: "sorted xs \<Longrightarrow> filter (\<lambda>p. p \<le> c) xs @ filter (\<lambda>p. \<not> p \<le> (c :: nat)) xs = xs"
proof (induction xs)
  case (Cons x xs)
  show ?case
  proof (cases "x \<le> c")
    case False
    then have "filter (\<lambda>p. p \<le> c) xs = []" using Cons.prems by (auto simp: filter_empty_conv)
    then show ?thesis using Cons False by simp
  qed (use Cons in simp)
qed simp

lemma pick_all_lists:
  assumes "\<And>p. p \<in> set ps \<Longrightarrow> pick (of_nat p) = Inr (f p)"
  shows "pick_all pick ps s = Inr (s @ concat (map f ps))"
  using assms by (induction ps arbitrary: s) simp_all

lemma concat_singles: "concat (map (\<lambda>p. if Q p then [f p] else []) ps) = map f (filter Q ps)"
  by (induction ps) simp_all

lemma synopsis_with_offers:
  assumes n: "shows_chain X n ids" and c: "1 \<le> c" "c \<le> length ids"
    and peer: "last_block_delegate_has_seen peer = ids ! (c - 1)" "last_block_number_delegate_has_seen peer = of_nat c"
    and fits: "c + length (ids_of_items_to_get peer) + 1 < 2 ^ 32" and some: "ids_of_items_to_get peer \<noteq> []"
  shows "create_blockchain_synopsis_for_peer X n peer = Some (Inr (synopsis_of (take c ids @ ids_of_items_to_get peer)))"
proof -
  let ?os = "ids_of_items_to_get peer" let ?N = "c + length ?os" and ?f = "\<lambda>p. (take c ids @ ?os) ! (p - 1)"
  have u: "unat (of_nat k :: 32 word) = k" if "k \<le> ?N" for k using fits that by (simp only: unat_of_nat) simp
  have nz: "(of_nat (length ?os) :: 32 word) \<noteq> 0" using u [of "length ?os"] some by (metis le_add2 length_0_conv unat_0)
  have ref: "ids ! (c - 1) \<noteq> 0" using n c by (metis One_nat_def Suc_le_eq Suc_pred le_simps(2) nth_mem shows_chain_def)
  note ref_block = shows_chainD(3,4) [OF n c]
  have N: "of_nat c + of_nat (length ?os) = (of_nat ?N :: 32 word)" by simp
  have own: "synopsis_block X n (of_nat c) [] (of_nat p) = Inr [?f p]" if "p \<in> set (filter (\<lambda>p. p \<le> c) (positions ?N))" for p
  proof -
    have p: "1 \<le> p" "p \<le> c" using that positions_bound [of p ?N] by auto
    then have "p - 1 < c" by linarith
    note p = p this
    have "(of_nat p :: 32 word) \<le> of_nat c" using p fits by (subst of_nat_le32) auto
    moreover have "?f p = ids ! (p - 1)" using p c by (simp add: nth_append)
    ultimately show ?thesis using shows_chainD(2) [OF n p(1)] p c by (simp add: synopsis_block_def)
  qed
  have "pick_all (synopsis_block X n (of_nat c) []) (filter (\<lambda>p. p \<le> c) (positions ?N)) [] =
      Inr ([] @ map ?f (filter (\<lambda>p. p \<le> c) (positions ?N)))" by (rule pick_all_singles) (rule own)
  then have "halving_loop (synopsis_block X n (of_nat c) []) (of_nat c) (of_nat ?N) 1 [] =
      Some (Inr (map ?f (filter (\<lambda>p. p \<le> c) (positions ?N))))"
    using halving_loop_positions [of c ?N "synopsis_block X n (of_nat c) []" "[]"] c fits by simp
  then have 1: "get_blockchain_synopsis X n (ids ! (c - 1)) (of_nat (length ?os)) =
      Some (Inr (map ?f (filter (\<lambda>p. p \<le> c) (positions ?N))))"
    using ref ref_block by (simp add: get_blockchain_synopsis_def synopsis_of_range_def)
  have offer: "offered_block peer (of_nat p) = Inr (if \<not> p \<le> c then [?f p] else [])" if "p \<in> set (positions ?N)" for p
  proof (cases "p \<le> c")
    case True
    then have "(of_nat p :: 32 word) \<le> of_nat c" using fits by (subst of_nat_le32) auto
    then show ?thesis using True by (simp add: offered_block_def peer not_less Let_def)
  next
    case False
    have p: "p \<le> ?N" using positions_bound [OF that] by simp
    have "\<not> (of_nat p :: 32 word) \<le> of_nat c" using False p fits by (subst of_nat_le32) auto
    moreover have "unat ((of_nat p :: 32 word) - of_nat c - 1) = p - c - 1"
    proof -
      have "(of_nat p :: 32 word) - of_nat c - 1 = of_nat (p - c - 1)" using False by (simp add: of_nat_diff)
      then show ?thesis using u [of "p - c - 1"] p by simp
    qed
    moreover have "p - c - 1 < length ?os" "?f p = ?os ! (p - c - 1)" using False p c by (auto simp: nth_append)
    ultimately show ?thesis using False by (simp add: offered_block_def peer Let_def)
  qed
  have all: "filter (\<lambda>p. p \<le> ?N) (positions ?N) = positions ?N" using positions_bound by (auto simp: filter_id_conv)
  have "pick_all (offered_block peer) (positions ?N) s = Inr (s @ concat (map (\<lambda>p. if \<not> p \<le> c then [?f p] else []) (positions ?N)))" for s
    by (rule pick_all_lists) (rule offer)
  then have "halving_loop (offered_block peer) (of_nat ?N) (of_nat ?N) 1 s = Some (Inr (s @ map ?f (filter (\<lambda>p. \<not> p \<le> c) (positions ?N))))" for s
    using halving_loop_positions [of ?N ?N "offered_block peer" s] c fits by (simp only: all concat_singles)
  moreover have "map ?f (filter (\<lambda>p. p \<le> c) (positions ?N)) @ map ?f (filter (\<lambda>p. \<not> p \<le> c) (positions ?N)) =
      synopsis_of (take c ids @ ?os)"
    using sorted_split [OF sorted_positions] c by (simp add: synopsis_of_def flip: map_append)
  ultimately show ?thesis
    using nz 1 by (simp add: create_blockchain_synopsis_for_peer_def Let_def peer flip: N)
qed

section \<open>The choice of blocks\<close>

lemma choose_items_ok:
  "\<exists>new. choose_items limit skip is chosen requests = requests @ new \<and> distinct new \<and> set new \<inter> set chosen = {} \<and>
     set new \<subseteq> {i \<in> set is. \<not> skip i}"
proof (induction limit skip "is" chosen requests rule: choose_items.induct)
  case (2 limit skip i "is" chosen requests)
  show ?case
  proof (cases "\<not> skip i \<and> i \<notin> set chosen")
    case True
    show ?thesis
    proof (cases "length (requests @ [i]) \<ge> limit")
      case False
      with 2(1) True obtain new where "choose_items limit skip is (chosen @ [i]) (requests @ [i]) = requests @ [i] @ new"
        "distinct new" "set new \<inter> set (chosen @ [i]) = {}" "set new \<subseteq> {i \<in> set is. \<not> skip i}" by auto
      with True False show ?thesis by (intro exI [of _ "i # new"]) auto
    qed (use True in \<open>auto intro!: exI [of _ "[i]"]\<close>)
  next
    case False
    with 2(2) show ?thesis by auto
  qed
qed simp

lemma schedule_ok:
  assumes "distinct chosen" and "concat requests = chosen"
    and "fold (schedule_peer limit skip) peers (chosen, requests) = (chosen', requests')"
  shows "distinct chosen' \<and> concat requests' = chosen' \<and> (\<exists>new. requests' = requests @ new \<and>
    list_all2 (\<lambda>peer r. set r \<subseteq> {i \<in> set (ids_of_items_to_get peer). \<not> skip i}) peers new)"
  using assms
proof (induction peers arbitrary: chosen requests)
  case (Cons peer peers)
  define r where "r = (if we_need_sync_items_from_peer peer \<and> idle peer \<and> \<not> inhibit_fetching_sync_blocks peer
    then choose_items limit skip (ids_of_items_to_get peer) chosen [] else [])"
  have r: "schedule_peer limit skip peer (chosen, requests) = (chosen @ r, requests @ [r])"
    by (simp add: schedule_peer_def Let_def r_def)
  have ok: "distinct (chosen @ r)" "set r \<subseteq> {i \<in> set (ids_of_items_to_get peer). \<not> skip i}"
    using choose_items_ok [of limit skip "ids_of_items_to_get peer" chosen "[]"] Cons.prems(1) by (auto simp: r_def)
  have "distinct chosen' \<and> concat requests' = chosen' \<and> (\<exists>new. requests' = (requests @ [r]) @ new \<and>
      list_all2 (\<lambda>peer r. set r \<subseteq> {i \<in> set (ids_of_items_to_get peer). \<not> skip i}) peers new)"
    using Cons.prems(2,3) r by (intro Cons.IH [OF ok(1)]) auto
  then obtain new where "distinct chosen'" "concat requests' = chosen'" "requests' = requests @ r # new"
    "list_all2 (\<lambda>peer r. set r \<subseteq> {i \<in> set (ids_of_items_to_get peer). \<not> skip i}) peers new" by auto
  then show ?case using ok(2) by (auto intro!: exI [of _ "r # new"])
qed simp

section \<open>A concrete chain\<close>

text \<open>The block with the number \<open>i\<close> has the id \<open>10 * i + 1\<close>.\<close>

definition nth_header :: "nat \<Rightarrow> block_header" where
  "nth_header i = sample_header \<lparr> previous := (if i = 1 then 0 else 10 * (i - 1) + 1), block_num := of_nat i, block_timestamp := 10 * i \<rparr>"

definition nth_block :: "nat \<Rightarrow> full_block" where
  "nth_block i = sample_block \<lparr> block_header := nth_header i \<rparr>"

definition nth_record :: "nat \<Rightarrow> block_record" where
  "nth_record i = \<lparr> record_header = nth_header i, record_signature = 22, record_transaction_ids = [], random_seed = 1,
     block_size = 0, latency = 0, processing_time = 0 \<rparr>"

definition chain_ids :: "nat \<Rightarrow> block_id_type list" where
  "chain_ids k = map (\<lambda>i. 10 * i + 1) [1..<Suc k]"

definition chain_node :: "nat \<Rightarrow> node" where
  "chain_node k = sample_node \<lparr>
     ledger_db := (ledger_db sample_node) \<lparr> head_block_num := of_nat k \<rparr>,
     block_num_to_id_db := map (\<lambda>i. (of_nat i, 10 * i + 1)) [1..<Suc k],
     forks := \<lparr> block_id_to_block_data_db = map (\<lambda>i. (10 * i + 1, nth_block i)) [1..<Suc k],
       block_id_to_block_record_db = map (\<lambda>i. (10 * i + 1, nth_record i)) [1..<Suc k], fork_number_db = [],
       fork_db = map (\<lambda>i. (10 * i + 1, new_fork_data \<lparr> is_known := True, is_linked := True, is_included := True \<rparr>)) [1..<Suc k] \<rparr> \<rparr>"

lemma map_of_inj: "inj_on f (set xs) \<Longrightarrow> x \<in> set xs \<Longrightarrow> map_of (map (\<lambda>x. (f x, g x)) xs) (f x) = Some (g x)"
  by (induction xs) (auto simp: inj_on_def)

lemma map_of_image: "map_of (map (\<lambda>x. (f x, v)) xs) i = (if i \<in> f ` set xs then Some v else None)"
  by (induction xs) auto

lemma chain_node_shows:
  assumes "k + 1 < 2 ^ 32"
  shows "shows_chain ext_std (chain_node k) (chain_ids k)"
proof -
  have inj: "inj_on (of_nat :: nat \<Rightarrow> 32 word) (set [1..<Suc k])"
    using assms by (auto simp: inj_on_def word_unat_eq_iff unat_of_nat)
  have inj10: "inj_on (\<lambda>i. 10 * i + 1 :: nat) (set [1..<Suc k])" by (auto simp: inj_on_def)
  have at: "chain_ids k ! j = 10 * Suc j + 1" if "j < k" for j using that by (simp add: chain_ids_def del: upt_Suc)
  have id: "block_id ext_std (nth_block i) = 10 * i + 1" for i
    by (simp add: block_id_def nth_block_def nth_header_def sample_block_def ext_std_def fc_lib.defs)
  have "map_of (block_num_to_id_db (chain_node k)) (of_nat (Suc j)) = Some (chain_ids k ! j) \<and>
      (\<exists>b. map_of (block_id_to_block_data_db (forks (chain_node k))) (chain_ids k ! j) = Some b \<and> block_id ext_std b = chain_ids k ! j) \<and>
      (\<exists>r. map_of (block_id_to_block_record_db (forks (chain_node k))) (chain_ids k ! j) = Some r \<and>
         block_num (record_header r) = of_nat (Suc j))" if "j < length (chain_ids k)" for j
  proof -
    have j: "j < k" "Suc j \<in> set [1..<Suc k]" using that by (auto simp: chain_ids_def simp del: upt_Suc)
    show ?thesis
      using map_of_inj [OF inj j(2), of "\<lambda>i. 10 * i + 1"] map_of_inj [OF inj10 j(2), of nth_block] map_of_inj [OF inj10 j(2), of nth_record]
      by (simp add: at [OF j(1)] chain_node_def id nth_record_def nth_header_def del: upt_Suc of_nat_Suc mult_Suc_right)
  qed
  moreover have "is_included_block (forks (chain_node k)) i \<longleftrightarrow> i \<in> set (chain_ids k)" for i
    by (auto simp: is_included_block_def chain_node_def map_of_image chain_ids_def simp del: upt_Suc)
  ultimately show ?thesis
    using assms by (auto simp: shows_chain_def chain_ids_def chain_node_def simp del: upt_Suc)
qed

lemma chain_ids_append: "j \<le> k \<Longrightarrow> chain_ids k = chain_ids j @ map (\<lambda>i. 10 * i + 1) [Suc j..<Suc k]"
  using upt_add_eq_append [of 1 "Suc j" "k - j"] by (simp add: chain_ids_def del: upt_Suc flip: map_append)

lemma length_chain_ids [simp]: "length (chain_ids k) = k"
  by (simp add: chain_ids_def del: upt_Suc)

section \<open>The chain grows and shrinks\<close>




text \<open>A node whose tables hold the whole chain, with the block that extends it.\<close>

definition full_node :: node where
  "full_node = sample_node \<lparr>
     block_num_to_id_db := [(1, 101), (2, 102), (3, 103), (4, 104), (5, 3)],
     forks := (forks sample_node) \<lparr>
       block_id_to_block_data_db := (1011, sample_block) #
         map (\<lambda>i. (i, sample_block \<lparr> block_header := sample_header \<lparr> block_timestamp := i - 1 \<rparr> \<rparr>)) [101, 102, 103, 104, 3],
       block_id_to_block_record_db := (1011, (nth_record 6) \<lparr> record_header := sample_header \<rparr>) #
         (3, (nth_record 5) \<lparr> record_header := sample_head \<rparr>) # map (\<lambda>k. (100 + k, nth_record k)) [1, 2, 3, 4],
       fork_db := (1011, new_fork_data \<lparr> is_linked := True, is_known := True \<rparr>) #
         map (\<lambda>i. (i, new_fork_data \<lparr> is_linked := True, is_known := True, is_included := True \<rparr>)) [101, 102, 103, 104, 3] \<rparr> \<rparr>"


lemma full_node_fields [simp]: "ledger_db full_node = ledger_db sample_node" "head_header full_node = sample_head" "head_signature full_node = 22"
  by (simp_all add: full_node_def sample_node_def)






definition sample_peer :: peer_connection where
  "sample_peer = new_connection \<lparr> connection_list := Active, ids_of_items_to_get := [41, 51], last_block_number_delegate_has_seen := 3,
     last_block_delegate_has_seen := 31, last_block_time_delegate_has_seen := 30 \<rparr>"

section \<open>One round of messages\<close>

lemma get_block_time_of_block: "i \<noteq> 0 \<Longrightarrow> \<exists>t. get_block_time n i = Inr t"
  by (auto simp: get_block_time_def split: sum.split)

lemma flush_seen_prefix:
  assumes "list_all (\<lambda>i. is_known_block (forks n) i \<and> i \<noteq> 0) ks" and "is = [] \<or> \<not> is_known_block (forks n) (hd is)"
  shows "\<exists>peer'. flush_seen_items n (ks @ is) peer = Some (Inr is, peer') \<and>
    last_block_delegate_has_seen peer' = (if ks = [] then last_block_delegate_has_seen peer else last ks) \<and>
    last_block_number_delegate_has_seen peer' = last_block_number_delegate_has_seen peer + of_nat (length ks) \<and>
    ids_of_items_to_get peer' = ids_of_items_to_get peer \<and>
    (if ks = [] then peer' = peer else get_block_time n (last ks) = Inr (last_block_time_delegate_has_seen peer'))"
  using assms(1)
proof (induction ks arbitrary: peer)
  case Nil
  then show ?case using assms(2) by (cases "is") auto
next
  case (Cons i ks)
  obtain t where t: "get_block_time n i = Inr t" using get_block_time_of_block Cons.prems by auto
  show ?case
    using Cons.IH [of "peer \<lparr> last_block_delegate_has_seen := i,
        last_block_number_delegate_has_seen := last_block_number_delegate_has_seen peer + 1, last_block_time_delegate_has_seen := t \<rparr>"]
      Cons.prems t by (cases "ks = []") (auto simp: algebra_simps)
qed

lemma start_sync_sends:
  assumes "shows_chain X n ids" and "get_block_time n 0 = Inr t"
  obtains peer' where "start_synchronizing_with_peer X n peer = Some (Inr (synopsis_of ids), peer')"
    and "ids_of_items_to_get peer' = []" and "item_ids_requested_from_peer peer' \<noteq> None"
    and "last_block_time_delegate_has_seen peer' = t" and "number_of_unfetched_item_ids peer' = 0"
  using synopsis_whole_chain [OF assms(1)] assms(2)
  by (simp add: start_synchronizing_with_peer_def reset_fork_tracking_def fetch_next_batch_of_item_ids_from_peer_def
      create_blockchain_synopsis_for_peer_def)

lemma fetch_is_answered:
  assumes "get_item_ids n synopsis 2000 = Inr (available, remaining)" and "shows_chain X n ids" and "get_block_time n 0 = Inr t"
  shows "\<exists>answer peer'. on_fetch_blockchain_item_ids_message X n synopsis peer = Some (Inr answer, peer') \<and>
    reply_message answer = \<lparr> total_remaining_item_count = remaining, item_hashes_available = available \<rparr>"
proof -
  obtain peer' where "start_synchronizing_with_peer X n (peer \<lparr> peer_needs_sync_items_from_us :=
      available \<noteq> [] \<and> \<not> answers_in_sync synopsis available \<rparr>) = Some (Inr (synopsis_of ids), peer')"
    by (rule start_sync_sends [OF assms(2,3)])
  then show ?thesis using assms(1) by (simp add: on_fetch_blockchain_item_ids_message_def Let_def)
qed

lemma first_item_apart:
  assumes "list_all (\<lambda>p. ids_of_items_to_get p = [] \<or> hd (ids_of_items_to_get p) \<notin> S) others" and "i \<in> S"
  shows "\<not> is_first_item_for_other_peer i others"
  using assms by (auto simp: is_first_item_for_other_peer_def list_all_iff list_ex_iff)

text \<open>The handler of the last answer, when the blocks \<open>ks\<close> are known and \<open>is\<close> are not.\<close>

lemma inventory_is_fetched:
  assumes "item_ids_requested_from_peer peer \<noteq> None" and "ids_of_items_to_get peer = []"
    and "list_all (\<lambda>i. is_known_block (forks n) i \<and> i \<noteq> 0) ks" and "is \<noteq> []" and "\<not> is_known_block (forks n) (hd is)"
    and "list_all (\<lambda>p. ids_of_items_to_get p = [] \<or> hd (ids_of_items_to_get p) \<notin> set ks) others"
    and "ks = [] \<Longrightarrow> last_block_time_delegate_has_seen peer = t" and "ks \<noteq> [] \<Longrightarrow> get_block_time n (last ks) = Inr t"
    and "t mod 2 ^ 32 \<le> (current_time + BTS_NET_FUTURE_SYNC_BLOCKS_GRACE_PERIOD_SEC) mod 2 ^ 32"
  shows "\<exists>r peer'. on_blockchain_item_ids_inventory_message X n current_time
      \<lparr> total_remaining_item_count = 0, item_hashes_available = ks @ is \<rparr> others total_unfetched peer = Some (Inr r, peer') \<and>
    next_step r = Fetch_items \<and> ids_of_items_to_get peer' = is"
proof -
  let ?peer = "peer \<lparr> item_ids_requested_from_peer := None, number_of_unfetched_item_ids := 0 \<rparr>"
  have "length (ks @ is) = 1 \<Longrightarrow> ks @ is = is" using assms(4) by (cases ks) (auto simp: neq_Nil_conv)
  then have old: "\<not> is_up_to_date n \<lparr> total_remaining_item_count = 0, item_hashes_available = ks @ is \<rparr> p" for p
    using assms(4,5) by (auto simp: is_up_to_date_def)
  have first: "ks = [] \<or> \<not> is_first_item_for_other_peer (hd (ks @ is)) others"
    using first_item_apart [OF assms(6)] by (cases ks) auto
  obtain p where p: "flush_seen_items n (ks @ is) ?peer = Some (Inr is, p)" "ids_of_items_to_get p = []"
    "if ks = [] then p = ?peer else get_block_time n (last ks) = Inr (last_block_time_delegate_has_seen p)"
    using flush_seen_prefix [OF assms(3), of "is" ?peer] assms(2,5) by auto
  have time: "last_block_time_delegate_has_seen p = t" using p(3) assms(7,8) by (auto split: if_split_asm)
  have "place_items n others (ks @ is) ?peer = Some (Inr is, p)"
    using p first assms(2,4) by (auto simp: place_items_def)
  then show ?thesis
    using time p(2) assms(1,2,4,9) old
    by (auto simp: on_blockchain_item_ids_inventory_message_def take_offer_def is_implausible_def continue_sync_def Let_def)
qed

section \<open>Properties\<close>



text \<open>
  C12. A node that is behind or on a fork learns what it misses: if it has the common blocks cs and then its own
  blocks as, fewer than 2^25 in all, sends the synopsis of its chain to a node with the blocks cs and then bs, and
  its own fork is shorter than the limit of an answer, then the answer is a consecutive part of the other chain that starts no later
  than the last common block and repeats no more common blocks than the fork is long, so it contains
  the first block of bs. The number of ids that are left is exact.
\<close>

theorem sync_makes_progress:
  assumes "shows_chain X a (cs @ as)" and "shows_chain X b (cs @ bs)" and "set as \<inter> set (cs @ bs) = {}"
    and "length (cs @ as) < 2 ^ 25" and "bs \<noteq> []" and "length as + 1 < unat limit"
  shows "\<exists>synopsis p ids. get_blockchain_synopsis X a 0 0 = Some (Inr synopsis) \<and>
    get_item_ids b synopsis limit = Inr (ids, of_nat (length (cs @ bs) - p - unat limit)) \<and>
    ids = take (unat limit) (drop p (cs @ bs)) \<and> p \<le> length cs - 1 \<and> length cs \<le> p + 1 + length as \<and> hd bs \<in> set ids"
proof -
  obtain p where p: "get_item_ids b (synopsis_of (cs @ as)) limit =
      Inr (take (unat limit) (drop p (cs @ bs)), of_nat (length (cs @ bs) - p - unat limit))"
    "p \<le> length cs - 1" "length cs \<le> p + 1 + length as"
    using assms(1-5) by (rule exchange)
  let ?ids = "take (unat limit) (drop p (cs @ bs))"
  have "length cs - p < length ?ids" using p(2,3) assms(5,6) by (cases bs) auto
  moreover have "?ids ! (length cs - p) = hd bs" using p(2,3) assms(5,6) by (simp add: nth_append hd_conv_nth)
  ultimately have "hd bs \<in> set ?ids" by (metis nth_mem)
  then show ?thesis using synopsis_whole_chain [OF assms(1)] p by blast
qed

theorem sync_makes_progress_witness:
  "\<exists>synopsis ids r. get_blockchain_synopsis ext_std (chain_node 3) 0 0 = Some (Inr synopsis) \<and>
     get_item_ids (chain_node 5) synopsis 2000 = Inr (ids, r) \<and> 41 \<in> set ids"
proof -
  have "shows_chain ext_std (chain_node 3) (chain_ids 3 @ [])" using chain_node_shows [of 3] by simp
  moreover have "shows_chain ext_std (chain_node 5) (chain_ids 3 @ [41, 51])"
    using chain_node_shows [of 5] chain_ids_append [of 3 5] by (simp add: upt_rec)
  ultimately show ?thesis
    using sync_makes_progress [of ext_std "chain_node 3" "chain_ids 3" "[]" "chain_node 5" "[41, 51]" 2000] by fastforce
qed

text \<open>
  C7. One round of messages tells a node all it misses: the node has the common blocks cs and then its own blocks as,
  the other one cs and then bs, and after the request, the answer and its handling the node has exactly bs
  on its list, in order, and fetches them next. The hypotheses are: its chain has fewer than 2^25 blocks; bs is
  not empty and, with the blocks of the own fork and one more, not longer than the 2000 ids of an answer; it knows the
  common blocks and not the first block of bs; the list of no other active connection begins with a common block
  (other connections may offer bs as well); both nodes have the base asset, whose registration is the time of the genesis
  block; and the last common block is not later than the clock and an hour.
\<close>

theorem missing_blocks_are_fetched:
  assumes "shows_chain X a (cs @ as)" and "shows_chain X b (cs @ bs)" and "set as \<inter> set (cs @ bs) = {}"
    and "length (cs @ as) < 2 ^ 25" and "bs \<noteq> []" and "length as + 1 + length bs \<le> 2000"
    and "list_all (is_known_block (forks a)) cs" and "\<not> is_known_block (forks a) (hd bs)"
    and "get_block_time a 0 = Inr ta" and "get_block_time b 0 = Inr tb"
    and "list_all (\<lambda>p. ids_of_items_to_get p = [] \<or> hd (ids_of_items_to_get p) \<notin> set cs) others"
    and "get_block_time a (if cs = [] then 0 else last cs) = Inr t"
    and "t mod 2 ^ 32 \<le> (current_time + BTS_NET_FUTURE_SYNC_BLOCKS_GRACE_PERIOD_SEC) mod 2 ^ 32"
  shows "\<exists>synopsis peer1 answer peer2 r peer3.
    start_synchronizing_with_peer X a peer = Some (Inr synopsis, peer1) \<and>
    on_fetch_blockchain_item_ids_message X b synopsis other_peer = Some (Inr answer, peer2) \<and>
    on_blockchain_item_ids_inventory_message X a current_time (reply_message answer) others total_unfetched peer1 = Some (Inr r, peer3) \<and>
    next_step r = Fetch_items \<and> ids_of_items_to_get peer3 = bs"
proof -
  obtain p where p: "get_item_ids b (synopsis_of (cs @ as)) 2000 =
      Inr (take (unat (2000 :: 32 word)) (drop p (cs @ bs)), of_nat (length (cs @ bs) - p - unat (2000 :: 32 word)))"
    "p \<le> length cs - 1" "length cs \<le> p + 1 + length as"
    using assms(1-5) by (rule exchange)
  have "length (drop p (cs @ bs)) \<le> 2000" using p(2,3) assms(6) by simp
  then have ids: "get_item_ids b (synopsis_of (cs @ as)) 2000 = Inr (drop p cs @ bs, 0)"
    using p(1,2) by simp
  obtain peer1 where peer1: "start_synchronizing_with_peer X a peer = Some (Inr (synopsis_of (cs @ as)), peer1)"
    "ids_of_items_to_get peer1 = []" "item_ids_requested_from_peer peer1 \<noteq> None" "last_block_time_delegate_has_seen peer1 = ta"
    by (rule start_sync_sends [OF assms(1,9)])
  obtain answer peer2 where answer: "on_fetch_blockchain_item_ids_message X b (synopsis_of (cs @ as)) other_peer = Some (Inr answer, peer2)"
    "reply_message answer = \<lparr> total_remaining_item_count = 0, item_hashes_available = drop p cs @ bs \<rparr>"
    using fetch_is_answered [OF ids assms(2,10)] by blast
  have "\<exists>r peer3. on_blockchain_item_ids_inventory_message X a current_time
      \<lparr> total_remaining_item_count = 0, item_hashes_available = drop p cs @ bs \<rparr> others total_unfetched peer1 = Some (Inr r, peer3) \<and>
    next_step r = Fetch_items \<and> ids_of_items_to_get peer3 = bs"
  proof (rule inventory_is_fetched [OF peer1(3,2) _ assms(5,8), where t = t])
    show "list_all (\<lambda>i. is_known_block (forks a) i \<and> i \<noteq> 0) (drop p cs)"
      using assms(7) shows_chain_nonzero [OF assms(1)] by (auto simp: list_all_iff dest: in_set_dropD)
    show "list_all (\<lambda>q. ids_of_items_to_get q = [] \<or> hd (ids_of_items_to_get q) \<notin> set (drop p cs)) others"
      using assms(11) by (auto simp: list_all_iff dest: in_set_dropD)
    show "last_block_time_delegate_has_seen peer1 = t" if "drop p cs = []"
      using that p(2) peer1(4) assms(9,12) by (cases cs) auto
    show "get_block_time a (last (drop p cs)) = Inr t" if "drop p cs \<noteq> []"
      using that assms(12) by (cases cs) (simp_all add: last_drop)
    show "t mod 2 ^ 32 \<le> (current_time + BTS_NET_FUTURE_SYNC_BLOCKS_GRACE_PERIOD_SEC) mod 2 ^ 32" by (rule assms(13))
  qed
  then show ?thesis using peer1(1) answer by metis
qed

theorem missing_blocks_are_fetched_witness:
  "\<exists>synopsis peer1 answer peer2 r peer3.
    start_synchronizing_with_peer ext_std (chain_node 3) sample_peer = Some (Inr synopsis, peer1) \<and>
    on_fetch_blockchain_item_ids_message ext_std (chain_node 5) synopsis sample_peer = Some (Inr answer, peer2) \<and>
    on_blockchain_item_ids_inventory_message ext_std (chain_node 3) 1000 (reply_message answer) [sample_peer] 0 peer1 = Some (Inr r, peer3) \<and>
    next_step r = Fetch_items \<and> ids_of_items_to_get peer3 = [41, 51]"
proof -
  have ids: "chain_ids 3 = [11, 21, 31]" by (simp add: chain_ids_def upt_rec)
  have "shows_chain ext_std (chain_node 3) ([11, 21, 31] @ [])" using chain_node_shows [of 3] by (simp add: ids)
  moreover have "shows_chain ext_std (chain_node 5) ([11, 21, 31] @ [41, 51])"
    using chain_node_shows [of 5] chain_ids_append [of 3 5] by (simp add: upt_rec ids)
  ultimately show ?thesis
    by (rule missing_blocks_are_fetched [where ta = 0 and tb = 0 and t = 30]) (code_simp+)
qed

text \<open>
  C30. The two halving loops fit together as long as the connection counts right: for a peer that has offered ids,
  when the number it records for the last common block is the number of that block in the chain, the part of the
  synopsis the client computes and the part the network code adds from the offered ids are together the synopsis
  of the chain up to the last common block followed by the offered blocks. The code sets the right number when an
  answer continues at a block of the chain (join_items); after a restart it counts the blocks of an answer from
  zero (flush_seen_items, see last_seen_number_is_miscounted), and then the number is right only if the answer
  began with the first block.
\<close>

theorem peer_synopsis_covers_offers:
  assumes "shows_chain X n ids" and "1 \<le> c" "c \<le> length ids"
    and "last_block_delegate_has_seen peer = ids ! (c - 1)" "last_block_number_delegate_has_seen peer = of_nat c"
    and "c + length (ids_of_items_to_get peer) + 1 < 2 ^ 32" and "ids_of_items_to_get peer \<noteq> []"
  shows "create_blockchain_synopsis_for_peer X n peer = Some (Inr (synopsis_of (take c ids @ ids_of_items_to_get peer)))"
  using assms by (rule synopsis_with_offers)

theorem peer_synopsis_covers_offers_witness:
  "create_blockchain_synopsis_for_peer ext_std (chain_node 3) sample_peer = Some (Inr [11, 41, 51])"
proof -
  have ids: "chain_ids 3 = [11, 21, 31]" by (simp add: chain_ids_def upt_rec)
  have "synopsis_of [11, 21, 31, 41, 51] = [11, 41, 51]" by code_simp
  then show ?thesis
    using peer_synopsis_covers_offers [OF chain_node_shows, of 3 3 sample_peer] by (simp add: sample_peer_def ids)
qed

text \<open>
  C40. The limit on the length of a synopsis is too small for the time it is meant for: it is computed from
  the number of blocks of twenty years, but the honest synopsis of a chain is refused as soon as the
  chain has 2 ^ 25 blocks, which takes less than eleven years, and accepted before.
\<close>

theorem long_chains_cannot_sync:
  assumes "shows_chain X a ids"
  shows "\<exists>synopsis. get_blockchain_synopsis X a 0 0 = Some (Inr synopsis) \<and>
    (isl (get_item_ids b synopsis limit) \<longleftrightarrow> 2 ^ 25 \<le> length ids) \<and> 2 ^ 25 < BTS_BLOCKCHAIN_BLOCKS_PER_YEAR * 11"
proof -
  have errs: "get_block_num n i = Inl e \<Longrightarrow> e = key_not_found" for n i e
    by (auto simp: get_block_num_def fetch_def split: if_split_asm option.split_asm)
  have seen: "\<exists>num. last_seen_block b s = Inr num" for s
    by (induction s) (auto split: sum.split dest: errs)
  have from_errs: "block_ids_from b num k = Inl e \<Longrightarrow> e = key_not_found" for num k e
    by (induction k arbitrary: num e) (auto simp: get_block_id_def fetch_def bindE_def split: sum.split_asm option.split_asm)
  obtain num where "last_seen_block b (rev (synopsis_of ids)) = Inr num" using seen by blast
  then have "isl (get_item_ids b (synopsis_of ids) limit) \<longleftrightarrow> synopsis_size_limit < length (synopsis_of ids)"
    by (auto simp: get_item_ids_def Let_def split: sum.split dest: from_errs)
  also have "\<dots> \<longleftrightarrow> 2 ^ 25 \<le> length ids"
    using bit_length_le [of "length ids" 25] by (auto simp: size_limit length_synopsis)
  finally show ?thesis
    using synopsis_whole_chain [OF assms]
    by (simp add: BTS_BLOCKCHAIN_BLOCKS_PER_YEAR_def BTS_BLOCKCHAIN_BLOCKS_PER_DAY_def
        BTS_BLOCKCHAIN_BLOCKS_PER_HOUR_def BTS_BLOCKCHAIN_BLOCK_INTERVAL_SEC_def)
qed

theorem long_chains_cannot_sync_witness:
  "\<exists>synopsis. get_blockchain_synopsis ext_std (chain_node (2 ^ 25)) 0 0 = Some (Inr synopsis) \<and>
     isl (get_item_ids (chain_node 3) synopsis 2000)"
proof -
  have "shows_chain ext_std (chain_node (2 ^ 25)) (chain_ids (2 ^ 25))" by (rule chain_node_shows) simp
  from long_chains_cannot_sync [OF this, of "chain_node 3" 2000] show ?thesis by auto
qed

text \<open>
  No block is asked for twice: among the requests for all connections no id occurs twice, every
  connection is asked only for blocks it has offered, and no block that has arrived or has been asked
  for before is asked for again.
\<close>

theorem sync_requests_are_disjoint:
  "distinct (concat (schedule_sync_requests limit skip peers)) \<and>
   list_all2 (\<lambda>peer r. set r \<subseteq> {i \<in> set (ids_of_items_to_get peer). \<not> skip i}) peers (schedule_sync_requests limit skip peers)"
proof -
  obtain chosen requests where e: "fold (schedule_peer limit skip) peers ([], []) = (chosen, requests)" by (metis surj_pair)
  from schedule_ok [OF _ _ e] show ?thesis by (simp add: schedule_sync_requests_def e)
qed

text \<open>
  The number of the last block that a peer and the client both have is miscounted: after a new request, dropping the
  known blocks of an answer counts them from one, although the answer starts at a common block, so unless that
  is the first block of the chain the recorded number is too small.
\<close>

theorem last_seen_number_is_miscounted:
  assumes "shows_chain X n ids" and "p + k \<le> length ids" and "0 < k" and "0 < p"
    and "\<forall>i \<in> set ids. is_known_block (forks n) i" and "last_block_number_delegate_has_seen peer = 0"
  shows "\<exists>peer'. flush_seen_items n (take k (drop p ids)) peer = Some (Inr [], peer') \<and>
    last_block_delegate_has_seen peer' = ids ! (p + k - 1) \<and>
    get_block_num n (last_block_delegate_has_seen peer') = Inr (of_nat (p + k)) \<and>
    last_block_number_delegate_has_seen peer' = of_nat k \<and> last_block_number_delegate_has_seen peer' \<noteq> of_nat (p + k)"
proof -
  let ?ks = "take k (drop p ids)"
  have "list_all (\<lambda>i. is_known_block (forks n) i \<and> i \<noteq> 0) ?ks"
    using assms(5) shows_chain_nonzero [OF assms(1)] by (auto simp: list_all_iff dest!: in_set_takeD in_set_dropD)
  from flush_seen_prefix [OF this, of "[]" peer] obtain peer' where peer': "flush_seen_items n ?ks peer = Some (Inr [], peer')"
    "last_block_delegate_has_seen peer' = last ?ks" "last_block_number_delegate_has_seen peer' = of_nat k"
    using assms(2,3,6) by (auto split: if_split_asm)
  have "length ?ks = k" using assms(2) by simp
  then have "last ?ks = ?ks ! (k - 1)" using assms(3) by (metis last_conv_nth length_greater_0_conv)
  then have last: "last ?ks = ids ! (p + k - 1)" using assms(2,3) by simp
  have num: "get_block_num n (ids ! (p + k - 1)) = Inr (of_nat (p + k))" using shows_chainD(3) [OF assms(1)] assms(2,3) by simp
  have "length ids + 1 < 2 ^ 32" using assms(1) by (simp add: shows_chain_def)
  then have "unat (of_nat k :: 32 word) \<noteq> unat (of_nat (p + k) :: 32 word)"
    using assms(2,4) by (simp only: unat_of_nat) simp
  then show ?thesis using peer' last num by auto
qed

theorem last_seen_number_is_miscounted_witness:
  "\<exists>peer'. flush_seen_items (chain_node 5) [41, 51] (sample_peer \<lparr> last_block_number_delegate_has_seen := 0 \<rparr>) = Some (Inr [], peer') \<and>
     last_block_number_delegate_has_seen peer' = 2 \<and> get_block_num (chain_node 5) (last_block_delegate_has_seen peer') = Inr 5"
proof -
  have ids: "chain_ids 5 = [11, 21, 31, 41, 51]" by (simp add: chain_ids_def upt_rec)
  have "\<forall>i \<in> set (chain_ids 5). is_known_block (forks (chain_node 5)) i"
    by (auto simp: chain_ids_def is_known_block_def chain_node_def map_of_image simp del: upt_Suc)
  from last_seen_number_is_miscounted [OF chain_node_shows _ _ _ this, of 3 2 "sample_peer \<lparr> last_block_number_delegate_has_seen := 0 \<rparr>"]
  show ?thesis by (auto simp: ids simp del: flush_seen_items.simps)
qed

end
