(* ===== verification/Net_Laws.thy ===== *)
theory Net_Laws
  imports Net_Node Sync_Laws Block_Laws
begin

text \<open>
  What the fetching of blocks promises: in every state a node can reach, a block is requested from at most one
  connection at a time, and what is requested is recorded. A block whose request a peer declines stays
  recorded as requested although no connection has the request, and is not requested again.
\<close>

section \<open>Handlers that leave the requests for blocks alone\<close>

definition requests :: "p2p_node \<Rightarrow> (peer_id \<times> block_id_type list) list" where
  "requests n = map (\<lambda>(c, p). (c, sync_items_requested_from_peer p)) (connections n)"

definition same_requests :: "p2p_node \<Rightarrow> p2p_node \<Rightarrow> bool" where
  "same_requests n n' \<longleftrightarrow>
     (distinct (map fst (requests n)) \<longrightarrow> requests n' = requests n \<and> active_sync_requests n' = active_sync_requests n)"

definition same_asked :: "peer_connection \<Rightarrow> peer_connection \<Rightarrow> bool" where
  "same_asked p p' \<longleftrightarrow> sync_items_requested_from_peer p' = sync_items_requested_from_peer p"

lemma same_requests_order [simp, intro]: "reflp same_requests" "transp same_requests"
  by (auto simp: same_requests_def reflp_def transp_def)

lemma same_asked_order [simp, intro]: "reflp same_asked" "transp same_asked"
  by (auto simp: same_asked_def reflp_def transp_def)

lemma same_requests_trans: "same_requests a b \<Longrightarrow> same_requests b c \<Longrightarrow> same_requests a c"
  by (auto simp: same_requests_def)

lemma same_requests_refl [simp]: "same_requests n n"
  by (simp add: same_requests_def)

lemma requests_update_peer [simp]:
  "(\<And>p. sync_items_requested_from_peer (f p) = sync_items_requested_from_peer p) \<Longrightarrow> requests (update_peer c f n) = requests n"
  "(\<And>p. sync_items_requested_from_peer (g p) = sync_items_requested_from_peer p) \<Longrightarrow> requests (update_active g n) = requests n"
  by (auto simp: requests_def update_peer_def update_active_def)

lemma active_sync_requests_frame [simp]:
  "active_sync_requests (update_peer c f n) = active_sync_requests n"
  "active_sync_requests (update_active f n) = active_sync_requests n"
  "active_sync_requests (send_message c m n) = active_sync_requests n"
  "active_sync_requests (push_recent_block i n) = active_sync_requests n"
  "active_sync_requests (add_item_to_fetch j n) = active_sync_requests n"
  by (simp_all add: update_peer_def update_active_def send_message_def push_recent_block_def add_item_to_fetch_def Let_def)

lemma requests_frame [simp]:
  "requests (send_message c m n) = requests n" "requests (push_recent_block i n) = requests n"
  "requests (add_item_to_fetch j n) = requests n"
  by (simp_all add: requests_def send_message_def push_recent_block_def add_item_to_fetch_def Let_def)

lemma requests_fields [simp]:
  "requests (n \<lparr> delegate := d \<rparr>) = requests n" "requests (n \<lparr> active_sync_requests := a \<rparr>) = requests n"
  "requests (n \<lparr> new_received_sync_items := ms \<rparr>) = requests n" "requests (n \<lparr> received_sync_items := ms \<rparr>) = requests n"
  "requests (n \<lparr> handle_message_calls_in_progress := ms \<rparr>) = requests n" "requests (n \<lparr> suspend_fetching_sync_blocks := b \<rparr>) = requests n"
  "requests (n \<lparr> items_to_fetch := xs \<rparr>) = requests n" "requests (n \<lparr> new_inventory := ys \<rparr>) = requests n"
  "requests (n \<lparr> total_number_of_unfetched_items := k \<rparr>) = requests n" "requests (n \<lparr> message_cache := mc \<rparr>) = requests n"
  "requests (n \<lparr> outbox := zs \<rparr>) = requests n"
  by (simp_all add: requests_def)

lemma fold_same_requests: "(\<And>x n. same_requests n (f x n)) \<Longrightarrow> same_requests n (fold f xs n)"
  by (induction xs arbitrary: n) (auto intro: same_requests_trans)

lemma disconnect_same_requests: "same_requests n (disconnect_from_peer c reason n)"
  by (simp add: same_requests_def disconnect_from_peer_def move_peer_to_closing_list_def Let_def split: option.split)

lemma disconnect_peers_same_requests: "same_requests n (disconnect_peers cs reason n)"
  unfolding disconnect_peers_def by (intro fold_same_requests disconnect_same_requests)

lemma on_peer_same_requests:
  assumes "preserves same_asked m"
  shows "preserves same_requests (on_peer c m)"
  unfolding preserves_def same_requests_def
proof (intro allI impI)
  fix n r n'
  assume run: "on_peer c m n = Some (r, n')" and "distinct (map fst (requests n))"
  then have distinct: "distinct (map fst (connections n))" by (simp add: requests_def comp_def case_prod_beta)
  consider "n' = n" | p p' where "get_peer n c = Some p" "m p = Some (r, p')" "n' = update_peer c (\<lambda>_. p') n"
    using run by (auto simp: on_peer_def split: option.split_asm)
  then show "requests n' = requests n \<and> active_sync_requests n' = active_sync_requests n"
  proof cases
    case 2
    have "same_asked p p'" using assms 2(2) by (rule preservesD)
    moreover have "q = p" if "(c, q) \<in> set (connections n)" for q
      using 2(1) distinct that by (simp add: get_peer_def)
    ultimately show ?thesis by (auto simp: 2(3) requests_def update_peer_def same_asked_def)
  qed simp
qed

section \<open>Handlers of one connection\<close>

lemma reset_fork_tracking_asked: "preserves same_asked (reset_fork_tracking n)"
  unfolding reset_fork_tracking_def by (intro preserves_rules same_asked_order) (simp_all add: same_asked_def)

lemma fetch_next_batch_asked: "preserves same_asked (fetch_next_batch_of_item_ids_from_peer X n b)"
  unfolding fetch_next_batch_of_item_ids_from_peer_def
  by (intro preserves_rules same_asked_order reset_fork_tracking_asked) (simp_all add: same_asked_def)

lemma start_synchronizing_asked: "preserves same_asked (start_synchronizing_with_peer X n)"
  unfolding start_synchronizing_with_peer_def
  by (intro preserves_rules same_asked_order reset_fork_tracking_asked fetch_next_batch_asked) (simp_all add: same_asked_def)

lemma on_fetch_ids_asked: "preserves same_asked (on_fetch_blockchain_item_ids_message X n synopsis)"
proof (rule preservesI)
  fix p r p'
  assume "on_fetch_blockchain_item_ids_message X n synopsis p = Some (r, p')"
  then show "same_asked p p'"
    unfolding on_fetch_blockchain_item_ids_message_def Let_def
    by (rule preservesD [rotated])
      (intro preserves_rules same_asked_order start_synchronizing_asked, simp_all add: same_asked_def)
qed

lemma flush_seen_items_asked: "preserves same_asked (flush_seen_items n is)"
  by (induction "is") (simp_all only: flush_seen_items.simps, (intro preserves_rules same_asked_order | assumption | simp add: same_asked_def)+)

lemma join_items_asked: "preserves same_asked (join_items n is)"
proof (rule preservesI)
  fix p r p'
  assume run: "join_items n is p = Some (r, p')"
  show "same_asked p p'"
  proof (cases "pop_until_first (hd is) (ids_of_items_to_get p) = []")
    case True
    from run [unfolded join_items_def Let_def if_P [OF True]] show ?thesis
      by (rule preservesD [rotated]) (intro preserves_rules same_asked_order, simp_all add: same_asked_def)
  next
    case False
    from run [unfolded join_items_def Let_def if_not_P [OF False]] show ?thesis
      by (rule preservesD [rotated]) (intro preserves_rules same_asked_order, simp_all add: same_asked_def)
  qed
qed

lemma place_items_asked: "preserves same_asked (place_items n others is)"
  unfolding preserves_def place_items_def
  using preservesD [OF flush_seen_items_asked] preservesD [OF join_items_asked] by (auto simp: same_asked_def split: if_split_asm)

lemma continue_sync_asked: "preserves same_asked (continue_sync X n m others k)"
proof (rule preservesI)
  fix p r p'
  assume "continue_sync X n m others k p = Some (r, p')"
  then show "same_asked p p'"
    unfolding continue_sync_def Let_def
    by (rule preservesD [rotated]) (intro preserves_rules same_asked_order fetch_next_batch_asked)
qed

lemma take_offer_asked: "preserves same_asked (take_offer X n t m others k)"
  unfolding take_offer_def
proof (intro preserves_rules same_asked_order place_items_asked)
  show "preserves same_asked (\<lambda>p. if is_implausible t p then returnA v p else continue_sync X n m others k p)" for v
    using preservesD [OF continue_sync_asked] by (auto simp: preserves_def same_asked_def)
qed (simp_all add: same_asked_def)

lemma on_ids_inventory_asked: "preserves same_asked (on_blockchain_item_ids_inventory_message X n t m others k)"
proof (rule preservesI)
  fix p r p'
  assume "on_blockchain_item_ids_inventory_message X n t m others k p = Some (r, p')"
  moreover have "same_asked (p \<lparr> item_ids_requested_from_peer := None \<rparr>) p'"
    if "take_offer X n t m others k (p \<lparr> item_ids_requested_from_peer := None \<rparr>) = Some (r, p')"
    using that by (rule preservesD [OF take_offer_asked])
  ultimately show "same_asked p p'"
    by (auto simp: on_blockchain_item_ids_inventory_message_def Let_def same_asked_def split: if_split_asm)
qed

lemma note_block_sent_asked: "preserves same_asked (note_block_sent n m)"
  unfolding note_block_sent_def
  by (cases m) (simp_all only: message.case, (intro preserves_rules same_asked_order | simp add: same_asked_def)+)

section \<open>Handlers of the node\<close>

lemma asked_fields [simp]:
  "sync_items_requested_from_peer (clear_old_inventory t p) = sync_items_requested_from_peer p"
  "sync_items_requested_from_peer (advertise_to_peer t items p) = sync_items_requested_from_peer p"
  "sync_items_requested_from_peer (note_advertised t i p) = sync_items_requested_from_peer p"
  "sync_items_requested_from_peer (note_block_seen m p) = sync_items_requested_from_peer p"
  "sync_items_requested_from_peer (pop_next_item j p) = sync_items_requested_from_peer p"
  "sync_items_requested_from_peer (finish_item m p) = sync_items_requested_from_peer p"
  by (simp_all add: clear_old_inventory_def advertise_to_peer_def note_advertised_def note_block_seen_def pop_next_item_def
      finish_item_def Let_def case_prod_beta)

lemma fetch_items_same_requests: "same_requests n (fetch_items t n)"
proof -
  have "same_requests n0 (fst (fold (fetch_item t) xs (n0, ms)))" for xs n0 ms
  proof (induction xs arbitrary: n0 ms)
    case (Cons x xs)
    have "same_requests n0 (fst (fetch_item t x (n0, ms)))"
      by (simp add: fetch_item_def same_requests_def split: option.split)
    then show ?case using Cons.IH same_requests_trans by (cases "fetch_item t x (n0, ms)") fastforce
  qed simp
  then have "same_requests n (fst (fold (fetch_item t) (items_to_fetch n) (n, [])))" .
  moreover have "same_requests n1 (fold (\<lambda>(c, i). send_message c (Fetch_items_message (fst i) [snd i])) ms n1)" for ms n1
    by (rule fold_same_requests) (simp add: same_requests_def case_prod_beta)
  ultimately show ?thesis by (auto simp: fetch_items_def intro: same_requests_trans split: prod.split)
qed

lemma advertise_inventory_same_requests: "same_requests n (advertise_inventory t n)"
  by (simp add: advertise_inventory_def same_requests_def Let_def)

lemma inventory_message_same_requests: "same_requests n (on_item_ids_inventory_message t c ty hs n)"
proof (induction hs arbitrary: n)
  case (Cons h hs)
  let ?n1 = "update_peer c (note_advertised t (ty, h)) n"
  let ?n2 = "if requested_from_a_peer (ty, h) n then ?n1 else add_item_to_fetch (ty, h) ?n1"
  have "same_requests n ?n2" by (simp add: same_requests_def)
  then have "same_requests n (on_item_ids_inventory_message t c ty hs ?n2)"
    using Cons.IH [of ?n2] by (rule same_requests_trans)
  then show ?case using Cons.IH [of n] by (simp add: Let_def split: option.split)
qed simp

lemma fetch_items_message_same_requests: "preserves same_requests (on_fetch_items_message X c ty hs)"
proof (rule preservesI)
  fix n r n'
  assume "on_fetch_items_message X c ty hs n = Some (r, n')"
  then show "same_requests n n'"
    unfolding on_fetch_items_message_def
    by (rule preservesD [rotated]) (intro preserves_rules same_requests_order on_peer_same_requests note_block_sent_asked
        fold_same_requests, simp add: same_requests_def)
qed

lemma broadcast_same_requests: "same_requests n (broadcast X hash m n)"
  by (simp add: broadcast_def same_requests_def Let_def split: message.split)

lemma delegate_handles_same_requests: "preserves same_requests (delegate_handles X elapsed m b)"
  by (auto simp: preserves_def delegate_handles_def same_requests_def)

lemma disconnect_old_peers_same_requests: "same_requests n (disconnect_old_peers num n)"
  unfolding disconnect_old_peers_def by (rule disconnect_peers_same_requests)

lemma note_normal_block_same_requests: "same_requests n (note_normal_block t m h n)"
  by (simp add: note_normal_block_def same_requests_def)

lemma relay_block_same_requests: "same_requests n (relay_block X hash m n)"
proof -
  have "same_requests n1 (n1 \<lparr> message_cache := mc \<rparr>)" for n1 mc by (simp add: same_requests_def)
  then show ?thesis unfolding relay_block_def Let_def by (rule same_requests_trans [OF broadcast_same_requests])
qed

lemma accept_normal_block_same_requests: "same_requests n (accept_normal_block X hash t m h n)"
  unfolding accept_normal_block_def
  by (rule same_requests_trans [OF note_normal_block_same_requests same_requests_trans [OF relay_block_same_requests disconnect_old_peers_same_requests]])

lemma normal_block_same_requests: "preserves same_requests (process_block_during_normal_operation X hash elapsed t m h)"
  unfolding process_block_during_normal_operation_def
proof (intro preserves_catchA same_requests_order preserves_simple disconnect_peers_same_requests)
  show "preserves same_requests (\<lambda>n. thenA
      (if snd m \<in> set (most_recent_blocks_accepted n) then returnA ()
       else thenA (delegate_handles X elapsed (Block_message (fst m) (snd m)) False) (modifyA (push_recent_block (snd m))))
      (modifyA (accept_normal_block X hash t m h)) n)" (is "preserves _ (\<lambda>n. ?f n n)")
  proof (rule preservesI)
    fix n r n'
    assume "?f n n = Some (r, n')"
    then show "same_requests n n'"
      by (rule preservesD [rotated]) (intro preserves_rules same_requests_order delegate_handles_same_requests
          accept_normal_block_same_requests, simp add: same_requests_def)
  qed
qed

lemma ordinary_message_same_requests: "preserves same_requests (process_ordinary_message X hash elapsed t c m)"
proof -
  have "preserves same_requests (handle_ordinary_message X hash elapsed t c m)"
    unfolding handle_ordinary_message_def
    by (intro preserves_rules same_requests_order delegate_handles_same_requests broadcast_same_requests) (simp_all add: same_requests_def)
  then show ?thesis
    unfolding preserves_def process_ordinary_message_def
    using disconnect_same_requests by (auto split: option.split_asm if_split_asm)
qed

lemma receive_normal_block_same_requests: "preserves same_requests (receive_normal_block X hash elapsed t c m h)"
  unfolding receive_normal_block_def
  by (intro preserves_rules same_requests_order normal_block_same_requests) (simp add: same_requests_def)

lemma backlog_same_requests: "same_requests n (process_backlog_of_sync_blocks n)"
proof -
  have next_block: "same_requests n n'" if "process_next_block n = (n', b)" for n n' b
    using that by (cases rule: process_next_block_cases) (auto simp: same_requests_def collect_received_items_def)
  have "same_requests n (process_backlog_loop n)" for n
  proof (induction n rule: process_backlog_loop.induct)
    case (1 n)
    obtain n' b where e: "process_next_block n = (n', b)" by (cases "process_next_block n")
    have s: "same_requests n n'" by (rule next_block [OF e])
    moreover have "same_requests n' (n' \<lparr> suspend_fetching_sync_blocks := True \<rparr>)" by (simp add: same_requests_def)
    ultimately have "same_requests n (n' \<lparr> suspend_fetching_sync_blocks := True \<rparr>)" by (rule same_requests_trans)
    moreover have "same_requests n (process_backlog_loop n')"
      if "\<not> length (handle_message_calls_in_progress n') \<ge> MAXIMUM_NUMBER_OF_BLOCKS_TO_HANDLE_AT_ONE_TIME" b
      using s 1 [OF e [symmetric] that] by (rule same_requests_trans)
    ultimately show ?case using s by (simp add: process_backlog_loop.simps [of n] e)
  qed
  then have "same_requests (n \<lparr> suspend_fetching_sync_blocks := False \<rparr>) (process_backlog_loop (n \<lparr> suspend_fetching_sync_blocks := False \<rparr>))" .
  then show ?thesis by (simp add: process_backlog_of_sync_blocks_def same_requests_def)
qed

lemma fetch_next_same_requests: "preserves same_requests (fetch_next_batch X c)" "preserves same_requests (start_synchronizing_with X c)"
proof -
  show "preserves same_requests (fetch_next_batch X c)"
  proof (rule preservesI)
    fix n r n'
    assume "fetch_next_batch X c n = Some (r, n')"
    then show "same_requests n n'"
      unfolding fetch_next_batch_def
      by (rule preservesD [rotated]) (intro preserves_rules same_requests_order on_peer_same_requests fetch_next_batch_asked,
        simp add: same_requests_def)
  qed
  show "preserves same_requests (start_synchronizing_with X c)"
  proof (rule preservesI)
    fix n r n'
    assume "start_synchronizing_with X c n = Some (r, n')"
    then show "same_requests n n'"
      unfolding start_synchronizing_with_def
      by (rule preservesD [rotated]) (intro preserves_rules same_requests_order on_peer_same_requests start_synchronizing_asked,
        simp add: same_requests_def)
  qed
qed

lemma accept_sync_block_same_requests: "preserves same_requests (accept_sync_block X m)"
proof (rule preservesI)
  fix n0 r n'
  assume run: "accept_sync_block X m n0 = Some (r, n')"
  let ?n = "n0 \<lparr> total_number_of_unfetched_items := total_number_of_unfetched_items n0 - 1 \<rparr>"
  let ?old = "needs_upgrade ?n (block_num (full_block.block_header (fst m)))"
  let ?n1 = "update_active (\<lambda>p. if ?old p then p else finish_item m p) ?n"
  have "same_requests n0 ?n1" by (simp add: same_requests_def)
  moreover have "same_requests ?n1 n'"
    using run unfolding accept_sync_block_def Let_def
    by (rule preservesD [rotated])
      (intro preserves_rules same_requests_order fetch_next_same_requests disconnect_peers_same_requests)
  ultimately show "same_requests n0 n'" by (rule same_requests_trans)
qed

lemma hand_over_same_requests: "preserves same_requests (send_sync_block_to_node_delegate X elapsed m)"
proof (rule preservesI)
  fix n r n'
  assume run: "send_sync_block_to_node_delegate X elapsed m n = Some (r, n')"
  let ?n = "n \<lparr> handle_message_calls_in_progress := remove1 m (handle_message_calls_in_progress n) \<rparr>"
  obtain v n1 where v: "delegate_handles X elapsed (Block_message (fst m) (snd m)) True ?n = Some (v, n1)"
    using run by (auto simp: send_sync_block_to_node_delegate_def split: option.split_asm)
  have "same_requests n ?n" by (simp add: same_requests_def)
  moreover have "same_requests ?n n1" using delegate_handles_same_requests v by (rule preservesD)
  ultimately have "same_requests n n1" by (rule same_requests_trans)
  moreover have "same_requests n1 n'"
  proof (cases v)
    case (Inl e)
    have "same_requests n1 (update_active (\<lambda>p. if snd m \<in> set (ids_of_items_being_processed p) then p \<lparr> inhibit_fetching_sync_blocks := True \<rparr> else p) n1)"
      by (simp add: same_requests_def)
    then show ?thesis
      using run v Inl disconnect_peers_same_requests [of n1]
      by (auto simp: send_sync_block_to_node_delegate_def reject_sync_block_def Let_def)
  next
    case (Inr b)
    have "same_requests n1 (push_recent_block (snd m) n1)" by (simp add: same_requests_def)
    moreover have "same_requests (push_recent_block (snd m) n1) n'"
      using run v Inr preservesD [OF accept_sync_block_same_requests] by (auto simp: send_sync_block_to_node_delegate_def)
    ultimately show ?thesis by (rule same_requests_trans)
  qed
  ultimately show "same_requests n n'" by (rule same_requests_trans)
qed

lemma take_sync_step_same_requests: "same_requests n (take_sync_step c s n)"
  using disconnect_same_requests by (cases s) (auto simp: take_sync_step_def same_requests_def)

lemma send_answer_same_requests: "same_requests n (send_answer c a n)"
proof -
  let ?n1 = "case restart_request a of Some r \<Rightarrow> send_message c (Fetch_blockchain_item_ids r) n | None \<Rightarrow> n"
  let ?n2 = "send_message c (Blockchain_item_ids_inventory (reply_message a)) ?n1"
  have "same_requests n ?n2" by (simp add: same_requests_def split: option.split)
  then show ?thesis
    using same_requests_trans [OF _ disconnect_same_requests] by (simp add: send_answer_def Let_def)
qed

lemma receive_fetch_ids_same_requests: "preserves same_requests (receive_fetch_blockchain_item_ids X c synopsis)"
proof (rule preservesI)
  fix n r n'
  assume "receive_fetch_blockchain_item_ids X c synopsis n = Some (r, n')"
  then show "same_requests n n'"
    unfolding receive_fetch_blockchain_item_ids_def
    by (rule preservesD [rotated]) (intro preserves_rules same_requests_order on_peer_same_requests on_fetch_ids_asked send_answer_same_requests)
qed

lemma receive_ids_inventory_same_requests: "preserves same_requests (receive_blockchain_item_ids_inventory X t c m)"
proof (rule preservesI)
  have step: "same_requests n (let n1 = n \<lparr> total_number_of_unfetched_items := k, delegate := d \<rparr> in take_sync_step c s n1)" for n k d s
  proof -
    have "same_requests n (n \<lparr> total_number_of_unfetched_items := k, delegate := d \<rparr>)" by (simp add: same_requests_def)
    then show ?thesis unfolding Let_def using take_sync_step_same_requests by (rule same_requests_trans)
  qed
  fix n r n'
  assume "receive_blockchain_item_ids_inventory X t c m n = Some (r, n')"
  then show "same_requests n n'"
    unfolding receive_blockchain_item_ids_inventory_def
    by (rule preservesD [rotated]) (intro preserves_rules same_requests_order on_peer_same_requests on_ids_inventory_asked step)
qed

lemma new_peer_same_requests: "preserves same_requests (new_peer_just_added X c)"
  unfolding new_peer_just_added_def
  by (intro preserves_rules same_requests_order fetch_next_same_requests) (simp add: move_peer_to_active_list_def same_requests_def)

section \<open>The requests as an abstract system\<close>

text \<open>
  The state is the set of requests that peers have not answered, with the blocks recorded as requested. Blocks
  that are not recorded may be asked for; a block arrives; a peer declines a request; a connection is closed, and
  what it was asked for is no longer recorded; a connection is lost without that.
\<close>

type_synonym request_state = "(peer_id \<times> block_id_type) set \<times> block_id_type set"

inductive request_step :: "request_state \<Rightarrow> request_state \<Rightarrow> bool" where
  ask: "ids \<inter> A = {} \<Longrightarrow> request_step (R, A) (R \<union> {c} \<times> ids, A \<union> ids)"
| arrive: "(c, i) \<in> R \<Longrightarrow> request_step (R, A) (R - {(c, i)}, A - {i})"
| decline: "(c, i) \<in> R \<Longrightarrow> request_step (R, A) (R - {(c, i)}, A)"
| close: "request_step (R, A) (R - {c} \<times> UNIV, A - R `` {c})"
| lose: "request_step (R, A) (R - {c} \<times> UNIV, A)"

definition recorded_once :: "request_state \<Rightarrow> bool" where
  "recorded_once = (\<lambda>(R, A). (\<forall>c i. (c, i) \<in> R \<longrightarrow> i \<in> A) \<and> (\<forall>c d i. (c, i) \<in> R \<longrightarrow> (d, i) \<in> R \<longrightarrow> c = d))"

definition forgotten :: "block_id_type \<Rightarrow> request_state \<Rightarrow> bool" where
  "forgotten i = (\<lambda>(R, A). i \<in> A \<and> (\<forall>c. (c, i) \<notin> R))"

lemma recorded_once_step: "request_step s s' \<Longrightarrow> recorded_once s \<Longrightarrow> recorded_once s'"
  by (induction rule: request_step.induct) (auto simp: recorded_once_def)

lemma forgotten_step: "request_step s s' \<Longrightarrow> forgotten i s \<Longrightarrow> forgotten i s'"
  by (induction rule: request_step.induct) (auto simp: forgotten_def)

lemma request_steps_invariant:
  assumes "request_step\<^sup>*\<^sup>* s s'" and "P s" and "\<And>s s'. request_step s s' \<Longrightarrow> P s \<Longrightarrow> P s'"
  shows "P s'"
  using assms by (induction rule: rtranclp_induct) auto

section \<open>The node implements the abstract system\<close>

definition outstanding :: "p2p_node \<Rightarrow> (peer_id \<times> block_id_type) set" where
  "outstanding n = {(c, i). \<exists>is. (c, is) \<in> set (requests n) \<and> i \<in> set is}"

definition request_view :: "p2p_node \<Rightarrow> request_state" where
  "request_view n = (outstanding n, set (active_sync_requests n))"

definition distinct_peers :: "p2p_node \<Rightarrow> bool" where
  "distinct_peers n \<longleftrightarrow> distinct (map fst (requests n))"

definition implements :: "p2p_node \<Rightarrow> p2p_node \<Rightarrow> bool" where
  "implements n n' \<longleftrightarrow> (distinct_peers n \<longrightarrow> distinct_peers n' \<and> request_step\<^sup>*\<^sup>* (request_view n) (request_view n'))"

lemma implements_refl: "implements n n"
  by (simp add: implements_def)

lemma implements_step:
  "request_step (request_view n) (request_view n') \<Longrightarrow> (distinct_peers n \<Longrightarrow> distinct_peers n') \<Longrightarrow> implements n n'"
  by (auto simp: implements_def)

lemma implements_trans: "implements a b \<Longrightarrow> implements b c \<Longrightarrow> implements a c"
  by (auto simp: implements_def)

lemma same_requests_view: "same_requests n n' \<Longrightarrow> distinct_peers n \<Longrightarrow> distinct_peers n' \<and> request_view n' = request_view n"
  by (simp add: same_requests_def distinct_peers_def request_view_def outstanding_def)

lemma same_requests_implements: "same_requests n n' \<Longrightarrow> implements n n'"
  by (simp add: same_requests_def implements_def distinct_peers_def request_view_def outstanding_def)

lemma requests_update_asked:
  "requests (update_peer c (\<lambda>p. p \<lparr> sync_items_requested_from_peer := g (sync_items_requested_from_peer p) \<rparr>) n) =
     map (\<lambda>(d, is). (d, if d = c then g is else is)) (requests n)"
  by (auto simp: requests_def update_peer_def)

lemma set_fold_insert_ids [simp]: "set (fold List.insert xs ys) = set xs \<union> set ys"
  by (induction xs arbitrary: ys) auto

lemma distinct_peers_lookup: "distinct_peers n \<Longrightarrow> get_peer n c = Some p \<Longrightarrow> (c, is) \<in> set (requests n) \<longleftrightarrow> is = sync_items_requested_from_peer p"
  by (auto simp: distinct_peers_def requests_def get_peer_def comp_def case_prod_beta dest: map_of_SomeD intro: rev_image_eqI)
    (metis eq_key_imp_eq_value map_of_SomeD fst_conv snd_conv surjective_pairing)

lemma ask_view:
  assumes "c \<in> fst ` set (connections n)"
  shows "outstanding (request_sync_items_from_peer (c, ids) n) = outstanding n \<union> {c} \<times> set ids"
    and "set (active_sync_requests (request_sync_items_from_peer (c, ids) n)) = set (active_sync_requests n) \<union> set ids"
    and "distinct_peers (request_sync_items_from_peer (c, ids) n) \<longleftrightarrow> distinct_peers n"
    and "fst ` set (connections (request_sync_items_from_peer (c, ids) n)) = fst ` set (connections n)"
proof -
  let ?n' = "request_sync_items_from_peer (c, ids) n"
  have r: "requests ?n' = map (\<lambda>(d, is). (d, if d = c then fold List.insert ids is else is)) (requests n)"
    by (simp add: request_sync_items_from_peer_def requests_update_asked)
  have "\<exists>is. (c, is) \<in> set (requests n)" using assms by (force simp: requests_def)
  then show "outstanding ?n' = outstanding n \<union> {c} \<times> set ids"
    by (auto simp: outstanding_def r split: if_split_asm)
  show "set (active_sync_requests ?n') = set (active_sync_requests n) \<union> set ids"
    by (auto simp: request_sync_items_from_peer_def)
  show "distinct_peers ?n' \<longleftrightarrow> distinct_peers n" by (simp add: distinct_peers_def r comp_def case_prod_beta)
  show "fst ` set (connections ?n') = fst ` set (connections n)"
    by (force simp: request_sync_items_from_peer_def send_message_def update_peer_def)
qed

lemma ask_implements:
  assumes "c \<in> fst ` set (connections n)" and "set ids \<inter> set (active_sync_requests n) = {}"
  shows "implements n (request_sync_items_from_peer (c, ids) n)"
proof (rule implements_step)
  show "request_step (request_view n) (request_view (request_sync_items_from_peer (c, ids) n))"
    unfolding request_view_def ask_view(1,2) [OF assms(1)] using assms(2) by (rule request_step.ask)
qed (simp add: ask_view(3) [OF assms(1)])

lemma asks_implement:
  assumes "fst ` set rs \<subseteq> fst ` set (connections n)" and "distinct (concat (map snd rs))"
    and "set (concat (map snd rs)) \<inter> set (active_sync_requests n) = {}"
  shows "implements n (fold request_sync_items_from_peer rs n)"
  using assms
proof (induction rs arbitrary: n)
  case (Cons r rs)
  obtain c ids where r: "r = (c, ids)" by (cases r)
  note view = ask_view [of c n ids] and ask = ask_implements [of c n ids]
  have c: "c \<in> fst ` set (connections n)" and i: "set ids \<inter> set (active_sync_requests n) = {}"
    using Cons.prems by (auto simp: r)
  have "implements (request_sync_items_from_peer r n) (fold request_sync_items_from_peer rs (request_sync_items_from_peer r n))"
    using Cons.prems view(2,4) [OF c] by (intro Cons.IH) (auto simp: r)
  with ask [OF c i] show ?case unfolding r by (auto intro: implements_trans)
qed (simp add: implements_refl)

lemma requests_of_schedule:
  assumes "length cs = length rss"
  shows "concat (map snd (filter (\<lambda>(c, ids). ids \<noteq> []) (zip cs rss))) = concat rss"
  using assms by (induction cs rss rule: list_induct2) auto

lemma fetch_sync_items_implements: "implements n (fetch_sync_items n)"
proof (cases "suspend_fetching_sync_blocks n")
  case False
  let ?skip = "\<lambda>i. have_already_received_sync_item n i \<or> i \<in> set (active_sync_requests n)"
  let ?peers = "map snd (active_peers n)"
  let ?rss = "schedule_sync_requests BTS_NET_MAX_BLOCKS_PER_PEER_DURING_SYNCING ?skip ?peers"
  obtain chosen where "fold (schedule_peer BTS_NET_MAX_BLOCKS_PER_PEER_DURING_SYNCING ?skip) ?peers ([], []) = (chosen, ?rss)"
    by (metis schedule_sync_requests_def prod.collapse)
  from schedule_ok [OF _ _ this] have ok: "distinct (concat ?rss)"
    "list_all2 (\<lambda>p r. set r \<subseteq> {i \<in> set (ids_of_items_to_get p). \<not> ?skip i}) ?peers ?rss" by auto
  have "set (concat ?rss) \<inter> set (active_sync_requests n) = {}"
    using ok(2) by (fastforce simp: list_all2_conv_all_nth in_set_conv_nth)
  moreover have "length (map fst (active_peers n)) = length ?rss" using list_all2_lengthD [OF ok(2)] by simp
  moreover have "fst ` set (filter (\<lambda>(c, ids). ids \<noteq> []) (zip (map fst (active_peers n)) ?rss)) \<subseteq> fst ` set (connections n)"
    by (force simp: active_peers_def dest: set_zip_leftD)
  ultimately have "implements n (fold request_sync_items_from_peer
      (filter (\<lambda>(c, ids). ids \<noteq> []) (zip (map fst (active_peers n)) ?rss)) n)"
    using ok(1) by (intro asks_implement) (simp_all only: requests_of_schedule)
  then show ?thesis using False by (simp add: fetch_sync_items_def Let_def)
qed (simp add: fetch_sync_items_def implements_refl)

lemma drop_request:
  fixes n :: p2p_node and c :: peer_id and i :: block_id_type
  defines "n' \<equiv> update_peer c (\<lambda>p. p \<lparr> sync_items_requested_from_peer := removeAll i (sync_items_requested_from_peer p) \<rparr>) n"
  shows "outstanding n' = outstanding n - {(c, i)}" and "distinct_peers n' \<longleftrightarrow> distinct_peers n"
proof -
  have r: "requests n' = map (\<lambda>(d, is). (d, if d = c then removeAll i is else is)) (requests n)"
    unfolding n'_def by (rule requests_update_asked)
  have "(d, j) \<in> outstanding n' \<longleftrightarrow> (d, j) \<in> outstanding n - {(c, i)}" for d j
    by (cases "d = c") (force simp: outstanding_def r)+
  then show "outstanding n' = outstanding n - {(c, i)}" by auto
  show "distinct_peers n' \<longleftrightarrow> distinct_peers n" by (simp add: distinct_peers_def r comp_def case_prod_beta)
qed

lemma is_outstanding: "get_peer n c = Some p \<Longrightarrow> i \<in> set (sync_items_requested_from_peer p) \<Longrightarrow> (c, i) \<in> outstanding n"
  by (force simp: outstanding_def requests_def get_peer_def dest: map_of_SomeD)

lemma view_fields [simp]:
  "outstanding (n \<lparr> active_sync_requests := a \<rparr>) = outstanding n" "distinct_peers (n \<lparr> active_sync_requests := a \<rparr>) \<longleftrightarrow> distinct_peers n"
  "outstanding (n \<lparr> new_received_sync_items := ms \<rparr>) = outstanding n" "distinct_peers (n \<lparr> new_received_sync_items := ms \<rparr>) \<longleftrightarrow> distinct_peers n"
  by (simp_all add: outstanding_def distinct_peers_def)

lemma receive_sync_block_view:
  "outstanding (receive_sync_block c m n) = outstanding n - {(c, snd m)}"
  "set (active_sync_requests (receive_sync_block c m n)) = set (active_sync_requests n) - {snd m}"
  "distinct_peers (receive_sync_block c m n) \<longleftrightarrow> distinct_peers n"
  by (simp_all add: receive_sync_block_def process_block_during_sync_def drop_request)

lemma receive_sync_block_implements:
  assumes "get_peer n c = Some p" and "snd m \<in> set (sync_items_requested_from_peer p)"
  shows "implements n (receive_sync_block c m n)"
proof (rule implements_step)
  show "request_step (request_view n) (request_view (receive_sync_block c m n))"
    unfolding request_view_def receive_sync_block_view by (intro request_step.arrive is_outstanding [OF assms])
qed (simp add: receive_sync_block_view)

lemma block_message_implements:
  assumes "process_block_message X hash elapsed t c m n = Some (r, n')"
  shows "implements n n'"
proof (cases "get_peer n c")
  case (Some p)
  let ?h = "(block_message_type, hash (Block_message (fst m) (snd m)))"
  consider "?h \<in> set (items_requested_from_peer p)"
    | "?h \<notin> set (items_requested_from_peer p)" "snd m \<in> set (sync_items_requested_from_peer p)"
    | "?h \<notin> set (items_requested_from_peer p)" "snd m \<notin> set (sync_items_requested_from_peer p)" by blast
  then show ?thesis
  proof cases
    case 1
    then have "receive_normal_block X hash elapsed t c m (hash (Block_message (fst m) (snd m))) n = Some (r, n')"
      using assms Some by (simp add: process_block_message_def Let_def)
    then show ?thesis by (rule same_requests_implements [OF preservesD [OF receive_normal_block_same_requests]])
  next
    case 2
    then show ?thesis
      using assms Some receive_sync_block_implements [OF Some 2(2)] by (simp add: process_block_message_def Let_def)
  next
    case 3
    then show ?thesis
      using assms Some disconnect_same_requests by (auto simp: process_block_message_def Let_def intro: same_requests_implements)
  qed
qed (use assms in \<open>simp add: process_block_message_def Let_def implements_refl\<close>)

lemma add_item_if_implements: "same_requests n (if b then add_item_to_fetch i n else n)"
  by (simp add: same_requests_def)

text \<open>The state after a request for a block has been declined, before the consequences for the connection.\<close>

definition declined :: "peer_id \<Rightarrow> block_id_type \<Rightarrow> p2p_node \<Rightarrow> p2p_node" where
  "declined c i = update_peer c (\<lambda>p. p \<lparr> sync_items_requested_from_peer := removeAll i (sync_items_requested_from_peer p) \<rparr>)"

lemma declined_view: "request_view (declined c i n) = (outstanding n - {(c, i)}, set (active_sync_requests n))" "distinct_peers (declined c i n) \<longleftrightarrow> distinct_peers n"
  by (simp_all add: request_view_def declined_def drop_request)

lemma not_available_cases:
  assumes "get_peer n c = Some p"
  obtains "i \<in> set (items_requested_from_peer p)" "same_requests n (on_item_not_available_message c i n)"
  | "i \<notin> set (items_requested_from_peer p)" "fst i = block_message_type" "snd i \<in> set (sync_items_requested_from_peer p)"
      "same_requests (declined c (snd i) n) (on_item_not_available_message c i n)"
  | "i \<notin> set (items_requested_from_peer p)" "\<not> (fst i = block_message_type \<and> snd i \<in> set (sync_items_requested_from_peer p))"
      "on_item_not_available_message c i n = n"
proof -
  let ?n1 = "update_peer c (\<lambda>p. p \<lparr> items_requested_from_peer := removeAll i (items_requested_from_peer p),
       inventory_peer_advertised_to_us := AList.delete i (inventory_peer_advertised_to_us p) \<rparr>) n"
  have 1: "same_requests n (if is_item_in_any_peers_inventory i ?n1 then add_item_to_fetch i ?n1 else ?n1)"
    by (simp add: same_requests_def)
  let ?n2 = "declined c (snd i) n"
  have 2: "same_requests ?n2 (if peer_needs_sync_items_from_us p then update_peer c (\<lambda>p. p \<lparr> inhibit_fetching_sync_blocks := True \<rparr>) ?n2
      else disconnect_from_peer c ''You are missing a sync item you claim to have'' ?n2)"
    using disconnect_same_requests by (simp add: same_requests_def)
  note def = on_item_not_available_message_def [of c i n, unfolded assms option.case Let_def, folded declined_def]
  consider "i \<in> set (items_requested_from_peer p)"
    | "i \<notin> set (items_requested_from_peer p)" "fst i = block_message_type \<and> snd i \<in> set (sync_items_requested_from_peer p)"
    | "i \<notin> set (items_requested_from_peer p)" "\<not> (fst i = block_message_type \<and> snd i \<in> set (sync_items_requested_from_peer p))" by blast
  then show ?thesis
  proof cases
    case 1
    with def \<open>same_requests n _\<close> show ?thesis by (intro that(1)) simp_all
  next
    case 2
    with def \<open>same_requests ?n2 _\<close> show ?thesis by (intro that(2)) simp_all
  next
    case 3
    with def show ?thesis by (intro that(3)) simp_all
  qed
qed

lemma not_available_implements: "implements n (on_item_not_available_message c i n)"
proof (cases "get_peer n c")
  case (Some p)
  then show ?thesis
  proof (cases rule: not_available_cases [of n c p i])
    case 2
    have "request_step (request_view n) (request_view (declined c (snd i) n))"
      unfolding declined_view unfolding request_view_def by (intro request_step.decline is_outstanding [OF Some 2(3)])
    then have "implements n (declined c (snd i) n)" by (rule implements_step) (simp add: declined_view)
    with same_requests_implements [OF 2(4)] show ?thesis by (rule implements_trans [rotated])
  qed (auto intro: same_requests_implements implements_refl)
qed (simp add: on_item_not_available_message_def implements_refl)

lemma delete_peer:
  fixes n :: p2p_node and c :: peer_id
  defines "n' \<equiv> n \<lparr> connections := AList.delete c (connections n) \<rparr>"
  shows "outstanding n' = outstanding n - {c} \<times> UNIV" and "distinct_peers n \<Longrightarrow> distinct_peers n'"
proof -
  have "map (\<lambda>(c, p). (c, sync_items_requested_from_peer p)) (AList.delete c xs) =
      filter (\<lambda>(d, is). d \<noteq> c) (map (\<lambda>(c, p). (c, sync_items_requested_from_peer p)) xs)" for xs
    by (induction xs) auto
  then have r: "requests n' = filter (\<lambda>(d, is). d \<noteq> c) (requests n)" by (simp add: requests_def n'_def)
  show "outstanding n' = outstanding n - {c} \<times> UNIV" by (auto simp: outstanding_def r)
  show "distinct_peers n \<Longrightarrow> distinct_peers n'" by (simp add: distinct_peers_def r distinct_map_filter)
qed

lemma connection_closed_view:
  assumes "distinct_peers n"
  shows "distinct_peers (on_connection_closed c n)"
    and "request_view (on_connection_closed c n) =
      (outstanding n - {c} \<times> UNIV, set (active_sync_requests n) - outstanding n `` {c})"
proof -
  let ?view = "(outstanding n - {c} \<times> UNIV, set (active_sync_requests n) - outstanding n `` {c})"
  have "distinct_peers (on_connection_closed c n) \<and> request_view (on_connection_closed c n) = ?view"
  proof (cases "get_peer n c")
    case None
    then have "outstanding n `` {c} = {}" by (force simp: outstanding_def requests_def get_peer_def map_of_eq_None_iff)
    then show ?thesis using None assms by (auto simp: on_connection_closed_def request_view_def)
  next
    case (Some p)
    let ?a = "filter (\<lambda>i. i \<notin> set (sync_items_requested_from_peer p)) (active_sync_requests n)"
    let ?n1 = "n \<lparr> connections := AList.delete c (connections n), active_sync_requests := ?a \<rparr>"
    have "outstanding n `` {c} = set (sync_items_requested_from_peer p)"
      using distinct_peers_lookup [OF assms Some] by (auto simp: outstanding_def)
    then have "distinct_peers ?n1" "request_view ?n1 = ?view"
      using assms by (auto simp: request_view_def delete_peer)
    moreover have "same_requests ?n1 (fold (\<lambda>i n. if is_item_in_any_peers_inventory i n then add_item_to_fetch i n else n) (items_requested_from_peer p) ?n1)"
      by (rule fold_same_requests) (rule add_item_if_implements)
    ultimately show ?thesis
      using Some same_requests_view by (auto simp: on_connection_closed_def Let_def)
  qed
  then show "distinct_peers (on_connection_closed c n)" "request_view (on_connection_closed c n) = ?view" by auto
qed

lemma connection_closed_implements: "implements n (on_connection_closed c n)"
  using request_step.close [of "outstanding n" "set (active_sync_requests n)" c]
  by (auto simp: implements_def connection_closed_view simp flip: request_view_def)

lemma terminate_implements: "implements n (terminate_connection c n)"
proof -
  have "request_step (request_view n) (request_view (terminate_connection c n))"
    using request_step.lose [of "outstanding n" "set (active_sync_requests n)" c]
    by (simp add: terminate_connection_def request_view_def delete_peer)
  then show ?thesis by (rule implements_step) (simp add: terminate_connection_def delete_peer)
qed

lemma connect_view:
  fixes c :: peer_id and n :: p2p_node
  defines "n' \<equiv> n \<lparr> connections := connections n @ [(c, new_connection)] \<rparr>"
  assumes "c \<notin> fst ` set (connections n)"
  shows "distinct_peers n \<Longrightarrow> distinct_peers n'" and "request_view n' = request_view n"
proof -
  have r: "requests n' = requests n @ [(c, [])]" by (simp add: requests_def new_connection_def n'_def)
  have "fst ` set (requests n) = fst ` set (connections n)" by (force simp: requests_def)
  then show "distinct_peers n \<Longrightarrow> distinct_peers n'" using assms(2) by (simp add: distinct_peers_def r)
  have "active_sync_requests n' = active_sync_requests n" by (simp add: n'_def)
  then show "request_view n' = request_view n" by (auto simp: request_view_def outstanding_def r)
qed

lemma connect_implements:
  "c \<notin> fst ` set (connections n) \<Longrightarrow> implements n (n \<lparr> connections := connections n @ [(c, new_connection)] \<rparr>)"
  by (simp add: implements_def connect_view)

lemma on_message_implements:
  assumes "on_message X hash elapsed t c m n = Some (r, n')"
  shows "implements n n'"
proof (cases m)
  case (Client_message b)
  then show ?thesis
    using assms block_message_implements same_requests_implements [OF preservesD [OF ordinary_message_same_requests]]
    by (cases b) (auto simp: on_message_def implements_refl split: if_split_asm)
qed (use assms not_available_implements same_requests_implements [OF inventory_message_same_requests]
    same_requests_implements [OF preservesD [OF receive_fetch_ids_same_requests]]
    same_requests_implements [OF preservesD [OF receive_ids_inventory_same_requests]]
    same_requests_implements [OF preservesD [OF fetch_items_message_same_requests]]
    same_requests_implements [of n "on_closing_connection_message c n"]
  in \<open>auto simp: on_message_def on_closing_connection_message_def same_requests_def\<close>)

lemma net_step_implements: "net_step X hash n n' \<Longrightarrow> implements n n'"
proof (induction rule: net_step.induct)
  case (force n c)
  then show ?case by (intro same_requests_implements) (simp add: move_peer_to_terminating_list_def same_requests_def)
qed (blast intro: on_message_implements fetch_sync_items_implements connect_implements connection_closed_implements terminate_implements
    same_requests_implements [OF fetch_items_same_requests] same_requests_implements [OF advertise_inventory_same_requests]
    same_requests_implements [OF backlog_same_requests] same_requests_implements [OF preservesD [OF hand_over_same_requests]]
    same_requests_implements [OF broadcast_same_requests] same_requests_implements [OF preservesD [OF new_peer_same_requests]]
    same_requests_implements [OF disconnect_same_requests])+

lemma net_steps_implement: "(net_step X hash)\<^sup>*\<^sup>* n n' \<Longrightarrow> implements n n'"
  by (induction rule: rtranclp_induct) (auto intro: implements_refl implements_trans net_step_implements)

section \<open>What each event does to the requests\<close>

text \<open>
  The events of a node: a message arrives, the loop that fetches blocks runs, a connection is closed, a connection
  that is being closed is given up; the others are the remaining loops and tasks, and the start and the end of connections.
\<close>

datatype net_event =
  Message_arrives peer_id net_message | Fetching_blocks | Connection_closed peer_id | Connection_lost peer_id | Other_event

inductive event_step :: "ext \<Rightarrow> (message \<Rightarrow> block_id_type) \<Rightarrow> net_event \<Rightarrow> p2p_node \<Rightarrow> p2p_node \<Rightarrow> bool" for X hash where
  arrives: "on_message X hash elapsed current_time c m n = Some (r, n') \<Longrightarrow> event_step X hash (Message_arrives c m) n n'"
| fetch_blocks: "event_step X hash Fetching_blocks n (fetch_sync_items n)"
| closed: "event_step X hash (Connection_closed c) n (on_connection_closed c n)"
| terminate: "get_peer n c = Some p \<Longrightarrow> connection_list p = Terminating \<Longrightarrow>
    event_step X hash (Connection_lost c) n (terminate_connection c n)"
| fetch: "event_step X hash Other_event n (fetch_items current_time n)"
| announce: "event_step X hash Other_event n (advertise_inventory current_time n)"
| backlog: "event_step X hash Other_event n (process_backlog_of_sync_blocks n)"
| hand_over: "m \<in> set (handle_message_calls_in_progress n) \<Longrightarrow> send_sync_block_to_node_delegate X elapsed m n = Some (r, n') \<Longrightarrow>
    event_step X hash Other_event n n'"
| client_sends: "event_step X hash Other_event n (broadcast X hash m n)"
| connect: "c \<notin> fst ` set (connections n) \<Longrightarrow>
    event_step X hash Other_event n (n \<lparr> connections := connections n @ [(c, new_connection)] \<rparr>)"
| activate: "new_peer_just_added X c n = Some (r, n') \<Longrightarrow> event_step X hash Other_event n n'"
| give_up: "event_step X hash Other_event n (disconnect_from_peer c reason n)"
| force: "event_step X hash Other_event n (move_peer_to_terminating_list c n)"

lemma net_step_is_an_event: "net_step X hash n n' \<longleftrightarrow> (\<exists>ev. event_step X hash ev n n')"
proof
  show "net_step X hash n n' \<Longrightarrow> \<exists>ev. event_step X hash ev n n'"
    by (induction rule: net_step.induct) (blast intro: event_step.intros)+
  have "event_step X hash ev n n' \<Longrightarrow> net_step X hash n n'" for ev
    by (induction rule: event_step.induct) (blast intro: net_step.intros)+
  then show "\<exists>ev. event_step X hash ev n n' \<Longrightarrow> net_step X hash n n'" by blast
qed

text \<open>A message may answer a request of normal operation, which comes first.\<close>

definition requested_normally :: "p2p_node \<Rightarrow> peer_id \<Rightarrow> item_id \<Rightarrow> bool" where
  "requested_normally n c i \<longleftrightarrow> (case get_peer n c of None \<Rightarrow> False | Some p \<Rightarrow> i \<in> set (items_requested_from_peer p))"

text \<open>The peers that may be asked, and the blocks they may be asked for.\<close>

definition may_ask :: "p2p_node \<Rightarrow> peer_id \<Rightarrow> block_id_type \<Rightarrow> bool" where
  "may_ask n c i \<longleftrightarrow> (\<exists>p. (c, p) \<in> set (connections n) \<and> connection_list p = Active \<and> we_need_sync_items_from_peer p \<and>
     idle p \<and> \<not> inhibit_fetching_sync_blocks p \<and> i \<in> set (ids_of_items_to_get p) \<and> \<not> have_already_received_sync_item n i)"

definition request_effect ::
    "(message \<Rightarrow> block_id_type) \<Rightarrow> p2p_node \<Rightarrow> net_event \<Rightarrow> request_state \<Rightarrow> request_state \<Rightarrow> bool" where
  "request_effect hash n ev = (\<lambda>(R, A) s'.
     case ev of
       Message_arrives c m \<Rightarrow> s' = (case m of
           Client_message (Block_message b i) \<Rightarrow>
             if (c, i) \<in> R \<and> \<not> requested_normally n c (block_message_type, hash (Block_message b i))
             then (R - {(c, i)}, A - {i}) else (R, A)
         | Item_not_available i \<Rightarrow>
             if fst i = block_message_type \<and> (c, snd i) \<in> R \<and> \<not> requested_normally n c i
             then (R - {(c, snd i)}, A) else (R, A)
         | _ \<Rightarrow> (R, A))
     | Fetching_blocks \<Rightarrow>
         (\<exists>Q. s' = (R \<union> Q, A \<union> snd ` Q) \<and> snd ` Q \<inter> A = {} \<and> inj_on snd Q \<and> Q \<subseteq> {(c, i). may_ask n c i} \<and>
            (suspend_fetching_sync_blocks n \<longrightarrow> Q = {}))
     | Connection_closed c \<Rightarrow> s' = (R - {c} \<times> UNIV, A - R `` {c})
     | Connection_lost c \<Rightarrow> s' = (R - {c} \<times> UNIV, A)
     | Other_event \<Rightarrow> s' = (R, A))"

lemma outstanding_iff:
  "distinct_peers n \<Longrightarrow> (c, i) \<in> outstanding n \<longleftrightarrow> (\<exists>p. get_peer n c = Some p \<and> i \<in> set (sync_items_requested_from_peer p))"
proof
  assume "distinct_peers n" "(c, i) \<in> outstanding n"
  moreover from this(2) have "get_peer n c \<noteq> None"
    by (intro notI) (force simp: outstanding_def requests_def get_peer_def map_of_eq_None_iff)
  ultimately show "\<exists>p. get_peer n c = Some p \<and> i \<in> set (sync_items_requested_from_peer p)"
    using distinct_peers_lookup [of n c] by (auto simp: outstanding_def)
qed (auto intro: is_outstanding)

lemma block_message_effect:
  assumes "process_block_message X hash elapsed t c (b, i) n = Some (r, n')" and d: "distinct_peers n"
  shows "distinct_peers n' \<and> request_effect hash n (Message_arrives c (Client_message (Block_message b i))) (request_view n) (request_view n')"
proof (cases "get_peer n c")
  case (Some p)
  let ?h = "(block_message_type, hash (Block_message b i))"
  consider "?h \<in> set (items_requested_from_peer p)"
    | "?h \<notin> set (items_requested_from_peer p)" "i \<in> set (sync_items_requested_from_peer p)"
    | "?h \<notin> set (items_requested_from_peer p)" "i \<notin> set (sync_items_requested_from_peer p)" by blast
  then show ?thesis
  proof cases
    case 1
    then have "receive_normal_block X hash elapsed t c (b, i) (hash (Block_message b i)) n = Some (r, n')"
      using assms(1) Some by (simp add: process_block_message_def Let_def)
    from same_requests_view [OF preservesD [OF receive_normal_block_same_requests this] d] show ?thesis
      using 1 Some by (simp add: request_effect_def request_view_def requested_normally_def)
  next
    case 2
    then have "n' = receive_sync_block c (b, i) n" using assms(1) Some by (simp add: process_block_message_def Let_def)
    then show ?thesis
      using 2 Some d receive_sync_block_view [of c "(b, i)" n] is_outstanding [OF Some 2(2)]
      by (simp add: request_effect_def request_view_def requested_normally_def)
  next
    case 3
    then have "same_requests n n'"
      using assms(1) Some by (auto simp: process_block_message_def Let_def intro: disconnect_same_requests)
    then have "distinct_peers n'" "request_view n' = request_view n" using same_requests_view d by blast+
    moreover have "(c, i) \<notin> outstanding n" using 3(2) Some d by (simp add: outstanding_iff)
    ultimately show ?thesis by (simp add: request_effect_def request_view_def)
  qed
next
  case None
  then have "n' = n" using assms(1) by (simp add: process_block_message_def Let_def)
  moreover have "(c, i) \<notin> outstanding n" using None d by (simp add: outstanding_iff)
  ultimately show ?thesis using d by (simp add: request_effect_def request_view_def)
qed

lemma not_available_effect:
  assumes "distinct_peers n"
  shows "distinct_peers (on_item_not_available_message c i n) \<and>
    request_effect hash n (Message_arrives c (Item_not_available i)) (request_view n) (request_view (on_item_not_available_message c i n))"
proof (cases "get_peer n c")
  case (Some p)
  then show ?thesis
  proof (cases rule: not_available_cases [of n c p i])
    case 1
    then show ?thesis using Some same_requests_view [OF 1(2) assms] by (simp add: request_effect_def request_view_def requested_normally_def)
  next
    case 2
    then show ?thesis
      using Some same_requests_view [OF 2(4)] assms is_outstanding [OF Some 2(3)]
      by (simp add: declined_view) (simp add: request_effect_def request_view_def requested_normally_def)
  next
    case 3
    then show ?thesis using Some assms outstanding_iff [OF assms] by (auto simp: request_effect_def request_view_def)
  qed
next
  case None
  then have "(c, j) \<notin> outstanding n" for j using assms by (simp add: outstanding_iff)
  then show ?thesis
    using None assms by (simp add: on_item_not_available_message_def request_effect_def request_view_def)
qed

lemma asks_view:
  assumes "fst ` set rs \<subseteq> fst ` set (connections n)"
  defines "Q \<equiv> {(c, i). \<exists>ids. (c, ids) \<in> set rs \<and> i \<in> set ids}"
  shows "request_view (fold request_sync_items_from_peer rs n) = (outstanding n \<union> Q, set (active_sync_requests n) \<union> snd ` Q)"
    and "distinct_peers (fold request_sync_items_from_peer rs n) \<longleftrightarrow> distinct_peers n"
proof -
  have "outstanding (fold request_sync_items_from_peer rs n) = outstanding n \<union> {(c, i). \<exists>ids. (c, ids) \<in> set rs \<and> i \<in> set ids} \<and>
      set (active_sync_requests (fold request_sync_items_from_peer rs n)) = set (active_sync_requests n) \<union> set (concat (map snd rs)) \<and>
      (distinct_peers (fold request_sync_items_from_peer rs n) \<longleftrightarrow> distinct_peers n)"
    using assms(1)
  proof (induction rs arbitrary: n)
    case (Cons r rs)
    obtain c ids where r: "r = (c, ids)" by (cases r)
    note ask = ask_view [of c n ids]
    have c: "c \<in> fst ` set (connections n)" using Cons.prems by (simp add: r)
    have "fst ` set rs \<subseteq> fst ` set (connections (request_sync_items_from_peer r n))"
      using Cons.prems ask(4) [OF c] by (auto simp: r)
    from Cons.IH [OF this] show ?case using ask(1-3) [OF c] by (auto simp: r)
  qed simp
  moreover have "snd ` Q = set (concat (map snd rs))" by (force simp: Q_def)
  ultimately show "request_view (fold request_sync_items_from_peer rs n) = (outstanding n \<union> Q, set (active_sync_requests n) \<union> snd ` Q)"
    and "distinct_peers (fold request_sync_items_from_peer rs n) \<longleftrightarrow> distinct_peers n"
    by (simp_all add: Q_def request_view_def)
qed

lemma schedule_asks_free_peers:
  assumes "fold (schedule_peer limit skip) peers (chosen, rss) = (chosen', rss')"
  shows "\<exists>new. rss' = rss @ new \<and>
    list_all2 (\<lambda>p r. r \<noteq> [] \<longrightarrow> we_need_sync_items_from_peer p \<and> idle p \<and> \<not> inhibit_fetching_sync_blocks p) peers new"
  using assms
proof (induction peers arbitrary: chosen rss)
  case (Cons peer peers)
  define r where "r = (if we_need_sync_items_from_peer peer \<and> idle peer \<and> \<not> inhibit_fetching_sync_blocks peer
    then choose_items limit skip (ids_of_items_to_get peer) chosen [] else [])"
  have "schedule_peer limit skip peer (chosen, rss) = (chosen @ r, rss @ [r])"
    by (simp add: schedule_peer_def Let_def r_def)
  then obtain new where "rss' = (rss @ [r]) @ new"
    "list_all2 (\<lambda>p r. r \<noteq> [] \<longrightarrow> we_need_sync_items_from_peer p \<and> idle p \<and> \<not> inhibit_fetching_sync_blocks p) peers new"
    using Cons.IH [of "chosen @ r" "rss @ [r]"] Cons.prems by auto
  then show ?case by (auto simp: r_def intro!: exI [of _ "r # new"])
qed simp

lemma asked_of_one:
  "distinct (concat (map snd rs)) \<Longrightarrow> (c, is) \<in> set rs \<Longrightarrow> (d, js) \<in> set rs \<Longrightarrow> i \<in> set is \<Longrightarrow> i \<in> set js \<Longrightarrow> c = d"
  by (induction rs) force+

lemma fetch_sync_items_effect:
  assumes "distinct_peers n"
  shows "distinct_peers (fetch_sync_items n) \<and> request_effect hash n Fetching_blocks (request_view n) (request_view (fetch_sync_items n))"
proof (cases "suspend_fetching_sync_blocks n")
  case True
  then show ?thesis using assms by (auto simp: fetch_sync_items_def request_effect_def request_view_def)
next
  case False
  define skip where "skip = (\<lambda>i. have_already_received_sync_item n i \<or> i \<in> set (active_sync_requests n))"
  let ?peers = "map snd (active_peers n)"
  define rss where "rss = schedule_sync_requests BTS_NET_MAX_BLOCKS_PER_PEER_DURING_SYNCING skip ?peers"
  let ?rs = "filter (\<lambda>(c, ids). ids \<noteq> []) (zip (map fst (active_peers n)) rss)"
  define Q where "Q = {(c, i). \<exists>ids. (c, ids) \<in> set ?rs \<and> i \<in> set ids}"
  obtain chosen where f: "fold (schedule_peer BTS_NET_MAX_BLOCKS_PER_PEER_DURING_SYNCING skip) ?peers ([], []) = (chosen, rss)"
    by (metis rss_def schedule_sync_requests_def prod.collapse)
  from schedule_ok [OF _ _ f] have ok: "distinct (concat rss)"
    "list_all2 (\<lambda>p r. set r \<subseteq> {i \<in> set (ids_of_items_to_get p). \<not> skip i}) ?peers rss" by auto
  note free = schedule_asks_free_peers [OF f]
  have len: "length (map fst (active_peers n)) = length rss" using list_all2_lengthD [OF ok(2)] by simp
  have ask: "may_ask n c i \<and> i \<notin> set (active_sync_requests n)" if in_Q: "(c, i) \<in> Q" for c i
  proof -
    obtain k where k: "k < length rss" "c = fst (active_peers n ! k)" "i \<in> set (rss ! k)"
      using in_Q len by (auto simp: Q_def in_set_zip)
    have "active_peers n ! k \<in> set (active_peers n)" using k(1) len by simp
    then have "(c, snd (active_peers n ! k)) \<in> set (connections n)" "connection_list (snd (active_peers n ! k)) = Active"
      by (auto simp: k(2) active_peers_def case_prod_beta)
    moreover have "i \<in> set (ids_of_items_to_get (snd (active_peers n ! k))) \<and> \<not> skip i"
      using list_all2_nthD2 [OF ok(2) k(1)] k(1,3) len by auto
    moreover have "we_need_sync_items_from_peer p \<and> idle p \<and> \<not> inhibit_fetching_sync_blocks p" if "p = snd (active_peers n ! k)" for p
      using free k(1,3) len that by (auto dest!: list_all2_nthD2 [OF _ k(1)])
    ultimately show ?thesis by (auto simp: may_ask_def skip_def)
  qed
  have "fst ` set ?rs \<subseteq> fst ` set (connections n)" by (force simp: active_peers_def dest: set_zip_leftD)
  note view = asks_view [OF this, folded Q_def]
  have "distinct (concat (map snd ?rs))" using ok(1) by (simp only: requests_of_schedule [OF len])
  then have "inj_on snd Q" using asked_of_one [of ?rs] by (fastforce simp: inj_on_def Q_def)
  moreover have "Q \<subseteq> {(c, i). may_ask n c i}" "snd ` Q \<inter> set (active_sync_requests n) = {}" using ask by auto
  moreover have "fetch_sync_items n = fold request_sync_items_from_peer ?rs n" using False by (simp add: fetch_sync_items_def Let_def rss_def skip_def)
  ultimately have "request_effect hash n Fetching_blocks (request_view n) (request_view (fetch_sync_items n))"
    using view(1) False unfolding request_effect_def request_view_def net_event.case prod.case by (intro exI [of _ Q]) simp
  with view(2) assms \<open>fetch_sync_items n = _\<close> show ?thesis by simp
qed

lemma message_effect:
  assumes "on_message X hash elapsed t c m n = Some (r, n')" and d: "distinct_peers n"
  shows "distinct_peers n' \<and> request_effect hash n (Message_arrives c m) (request_view n) (request_view n')"
proof -
  have quiet: "distinct_peers n' \<and> request_view n' = request_view n" if "same_requests n n'" using same_requests_view [OF that d] .
  show ?thesis
  proof (cases m)
    case (Client_message b)
    show ?thesis
    proof (cases b)
      case (Block_message x i)
      then show ?thesis using assms Client_message block_message_effect by (auto simp: on_message_def)
    qed (use assms(1) d Client_message quiet [OF preservesD [OF ordinary_message_same_requests]]
      in \<open>auto simp: on_message_def request_effect_def request_view_def split: if_split_asm\<close>)
  next
    case (Item_not_available i)
    then show ?thesis using assms not_available_effect [OF d, of c i hash] by (auto simp: on_message_def)
  qed (use assms(1) quiet inventory_message_same_requests quiet [OF preservesD [OF receive_fetch_ids_same_requests]]
      quiet [OF preservesD [OF receive_ids_inventory_same_requests]] quiet [OF preservesD [OF fetch_items_message_same_requests]]
    in \<open>auto simp: on_message_def on_closing_connection_message_def same_requests_def request_effect_def request_view_def\<close>)
qed

lemma event_step_effect:
  assumes "event_step X hash ev n n'" and "distinct_peers n"
  shows "distinct_peers n' \<and> request_effect hash n ev (request_view n) (request_view n')"
proof -
  have quiet: "distinct_peers n' \<and> request_effect hash n Other_event (request_view n) (request_view n')"
    if "same_requests n n'" "distinct_peers n" for n n'
    using same_requests_view [OF that] by (simp add: request_effect_def request_view_def)
  show ?thesis
    using assms
  proof (induction rule: event_step.induct)
    case (connect c n)
    then show ?case using connect_view [of c n] by (simp add: request_effect_def request_view_def)
  next
    case (force n c)
    then show ?case by (intro quiet) (simp_all add: move_peer_to_terminating_list_def same_requests_def)
  next
    case (terminate n c p)
    then show ?case by (simp add: terminate_connection_def request_effect_def request_view_def delete_peer)
  next
    case (closed c n)
    then show ?case using connection_closed_view [of n c] by (simp add: request_effect_def request_view_def)
  next
    case (arrives elapsed t c m n r n')
    then show ?case by (rule message_effect)
  next
    case (fetch_blocks n)
    then show ?case by (rule fetch_sync_items_effect)
  next
    case (hand_over m n elapsed r n')
    from quiet [OF preservesD [OF hand_over_same_requests hand_over(2)] hand_over(3)] show ?case .
  next
    case (activate c n r n')
    from quiet [OF preservesD [OF new_peer_same_requests activate(1)] activate(2)] show ?case .
  qed (intro quiet fetch_items_same_requests advertise_inventory_same_requests backlog_same_requests
      broadcast_same_requests disconnect_same_requests; assumption)+
qed

section \<open>A concrete node\<close>

definition sample_client :: client where
  "sample_client = \<lparr> chain_db = chain_node 3, client_sync_mode = False, remaining_items_to_sync = 0,
     simulate_disconnect = False, exception_db = [], pending_trxs = [] \<rparr>"

definition lonely_net :: p2p_node where
  "lonely_net = \<lparr> delegate = sample_client, connections = [], active_sync_requests = [], new_received_sync_items = [],
     received_sync_items = [], handle_message_calls_in_progress = [], suspend_fetching_sync_blocks = False, items_to_fetch = [],
     items_to_fetch_sequence_counter = 0, new_inventory = [], most_recent_blocks_accepted = [],
     total_number_of_unfetched_items = 0, hard_fork_block_numbers = [],
     message_cache = \<lparr> cached_messages = [], block_clock = 0 \<rparr>, outbox = [] \<rparr>"

text \<open>Two peers offer the blocks 41 and 51; both blocks are requested from the first.\<close>

definition asking_net :: p2p_node where
  "asking_net = lonely_net \<lparr> connections := [(1, sample_peer \<lparr> sync_items_requested_from_peer := [41, 51] \<rparr>), (2, sample_peer)],
     active_sync_requests := [41, 51] \<rparr>"

lemma asking_net_ok: "recorded_once (request_view asking_net)" "distinct (map fst (connections asking_net))"
  by (auto simp: recorded_once_def request_view_def outstanding_def requests_def asking_net_def lonely_net_def sample_peer_def
      new_connection_def)

section \<open>Properties\<close>

text \<open>
  C9. What each event does to the blocks requested while synchronising, exactly. A block message from a connection
  that was asked for that block, and not asked for the same message in normal operation, removes this one request and
  the record of the block; an answer that the block is not available removes the request and keeps the
  record; every other message leaves the requests and the records as they are. The loop that fetches blocks
  only adds requests, with their records: for blocks that are not recorded and not received yet, each of
  one connection, and of connections that are active and idle, are not inhibited, and offered the block; it adds none while fetching is
  suspended. A closed connection takes its requests and their records along; a connection that is given up while it
  is being closed takes its requests along and leaves the records. No other task, loop or change of a connection
  touches a request or a record. These events are all the steps a node can do.
\<close>

theorem node_implements_requests:
  assumes "event_step X hash ev n n'" and "distinct (map fst (connections n))"
  shows "distinct (map fst (connections n')) \<and> request_effect hash n ev (request_view n) (request_view n')"
proof -
  have "map fst (requests k) = map fst (connections k)" for k by (simp add: requests_def comp_def case_prod_beta)
  then show ?thesis using event_step_effect [OF assms(1)] assms(2) by (simp add: distinct_peers_def)
qed

text \<open>The first peer declines one of its two blocks, and is then closed.\<close>

theorem node_implements_requests_witness:
  "request_view (on_item_not_available_message 1 (block_message_type, 41) asking_net) = ({(1, 51)}, {41, 51}) \<and>
   request_view (on_connection_closed 1 asking_net) = ({}, {})"
proof -
  have v: "request_view asking_net = ({(1, 41), (1, 51)}, {41, 51})"
    by (auto simp: request_view_def outstanding_def requests_def asking_net_def lonely_net_def sample_peer_def new_connection_def)
  have "\<not> requested_normally asking_net 1 (block_message_type, 41)"
    by (simp add: requested_normally_def get_peer_def asking_net_def lonely_net_def sample_peer_def new_connection_def)
  moreover have "event_step ext_std (\<lambda>m. 0) (Message_arrives 1 (Item_not_available (block_message_type, 41))) asking_net
      (on_item_not_available_message 1 (block_message_type, 41) asking_net)"
    by (rule event_step.arrives [of _ _ 0 0]) (simp add: on_message_def)
  ultimately have "request_view (on_item_not_available_message 1 (block_message_type, 41) asking_net) = ({(1, 51)}, {41, 51})"
    using node_implements_requests [OF _ asking_net_ok(2)] by (fastforce simp: request_effect_def v)
  moreover have "event_step ext_std (\<lambda>m. 0) (Connection_closed 1) asking_net (on_connection_closed 1 asking_net)"
    by (rule event_step.closed)
  from node_implements_requests [OF this asking_net_ok(2)]
  have "request_view (on_connection_closed 1 asking_net) = ({}, {})" by (auto simp: request_effect_def v)
  ultimately show ?thesis by blast
qed

text \<open>
  C8. In every state a node can reach from the start, whatever its peers send and in whatever order its tasks run, a
  block is requested from at most one connection at a time, and every block that is requested from a
  connection is recorded as requested.
\<close>

theorem blocks_are_requested_once:
  assumes "(net_step X hash)\<^sup>*\<^sup>* n0 n" and "connections n0 = []"
    and "get_peer n c = Some p" and "i \<in> set (sync_items_requested_from_peer p)"
  shows "i \<in> set (active_sync_requests n) \<and>
    (\<forall>d q. get_peer n d = Some q \<and> i \<in> set (sync_items_requested_from_peer q) \<longrightarrow> d = c)"
proof -
  have "distinct_peers n0" "recorded_once (request_view n0)"
    using assms(2) by (simp_all add: distinct_peers_def requests_def recorded_once_def request_view_def outstanding_def)
  moreover have "implements n0 n" using assms(1) by (rule net_steps_implement)
  ultimately have "recorded_once (request_view n)"
    using request_steps_invariant [of _ _ recorded_once] recorded_once_step unfolding implements_def by blast
  then show ?thesis using is_outstanding assms(3,4) unfolding recorded_once_def request_view_def by blast
qed

text \<open>A peer connects, offers three blocks of which the first is known, and is asked for the others.\<close>

definition connected_net :: p2p_node where
  "connected_net = lonely_net \<lparr> connections := connections lonely_net @ [(1, new_connection)] \<rparr>"

definition result_of :: "((exn + 'a) \<times> 's) option \<Rightarrow> 's \<Rightarrow> 's" where
  "result_of r s = (case r of Some (v, s') \<Rightarrow> s' | None \<Rightarrow> s)"

definition syncing_net :: p2p_node where
  "syncing_net = result_of (new_peer_just_added ext_std 1 connected_net) connected_net"

definition offer :: net_message where
  "offer = Blockchain_item_ids_inventory \<lparr> total_remaining_item_count = 0, item_hashes_available = [31, 41, 51] \<rparr>"

definition offered_net :: p2p_node where
  "offered_net = result_of (on_message ext_std (\<lambda>m. 0) 0 1000 1 offer syncing_net) syncing_net"

lemma sample_run: "(net_step ext_std (\<lambda>m. 0))\<^sup>*\<^sup>* lonely_net (fetch_sync_items offered_net)"
proof -
  let ?step = "net_step ext_std (\<lambda>m. 0)"
  have 1: "?step lonely_net connected_net" unfolding connected_net_def by (rule net_step.connect) (simp add: lonely_net_def)
  have 2: "?step\<^sup>*\<^sup>* connected_net syncing_net"
    using net_step.activate by (fastforce simp: syncing_net_def result_of_def split: option.split)
  have 3: "?step\<^sup>*\<^sup>* syncing_net offered_net"
    using net_step.arrives by (fastforce simp: offered_net_def result_of_def split: option.split)
  show ?thesis
    using 1 2 3 net_step.fetch_blocks by (meson converse_rtranclp_into_rtranclp rtranclp.rtrancl_into_rtrancl rtranclp_trans)
qed

lemma sample_run_asks: "map_option sync_items_requested_from_peer (get_peer (fetch_sync_items offered_net) 1) = Some [51, 41]"
  by code_simp

theorem blocks_are_requested_once_witness:
  "41 \<in> set (active_sync_requests (fetch_sync_items offered_net))"
proof -
  obtain p where p: "get_peer (fetch_sync_items offered_net) 1 = Some p" "sync_items_requested_from_peer p = [51, 41]"
    using sample_run_asks by (cases "get_peer (fetch_sync_items offered_net) 1") auto
  have "connections lonely_net = []" by (simp add: lonely_net_def)
  from blocks_are_requested_once [OF sample_run this p(1), of 41] p(2) show ?thesis by simp
qed

text \<open>
  C10. A block that a peer declines to send is lost for the synchronisation: the request is removed from the
  connection but the block stays recorded as requested, so in every later state it is recorded as requested
  and requested from no connection, and no other peer is asked for it, however many offer it.
\<close>

theorem declined_block_is_never_fetched:
  assumes "recorded_once (request_view n)" and "distinct (map fst (connections n))"
    and "get_peer n c = Some p" and "i \<in> set (sync_items_requested_from_peer p)"
    and "(block_message_type, i) \<notin> set (items_requested_from_peer p)"
    and "(net_step X hash)\<^sup>*\<^sup>* (on_item_not_available_message c (block_message_type, i) n) n'"
  shows "i \<in> set (active_sync_requests n') \<and>
    (\<forall>d q. get_peer n' d = Some q \<longrightarrow> i \<notin> set (sync_items_requested_from_peer q))"
proof -
  let ?n1 = "on_item_not_available_message c (block_message_type, i) n"
  have "distinct_peers n" using assms(2) by (simp add: distinct_peers_def requests_def comp_def case_prod_beta)
  moreover from this have "distinct_peers (declined c i n)" by (simp add: declined_view)
  moreover have "same_requests (declined c i n) ?n1"
    using assms(3) by (cases rule: not_available_cases [of n c p "(block_message_type, i)"]) (use assms(4,5) in auto)
  ultimately have "distinct_peers ?n1" "request_view ?n1 = request_view (declined c i n)"
    by (simp_all add: same_requests_def distinct_peers_def request_view_def outstanding_def)
  moreover have "forgotten i (request_view (declined c i n))"
    unfolding declined_view using assms(1) is_outstanding [OF assms(3,4)]
    by (auto simp: forgotten_def recorded_once_def request_view_def)
  ultimately have "forgotten i (request_view n')"
    using net_steps_implement [OF assms(6)] request_steps_invariant [of _ _ "forgotten i"] forgotten_step
    unfolding implements_def by metis
  then show ?thesis using is_outstanding unfolding forgotten_def request_view_def by blast
qed

text \<open>The other peer is idle and offers the block, and is not asked.\<close>

theorem declined_block_is_never_fetched_witness:
  "41 \<in> set (active_sync_requests (fetch_sync_items (on_item_not_available_message 1 (block_message_type, 41) asking_net))) \<and>
   ids_of_items_to_get (snd (connections asking_net ! 1)) = [41, 51] \<and> idle (snd (connections asking_net ! 1))"
proof -
  let ?p = "sample_peer \<lparr> sync_items_requested_from_peer := [41, 51] \<rparr>"
  have "get_peer asking_net 1 = Some ?p" by (simp add: get_peer_def asking_net_def lonely_net_def)
  moreover have "(net_step ext_std (\<lambda>m. 0))\<^sup>*\<^sup>* (on_item_not_available_message 1 (block_message_type, 41) asking_net)
      (fetch_sync_items (on_item_not_available_message 1 (block_message_type, 41) asking_net))"
    by (intro r_into_rtranclp net_step.fetch_blocks)
  ultimately show ?thesis
    using declined_block_is_never_fetched [OF asking_net_ok, of 1 ?p 41]
    by (simp add: sample_peer_def new_connection_def asking_net_def idle_def busy_def)
qed

end
