(* ===== verification/Wallet_Db.thy ===== *)
theory Wallet_Db
  imports Blocks
begin

text \<open>
  The database of the wallet (\<^verbatim>\<open>wallet_db.cpp\<close>, \<^verbatim>\<open>wallet_records.hpp\<close>): accounts, keys, balances and
  properties, each a record with an index under which it is stored on disk, and the maps by which the
  wallet finds them. A store writes the record and then loads it into the maps, as the opening of the
  wallet does with every record. Operations are computations on the wallet; an exception keeps what was
  changed before it. The records of transactions and settings, the export to JSON and the synchronous
  writing of the file are left out, and the wallet is open.
\<close>

section \<open>Library\<close>

text \<open>
  Encryption, derivation of keys and random numbers are functions of libraries. Private keys and packed
  keys are numbers; the password \<open>0\<close> is the default-constructed hash.
\<close>

type_synonym private_key = nat
type_synonym password = hash_type

datatype wallet_variant = Null_variant | Int_variant int | Asset_variant asset | Other_variant variant

record wallet_lib =
  public_key_of :: "private_key \<Rightarrow> key"
  aes_encrypt :: "password \<Rightarrow> nat \<Rightarrow> string"
  aes_decrypt :: "password \<Rightarrow> string \<Rightarrow> exn + nat"
  password_hash :: "password \<Rightarrow> hash_type"
  child_key :: "nat \<Rightarrow> 32 word \<Rightarrow> private_key"
  child_key_of_hash :: "nat \<Rightarrow> address \<Rightarrow> 32 word \<Rightarrow> private_key"
  variant_as_int :: "wallet_variant \<Rightarrow> exn + 32 word"
  recommended_slate :: "variant \<Rightarrow> slate_id_type option option"
  random_shuffle :: "account_id_type list \<Rightarrow> nat \<Rightarrow> account_id_type list \<times> nat"
  random_number :: "nat \<Rightarrow> nat \<times> nat"
  titan_owner :: "private_key \<Rightarrow> key \<Rightarrow> address"
  titan_memo_of :: "private_key \<Rightarrow> key \<Rightarrow> private_key \<Rightarrow> string \<Rightarrow> key \<Rightarrow> titan_memo"
  dummy_account_key :: "string \<Rightarrow> exn + key"
  address_string :: "address \<Rightarrow> string"
  pts_address_string :: "nat \<Rightarrow> string"
  order_id_of :: "market_order \<Rightarrow> hash_type"
  sign_compact :: "private_key \<Rightarrow> digest_type \<Rightarrow> signature_type"

definition as_int32 :: "wallet_lib \<Rightarrow> wallet_variant \<Rightarrow> exn + 32 word" where
  "as_int32 W v = (case v of Int_variant i \<Rightarrow> Inr (word_of_int i) | _ \<Rightarrow> variant_as_int W v)"

definition as_asset :: "wallet_variant \<Rightarrow> exn + asset" where
  "as_asset v = (case v of Asset_variant a \<Rightarrow> Inr a | _ \<Rightarrow> Inl bad_cast)"

section \<open>Records\<close>

datatype property_enum = wallet_version | next_record_number | next_child_key_index | automatic_backups
  | transaction_scanning | last_unlocked_scanned_block_number | default_transaction_priority_fee
  | transaction_expiration_sec

record wallet_property =
  property_key :: property_enum
  property_value_of :: wallet_variant
  property_record_index :: "32 word"

record wallet_account = account_record +
  account_address :: address
  private_data :: variant
  is_my_account :: bool
  approved :: "8 word"
  is_favorite :: bool
  block_production_enabled :: bool
  last_used_gen_sequence :: "32 word"
  account_record_index :: "32 word"

abbreviation chain_account :: "wallet_account \<Rightarrow> account_record" where
  "chain_account \<equiv> account_record.truncate"

record master_key =
  encrypted_master_key :: string
  master_checksum :: hash_type
  master_record_index :: "32 word"

record key_data =
  key_account_address :: address
  key_public_key :: key
  encrypted_private_key :: string
  valid_from_signature :: bool
  key_memo :: "string option"
  gen_seq_number :: "32 word"

record wallet_key = key_data +
  key_record_index :: "32 word"

definition has_private_key :: "'x key_data_scheme \<Rightarrow> bool" where
  "has_private_key k \<longleftrightarrow> length (encrypted_private_key k) > 0"

definition key_address :: "ext \<Rightarrow> 'x key_data_scheme \<Rightarrow> address" where
  "key_address X k = address_of_key X (key_public_key k)"

definition new_key_data :: key_data where
  "new_key_data = \<lparr> key_account_address = null_address, key_public_key = null_key, encrypted_private_key = [],
     valid_from_signature = False, key_memo = None, gen_seq_number = 0 \<rparr>"

definition wallet_key_of :: "key_data \<Rightarrow> 32 word \<Rightarrow> wallet_key" where
  "wallet_key_of k i = key_data.extend k \<lparr> key_record_index = i \<rparr>"

definition new_account_record :: account_record where
  "new_account_record = \<lparr> account_id = 0, account_name = [], account_public_data = [], owner_key = null_key,
     active_key_history = [], account_registration_date = 0, account_last_update = 0, delegate_info = None,
     meta_data = None \<rparr>"

text \<open>A wallet account made from a record of the chain.\<close>

definition wallet_account_of :: "account_record \<Rightarrow> wallet_account" where
  "wallet_account_of r = account_record.extend r \<lparr> account_address = null_address, private_data = [],
     is_my_account = False, approved = 0, is_favorite = False, block_production_enabled = False,
     last_used_gen_sequence = 10000, account_record_index = 0 \<rparr>"

text \<open>Assigning the part that \<^verbatim>\<open>blockchain::account_record\<close> declares.\<close>

definition set_chain_account :: "account_record \<Rightarrow> wallet_account \<Rightarrow> wallet_account" where
  "set_chain_account r a = a \<lparr> account_id := account_id r, account_name := account_name r,
     account_public_data := account_public_data r, owner_key := owner_key r,
     active_key_history := active_key_history r, account_registration_date := account_registration_date r,
     account_last_update := account_last_update r, delegate_info := delegate_info r, meta_data := meta_data r \<rparr>"

record wallet_balance = balance_record +
  balance_record_index :: "32 word"

datatype generic_wallet_record =
    Master_key_record master_key
  | Account_record wallet_account
  | Key_record wallet_key
  | Balance_record wallet_balance
  | Property_record wallet_property

fun get_wallet_record_index :: "generic_wallet_record \<Rightarrow> 32 word" where
  "get_wallet_record_index (Master_key_record r) = master_record_index r"
| "get_wallet_record_index (Account_record r) = account_record_index r"
| "get_wallet_record_index (Key_record r) = key_record_index r"
| "get_wallet_record_index (Balance_record r) = balance_record_index r"
| "get_wallet_record_index (Property_record r) = property_record_index r"

fun set_wallet_record_index :: "32 word \<Rightarrow> generic_wallet_record \<Rightarrow> generic_wallet_record" where
  "set_wallet_record_index i (Master_key_record r) = Master_key_record (r \<lparr> master_record_index := i \<rparr>)"
| "set_wallet_record_index i (Account_record r) = Account_record (r \<lparr> account_record_index := i \<rparr>)"
| "set_wallet_record_index i (Key_record r) = Key_record (r \<lparr> key_record_index := i \<rparr>)"
| "set_wallet_record_index i (Balance_record r) = Balance_record (r \<lparr> balance_record_index := i \<rparr>)"
| "set_wallet_record_index i (Property_record r) = Property_record (r \<lparr> property_record_index := i \<rparr>)"

section \<open>State\<close>

record wallet =
  wallet_records :: "(32 word, generic_wallet_record) table"
  wallet_master_key :: "master_key option"
  wallet_accounts :: "(32 word, wallet_account) table"
  wallet_keys :: "(address, wallet_key) table"
  wallet_balances :: "(balance_id_type, wallet_balance) table"
  wallet_properties :: "(property_enum, wallet_property) table"
  address_to_account_index :: "(address, 32 word) table"
  name_to_account_index :: "(string, 32 word) table"
  account_id_to_index :: "(account_id_type, 32 word) table"
  btc_to_bts_address :: "(address, address) table"
  wallet_password :: password
  random_state :: nat

text \<open>Reading the wallet.\<close>

definition readA :: "('s \<Rightarrow> exn + 'a) \<Rightarrow> ('s, 'a) computation" where
  "readA f s = Some (f s, s)"

definition getA :: "('s \<Rightarrow> 'a) \<Rightarrow> ('s, 'a) computation" where
  "getA f s = Some (Inr (f s), s)"

section \<open>Exceptions\<close>

abbreviation wallet_unknown_account :: exn where "wallet_unknown_account \<equiv> Chain_exception 20006"
abbreviation wallet_insufficient_funds :: exn where "wallet_insufficient_funds \<equiv> Chain_exception 20010"
abbreviation wallet_unknown_market_order :: exn where "wallet_unknown_market_order \<equiv> Chain_exception 20011"
abbreviation wallet_invalid_name :: exn where "wallet_invalid_name \<equiv> Chain_exception 20017"
abbreviation wallet_key_already_registered :: exn where "wallet_key_already_registered \<equiv> Chain_exception 20032"
abbreviation wallet_double_cover :: exn where "wallet_double_cover \<equiv> Chain_exception 20033"
abbreviation wallet_private_key_not_found :: exn where "wallet_private_key_not_found \<equiv> Chain_exception 20041"
abbreviation wallet_invalid_cancel :: exn where "wallet_invalid_cancel \<equiv> Chain_exception 20042"

section \<open>Loading records\<close>

definition index_account :: "ext \<Rightarrow> wallet_account \<Rightarrow> wallet \<Rightarrow> wallet" where
  "index_account X a w = w \<lparr>
     wallet_accounts := AList.update (account_record_index a) a (wallet_accounts w),
     address_to_account_index :=
       fold (\<lambda>(t, k). AList.update (address_of_key X k) (account_record_index a)) (in_order (active_key_history a))
         (AList.update (account_address a) (account_record_index a) (address_to_account_index w)) \<rparr>"

definition index_account_id :: "wallet_account \<Rightarrow> (wallet, unit) computation" where
  "index_account_id a =
     (if account_id a = 0 then returnA ()
      else bindA (getA (\<lambda>w. map_of (account_id_to_index w) (account_id a))) (\<lambda>i.
           if i \<noteq> None \<and> i \<noteq> Some (account_record_index a) then raiseA assert_failed
           else modifyA (\<lambda>w. w \<lparr> account_id_to_index :=
                  AList.update (account_id a) (account_record_index a) (account_id_to_index w) \<rparr>)))"

definition load_account_record :: "ext \<Rightarrow> wallet_account \<Rightarrow> (wallet, unit) computation" where
  "load_account_record X a =
     bindA (modifyA (index_account X a)) (\<lambda>_.
     bindA (index_account_id a) (\<lambda>_.
     modifyA (\<lambda>w. w \<lparr> name_to_account_index :=
       AList.update (account_name a) (account_record_index a) (name_to_account_index w) \<rparr>)))"

text \<open>The addresses of other chains under which a key is found: compressed or not, with a version byte.\<close>

definition foreign_addresses :: "ext \<Rightarrow> key \<Rightarrow> (bool \<times> nat) list \<Rightarrow> address list" where
  "foreign_addresses X k = map (\<lambda>(compressed, version). address_of_pts X (pts_address_of_key X k compressed version))"

definition index_key_addresses :: "ext \<Rightarrow> key \<Rightarrow> (bool \<times> nat) list \<Rightarrow> wallet \<Rightarrow> wallet" where
  "index_key_addresses X k versions w = w \<lparr> btc_to_bts_address :=
     fold (\<lambda>a. AList.update a (address_of_key X k)) (address_of_key X k # foreign_addresses X k versions)
       (btc_to_bts_address w) \<rparr>"

definition load_key_record :: "ext \<Rightarrow> wallet_key \<Rightarrow> bool \<Rightarrow> (wallet, unit) computation" where
  "load_key_record X k overwrite =
     bindA (getA (\<lambda>w. map_of (wallet_keys w) (key_address X k))) (\<lambda>old.
     if \<not> overwrite \<and> old \<noteq> None then raiseA assert_failed
     else modifyA (\<lambda>w. index_key_addresses X (key_public_key k)
            [(False, 28), (True, 28), (False, 56), (True, 56), (False, 0), (True, 0)]
            (w \<lparr> wallet_keys := AList.update (key_address X k) k (wallet_keys w) \<rparr>)))"

definition load_generic_record :: "ext \<Rightarrow> generic_wallet_record \<Rightarrow> (wallet, unit) computation" where
  "load_generic_record X g =
     (case g of
        Master_key_record r \<Rightarrow> modifyA (\<lambda>w. w \<lparr> wallet_master_key := Some r \<rparr>)
      | Account_record r \<Rightarrow> load_account_record X r
      | Key_record r \<Rightarrow> load_key_record X r True
      | Balance_record r \<Rightarrow> modifyA (\<lambda>w. w \<lparr> wallet_balances :=
          AList.update (balance_record_id X (balance_record.truncate r)) r (wallet_balances w) \<rparr>)
      | Property_record r \<Rightarrow> modifyA (\<lambda>w. w \<lparr> wallet_properties :=
          AList.update (property_key r) r (wallet_properties w) \<rparr>))"

text \<open>Opening the wallet: a record that does not load is passed over.\<close>

definition close_wallet :: "wallet \<Rightarrow> wallet" where
  "close_wallet w = w \<lparr> wallet_master_key := None, wallet_accounts := [], wallet_keys := [], wallet_balances := [],
     wallet_properties := [], btc_to_bts_address := [], address_to_account_index := [], account_id_to_index := [],
     name_to_account_index := [] \<rparr>"

definition open_wallet :: "ext \<Rightarrow> (wallet, unit) computation" where
  "open_wallet X =
     bindA (getA (\<lambda>w. map snd (sort_key (sint \<circ> fst) (wallet_records w)))) (forA (\<lambda>g.
       catchA (load_generic_record X g) (\<lambda>e. returnA ())))"

section \<open>Storing records\<close>

definition store_generic_record :: "ext \<Rightarrow> generic_wallet_record \<Rightarrow> (wallet, unit) computation" where
  "store_generic_record X g =
     (if get_wallet_record_index g = 0 then raiseA assert_failed
      else bindA (modifyA (\<lambda>w. w \<lparr> wallet_records :=
             AList.update (get_wallet_record_index g) g (wallet_records w) \<rparr>)) (\<lambda>_.
           load_generic_record X g))"

definition get_wallet_property :: "property_enum \<Rightarrow> wallet \<Rightarrow> wallet_variant" where
  "get_wallet_property i w =
     (case map_of (wallet_properties w) i of Some r \<Rightarrow> property_value_of r | None \<Rightarrow> Null_variant)"

text \<open>
  The number of the next record is a property itself, stored under the index \<open>1\<close>. A property record without
  an index would need a new index and so recur for ever.
\<close>

definition set_next_record_number :: "ext \<Rightarrow> wallet_variant \<Rightarrow> (wallet, unit) computation" where
  "set_next_record_number X v w =
     (let r = (case map_of (wallet_properties w) next_record_number of
                 Some r \<Rightarrow> r \<lparr> property_value_of := v \<rparr>
               | None \<Rightarrow> \<lparr> property_key = next_record_number, property_value_of = v, property_record_index = 1 \<rparr>)
      in if property_record_index r = 0 then None else store_generic_record X (Property_record r) w)"

definition new_wallet_record_index :: "wallet_lib \<Rightarrow> ext \<Rightarrow> (wallet, 32 word) computation" where
  "new_wallet_record_index W X =
     bindA (readA (\<lambda>w. case get_wallet_property next_record_number w of
                         Null_variant \<Rightarrow> Inr 2 | v \<Rightarrow> as_int32 W v)) (\<lambda>n.
     bindA (set_next_record_number X (Int_variant (sint (n + 1)))) (\<lambda>_.
     returnA n))"

definition store_wallet_record :: "wallet_lib \<Rightarrow> ext \<Rightarrow> generic_wallet_record \<Rightarrow> (wallet, unit) computation" where
  "store_wallet_record W X g =
     bindA (if get_wallet_record_index g = 0
            then bindA (new_wallet_record_index W X) (\<lambda>i. returnA (set_wallet_record_index i g))
            else returnA g) (store_generic_record X)"

definition set_wallet_property :: "wallet_lib \<Rightarrow> ext \<Rightarrow> property_enum \<Rightarrow> wallet_variant \<Rightarrow> (wallet, unit) computation" where
  "set_wallet_property W X i v =
     (if i = next_record_number then set_next_record_number X v
      else bindA (getA (\<lambda>w. map_of (wallet_properties w) i)) (\<lambda>old.
           bindA (case old of
                    Some r \<Rightarrow> returnA (r \<lparr> property_value_of := v \<rparr>)
                  | None \<Rightarrow> bindA (new_wallet_record_index W X) (\<lambda>n.
                      returnA \<lparr> property_key = i, property_value_of = v, property_record_index = n \<rparr>)) (\<lambda>r.
           store_wallet_record W X (Property_record r))))"

definition remove_item :: "32 word \<Rightarrow> wallet \<Rightarrow> wallet" where
  "remove_item i w = w \<lparr> wallet_records := AList.delete i (wallet_records w) \<rparr>"

section \<open>Lookups\<close>

definition wallet_account_at :: "32 word option \<Rightarrow> wallet \<Rightarrow> exn + wallet_account option" where
  "wallet_account_at i w =
     (case i of
        None \<Rightarrow> Inr None
      | Some j \<Rightarrow> (case map_of (wallet_accounts w) j of Some a \<Rightarrow> Inr (Some a) | None \<Rightarrow> Inl assert_failed))"

definition lookup_account_of_address :: "address \<Rightarrow> wallet \<Rightarrow> exn + wallet_account option" where
  "lookup_account_of_address a w = wallet_account_at (map_of (address_to_account_index w) a) w"

definition lookup_account_of_name :: "string \<Rightarrow> wallet \<Rightarrow> exn + wallet_account option" where
  "lookup_account_of_name s w = wallet_account_at (map_of (name_to_account_index w) s) w"

definition lookup_account_of_id :: "account_id_type \<Rightarrow> wallet \<Rightarrow> exn + wallet_account option" where
  "lookup_account_of_id i w = wallet_account_at (map_of (account_id_to_index w) i) w"

definition lookup_key :: "address \<Rightarrow> wallet \<Rightarrow> wallet_key option" where
  "lookup_key a w =
     (case map_of (btc_to_bts_address w) a of None \<Rightarrow> None | Some b \<Rightarrow> map_of (wallet_keys w) b)"

definition lookup_balance :: "balance_id_type \<Rightarrow> wallet \<Rightarrow> wallet_balance option" where
  "lookup_balance i w = map_of (wallet_balances w) i"

definition address_has_private_key :: "address \<Rightarrow> wallet \<Rightarrow> bool" where
  "address_has_private_key a w =
     (case map_of (wallet_keys w) a of Some k \<Rightarrow> has_private_key k | None \<Rightarrow> False)"

definition get_account_name :: "address \<Rightarrow> wallet \<Rightarrow> exn + string" where
  "get_account_name a w =
     bindE (lookup_account_of_address a w) (\<lambda>r. Inr (case r of Some acct \<Rightarrow> account_name acct | None \<Rightarrow> ''?''))"

section \<open>Accounts and keys\<close>

definition cache_account :: "wallet_lib \<Rightarrow> ext \<Rightarrow> wallet_account \<Rightarrow> (wallet, unit) computation" where
  "cache_account W X a =
     bindA (modifyA (\<lambda>w. w \<lparr> wallet_accounts := AList.update (account_record_index a) a (wallet_accounts w) \<rparr>)) (\<lambda>_.
     bindA (if account_id a \<noteq> 0
            then modifyA (\<lambda>w. w \<lparr>
              account_id_to_index := AList.update (account_id a) (account_record_index a) (account_id_to_index w),
              name_to_account_index := AList.update (account_name a) (account_record_index a) (name_to_account_index w) \<rparr>)
            else returnA ()) (\<lambda>_.
     store_wallet_record W X (Account_record a)))"

definition claim_account :: "wallet_lib \<Rightarrow> ext \<Rightarrow> key_data \<Rightarrow> (wallet, unit) computation" where
  "claim_account W X k =
     (if has_private_key k
      then bindA (readA (lookup_account_of_address (key_account_address k))) (\<lambda>acct.
           case acct of
             Some a \<Rightarrow> cache_account W X (a \<lparr> is_my_account := True \<rparr>)
           | None \<Rightarrow> returnA ())
      else returnA ())"

definition store_key :: "wallet_lib \<Rightarrow> ext \<Rightarrow> key_data \<Rightarrow> (wallet, unit) computation" where
  "store_key W X k =
     bindA (getA (\<lambda>w. map_of (wallet_keys w) (key_address X k))) (\<lambda>old.
     case old of
       Some r \<Rightarrow>
         bindA (modifyA (\<lambda>w. w \<lparr> wallet_keys :=
           AList.update (key_address X k) (wallet_key_of k (key_record_index r)) (wallet_keys w) \<rparr>)) (\<lambda>_.
         bindA (claim_account W X k) (\<lambda>_.
         store_wallet_record W X (Key_record (wallet_key_of k (key_record_index r)))))
     | None \<Rightarrow>
         bindA (new_wallet_record_index W X) (\<lambda>i.
         bindA (modifyA (\<lambda>w. w \<lparr> wallet_keys := AList.update (key_address X k) (wallet_key_of k i) (wallet_keys w) \<rparr>)) (\<lambda>_.
         bindA (store_wallet_record W X (Key_record (wallet_key_of k i))) (\<lambda>_.
         modifyA (index_key_addresses X (key_public_key k) [(False, 56), (True, 56), (False, 0), (True, 0)])))))"

definition decrypt_master_key :: "wallet_lib \<Rightarrow> password \<Rightarrow> master_key \<Rightarrow> exn + nat" where
  "decrypt_master_key W p k =
     (if p = 0 then Inl assert_failed
      else if length (encrypted_master_key k) = 0 then Inl assert_failed
      else aes_decrypt W p (encrypted_master_key k))"

definition encrypt_master_key :: "wallet_lib \<Rightarrow> password \<Rightarrow> nat \<Rightarrow> master_key \<Rightarrow> exn + master_key" where
  "encrypt_master_key W p x k =
     (if p = 0 then Inl assert_failed
      else let k' = k \<lparr> master_checksum := password_hash W p, encrypted_master_key := aes_encrypt W p x \<rparr>
           in bindE (decrypt_master_key W p k') (\<lambda>_. Inr k'))"

definition decrypt_private_key :: "wallet_lib \<Rightarrow> password \<Rightarrow> 'x key_data_scheme \<Rightarrow> exn + private_key" where
  "decrypt_private_key W p k = (if p = 0 then Inl assert_failed else aes_decrypt W p (encrypted_private_key k))"

definition encrypt_private_key ::
    "wallet_lib \<Rightarrow> password \<Rightarrow> private_key \<Rightarrow> 'x key_data_scheme \<Rightarrow> exn + 'x key_data_scheme" where
  "encrypt_private_key W p x k =
     (if p = 0 then Inl assert_failed
      else let k' = k \<lparr> key_public_key := public_key_of W x, encrypted_private_key := aes_encrypt W p x \<rparr>
           in bindE (decrypt_private_key W p k') (\<lambda>y. if x = y then Inr k' else Inl assert_failed))"

definition new_key_child_index :: "wallet_lib \<Rightarrow> ext \<Rightarrow> address \<Rightarrow> (wallet, 32 word) computation" where
  "new_key_child_index W X a =
     bindA (readA (lookup_account_of_address a)) (\<lambda>acct.
     case acct of
       Some r \<Rightarrow>
         let r' = r \<lparr> last_used_gen_sequence := last_used_gen_sequence r + 1 \<rparr>
         in bindA (cache_account W X r') (\<lambda>_. returnA (last_used_gen_sequence r'))
     | None \<Rightarrow>
         bindA (readA (\<lambda>w. case get_wallet_property next_child_key_index w of
                             Null_variant \<Rightarrow> Inr 1 | v \<Rightarrow> as_int32 W v)) (\<lambda>n.
         bindA (set_wallet_property W X next_child_key_index (Int_variant (sint (n + 1)))) (\<lambda>_.
         returnA n)))"

definition new_private_key :: "wallet_lib \<Rightarrow> ext \<Rightarrow> password \<Rightarrow> address \<Rightarrow> bool \<Rightarrow> (wallet, private_key) computation" where
  "new_private_key W X p parent stores_key =
     bindA (readA (\<lambda>w. of_option assert_failed (wallet_master_key w))) (\<lambda>master.
     bindA (liftE (decrypt_master_key W p master)) (\<lambda>x.
     bindA (new_key_child_index W X parent) (\<lambda>i.
     let new_priv_key = (if sint i \<ge> 10000 then child_key_of_hash W x parent i else child_key W x i)
     in if \<not> stores_key then returnA new_priv_key
        else bindA (liftE (encrypt_private_key W p new_priv_key (new_key_data \<lparr> key_account_address := parent \<rparr>))) (\<lambda>k.
             let k' = k \<lparr> gen_seq_number := i,
                   key_account_address := (if parent = null_address then key_address X k else key_account_address k) \<rparr>
             in bindA (store_key W X k') (\<lambda>_. returnA new_priv_key)))))"

definition validate_password :: "wallet_lib \<Rightarrow> password \<Rightarrow> wallet \<Rightarrow> exn + bool" where
  "validate_password W p w =
     (case wallet_master_key w of None \<Rightarrow> Inl assert_failed | Some k \<Rightarrow> Inr (master_checksum k = password_hash W p))"

definition set_master_key :: "wallet_lib \<Rightarrow> ext \<Rightarrow> nat \<Rightarrow> password \<Rightarrow> (wallet, unit) computation" where
  "set_master_key W X x p =
     bindA (liftE (encrypt_master_key W p x
              \<lparr> encrypted_master_key = [], master_checksum = 0, master_record_index = - 1 \<rparr>)) (\<lambda>k.
     store_wallet_record W X (Master_key_record k))"

definition reencrypt_key ::
    "wallet_lib \<Rightarrow> ext \<Rightarrow> password \<Rightarrow> password \<Rightarrow> address \<times> wallet_key \<Rightarrow> (wallet, unit) computation" where
  "reencrypt_key W X old_password new_password = (\<lambda>(a, k).
     if \<not> has_private_key k then returnA ()
     else bindA (liftE (bindE (decrypt_private_key W old_password k) (\<lambda>x.
                        encrypt_private_key W new_password x k))) (\<lambda>k'.
          store_wallet_record W X (Key_record k')))"

definition change_password :: "wallet_lib \<Rightarrow> ext \<Rightarrow> password \<Rightarrow> password \<Rightarrow> (wallet, unit) computation" where
  "change_password W X old_password new_password =
     bindA (readA (\<lambda>w. of_option assert_failed (wallet_master_key w))) (\<lambda>k.
     bindA (liftE (decrypt_master_key W old_password k)) (\<lambda>old_key.
     bindA (set_master_key W X old_key new_password) (\<lambda>_.
     bindA (getA wallet_keys) (forA (reencrypt_key W X old_password new_password)))))"

text \<open>The two ways to add an account: a record of the chain, or a name with a key.\<close>

definition new_contact_key :: "key \<Rightarrow> address \<Rightarrow> key_data" where
  "new_contact_key k a = new_key_data \<lparr> key_account_address := a, key_public_key := k \<rparr>"

definition add_contact_key :: "wallet_lib \<Rightarrow> ext \<Rightarrow> key \<Rightarrow> address \<Rightarrow> (wallet, unit) computation" where
  "add_contact_key W X k a =
     bindA (new_wallet_record_index W X) (\<lambda>i.
     bindA (load_key_record X (wallet_key_of (new_contact_key k a) i) False) (\<lambda>_.
     store_key W X (new_contact_key k a)))"

definition add_chain_account :: "wallet_lib \<Rightarrow> ext \<Rightarrow> account_record \<Rightarrow> variant \<Rightarrow> (wallet, unit) computation" where
  "add_chain_account W X r pd =
     (let a = address_of_key X (owner_key r)
      in bindA (new_wallet_record_index W X) (\<lambda>i.
         bindA (getA (address_has_private_key a)) (\<lambda>mine.
         bindA (store_wallet_record W X (Account_record ((wallet_account_of r)
                  \<lparr> private_data := pd, account_address := a, account_record_index := i, is_my_account := mine \<rparr>))) (\<lambda>_.
         bindA (getA (lookup_key a)) (\<lambda>current_key.
         case current_key of
           Some k \<Rightarrow> store_wallet_record W X (Key_record (k \<lparr> key_account_address := a \<rparr>))
         | None \<Rightarrow>
             bindA (add_contact_key W X (owner_key r) a) (\<lambda>_.
             forA (\<lambda>(t, k). if k = owner_key r then returnA () else add_contact_key W X k a)
               (in_order (active_key_history r))))))))"

definition add_account :: "wallet_lib \<Rightarrow> ext \<Rightarrow> time_point_sec \<Rightarrow> string \<Rightarrow> key \<Rightarrow> variant \<Rightarrow> (wallet, unit) computation" where
  "add_account W X t name k pd =
     (let a = address_of_key X k
      in bindA (getA (\<lambda>w. map_of (name_to_account_index w) name)) (\<lambda>i.
         if i \<noteq> None then raiseA assert_failed
         else bindA (getA (\<lambda>w. map_of (address_to_account_index w) a)) (\<lambda>j.
         if j \<noteq> None then raiseA assert_failed
         else bindA (liftE (set_active_key t k (new_account_record \<lparr> account_name := name, owner_key := k \<rparr>))) (\<lambda>r.
         bindA (new_wallet_record_index W X) (\<lambda>n.
         bindA (getA (address_has_private_key a)) (\<lambda>mine.
         bindA (store_wallet_record W X (Account_record ((wallet_account_of r)
                  \<lparr> private_data := pd, account_address := a, account_record_index := n, is_my_account := mine \<rparr>))) (\<lambda>_.
         bindA (getA (lookup_key a)) (\<lambda>current_key.
         case current_key of
           Some ck \<Rightarrow> store_wallet_record W X (Key_record (ck \<lparr> key_account_address := a \<rparr>))
         | None \<Rightarrow> add_contact_key W X k a))))))))"

text \<open>Reading a missing name with the index operator of the map enters it with the index \<open>0\<close>.\<close>

definition forget_old_name :: "string \<Rightarrow> 32 word \<Rightarrow> (string, 32 word) table \<Rightarrow> (string, 32 word) table" where
  "forget_old_name name i t =
     (let t' = (if map_of t name = None then AList.update name 0 t else t)
      in if map_of t' name = Some i then AList.delete name t' else t')"

definition rename_account :: "wallet_lib \<Rightarrow> ext \<Rightarrow> key \<Rightarrow> string \<Rightarrow> (wallet, unit) computation" where
  "rename_account W X old_key new_name =
     bindA (readA (\<lambda>w. bindE (lookup_account_of_address (address_of_key X old_key) w) (of_option assert_failed))) (\<lambda>old.
     let i = account_record_index old;
         acct = old \<lparr> account_name := new_name \<rparr>
     in bindA (modifyA (\<lambda>w. w \<lparr> name_to_account_index := AList.update new_name i (name_to_account_index w) \<rparr>)) (\<lambda>_.
        bindA (modifyA (\<lambda>w. w \<lparr> name_to_account_index := forget_old_name (account_name old) i (name_to_account_index w) \<rparr>)) (\<lambda>_.
        bindA (modifyA (\<lambda>w. w \<lparr>
          wallet_accounts := AList.update i acct (wallet_accounts w),
          address_to_account_index :=
            fold (\<lambda>(t, k). AList.update (address_of_key X k) i) (in_order (active_key_history acct))
              (AList.update (address_of_key X (owner_key acct)) i (address_to_account_index w)) \<rparr>)) (\<lambda>_.
        store_wallet_record W X (Account_record acct)))))"

definition remove_contact_account :: "ext \<Rightarrow> string \<Rightarrow> (wallet, unit) computation" where
  "remove_contact_account X name =
     bindA (readA (\<lambda>w. bindE (lookup_account_of_name name w) (of_option assert_failed))) (\<lambda>acct.
     bindA (getA (address_has_private_key (address_of_key X (owner_key acct)))) (\<lambda>mine.
     if mine then raiseA assert_failed
     else
       let addresses = map (\<lambda>(t, k). address_of_key X k) (in_order (active_key_history acct)) @ [address_of_key X (owner_key acct)]
       in modifyA (\<lambda>w. (remove_item (account_record_index acct) w) \<lparr>
            wallet_keys := fold AList.delete addresses (wallet_keys w),
            address_to_account_index := fold AList.delete addresses (address_to_account_index w),
            account_id_to_index := AList.delete (account_id acct) (account_id_to_index w),
            name_to_account_index := AList.delete name (name_to_account_index w),
            wallet_accounts := AList.delete (account_record_index acct) (wallet_accounts w) \<rparr>)))"

section \<open>Balances\<close>

definition cache_balance :: "wallet_lib \<Rightarrow> ext \<Rightarrow> balance_record \<Rightarrow> (wallet, unit) computation" where
  "cache_balance W X r =
     bindA (getA (lookup_balance (balance_record_id X r))) (\<lambda>current.
     bindA (case current of
              None \<Rightarrow> new_wallet_record_index W X
            | Some b \<Rightarrow> returnA (balance_record_index b)) (\<lambda>i.
     store_wallet_record W X (Balance_record (balance_record.extend r \<lparr> balance_record_index = i \<rparr>))))"

text \<open>A balance that is not known removes the item with index \<open>0\<close>, which does not exist.\<close>

definition remove_balance :: "balance_id_type \<Rightarrow> wallet \<Rightarrow> wallet" where
  "remove_balance i w =
     (let j = (case map_of (wallet_balances w) i of Some b \<Rightarrow> balance_record_index b | None \<Rightarrow> 0)
      in (remove_item j w) \<lparr> wallet_balances := AList.delete i (wallet_balances w) \<rparr>)"

end
