(* ===== verification/Wallet.thy ===== *)
theory Wallet
  imports Wallet_Db
begin

text \<open>
  The wallet on top of its database (\<^verbatim>\<open>wallet.cpp\<close>): contacts and their approval, the balances of
  the accounts, the choice of the delegates to vote for, transaction fees, who must sign, and the
  withdrawal of an amount from the balances of an account. \<open>N\<close> is the node whose ledger the
  wallet reads. Private data that is empty stands for null.
\<close>

section \<open>The ledger the wallet reads\<close>

definition wallet_ledger :: "node \<Rightarrow> chain" where
  "wallet_ledger N = Database (ledger_db N)"

definition get_pending_state :: "node \<Rightarrow> chain" where
  "get_pending_state N = Pending (pending_trx_state N) (wallet_ledger N)"

section \<open>Accounts\<close>

definition create_dummy_account :: "ext \<Rightarrow> time_point_sec \<Rightarrow> string \<Rightarrow> key \<Rightarrow> exn + wallet_account" where
  "create_dummy_account X t name k =
     bindE (set_active_key t k (new_account_record \<lparr> account_name := name, owner_key := k \<rparr>)) (\<lambda>r.
     Inr ((wallet_account_of r) \<lparr> account_address := address_of_key X k \<rparr>))"

text \<open>The account as the chain has it, when the wallet has the same owner for the name.\<close>

definition get_account :: "wallet_lib \<Rightarrow> ext \<Rightarrow> node \<Rightarrow> string \<Rightarrow> (wallet, wallet_account) computation" where
  "get_account W X N name =
     (if \<not> is_valid_account_name X name
      then (case bindE (dummy_account_key W name) (create_dummy_account X (wall_clock (ledger_db N)) name) of
              Inr a \<Rightarrow> returnA a | Inl e \<Rightarrow> raiseA wallet_invalid_name)
      else bindA (readA (lookup_account_of_name name)) (\<lambda>local_account.
           case (local_account, get_account_record_of_name (wallet_ledger N) name) of
             (None, None) \<Rightarrow> raiseA wallet_unknown_account
           | (None, Some r) \<Rightarrow> returnA (wallet_account_of r)
           | (Some a, None) \<Rightarrow> returnA a
           | (Some a, Some r) \<Rightarrow>
               if owner_key a = owner_key r
               then bindA (cache_account W X (set_chain_account r a)) (\<lambda>_. returnA (set_chain_account r a))
               else returnA a))"

definition merge_contact :: "account_record option \<Rightarrow> variant \<Rightarrow> wallet_account \<Rightarrow> wallet_account" where
  "merge_contact registered pd a =
     (let a' = (case registered of Some r \<Rightarrow> set_chain_account r a | None \<Rightarrow> a)
      in if pd = [] then a' else a' \<lparr> private_data := pd \<rparr>)"

definition add_contact_account ::
    "wallet_lib \<Rightarrow> ext \<Rightarrow> node \<Rightarrow> string \<Rightarrow> key \<Rightarrow> variant \<Rightarrow> (wallet, unit) computation" where
  "add_contact_account W X N name k pd =
     (let registered = get_account_record_of_name (wallet_ledger N) name
      in if \<not> is_valid_account_name X name then raiseA wallet_invalid_name
         else if (case registered of Some r \<Rightarrow> owner_key r \<noteq> k | None \<Rightarrow> False) then raiseA wallet_invalid_name
         else bindA (readA (lookup_account_of_name name)) (\<lambda>current.
              case current of
                Some a \<Rightarrow> if account_address a \<noteq> address_of_key X k then raiseA assert_failed
                          else cache_account W X (merge_contact registered pd a)
              | None \<Rightarrow>
                  bindA (readA (lookup_account_of_address (address_of_key X k))) (\<lambda>other.
                  case other of
                    Some a \<Rightarrow> if account_name a \<noteq> name then raiseA (Chain_exception 20038)
                              else cache_account W X (merge_contact registered pd a)
                  | None \<Rightarrow>
                      (case registered of
                         Some r \<Rightarrow> add_chain_account W X r pd
                       | None \<Rightarrow> add_account W X (wall_clock (ledger_db N)) name k pd))))"

text \<open>
  An account that is on the chain only is added as a contact, and the function calls itself; the
  second call finds the account, a third one is not made.
\<close>

primrec approve_account ::
    "nat \<Rightarrow> wallet_lib \<Rightarrow> ext \<Rightarrow> node \<Rightarrow> string \<Rightarrow> 8 word \<Rightarrow> (wallet, unit) computation" where
  "approve_account 0 W X N name approval = (\<lambda>w. None)"
| "approve_account (Suc n) W X N name approval =
     bindA (readA (lookup_account_of_name name)) (\<lambda>war.
     case war of
       Some a \<Rightarrow> cache_account W X (a \<lparr> approved := approval \<rparr>)
     | None \<Rightarrow>
         (case get_account_record_of_name (wallet_ledger N) name of
            None \<Rightarrow> raiseA wallet_unknown_account
          | Some r \<Rightarrow>
              bindA (add_contact_account W X N name (owner_key r) []) (\<lambda>_.
              approve_account n W X N name approval)))"

definition set_account_approval ::
    "wallet_lib \<Rightarrow> ext \<Rightarrow> node \<Rightarrow> string \<Rightarrow> 8 word \<Rightarrow> (wallet, unit) computation" where
  "set_account_approval = approve_account 2"

definition get_private_key :: "wallet_lib \<Rightarrow> address \<Rightarrow> wallet \<Rightarrow> exn + private_key" where
  "get_private_key W a w =
     (case lookup_key a w of
        None \<Rightarrow> Inl assert_failed
      | Some k \<Rightarrow> if \<not> has_private_key k then Inl assert_failed else decrypt_private_key W (wallet_password w) k)"

definition create_one_time_key :: "wallet_lib \<Rightarrow> ext \<Rightarrow> (wallet, private_key) computation" where
  "create_one_time_key W X = bindA (getA wallet_password) (\<lambda>p. new_private_key W X p null_address True)"

section \<open>Balances\<close>

definition sync_balance :: "wallet_lib \<Rightarrow> ext \<Rightarrow> balance_id_type \<Rightarrow> balance_record option \<Rightarrow> (wallet, unit) computation" where
  "sync_balance W X i r =
     (case r of
        None \<Rightarrow> modifyA (remove_balance i)
      | Some b \<Rightarrow> if balance b = 0 then modifyA (remove_balance i) else cache_balance W X b)"

definition sync_balance_with_blockchain :: "wallet_lib \<Rightarrow> ext \<Rightarrow> node \<Rightarrow> balance_id_type \<Rightarrow> (wallet, unit) computation" where
  "sync_balance_with_blockchain W X N i = sync_balance W X i (get_balance_record (get_pending_state N) i)"

text \<open>The balances of one account, or of all, by the name of the account.\<close>

type_synonym balance_summary = "(string, balance_record list) table"

definition push_record :: "string \<Rightarrow> 'r \<Rightarrow> (string, 'r list) table \<Rightarrow> (string, 'r list) table" where
  "push_record name r t = AList.update name ((case map_of t name of Some rs \<Rightarrow> rs | None \<Rightarrow> []) @ [r]) t"

definition name_of_key :: "wallet_lib \<Rightarrow> wallet_key \<Rightarrow> wallet \<Rightarrow> exn + string" where
  "name_of_key W k w =
     bindE (lookup_account_of_address (key_account_address k) w) (\<lambda>acct.
     Inr (case acct of Some a \<Rightarrow> account_name a | None \<Rightarrow> address_string W (key_account_address k)))"

definition scan_balance ::
    "wallet_lib \<Rightarrow> ext \<Rightarrow> node \<Rightarrow> string \<Rightarrow> bool \<Rightarrow> balance_record \<Rightarrow> balance_summary \<Rightarrow> (wallet, balance_summary) computation" where
  "scan_balance W X N wanted include_empty r found =
     bindA (getA (lookup_key (balance_owner r))) (\<lambda>key_record.
     case key_record of
       None \<Rightarrow> returnA found
     | Some k \<Rightarrow>
         if \<not> has_private_key k then returnA found
         else bindA (readA (name_of_key W k)) (\<lambda>name.
              if wanted \<noteq> [] \<and> name \<noteq> wanted then returnA found
              else case get_balance_record (get_pending_state N) (balance_record_id X r) of
                     None \<Rightarrow> returnA found
                   | Some p \<Rightarrow>
                       if \<not> include_empty \<and> balance p = 0 then returnA found
                       else bindA (sync_balance W X (balance_record_id X r) (Some p)) (\<lambda>_.
                            returnA (push_record name p found))))"

primrec foldA :: "('x \<Rightarrow> 'a \<Rightarrow> ('s, 'a) computation) \<Rightarrow> 'x list \<Rightarrow> 'a \<Rightarrow> ('s, 'a) computation" where
  "foldA f [] a = returnA a"
| "foldA f (x # xs) a = bindA (f x a) (foldA f xs)"

definition get_account_balance_records ::
    "wallet_lib \<Rightarrow> ext \<Rightarrow> node \<Rightarrow> string \<Rightarrow> bool \<Rightarrow> (wallet, balance_summary) computation" where
  "get_account_balance_records W X N name include_empty =
     bindA (if name \<noteq> [] then bindA (get_account W X N name) (\<lambda>_. returnA ()) else returnA ()) (\<lambda>_.
     foldA (scan_balance W X N name include_empty) (map snd (in_order (balance_db (ledger_db N)))) [])"

definition add_amount :: "'k \<Rightarrow> share_type \<Rightarrow> ('k, share_type) table \<Rightarrow> ('k, share_type) table" where
  "add_amount k v t = AList.update k ((case map_of t k of Some a \<Rightarrow> a | None \<Rightarrow> 0) + v) t"

definition balances_by_asset :: "balance_record list \<Rightarrow> (asset_id_type, share_type) table" where
  "balances_by_asset rs = fold (\<lambda>r. add_amount (asset_id (get_balance r)) (amount (get_balance r))) rs []"

definition get_account_balances ::
    "wallet_lib \<Rightarrow> ext \<Rightarrow> node \<Rightarrow> string \<Rightarrow> bool \<Rightarrow> (wallet, (string, (asset_id_type, share_type) table) table) computation" where
  "get_account_balances W X N name include_empty =
     bindA (get_account_balance_records W X N name include_empty) (\<lambda>items.
     returnA (map (\<lambda>(n, rs). (n, balances_by_asset rs)) items))"

section \<open>Voting\<close>

datatype vote_selection_method = vote_none | vote_all | vote_random | vote_recommended

type_synonym candidate_ranks = "(account_id_type, int) table"

definition recommend :: "account_id_type \<Rightarrow> candidate_ranks \<Rightarrow> candidate_ranks" where
  "recommend i t = AList.update i ((case map_of t i of Some r \<Rightarrow> r | None \<Rightarrow> 0) + 1) t"

text \<open>A delegate whose recommendation cannot be read loses the approval of the wallet.\<close>

definition tally_recommendations ::
    "wallet_lib \<Rightarrow> ext \<Rightarrow> node \<Rightarrow> account_id_type \<Rightarrow> candidate_ranks \<Rightarrow> (wallet, candidate_ranks) computation" where
  "tally_recommendations W X N i ranks =
     (case get_account_record (wallet_ledger N) i of
        None \<Rightarrow> raiseA assert_failed
      | Some r \<Rightarrow>
          (case recommended_slate W (account_public_data r) of
             None \<Rightarrow> returnA ranks
           | Some None \<Rightarrow> bindA (set_account_approval W X N (account_name r) (- 1)) (\<lambda>_. returnA ranks)
           | Some (Some s) \<Rightarrow>
               (case get_delegate_slate (wallet_ledger N) s of
                  None \<Rightarrow> bindA (set_account_approval W X N (account_name r) (- 1)) (\<lambda>_. returnA ranks)
                | Some slate \<Rightarrow> returnA (fold recommend slate ranks))))"

text \<open>The candidate with the highest positive rank, the first one among equals.\<close>

definition best_candidate :: "candidate_ranks \<Rightarrow> account_id_type" where
  "best_candidate ranks = snd (fold (\<lambda>(i, r) (best_rank, best). if r > best_rank then (r, i) else (best_rank, best)) ranks (0, 0))"

text \<open>
  Filling the slate with the best recommendations. The loop ends because a candidate with a positive rank is
  removed; if all ranks were negative the loop would not end.
\<close>

partial_function (option) fill_slate :: "account_id_type list \<Rightarrow> candidate_ranks \<Rightarrow> account_id_type list option" where
  "fill_slate candidates ranks =
     (if length candidates < BTS_BLOCKCHAIN_MAX_SLATE_SIZE \<and> length ranks > 0
      then fill_slate (candidates @ [best_candidate ranks]) (AList.delete (best_candidate ranks) ranks)
      else Some candidates)"

declare fill_slate.simps [code]

definition add_recommended ::
    "wallet_lib \<Rightarrow> ext \<Rightarrow> node \<Rightarrow> wallet_account list \<Rightarrow> account_id_type list \<Rightarrow> (wallet, account_id_type list) computation" where
  "add_recommended W X N accounts candidates =
     bindA (foldA (tally_recommendations W X N) candidates []) (\<lambda>ranks.
     let kept = fold (\<lambda>a t. if \<not> is_delegate (chain_account a) \<or> sint (approved a) < 0 then AList.delete (account_id a) t else t)
                  accounts ranks;
         others = fold AList.delete candidates kept
     in bindA (liftE (foldE (\<lambda>i ds. case get_account_record (wallet_ledger N) i of
                                       None \<Rightarrow> Inl undefined_behaviour
                                     | Some r \<Rightarrow> Inr (if is_delegate r then ds @ [i] else ds)) candidates [])) (\<lambda>delegates.
        \<lambda>w. map_option (\<lambda>slate. (Inr slate, w)) (fill_slate delegates others)))"

definition approved_candidates :: "vote_selection_method \<Rightarrow> wallet_account list \<Rightarrow> account_id_type list" where
  "approved_candidates m accounts =
     map account_id (filter (\<lambda>a. (is_delegate (chain_account a) \<or> m = vote_recommended) \<and> sint (approved a) > 0) accounts)"

definition draw :: "(nat \<Rightarrow> 'a \<times> nat) \<Rightarrow> (wallet, 'a) computation" where
  "draw f w = Some (Inr (fst (f (random_state w))), w \<lparr> random_state := snd (f (random_state w)) \<rparr>)"

definition select_delegate_vote ::
    "wallet_lib \<Rightarrow> ext \<Rightarrow> node \<Rightarrow> vote_selection_method \<Rightarrow> (wallet, delegate_slate) computation" where
  "select_delegate_vote W X N m =
     (if m = vote_none then returnA []
      else bindA (getA (\<lambda>w. map snd (wallet_accounts w))) (\<lambda>accounts.
           bindA (draw (random_shuffle W (approved_candidates m accounts))) (\<lambda>candidates.
           bindA (if m = vote_all then returnA (take BTS_BLOCKCHAIN_MAX_SLATE_SIZE candidates)
                  else if m = vote_random
                  then bindA (draw (random_number W)) (\<lambda>k.
                       returnA (take (k mod (min (BTS_BLOCKCHAIN_MAX_SLATE_SIZE div 3) (length candidates) + 1)) candidates))
                  else if m = vote_recommended \<and> length candidates < BTS_BLOCKCHAIN_MAX_SLATE_SIZE
                  then add_recommended W X N accounts candidates
                  else returnA []) (\<lambda>chosen.
           if length chosen > BTS_BLOCKCHAIN_MAX_SLATE_SIZE then raiseA assert_failed
           else returnA (sort chosen)))))"

section \<open>Building transactions\<close>

type_synonym transaction_step = "signed_transaction \<Rightarrow> exn + signed_transaction"

definition push_operation :: "operation \<Rightarrow> signed_transaction \<Rightarrow> signed_transaction" where
  "push_operation op t = t \<lparr> trx_operations := trx_operations t @ [op] \<rparr>"

definition define_delegate_slate :: "delegate_slate \<Rightarrow> transaction_step" where
  "define_delegate_slate s t =
     (if \<not> length s > 0 then Inl assert_failed
      else Inr (push_operation (Balance_op (Define_delegate_slate_operation s)) t))"

definition trx_bid :: "asset \<Rightarrow> price \<Rightarrow> address \<Rightarrow> signed_transaction \<Rightarrow> signed_transaction" where
  "trx_bid a p o' = push_operation (Market_op (Bid_operation (amount a) (Market_index_key p o')))"

definition trx_ask :: "asset \<Rightarrow> price \<Rightarrow> address \<Rightarrow> signed_transaction \<Rightarrow> signed_transaction" where
  "trx_ask a p o' = push_operation (Market_op (Ask_operation (amount a) (Market_index_key p o')))"

definition trx_short_sell :: "asset \<Rightarrow> price \<Rightarrow> address \<Rightarrow> price option \<Rightarrow> signed_transaction \<Rightarrow> signed_transaction" where
  "trx_short_sell a rate o' lim = push_operation (Market_op (Short_operation (amount a) (Market_index_key rate o') lim))"

definition trx_cover :: "asset \<Rightarrow> market_index_key \<Rightarrow> signed_transaction \<Rightarrow> signed_transaction" where
  "trx_cover a k = push_operation (Market_op (Cover_operation (amount a) k None))"

definition trx_withdraw :: "balance_id_type \<Rightarrow> share_type \<Rightarrow> transaction_step" where
  "trx_withdraw i v t =
     (if \<not> sint v > 0 then Inl assert_failed else Inr (push_operation (Balance_op (Withdraw_operation i v [])) t))"

definition trx_withdraw_pay :: "account_id_type \<Rightarrow> share_type \<Rightarrow> transaction_step" where
  "trx_withdraw_pay i v t =
     (if \<not> sint v > 0 then Inl assert_failed else Inr (push_operation (Account_op (Withdraw_pay_operation v i)) t))"

text \<open>A deposit to an address needs a positive amount, one with a memo does not check it.\<close>

definition trx_deposit :: "address \<Rightarrow> asset \<Rightarrow> slate_id_type \<Rightarrow> transaction_step" where
  "trx_deposit o' a s t =
     (if \<not> sint (amount a) > 0 then Inl assert_failed
      else Inr (push_operation (Balance_op (Deposit_operation (amount a)
             \<lparr> condition_asset_id = asset_id a, delegate_slate_id = s, condition_data = Withdraw_with_signature o' None \<rparr>)) t))"

definition trx_deposit_to_account ::
    "wallet_lib \<Rightarrow> key \<Rightarrow> asset \<Rightarrow> private_key \<Rightarrow> string \<Rightarrow> slate_id_type \<Rightarrow> key \<Rightarrow> private_key \<Rightarrow>
     signed_transaction \<Rightarrow> signed_transaction" where
  "trx_deposit_to_account W receiver a sender memo s memo_key one_time =
     push_operation (Balance_op (Deposit_operation (amount a)
       \<lparr> condition_asset_id = asset_id a, delegate_slate_id = s,
         condition_data = Withdraw_with_signature (titan_owner W one_time receiver)
           (Some (titan_memo_of W one_time receiver sender memo memo_key)) \<rparr>))"

definition trx_update_account ::
    "account_id_type \<Rightarrow> 8 word \<Rightarrow> variant option \<Rightarrow> key option \<Rightarrow> signed_transaction \<Rightarrow> signed_transaction" where
  "trx_update_account i rate pd k = push_operation (Account_op (Update_account_operation i pd k rate))"

definition trx_claim :: "ext \<Rightarrow> balance_record \<Rightarrow> account_record \<Rightarrow> pts_address \<Rightarrow> signature_type \<Rightarrow> signed_transaction \<Rightarrow> signed_transaction" where
  "trx_claim X b recipient src sig =
     push_operation (Balance_op (Claim_operation (balance_record_id X b) (amount (get_balance b)) src (active_key recipient) sig))"

definition select_slate ::
    "wallet_lib \<Rightarrow> ext \<Rightarrow> node \<Rightarrow> asset_id_type \<Rightarrow> vote_selection_method \<Rightarrow> signed_transaction \<Rightarrow>
     (wallet, slate_id_type \<times> signed_transaction) computation" where
  "select_slate W X N i m t =
     (if i \<noteq> 0 then returnA (0, t)
      else bindA (select_delegate_vote W X N m) (\<lambda>slate.
           let s = slate_id X slate
           in if s \<noteq> 0 \<and> get_delegate_slate (wallet_ledger N) s = None
              then bindA (liftE (define_delegate_slate slate t)) (\<lambda>t'. returnA (s, t'))
              else returnA (s, t)))"

section \<open>Fees\<close>

definition BTS_WALLET_DEFAULT_TRANSACTION_FEE :: share_type where
  "BTS_WALLET_DEFAULT_TRANSACTION_FEE = 100000"

definition set_transaction_fee :: "wallet_lib \<Rightarrow> ext \<Rightarrow> asset \<Rightarrow> (wallet, unit) computation" where
  "set_transaction_fee W X fee =
     (if sint (amount fee) < 0 \<or> asset_id fee \<noteq> 0 then raiseA (Chain_exception 20031)
      else set_wallet_property W X default_transaction_priority_fee (Asset_variant fee))"

definition priority_fee :: "wallet \<Rightarrow> asset" where
  "priority_fee w =
     (case as_asset (get_wallet_property default_transaction_priority_fee w) of
        Inr a \<Rightarrow> a | Inl e \<Rightarrow> asset_of BTS_WALLET_DEFAULT_TRANSACTION_FEE 0)"

definition get_transaction_fee :: "ext \<Rightarrow> node \<Rightarrow> asset_id_type \<Rightarrow> wallet \<Rightarrow> exn + asset" where
  "get_transaction_fee X N i w =
     (if i = 0 then Inr (priority_fee w)
      else case get_asset_record (wallet_ledger N) i of
             None \<Rightarrow> Inl assert_failed
           | Some r \<Rightarrow>
               if \<not> is_market_issued r then Inr (priority_fee w)
               else bindE (get_median_delegate_price (wallet_ledger N) i 0) (\<lambda>median.
                    case median of
                      None \<Rightarrow> Inr (priority_fee w)
                    | Some pr \<Rightarrow>
                        bindE (asset_add (priority_fee w) (priority_fee w)) (\<lambda>twice.
                        bindE (asset_add (priority_fee w) twice) (\<lambda>fee.
                        asset_mul_price X fee pr))))"

definition asset_can_pay_fee :: "ext \<Rightarrow> node \<Rightarrow> asset_id_type \<Rightarrow> wallet \<Rightarrow> exn + bool" where
  "asset_can_pay_fee X N i w = bindE (get_transaction_fee X N i w) (\<lambda>fee. Inr (asset_id fee = i))"

definition set_transaction_expiration :: "wallet_lib \<Rightarrow> ext \<Rightarrow> 32 word \<Rightarrow> (wallet, unit) computation" where
  "set_transaction_expiration W X secs =
     (if unat secs > BTS_BLOCKCHAIN_MAX_TRANSACTION_EXPIRATION_SEC then raiseA (Chain_exception 20035)
      else set_wallet_property W X transaction_expiration_sec (Int_variant (uint secs)))"

definition get_transaction_expiration :: "wallet_lib \<Rightarrow> wallet \<Rightarrow> exn + 32 word" where
  "get_transaction_expiration W w = as_int32 W (get_wallet_property transaction_expiration_sec w)"

section \<open>Signatures\<close>

definition insert_address :: "address \<Rightarrow> address list \<Rightarrow> address list" where
  "insert_address a as = (if a \<in> set as then as else as @ [a])"

definition usable_key :: "address \<Rightarrow> wallet \<Rightarrow> wallet_key option" where
  "usable_key a w = (case lookup_key a w of Some k \<Rightarrow> if has_private_key k then Some k else None | None \<Rightarrow> None)"

text \<open>The keys of the parent accounts, from the nearest one up.\<close>

partial_function (option) authorize_parent ::
    "ext \<Rightarrow> node \<Rightarrow> wallet \<Rightarrow> string \<Rightarrow> address list \<Rightarrow> (exn + address list) option" where
  "authorize_parent X N w name as =
     (case get_parent_account_name name of
        None \<Rightarrow> Some (Inr as)
      | Some parent \<Rightarrow>
          (case get_account_record_of_name (wallet_ledger N) parent of
             None \<Rightarrow> Some (Inl assert_failed)
           | Some r \<Rightarrow>
               (case usable_key (active_address X r) w of
                  Some k \<Rightarrow> Some (Inr (insert_address (key_address X k) as))
                | None \<Rightarrow>
                    (case usable_key (address_of_key X (owner_key r)) w of
                       Some k \<Rightarrow> Some (Inr (insert_address (key_address X k) as))
                     | None \<Rightarrow> authorize_parent X N w (account_name r) as))))"

declare authorize_parent.simps [code]

definition authorize_update ::
    "ext \<Rightarrow> node \<Rightarrow> account_record \<Rightarrow> bool \<Rightarrow> address list \<Rightarrow> (wallet, address list) computation" where
  "authorize_update X N acct need_owner_key as w =
     (case usable_key (address_of_key X (owner_key acct)) w of
        Some k \<Rightarrow> Some (Inr (insert_address (key_address X k) as), w)
      | None \<Rightarrow>
          (case if need_owner_key then None else usable_key (active_address X acct) w of
             Some k \<Rightarrow> Some (Inr (insert_address (key_address X k) as), w)
           | None \<Rightarrow> map_option (\<lambda>r. (r, w)) (authorize_parent X N w (account_name acct) as)))"

section \<open>Withdrawals and claims\<close>

text \<open>Balances are taken in order until the amount is reached; the last one is taken in part.\<close>

fun take_balances ::
    "ext \<Rightarrow> balance_record list \<Rightarrow> asset \<Rightarrow> signed_transaction \<times> address list \<Rightarrow> exn + (signed_transaction \<times> address list)" where
  "take_balances X [] remaining (t, sigs) = Inl wallet_insufficient_funds"
| "take_balances X (r # rs) remaining (t, sigs) =
     (if sint (balance r) \<le> 0 \<or> condition_asset_id (condition r) \<noteq> asset_id remaining
      then take_balances X rs remaining (t, sigs)
      else if sint (amount remaining) > sint (balance r) then
        bindE (trx_withdraw (balance_record_id X r) (balance r) t) (\<lambda>t'.
        bindE (asset_sub remaining (get_balance r)) (\<lambda>remaining'.
        take_balances X rs remaining' (t', insert_address (balance_owner r) sigs)))
      else
        bindE (trx_withdraw (balance_record_id X r) (amount remaining) t) (\<lambda>t'.
        Inr (t', insert_address (balance_owner r) sigs)))"

definition withdraw_to_transaction ::
    "wallet_lib \<Rightarrow> ext \<Rightarrow> node \<Rightarrow> asset \<Rightarrow> string \<Rightarrow> signed_transaction \<times> address list \<Rightarrow>
     (wallet, signed_transaction \<times> address list) computation" where
  "withdraw_to_transaction W X N a name ts =
     (if name = [] then raiseA assert_failed
      else bindA (get_account_balance_records W X N name True) (\<lambda>records.
           case map_of records name of
             None \<Rightarrow> raiseA wallet_insufficient_funds
           | Some rs \<Rightarrow> liftE (take_balances X rs a ts)))"

text \<open>The last balance of the genesis state that belongs to the address.\<close>

definition genesis_balance_of :: "ext \<Rightarrow> node \<Rightarrow> pts_address \<Rightarrow> balance_record" where
  "genesis_balance_of X N src =
     fold (\<lambda>(i, r) found.
       if genesis_info r \<noteq> None \<and> condition_asset_id (condition r) = 0 \<and>
          (case condition_data (condition r) of Withdraw_with_signature o' _ \<Rightarrow> o' = address_of_pts X src | _ \<Rightarrow> False)
       then r else found)
       (in_order (balance_db (ledger_db N)))
       (balance_record_of \<lparr> condition_asset_id = 0, delegate_slate_id = 0, condition_data = Withdraw_null \<rparr>)"

definition claim_to_transaction ::
    "ext \<Rightarrow> node \<Rightarrow> account_record \<Rightarrow> pts_address \<Rightarrow> signature_type \<Rightarrow> signed_transaction \<times> address list \<Rightarrow>
     exn + (asset \<times> signed_transaction \<times> address list)" where
  "claim_to_transaction X N recipient src sig = (\<lambda>(t, sigs).
     let r = genesis_balance_of X N src; b = get_balance r
     in if \<not> (sint (amount b) > 0 \<and> asset_id b = 0) then Inl assert_failed
        else Inr (b, trx_claim X r recipient src sig t, insert_address (active_address X recipient) sigs))"

end
