(* ===== verification/Transaction_Builder.thy ===== *)
theory Transaction_Builder
  imports Wallet
begin

text \<open>
  The transaction builder of the wallet (\<^verbatim>\<open>transaction_builder.cpp\<close>). The builder collects operations
  and keeps, for every account and asset, the balance that is outstanding: what the operations so far give to
  the account or take from it. Finalizing pays the fee from these balances, deposits what is left and
  withdraws what is missing. The texts of ledger entries and the notices to other wallets
  are left out.
\<close>

section \<open>State\<close>

record ledger_entry =
  from_account :: "key option"
  to_account :: "key option"
  entry_amount :: asset
  memo_from_account :: "key option"

type_synonym outstanding_table = "(address \<times> asset_id_type, share_type) table"

record transaction_builder =
  builder_wallet :: wallet
  built_trx :: signed_transaction
  ledger_entries :: "ledger_entry list"
  record_fee :: asset
  record_is_market :: bool
  required_signatures :: "address list"
  accounts_with_covers :: "address list"
  outstanding_balances :: outstanding_table
  order_keys :: "(address, key) table"

definition new_builder :: "wallet \<Rightarrow> transaction_builder" where
  "new_builder w = \<lparr> builder_wallet = w, built_trx = new_transaction, ledger_entries = [], record_fee = asset_of 0 0,
     record_is_market = False, required_signatures = [], accounts_with_covers = [], outstanding_balances = [],
     order_keys = [] \<rparr>"

type_synonym 'a building = "(transaction_builder, 'a) computation"

definition on_wallet :: "(wallet, 'a) computation \<Rightarrow> 'a building" where
  "on_wallet m b = map_option (\<lambda>(r, w). (r, b \<lparr> builder_wallet := w \<rparr>)) (m (builder_wallet b))"

definition change_trx :: "(signed_transaction \<Rightarrow> signed_transaction) \<Rightarrow> unit building" where
  "change_trx f = modifyA (\<lambda>b. b \<lparr> built_trx := f (built_trx b) \<rparr>)"

definition step_trx :: "transaction_step \<Rightarrow> unit building" where
  "step_trx f = bindA (readA (\<lambda>b. f (built_trx b))) (\<lambda>t. modifyA (\<lambda>b. b \<lparr> built_trx := t \<rparr>))"

definition add_entry :: "key option \<Rightarrow> key option \<Rightarrow> asset \<Rightarrow> unit building" where
  "add_entry f t a = modifyA (\<lambda>b. b \<lparr> ledger_entries := ledger_entries b @
     [\<lparr> from_account = f, to_account = t, entry_amount = a, memo_from_account = None \<rparr>] \<rparr>)"

definition require_signature :: "address \<Rightarrow> transaction_builder \<Rightarrow> transaction_builder" where
  "require_signature a b = b \<lparr> required_signatures := insert_address a (required_signatures b) \<rparr>"

section \<open>Outstanding balances\<close>

definition deduct_balance :: "address \<Rightarrow> asset \<Rightarrow> unit building" where
  "deduct_balance who a =
     (if \<not> sint (amount a) \<ge> 0 then raiseA assert_failed
      else modifyA (\<lambda>b. b \<lparr> outstanding_balances := add_amount (who, asset_id a) (- amount a) (outstanding_balances b) \<rparr>))"

definition credit_balance :: "address \<Rightarrow> asset \<Rightarrow> unit building" where
  "credit_balance who a =
     (if \<not> sint (amount a) \<ge> 0 then raiseA assert_failed
      else modifyA (\<lambda>b. b \<lparr> outstanding_balances := add_amount (who, asset_id a) (amount a) (outstanding_balances b) \<rparr>))"

definition all_positive_balances :: "outstanding_table \<Rightarrow> (asset_id_type, share_type) table" where
  "all_positive_balances t = fold (\<lambda>((who, i), v). if sint v > 0 then add_amount i v else id) (in_order t) []"

definition order_key_for_account :: "wallet_lib \<Rightarrow> ext \<Rightarrow> address \<Rightarrow> key building" where
  "order_key_for_account W X a =
     bindA (getA (\<lambda>b. case map_of (order_keys b) a of Some k \<Rightarrow> k | None \<Rightarrow> null_key)) (\<lambda>order_key.
     bindA (modifyA (\<lambda>b. b \<lparr> order_keys := AList.update a order_key (order_keys b) \<rparr>)) (\<lambda>_.
     if order_key = null_key
     then bindA (on_wallet (bindA (getA wallet_password) (\<lambda>p. new_private_key W X p a True))) (\<lambda>k. returnA (public_key_of W k))
     else returnA order_key))"

definition set_order_key :: "address \<Rightarrow> key \<Rightarrow> transaction_builder \<Rightarrow> transaction_builder" where
  "set_order_key a k b =
     (if map_of (order_keys b) a = None then b \<lparr> order_keys := AList.update a k (order_keys b) \<rparr> else b)"

section \<open>Transfers and claims\<close>

definition is_public_account :: "account_record \<Rightarrow> bool" where
  "is_public_account r \<longleftrightarrow> (case meta_data r of Some m \<Rightarrow> meta_type m = public_account | None \<Rightarrow> False)"

definition BTS_BLOCKCHAIN_MAX_MEMO_SIZE :: nat where "BTS_BLOCKCHAIN_MAX_MEMO_SIZE = 19"

definition pretty_shorten :: "string \<Rightarrow> nat \<Rightarrow> string" where
  "pretty_shorten s n = (if length s > n then take (n - 3) s @ ''...'' else s)"

definition select_builder_slate ::
    "wallet_lib \<Rightarrow> ext \<Rightarrow> node \<Rightarrow> asset_id_type \<Rightarrow> vote_selection_method \<Rightarrow> slate_id_type building" where
  "select_builder_slate W X N i m =
     bindA (getA built_trx) (\<lambda>t.
     bindA (on_wallet (select_slate W X N i m t)) (\<lambda>(s, t').
     bindA (modifyA (\<lambda>b. b \<lparr> built_trx := t' \<rparr>)) (\<lambda>_.
     returnA s)))"

text \<open>A deposit to the active key of a public account, or to a one-time key with a memo.\<close>

definition deposit_to_recipient ::
    "wallet_lib \<Rightarrow> ext \<Rightarrow> node \<Rightarrow> account_record \<Rightarrow> asset \<Rightarrow> string \<Rightarrow> vote_selection_method \<Rightarrow> key \<Rightarrow> unit building" where
  "deposit_to_recipient W X N recipient a memo m memo_sender =
     (if is_public_account recipient
      then bindA (select_builder_slate W X N (asset_id a) m) (\<lambda>s.
           step_trx (trx_deposit (address_of_key X (active_key recipient)) a s))
      else bindA (on_wallet (create_one_time_key W X)) (\<lambda>one_time.
           bindA (on_wallet (readA (get_private_key W (address_of_key X memo_sender)))) (\<lambda>sender.
           bindA (select_builder_slate W X N (asset_id a) m) (\<lambda>s.
           change_trx (trx_deposit_to_account W (active_key recipient) a sender
             (pretty_shorten memo BTS_BLOCKCHAIN_MAX_MEMO_SIZE) s memo_sender one_time)))))"

definition deposit_asset ::
    "wallet_lib \<Rightarrow> ext \<Rightarrow> node \<Rightarrow> wallet_account \<Rightarrow> account_record \<Rightarrow> asset \<Rightarrow> string \<Rightarrow> vote_selection_method \<Rightarrow>
     key option \<Rightarrow> unit building" where
  "deposit_asset W X N payer recipient a memo m memo_sender =
     (if sint (amount a) \<le> 0 then raiseA invalid_asset_amount
      else
        let s = (case memo_sender of Some k \<Rightarrow> k | None \<Rightarrow> active_key (chain_account payer))
        in bindA (deposit_to_recipient W X N recipient a memo m s) (\<lambda>_.
           bindA (deduct_balance (address_of_key X (owner_key payer)) a) (\<lambda>_.
           bindA (modifyA (\<lambda>b. b \<lparr> ledger_entries := ledger_entries b @
             [\<lparr> from_account = Some (owner_key payer), to_account = Some (owner_key recipient), entry_amount = a,
                memo_from_account = (if s \<noteq> active_key (chain_account payer) then Some s else None) \<rparr>] \<rparr>)) (\<lambda>_.
           bindA (on_wallet (readA (get_private_key W (address_of_key X s)))) (\<lambda>_.
           returnA ())))))"

definition claim_balance ::
    "wallet_lib \<Rightarrow> ext \<Rightarrow> node \<Rightarrow> account_record \<Rightarrow> pts_address \<Rightarrow> signature_type \<Rightarrow> vote_selection_method \<Rightarrow> unit building" where
  "claim_balance W X N recipient src sig m =
     bindA (readA (\<lambda>b. claim_to_transaction X N recipient src sig (built_trx b, required_signatures b))) (\<lambda>(a, t, sigs).
     bindA (modifyA (\<lambda>b. b \<lparr> built_trx := t, required_signatures := sigs \<rparr>)) (\<lambda>_.
     bindA (credit_balance (address_of_pts X src) a) (\<lambda>_.
     bindA (on_wallet (readA (get_transaction_fee X N (asset_id a)))) (\<lambda>required_fee.
     if asset_id a \<noteq> asset_id required_fee then raiseA assert_failed
     else bindA (liftE (asset_sub a required_fee)) (\<lambda>to_claim.
          bindA (deposit_to_recipient W X N recipient to_claim (''Claim from '' @ pts_address_string W src) m
                   (active_key recipient)) (\<lambda>_.
          bindA (deduct_balance (address_of_pts X src) to_claim) (\<lambda>_.
          bindA (modifyA (\<lambda>b. b \<lparr> ledger_entries := ledger_entries b @
            [\<lparr> from_account = None, to_account = Some (owner_key recipient), entry_amount = to_claim,
               memo_from_account = Some (active_key recipient) \<rparr>] \<rparr>)) (\<lambda>_.
          bindA (on_wallet (readA (get_private_key W (address_of_key X (active_key recipient))))) (\<lambda>_.
          returnA ())))))))))"

section \<open>Account updates\<close>

text \<open>The extra fee of a delegate is paid from the pay of the paying account, or charged to it.\<close>

definition pay_delegate_fee ::
    "ext \<Rightarrow> node \<Rightarrow> wallet_account \<Rightarrow> wallet_account \<Rightarrow> address list \<Rightarrow> address list building" where
  "pay_delegate_fee X N account paying sigs =
     bindA (liftE (get_delegate_registration_fee (wallet_ledger N))) (\<lambda>fee.
     bindA (if is_delegate (chain_account paying)
            then bindA (liftE (delegate_pay_balance (chain_account paying))) (\<lambda>pay. returnA (sint pay \<ge> sint fee))
            else returnA False) (\<lambda>from_pay.
     bindA (if from_pay then step_trx (trx_withdraw_pay (account_id paying) fee)
            else deduct_balance (account_address paying) (asset_of fee 0)) (\<lambda>_.
     bindA (add_entry (Some (owner_key paying)) (Some (owner_key account)) (asset_of fee 0)) (\<lambda>_.
     returnA (if from_pay then insert_address (address_of_key X (active_key (chain_account paying))) sigs else sigs)))))"

definition update_pay_rate ::
    "ext \<Rightarrow> node \<Rightarrow> wallet_account \<Rightarrow> wallet_account \<Rightarrow> 8 word option \<Rightarrow> address list \<Rightarrow> (8 word \<times> address list) building" where
  "update_pay_rate X N account paying delegate_pay sigs =
     (let r = chain_account account
      in case delegate_pay of
           None \<Rightarrow> returnA (delegate_pay_rate r, sigs)
         | Some p \<Rightarrow>
             if \<not> (\<not> is_delegate r \<or> p \<le> delegate_pay_rate r) then raiseA assert_failed
             else if (\<not> is_delegate r \<and> p \<le> 100) \<or> (is_delegate r \<and> p \<noteq> delegate_pay_rate r)
             then if \<not> is_my_account paying then raiseA wallet_unknown_account
                  else bindA (pay_delegate_fee X N account paying sigs) (\<lambda>sigs'. returnA (p, sigs'))
             else returnA (p, sigs))"

definition register_active_key ::
    "wallet_lib \<Rightarrow> ext \<Rightarrow> node \<Rightarrow> wallet_account \<Rightarrow> wallet_account \<Rightarrow> private_key option \<Rightarrow> key option building" where
  "register_active_key W X N account paying active =
     (case active of
        None \<Rightarrow> returnA None
      | Some x \<Rightarrow>
          let k = public_key_of W x
          in bindA (on_wallet (readA (lookup_account_of_address (address_of_key X k)))) (\<lambda>known.
             if get_account_record_of_address (wallet_ledger N) (address_of_key X k) \<noteq> None \<or> known \<noteq> None
             then raiseA wallet_key_already_registered
             else bindA (on_wallet (bindA (readA (\<lambda>w. encrypt_private_key W (wallet_password w) x new_key_data)) (\<lambda>kd.
                    store_key W X (kd \<lparr> key_account_address := account_address account \<rparr>)))) (\<lambda>_.
                  bindA (add_entry (Some (owner_key paying)) (Some (owner_key account)) (asset_of 0 0)) (\<lambda>_.
                  returnA (Some k)))))"

definition update_account_registration ::
    "wallet_lib \<Rightarrow> ext \<Rightarrow> node \<Rightarrow> wallet_account \<Rightarrow> variant option \<Rightarrow> private_key option \<Rightarrow> 8 word option \<Rightarrow>
     wallet_account option \<Rightarrow> unit building" where
  "update_account_registration W X N account pd active delegate_pay paying_account =
     (if account_registration_date account = 0 then raiseA wallet_unknown_account
      else if pd = None \<and> active = None \<and> delegate_pay = None then raiseA assert_failed
      else
        let paying = (case paying_account of Some a \<Rightarrow> a | None \<Rightarrow> account)
        in bindA (getA required_signatures) (\<lambda>sigs0.
           bindA (on_wallet (authorize_update X N (chain_account account) (active \<noteq> None) sigs0)) (\<lambda>sigs1.
           bindA (deduct_balance (account_address paying) (asset_of 0 0)) (\<lambda>_.
           bindA (update_pay_rate X N account paying delegate_pay sigs1) (\<lambda>(rate, sigs2).
           bindA (register_active_key W X N account paying active) (\<lambda>active_public_key.
           bindA (change_trx (trx_update_account (account_id account) rate pd active_public_key)) (\<lambda>_.
           bindA (if pd \<noteq> None then add_entry (Some (owner_key paying)) (Some (owner_key account)) (asset_of 0 0)
                  else returnA ()) (\<lambda>_.
           modifyA (\<lambda>b. b \<lparr> required_signatures := sigs2 \<rparr>)))))))))"

section \<open>Market orders\<close>

text \<open>The first order of the database whose id is the one sought: asks, bids, shorts, margin positions.\<close>

definition market_order_of :: "order_type \<Rightarrow> market_index_key \<times> order_record \<Rightarrow> market_order" where
  "market_order_of ty = (\<lambda>(k, r). \<lparr> order_type_of = ty, market_index = k, order_state = r, order_collateral = None,
     order_interest_rate = None, order_expiration = None \<rparr>)"

definition all_market_orders :: "chain_database \<Rightarrow> market_order list" where
  "all_market_orders d =
     map (market_order_of ask_order) (in_order (ask_db d)) @
     map (market_order_of bid_order) (in_order (bid_db d)) @
     map (market_order_of short_order) (in_order (short_db d)) @
     map (\<lambda>(k, r). cover_of k r) (in_order (collateral_db d))"

definition get_market_order :: "wallet_lib \<Rightarrow> node \<Rightarrow> hash_type \<Rightarrow> market_order option" where
  "get_market_order W N i = find (\<lambda>m. order_id_of W m = i) (all_market_orders (ledger_db N))"

definition validate_market :: "asset_id_type \<Rightarrow> asset_id_type \<Rightarrow> unit building" where
  "validate_market q b = (if q < b then raiseA invalid_market else returnA ())"

text \<open>The key that owns an order, and the account of the wallet it belongs to.\<close>

definition order_owner :: "wallet_lib \<Rightarrow> ext \<Rightarrow> node \<Rightarrow> hash_type \<Rightarrow> (market_order \<times> wallet_key \<times> wallet_key \<times> wallet_account) building" where
  "order_owner W X N i =
     (case get_market_order W N i of
        None \<Rightarrow> raiseA wallet_unknown_market_order
      | Some m \<Rightarrow>
          bindA (on_wallet (getA (lookup_key (owner (market_index m))))) (\<lambda>owner_record.
          case owner_record of
            None \<Rightarrow> raiseA wallet_private_key_not_found
          | Some k \<Rightarrow>
              if \<not> has_private_key k then raiseA wallet_private_key_not_found
              else bindA (on_wallet (getA (lookup_key (key_account_address k)))) (\<lambda>account_record.
                   case account_record of
                     None \<Rightarrow> raiseA assert_failed
                   | Some ak \<Rightarrow>
                       if \<not> has_private_key ak then raiseA assert_failed
                       else bindA (on_wallet (readA (\<lambda>w. bindE (lookup_account_of_address (key_address X ak) w)
                                     (of_option assert_failed)))) (\<lambda>a.
                            returnA (m, k, ak, a)))))"

definition cancel_order :: "market_order \<Rightarrow> asset \<Rightarrow> unit building" where
  "cancel_order m bal =
     (let p = order_price (market_index m); o' = owner (market_index m)
      in case order_type_of m of
           ask_order \<Rightarrow> change_trx (trx_ask (asset_neg bal) p o')
         | bid_order \<Rightarrow> change_trx (trx_bid (asset_neg bal) p o')
         | short_order \<Rightarrow> change_trx (trx_short_sell (asset_neg bal) p o' None)
         | _ \<Rightarrow> raiseA wallet_invalid_cancel)"

definition cancel_market_order :: "wallet_lib \<Rightarrow> ext \<Rightarrow> node \<Rightarrow> hash_type \<Rightarrow> unit building" where
  "cancel_market_order W X N i =
     bindA (order_owner W X N i) (\<lambda>(m, k, ak, a).
     bindA (liftE (order_get_balance m)) (\<lambda>bal.
     if amount bal = 0 then raiseA zero_amount
     else bindA (cancel_order m bal) (\<lambda>_.
          bindA (credit_balance (account_address a) bal) (\<lambda>_.
          bindA (modifyA (set_order_key (account_address a) (key_public_key k))) (\<lambda>_.
          bindA (add_entry (Some (key_public_key k)) (Some (key_public_key ak)) bal) (\<lambda>_.
          modifyA (\<lambda>b. require_signature (owner (market_index m)) (b \<lparr> record_is_market := True \<rparr>))))))))"

text \<open>What the three functions that submit an order have in common.\<close>

definition submit_order ::
    "wallet_lib \<Rightarrow> ext \<Rightarrow> wallet_account \<Rightarrow> asset \<Rightarrow> (address \<Rightarrow> signed_transaction \<Rightarrow> signed_transaction) \<Rightarrow> unit building" where
  "submit_order W X from_acct cost order =
     bindA (order_key_for_account W X (account_address from_acct)) (\<lambda>order_key.
     bindA (deduct_balance (account_address from_acct) cost) (\<lambda>_.
     bindA (change_trx (order (address_of_key X order_key))) (\<lambda>_.
     bindA (add_entry (Some (owner_key from_acct)) (Some order_key) cost) (\<lambda>_.
     modifyA (\<lambda>b. require_signature (address_of_key X order_key) (b \<lparr> record_is_market := True \<rparr>))))))"

definition submit_bid :: "wallet_lib \<Rightarrow> ext \<Rightarrow> wallet_account \<Rightarrow> asset \<Rightarrow> price \<Rightarrow> unit building" where
  "submit_bid W X from_acct real_quantity p =
     bindA (validate_market (quote_asset_id p) (base_asset_id p)) (\<lambda>_.
     bindA (liftE (asset_mul_price X real_quantity p)) (\<lambda>cost.
     if asset_id cost \<noteq> quote_asset_id p then raiseA assert_failed
     else submit_order W X from_acct cost (trx_bid cost p)))"

definition submit_ask :: "wallet_lib \<Rightarrow> ext \<Rightarrow> wallet_account \<Rightarrow> asset \<Rightarrow> price \<Rightarrow> unit building" where
  "submit_ask W X from_acct cost p =
     bindA (validate_market (quote_asset_id p) (base_asset_id p)) (\<lambda>_.
     if asset_id cost \<noteq> base_asset_id p then raiseA assert_failed
     else submit_order W X from_acct cost (trx_ask cost p))"

definition submit_short :: "wallet_lib \<Rightarrow> ext \<Rightarrow> wallet_account \<Rightarrow> asset \<Rightarrow> price \<Rightarrow> price option \<Rightarrow> unit building" where
  "submit_short W X from_acct cost rate lim =
     bindA (validate_market (quote_asset_id rate) (base_asset_id rate)) (\<lambda>_.
     if (case lim of None \<Rightarrow> False | Some l \<Rightarrow> asset_pair rate \<noteq> asset_pair l) then raiseA assert_failed
     else if asset_id cost \<noteq> 0 then raiseA assert_failed
     else submit_order W X from_acct cost (\<lambda>o'. trx_short_sell cost rate o' lim))"

section \<open>Covering a short position\<close>

definition covers_position_of :: "address \<Rightarrow> operation \<Rightarrow> bool" where
  "covers_position_of a op = (case op of Market_op (Cover_operation _ k _) \<Rightarrow> owner k = a | _ \<Rightarrow> False)"

definition debt_at_expiration ::
    "wallet_lib \<Rightarrow> ext \<Rightarrow> node \<Rightarrow> market_order \<Rightarrow> asset \<Rightarrow> wallet \<Rightarrow> exn + asset" where
  "debt_at_expiration W X N m bal w =
     bindE (get_transaction_expiration W w) (\<lambda>secs.
     case (order_expiration m, order_interest_rate m) of
       (Some expires, Some rate) \<Rightarrow>
         bindE (get_interest_owed X bal rate (word_of_int
           ((int (now (wallet_ledger N)) + uint secs - (int expires - int BTS_BLOCKCHAIN_MAX_SHORT_PERIOD_SEC)) mod 2 ^ 32))) (\<lambda>owed.
         asset_add bal owed)
     | _ \<Rightarrow> Inl undefined_behaviour)"

text \<open>What the account has of an asset.\<close>

definition available_balance :: "wallet_lib \<Rightarrow> ext \<Rightarrow> node \<Rightarrow> string \<Rightarrow> asset_id_type \<Rightarrow> share_type building" where
  "available_balance W X N name i =
     bindA (on_wallet (get_account_balances W X N name True)) (\<lambda>balances.
     case balances of
       [] \<Rightarrow> raiseA assert_failed
     | (n, t) # _ \<Rightarrow> (case map_of t i of Some v \<Rightarrow> returnA v | None \<Rightarrow> raiseA assert_failed))"

definition begin_cover :: "node \<Rightarrow> wallet_account \<Rightarrow> market_order \<Rightarrow> wallet_key \<Rightarrow> wallet_account \<Rightarrow> unit building" where
  "begin_cover N from_acct m k a b =
     (if account_name a \<noteq> account_name from_acct then raiseA assert_failed b
      else if account_address from_acct \<in> set (accounts_with_covers b) then raiseA wallet_double_cover b
      else bindA (modifyA (\<lambda>b. b \<lparr> accounts_with_covers :=
                    insert_address (account_address from_acct) (accounts_with_covers b) \<rparr>)) (\<lambda>_.
           if \<exists>e \<in> set (get_pending_transactions N). \<exists>op \<in> set (trx_operations (trx e)).
                covers_position_of (owner (market_index m)) op
           then raiseA wallet_double_cover
           else modifyA (set_order_key (account_address from_acct) (key_public_key k))) b)"

text \<open>A cover that consumes the position gives back the collateral.\<close>

definition recover_collateral :: "wallet_account \<Rightarrow> market_order \<Rightarrow> wallet_key \<Rightarrow> asset \<Rightarrow> unit building" where
  "recover_collateral from_acct m k left_over =
     (if amount left_over \<noteq> 0 then returnA ()
      else case order_collateral m of
             None \<Rightarrow> raiseA undefined_behaviour
           | Some c \<Rightarrow>
               bindA (credit_balance (account_address from_acct) (asset_of c 0)) (\<lambda>_.
               add_entry (Some (key_public_key k)) (Some (owner_key from_acct)) (asset_of c 0)))"

definition submit_cover ::
    "wallet_lib \<Rightarrow> ext \<Rightarrow> node \<Rightarrow> wallet_account \<Rightarrow> asset \<Rightarrow> hash_type \<Rightarrow> unit building" where
  "submit_cover W X N from_acct cover_amount i =
     bindA (order_owner W X N i) (\<lambda>(m, k, ak, a).
     bindA (begin_cover N from_acct m k a) (\<lambda>_.
     bindA (liftE (order_get_balance m)) (\<lambda>principal.
     if amount principal = 0 then raiseA zero_amount
     else if asset_id principal \<noteq> asset_id cover_amount then raiseA assert_failed
     else bindA (on_wallet (readA (debt_at_expiration W X N m principal))) (\<lambda>debt.
          bindA (available_balance W X N (account_name from_acct) (asset_id debt)) (\<lambda>available.
          let paid = (if asset_less debt cover_amount \<or> amount cover_amount = 0 then debt else cover_amount)
          in if \<not> asset_le paid (asset_of available (asset_id debt)) then raiseA assert_failed
             else bindA (liftE (asset_sub debt paid)) (\<lambda>left_over.
                  bindA (recover_collateral from_acct m k left_over) (\<lambda>_.
                  bindA (deduct_balance (account_address from_acct) paid) (\<lambda>_.
                  bindA (change_trx (trx_cover paid (market_index m))) (\<lambda>_.
                  bindA (add_entry (Some (owner_key from_acct)) (Some (key_public_key k)) paid) (\<lambda>_.
                  modifyA (\<lambda>b. require_signature (key_address X k) (b \<lparr> record_is_market := True \<rparr>))))))))))))"

section \<open>Fees\<close>

text \<open>An asset in which some accounts together have enough outstanding to pay the fee.\<close>

fun choose_fee :: "ext \<Rightarrow> node \<Rightarrow> wallet \<Rightarrow> (asset_id_type, share_type) table \<Rightarrow> exn + asset option" where
  "choose_fee X N w [] = Inr None"
| "choose_fee X N w ((i, v) # rest) =
     bindE (asset_can_pay_fee X N i w) (\<lambda>can_pay.
     if \<not> can_pay then choose_fee X N w rest
     else bindE (get_transaction_fee X N i w) (\<lambda>fee.
          if sint v \<ge> sint (amount fee) then Inr (Some fee) else choose_fee X N w rest))"

text \<open>
  A balance that does not cover what is left of the fee is used up and the rest of the fee is taken from
  the balances that follow. Returns the balances and whether the fee was paid.
\<close>

fun charge_fee :: "asset_id_type \<Rightarrow> outstanding_table \<Rightarrow> share_type \<Rightarrow> outstanding_table \<Rightarrow> outstanding_table \<times> bool" where
  "charge_fee i [] fee t = (t, False)"
| "charge_fee i (((who, j), v) # rest) fee t =
     (if j \<noteq> i then charge_fee i rest fee t
      else if sint fee > sint v then charge_fee i rest (fee - v) (AList.update (who, j) 0 t)
      else (AList.update (who, j) (v - fee) t, True))"

text \<open>The first asset of the account that can pay the fee for itself.\<close>

fun affordable_fee :: "ext \<Rightarrow> node \<Rightarrow> wallet \<Rightarrow> (asset_id_type, share_type) table \<Rightarrow> exn + asset option" where
  "affordable_fee X N w [] = Inr None"
| "affordable_fee X N w ((i, v) # rest) =
     bindE (get_transaction_fee X N i w) (\<lambda>fee.
     if asset_id fee \<noteq> i \<or> asset_less (asset_of v i) fee then affordable_fee X N w rest else Inr (Some fee))"

primrec withdraw_fee_from ::
    "ext \<Rightarrow> node \<Rightarrow> (string, (asset_id_type, share_type) table) table \<Rightarrow> (address \<times> asset_id_type) list \<Rightarrow> bool building" where
  "withdraw_fee_from X N balances [] = returnA False"
| "withdraw_fee_from X N balances (k # rest) =
     bindA (on_wallet (readA (lookup_account_of_address (fst k)))) (\<lambda>acct.
     case (case acct of None \<Rightarrow> None | Some a \<Rightarrow> map_of balances (account_name a)) of
       None \<Rightarrow> withdraw_fee_from X N balances rest
     | Some t \<Rightarrow>
         bindA (on_wallet (readA (\<lambda>w. affordable_fee X N w (in_order t)))) (\<lambda>fee.
         case fee of
           None \<Rightarrow> withdraw_fee_from X N balances rest
         | Some f \<Rightarrow>
             bindA (deduct_balance (fst k) f) (\<lambda>_.
             bindA (modifyA (\<lambda>b. b \<lparr> record_fee := f \<rparr>)) (\<lambda>_.
             returnA True))))"

definition withdraw_fee :: "wallet_lib \<Rightarrow> ext \<Rightarrow> node \<Rightarrow> bool building" where
  "withdraw_fee W X N =
     bindA (on_wallet (get_account_balances W X N [] False)) (\<lambda>balances.
     bindA (getA (\<lambda>b. map fst (in_order (outstanding_balances b)))) (withdraw_fee_from X N balances))"

abbreviation fee_not_paid :: exn where "fee_not_paid \<equiv> Fc_exception ''exception''"

definition pay_fee :: "wallet_lib \<Rightarrow> ext \<Rightarrow> node \<Rightarrow> unit building" where
  "pay_fee W X N =
     bindA (getA (\<lambda>b. in_order (all_positive_balances (outstanding_balances b)))) (\<lambda>available.
     bindA (on_wallet (readA (\<lambda>w. choose_fee X N w available))) (\<lambda>chosen.
     case chosen of
       Some fee \<Rightarrow>
         bindA (modifyA (\<lambda>b. b \<lparr> record_fee := fee \<rparr>)) (\<lambda>_.
         bindA (getA (\<lambda>b. charge_fee (asset_id fee) (in_order (outstanding_balances b)) (amount fee) (outstanding_balances b))) (\<lambda>(t, paid).
         bindA (modifyA (\<lambda>b. b \<lparr> outstanding_balances := t \<rparr>)) (\<lambda>_.
         if paid then returnA () else raiseA fee_not_paid)))
     | None \<Rightarrow>
         bindA (withdraw_fee W X N) (\<lambda>paid. if paid then returnA () else raiseA fee_not_paid)))"

section \<open>Finalizing\<close>

definition withdraw_missing :: "wallet_lib \<Rightarrow> ext \<Rightarrow> node \<Rightarrow> asset \<Rightarrow> string \<Rightarrow> unit building" where
  "withdraw_missing W X N a name =
     bindA (getA (\<lambda>b. (built_trx b, required_signatures b))) (\<lambda>ts.
     bindA (on_wallet (withdraw_to_transaction W X N a name ts)) (\<lambda>(t, sigs).
     modifyA (\<lambda>b. b \<lparr> built_trx := t, required_signatures := sigs \<rparr>)))"

text \<open>An account that is not known has no name: the source reads through an empty optional.\<close>

definition settle_balance :: "wallet_lib \<Rightarrow> ext \<Rightarrow> node \<Rightarrow> slate_id_type \<Rightarrow> (address \<times> asset_id_type) \<times> share_type \<Rightarrow> unit building" where
  "settle_balance W X N s = (\<lambda>((who, i), v).
     if v = 0 then returnA ()
     else if sint v > 0 then
       bindA (order_key_for_account W X who) (\<lambda>k.
       step_trx (trx_deposit (address_of_key X k) (asset_of v i) s))
     else
       bindA (on_wallet (readA (\<lambda>w. bindE (lookup_account_of_address who w) (of_option undefined_behaviour)))) (\<lambda>a.
       withdraw_missing W X N (asset_of (- v) i) (account_name a)))"

definition finalize :: "wallet_lib \<Rightarrow> ext \<Rightarrow> node \<Rightarrow> unit building" where
  "finalize W X N =
     bindA (getA built_trx) (\<lambda>t.
     if trx_operations t = [] then raiseA assert_failed
     else bindA (on_wallet (select_delegate_vote W X N vote_recommended)) (\<lambda>slate.
          bindA (if length slate > 0 \<and> get_delegate_slate (wallet_ledger N) (slate_id X slate) = None
                 then bindA (step_trx (define_delegate_slate slate)) (\<lambda>_. returnA (slate_id X slate))
                 else returnA 0) (\<lambda>s.
          bindA (pay_fee W X N) (\<lambda>_.
          bindA (getA (\<lambda>b. in_order (outstanding_balances b))) (forA (settle_balance W X N s))))))"

text \<open>Signing with the keys the wallet has; a key that is missing is passed over.\<close>

definition sign_with :: "wallet_lib \<Rightarrow> ext \<Rightarrow> node \<Rightarrow> address \<Rightarrow> unit building" where
  "sign_with W X N a =
     catchA (bindA (on_wallet (readA (get_private_key W a))) (\<lambda>x.
             change_trx (\<lambda>t. t \<lparr> signatures := signatures t @
               [sign_compact W x (transaction_hash X t (db_chain_id (ledger_db N)))] \<rparr>)))
       (\<lambda>e. returnA ())"

definition sign_transaction :: "wallet_lib \<Rightarrow> ext \<Rightarrow> node \<Rightarrow> unit building" where
  "sign_transaction W X N =
     bindA (on_wallet (readA (get_transaction_expiration W))) (\<lambda>secs.
     bindA (change_trx (\<lambda>t. t \<lparr> trx_expiration := wall_clock (ledger_db N) + unat secs \<rparr>)) (\<lambda>_.
     bindA (getA required_signatures) (forA (sign_with W X N))))"

definition is_signed :: "transaction_builder \<Rightarrow> bool" where
  "is_signed b \<longleftrightarrow> length (required_signatures b) = length (signatures (built_trx b))"

end
