(* ===== verification/Wallet_Sample.thy ===== *)
theory Wallet_Sample
  imports Transaction_Builder Scenario
begin

text \<open>
  A small wallet on the ledger of the theory \<open>Scenario\<close>, to which the statements on the wallet are applied: one
  account with one key, and library functions that can be evaluated.
\<close>

definition wallet_std :: wallet_lib where
  "wallet_std = \<lparr> public_key_of = (\<lambda>x. x), aes_encrypt = (\<lambda>p x. replicate (Suc x) CHR ''x''),
     aes_decrypt = (\<lambda>p s. Inr (length s - 1)), password_hash = (\<lambda>p. p), child_key = (\<lambda>x i. x + unat i),
     child_key_of_hash = (\<lambda>x a i. x + a), variant_as_int = (\<lambda>v. Inr 0), recommended_slate = (\<lambda>v. None),
     random_shuffle = (\<lambda>xs s. (xs, s)), random_number = (\<lambda>s. (s, Suc s)), titan_owner = (\<lambda>x k. x + k),
     titan_memo_of = (\<lambda>x k y memo m. (x, memo)), dummy_account_key = (\<lambda>s. Inl bad_cast), address_string = (\<lambda>a. ''A''),
     pts_address_string = (\<lambda>a. ''P''), order_id_of = (\<lambda>m. owner (market_index m)), sign_compact = (\<lambda>x d. x) \<rparr>"

definition sample_key :: wallet_key where
  "sample_key = wallet_key_of (new_key_data \<lparr> key_account_address := 7, key_public_key := 7,
     encrypted_private_key := replicate 8 CHR ''x'' \<rparr>) 3"

definition sample_account :: "8 word \<Rightarrow> account_id_type \<Rightarrow> wallet_account" where
  "sample_account approval i = (wallet_account_of (sample_delegate \<lparr> account_id := i, owner_key := 7, active_key_history := [(100, 7)] \<rparr>))
     \<lparr> account_address := 7, is_my_account := True, approved := approval, account_record_index := 2 \<rparr>"

definition sample_wallet :: "8 word \<Rightarrow> account_id_type \<Rightarrow> wallet" where
  "sample_wallet approval i = \<lparr>
     wallet_records = [(2, Account_record (sample_account approval i)), (3, Key_record sample_key)], wallet_master_key = None,
     wallet_accounts = [(2, sample_account approval i)], wallet_keys = [(7, sample_key)], wallet_balances = [],
     wallet_properties = [(next_record_number, \<lparr> property_key = next_record_number, property_value_of = Int_variant 4, property_record_index = 1 \<rparr>)],
     address_to_account_index = [(7, 2)], name_to_account_index = [(''alice'', 2)], account_id_to_index = [(i, 2)],
     btc_to_bts_address = [(7, 7)], wallet_password = 1, random_state = 0 \<rparr>"

definition wallet_node :: node where
  "wallet_node = \<lparr> ledger_db = sample_database \<lparr> slate_db := [(1, [1])] \<rparr>,
     forks = \<lparr> block_id_to_block_data_db = [], block_id_to_block_record_db = [], fork_number_db = [], fork_db = [] \<rparr>,
     head_header = \<lparr> previous = 0, block_num = 5, block_timestamp = 990, transaction_digest = 0, header_next_secret_hash = 0, previous_secret = 0 \<rparr>,
     head_signature = 0, undo_state_db = [], block_num_to_id_db = [], pending_transaction_db = [], pending_fee_index = [],
     pending_trx_state = new_pending_state \<rparr>"

section \<open>A transfer\<close>

text \<open>A thousand shares for a public account; the wallet withdraws them and the fee from its balance.\<close>

definition sample_recipient :: account_record where
  "sample_recipient = sample_delegate \<lparr> active_key_history := [(100, 30)], meta_data := Some \<lparr> meta_type = public_account, meta_bytes = [] \<rparr> \<rparr>"

definition returned :: "((exn + unit) \<times> 's) option \<Rightarrow> bool" where
  "returned r = (case r of Some (Inr u, s) \<Rightarrow> True | _ \<Rightarrow> False)"

definition state_after :: "((exn + unit) \<times> 's) option \<Rightarrow> 's" where
  "state_after r = snd (the r)"

lemma returned_state: "returned r \<Longrightarrow> r = Some (Inr (), state_after r)"
  by (auto simp: returned_def state_after_def split: option.split_asm sum.split_asm)

definition after_deposit :: transaction_builder where
  "after_deposit = state_after (deposit_asset wallet_std ext_std wallet_node (sample_account 0 1) sample_recipient (asset_of 1000 0) []
     vote_none None (new_builder (sample_wallet 0 1)))"

lemma sample_deposit:
  "deposit_asset wallet_std ext_std wallet_node (sample_account 0 1) sample_recipient (asset_of 1000 0) [] vote_none None
     (new_builder (sample_wallet 0 1)) = Some (Inr (), after_deposit)"
  unfolding after_deposit_def by (rule returned_state) code_simp

definition after_finalize :: transaction_builder where
  "after_finalize = state_after (finalize wallet_std ext_std wallet_node after_deposit)"

lemma sample_finalize: "finalize wallet_std ext_std wallet_node after_deposit = Some (Inr (), after_finalize)"
  unfolding after_finalize_def by (rule returned_state) code_simp

lemma sample_fee: "record_fee after_finalize = asset_of 100000 0"
  by code_simp

section \<open>A transaction that gives something to its account\<close>

text \<open>The wallet approves of the delegate \<open>1\<close>; the slate with this delegate alone is on the chain.\<close>

definition crediting_builder :: transaction_builder where
  "crediting_builder = (new_builder (sample_wallet 1 1)) \<lparr>
     built_trx := push_operation (Balance_op (Define_delegate_slate_operation [1])) new_transaction,
     outstanding_balances := [((7, 0), 500000)], order_keys := [(7, 9)] \<rparr>"

definition after_crediting :: transaction_builder where
  "after_crediting = state_after (finalize wallet_std ext_std wallet_node crediting_builder)"

lemma crediting_finalize: "finalize wallet_std ext_std wallet_node crediting_builder = Some (Inr (), after_crediting)"
  unfolding after_crediting_def by (rule returned_state) code_simp

lemma crediting_vote:
  "select_delegate_vote wallet_std ext_std wallet_node vote_recommended (builder_wallet crediting_builder) =
     Some (Inr [1], sample_wallet 1 1)"
  by code_simp

lemma crediting_slate: "get_delegate_slate (wallet_ledger wallet_node) (slate_id ext_std [1]) = Some [1]"
  by code_simp

lemma crediting_operations:
  "trx_operations (built_trx after_crediting) =
     [Balance_op (Define_delegate_slate_operation [1]), Balance_op (Deposit_operation 400000 (signature_condition 0 9))]"
  by code_simp

section \<open>A new key\<close>

definition unlocked_wallet :: wallet where
  "unlocked_wallet = (sample_wallet 0 1) \<lparr> wallet_master_key :=
     Some \<lparr> encrypted_master_key = replicate 6 CHR ''x'', master_checksum = 1, master_record_index = - 1 \<rparr> \<rparr>"

definition after_new_key :: wallet where
  "after_new_key = snd (the (new_private_key wallet_std ext_std 1 7 True unlocked_wallet))"

lemma sample_new_key: "new_private_key wallet_std ext_std 1 7 True unlocked_wallet = Some (Inr 12, after_new_key)"
proof -
  have "case new_private_key wallet_std ext_std 1 7 True unlocked_wallet of Some (Inr x, w) \<Rightarrow> x = 12 | _ \<Rightarrow> False"
    by code_simp
  then show ?thesis by (auto simp: after_new_key_def split: option.split_asm sum.split_asm)
qed

end
