(* ===== verification/Wallet_Laws.thy ===== *)
theory Wallet_Laws
  imports Wallet_Sample Block_Laws
begin

text \<open>
  What the transaction builder promises: the operations of a transaction and the outstanding balances of the
  builder always agree, and a transaction that is finalized leaves exactly the fee. Which account pays
  the fee, and whom the transaction votes for, is not always what it should be.
\<close>

section \<open>Running computations\<close>

lemma reading_iff:
  "readA f s = Some (r, s') \<longleftrightarrow> r = f s \<and> s' = s" "getA g s = Some (q, s') \<longleftrightarrow> q = Inr (g s) \<and> s' = s"
  by (auto simp: readA_def getA_def)

lemma readA_InrE:
  assumes "readA f s = Some (Inr x, s')"
  obtains "f s = Inr x" and "s' = s"
proof -
  have "f s = Inr x" "s' = s" using assms [unfolded reading_iff] by (metis, blast)
  then show thesis by (rule that)
qed

lemma getA_InrE:
  assumes "getA f s = Some (Inr x, s')"
  obtains "x = f s" and "s' = s"
proof -
  have "x = f s" "s' = s" using assms [unfolded reading_iff] by (blast, blast)
  then show thesis by (rule that)
qed

lemma on_wallet_InrE:
  assumes "on_wallet m b = Some (Inr x, b')"
  obtains w where "m (builder_wallet b) = Some (Inr x, w)" "b' = b \<lparr> builder_wallet := w \<rparr>"
  using assms by (auto simp: on_wallet_def)

lemma change_trx_InrE:
  assumes "change_trx f b = Some (Inr x, b')"
  obtains "b' = b \<lparr> built_trx := f (built_trx b) \<rparr>"
  using assms by (intro that) (simp add: change_trx_def)

lemma step_trx_InrE:
  assumes "step_trx f b = Some (Inr x, b')"
  obtains t where "f (built_trx b) = Inr t" "b' = b \<lparr> built_trx := t \<rparr>"
  using assms by (auto simp: step_trx_def readA_def bindA_def split: sum.split_asm)

lemmas run_elims = bindA_InrE readA_InrE getA_InrE on_wallet_InrE change_trx_InrE step_trx_InrE

section \<open>The books of a transaction\<close>

text \<open>
  What an operation adds to the balance of the transaction in an asset. A withdrawal is of the asset of the balance it
  withdraws from; the collateral a cover returns is not counted.
\<close>

fun op_net :: "node \<Rightarrow> asset_id_type \<Rightarrow> operation \<Rightarrow> share_type" where
  "op_net N i (Balance_op (Withdraw_operation bid v _)) =
     (case get_balance_record (get_pending_state N) bid of
        Some r \<Rightarrow> if condition_asset_id (condition r) = i then v else 0 | None \<Rightarrow> 0)"
| "op_net N i (Balance_op (Deposit_operation v c)) = (if condition_asset_id c = i then - v else 0)"
| "op_net N i (Balance_op (Claim_operation bid v src dst sig)) = (if i = 0 then v else 0)"
| "op_net N i (Market_op (Bid_operation v k)) = (if quote_asset_id (order_price k) = i then - v else 0)"
| "op_net N i (Market_op (Ask_operation v k)) = (if base_asset_id (order_price k) = i then - v else 0)"
| "op_net N i (Market_op (Short_operation v k lim)) = (if base_asset_id (order_price k) = i then - v else 0)"
| "op_net N i (Market_op (Cover_operation v k _)) = (if quote_asset_id (order_price k) = i then - v else 0)"
| "op_net N i (Account_op (Withdraw_pay_operation v a)) = (if i = 0 then v else 0)"
| "op_net N i op = 0"

definition trx_net :: "node \<Rightarrow> asset_id_type \<Rightarrow> signed_transaction \<Rightarrow> share_type" where
  "trx_net N i t = sum_list (map (op_net N i) (trx_operations t))"

definition outstanding_total :: "asset_id_type \<Rightarrow> outstanding_table \<Rightarrow> share_type" where
  "outstanding_total i t = msum (\<lambda>k v. if snd k = i then v else 0) (map_of t)"

definition imbalance :: "node \<Rightarrow> asset_id_type \<Rightarrow> transaction_builder \<Rightarrow> share_type" where
  "imbalance N i b = trx_net N i (built_trx b) - outstanding_total i (outstanding_balances b)"

lemma outstanding_total_update:
  "outstanding_total i (AList.update k v t) = outstanding_total i t +
     (if snd k = i then v - (case map_of t k of Some a \<Rightarrow> a | None \<Rightarrow> 0) else 0)"
  by (auto simp: outstanding_total_def finite_dom_map_of msum_update entry_def split: option.split)

lemma outstanding_total_add [simp]:
  "outstanding_total i (add_amount k v t) = outstanding_total i t + (if snd k = i then v else 0)"
  by (simp add: add_amount_def outstanding_total_update)

lemma trx_net_push [simp]: "trx_net N i (push_operation op t) = trx_net N i t + op_net N i op"
  by (simp add: trx_net_def push_operation_def)

lemma imbalance_fields [simp]:
  "imbalance N i (b \<lparr> builder_wallet := w \<rparr>) = imbalance N i b" "imbalance N i (b \<lparr> ledger_entries := es \<rparr>) = imbalance N i b"
  "imbalance N i (b \<lparr> record_fee := f \<rparr>) = imbalance N i b" "imbalance N i (b \<lparr> record_is_market := m \<rparr>) = imbalance N i b"
  "imbalance N i (b \<lparr> required_signatures := s \<rparr>) = imbalance N i b" "imbalance N i (b \<lparr> order_keys := ks \<rparr>) = imbalance N i b"
  "imbalance N i (b \<lparr> accounts_with_covers := as \<rparr>) = imbalance N i b"
  "imbalance N i (require_signature a b) = imbalance N i b" "imbalance N i (set_order_key a k b) = imbalance N i b"
  by (simp_all add: imbalance_def require_signature_def set_order_key_def)

lemma imbalance_trx: "imbalance N i (b \<lparr> built_trx := t \<rparr>) = imbalance N i b + (trx_net N i t - trx_net N i (built_trx b))"
  by (simp add: imbalance_def)

lemma imbalance_outstanding:
  "imbalance N i (b \<lparr> outstanding_balances := t \<rparr>) = imbalance N i b + (outstanding_total i (outstanding_balances b) - outstanding_total i t)"
  by (simp add: imbalance_def)

lemma deduct_balance_books:
  "deduct_balance who a b = Some (Inr x, b') \<Longrightarrow>
   imbalance N i b' = imbalance N i b + (if asset_id a = i then amount a else 0) \<and> built_trx b' = built_trx b"
  by (auto simp: deduct_balance_def imbalance_outstanding split: if_split_asm)

lemma credit_balance_books:
  "credit_balance who a b = Some (Inr x, b') \<Longrightarrow>
   imbalance N i b' = imbalance N i b - (if asset_id a = i then amount a else 0) \<and> built_trx b' = built_trx b"
  by (auto simp: credit_balance_def imbalance_outstanding split: if_split_asm)

lemma add_entry_books:
  "add_entry f t a b = Some (Inr x, b') \<Longrightarrow> imbalance N i b' = imbalance N i b \<and> built_trx b' = built_trx b"
  by (auto simp: add_entry_def)

lemma trx_deposit_books: "trx_deposit o' a s t = Inr t' \<Longrightarrow> trx_net N i t' = trx_net N i t - (if asset_id a = i then amount a else 0)"
  by (auto simp: trx_deposit_def split: if_split_asm)

lemma define_slate_books: "define_delegate_slate s t = Inr t' \<Longrightarrow> trx_net N i t' = trx_net N i t"
  by (auto simp: define_delegate_slate_def split: if_split_asm)

lemma select_slate_books:
  "select_slate W X N j m t w = Some (Inr (s, t'), w') \<Longrightarrow> trx_net N' i t' = trx_net N' i t"
  by (auto simp: select_slate_def Let_def define_slate_books split: if_split_asm elim!: run_elims)

lemma order_key_books:
  "order_key_for_account W X a b = Some (Inr k, b') \<Longrightarrow> imbalance N i b' = imbalance N i b \<and> built_trx b' = built_trx b
     \<and> outstanding_balances b' = outstanding_balances b"
  by (auto simp: order_key_for_account_def elim!: run_elims split: if_split_asm)

lemma select_builder_slate_books:
  "select_builder_slate W X N j m b = Some (Inr s, b') \<Longrightarrow> imbalance N' i b' = imbalance N' i b"
  by (auto simp: select_builder_slate_def imbalance_trx select_slate_books elim!: run_elims modifyA_InrE split: prod.split_asm)

lemma deposit_to_recipient_books:
  "deposit_to_recipient W X N r a memo m k b = Some (Inr u, b') \<Longrightarrow>
   imbalance N i b' = imbalance N i b - (if asset_id a = i then amount a else 0)"
  by (auto simp: deposit_to_recipient_def imbalance_trx trx_deposit_books trx_deposit_to_account_def
      dest!: select_builder_slate_books [where N' = N and i = i] elim!: run_elims split: if_split_asm)

lemma deposit_asset_books:
  "deposit_asset W X N payer r a memo m k b = Some (Inr u, b') \<Longrightarrow> imbalance N i b' = imbalance N i b"
  by (auto simp: deposit_asset_def Let_def
      dest!: deposit_to_recipient_books [where i = i] deduct_balance_books [where N = N and i = i]
      elim!: run_elims modifyA_InrE split: if_split_asm)

lemma claim_to_transaction_books:
  "claim_to_transaction X N r src sig (t, sigs) = Inr (a, t', sigs') \<Longrightarrow>
   trx_net N' i t' = trx_net N' i t + (if asset_id a = i then amount a else 0)"
  by (auto simp: claim_to_transaction_def Let_def trx_claim_def split: if_split_asm)

lemma asset_sub_Inr: "asset_sub a c = Inr d \<Longrightarrow> asset_id c = asset_id a \<and> d = asset_of (amount a - amount c) (asset_id a)"
  by (cases a) (auto simp: asset_sub_def split: if_split_asm)

lemma asset_add_Inr: "asset_add a c = Inr d \<Longrightarrow> asset_id c = asset_id a \<and> d = asset_of (amount a + amount c) (asset_id a)"
  by (cases a) (auto simp: asset_add_def split: if_split_asm)

lemma claim_balance_books:
  "claim_balance W X N r src sig m b = Some (Inr u, b') \<Longrightarrow> imbalance N i b' = imbalance N i b"
  by (auto simp: claim_balance_def imbalance_trx
      dest!: claim_to_transaction_books [where N' = N and i = i] deposit_to_recipient_books [where i = i]
        deduct_balance_books [where N = N and i = i] credit_balance_books [where N = N and i = i] asset_sub_Inr
      elim!: run_elims modifyA_InrE liftE_InrE split: if_split_asm prod.split_asm)

text \<open>The fee for a new delegate or a new pay rate, which no operation of the transaction receives.\<close>

definition changes_pay_rate :: "account_record \<Rightarrow> 8 word option \<Rightarrow> bool" where
  "changes_pay_rate r delegate_pay =
     (case delegate_pay of
        None \<Rightarrow> False
      | Some p \<Rightarrow> if is_delegate r then p \<noteq> delegate_pay_rate r else p \<le> 100)"

definition extra_fee :: "node \<Rightarrow> account_record \<Rightarrow> 8 word option \<Rightarrow> share_type" where
  "extra_fee N r delegate_pay =
     (if changes_pay_rate r delegate_pay then projr (get_delegate_registration_fee (wallet_ledger N)) else 0)"

lemma withdraw_pay_books: "trx_withdraw_pay j v t = Inr t' \<Longrightarrow> trx_net N i t' = trx_net N i t + (if i = 0 then v else 0)"
  by (auto simp: trx_withdraw_pay_def split: if_split_asm)

lemma pay_delegate_fee_books:
  "pay_delegate_fee X N a p sigs b = Some (Inr s, b') \<Longrightarrow>
   imbalance N i b' = imbalance N i b + (if i = 0 then projr (get_delegate_registration_fee (wallet_ledger N)) else 0)"
  by (auto simp: pay_delegate_fee_def imbalance_trx withdraw_pay_books
      dest!: deduct_balance_books [where N = N and i = i] add_entry_books [where N = N and i = i]
      elim!: run_elims liftE_InrE split: if_split_asm)

lemma update_pay_rate_books:
  "update_pay_rate X N a p dp sigs b = Some (Inr s, b') \<Longrightarrow>
   imbalance N i b' = imbalance N i b + (if i = 0 then extra_fee N (chain_account a) dp else 0)"
  by (auto simp: update_pay_rate_def Let_def extra_fee_def changes_pay_rate_def
      dest!: pay_delegate_fee_books [where i = i] elim!: run_elims split: if_split_asm option.split_asm)

lemma register_active_key_books:
  "register_active_key W X N a p x b = Some (Inr k, b') \<Longrightarrow> imbalance N i b' = imbalance N i b"
  by (auto simp: register_active_key_def Let_def dest!: add_entry_books [where N = N and i = i]
      elim!: run_elims split: if_split_asm option.split_asm)

lemma update_registration_books:
  "update_account_registration W X N a pd x dp p b = Some (Inr u, b') \<Longrightarrow>
   imbalance N i b' = imbalance N i b + (if i = 0 then extra_fee N (chain_account a) dp else 0)"
  by (auto simp: update_account_registration_def Let_def imbalance_trx trx_update_account_def
      dest!: update_pay_rate_books [where i = i] register_active_key_books [where i = i]
        add_entry_books [where N = N and i = i] deduct_balance_books [where N = N and i = i]
      elim!: run_elims modifyA_InrE split: if_split_asm prod.split_asm)

lemma submit_order_books:
  assumes "submit_order W X a cost order b = Some (Inr u, b')"
    and "\<And>o' t. trx_net N i (order o' t) = trx_net N i t - (if asset_id cost = i then amount cost else 0)"
  shows "imbalance N i b' = imbalance N i b"
  using assms by (auto simp: submit_order_def imbalance_trx
      dest!: order_key_books [where N = N and i = i] add_entry_books [where N = N and i = i]
        deduct_balance_books [where N = N and i = i]
      elim!: run_elims modifyA_InrE)

lemma submit_bid_books: "submit_bid W X a q p b = Some (Inr u, b') \<Longrightarrow> imbalance N i b' = imbalance N i b"
  by (auto simp: submit_bid_def validate_market_def trx_bid_def elim!: bindA_InrE liftE_InrE submit_order_books split: if_split_asm)

lemma submit_ask_books: "submit_ask W X a q p b = Some (Inr u, b') \<Longrightarrow> imbalance N i b' = imbalance N i b"
  by (auto simp: submit_ask_def validate_market_def trx_ask_def elim!: bindA_InrE submit_order_books split: if_split_asm)

text \<open>A short is paid in the base asset, which must be the asset that is the collateral.\<close>

lemma submit_short_books:
  "submit_short W X a q p l b = Some (Inr u, b') \<Longrightarrow> base_asset_id p = 0 \<Longrightarrow> imbalance N i b' = imbalance N i b"
  by (auto simp: submit_short_def validate_market_def trx_short_sell_def elim!: bindA_InrE submit_order_books split: if_split_asm)

lemma order_owner_books:
  "order_owner W X N j b = Some (Inr (m, k, ak, a), b') \<Longrightarrow> imbalance N' i b' = imbalance N' i b \<and> get_market_order W N j = Some m"
  by (auto simp: order_owner_def elim!: run_elims split: if_split_asm option.split_asm)

lemma cancel_order_books:
  "cancel_order m bal b = Some (Inr u, b') \<Longrightarrow> order_get_balance m = Inr bal \<Longrightarrow>
   imbalance N i b' = imbalance N i b + (if asset_id bal = i then amount bal else 0)"
  by (auto simp: cancel_order_def Let_def imbalance_trx trx_ask_def trx_bid_def trx_short_sell_def asset_neg_def
      order_get_balance_def elim!: change_trx_InrE split: order_type.split_asm)

lemma cancel_market_order_books:
  "cancel_market_order W X N j b = Some (Inr u, b') \<Longrightarrow> imbalance N i b' = imbalance N i b"
  by (auto simp: cancel_market_order_def
      dest!: order_owner_books [where N' = N and i = i] cancel_order_books [where N = N and i = i]
        credit_balance_books [where N = N and i = i] add_entry_books [where N = N and i = i]
      elim!: bindA_InrE modifyA_InrE liftE_InrE split: if_split_asm)

lemma begin_cover_books:
  "begin_cover N a m k ac b = Some (Inr u, b') \<Longrightarrow> imbalance N' i b' = imbalance N' i b"
  by (auto simp: begin_cover_def elim!: bindA_InrE modifyA_InrE split: if_split_asm)

lemma available_balance_books:
  "available_balance W X N name j b = Some (Inr v, b') \<Longrightarrow> imbalance N' i b' = imbalance N' i b"
  by (auto simp: available_balance_def elim!: run_elims split: list.split_asm option.split_asm)

lemma recover_collateral_books:
  "recover_collateral a m k l b = Some (Inr u, b') \<Longrightarrow> i \<noteq> 0 \<longrightarrow> imbalance N i b' = imbalance N i b"
  by (auto simp: recover_collateral_def dest!: credit_balance_books [where N = N and i = i] add_entry_books [where N = N and i = i]
      elim!: bindA_InrE split: if_split_asm option.split_asm)

lemma debt_at_expiration_Inr:
  assumes "debt_at_expiration W X N m bal w = Inr d"
  shows "asset_id d = asset_id bal" and "order_expiration m \<noteq> None"
proof -
  obtain e r owed where "order_expiration m = Some e" and "asset_add bal owed = Inr d"
    using assms by (cases "order_expiration m"; cases "order_interest_rate m")
      (fastforce simp: debt_at_expiration_def bindE_Inr_iff)+
  then show "asset_id d = asset_id bal" "order_expiration m \<noteq> None"
    using asset_add_Inr [of bal owed d] by simp_all
qed

lemma expiring_orders_are_covers:
  "m \<in> set (all_market_orders d) \<Longrightarrow> order_expiration m \<noteq> None \<Longrightarrow> order_type_of m = cover_order"
  by (auto simp: all_market_orders_def market_order_of_def cover_of_def)

lemma cover_asset:
  assumes "get_market_order W N j = Some m" and "debt_at_expiration W X N m bal w = Inr d" and "order_get_balance m = Inr bal"
  shows "asset_id d = quote_asset_id (order_price (market_index m))"
proof -
  have "m \<in> set (all_market_orders (ledger_db N))"
    using assms(1) by (auto simp: get_market_order_def find_Some_iff)
  then have "order_type_of m = cover_order"
    using debt_at_expiration_Inr(2) [OF assms(2)] by (rule expiring_orders_are_covers)
  then show ?thesis
    using assms(3) debt_at_expiration_Inr(1) [OF assms(2)] by (auto simp: order_get_balance_def Let_def)
qed

lemma submit_cover_books:
  "submit_cover W X N a c j b = Some (Inr u, b') \<Longrightarrow> i \<noteq> 0 \<Longrightarrow> imbalance N i b' = imbalance N i b"
  by (auto simp: submit_cover_def Let_def imbalance_trx trx_cover_def asset_le_def
      dest!: order_owner_books [where N' = N and i = i] begin_cover_books [where N' = N and i = i]
        available_balance_books [where N' = N and i = i] recover_collateral_books [where N = N and i = i]
        deduct_balance_books [where N = N and i = i] add_entry_books [where N = N and i = i]
      elim!: run_elims modifyA_InrE liftE_InrE split: if_split_asm)
    (drule cover_asset, assumption+, simp)+

section \<open>The books of the fee\<close>

definition keys_once :: "transaction_builder \<Rightarrow> transaction_builder \<Rightarrow> bool" where
  "keys_once b b' \<longleftrightarrow> (distinct (map fst (outstanding_balances b)) \<longrightarrow> distinct (map fst (outstanding_balances b')))"

lemma keys_once_order [simp, intro]: "reflp keys_once" "transp keys_once"
  by (auto simp: keys_once_def reflp_def transp_def)

lemma keys_once_same: "outstanding_balances b' = outstanding_balances b \<Longrightarrow> keys_once b b'"
  by (simp add: keys_once_def)

lemma charge_fee_books:
  assumes "charge_fee i es fee t = (t', True)" and "distinct (map fst es)" and "\<forall>(k, v) \<in> set es. map_of t k = Some v"
  shows "outstanding_total j t' = outstanding_total j t - (if j = i then fee else 0)"
  using assms
proof (induction i es fee t rule: charge_fee.induct)
  case (2 i who k v rest fee t)
  show ?case
  proof (cases "k = i \<and> sint v < sint fee")
    case True
    have "(who, k) \<notin> fst ` set rest" using 2(4) by simp
    then have "\<forall>(k', v') \<in> set rest. map_of (AList.update (who, k) 0 t) k' = Some v'"
      using 2(5) by force
    with 2 True show ?thesis by (auto simp: outstanding_total_update)
  next
    case False
    with 2 show ?thesis by (auto simp: outstanding_total_update split: if_split_asm)
  qed
qed simp

lemma charge_fee_keys: "distinct (map fst t) \<Longrightarrow> distinct (map fst (fst (charge_fee i es fee t)))"
  by (induction i es fee t rule: charge_fee.induct) (auto simp: distinct_update)

lemma withdraw_fee_from_books:
  "withdraw_fee_from X N bals ks b = Some (Inr True, b') \<Longrightarrow> 
   imbalance N i b' = imbalance N i b + (if i = asset_id (record_fee b') then amount (record_fee b') else 0)"
  by (induction ks arbitrary: b)
    (fastforce dest!: deduct_balance_books [where N = N and i = i] elim!: run_elims modifyA_InrE split: option.split_asm)+

lemma pay_fee_books:
  assumes "pay_fee W X N b = Some (Inr u, b')" and "distinct (map fst (outstanding_balances b))"
  shows "imbalance N i b' = imbalance N i b + (if i = asset_id (record_fee b') then amount (record_fee b') else 0)"
proof -
  obtain chosen w where run: "(case chosen of
       Some fee \<Rightarrow>
         bindA (modifyA (\<lambda>b. b \<lparr> record_fee := fee \<rparr>)) (\<lambda>_.
         bindA (getA (\<lambda>b. charge_fee (asset_id fee) (in_order (outstanding_balances b)) (amount fee) (outstanding_balances b))) (\<lambda>(t, paid).
         bindA (modifyA (\<lambda>b. b \<lparr> outstanding_balances := t \<rparr>)) (\<lambda>_.
         if paid then returnA () else raiseA fee_not_paid)))
     | None \<Rightarrow> bindA (withdraw_fee W X N) (\<lambda>paid. if paid then returnA () else raiseA fee_not_paid))
       (b \<lparr> builder_wallet := w \<rparr>) = Some (Inr u, b')"
    using assms(1) by (auto simp: pay_fee_def elim!: run_elims)
  show ?thesis
  proof (cases chosen)
    case None
    with run show ?thesis
      by (auto simp: withdraw_fee_def dest!: withdraw_fee_from_books [where i = i] elim!: run_elims split: if_split_asm)
  next
    case (Some fee)
    obtain t paid where charge: "charge_fee (asset_id fee) (in_order (outstanding_balances b)) (amount fee) (outstanding_balances b) = (t, paid)"
      by fastforce
    with run Some have b': "paid" "b' = b \<lparr> builder_wallet := w, record_fee := fee, outstanding_balances := t \<rparr>"
      by (auto simp: bindA_def getA_def split: if_split_asm)
    have "\<forall>(k, v) \<in> set (in_order (outstanding_balances b)). map_of (outstanding_balances b) k = Some v"
      using assms(2) by auto
    with charge_fee_books [of "asset_id fee" _ "amount fee" _ t i] charge b' assms(2) show ?thesis
      by (simp add: imbalance_outstanding)
  qed
qed

section \<open>Settling the balances\<close>

definition balances_filed :: "ext \<Rightarrow> node \<Rightarrow> bool" where
  "balances_filed X N \<longleftrightarrow> (\<forall>i r. get_balance_record (get_pending_state N) i = Some r \<longrightarrow> balance_record_id X r = i)"

definition filed :: "ext \<Rightarrow> node \<Rightarrow> balance_record \<Rightarrow> bool" where
  "filed X N r \<longleftrightarrow> get_balance_record (get_pending_state N) (balance_record_id X r) = Some r"

lemma foldA_invariant:
  assumes "foldA f xs a s = Some (Inr a', s')" and "P a"
    and "\<And>x a s a' s'. f x a s = Some (Inr a', s') \<Longrightarrow> P a \<Longrightarrow> P a'"
  shows "P a'"
  using assms(1,2)
proof (induction xs arbitrary: a s)
  case (Cons x xs)
  then show ?case by (auto elim!: bindA_InrE intro: assms(3))
qed simp

lemma scan_balance_filed:
  assumes "scan_balance W X N name e r found w = Some (Inr found', w')" and "balances_filed X N"
    and "\<forall>n rs. map_of found n = Some rs \<longrightarrow> (\<forall>q \<in> set rs. filed X N q)"
  shows "\<forall>n rs. map_of found' n = Some rs \<longrightarrow> (\<forall>q \<in> set rs. filed X N q)"
proof -
  have "filed X N p" if "get_balance_record (get_pending_state N) i = Some p" for i p
    using that assms(2) by (auto simp: filed_def balances_filed_def)
  then show ?thesis
    using assms(1,3) by (auto simp: scan_balance_def push_record_def elim!: run_elims split: if_split_asm option.split_asm)
qed

lemma balance_records_filed:
  assumes "get_account_balance_records W X N name e w = Some (Inr found, w')" and "balances_filed X N"
    and "map_of found n = Some rs" and "r \<in> set rs"
  shows "filed X N r"
proof -
  obtain w1 where "foldA (scan_balance W X N name e) (map snd (in_order (balance_db (ledger_db N)))) [] w1 = Some (Inr found, w')"
    using assms(1) by (auto simp: get_account_balance_records_def elim!: bindA_InrE)
  then have "\<forall>n rs. map_of found n = Some rs \<longrightarrow> (\<forall>q \<in> set rs. filed X N q)"
    by (rule foldA_invariant) (simp, rule scan_balance_filed [OF _ assms(2)], assumption+)
  with assms(3,4) show ?thesis by blast
qed

lemma trx_withdraw_books:
  "trx_withdraw (balance_record_id X r) v t = Inr t' \<Longrightarrow> filed X N r \<Longrightarrow>
   trx_net N i t' = trx_net N i t + (if condition_asset_id (condition r) = i then v else 0)"
  by (auto simp: trx_withdraw_def filed_def split: if_split_asm)

lemma take_balances_books:
  "take_balances X rs a (t, sigs) = Inr (t', sigs') \<Longrightarrow> \<forall>r \<in> set rs. filed X N r \<Longrightarrow>
   trx_net N i t' = trx_net N i t + (if asset_id a = i then amount a else 0)"
proof (induction rs arbitrary: a t sigs)
  case (Cons r rs)
  have filed: "filed X N r" "\<forall>q \<in> set rs. filed X N q" using Cons.prems(2) by simp_all
  consider (skip) "take_balances X rs a (t, sigs) = Inr (t', sigs')"
    | (whole) t1 a1 s where "condition_asset_id (condition r) = asset_id a"
        "trx_withdraw (balance_record_id X r) (balance r) t = Inr t1" "asset_sub a (get_balance r) = Inr a1"
        "take_balances X rs a1 (t1, s) = Inr (t', sigs')"
    | (part) "condition_asset_id (condition r) = asset_id a" "trx_withdraw (balance_record_id X r) (amount a) t = Inr t'"
    using Cons.prems(1) by (auto simp: bindE_Inr_iff split: if_split_asm)
  then show ?case
  proof cases
    case skip
    then show ?thesis using Cons.IH filed(2) by simp
  next
    case whole
    show ?thesis
      using Cons.IH [OF whole(4) filed(2)] trx_withdraw_books [OF whole(2) filed(1), of i] asset_sub_Inr [OF whole(3)] whole(1)
      by (auto simp: get_balance_def)
  next
    case part
    show ?thesis using trx_withdraw_books [OF part(2) filed(1), of i] part(1) by simp
  qed
qed simp

lemma withdraw_to_transaction_books:
  assumes "withdraw_to_transaction W X N a name (t, sigs) w = Some (Inr (t', sigs'), w')" and "balances_filed X N"
  shows "trx_net N i t' = trx_net N i t + (if asset_id a = i then amount a else 0)"
proof -
  obtain found w1 rs where "get_account_balance_records W X N name True w = Some (Inr found, w1)"
    and "map_of found name = Some rs" and "take_balances X rs a (t, sigs) = Inr (t', sigs')"
    using assms(1) by (auto simp: withdraw_to_transaction_def elim!: bindA_InrE split: if_split_asm option.split_asm)
  with balance_records_filed [OF _ assms(2)] show ?thesis
    by (intro take_balances_books) blast+
qed

lemma settle_books:
  assumes "settle_balance W X N s ((who, j), v) b = Some (Inr u, b')" and "balances_filed X N"
  shows "trx_net N i (built_trx b') = trx_net N i (built_trx b) - (if j = i then v else 0) \<and> record_fee b' = record_fee b"
proof -
  have key: "built_trx b1 = built_trx b \<and> record_fee b1 = record_fee b"
    if "order_key_for_account W X who b = Some (Inr k, b1)" for k b1
    using that by (auto simp: order_key_for_account_def elim!: run_elims split: if_split_asm)
  show ?thesis
    using assms by (auto simp: settle_balance_def withdraw_missing_def trx_deposit_books
        dest!: key withdraw_to_transaction_books [where i = i] elim!: run_elims modifyA_InrE split: if_split_asm)
qed

lemma settle_all_books:
  assumes "forA (settle_balance W X N s) es b = Some (Inr u, b')" and "balances_filed X N"
  shows "trx_net N i (built_trx b') = trx_net N i (built_trx b) - tsum (\<lambda>k v. if snd k = i then v else 0) es
    \<and> record_fee b' = record_fee b"
  using assms(1)
proof (induction es arbitrary: b)
  case (Cons e es)
  obtain who j v where e: "e = ((who, j), v)" by (cases e) auto
  obtain b1 u1 where "settle_balance W X N s ((who, j), v) b = Some (Inr u1, b1)" and "forA (settle_balance W X N s) es b1 = Some (Inr u, b')"
    using Cons.prems by (auto simp: e elim!: bindA_InrE)
  with Cons.IH [of b1] settle_books [OF _ assms(2), of W s who j v b u1 b1 i] show ?case
    by (simp add: tsum_def e)
qed (simp add: tsum_def)

lemma tsum_ordered: "tsum f (in_order t) = (tsum f t :: 'n::comm_monoid_add)"
proof -
  have "mset (map (\<lambda>(k, v). f k v) (in_order t)) = mset (map (\<lambda>(k, v). f k v) t)"
    by (simp add: in_order_def)
  then have "sum_list (map (\<lambda>(k, v). f k v) (in_order t)) = sum_list (map (\<lambda>(k, v). f k v) t)"
    by (metis sum_mset_sum_list)
  then show ?thesis by (simp add: tsum_def)
qed

section \<open>Transactions that are built\<close>

text \<open>
  The builders the wallet can make with the builder functions. The index \<open>cover\<close> says whether a position was covered,
  \<open>extra\<close> is what was charged for delegates; the wallet may change between two functions.
\<close>

inductive builds :: "wallet_lib \<Rightarrow> ext \<Rightarrow> node \<Rightarrow> bool \<Rightarrow> share_type \<Rightarrow> transaction_builder \<Rightarrow> bool" for W X N where
  builds_new: "builds W X N False 0 (new_builder w)"
| builds_wallet: "builds W X N c e b \<Longrightarrow> builds W X N c e (b \<lparr> builder_wallet := w \<rparr>)"
| builds_update: "builds W X N c e b \<Longrightarrow> update_account_registration W X N a pd x dp p b = Some (Inr u, b') \<Longrightarrow>
    builds W X N c (e + extra_fee N (chain_account a) dp) b'"
| builds_deposit: "builds W X N c e b \<Longrightarrow> deposit_asset W X N a r v memo m k b = Some (Inr u, b') \<Longrightarrow> builds W X N c e b'"
| builds_claim: "builds W X N c e b \<Longrightarrow> claim_balance W X N r src sig m b = Some (Inr u, b') \<Longrightarrow> builds W X N c e b'"
| builds_cancel: "builds W X N c e b \<Longrightarrow> cancel_market_order W X N j b = Some (Inr u, b') \<Longrightarrow> builds W X N c e b'"
| builds_bid: "builds W X N c e b \<Longrightarrow> submit_bid W X a q pr b = Some (Inr u, b') \<Longrightarrow> builds W X N c e b'"
| builds_ask: "builds W X N c e b \<Longrightarrow> submit_ask W X a q pr b = Some (Inr u, b') \<Longrightarrow> builds W X N c e b'"
| builds_short: "builds W X N c e b \<Longrightarrow> submit_short W X a q pr l b = Some (Inr u, b') \<Longrightarrow> base_asset_id pr = 0 \<Longrightarrow>
    builds W X N c e b'"
| builds_cover: "builds W X N c e b \<Longrightarrow> submit_cover W X N a q j b = Some (Inr u, b') \<Longrightarrow> builds W X N True e b'"

lemma built_books:
  "builds W X N c e b \<Longrightarrow> i \<noteq> 0 \<or> \<not> c \<Longrightarrow> imbalance N i b = (if i = 0 then e else 0)"
proof (induction rule: builds.induct)
  case (builds_new w)
  then show ?case by (simp add: imbalance_def new_builder_def trx_net_def new_transaction_def outstanding_total_def)
next
  case (builds_update c e b a pd x dp p u b')
  then show ?case using update_registration_books [OF builds_update(2), of i] by auto
next
  case (builds_cover c e b a q j u b')
  then show ?case using submit_cover_books [OF builds_cover(2), of i] by auto
qed (simp_all add: deposit_asset_books claim_balance_books cancel_market_order_books submit_bid_books submit_ask_books
    submit_short_books)

text \<open>Every account and asset has one outstanding balance.\<close>

lemma on_wallet_keys: "preserves keys_once (on_wallet m)"
  by (auto simp: preserves_def on_wallet_def keys_once_def)

lemma builder_steps_keys:
  "preserves keys_once (change_trx f)" "preserves keys_once (step_trx g)" "preserves keys_once (add_entry k l a)"
  "preserves keys_once (readA h)" "preserves keys_once (getA q)"
  by (auto simp: preserves_def change_trx_def step_trx_def add_entry_def readA_def getA_def bindA_def keys_once_def split: sum.split_asm)

lemma balance_keys:
  "preserves keys_once (deduct_balance who a)" "preserves keys_once (credit_balance who a)"
  by (auto simp: preserves_def deduct_balance_def credit_balance_def keys_once_def add_amount_def distinct_update)

lemma modifyA_keys: "(\<And>b. outstanding_balances (f b) = outstanding_balances b) \<Longrightarrow> preserves keys_once (modifyA f)"
  by (auto simp: preserves_def keys_once_def)

lemma field_keys [simp]:
  "outstanding_balances (require_signature a b) = outstanding_balances b" "outstanding_balances (set_order_key a k b) = outstanding_balances b"
  by (simp_all add: require_signature_def set_order_key_def)

lemmas keys_rules = on_wallet_keys builder_steps_keys balance_keys keys_once_order preserves_simple(1-3) preserves_bindA preserves_cases

lemma order_key_keys: "preserves keys_once (order_key_for_account W X a)"
  unfolding order_key_for_account_def by (intro keys_rules modifyA_keys) simp_all

lemma deposit_to_recipient_keys: "preserves keys_once (deposit_to_recipient W X N r a memo m k)"
  unfolding deposit_to_recipient_def select_builder_slate_def by (intro keys_rules modifyA_keys) simp_all

lemma deposit_asset_keys: "preserves keys_once (deposit_asset W X N p r a memo m k)"
  unfolding deposit_asset_def Let_def by (intro keys_rules modifyA_keys deposit_to_recipient_keys) simp_all

lemma claim_balance_keys: "preserves keys_once (claim_balance W X N r src sig m)"
  unfolding claim_balance_def by (intro keys_rules modifyA_keys deposit_to_recipient_keys) simp_all

lemma pay_delegate_fee_keys: "preserves keys_once (pay_delegate_fee X N a p s)"
  unfolding pay_delegate_fee_def by (intro keys_rules modifyA_keys)

lemma update_pay_rate_keys: "preserves keys_once (update_pay_rate X N a p dp s)"
  unfolding update_pay_rate_def Let_def by (intro keys_rules pay_delegate_fee_keys)

lemma register_active_key_keys: "preserves keys_once (register_active_key W X N a p x)"
  unfolding register_active_key_def Let_def by (intro keys_rules)

lemma update_registration_keys: "preserves keys_once (update_account_registration W X N a pd x dp p)"
  unfolding update_account_registration_def Let_def
  by (intro keys_rules modifyA_keys update_pay_rate_keys register_active_key_keys) simp_all

lemma order_owner_keys: "preserves keys_once (order_owner W X N j)"
  unfolding order_owner_def by (intro keys_rules)

lemma cancel_order_keys: "preserves keys_once (cancel_order m bal)"
  unfolding cancel_order_def Let_def by (cases "order_type_of m"; simp only: order_type.case; intro keys_rules)

lemma cancel_market_order_keys: "preserves keys_once (cancel_market_order W X N j)"
  unfolding cancel_market_order_def by (intro keys_rules modifyA_keys order_owner_keys cancel_order_keys) simp_all

lemma submit_order_keys: "preserves keys_once (submit_order W X a c order)"
  unfolding submit_order_def by (intro keys_rules modifyA_keys order_key_keys) simp_all

lemma submit_keys:
  "preserves keys_once (submit_bid W X a q p)" "preserves keys_once (submit_ask W X a q p)"
  "preserves keys_once (submit_short W X a q p l)"
  unfolding submit_bid_def submit_ask_def submit_short_def validate_market_def by (intro keys_rules submit_order_keys)+

lemma begin_cover_keys: "preserves keys_once (begin_cover N a m k ac)"
proof -
  have run: "begin_cover N a m k ac b =
      (if account_name ac \<noteq> account_name a then raiseA assert_failed b
       else if account_address a \<in> set (accounts_with_covers b) then raiseA wallet_double_cover b
       else bindA (modifyA (\<lambda>b. b \<lparr> accounts_with_covers := insert_address (account_address a) (accounts_with_covers b) \<rparr>))
         (\<lambda>_. if \<exists>e \<in> set (get_pending_transactions N). \<exists>op \<in> set (trx_operations (trx e)). covers_position_of (owner (market_index m)) op
              then raiseA wallet_double_cover else modifyA (set_order_key (account_address a) (key_public_key k))) b)" for b
    by (simp add: begin_cover_def)
  show ?thesis
    by (auto simp: preserves_def run bindA_def keys_once_def split: if_split_asm)
qed

lemma available_balance_keys: "preserves keys_once (available_balance W X N name i)"
proof -
  have "preserves keys_once (case bals of [] \<Rightarrow> raiseA assert_failed
      | (n, t) # rest \<Rightarrow> (case map_of t i of Some v \<Rightarrow> returnA v | None \<Rightarrow> raiseA assert_failed))" for bals :: "(string, (int, share_type) table) table"
    by (cases bals) (auto intro: keys_rules split: option.split)
  then show ?thesis unfolding available_balance_def by (intro keys_rules)
qed

lemma recover_collateral_keys: "preserves keys_once (recover_collateral a m k l)"
  unfolding recover_collateral_def by (intro keys_rules)

lemma submit_cover_keys: "preserves keys_once (submit_cover W X N a q j)"
  unfolding submit_cover_def Let_def
  by (intro keys_rules modifyA_keys order_owner_keys begin_cover_keys available_balance_keys recover_collateral_keys) simp_all

lemma built_keys: "builds W X N c e b \<Longrightarrow> distinct (map fst (outstanding_balances b))"
proof (induction rule: builds.induct)
  case (builds_new w)
  then show ?case by (simp add: new_builder_def)
next
  case (builds_wallet c e b w)
  then show ?case by simp
next
  case (builds_update c e b a pd x dp p u b')
  then show ?case using preservesD [OF update_registration_keys] by (auto simp: keys_once_def)
next
  case (builds_deposit c e b a r v memo m k u b')
  then show ?case using preservesD [OF deposit_asset_keys] by (auto simp: keys_once_def)
qed (auto simp: keys_once_def dest!: preservesD [OF claim_balance_keys] preservesD [OF cancel_market_order_keys]
    preservesD [OF submit_keys(1)] preservesD [OF submit_keys(2)] preservesD [OF submit_keys(3)] preservesD [OF submit_cover_keys])

lemma withdraw_fee_from_keys: "preserves keys_once (withdraw_fee_from X N bals ks)"
proof (induction ks)
  case Nil
  show ?case unfolding withdraw_fee_from.simps by (intro keys_rules)
next
  case (Cons k ks)
  show ?case unfolding withdraw_fee_from.simps by (intro keys_rules modifyA_keys Cons) simp_all
qed

lemma charge_fee_step_keys:
  "preserves keys_once (bindA (getA (\<lambda>b. charge_fee i (in_order (outstanding_balances b)) v (outstanding_balances b))) (\<lambda>(t, paid).
     bindA (modifyA (\<lambda>b. b \<lparr> outstanding_balances := t \<rparr>)) (\<lambda>_. if paid then returnA () else raiseA fee_not_paid)))"
proof -
  have "distinct (map fst t')" if "charge_fee i es v t = (t', p)" "distinct (map fst t)" for es t t' p
    using charge_fee_keys [OF that(2), of i es v] that(1) by simp
  then show ?thesis
    by (auto simp: preserves_def keys_once_def bindA_def getA_def returnA_def raiseA_def split: prod.split_asm if_split_asm)
qed

lemma pay_fee_keys: "preserves keys_once (pay_fee W X N)"
  unfolding pay_fee_def withdraw_fee_def
  by (intro keys_rules modifyA_keys withdraw_fee_from_keys charge_fee_step_keys) simp_all

section \<open>Finalizing\<close>

definition begin_finalize :: "ext \<Rightarrow> node \<Rightarrow> delegate_slate \<Rightarrow> slate_id_type building" where
  "begin_finalize X N slate =
     (if length slate > 0 \<and> get_delegate_slate (wallet_ledger N) (slate_id X slate) = None
      then bindA (step_trx (define_delegate_slate slate)) (\<lambda>_. returnA (slate_id X slate)) else returnA 0)"

lemma finalizeE:
  assumes "finalize W X N b = Some (Inr u, b')"
  obtains slate w s b1 b2 where "select_delegate_vote W X N vote_recommended (builder_wallet b) = Some (Inr slate, w)"
    and "begin_finalize X N slate (b \<lparr> builder_wallet := w \<rparr>) = Some (Inr s, b1)" and "pay_fee W X N b1 = Some (Inr (), b2)"
    and "forA (settle_balance W X N s) (in_order (outstanding_balances b2)) b2 = Some (Inr u, b')"
  using assms unfolding finalize_def begin_finalize_def [symmetric]
  by (auto elim!: bindA_InrE getA_InrE on_wallet_InrE split: if_split_asm)

lemma begin_finalize_books:
  "begin_finalize X N slate b = Some (Inr s, b') \<Longrightarrow>
   imbalance N i b' = imbalance N i b \<and> outstanding_balances b' = outstanding_balances b"
  by (auto simp: begin_finalize_def imbalance_trx define_slate_books elim!: run_elims split: if_split_asm)

lemma finalize_books:
  assumes "finalize W X N b = Some (Inr u, b')" and "balances_filed X N" and "distinct (map fst (outstanding_balances b))"
  shows "trx_net N i (built_trx b') = imbalance N i b + (if i = asset_id (record_fee b') then amount (record_fee b') else 0)"
  using assms(1)
proof (rule finalizeE)
  fix slate w s b1 b2
  assume "begin_finalize X N slate (b \<lparr> builder_wallet := w \<rparr>) = Some (Inr s, b1)"
    and pay: "pay_fee W X N b1 = Some (Inr (), b2)"
    and all: "forA (settle_balance W X N s) (in_order (outstanding_balances b2)) b2 = Some (Inr u, b')"
  then have b1: "imbalance N i b1 = imbalance N i b" "outstanding_balances b1 = outstanding_balances b"
    using begin_finalize_books by fastforce+
  then have "distinct (map fst (outstanding_balances b2))"
    using preservesD [OF pay_fee_keys pay] assms(3) by (simp add: keys_once_def)
  then show ?thesis
    using pay_fee_books [OF pay, of i] settle_all_books [OF all assms(2), of i] assms(3) b1
    by (simp add: tsum_ordered imbalance_def outstanding_total_def msum_map_of)
qed

text \<open>
  C14. A finalized transaction leaves exactly the fee: in every asset, what its withdrawals bring in minus what
  its deposits and orders use is the fee the builder recorded (in the asset of the fee), plus the fees for
  new delegates and pay rates (in the base asset), whatever builder functions were called before, with shorts
  in markets whose base asset is asset 0, as the caller makes sure. Sums are taken modulo 2^64. After a
  cover the base asset is left out, because the chain returns the collateral outside the operations.
\<close>

theorem finalized_transaction_leaves_the_fee:
  assumes "builds W X N cover extra b" and "finalize W X N b = Some (Inr (), b')" and "balances_filed X N"
    and "i \<noteq> 0 \<or> \<not> cover"
  shows "trx_net N i (built_trx b') =
    (if i = asset_id (record_fee b') then amount (record_fee b') else 0) + (if i = 0 then extra else 0)"
  using finalize_books [OF assms(2,3) built_keys [OF assms(1)], of i] built_books [OF assms(1,4)] by simp

theorem finalized_transaction_leaves_the_fee_witness:
  "trx_net wallet_node 0 (built_trx after_finalize) = 100000"
proof -
  have "balances_filed ext_std wallet_node"
    by (auto simp: balances_filed_def get_pending_state_def wallet_ledger_def wallet_node_def new_pending_state_def sample_database_def
        sample_balance_def signature_condition_def balance_record_id_def ext_std_def fc_lib.defs split: if_split_asm)
  then show ?thesis
    using finalized_transaction_leaves_the_fee [OF builds_deposit [OF builds_new sample_deposit] sample_finalize, of 0]
    by (simp add: sample_fee)
qed

section \<open>Who pays the fee\<close>

lemma two_in_order: "p < q \<Longrightarrow> in_order [((p, i), v), ((q, j), w)] = [((p, i), v), ((q, j), w)]"
  by (simp add: in_order_def)

text \<open>
  C16. The account that pays the fee pays the debts of others. When one account owes an amount of the base asset and a later one has
  enough for the fee, the fee is not taken from the second account alone: the debt of the first is set to zero and
  charged to the second. If both together exceed what it has, the fee counts as not paid.
\<close>

theorem fee_takes_debts_along:
  assumes "outstanding_balances b = [((p, 0), v), ((q, 0), w)]" and "p < q"
    and "priority_fee (builder_wallet b) = asset_of fee 0" and "0 < sint fee"
    and "sint v < 0" and "sint fee \<le> sint w" and "sint fee - sint v \<le> INT64_MAX"
  shows "pay_fee W X N b =
    (if sint fee - sint v \<le> sint w
     then Some (Inr (), b \<lparr> record_fee := asset_of fee 0, outstanding_balances := [((p, 0), 0), ((q, 0), w + v - fee)] \<rparr>)
     else Some (Inl fee_not_paid, b \<lparr> record_fee := asset_of fee 0, outstanding_balances := [((p, 0), 0), ((q, 0), 0)] \<rparr>))"
proof -
  have diff: "sint (fee - v) = sint fee - sint v" "w - (fee - v) = w + v - fee"
    using assms(4,5,7) by (auto intro!: sint64_sub simp: INT64_MIN_def)
  have chosen: "choose_fee X N (builder_wallet b) (in_order (all_positive_balances (outstanding_balances b))) = Inr (Some (asset_of fee 0))"
    using assms(3-6) by (simp add: assms(1) all_positive_balances_def two_in_order [OF assms(2)] add_amount_def in_order_def
        asset_can_pay_fee_def get_transaction_fee_def)
  have "charge_fee 0 (in_order (outstanding_balances b)) fee (outstanding_balances b) =
    (if sint fee - sint v \<le> sint w then ([((p, 0), 0), ((q, 0), w + v - fee)], True) else ([((p, 0), 0), ((q, 0), 0)], False))"
    using assms(2,4,5) by (simp add: assms(1) two_in_order [OF assms(2)] diff not_le not_less)
  with chosen show ?thesis
    by (auto simp: pay_fee_def bindA_def getA_def readA_def on_wallet_def returnA_def raiseA_def modifyA_def)
qed

theorem fee_takes_debts_along_witness:
  "let b = (new_builder (sample_wallet 0 1)) \<lparr> outstanding_balances := [((7, 0), - 5000), ((8, 0), 500000)] \<rparr>
   in pay_fee wallet_std ext_std wallet_node b =
     Some (Inr (), b \<lparr> record_fee := asset_of 100000 0, outstanding_balances := [((7, 0), 0), ((8, 0), 395000)] \<rparr>)"
proof -
  have "priority_fee (sample_wallet 0 1) = asset_of 100000 0" by code_simp
  then show ?thesis
    using fee_takes_debts_along [of "(new_builder (sample_wallet 0 1)) \<lparr> outstanding_balances := [((7, 0), - 5000), ((8, 0), 500000)] \<rparr>"
        7 "- 5000" 8 500000 100000 wallet_std ext_std wallet_node]
    by (simp add: new_builder_def INT64_MAX_def)
qed

section \<open>Whom a transaction votes for\<close>

definition appends_votes :: "slate_id_type \<Rightarrow> transaction_builder \<Rightarrow> transaction_builder \<Rightarrow> bool" where
  "appends_votes s b b' \<longleftrightarrow> (\<exists>ops. trx_operations (built_trx b') = trx_operations (built_trx b) @ ops \<and>
     (\<forall>v c. Balance_op (Deposit_operation v c) \<in> set ops \<longrightarrow> delegate_slate_id c = s))"

lemma appends_votes_order [simp, intro]: "reflp (appends_votes s)" "transp (appends_votes s)"
  by (auto simp: appends_votes_def reflp_def transp_def)

lemma take_balances_votes:
  "take_balances X rs a (t, sigs) = Inr (t', sigs') \<Longrightarrow>
   \<exists>ops. trx_operations t' = trx_operations t @ ops \<and> (\<forall>v c. Balance_op (Deposit_operation v c) \<notin> set ops)"
proof (induction rs arbitrary: a t sigs)
  case (Cons r rs)
  then show ?case
    by (fastforce simp: bindE_Inr_iff trx_withdraw_def push_operation_def split: if_split_asm)
qed simp

lemma same_trx_votes: "built_trx b' = built_trx b \<Longrightarrow> appends_votes s b b'"
  by (simp add: appends_votes_def)

lemma step_votes:
  "preserves (appends_votes s) (on_wallet m)" "preserves (appends_votes s) (getA g)" "preserves (appends_votes s) (readA h)"
  "(\<And>b. built_trx (f b) = built_trx b) \<Longrightarrow> preserves (appends_votes s) (modifyA f)"
  "preserves (appends_votes s) (step_trx (trx_deposit o' a s))"
  by (auto simp: preserves_def on_wallet_def getA_def readA_def step_trx_def bindA_def trx_deposit_def push_operation_def
      appends_votes_def intro!: same_trx_votes split: if_split_asm)

lemma withdraw_votes: "preserves (appends_votes s) (withdraw_missing W X N a name)"
  using take_balances_votes
  by (fastforce simp: withdraw_missing_def preserves_def appends_votes_def bindA_def getA_def on_wallet_def withdraw_to_transaction_def
      split: if_split_asm option.split_asm sum.split_asm)

lemma order_key_votes: "preserves (appends_votes s) (order_key_for_account W X a)"
  unfolding order_key_for_account_def
  by (intro preserves_cases preserves_bindA step_votes appends_votes_order preserves_simple(1-3)) simp_all

lemma settle_votes: "preserves (appends_votes s) (settle_balance W X N s e)"
proof -
  obtain who i v where e: "e = ((who, i), v)" by (cases e) auto
  show ?thesis unfolding e settle_balance_def prod.case
    by (intro preserves_cases preserves_bindA step_votes order_key_votes withdraw_votes appends_votes_order preserves_simple(1-3))
qed

lemma trx_kept:
  "preserves (appends_votes s) (charge)" if "\<And>b r b'. charge b = Some (r, b') \<Longrightarrow> built_trx b' = built_trx b"
  using that by (auto simp: preserves_def intro: same_trx_votes)

lemma withdraw_fee_from_votes: "preserves (appends_votes s) (withdraw_fee_from X N bals ks)"
proof (induction ks)
  case Nil
  show ?case unfolding withdraw_fee_from.simps by (intro preserves_simple appends_votes_order)
next
  case (Cons k ks)
  have "preserves (appends_votes s) (deduct_balance who a)" for who a
    unfolding deduct_balance_def by (intro preserves_cases preserves_simple(2) step_votes(4) appends_votes_order) simp_all
  then show ?case unfolding withdraw_fee_from.simps
    by (intro preserves_cases preserves_bindA step_votes Cons appends_votes_order preserves_simple(1-3)) simp_all
qed

lemma pay_fee_votes: "preserves (appends_votes s) (pay_fee W X N)"
  unfolding pay_fee_def withdraw_fee_def
  by (intro preserves_cases preserves_bindA step_votes withdraw_fee_from_votes appends_votes_order preserves_simple(1-3)) simp_all

text \<open>
  C17. When the chain already knows the slate that the wallet has chosen, finalizing appends no deposit
  that votes for it: every deposit it appends has the slate zero, which supports nobody.
\<close>

theorem known_slate_gets_no_votes:
  assumes "finalize W X N b = Some (Inr (), b')"
    and "select_delegate_vote W X N vote_recommended (builder_wallet b) = Some (Inr slate, w)"
    and "get_delegate_slate (wallet_ledger N) (slate_id X slate) \<noteq> None"
  shows "\<exists>ops. trx_operations (built_trx b') = trx_operations (built_trx b) @ ops \<and>
    (\<forall>v c. Balance_op (Deposit_operation v c) \<in> set ops \<longrightarrow> delegate_slate_id c = 0)"
  using assms(1)
proof (rule finalizeE)
  fix slate' w' s b1 b2
  assume sel: "select_delegate_vote W X N vote_recommended (builder_wallet b) = Some (Inr slate', w')"
    and start: "begin_finalize X N slate' (b \<lparr> builder_wallet := w' \<rparr>) = Some (Inr s, b1)"
    and pay: "pay_fee W X N b1 = Some (Inr (), b2)"
    and all: "forA (settle_balance W X N s) (in_order (outstanding_balances b2)) b2 = Some (Inr (), b')"
  have "s = 0" and b1: "b1 = b \<lparr> builder_wallet := w' \<rparr>"
    using start sel assms(2,3) by (auto simp: begin_finalize_def)
  moreover have "appends_votes s b1 b2" using pay_fee_votes pay by (rule preservesD)
  moreover have "appends_votes s b2 b'"
    using preserves_forA [OF appends_votes_order settle_votes] all by (rule preservesD)
  ultimately have "appends_votes 0 b1 b'" using appends_votes_order(2) by (meson transpD)
  with b1 show ?thesis by (simp add: appends_votes_def)
qed

theorem known_slate_gets_no_votes_witness:
  "\<exists>ops. trx_operations (built_trx after_crediting) = trx_operations (built_trx crediting_builder) @ ops \<and>
    (\<forall>v c. Balance_op (Deposit_operation v c) \<in> set ops \<longrightarrow> delegate_slate_id c = 0)"
  using crediting_slate by (intro known_slate_gets_no_votes [OF crediting_finalize crediting_vote]) simp

section \<open>The slate is filled\<close>

lemma best_candidate_ranked:
  assumes "ranks \<noteq> []" and "\<forall>(i, r) \<in> set ranks. 0 < r"
  shows "best_candidate ranks \<in> fst ` set ranks"
proof -
  have best: "0 \<le> m \<Longrightarrow> (m, b) = (0, 0) \<or> b \<in> B \<Longrightarrow> \<forall>(i, r) \<in> set xs. 0 < r \<Longrightarrow> xs \<noteq> [] \<or> b \<in> B \<Longrightarrow>
      snd (fold (\<lambda>(i, r) (best_rank, best). if r > best_rank then (r, i) else (best_rank, best)) xs (m, b)) \<in> B \<union> fst ` set xs"
    for xs :: candidate_ranks and m b B
  proof (induction xs arbitrary: m b B)
    case (Cons x xs)
    show ?case
    proof (cases "snd x > m")
      case True
      with Cons.prems Cons.IH [of "snd x" "fst x" "insert (fst x) B"] show ?thesis by (auto split: prod.splits)
    next
      case False
      with Cons.prems have "b \<in> B" by (cases x) auto
      with False Cons.prems Cons.IH [of m b B] show ?thesis by (auto split: prod.splits)
    qed
  qed auto
  show ?thesis using best [of 0 0 "{}" ranks] assms by (simp add: best_candidate_def)
qed

lemma fill_slate_returns:
  "\<forall>(i, r) \<in> set ranks. 0 < r \<Longrightarrow> \<exists>slate. fill_slate candidates ranks = Some slate"
proof (induction "length ranks" arbitrary: candidates ranks rule: less_induct)
  case less
  show ?case
  proof (cases "ranks = []")
    case True
    then show ?thesis by (simp add: fill_slate.simps)
  next
    case False
    let ?rest = "AList.delete (best_candidate ranks) ranks"
    have "length ?rest < length ranks"
      using best_candidate_ranked [OF False less.prems] by (auto simp: AList.delete_eq intro!: length_filter_less)
    moreover have "\<forall>(i, r) \<in> set ?rest. 0 < r" using less.prems by (auto simp: AList.delete_eq)
    ultimately show ?thesis using less.hyps by (subst fill_slate.simps) auto
  qed
qed
text \<open>Ranks are counts, and stay positive when candidates are removed, so the slate is always filled.\<close>

definition ranks_positive :: "candidate_ranks \<Rightarrow> bool" where
  "ranks_positive ranks \<longleftrightarrow> (\<forall>(i, r) \<in> set ranks. 0 < r)"

lemma ranks_positive_delete: "ranks_positive ranks \<Longrightarrow> ranks_positive (AList.delete j ranks)"
  by (auto simp: ranks_positive_def AList.delete_eq)

lemma ranks_positive_recommend: "ranks_positive ranks \<Longrightarrow> ranks_positive (recommend j ranks)"
proof -
  assume ranks: "ranks_positive ranks"
  have "0 < n \<Longrightarrow> ranks_positive (AList.update j n ranks)" for n
    using ranks by (induction ranks) (auto simp: ranks_positive_def)
  moreover have "0 < (case map_of ranks j of Some r \<Rightarrow> r | None \<Rightarrow> 0) + 1"
    using ranks by (auto simp: ranks_positive_def dest!: map_of_SomeD split: option.split)
  ultimately show ?thesis unfolding recommend_def by blast
qed

lemma ranks_positive_fold:
  "ranks_positive ranks \<Longrightarrow> (\<And>x t. ranks_positive t \<Longrightarrow> ranks_positive (f x t)) \<Longrightarrow> ranks_positive (fold f xs ranks)"
  by (rule fold_invariant [where Q = "\<lambda>_. True"]) simp_all

lemma tally_positive:
  "tally_recommendations W X N j ranks w = Some (Inr ranks', w') \<Longrightarrow> ranks_positive ranks \<Longrightarrow> ranks_positive ranks'"
  by (auto simp: tally_recommendations_def ranks_positive_fold ranks_positive_recommend elim!: bindA_InrE split: option.split_asm)

lemma add_recommended_returns:
  assumes "foldA (tally_recommendations W X N) candidates [] w = Some (Inr ranks, w')"
  shows "\<exists>r. add_recommended W X N accounts candidates w = Some (r, w')"
proof -
  have "ranks_positive ranks"
    by (rule foldA_invariant [OF assms]) (simp add: ranks_positive_def, rule tally_positive)
  then have "ranks_positive (fold AList.delete candidates
      (fold (\<lambda>a t. if \<not> is_delegate (chain_account a) \<or> sint (approved a) < 0 then AList.delete (account_id a) t else t)
        accounts ranks))"
    by (intro ranks_positive_fold) (simp_all add: ranks_positive_delete)
  then have "\<exists>slate. fill_slate ds (fold AList.delete candidates
      (fold (\<lambda>a t. if \<not> is_delegate (chain_account a) \<or> sint (approved a) < 0 then AList.delete (account_id a) t else t)
        accounts ranks)) = Some slate" for ds
    unfolding ranks_positive_def by (rule fill_slate_returns)
  then show ?thesis
    by (auto simp: add_recommended_def bindA_def assms liftE_def split: sum.split)
qed

section \<open>Approvals\<close>

text \<open>Who approves of as many accounts as a slate has places votes for nobody.\<close>

lemma many_approvals_give_no_votes:
  assumes "BTS_BLOCKCHAIN_MAX_SLATE_SIZE \<le> length (approved_candidates vote_recommended (map snd (wallet_accounts w)))"
    and "\<And>xs s. length (fst (random_shuffle W xs s)) = length xs"
  shows "\<exists>w'. select_delegate_vote W X N vote_recommended w = Some (Inr [], w')"
  using assms by (auto simp: select_delegate_vote_def bindA_def getA_def draw_def returnA_def raiseA_def)

lemma foldA_visits:
  assumes "foldA f xs a s = Some (Inr a', s')" and "x \<in> set xs"
  obtains a1 s1 a2 s2 where "f x a1 s1 = Some (Inr a2, s2)"
  using assms
proof (induction xs arbitrary: a s)
  case (Cons y ys)
  then show ?case by (auto elim!: bindA_InrE)
qed simp

text \<open>
  C18. An approved account that is not on the chain makes every transaction fail, as long as the wallet
  approves of fewer accounts than a slate has places (BTS_BLOCKCHAIN_MAX_SLATE_SIZE, 111): the wallet looks up
  the recommendation of each account it approves of, and takes for granted that the chain has it. With as many
  approvals or more the recommendations are not looked up, and the slate stays empty
  (many_approvals_give_no_votes). The shuffle is assumed to permute its list.
\<close>

theorem approved_stranger_blocks_transactions:
  assumes "(j, a) \<in> set (wallet_accounts (builder_wallet b))" and "0 < sint (approved a)"
    and "get_account_record (wallet_ledger N) (account_id a) = None"
    and "length (approved_candidates vote_recommended (map snd (wallet_accounts (builder_wallet b)))) < BTS_BLOCKCHAIN_MAX_SLATE_SIZE"
    and "\<And>xs s. mset (fst (random_shuffle W xs s)) = mset xs"
  shows "finalize W X N b \<noteq> Some (Inr u, b')"
proof
  assume "finalize W X N b = Some (Inr u, b')"
  then obtain slate w where sel: "select_delegate_vote W X N vote_recommended (builder_wallet b) = Some (Inr slate, w)"
    by (rule finalizeE)
  define candidates where "candidates = fst (random_shuffle W
    (approved_candidates vote_recommended (map snd (wallet_accounts (builder_wallet b)))) (random_state (builder_wallet b)))"
  have "account_id a \<in> set (approved_candidates vote_recommended (map snd (wallet_accounts (builder_wallet b))))"
    using assms(1,2) by (force simp: approved_candidates_def)
  then have stranger: "account_id a \<in> set candidates"
    using assms(5) unfolding candidates_def by (metis set_mset_mset)
  have "length candidates < BTS_BLOCKCHAIN_MAX_SLATE_SIZE"
    using assms(4,5) unfolding candidates_def by (metis size_mset)
  then obtain accounts w1 w2 chosen where "add_recommended W X N accounts candidates w1 = Some (Inr chosen, w2)"
    using sel by (auto simp: select_delegate_vote_def draw_def getA_def candidates_def elim!: bindA_InrE split: if_split_asm)
  then obtain ranks w3 where "foldA (tally_recommendations W X N) candidates [] w1 = Some (Inr ranks, w3)"
    unfolding add_recommended_def by (rule bindA_InrE)
  from this stranger show False
    by (rule foldA_visits) (simp add: tally_recommendations_def assms(3))
qed

theorem approved_stranger_blocks_transactions_witness:
  "\<forall>b'. finalize wallet_std ext_std wallet_node (crediting_builder \<lparr> builder_wallet := sample_wallet 1 5 \<rparr>) \<noteq> Some (Inr (), b')"
proof (intro allI, rule approved_stranger_blocks_transactions)
  show "(2, sample_account 1 5) \<in> set (wallet_accounts (builder_wallet (crediting_builder \<lparr> builder_wallet := sample_wallet 1 5 \<rparr>)))"
    by (simp add: sample_wallet_def)
  show "length (approved_candidates vote_recommended (map snd (wallet_accounts (builder_wallet
      (crediting_builder \<lparr> builder_wallet := sample_wallet 1 5 \<rparr>))))) < BTS_BLOCKCHAIN_MAX_SLATE_SIZE"
    by code_simp
  show "0 < sint (approved (sample_account 1 5))" "get_account_record (wallet_ledger wallet_node) (account_id (sample_account 1 5)) = None"
    by code_simp+
qed (simp add: wallet_std_def)

section \<open>Who must sign\<close>

text \<open>On a chain that files its accounts under their names the walk up the parents ends.\<close>

lemma authorize_parent_returns:
  assumes "\<And>m r. get_account_record_of_name (wallet_ledger N) m = Some r \<Longrightarrow> account_name r = m"
  shows "\<exists>r. authorize_parent X N w name as = Some r"
proof (induction name rule: measure_induct_rule [of length])
  case (less name)
  have "\<exists>r. authorize_parent X N w (account_name acct) as = Some r"
    if "get_parent_account_name name = Some m" "get_account_record_of_name (wallet_ledger N) m = Some acct" for m acct
    using less parent_shorter [OF that(1)] assms [OF that(2)] by simp
  then show ?case
    by (subst authorize_parent.simps) (auto split: option.split)
qed

lemma authorize_update_returns:
  assumes "\<And>m r. get_account_record_of_name (wallet_ledger N) m = Some r \<Longrightarrow> account_name r = m"
  shows "\<exists>r. authorize_update X N acct need as w = Some (r, w)"
  using authorize_parent_returns [OF assms] by (auto simp: authorize_update_def split: option.split)

section \<open>Keys the wallet makes\<close>

text \<open>The wallet has one password, which only its owner changes.\<close>

definition same_password :: "wallet \<Rightarrow> wallet \<Rightarrow> bool" where
  "same_password w w' \<longleftrightarrow> wallet_password w' = wallet_password w"

lemma same_password_order [simp, intro]: "reflp same_password" "transp same_password"
  by (auto simp: same_password_def reflp_def transp_def)

lemma password_steps:
  "preserves same_password (getA g)" "preserves same_password (readA h)"
  "(\<And>w. wallet_password (f w) = wallet_password w) \<Longrightarrow> preserves same_password (modifyA f)"
  by (auto simp: preserves_def same_password_def getA_def readA_def)

lemmas password_rules = preserves_cases preserves_bindA password_steps same_password_order preserves_simple(1-3)

lemma load_generic_record_password: "preserves same_password (load_generic_record X g)"
proof (cases g)
  case (Account_record a)
  show ?thesis unfolding Account_record load_generic_record_def generic_wallet_record.case load_account_record_def index_account_id_def
    by (intro password_rules) (simp_all add: index_account_def)
next
  case (Key_record k)
  show ?thesis unfolding Key_record load_generic_record_def generic_wallet_record.case load_key_record_def
    by (intro password_rules) (simp_all add: index_key_addresses_def)
qed (simp_all only: load_generic_record_def generic_wallet_record.case, (intro password_rules, simp)+)

lemma store_generic_record_password: "preserves same_password (store_generic_record X g)"
  unfolding store_generic_record_def by (intro password_rules load_generic_record_password) simp_all

lemma set_next_record_number_password: "preserves same_password (set_next_record_number X v)"
  using preservesD [OF store_generic_record_password]
  by (auto simp: preserves_def set_next_record_number_def Let_def split: if_split_asm)

lemma new_index_password: "preserves same_password (new_wallet_record_index W X)"
  unfolding new_wallet_record_index_def by (intro password_rules set_next_record_number_password)

lemma store_wallet_record_password: "preserves same_password (store_wallet_record W X g)"
  unfolding store_wallet_record_def by (intro password_rules new_index_password store_generic_record_password)

lemma cache_account_password: "preserves same_password (cache_account W X a)"
  unfolding cache_account_def by (intro password_rules store_wallet_record_password) simp_all

lemma store_key_password: "preserves same_password (store_key W X k)"
  unfolding store_key_def claim_account_def
  by (intro password_rules new_index_password store_wallet_record_password cache_account_password)
    (simp_all add: index_key_addresses_def)

lemma new_key_child_index_password: "preserves same_password (new_key_child_index W X a)"
  unfolding new_key_child_index_def Let_def set_wallet_property_def
  by (intro password_rules new_index_password store_wallet_record_password cache_account_password set_next_record_number_password)

text \<open>A key that is stored is found under its address.\<close>

lemma indexed_address:
  "map_of (btc_to_bts_address (index_key_addresses X k vs w)) (address_of_key X k) = Some (address_of_key X k)"
proof -
  have "map_of (fold (\<lambda>a. AList.update a v) as t) x = Some v" if "map_of t x = Some v \<or> x \<in> set as" for as x v and t :: "(address, address) table"
    using that by (induction as arbitrary: t) auto
  then show ?thesis by (simp add: index_key_addresses_def)
qed

lemma index_key_addresses_keys [simp]: "wallet_keys (index_key_addresses X k vs w) = wallet_keys w"
  by (simp add: index_key_addresses_def)

lemma wallet_key_of_simps [simp]:
  "key_public_key (wallet_key_of k j) = key_public_key k" "key_address X (wallet_key_of k j) = key_address X k"
  "encrypted_private_key (wallet_key_of k j) = encrypted_private_key k" "key_record_index (wallet_key_of k j) = j"
  by (simp_all add: wallet_key_of_def key_data.defs key_address_def)

lemma stored_key_record:
  "store_generic_record X (Key_record (wallet_key_of k j)) w = Some (Inr u, w') \<Longrightarrow>
   lookup_key (key_address X k) w' = Some (wallet_key_of k j) \<and> map_of (wallet_keys w') (key_address X k) = Some (wallet_key_of k j)"
  by (auto simp: store_generic_record_def load_generic_record_def load_key_record_def lookup_key_def indexed_address
      key_address_def elim!: bindA_InrE modifyA_InrE getA_InrE split: if_split_asm)

lemma stored_wallet_key:
  assumes "store_wallet_record W X (Key_record (wallet_key_of k i)) w = Some (Inr u, w')"
  shows "\<exists>j. lookup_key (key_address X k) w' = Some (wallet_key_of k j) \<and> map_of (wallet_keys w') (key_address X k) = Some (wallet_key_of k j)"
proof -
  have "(wallet_key_of k i) \<lparr> key_record_index := j \<rparr> = wallet_key_of k j" for j
    by (simp add: wallet_key_of_def key_data.defs)
  then have "\<exists>j w1. store_generic_record X (Key_record (wallet_key_of k j)) w1 = Some (Inr u, w')"
    using assms by (auto simp: store_wallet_record_def elim!: bindA_InrE split: if_split_asm) blast+
  then show ?thesis using stored_key_record by blast
qed

lemma store_key_found:
  assumes "store_key W X k w = Some (Inr u, w')"
  shows "\<exists>j. lookup_key (key_address X k) w' = Some (wallet_key_of k j)"
proof -
  have index: "lookup_key (key_address X k) (index_key_addresses X (key_public_key k) vs w1) = map_of (wallet_keys w1) (key_address X k)" for vs w1
    by (simp add: lookup_key_def indexed_address key_address_def)
  show ?thesis
    using assms by (auto simp: store_key_def index elim!: bindA_InrE modifyA_InrE getA_InrE split: option.split_asm
        dest!: stored_wallet_key) blast+
qed

text \<open>
  C15. A key that the wallet makes and stores is found again: looking up its address with the password of the
  wallet returns the private key itself.
\<close>

theorem new_keys_can_sign:
  assumes "new_private_key W X p parent True w = Some (Inr x, w')" and "wallet_password w = p"
    and "\<And>q y. aes_encrypt W q y \<noteq> []"
  shows "get_private_key W (address_of_key X (public_key_of W x)) w' = Inr x"
proof -
  have "\<exists>k i w1. encrypt_private_key W p x (new_key_data \<lparr> key_account_address := parent \<rparr>) = Inr k \<and>
      new_key_child_index W X parent w = Some (Inr i, w1) \<and>
      store_key W X (k \<lparr> gen_seq_number := i,
        key_account_address := (if parent = null_address then key_address X k else key_account_address k) \<rparr>) w1 = Some (Inr (), w')"
    using assms(1) by (auto simp: new_private_key_def Let_def elim!: bindA_InrE liftE_InrE readA_InrE split: if_split_asm)
  then obtain k i w1 where enc: "encrypt_private_key W p x (new_key_data \<lparr> key_account_address := parent \<rparr>) = Inr k"
    and child: "new_key_child_index W X parent w = Some (Inr i, w1)"
    and store: "store_key W X (k \<lparr> gen_seq_number := i,
        key_account_address := (if parent = null_address then key_address X k else key_account_address k) \<rparr>) w1 = Some (Inr (), w')"
    by blast
  have password: "wallet_password w' = p"
    using preservesD [OF new_key_child_index_password child] preservesD [OF store_key_password store] assms(2) by (simp add: same_password_def)
  have k: "p \<noteq> 0" "key_public_key k = public_key_of W x" "encrypted_private_key k = aes_encrypt W p x"
      "aes_decrypt W p (aes_encrypt W p x) = Inr x"
    using enc by (auto simp: encrypt_private_key_def decrypt_private_key_def Let_def bindE_Inr_iff split: if_split_asm)
  have "\<exists>j. lookup_key (address_of_key X (public_key_of W x)) w' =
      Some (wallet_key_of (k \<lparr> gen_seq_number := i,
        key_account_address := (if parent = null_address then key_address X k else key_account_address k) \<rparr>) j)"
    using store_key_found [OF store] by (simp add: key_address_def k(2))
  then show ?thesis
    using assms(3) by (auto simp: get_private_key_def has_private_key_def decrypt_private_key_def password k)
qed

theorem new_keys_can_sign_witness:
  "get_private_key wallet_std (address_of_key ext_std (public_key_of wallet_std 12)) after_new_key = Inr 12"
  by (rule new_keys_can_sign [OF sample_new_key]) (simp_all add: unlocked_wallet_def sample_wallet_def wallet_std_def)

end
