(* ===== verification/Market_Sample.thy ===== *)
theory Market_Sample
  imports Market_Execution Scenario "HOL-Library.Countable"
begin

text \<open>
  A market with one bid and one ask, and a run of the engine on it: the ask is filled, the bid in
  part, and the difference of their prices becomes a fee. The states the run goes through are written
  out, so that each step is evaluated by itself.
\<close>

text \<open>A library whose addresses keep the assets apart.\<close>

definition market_ext :: ext where
  "market_ext = ext_std \<lparr> address_of_condition := (\<lambda>c. prod_encode (int_encode (condition_asset_id c),
     case condition_data c of Withdraw_with_signature o' _ \<Rightarrow> o' | _ \<Rightarrow> 0)) \<rparr>"

definition sample_bid :: market_order where
  "sample_bid = \<lparr> order_type_of = bid_order, market_index = Market_index_key (Price 2000000000000000000 0 2) 7,
     order_state = new_order_record \<lparr> order_balance := 3000 \<rparr>, order_collateral = None, order_interest_rate = None,
     order_expiration = None \<rparr>"

definition sample_ask :: market_order where
  "sample_ask = \<lparr> order_type_of = ask_order, market_index = Market_index_key (Price 1000000000000000000 0 2) 9,
     order_state = new_order_record \<lparr> order_balance := 1000 \<rparr>, order_collateral = None, order_interest_rate = None,
     order_expiration = None \<rparr>"

definition trading_database :: chain_database where
  "trading_database = sample_database \<lparr>
     property_db := [(last_account_id, Int_property 1), (active_delegate_list_id, Ids_property [])],
     asset_db := [(0, sample_asset 0 0 4004000 1000), (2, sample_asset 2 1 3000 0)],
     balance_db := [],
     bid_db := [(market_index sample_bid, order_state sample_bid)],
     ask_db := [(market_index sample_ask, order_state sample_ask)] \<rparr>"

definition trading_chain :: chain where
  "trading_chain = Pending new_pending_state (Database trading_database)"

section \<open>Before the first trade\<close>

definition opened_market :: matching where
  "opened_market = \<lparr> pending_state = Pending new_pending_state trading_chain, current_bid = None, current_ask = None,
     current_collat_record = new_collateral_record, engine_quote_id = 2, engine_base_id = 0, feed_price = None,
     orders_filled = 0, engine_transactions = [], bid_itr = [(market_index sample_bid, order_state sample_bid)],
     ask_itr = [(market_index sample_ask, order_state sample_ask)], short_itr = [], collateral_itr = [],
     quote_asset = sample_asset 2 1 3000 0, base_asset = sample_asset 0 0 4004000 1000, last_orders_filled = - 1,
     trading_volume = asset_of 0 0, market_opening_price = null_price, market_closing_price = null_price \<rparr>"

definition primed_market :: matching where
  "primed_market = opened_market \<lparr> orders_filled := 2, current_bid := Some sample_bid, current_ask := Some sample_ask,
      bid_itr := [], ask_itr := [] \<rparr>"

lemma market_opens: "open_market trading_database 2 0 trading_chain = Inr opened_market"
  by code_simp

lemma market_needs_no_feed: "require_feed opened_market = Inr ()"
  by code_simp

lemma market_is_primed:
  "get_next_bid market_ext opened_market =
     Inr (True, opened_market \<lparr> orders_filled := 1, current_bid := Some sample_bid, bid_itr := [] \<rparr>)"
  "get_next_ask (opened_market \<lparr> orders_filled := 1, current_bid := Some sample_bid, bid_itr := [] \<rparr>) = (True, primed_market)"
  by (simp_all add: get_next_bid_def get_next_ask_def advance_bid_def advance_ask_def take_bid_def take_ask_def
      in_market_def opened_market_def primed_market_def sample_bid_def sample_ask_def Let_def)

section \<open>The trade\<close>

definition sample_trade :: market_transaction where
  "sample_trade = (market_transaction_of sample_bid sample_ask) \<lparr> bid_paid := asset_of 2000 2, ask_received := asset_of 1000 2,
     ask_paid := asset_of 1000 0, bid_received := asset_of 1000 0, fees_collected := asset_of 1000 2 \<rparr>"

definition payout_of :: "asset_id_type \<Rightarrow> address \<Rightarrow> balance_record" where
  "payout_of a own = \<lparr> balance = 1000, condition = signature_condition a own, genesis_info = None,
     balance_last_update = 990, deposit_date = 990 \<rparr>"

definition traded_changes :: pending_chain_state where
  "traded_changes = new_pending_state \<lparr> p_balances := [(28, payout_of 0 7), (95, payout_of 2 9)],
     p_bids := [(market_index sample_bid, new_order_record \<lparr> order_balance := 1000 \<rparr>)],
     p_asks := [(market_index sample_ask, new_order_record)], p_dirty_markets := [(2, 0)] \<rparr>"

definition traded_market :: matching where
  "traded_market = primed_market \<lparr> last_orders_filled := 2, pending_state := Pending traded_changes trading_chain,
     current_bid := Some (with_balance 1000 sample_bid), current_ask := Some (with_balance 0 sample_ask),
     quote_asset := sample_asset 2 1 3000 1000, engine_transactions := [sample_trade], trading_volume := asset_of 1000 0,
     market_opening_price := Price 2000000000000000000 0 2, market_closing_price := Price 2000000000000000000 0 2 \<rparr>"

lemma sample_quantities:
  "get_quantity market_ext sample_bid = Inr (asset_of 1500 0)"
  "get_quantity market_ext (with_balance 1000 sample_bid) = Inr (asset_of 500 0)"
  by code_simp+

lemma orders_match:
  "match_turn market_ext sample_bid sample_ask (primed_market \<lparr> last_orders_filled := 2 \<rparr>) = Inr (True, traded_market)"
  by code_simp

lemma first_iteration: "match_iteration market_ext primed_market = Inr (True, traded_market)"
proof -
  have "next_orders market_ext primed_market = Inr (True, primed_market)"
    by (simp add: next_orders_def get_next_bid_def get_next_ask_def primed_market_def sample_quantities)
      (simp add: sample_ask_def new_order_record_def)
  then show ?thesis
    using orders_match by (simp add: match_iteration_def) (simp add: primed_market_def opened_market_def)
qed

section \<open>After the trade\<close>

lemma no_more_asks:
  assumes "current_bid s = Some (with_balance 1000 sample_bid)" and "current_ask s = Some (with_balance 0 sample_ask) \<or> current_ask s = None"
    and "ask_itr s = []" and "collateral_itr s = []"
  shows "next_orders market_ext s = Inr (False, s \<lparr> current_ask := None, orders_filled := orders_filled s + 1 \<rparr>)"
  using assms
  by (auto simp: next_orders_def get_next_bid_def get_next_ask_def sample_quantities advance_ask_def take_ask_def Let_def)

definition rested_market :: matching where
  "rested_market = traded_market \<lparr> current_ask := None, orders_filled := 3 \<rparr>"

lemma market_rests: "match_loop market_ext primed_market = Inr rested_market"
proof -
  have "next_orders market_ext traded_market = Inr (False, rested_market)"
    using no_more_asks [of traded_market] by (simp add: rested_market_def) (simp add: traded_market_def primed_market_def opened_market_def)
  then have "match_iteration market_ext traded_market = Inr (False, rested_market)" by (simp add: match_iteration_def)
  then show ?thesis using first_iteration by (simp add: match_loop.simps)
qed

definition stored_changes :: pending_chain_state where
  "stored_changes = traded_changes \<lparr> p_assets := [(2, sample_asset 2 1 3000 1000), (0, sample_asset 0 0 4004000 1000)],
     p_symbol_id_index := p_symbol_id_index traded_changes, p_market_statuses := [((2, 0), new_market_status 2 0)] \<rparr>"

lemma market_is_stored:
  "store_results rested_market = Inr (rested_market \<lparr> pending_state := Pending stored_changes trading_chain \<rparr>)"
  by code_simp

definition after_trading :: chain where
  "after_trading = projr (apply_changes market_ext stored_changes trading_chain)"

lemma market_is_applied: "apply_changes market_ext stored_changes trading_chain = Inr after_trading"
  unfolding after_trading_def by (rule accepted) code_simp

lemma trading_run: "execute market_ext trading_database 2 0 1000 trading_chain = Inr (Some [sample_trade], after_trading)"
proof -
  let ?s = "rested_market \<lparr> pending_state := Pending stored_changes trading_chain \<rparr>"
  have "next_orders market_ext ?s = Inr (False, ?s \<lparr> current_ask := None, orders_filled := orders_filled ?s + 1 \<rparr>)"
    by (rule no_more_asks) (simp_all add: rested_market_def traded_market_def primed_market_def opened_market_def)
  then have "update_market_history market_ext trading_database 1000 ?s =
      Inr (?s \<lparr> current_ask := None, orders_filled := orders_filled ?s + 1 \<rparr>)"
    by (simp add: update_market_history_def rested_market_def traded_market_def split: option.split)
  then have "run_market market_ext trading_database 1000 opened_market = Inr (after_trading, [sample_trade])"
    using market_is_applied
    by (simp add: run_market_def market_needs_no_feed market_is_primed market_rests market_is_stored commit_market_def)
      (simp add: rested_market_def traded_market_def)
  then show ?thesis by (simp add: execute_def market_opens)
qed

end
