(* ===== verification/Market_Runs.thy ===== *)
theory Market_Runs
  imports Market_Laws Market_Sample
begin

text \<open>
  The properties of a run of the market engine: how many trades it makes, at which prices, what it
  does to the ledger when it succeeds and when it fails, with a small market to apply them to.
\<close>

section \<open>The trades of a run\<close>

text \<open>
  A fair trade: the bid accepts the price of the ask, the buyer receives what the seller gives, the seller receives
  no more than the buyer pays, nothing is negative, and whenever something is paid both sides speak of the same
  assets and the fees are not negative either.
\<close>

definition fair_trade :: "market_transaction \<Rightarrow> bool" where
  "fair_trade m \<longleftrightarrow> \<not> price_less (bid_price m) (ask_price m) \<and>
     amount (bid_received m) = amount (ask_paid m) \<and> 0 \<le> sint (amount (bid_received m)) \<and>
     asset_id (ask_received m) = asset_id (bid_paid m) \<and> 0 \<le> sint (amount (ask_received m)) \<and>
     sint (amount (ask_received m)) \<le> sint (amount (bid_paid m)) \<and>
     (amount (bid_paid m) = 0 \<and> amount (ask_paid m) = 0 \<or>
      asset_id (bid_received m) = asset_id (ask_paid m) \<and> 0 \<le> sint (amount (fees_collected m)))"

text \<open>
  Settling the orders changes neither the prices of the trade nor what is paid and received; a match that computes
  these amounts pays the same amount it takes.
\<close>

abbreviation same_prices :: "market_transaction \<Rightarrow> market_transaction \<Rightarrow> bool" where
  "same_prices m m' \<equiv> bid_price m' = bid_price m \<and> ask_price m' = ask_price m"

abbreviation same_deal :: "market_transaction \<Rightarrow> market_transaction \<Rightarrow> bool" where
  "same_deal m m' \<equiv> same_prices m m' \<and> bid_paid m' = bid_paid m \<and> bid_received m' = bid_received m \<and>
     ask_paid m' = ask_paid m \<and> ask_received m' = ask_received m"

definition mirrored :: "market_transaction \<Rightarrow> bool" where
  "mirrored m \<longleftrightarrow> amount (bid_received m) = amount (ask_paid m) \<and> asset_id (ask_received m) = asset_id (bid_paid m)"

lemma pay_current_short_prices:
  "pay_current_short X m quote base bid c = Inr (m', quote', bid', c') \<Longrightarrow> same_deal m m'"
  unfolding pay_current_short_def Let_def
  by (auto elim!: bindE_InrE split: if_split_asm)

lemma return_collateral_prices:
  "return_collateral X b m r own x c = Inr (m', c') \<Longrightarrow> same_deal m m'"
  unfolding return_collateral_def Let_def by (auto elim!: bindE_InrE split: if_split_asm)

lemma pay_current_cover_prices:
  assumes "pay_current_cover X b m quote r ask c = Inr (m', quote', r', ask', c')"
  shows "same_deal m m'"
  using assms unfolding pay_current_cover_def close_position_def Let_def
  by (auto elim!: bindE_InrE dest: return_collateral_prices split: option.split_asm if_split_asm prod.split_asm)

lemma settle_fst: "settle m q b bid ask r c s = (m', s') \<Longrightarrow> m' = m \<and> engine_transactions s' = engine_transactions s"
  by (auto simp: settle_def)

lemma settle_deals:
  "settle_short_cover X m bid ask s = Inr (m', s') \<Longrightarrow> same_deal m m' \<and> engine_transactions s' = engine_transactions s"
  "settle_bid_cover X m bid ask s = Inr (m', s') \<Longrightarrow> same_deal m m' \<and> engine_transactions s' = engine_transactions s"
  "settle_short_ask X m bid ask s = Inr (m', s') \<Longrightarrow> same_deal m m' \<and> engine_transactions s' = engine_transactions s"
  "settle_bid_ask X m bid ask s = Inr (m', s') \<Longrightarrow> same_deal m m' \<and> engine_transactions s' = engine_transactions s"
  unfolding settle_short_cover_def settle_bid_cover_def settle_short_ask_def settle_bid_ask_def
  by (auto elim!: bindE_InrE dest!: settle_fst pay_current_short_prices pay_current_cover_prices)

lemma match_short_cover_prices:
  "match_short_cover X m bid ask s = Inr (m', s') \<Longrightarrow>
    same_prices m m' \<and> mirrored m' \<and> engine_transactions s' = engine_transactions s"
  unfolding match_short_cover_def Let_def
  by (auto simp: mirrored_def elim!: bindE_InrE dest!: settle_deals split: option.split_asm)

lemma match_bid_cover_prices:
  "match_bid_cover X m bid ask s = Inr (m', s') \<Longrightarrow>
    same_prices m m' \<and> mirrored m' \<and> engine_transactions s' = engine_transactions s"
  unfolding match_bid_cover_def Let_def
  by (auto simp: mirrored_def elim!: bindE_InrE dest!: settle_deals split: option.split_asm)

lemma match_short_ask_prices:
  "match_short_ask X m bid ask s = Inr (m', s') \<Longrightarrow>
    same_prices m m' \<and> mirrored m' \<and> engine_transactions s' = engine_transactions s"
  unfolding match_short_ask_def Let_def
  by (auto simp: mirrored_def elim!: bindE_InrE dest!: settle_deals split: option.split_asm prod.split_asm)

lemma match_bid_ask_prices:
  assumes "match_bid_ask X m bid ask s = Inr (m', s')" and "order_type_of ask = ask_order"
  shows "same_prices m m' \<and> mirrored m' \<and> engine_transactions s' = engine_transactions s"
proof -
  have q: "get_quantity X ask = order_get_balance ask" using assms(2) by (simp add: get_quantity_def)
  show ?thesis
    using assms(1) unfolding match_bid_ask_def q Let_def
    by (elim bindE_InrE)
      (auto simp: mirrored_def asset_eq_def asset_sub_Inr_iff elim!: bindE_InrE dest!: settle_deals split: if_split_asm)
qed

lemma match_orders_prices:
  assumes "match_orders X m bid ask s = Inr (m', s')" and "mirrored m"
  shows "same_prices m m' \<and> mirrored m' \<and> engine_transactions s' = engine_transactions s"
  using assms(1)
proof (cases rule: match_orders_cases)
  case none
  then show ?thesis using assms(2) by simp
qed (auto dest: match_short_cover_prices match_bid_cover_prices match_short_ask_prices match_bid_ask_prices)

lemma terms_prices: "terms X s bid ask = Inr (Match m) \<Longrightarrow> \<not> price_less (bid_price m) (ask_price m)"
  by (auto simp: terms_def ask_terms_def price_less_def elim!: bindE_InrE split: turn.split_asm if_split_asm)

lemma short_terms_deal: "short_terms s bid m0 = Inr (Match m) \<Longrightarrow> mirrored m0 \<Longrightarrow> mirrored m"
  by (auto simp: short_terms_def mirrored_def split: if_split_asm option.split_asm)

lemma ask_terms_deal: "ask_terms X s ask m0 = Inr (Match m) \<Longrightarrow> mirrored m0 \<Longrightarrow> mirrored m"
  by (auto simp: ask_terms_def mirrored_def elim!: bindE_InrE split: if_split_asm)

lemma terms_deal:
  assumes "terms X s bid ask = Inr (Match m)"
  shows "mirrored m"
proof -
  have m: "mirrored (market_transaction_of bid ask)"
    by (simp add: mirrored_def market_transaction_of_def new_market_transaction_def)
  obtain m1 where "short_terms s bid (market_transaction_of bid ask) = Inr (Match m1)" and "ask_terms X s ask m1 = Inr (Match m)"
    using assms by (auto simp: terms_def elim!: bindE_InrE split: turn.split_asm)
  then show ?thesis using ask_terms_deal short_terms_deal [OF _ m] by metis
qed

lemma push_fair:
  assumes "push_market_transaction m s = Inr s'" and "\<not> price_less (bid_price m) (ask_price m)" and "mirrored m"
  shows "fair_trade m" "engine_transactions s' = engine_transactions s @ [m]"
  using assms by (auto simp: push_market_transaction_def fair_trade_def mirrored_def asset_ge_def split: if_split_asm)

lemma match_turn_trades:
  assumes "match_turn X bid ask s = Inr (b, s')"
  shows "engine_transactions s' = engine_transactions s \<or>
    b \<and> (\<exists>m. fair_trade m \<and> engine_transactions s' = engine_transactions s @ [m])"
proof -
  obtain t where t: "terms X s bid ask = Inr t" using assms by (auto simp: match_turn_def elim!: bindE_InrE)
  show ?thesis
  proof (cases t)
    case (Match m0)
    then obtain m s1 s2 s3 where o: "match_orders X m0 bid ask s = Inr (m, s1)"
      and p: "push_market_transaction m s1 = Inr s2" and v: "add_volume m s2 = Inr s3"
      and s': "s' = collect_match_fees m (note_prices m s3)" "b"
      using assms t by (auto simp: match_turn_def elim!: bindE_InrE)
    have "engine_transactions s' = engine_transactions s2"
      using v unfolding s'(1) by (auto simp: collect_match_fees_def note_prices_def add_volume_def Let_def
          elim!: bindE_InrE split: if_split_asm)
    then show ?thesis
      using push_fair [OF p] match_orders_prices [OF o terms_deal] terms_prices t Match s'(2) by auto
  qed (use assms t in \<open>auto simp: match_turn_def\<close>)
qed

lemma match_iteration_trades:
  assumes "match_iteration X s = Inr (b, s')"
  shows "engine_transactions s' = engine_transactions s \<or>
    b \<and> (\<exists>m. fair_trade m \<and> engine_transactions s' = engine_transactions s @ [m])"
  using assms
proof (cases rule: match_iteration_cases)
  case none
  then show ?thesis using same_view_matching(3) [OF next_orders_view] by blast
next
  case (turn s1 bid ask)
  then show ?thesis using same_view_matching(3) [OF next_orders_view [OF turn(1)]] match_turn_trades [OF turn(5)] by simp
qed

lemma match_loop_trades:
  assumes "match_loop X s = Inr s'"
  shows "\<exists>ts. engine_transactions s' = engine_transactions s @ ts \<and> list_all fair_trade ts \<and> length ts \<le> loop_measure s"
  using assms
proof (induction rule: match_loop_induct)
  case (stop s s')
  then show ?case using match_iteration_trades [OF stop] by (intro exI [of _ "[]"]) simp
next
  case (again s s1 s')
  from again.IH obtain ts where ts: "engine_transactions s' = engine_transactions s1 @ ts"
    "list_all fair_trade ts" "length ts \<le> loop_measure s1" by blast
  have less: "length ts < loop_measure s" using match_iteration_decreases [OF again.hyps(1)] ts(3) by simp
  from match_iteration_trades [OF again.hyps(1)] show ?case
  proof (elim disjE conjE exE)
    assume "engine_transactions s1 = engine_transactions s"
    then show ?thesis using ts less by (intro exI [of _ ts]) simp
  next
    fix m assume "fair_trade m" "engine_transactions s1 = engine_transactions s @ [m]"
    then show ?thesis using ts less by (intro exI [of _ "m # ts"]) simp
  qed
qed

lemma before_key_length: "length (before_key k t) \<le> length t"
  by (simp add: before_key_def in_order_def) (metis length_sort length_takeWhile_le)

lemma from_key_length: "length (from_key k t) \<le> length t"
proof -
  have "length (dropWhile P (in_order t)) \<le> length t" for P
    by (metis in_order_def length_dropWhile_le length_sort)
  then show ?thesis by (auto simp: from_key_def in_order_def split: list.split) (metis length_Cons)
qed

text \<open>The orders of the database, in all four books.\<close>

definition order_count :: "chain_database \<Rightarrow> nat" where
  "order_count d = length (bid_db d) + length (ask_db d) + length (short_db d) + length (collateral_db d)"

lemma open_market_books:
  assumes "open_market d q b prior = Inr s"
  shows "orders_left s \<le> order_count d" "engine_transactions s = []"
  using assms unfolding open_market_def Let_def
  by (auto simp del: get_median_delegate_price.simps simp: orders_left_def order_count_def
      intro!: add_mono before_key_length from_key_length elim!: bindE_InrE split: option.split_asm)

lemma execute_cases [consumes 1, case_names ran failed]:
  assumes "execute X d q b t prior = Inr (r, c')"
  obtains s ts where "open_market d q b prior = Inr s" "run_market X d t s = Inr (c', ts)" "r = Some ts"
  | st e where "r = None" "bindE (open_market d q b prior) (run_market X d t) = Inl e"
      "c' = store_market_status (st \<lparr> last_error := Some e \<rparr>) prior"
  using assms unfolding execute_def Let_def
  by (auto elim!: bindE_InrE split: sum.split_asm prod.split_asm simp: bindE_Inr_iff)

lemma take_ask_fewer: "orders_left (snd (take_ask s)) \<le> orders_left s"
  by (auto simp: take_ask_def orders_left_def split: list.split)

lemma advance_bid_fewer: "orders_left (snd (advance_bid s)) \<le> orders_left s"
proof (cases rule: advance_bid_cases [of s])
  case 1
  then show ?thesis
    by (cases rule: get_next_short_cases [of "s \<lparr> orders_filled := orders_filled s + 1, current_bid := None \<rparr>"])
      (auto simp: orders_left_def)
qed (auto simp: orders_left_def take_bid_def)

lemma advance_ask_fewer: "orders_left (snd (advance_ask s)) \<le> orders_left s"
proof (cases rule: advance_ask_cases [of s])
  case 1 show ?thesis unfolding 1 by (rule order.trans [OF take_ask_fewer]) (simp add: orders_left_def)
next
  case (2 r) show ?thesis unfolding 2 by (rule order.trans [OF take_ask_fewer]) (simp add: orders_left_def)
next
  case 3 show ?thesis unfolding 3 by (rule order.trans [OF take_ask_fewer]) (simp add: orders_left_def)
qed (auto simp: orders_left_def)

lemma get_next_bid_fewer: "get_next_bid X s = Inr (b, s') \<Longrightarrow> orders_left s' \<le> orders_left s"
  using advance_bid_fewer [of s]
  by (auto simp: get_next_bid_def elim!: bindE_InrE split: option.split_asm if_split_asm)

lemma get_next_ask_fewer: "orders_left (snd (get_next_ask s)) \<le> orders_left s"
  using get_next_ask_cases [of s] advance_ask_fewer [of s] by auto

lemma update_market_history_transactions:
  assumes "update_market_history X d t s = Inr s'"
  shows "engine_transactions s' = engine_transactions s"
proof -
  have v: "engine_transactions s1 = engine_transactions s" if "next_orders X s = Inr (b, s1)" for b s1
    using next_orders_view [OF that] by (rule same_view_matching)
  show ?thesis
    using assms unfolding update_market_history_def Let_def
    by (auto elim!: bindE_InrE split: if_split_asm option.split_asm prod.split_asm dest!: v)
qed

lemma run_market_trades:
  assumes "run_market X d t s = Inr (c', ts)" and "engine_transactions s = []"
  shows "list_all fair_trade ts \<and> length ts \<le> orders_left s + 1"
proof -
  obtain b s1 s2 s3 s4 where n: "get_next_bid X s = Inr (b, s1)" and l: "match_loop X (snd (get_next_ask s1)) = Inr s2"
    and r: "store_results s2 = Inr s3" and h: "update_market_history X d t s3 = Inr s4" and c: "commit_market X s4 = Inr (c', ts)"
    using assms(1) unfolding run_market_def by (auto elim!: bindE_InrE)
  let ?s = "snd (get_next_ask s1)"
  have "same_view s ?s" using get_next_bid_view [OF n] same_view_trans [OF _ get_next_ask_view] by simp
  then have "engine_transactions ?s = []" using assms(2) same_view_matching(3) by simp
  moreover have "loop_measure ?s \<le> orders_left s + 1"
    using get_next_bid_fewer [OF n] get_next_ask_fewer [of s1] by (simp add: loop_measure_def)
  moreover have "ts = engine_transactions s2"
    using c r update_market_history_transactions [OF h] unfolding commit_market_def store_results_def Let_def
    by (auto elim!: bindE_InrE split: chain.split_asm)
  ultimately show ?thesis using match_loop_trades [OF l] by auto
qed

section \<open>Properties of a run\<close>

lemma market_ext_separates: "separates_assets market_ext"
  by (auto simp: separates_assets_def market_ext_def ext_std_def fc_lib.defs int_encode_eq)

lemma trading_chain_ok: "chain_ok market_ext trading_chain"
  by (auto simp: chain_ok_def trading_chain_def trading_database_def sample_database_def new_pending_state_def sample_asset_def
      sample_delegate_def db_get_property_def split: if_split_asm)

text \<open>
  C19. Matching orders neither creates nor destroys shares: a run of the market engine on the market
  of an asset that is not market-issued, whether it succeeds or fails, keeps for every asset what the
  ledger holds minus the recorded share supply, whatever the prices, the rounding and the rests that
  become fees. The ledger must hold the orders of the books as the database does, and addresses must
  keep assets apart.
\<close>

theorem market_run_conserves_shares:
  assumes "execute X d q b t c = Inr (r, c')" and "chain_ok X c" and "q > b" and "b \<ge> 0"
    and "get_asset_record c q = Some quote" and "\<not> is_market_issued quote"
    and "holds_all (get_bid_record c) (bid_db d)" and "holds_all (get_ask_record c) (ask_db d)"
    and "separates_assets X"
  shows "chain_total c' a - supply_of c' a = chain_total c a - supply_of c a"
  using assms by (rule execute_keeps)

theorem market_run_conserves_shares_witness:
  "chain_total after_trading 2 - supply_of after_trading 2 = chain_total trading_chain 2 - supply_of trading_chain 2 \<and>
   get_balance_record after_trading 95 = Some (payout_of 2 9)"
proof -
  have 1: "get_asset_record trading_chain 2 = Some (sample_asset 2 1 3000 0)" "\<not> is_market_issued (sample_asset 2 1 3000 0)"
    by code_simp+
  have 2: "holds_all (get_bid_record trading_chain) (bid_db trading_database)"
    "holds_all (get_ask_record trading_chain) (ask_db trading_database)" by code_simp+
  have "get_balance_record after_trading = get_balance_record (Pending stored_changes trading_chain)"
    by (rule apply_changes_get(2) [OF market_is_applied])
      (simp_all add: pending_ok_def table_ok_def stored_changes_def traded_changes_def new_pending_state_def sample_asset_def
        trading_chain_def balance_record_id_def payout_of_def signature_condition_def market_ext_def prod_encode_def
        int_encode_def sum_encode_def triangle_def)
  then have "get_balance_record after_trading 95 = Some (payout_of 2 9)"
    by (simp add: stored_changes_def traded_changes_def)
  moreover note market_run_conserves_shares [OF trading_run trading_chain_ok _ _ 1 2 market_ext_separates, of 2]
  ultimately show ?thesis by simp
qed

text \<open>
  C20. Every trade of a run that succeeds is at a price both sides have accepted: the price of the bid is not below
  the price of the ask, the buyer receives the amount the seller gives, the seller receives no more than the buyer pays,
  in the same asset, and none of the four amounts is negative. When something is paid, the buyer receives the asset
  the seller gives and the fees are not negative. This covers bids, shorts, asks and margin calls.
\<close>

theorem trades_are_fair:
  assumes "execute X d q b t c = Inr (Some ts, c')"
  shows "list_all fair_trade ts"
  using assms
proof (cases rule: execute_cases)
  case (ran s ts)
  then show ?thesis using run_market_trades open_market_books(2) by blast
qed simp

theorem trades_are_fair_witness: "list_all fair_trade [sample_trade]"
  by (rule trades_are_fair [OF trading_run])

text \<open>
  C21. The matching loop ends: a run makes at most one trade more than there are orders in the
  books, so the loop cannot go on for ever, whatever the orders are.
\<close>

theorem trades_are_bounded_by_orders:
  assumes "execute X d q b t c = Inr (Some ts, c')"
  shows "length ts \<le> order_count d + 1"
  using assms
proof (cases rule: execute_cases)
  case (ran s ts)
  then show ?thesis using run_market_trades open_market_books [OF ran(1)] by fastforce
qed simp

theorem trades_are_bounded_by_orders_witness: "length [sample_trade] \<le> order_count trading_database + 1"
  by (rule trades_are_bounded_by_orders [OF trading_run])

section \<open>Failed runs\<close>

text \<open>The status of every market is stored under the ids of the market.\<close>

definition statuses_keyed :: "chain \<Rightarrow> bool" where
  "statuses_keyed c \<longleftrightarrow> (\<forall>q b st. get_market_status c q b = Some st \<longrightarrow> quote_id st = q \<and> base_id st = b)"

lemma get_store_market_status:
  assumes "is_pending c"
  shows "get_market_status (store_market_status st c) q b =
    (if quote_id st = q \<and> base_id st = b then Some st else get_market_status c q b)"
  using assms by (cases c) (auto simp: pending_store_market_status_def)

lemma statuses_keyed_store: "is_pending c \<Longrightarrow> statuses_keyed c \<Longrightarrow> statuses_keyed (store_market_status st c)"
  by (auto simp: statuses_keyed_def get_store_market_status split: if_split_asm)

text \<open>The records a market run could have changed.\<close>

definition same_records :: "chain \<Rightarrow> chain \<Rightarrow> bool" where
  "same_records c c' \<longleftrightarrow> get_asset_record c' = get_asset_record c \<and> get_balance_record c' = get_balance_record c \<and>
     get_account_record c' = get_account_record c \<and> get_delegate_slate c' = get_delegate_slate c \<and>
     get_bid_record c' = get_bid_record c \<and> get_ask_record c' = get_ask_record c \<and>
     get_short_record c' = get_short_record c \<and> get_collateral_record c' = get_collateral_record c \<and>
     get_feed c' = get_feed c \<and> get_property c' = get_property c \<and> get_slot_record c' = get_slot_record c \<and>
     fetch_burn_record c' = fetch_burn_record c \<and> get_market_history_record c' = get_market_history_record c"

lemma store_market_status_records: "same_records c (store_market_status st c)"
proof -
  have "get_market_history_record (store_market_status st c) = get_market_history_record c"
    by (cases c) (auto simp: fun_eq_iff pending_store_market_status_def db_store_market_status_def)
  then show ?thesis by (simp add: same_records_def)
qed

text \<open>
  C22. A market that cannot be executed does no harm: for a market with a quote asset above its base asset the engine
  always returns, and when the run fails, wherever in the run that is, the state of the block is what it was except for
  the status of this very market. The status holds the error and the price of the feed, if the market could be
  opened, and is otherwise the one it had, or a new one; the status of every other market, and all records, are as before.
\<close>

theorem failed_market_changes_only_its_status:
  assumes "q > b" and "is_pending c" and "statuses_keyed c"
  shows "(\<exists>ts c'. execute X d q b t c = Inr (Some ts, c')) \<or>
    (\<exists>e c'. execute X d q b t c = Inr (None, c') \<and> bindE (open_market d q b c) (run_market X d t) = Inl e \<and>
       get_market_status c' q b =
         Some ((update_feed_price (case open_market d q b c of Inr s \<Rightarrow> feed_price s | Inl x \<Rightarrow> None)
                 (case get_market_status c q b of Some st \<Rightarrow> st | None \<Rightarrow> new_market_status q b)) \<lparr> last_error := Some e \<rparr>) \<and>
       (\<forall>q' b'. (q', b') = (q, b) \<or> get_market_status c' q' b' = get_market_status c q' b') \<and> same_records c c')"
proof (cases "bindE (open_market d q b c) (run_market X d t)")
  case (Inl e)
  let ?st = "case get_market_status c q b of Some st \<Rightarrow> st | None \<Rightarrow> new_market_status q b"
  let ?f = "case open_market d q b c of Inr s \<Rightarrow> feed_price s | Inl x \<Rightarrow> None"
  let ?new = "(update_feed_price ?f ?st) \<lparr> last_error := Some e \<rparr>"
  have "market_status_of q b c = Inr ?st"
    using assms(1) by (simp add: market_status_of_def split: option.split)
  then have run: "execute X d q b t c = Inr (None, store_market_status ?new c)"
    using Inl by (simp add: execute_def Let_def)
  have "quote_id ?st = q" "base_id ?st = b"
    using assms(3) by (auto simp: statuses_keyed_def new_market_status_def split: option.split)
  then have key: "quote_id ?new = q" "base_id ?new = b" by (simp_all add: update_feed_price_def Let_def)
  have "get_market_status (store_market_status ?new c) q b = Some ?new"
    "\<forall>q' b'. (q', b') = (q, b) \<or> get_market_status (store_market_status ?new c) q' b' = get_market_status c q' b'"
    using key by (auto simp: get_store_market_status [OF assms(2)])
  with run Inl store_market_status_records show ?thesis by blast
next
  case (Inr r)
  then show ?thesis by (cases r) (simp add: execute_def)
qed

text \<open>
  A market with prices so small that the amounts overflow: the run fails in the matching loop, after an order of each
  side has been taken.
\<close>

definition tiny_price :: price where
  "tiny_price = Price 1 0 2"

definition overflow_database :: chain_database where
  "overflow_database = trading_database \<lparr>
     bid_db := [(Market_index_key tiny_price 7, new_order_record \<lparr> order_balance := 3000 \<rparr>)],
     ask_db := [(Market_index_key tiny_price 9, new_order_record \<lparr> order_balance := 1000 \<rparr>)] \<rparr>"

definition overflow_chain :: chain where
  "overflow_chain = Pending new_pending_state (Database overflow_database)"

definition overflow_market :: matching where
  "overflow_market = opened_market \<lparr> pending_state := Pending new_pending_state overflow_chain,
     bid_itr := [(Market_index_key tiny_price 7, new_order_record \<lparr> order_balance := 3000 \<rparr>)],
     ask_itr := [(Market_index_key tiny_price 9, new_order_record \<lparr> order_balance := 1000 \<rparr>)] \<rparr>"

definition overflow_bid :: market_order where
  "overflow_bid = sample_bid \<lparr> market_index := Market_index_key tiny_price 7 \<rparr>"

definition overflow_ask :: market_order where
  "overflow_ask = sample_ask \<lparr> market_index := Market_index_key tiny_price 9 \<rparr>"

lemma overflow_market_opens: "open_market overflow_database 2 0 overflow_chain = Inr overflow_market"
  by code_simp

definition overflow_taken :: matching where
  "overflow_taken = overflow_market \<lparr> orders_filled := 2, current_bid := Some overflow_bid, current_ask := Some overflow_ask,
     bid_itr := [], ask_itr := [] \<rparr>"

lemma overflow_bid_taken:
  "get_next_bid market_ext overflow_market =
     Inr (True, overflow_market \<lparr> orders_filled := 1, current_bid := Some overflow_bid, bid_itr := [] \<rparr>)"
  by code_simp

lemma overflow_ask_taken:
  "get_next_ask (overflow_market \<lparr> orders_filled := 1, current_bid := Some overflow_bid, bid_itr := [] \<rparr>) = (True, overflow_taken)"
  by code_simp

lemma overflow_quantity: "get_quantity market_ext overflow_bid = Inl assert_failed"
  by (simp add: get_quantity_def order_get_balance_def get_price_def asset_mul_price_def overflow_bid_def sample_bid_def
      tiny_price_def market_ext_def ext_std_def fc_std_def fc_lib.defs new_order_record_def Let_def BTS_PRICE_PRECISION_def
      BTS_BLOCKCHAIN_MAX_SHARES_def bit_length.simps)

lemma overflow_run_fails: "run_market market_ext overflow_database 1000 overflow_market = Inl assert_failed"
proof -
  have "require_feed overflow_market = Inr ()" by code_simp
  moreover have "get_quantity market_ext overflow_bid = Inl assert_failed" by (rule overflow_quantity)
  then have "next_orders market_ext overflow_taken = Inl assert_failed"
    by (simp add: next_orders_def get_next_bid_def overflow_taken_def)
  then have "match_loop market_ext overflow_taken = Inl assert_failed"
    by (subst match_loop.simps) (simp add: match_iteration_def)
  ultimately show ?thesis by (simp add: run_market_def overflow_bid_taken overflow_ask_taken)
qed

theorem failed_market_changes_only_its_status_witness:
  "\<exists>c'. execute market_ext overflow_database 2 0 1000 overflow_chain = Inr (None, c') \<and>
     get_market_status c' 2 0 = Some ((new_market_status 2 0) \<lparr> last_error := Some assert_failed \<rparr>) \<and>
     get_bid_record c' (Market_index_key tiny_price 7) = Some (new_order_record \<lparr> order_balance := 3000 \<rparr>)"
proof -
  have fails: "bindE (open_market overflow_database 2 0 overflow_chain) (run_market market_ext overflow_database 1000) = Inl assert_failed"
    by (simp add: overflow_market_opens overflow_run_fails)
  have none: "execute market_ext overflow_database 2 0 1000 overflow_chain \<noteq> Inr (Some ts, c')" for ts c'
    unfolding execute_def Let_def fails by (auto elim!: bindE_InrE)
  have empty: "get_market_status overflow_chain q b = None" for q b
    by (simp add: overflow_chain_def new_pending_state_def overflow_database_def trading_database_def sample_database_def)
  have bid: "get_bid_record overflow_chain (Market_index_key tiny_price 7) = Some (new_order_record \<lparr> order_balance := 3000 \<rparr>)"
    by (simp add: overflow_chain_def new_pending_state_def overflow_database_def)
  have "feed_price overflow_market = None" by (simp add: overflow_market_def opened_market_def)
  then have st: "update_feed_price (case open_market overflow_database 2 0 overflow_chain of Inr s \<Rightarrow> feed_price s | Inl x \<Rightarrow> None)
      (case get_market_status overflow_chain 2 0 of Some st \<Rightarrow> st | None \<Rightarrow> new_market_status 2 0) = new_market_status 2 0"
    by (simp add: overflow_market_opens empty update_feed_price_def Let_def new_market_status_def)
  have "statuses_keyed overflow_chain" by (simp add: statuses_keyed_def empty)
  moreover have "is_pending overflow_chain" "(0 :: int) < 2" by (simp_all add: overflow_chain_def)
  ultimately have p: "is_pending overflow_chain" "statuses_keyed overflow_chain" "(0 :: int) < 2" by simp_all
  from failed_market_changes_only_its_status [OF p(3,1,2), of market_ext overflow_database 1000]
  show ?thesis using none fails bid unfolding st by (fastforce simp: same_records_def)
qed

end
