(* ===== verification/Cached_Map.thy ===== *)
theory Cached_Map
  imports Market_Execution Chain_Laws
begin

text \<open>
  The tables on disk: \<^verbatim>\<open>level_map.hpp\<close> and \<^verbatim>\<open>cached_level_map.hpp\<close>. LevelDB and the serialisation of keys
  and values are code of other projects and form the record \<open>leveldb\<close>, an argument of the definitions
  that use them; \<open>leveldb_ok\<close> states what they promise. A level map is the content of its directory
  with a flag for an open database. Failures of the disk are left out, and so is the upgrade of old
  formats. The cache answers every lookup; writes go through to the disk at once or wait for a flush.
\<close>

section \<open>LevelDB\<close>

record ('k, 'v, 's) leveldb =
  pack_key :: "'k \<Rightarrow> string"
  unpack_key :: "string \<Rightarrow> 'k"
  pack_value :: "'v \<Rightarrow> string"
  unpack_value :: "string \<Rightarrow> 'v"
  ldb_get :: "'s \<Rightarrow> string \<Rightarrow> string option"
  ldb_put :: "string \<Rightarrow> string \<Rightarrow> 's \<Rightarrow> 's"
  ldb_delete :: "string \<Rightarrow> 's \<Rightarrow> 's"
  ldb_entries :: "'s \<Rightarrow> (string \<times> string) list"
  ldb_good :: "'s \<Rightarrow> bool"

text \<open>What the loops of the source see when they iterate over the database.\<close>

definition level_entries :: "('k, 'v, 's) leveldb \<Rightarrow> 's \<Rightarrow> ('k, 'v) table" where
  "level_entries L s = map (\<lambda>(a, b). (unpack_key L a, unpack_value L b)) (ldb_entries L s)"

definition level_view :: "('k, 'v, 's) leveldb \<Rightarrow> 's \<Rightarrow> 'k \<rightharpoonup> 'v" where
  "level_view L s k = map_option (unpack_value L) (ldb_get L s (pack_key L k))"

text \<open>
  Keys and values survive serialisation; a database that holds serialised keys answers with what was
  written last, and iteration shows exactly its entries in the order of the keys.
\<close>

definition leveldb_ok :: "('k::linorder, 'v, 's) leveldb \<Rightarrow> bool" where
  "leveldb_ok L \<longleftrightarrow>
     (\<forall>k. unpack_key L (pack_key L k) = k) \<and> (\<forall>v. unpack_value L (pack_value L v) = v) \<and>
     (\<forall>s k v. ldb_good L s \<longrightarrow> ldb_good L (ldb_put L (pack_key L k) (pack_value L v) s) \<and>
        ldb_good L (ldb_delete L (pack_key L k) s)) \<and>
     (\<forall>s k j v. ldb_good L s \<longrightarrow>
        ldb_get L (ldb_put L (pack_key L k) (pack_value L v) s) (pack_key L j) =
          (if k = j then Some (pack_value L v) else ldb_get L s (pack_key L j)) \<and>
        ldb_get L (ldb_delete L (pack_key L k) s) (pack_key L j) =
          (if k = j then None else ldb_get L s (pack_key L j))) \<and>
     (\<forall>s. ldb_good L s \<longrightarrow> sorted_wrt (<) (map fst (level_entries L s)) \<and>
        map_of (level_entries L s) = level_view L s)"

section \<open>Level maps\<close>

record 's level_map =
  disk :: 's
  opened :: bool

definition level_open :: "'s level_map \<Rightarrow> 's level_map" where
  "level_open m = m \<lparr> opened := True \<rparr>"

definition level_close :: "'s level_map \<Rightarrow> 's level_map" where
  "level_close m = m \<lparr> opened := False \<rparr>"

definition level_lower_bound :: "('k::linorder, 'v, 's) leveldb \<Rightarrow> 's level_map \<Rightarrow> 'k \<Rightarrow> exn + ('k, 'v) table" where
  "level_lower_bound L m k =
     bindE (require (opened m) assert_failed) (\<lambda>_.
     Inr (dropWhile (\<lambda>x. fst x < k) (level_entries L (disk m))))"

text \<open>The entry the database seeks is the one looked for only when its key is the same.\<close>

definition level_find :: "('k::linorder, 'v, 's) leveldb \<Rightarrow> 's level_map \<Rightarrow> 'k \<Rightarrow> exn + ('k \<times> 'v) option" where
  "level_find L m k =
     bindE (level_lower_bound L m k) (\<lambda>xs.
     Inr (case xs of [] \<Rightarrow> None | x # _ \<Rightarrow> if fst x = k then Some x else None))"

definition level_fetch_optional :: "('k::linorder, 'v, 's) leveldb \<Rightarrow> 's level_map \<Rightarrow> 'k \<Rightarrow> exn + 'v option" where
  "level_fetch_optional L m k = bindE (level_find L m k) (\<lambda>x. Inr (map_option snd x))"

definition level_fetch :: "('k, 'v, 's) leveldb \<Rightarrow> 's level_map \<Rightarrow> 'k \<Rightarrow> exn + 'v" where
  "level_fetch L m k =
     bindE (require (opened m) assert_failed) (\<lambda>_.
     bindE (of_option key_not_found (ldb_get L (disk m) (pack_key L k))) (\<lambda>b.
     Inr (unpack_value L b)))"

definition level_last :: "('k, 'v, 's) leveldb \<Rightarrow> 's level_map \<Rightarrow> exn + ('k \<times> 'v) option" where
  "level_last L m =
     bindE (require (opened m) assert_failed) (\<lambda>_.
     Inr (if level_entries L (disk m) = [] then None else Some (last (level_entries L (disk m)))))"

definition level_size :: "('k, 'v, 's) leveldb \<Rightarrow> 's level_map \<Rightarrow> exn + nat" where
  "level_size L m =
     bindE (require (opened m) assert_failed) (\<lambda>_. Inr (length (level_entries L (disk m))))"

datatype ('k, 'v) batch_entry = Batch_store 'k 'v | Batch_remove 'k

primrec write_entry :: "('k, 'v, 's) leveldb \<Rightarrow> ('k, 'v) batch_entry \<Rightarrow> 's \<Rightarrow> 's" where
  "write_entry L (Batch_store k v) s = ldb_put L (pack_key L k) (pack_value L v) s"
| "write_entry L (Batch_remove k) s = ldb_delete L (pack_key L k) s"

definition level_commit ::
    "('k, 'v, 's) leveldb \<Rightarrow> ('k, 'v) batch_entry list \<Rightarrow> 's level_map \<Rightarrow> exn + 's level_map" where
  "level_commit L batch m =
     bindE (require (opened m) assert_failed) (\<lambda>_. Inr (m \<lparr> disk := fold (write_entry L) batch (disk m) \<rparr>))"

definition level_store :: "('k, 'v, 's) leveldb \<Rightarrow> 'k \<Rightarrow> 'v \<Rightarrow> 's level_map \<Rightarrow> exn + 's level_map" where
  "level_store L k v m =
     bindE (require (opened m) assert_failed) (\<lambda>_.
     Inr (m \<lparr> disk := ldb_put L (pack_key L k) (pack_value L v) (disk m) \<rparr>))"

definition level_remove :: "('k, 'v, 's) leveldb \<Rightarrow> 'k \<Rightarrow> 's level_map \<Rightarrow> exn + 's level_map" where
  "level_remove L k m =
     bindE (require (opened m) assert_failed) (\<lambda>_.
     Inr (m \<lparr> disk := ldb_delete L (pack_key L k) (disk m) \<rparr>))"

section \<open>Cached maps\<close>

record ('k, 'v, 's) cached_level_map =
  cached_db :: "'s level_map"
  cache :: "('k, 'v) table"
  dirty_store :: "'k list"
  dirty_remove :: "'k list"
  write_through :: bool

definition cached_open ::
    "('k, 'v, 's) leveldb \<Rightarrow> bool \<Rightarrow> ('k, 'v, 's) cached_level_map \<Rightarrow> ('k, 'v, 's) cached_level_map" where
  "cached_open L through m =
     m \<lparr> cached_db := level_open (cached_db m),
         cache := fold (\<lambda>(k, v). AList.update k v) (level_entries L (disk (cached_db m))) (cache m),
         write_through := through \<rparr>"

abbreviation out_of_range :: exn where "out_of_range \<equiv> Fc_exception ''out_of_range''"

definition store_dirty :: "('k, 'v, 's) cached_level_map \<Rightarrow> 'k \<Rightarrow> ('k, 'v) batch_entry list \<Rightarrow> exn + ('k, 'v) batch_entry list" where
  "store_dirty m k batch = bindE (of_option out_of_range (map_of (cache m) k)) (\<lambda>v. Inr (batch @ [Batch_store k v]))"

definition flush ::
    "('k::linorder, 'v, 's) leveldb \<Rightarrow> ('k, 'v, 's) cached_level_map \<Rightarrow> exn + ('k, 'v, 's) cached_level_map" where
  "flush L m =
     bindE (foldE (store_dirty m) (sort (dirty_store m)) []) (\<lambda>batch.
     bindE (level_commit L (batch @ map Batch_remove (sort (dirty_remove m))) (cached_db m)) (\<lambda>d.
     Inr (m \<lparr> cached_db := d, dirty_store := [], dirty_remove := [] \<rparr>)))"

definition cached_close ::
    "('k::linorder, 'v, 's) leveldb \<Rightarrow> ('k, 'v, 's) cached_level_map \<Rightarrow> exn + ('k, 'v, 's) cached_level_map" where
  "cached_close L m =
     bindE (flush L m) (\<lambda>m'.
     Inr (m' \<lparr> cached_db := level_close (cached_db m'), cache := [], dirty_store := [], dirty_remove := [] \<rparr>))"

definition set_write_through ::
    "('k::linorder, 'v, 's) leveldb \<Rightarrow> bool \<Rightarrow> ('k, 'v, 's) cached_level_map \<Rightarrow> exn + ('k, 'v, 's) cached_level_map" where
  "set_write_through L through m =
     bindE (if \<not> write_through m \<and> through then flush L m else Inr m) (\<lambda>m'.
     Inr (m' \<lparr> write_through := through \<rparr>))"

definition cached_fetch_optional :: "('k, 'v, 's) cached_level_map \<Rightarrow> 'k \<Rightarrow> 'v option" where
  "cached_fetch_optional m k = map_of (cache m) k"

definition cached_fetch :: "('k, 'v, 's) cached_level_map \<Rightarrow> 'k \<Rightarrow> exn + 'v" where
  "cached_fetch m k = of_option key_not_found (map_of (cache m) k)"

definition cached_store ::
    "('k::linorder, 'v, 's) leveldb \<Rightarrow> 'k \<Rightarrow> 'v \<Rightarrow> ('k, 'v, 's) cached_level_map \<Rightarrow> exn + ('k, 'v, 's) cached_level_map" where
  "cached_store L k v m0 =
     (let m = m0 \<lparr> cache := AList.update k v (cache m0) \<rparr>
      in if write_through m
         then bindE (level_store L k v (cached_db m)) (\<lambda>d. Inr (m \<lparr> cached_db := d \<rparr>))
         else Inr (m \<lparr> dirty_store := List.insert k (dirty_store m), dirty_remove := removeAll k (dirty_remove m) \<rparr>))"

definition cached_remove ::
    "('k::linorder, 'v, 's) leveldb \<Rightarrow> 'k \<Rightarrow> ('k, 'v, 's) cached_level_map \<Rightarrow> exn + ('k, 'v, 's) cached_level_map" where
  "cached_remove L k m0 =
     (let m = m0 \<lparr> cache := AList.delete k (cache m0) \<rparr>
      in if write_through m
         then bindE (level_remove L k (cached_db m)) (\<lambda>d. Inr (m \<lparr> cached_db := d \<rparr>))
         else Inr (m \<lparr> dirty_store := removeAll k (dirty_store m), dirty_remove := List.insert k (dirty_remove m) \<rparr>))"

definition cached_size :: "('k, 'v, 's) cached_level_map \<Rightarrow> nat" where
  "cached_size m = length (cache m)"

definition cached_last :: "('k::linorder, 'v, 's) cached_level_map \<Rightarrow> ('k \<times> 'v) option" where
  "cached_last m = (if cache m = [] then None else Some (last (in_order (cache m))))"

section \<open>Iterators of a cached map\<close>

text \<open>An iterator is a position in the ordered entries; the end is the position after the last one.\<close>

record ('k, 'v) cache_iterator =
  it_entries :: "('k, 'v) table"
  it_pos :: nat

definition it_valid :: "('k, 'v) cache_iterator \<Rightarrow> bool" where
  "it_valid i \<longleftrightarrow> it_pos i < length (it_entries i)"

definition it_next :: "('k, 'v) cache_iterator \<Rightarrow> ('k, 'v) cache_iterator" where
  "it_next i = i \<lparr> it_pos := it_pos i + 1 \<rparr>"

definition it_prev :: "('k, 'v) cache_iterator \<Rightarrow> ('k, 'v) cache_iterator" where
  "it_prev i = i \<lparr> it_pos := if it_pos i = 0 then length (it_entries i) else it_pos i - 1 \<rparr>"

definition it_reset :: "('k, 'v) cache_iterator \<Rightarrow> ('k, 'v) cache_iterator" where
  "it_reset i = i \<lparr> it_pos := length (it_entries i) \<rparr>"

definition cached_begin :: "('k::linorder, 'v, 's) cached_level_map \<Rightarrow> ('k, 'v) cache_iterator" where
  "cached_begin m = \<lparr> it_entries = in_order (cache m), it_pos = 0 \<rparr>"

definition cached_end :: "('k::linorder, 'v, 's) cached_level_map \<Rightarrow> ('k, 'v) cache_iterator" where
  "cached_end m = \<lparr> it_entries = in_order (cache m), it_pos = length (in_order (cache m)) \<rparr>"

definition cached_last_itr :: "('k::linorder, 'v, 's) cached_level_map \<Rightarrow> ('k, 'v) cache_iterator" where
  "cached_last_itr m = (if cache m = [] then cached_end m else it_prev (cached_end m))"

definition cached_lower_bound :: "('k::linorder, 'v, 's) cached_level_map \<Rightarrow> 'k \<Rightarrow> ('k, 'v) cache_iterator" where
  "cached_lower_bound m k = (cached_begin m) \<lparr> it_pos := length (takeWhile (\<lambda>x. fst x < k) (in_order (cache m))) \<rparr>"

definition cached_find :: "('k::linorder, 'v, 's) cached_level_map \<Rightarrow> 'k \<Rightarrow> ('k, 'v) cache_iterator" where
  "cached_find m k =
     (cached_begin m) \<lparr> it_pos := length (takeWhile (\<lambda>x. fst x \<noteq> k) (in_order (cache m))) \<rparr>"

text \<open>What a loop sees that steps an iterator until it is not valid.\<close>

function entries_back :: "('k, 'v) cache_iterator \<Rightarrow> ('k, 'v) table" where
  "entries_back i = (if it_valid i then (it_entries i ! it_pos i) # entries_back (it_prev i) else [])"
  by pat_completeness auto

termination
  by (relation "measure (\<lambda>i. if it_valid i then it_pos i + 1 else 0)") (auto simp: it_valid_def it_prev_def)

function entries_ahead :: "('k, 'v) cache_iterator \<Rightarrow> ('k, 'v) table" where
  "entries_ahead i = (if it_valid i then (it_entries i ! it_pos i) # entries_ahead (it_next i) else [])"
  by pat_completeness auto

termination
  by (relation "measure (\<lambda>i. length (it_entries i) - it_pos i)") (auto simp: it_valid_def it_next_def)

declare entries_back.simps [simp del] entries_ahead.simps [simp del]

text \<open>How the market engine sets up its iterators.\<close>

definition start_back :: "('k::linorder, 'v, 's) cached_level_map \<Rightarrow> 'k \<Rightarrow> ('k, 'v) cache_iterator" where
  "start_back m k = (let i = cached_lower_bound m k in if it_valid i then it_prev i else cached_last_itr m)"

definition start_ahead :: "('k::linorder, 'v, 's) cached_level_map \<Rightarrow> 'k \<Rightarrow> ('k, 'v) cache_iterator" where
  "start_ahead m k = (let i = cached_lower_bound m k in if it_valid i then i else cached_begin m)"

section \<open>Writes to a dictionary\<close>

primrec map_write :: "('k, 'v) batch_entry \<Rightarrow> ('k \<rightharpoonup> 'v) \<Rightarrow> 'k \<rightharpoonup> 'v" where
  "map_write (Batch_store k v) t = t(k \<mapsto> v)"
| "map_write (Batch_remove k) t = t(k := None)"

primrec write_with ::
    "('k \<Rightarrow> 'v \<Rightarrow> 's \<Rightarrow> exn + 's) \<Rightarrow> ('k \<Rightarrow> 's \<Rightarrow> exn + 's) \<Rightarrow> ('k, 'v) batch_entry \<Rightarrow> 's \<Rightarrow> exn + 's" where
  "write_with put del (Batch_store k v) s = put k v s"
| "write_with put del (Batch_remove k) s = del k s"

text \<open>What both kinds of tables promise: writes succeed, and a lookup finds what was written last.\<close>

locale dictionary =
  fixes ok :: "'s \<Rightarrow> bool" and view :: "'s \<Rightarrow> 'k \<rightharpoonup> 'v"
    and put :: "'k \<Rightarrow> 'v \<Rightarrow> 's \<Rightarrow> exn + 's" and del :: "'k \<Rightarrow> 's \<Rightarrow> exn + 's"
  assumes put: "ok s \<Longrightarrow> \<exists>s'. put k v s = Inr s' \<and> ok s' \<and> view s' = (view s)(k \<mapsto> v)"
    and del: "ok s \<Longrightarrow> \<exists>s'. del k s = Inr s' \<and> ok s' \<and> view s' = (view s)(k := None)"
begin

lemma write_one: "ok s \<Longrightarrow> \<exists>s'. write_with put del w s = Inr s' \<and> ok s' \<and> view s' = map_write w (view s)"
  using put del by (cases w) auto

lemma writes:
  "ok s \<Longrightarrow> \<exists>s'. foldE (write_with put del) ws s = Inr s' \<and> ok s' \<and> view s' = fold map_write ws (view s)"
proof (induction ws arbitrary: s)
  case (Cons w ws)
  from write_one [OF Cons.prems, of w] obtain s1
    where 1: "write_with put del w s = Inr s1" "ok s1" "view s1 = map_write w (view s)" by blast
  with Cons.IH [of s1] show ?case by auto
qed simp

end

definition level_ok :: "('k::linorder, 'v, 's) leveldb \<Rightarrow> 's level_map \<Rightarrow> bool" where
  "level_ok L m \<longleftrightarrow> leveldb_ok L \<and> opened m \<and> ldb_good L (disk m)"

interpretation level: dictionary "level_ok L" "\<lambda>m. level_view L (disk m)" "level_store L" "level_remove L"
  by unfold_locales
    (auto simp: level_ok_def leveldb_ok_def level_store_def level_remove_def level_view_def fun_eq_iff)

lemma level_commit_writes:
  "opened m \<Longrightarrow> level_commit L batch m = foldE (write_with (level_store L) (level_remove L)) batch m"
proof (induction batch arbitrary: m)
  case Nil
  then show ?case by (simp add: level_commit_def)
next
  case (Cons w ws)
  obtain s where s: "write_with (level_store L) (level_remove L) w m = Inr (m \<lparr> disk := s \<rparr>)" "s = write_entry L w (disk m)"
    using Cons.prems by (cases w) (auto simp: level_store_def level_remove_def)
  from Cons.IH [of "m \<lparr> disk := s \<rparr>"] Cons.prems show ?case by (simp add: s level_commit_def)
qed

text \<open>The search with an iterator finds what the direct lookup finds.\<close>

lemma find_in_sorted:
  assumes "sorted_wrt (<) (map fst xs)"
  shows "(case dropWhile (\<lambda>x. fst x < k) xs of [] \<Rightarrow> None | x # _ \<Rightarrow> if fst x = k then Some (snd x) else None) =
    map_of xs (k :: 'k::linorder)"
  using assms
proof (induction xs)
  case (Cons x xs)
  have "map_of xs k = None" if "k < fst x"
    using that Cons.prems by (auto simp: map_of_eq_None_iff)
  then show ?case using Cons by (cases x) (auto simp: not_less)
qed simp

lemma level_fetch_optional_view:
  assumes "level_ok L m"
  shows "level_fetch_optional L m k = Inr (level_view L (disk m) k)"
    and "level_fetch L m k = of_option key_not_found (level_view L (disk m) k)"
proof -
  let ?xs = "level_entries L (disk m)"
  have 1: "sorted_wrt (<) (map fst ?xs)" "map_of ?xs = level_view L (disk m)" and "opened m"
    using assms by (auto simp: level_ok_def leveldb_ok_def)
  then show "level_fetch_optional L m k = Inr (level_view L (disk m) k)"
    using find_in_sorted [OF 1(1), of k]
    by (cases "dropWhile (\<lambda>x. fst x < k) ?xs")
      (simp_all del: dropWhile_eq_Nil_conv add: level_fetch_optional_def level_find_def level_lower_bound_def
        if_distrib [of "map_option snd"] cong: if_cong)
  show "level_fetch L m k = of_option key_not_found (level_view L (disk m) k)"
    using \<open>opened m\<close> by (cases "ldb_get L (disk m) (pack_key L k)") (simp_all add: level_fetch_def level_view_def)
qed

section \<open>A cached map is a dictionary\<close>

text \<open>The disk and the cache agree except where a write waits to be flushed.\<close>

definition agrees :: "('k \<rightharpoonup> 'v) \<Rightarrow> ('k \<rightharpoonup> 'v) \<Rightarrow> 'k set \<Rightarrow> 'k set \<Rightarrow> bool" where
  "agrees on_disk cached stores removes \<longleftrightarrow>
     (\<forall>k. (k \<in> stores \<longrightarrow> cached k \<noteq> None) \<and> (k \<in> removes \<longrightarrow> cached k = None) \<and>
        (k \<notin> stores \<and> k \<notin> removes \<longrightarrow> on_disk k = cached k))"

lemma agrees_clean [simp]: "agrees V C {} {} \<longleftrightarrow> V = C"
  by (auto simp: agrees_def)

lemma agrees_store: "agrees V C S R \<Longrightarrow> agrees V (C(k \<mapsto> v)) (insert k S) (R - {k})"
  by (auto simp: agrees_def)

lemma agrees_remove: "agrees V C S R \<Longrightarrow> agrees V (C(k := None)) (S - {k}) (insert k R)"
  by (auto simp: agrees_def)

lemma agrees_flush:
  "agrees V C S R \<Longrightarrow> (\<lambda>k. if k \<in> R then None else if k \<in> S then Some (the (C k)) else V k) = C"
  by (fastforce simp: agrees_def)

definition coherent :: "('k::linorder, 'v, 's) leveldb \<Rightarrow> ('k, 'v, 's) cached_level_map \<Rightarrow> bool" where
  "coherent L m \<longleftrightarrow> level_ok L (cached_db m) \<and> distinct (map fst (cache m)) \<and>
     agrees (level_view L (disk (cached_db m))) (map_of (cache m)) (set (dirty_store m)) (set (dirty_remove m)) \<and>
     (write_through m \<longrightarrow> dirty_store m = [] \<and> dirty_remove m = [])"

lemma cached_store_coherent:
  assumes "coherent L m"
  shows "\<exists>m'. cached_store L k v m = Inr m' \<and> coherent L m' \<and> map_of (cache m') = (map_of (cache m))(k \<mapsto> v)"
proof -
  from level.put [of L "cached_db m" k v] assms obtain d where
    "level_store L k v (cached_db m) = Inr d" "level_ok L d" "level_view L (disk d) = (level_view L (disk (cached_db m)))(k \<mapsto> v)"
    by (auto simp: coherent_def)
  with assms show ?thesis
    by (cases "write_through m") (auto simp: cached_store_def coherent_def Let_def distinct_update update_conv' agrees_store simp del: map_of_update)
qed

lemma cached_remove_coherent:
  assumes "coherent L m"
  shows "\<exists>m'. cached_remove L k m = Inr m' \<and> coherent L m' \<and> map_of (cache m') = (map_of (cache m))(k := None)"
proof -
  from level.del [of L "cached_db m" k] assms obtain d where
    "level_remove L k (cached_db m) = Inr d" "level_ok L d" "level_view L (disk d) = (level_view L (disk (cached_db m)))(k := None)"
    by (auto simp: coherent_def)
  with assms show ?thesis
    by (cases "write_through m") (auto simp: cached_remove_def coherent_def Let_def distinct_delete delete_conv' agrees_remove simp del: map_of_delete)
qed

interpretation cached: dictionary "coherent L" "\<lambda>m. map_of (cache m)" "cached_store L" "cached_remove L"
  by unfold_locales (rule cached_store_coherent cached_remove_coherent; assumption)+

lemma fold_map_writes:
  "fold map_write (map (\<lambda>k. Batch_store k (f k)) ks) t = (\<lambda>k. if k \<in> set ks then Some (f k) else t k)"
  "fold map_write (map Batch_remove ks) t = (\<lambda>k. if k \<in> set ks then None else t k)"
  by (induction ks arbitrary: t) (auto simp: fun_eq_iff)

lemma dirty_batch:
  "set ks \<subseteq> dom (map_of (cache m)) \<Longrightarrow>
   foldE (store_dirty m) ks batch = Inr (batch @ map (\<lambda>k. Batch_store k (the (map_of (cache m) k))) ks)"
  by (induction ks arbitrary: batch) (auto simp: store_dirty_def)

lemma flush_coherent:
  assumes "coherent L m"
  shows "\<exists>d. flush L m = Inr (m \<lparr> cached_db := d, dirty_store := [], dirty_remove := [] \<rparr>) \<and> level_ok L d \<and>
    level_view L (disk d) = map_of (cache m)"
proof -
  let ?stores = "map (\<lambda>k. Batch_store k (the (map_of (cache m) k))) (sort (dirty_store m))"
  let ?batch = "?stores @ map Batch_remove (sort (dirty_remove m))"
  have 1: "foldE (store_dirty m) (sort (dirty_store m)) [] = Inr ?stores"
    using dirty_batch [of "sort (dirty_store m)" m "[]"] assms by (auto simp: coherent_def agrees_def)
  from assms have "level_ok L (cached_db m)" and o: "opened (cached_db m)" by (auto simp: coherent_def level_ok_def)
  from level.writes [OF this(1), of ?batch] obtain d where d: "level_commit L ?batch (cached_db m) = Inr d" "level_ok L d"
    "level_view L (disk d) = fold map_write ?batch (level_view L (disk (cached_db m)))"
    by (auto simp: level_commit_writes [OF o])
  have "level_view L (disk d) = map_of (cache m)"
    using assms agrees_flush by (fastforce simp: d(3) fold_map_writes coherent_def)
  then show ?thesis using d(1,2) by (intro exI [of _ d]) (simp add: flush_def 1)
qed

lemma map_of_fold_update:
  "distinct (map fst xs) \<Longrightarrow> map_of (fold (\<lambda>(k, v). AList.update k v) xs t) = map_of t ++ map_of xs"
proof (induction xs arbitrary: t)
  case (Cons x xs)
  then have "map_of xs (fst x) = None" by (simp add: map_of_eq_None_iff)
  then show ?case using Cons by (cases x) (simp add: fun_eq_iff map_add_def split: option.split)
qed simp

lemma distinct_fold_update: "distinct (map fst t) \<Longrightarrow> distinct (map fst (fold (\<lambda>(k, v). AList.update k v) xs t))"
  by (induction xs arbitrary: t) (auto simp: distinct_update)

text \<open>Everything a table of the chain goes through; closing and opening again is one step.\<close>

datatype ('k, 'v) table_event = Write "('k, 'v) batch_entry" | Flush | Write_through bool | Reopen bool

primrec run_event ::
    "('k::linorder, 'v, 's) leveldb \<Rightarrow> ('k, 'v) table_event \<Rightarrow> ('k, 'v, 's) cached_level_map \<Rightarrow> exn + ('k, 'v, 's) cached_level_map" where
  "run_event L (Write w) m = write_with (cached_store L) (cached_remove L) w m"
| "run_event L Flush m = flush L m"
| "run_event L (Write_through b) m = set_write_through L b m"
| "run_event L (Reopen b) m = bindE (cached_close L m) (\<lambda>m'. Inr (cached_open L b m'))"

primrec event_effect :: "('k, 'v) table_event \<Rightarrow> ('k \<rightharpoonup> 'v) \<Rightarrow> 'k \<rightharpoonup> 'v" where
  "event_effect (Write w) t = map_write w t"
| "event_effect Flush t = t"
| "event_effect (Write_through b) t = t"
| "event_effect (Reopen b) t = t"

lemma reopen_coherent:
  assumes "coherent L m"
  shows "\<exists>m'. run_event L (Reopen b) m = Inr m' \<and> coherent L m' \<and> map_of (cache m') = map_of (cache m)"
proof -
  from flush_coherent [OF assms] obtain d where
    d: "flush L m = Inr (m \<lparr> cached_db := d, dirty_store := [], dirty_remove := [] \<rparr>)"
      "level_ok L d" "level_view L (disk d) = map_of (cache m)" by blast
  let ?c = "fold (\<lambda>(k, v). AList.update k v) (level_entries L (disk d)) []"
  from d(2) have "sorted_wrt (<) (map fst (level_entries L (disk d)))" "map_of (level_entries L (disk d)) = level_view L (disk d)"
    by (auto simp: level_ok_def leveldb_ok_def)
  then have "map_of ?c = map_of (cache m)" "distinct (map fst ?c)"
    by (simp_all add: map_of_fold_update strict_sorted_iff d(3) distinct_fold_update)
  moreover have "level_ok L (level_open (level_close d))"
    using d(2) by (simp add: level_ok_def level_open_def level_close_def)
  ultimately show ?thesis
    by (simp add: cached_close_def d(1) cached_open_def coherent_def d(3) level_open_def level_close_def)
qed

lemma run_event_coherent:
  assumes "coherent L m"
  shows "\<exists>m'. run_event L e m = Inr m' \<and> coherent L m' \<and> map_of (cache m') = event_effect e (map_of (cache m))"
proof (cases e)
  case (Write w)
  then show ?thesis using cached.write_one [OF assms, of w] by simp
next
  case Flush
  then show ?thesis using flush_coherent [OF assms] assms by (auto simp: coherent_def)
next
  case (Write_through b)
  show ?thesis
  proof (cases "\<not> write_through m \<and> b")
    case True
    then show ?thesis using Write_through flush_coherent [OF assms] assms
      by (auto simp: coherent_def set_write_through_def)
  next
    case False
    then show ?thesis using Write_through assms by (auto simp: coherent_def set_write_through_def)
  qed
next
  case (Reopen b)
  then show ?thesis using reopen_coherent [OF assms, of b] by simp
qed

lemma run_events_coherent:
  "coherent L m \<Longrightarrow>
   \<exists>m'. foldE (run_event L) es m = Inr m' \<and> coherent L m' \<and> map_of (cache m') = fold event_effect es (map_of (cache m))"
proof (induction es arbitrary: m)
  case (Cons e es)
  from run_event_coherent [OF Cons.prems, of e] obtain m1
    where "run_event L e m = Inr m1" "coherent L m1" "map_of (cache m1) = event_effect e (map_of (cache m))" by blast
  with Cons.IH [of m1] show ?case by auto
qed simp

text \<open>
  C32. A table of the chain behaves like a map in memory and loses nothing: any sequence of stores,
  removals, flushes, changes of the write mode and restarts succeeds, every lookup afterwards finds
  what the same writes leave in a map, and when writes go through, a lookup on disk finds the same.
\<close>

theorem tables_lose_nothing:
  assumes "coherent L m"
  shows "\<exists>m'. foldE (run_event L) es m = Inr m' \<and> coherent L m' \<and>
    cached_fetch_optional m' = fold event_effect es (cached_fetch_optional m) \<and>
    (write_through m' \<longrightarrow> level_fetch_optional L (cached_db m') = (\<lambda>k. Inr (cached_fetch_optional m' k)))"
proof -
  have view: "cached_fetch_optional n = map_of (cache n)" for n :: "('a, 'b, 'c) cached_level_map"
    by (simp add: cached_fetch_optional_def fun_eq_iff)
  from run_events_coherent [OF assms] obtain m' where m': "foldE (run_event L) es m = Inr m'" "coherent L m'"
    "map_of (cache m') = fold event_effect es (map_of (cache m))" by blast
  then have "level_fetch_optional L (cached_db m') = (\<lambda>k. Inr (cached_fetch_optional m' k))" if "write_through m'"
    using that by (auto simp: coherent_def view level_fetch_optional_view(1) fun_eq_iff)
  with m' show ?thesis by (auto simp: view)
qed

text \<open>A database with numbers for keys and values.\<close>

definition unary :: "nat \<Rightarrow> string" where "unary n = replicate n CHR ''1''"

definition sample_leveldb :: "(nat, nat, (nat, nat) table) leveldb" where
  "sample_leveldb = \<lparr> pack_key = unary, unpack_key = length, pack_value = unary, unpack_value = length,
     ldb_get = (\<lambda>s a. map_option unary (map_of s (length a))),
     ldb_put = (\<lambda>a b. AList.update (length a) (length b)), ldb_delete = (\<lambda>a. AList.delete (length a)),
     ldb_entries = (\<lambda>s. map (\<lambda>(k, v). (unary k, unary v)) (in_order s)),
     ldb_good = (\<lambda>s. distinct (map fst s)) \<rparr>"

lemma length_unary [simp]: "length (unary n) = n"
  by (simp add: unary_def)

lemma sample_leveldb_ok: "leveldb_ok sample_leveldb"
proof -
  have 1: "level_entries sample_leveldb s = in_order s" "level_view sample_leveldb s = map_of s" for s
    by (auto simp: level_entries_def level_view_def sample_leveldb_def split_def option.map_comp comp_def option.map_ident)
  have "sorted_wrt (<) (map fst (in_order s))" "map_of (in_order s) = map_of s" if "distinct (map fst s)" for s :: "(nat, nat) table"
    using that sorted_in_order [of s] by (simp_all add: strict_sorted_iff map_of_in_order)
  then show ?thesis unfolding leveldb_ok_def 1
    by (simp add: sample_leveldb_def distinct_update distinct_delete)
qed

definition sample_table :: "(nat, nat, (nat, nat) table) cached_level_map" where
  "sample_table = \<lparr> cached_db = \<lparr> disk = [(7, 1)], opened = True \<rparr>, cache = [(7, 1)], dirty_store = [], dirty_remove = [],
     write_through = True \<rparr>"

lemma sample_table_coherent: "coherent sample_leveldb sample_table"
proof -
  have "level_view sample_leveldb [(7, 1)] = map_of [(7, 1)]"
    by (auto simp: level_view_def sample_leveldb_def)
  then show ?thesis
    by (simp add: coherent_def level_ok_def sample_leveldb_ok sample_table_def) (simp add: sample_leveldb_def)
qed

theorem tables_lose_nothing_witness:
  "\<exists>m'. foldE (run_event sample_leveldb)
      [Write_through False, Write (Batch_store 2 5), Write (Batch_remove 7), Flush, Write (Batch_store 1 6), Reopen True]
      sample_table = Inr m' \<and>
    cached_fetch_optional m' = [1 \<mapsto> 6, 2 \<mapsto> 5]"
proof -
  have "cached_fetch_optional sample_table = [7 \<mapsto> 1]"
    by (auto simp: cached_fetch_optional_def sample_table_def fun_eq_iff)
  then show ?thesis
    using tables_lose_nothing [OF sample_table_coherent, of "[Write_through False, Write (Batch_store 2 5),
      Write (Batch_remove 7), Flush, Write (Batch_store 1 6), Reopen True]"] by (auto simp: fun_eq_iff)
qed

section \<open>Iterators\<close>

lemma entries_back_take:
  "n < length xs \<Longrightarrow> entries_back \<lparr> it_entries = xs, it_pos = n \<rparr> = rev (take (Suc n) xs)"
proof (induction n)
  case 0
  then show ?case
    by (subst entries_back.simps, subst entries_back.simps) (simp add: it_valid_def it_prev_def take_Suc_conv_app_nth)
next
  case (Suc n)
  then show ?case
    by (subst entries_back.simps) (simp add: it_valid_def it_prev_def take_Suc_conv_app_nth)
qed

lemma entries_back_end: "entries_back \<lparr> it_entries = xs, it_pos = length xs \<rparr> = []"
  by (subst entries_back.simps) (simp add: it_valid_def)

lemma entries_ahead_drop: "entries_ahead \<lparr> it_entries = xs, it_pos = n \<rparr> = drop n xs"
proof (induction "length xs - n" arbitrary: n)
  case 0
  then show ?case by (subst entries_ahead.simps) (simp add: it_valid_def)
next
  case (Suc l)
  then have "entries_ahead \<lparr> it_entries = xs, it_pos = Suc n \<rparr> = drop (Suc n) xs" by simp
  then show ?case using Suc(2)
    by (subst entries_ahead.simps) (simp add: it_valid_def it_next_def Cons_nth_drop_Suc)
qed

lemma takeWhile_take: "takeWhile P xs = take (length (takeWhile P xs)) xs"
  by (metis takeWhile_eq_take)

lemma dropWhile_drop: "dropWhile P xs = drop (length (takeWhile P xs)) xs"
  by (rule dropWhile_eq_drop)

text \<open>
  C33. The iterators of the market engine see the right orders: stepping back from the first key of the
  next market shows the orders before it, the highest first, stepping ahead shows the orders from
  the first key on or all orders when there is none, and both loops end.
\<close>

theorem iterators_show_the_books:
  "entries_back (start_back m k) = before_key k (cache m) \<and> entries_ahead (start_ahead m k) = from_key k (cache m)"
proof
  let ?xs = "in_order (cache m)" and ?n = "length (takeWhile (\<lambda>x. fst x < k) (in_order (cache m)))"
  have le: "?n \<le> length ?xs" by (rule length_takeWhile_le)
  have nil: "cache m = [] \<longleftrightarrow> ?xs = []" by (metis set_in_order set_empty)
  have before: "before_key k (cache m) = rev (take ?n ?xs)"
    by (simp only: before_key_def takeWhile_take [symmetric])
  show "entries_back (start_back m k) = before_key k (cache m)"
  proof (cases "?n < length ?xs")
    case True
    then show ?thesis
      by (cases ?n) (simp_all add: start_back_def cached_lower_bound_def cached_begin_def it_valid_def it_prev_def before
        entries_back_end entries_back_take Let_def)
  next
    case False
    with le have n: "?n = length ?xs" by simp
    then show ?thesis
      by (cases "length ?xs") (simp_all add: start_back_def cached_lower_bound_def cached_begin_def cached_last_itr_def cached_end_def
        it_valid_def it_prev_def before entries_back_end entries_back_end [of "[]", simplified] entries_back_take Let_def nil)
  qed
  show "entries_ahead (start_ahead m k) = from_key k (cache m)"
    using le by (auto simp: start_ahead_def cached_lower_bound_def cached_begin_def it_valid_def from_key_def dropWhile_drop
        entries_ahead_drop Let_def split: list.split)
qed

end
