(* ===== verification/Spec2Isabelle.thy ===== *)
theory Spec2Isabelle
  imports Commit_Views Price_Text Yield Account_Names Genesis_Laws Net_Laws Wallet_Laws Market_Runs Cached_Map
begin

text \<open>
  A verification library for the LarkX blockchain: the ledger, its operations, the market engine, the
  production and exchange of blocks, the wallet. The sources are C++ (\<^verbatim>\<open>src/libraries\<close>); each theory is a
  translation of the functions it names into HOL functions, with the theorems that make them correct.

  \<^bold>\<open>The program.\<close> A node keeps a ledger: tables of accounts, balances, assets, slots, market
  orders and feeds (\<^verbatim>\<open>chain_database\<close>). A transaction is a list of operations with signatures. It is
  evaluated on a \<^verbatim>\<open>transaction_evaluation_state\<close> over a \<^verbatim>\<open>pending_chain_state\<close>, an overlay that collects
  stores and reads through to the state below; when all checks pass the overlay is applied to that state,
  and otherwise dropped. A block is a list of transactions, signed by the delegate of its time slot. The
  block is evaluated on an overlay of its own, which pays the delegate, runs the market engine over the
  markets that earlier transactions touched and draws the next order of delegates; the inverse of the
  overlay, the undo state, is kept so that the block can be taken back when a longer fork appears. Blocks
  that do not extend the head are kept in a tree of forks. Nodes tell each other which blocks they have,
  and fetch those they miss (\<^verbatim>\<open>net/node.cpp\<close>), asking the ledger through the interface that
  \<^verbatim>\<open>client.cpp\<close> implements. A wallet keeps the keys and contacts of a user in a database of its own, reads the
  ledger of its node, and builds transactions from them (\<^verbatim>\<open>transaction_builder.cpp\<close>).

  \<^bold>\<open>The model.\<close> Structs are records, tagged unions and the class hierarchy of the chain state are
  datatypes: a \<open>chain\<close> is a \<open>Database\<close> or a \<open>Pending\<close> state over a \<open>chain\<close>, and a virtual method is a function
  by cases. Amounts are 64-bit words, read signed or unsigned as the C++ conversions do. Exceptions are
  values: a fallible function returns \<open>Inl\<close> an exception or \<open>Inr\<close> a result, and functions that catch
  an exception keep the state the source has at that point. Tables are association lists, in the order
  the source iterates over them. Handlers of the network are computations that pass a state along and
  may stop with an exception.

  \<^bold>\<open>Theories that model the code.\<close>

  \<^item> \<open>Prelude\<close>: types of \<^verbatim>\<open>types.hpp\<close>, exceptions, the sum monad, tables, loops; \<open>Config\<close>: the
    constants of \<^verbatim>\<open>config.hpp\<close>; \<open>Fc\<close> and \<open>External\<close>: what the code uses of the \<^verbatim>\<open>fc\<close> library.
  \<^item> \<open>Asset\<close>, \<open>Price_Text\<close>: \<^verbatim>\<open>asset.cpp\<close>, amounts, prices and their notation; \<open>Records\<close>: the records of
    the ledger (\<^verbatim>\<open>*_record.hpp\<close>, \<^verbatim>\<open>operations.hpp\<close>, \<^verbatim>\<open>transaction.hpp\<close>); \<open>Slots\<close>: \<^verbatim>\<open>time.cpp\<close>.
  \<^item> \<open>Chain_State\<close>: \<^verbatim>\<open>pending_chain_state.cpp\<close> and the lookups and stores of \<^verbatim>\<open>chain_database.cpp\<close>;
    \<open>Chain_Interface\<close>: \<^verbatim>\<open>chain_interface.cpp\<close>, applying an overlay and computing its undo state.
  \<^item> \<open>Eval_State\<close>, \<open>Evaluation\<close>: \<^verbatim>\<open>transaction_evaluation_state.cpp\<close>; \<open>Balance_Operations\<close>,
    \<open>Account_Operations\<close>, \<open>Market_Operations\<close>: the \<^verbatim>\<open>evaluate\<close> function of every registered operation
    (\<^verbatim>\<open>balance_operations.cpp\<close>, \<^verbatim>\<open>account_operations.cpp\<close>, \<^verbatim>\<open>market_operations.cpp\<close>,
    \<^verbatim>\<open>feed_operations.cpp\<close>).
  \<^item> \<open>Market_Engine\<close>, \<open>Market_Execution\<close>: \<^verbatim>\<open>market_engine.cpp\<close>, matching, payment, history.
  \<^item> \<open>Delegates\<close>, \<open>Fork_Tree\<close>, \<open>Blocks\<close>, \<open>Genesis\<close>: \<^verbatim>\<open>chain_database.cpp\<close>, the election and pay of
    delegates, the tree of forks, the application and removal of blocks and the pool of waiting
    transactions, the first state; \<open>Supply\<close>: the audit \<^verbatim>\<open>calculate_supply\<close>.
  \<^item> \<open>Cached_Map\<close>: \<^verbatim>\<open>level_map.hpp\<close> and \<^verbatim>\<open>cached_level_map.hpp\<close>, the tables on disk and their cache.
  \<^item> \<open>Sync\<close>: what \<^verbatim>\<open>client.cpp\<close> answers to the network; \<open>Peer_Sync\<close>, \<open>Net_Node\<close>: the synchronisation
    with a peer and the message handlers of \<^verbatim>\<open>net/node.cpp\<close>.
  \<^item> \<open>Wallet_Db\<close>: \<^verbatim>\<open>wallet_db.cpp\<close>, the records of a wallet and the indexes over them; \<open>Wallet\<close>: accounts,
    balances, votes, fees and withdrawals of \<^verbatim>\<open>wallet.cpp\<close>, with the functions of
    \<^verbatim>\<open>blockchain/transaction.cpp\<close> that add operations; \<open>Transaction_Builder\<close>: \<^verbatim>\<open>transaction_builder.cpp\<close>.

  \<^bold>\<open>Theories of laws.\<close>

  \<^item> \<open>Chain_Laws\<close> interprets the locales \<open>record_store\<close> and \<open>view_store\<close> of the prelude, the contract of a
    table, on every table of the ledger, and has the frame lemmas between the tables. Further interfaces
    are \<open>dictionary\<close> (\<open>Cached_Map\<close>) and \<open>layer_walk\<close> (\<open>Fork_Tree\<close>). \<open>Commit_Laws\<close> and \<open>Undo\<close> lift them
    to applying an overlay and its undo state; \<open>Commit_Views\<close> does so for the tables outside that interface: properties,
    transactions, market statuses, dirty markets, trades and history.
  \<^item> \<open>Conservation\<close> counts the shares of an asset the records hold (\<open>holdings\<close>); a store changes the count by the
    difference of two records, so every operation has a books lemma. Covers and added collateral move a position to
    another key or market, which the \<open>drift\<close> of an operation measures; it is zero for all others. \<open>Transactions\<close> and \<open>Market_Laws\<close> compose them.
    \<open>Supply\<close> shows that the audit of the code computes this count.
  \<^item> \<open>Authority\<close> has the lemmas on who signed. \<open>Writes\<close> is a step relation of stores on a pending state, its
    invariants are proved by rule induction, and \<open>Block_Writes\<close> shows that whatever a block does
    is such a sequence. \<open>Block_Laws\<close> draws the conclusions for applied, rejected and removed blocks.
  \<^item> \<open>Fork_Laws\<close>: a block is linked exactly when a path leads from genesis to it. \<open>Genesis_Laws\<close>: the
    first state meets the conditions of the other theorems.
  \<^item> \<open>Sync_Laws\<close>: synopsis and answer make the asking node learn the blocks it misses. \<open>Net_Laws\<close>: the
    requests for blocks as an abstract system; \<open>request_effect\<close> says what each event, a message or task with its
    connection, does to them, the node with all its handlers does exactly that, and the invariants of the abstract steps hold
    of every node that can be reached.
  \<^item> \<open>Wallet_Laws\<close>: the operations of a transaction and the outstanding balances of the builder keep the same
    books under every builder function (\<open>imbalance\<close>), keys that are stored are found, and what the choice of votes
    and of the payer of the fee does in the cases the code does not expect.
  \<^item> \<open>Yield\<close>, \<open>Account_Names\<close>: bounds of the yield, the hierarchy of names. \<open>Scenario\<close>, \<open>Market_Sample\<close>,
    \<open>Wallet_Sample\<close>: small ledgers on which the theorems with hypotheses are applied.

  \<^bold>\<open>Loops.\<close> Loops are functions that return always, with a measure where the recursion is not
  structural (the matching loop of the market: the orders left; the marking loops of the block tree: the
  blocks not yet marked; the backlog of blocks: its length). The loops that may run for ever are partial
  functions of the option type: walking back a fork, the halving of the step of a synopsis by \<open>halving_loop\<close>, the
  drawing of random slates in \<open>adjust_slate\<close>, and in the wallet the walk up the parents of an account and the
  filling of a slate. That they return is proved: the walk for every tree the node can build, the drawing for
  every generator that draws each delegate again and again, the loops of the wallet for a chain that files its
  accounts under their names and for ranks that are counts.

  \<^bold>\<open>What is assumed.\<close> Code that is not in the repository is an argument of the definitions: the
  record \<open>X\<close> with the arithmetic, hashing, signature and serialisation functions of \<^verbatim>\<open>fc\<close>, the
  operations of LevelDB, the random number generator of the genesis state, the hash of a message, and the record \<open>W\<close>
  with encryption, derivation of keys, shuffling and the contents of a variant for the wallet.
  Theorems that rely on it name the property: \<open>uint128_ok\<close> and \<open>bigint_ok\<close> (arithmetic at the width of
  the type), \<open>leveldb_ok\<close> (reads see writes, iteration is ordered), \<open>separates_assets\<close> (balances of
  different assets have different addresses), \<open>fair\<close> and \<open>rng_ok\<close> (the generator). Each such
  theorem is followed by an application to concrete functions, named with the suffix \<open>_witness\<close>.
  Conditions on states (\<open>chain_ok\<close>, \<open>node_ok\<close>, \<open>shows_chain\<close>) are invariants that the operations keep and
  the genesis state has.

  \<^bold>\<open>Simplifications.\<close> Account ids, which are 32-bit numbers in the source, and times, which are 32-bit counts of
    seconds, are unbounded here. When storing a block or applying an overlay raises an exception, the model keeps the state
    from before, where the source has written a part: the data of the block, or the tables that come
    earlier. The exception that the text of a memo can raise in
    the builder, for a symbol that is not known, is left out with the text. Failures of the disk, the flag for synchronous
    writes and the upgrade of old formats are left out of the tables on disk.

  \<^bold>\<open>Not modelled.\<close> \<^verbatim>\<open>asset_operations.cpp\<close> is compiled out by \<^verbatim>\<open>PTS_SUPPRESS_ASSETS\<close>, and proposals
  are not registered with the operation factory. Opening and upgrading of database files, snapshots and
  exports are input and output around the stores that are modelled. Keys and addresses are computed by \<^verbatim>\<open>fc\<close>.
  Of the network, sockets, handshakes, the peer database, timeouts and statistics are left out. Of the wallet, the
  scanning of the chain and the ledger of past transactions, settings, files, backups and import, memos and mail are
  left out, and the methods that only call the builder. The RPC and command line interfaces, mail, the
  HTTP interface and the programs use the ledger from outside and hold no rule of it.
\<close>

section \<open>Transactions\<close>

text \<open>
  C1. A transaction the node accepts neither creates nor destroys shares: for every asset, what the
  ledger holds of it (fees, balances, asks, bids, collateral and, of the base asset, shorts and delegate
  pay) minus the recorded share supply is the same before and after, up to the drift of its operations.
  The drift is zero for every operation but a cover and added collateral. These store the position under a
  new key, and lose exactly the collateral of another position of the owner that is stored there; and
  since a cover never compares the asset ids of its new price with those of the position, it can move the
  position to a market with another base asset, where the collateral then counts as that asset. Sums are
  taken modulo 2^64.
\<close>

theorem transaction_conserves_shares:
  assumes "evaluate X t skip canonical e = Inr e'" and "chain_ok X (current_state e)"
    and "begin_evaluation X t skip canonical e = Inr e2"
  shows "holdings (current_state e') a - supply_of (current_state e') a + drift X (trx_operations t) e2 a =
    holdings (current_state e) a - supply_of (current_state e) a"
  by (rule evaluate_books(1) [OF assms])

theorem transaction_conserves_shares_witness:
  "holdings (current_state after_transfer) 0 - supply_of (current_state after_transfer) 0 =
     holdings sample_chain 0 - supply_of sample_chain 0"
proof -
  have "drift ext_std (trx_operations sample_transfer) begun_transfer 0 = 0"
    by (rule drift_none) (simp add: sample_transfer_def)
  with transaction_conserves_shares [OF sample_transfer_accepted _ sample_transfer_begun, of 0]
  show ?thesis by (simp add: sample_chain_ok)
qed

text \<open>
  C2. Without a signature ordinary operations leave a balance alone: a transaction its owner has not
  signed does not change a balance guarded by a signature, when none of its operations deposits into that
  balance, claims it as a genesis balance or withdraws from it with a signature as claim input
  (ordinary_for). A claim of a genesis balance is excluded because the code does not check its owner at all.
\<close>

theorem unsigned_balance_is_untouched:
  assumes "evaluate X t skip canonical e = Inr e'" and "begin_evaluation X t skip canonical e = Inr e2"
    and "chain_ok X (current_state e)" and "list_all (ordinary_for X bid) (trx_operations t)"
    and "get_balance_record (current_state e) bid = Some r"
    and "condition_data (condition r) = Withdraw_with_signature own memo" and "\<not> check_signature e2 own"
  shows "get_balance_record (current_state e') bid = Some r"
  using assms by (rule evaluate_unsigned_balance)

theorem unsigned_balance_is_untouched_witness:
  "get_balance_record (current_state after_transfer) 19 =
     Some ((sample_balance 0 9 1000000) \<lparr> genesis_info := Some (asset_of 1000000 0, ''P'') \<rparr>)"
proof -
  have 1: "list_all (ordinary_for ext_std 19) (trx_operations sample_transfer)" by code_simp
  have 2: "\<not> check_signature begun_transfer 9" by code_simp
  have 3: "get_balance_record (current_state sample_state) 19 =
      Some ((sample_balance 0 9 1000000) \<lparr> genesis_info := Some (asset_of 1000000 0, ''P'') \<rparr>)"
    by (simp add: sample_chain_def sample_database_def new_pending_state_def)
  have 4: "condition_data (condition ((sample_balance 0 9 1000000) \<lparr> genesis_info := Some (asset_of 1000000 0, ''P'') \<rparr>)) =
      Withdraw_with_signature 9 None"
    by (simp add: sample_balance_def signature_condition_def)
  show ?thesis
    using unsigned_balance_is_untouched [OF sample_transfer_accepted sample_transfer_begun _ 1 3 4 2]
    by (simp add: sample_chain_ok)
qed

text \<open>
  C23. An accepted transaction is paid for: it overdraws no asset, and what is left of the base asset
  together with the value of the other fees covers the required fees.
\<close>

theorem accepted_transaction_is_paid:
  assumes "evaluate X t skip canonical e = Inr e'"
  shows "0 \<le> sint (balance_of e' a) \<and>
    sint (amount (required_fees e')) \<le> sint (balance_of e' 0) + sint (amount (alt_fees_paid e'))"
  using evaluate_fees [OF assms] by simp

theorem accepted_transaction_is_paid_witness:
  "0 \<le> sint (balance_of after_transfer 0) \<and> balance_of after_transfer 0 = 100000"
proof -
  have "balance_of after_transfer 0 = 100000" by code_simp
  then show ?thesis using accepted_transaction_is_paid [OF sample_transfer_accepted, of 0] by simp
qed

text \<open>
  C26. The audit of the database, a loop over every table, returns the total of the chain the other
  theorems are about. It equals the holdings of C1 when no bid is quoted in the base asset and all
  collateral is in the base asset (holdings_are_counted); other orders escape the audit.
\<close>

theorem audit_returns_chain_total:
  assumes "calculate_supply d a = Inr t" and "database_ok d"
  shows "asset_id t = a \<and> amount t = chain_total (Database d) a"
  using calculate_supply_Inr [OF assms] by simp

theorem audit_returns_chain_total_witness:
  "chain_total (Database sample_database) 0 = 4004000 \<and> supply_of (Database sample_database) 0 = 4004000"
proof -
  have "\<not> isl (calculate_supply sample_database 0)" by code_simp
  note audit = accepted [OF this]
  have "amount (projr (calculate_supply sample_database 0)) = 4004000" by code_simp
  moreover have "supply_of (Database sample_database) 0 = 4004000" by code_simp
  ultimately show ?thesis
    using audit_returns_chain_total [OF audit sample_database_ok] by simp
qed

text \<open>
  What a withdrawal with claim input needs instead of the signature of the owner on the transaction: the input holds
  a signature of the owner's key over the chain and a new key, and the new key has signed the transaction. The owner's
  address may be one of the forms an old address has.
\<close>

definition claim_authorised :: "ext \<Rightarrow> eval_state \<Rightarrow> address \<Rightarrow> string \<Rightarrow> bool" where
  "claim_authorised X e own input \<longleftrightarrow>
     (\<exists>new_key sig cid k. unpack_withdraw_with_pts X input = Inr (new_key, sig) \<and>
        get_property (current_state e) chain_id = Inr (Hash_property cid) \<and>
        recover_key X sig (pts_claim_hash X cid new_key) True = Inr k \<and>
        own \<in> {address_of_key X k, address_of_pts X (pts_address_of_key X k False 56),
               address_of_pts X (pts_address_of_key X k True 56), address_of_pts X (pts_address_of_key X k False 0),
               address_of_pts X (pts_address_of_key X k True 0)} \<and>
        check_signature e (address_of_key X new_key))"

lemma check_pts_claim_Inr: "check_pts_claim X e own input = Inr u \<Longrightarrow> claim_authorised X e own input"
  by (fastforce simp: check_pts_claim_def claim_authorised_def as_digest_def elim!: bindE_InrE
      split: if_split_asm prod.split_asm property_value.split_asm)

text \<open>
  C27. A withdrawal is granted only for a positive amount that the balance covers, from a balance whose condition
  is a signature; without claim input only if its owner has signed the transaction, with claim input only if the
  owner's key has signed the claim and the new key of the claim has signed the transaction. It adds exactly the amount
  to what the transaction can spend of the asset and nothing of any other, reduces the balance by the amount after
  crediting its yield, which is not negative and is taken from the collected fees, and zero for assets that are not
  market-issued, and changes no other balance.
\<close>

theorem withdraw_is_authorised:
  assumes "withdraw_evaluate X bid amt input e = Inr e'" and "chain_ok X (current_state e)"
  shows "\<exists>r own memo r' y arec. get_balance_record (current_state e) bid = Some r \<and>
    condition_data (condition r) = Withdraw_with_signature own memo \<and>
    0 < sint amt \<and> sint amt \<le> sint (balance r) \<and>
    (if input = [] then check_signature e own else claim_authorised X e own input) \<and>
    balance_of e' = (balance_of e)(condition_asset_id (condition r) := balance_of e (condition_asset_id (condition r)) + amt) \<and>
    condition r' = condition r \<and> balance r' = balance r + y - amt \<and>
    get_balance_record (current_state e') = (get_balance_record (current_state e))(bid \<mapsto> r') \<and>
    get_asset_record (current_state e) (condition_asset_id (condition r)) = Some arec \<and>
    fees_of (current_state e') (condition_asset_id (condition r)) = collected_fees arec - y \<and>
    0 \<le> sint y \<and> (is_market_issued arec \<or> y = 0)"
  using assms(1)
proof (rule withdraw_steps)
  fix r e1 r1 e2
  assume amt: "0 < sint amt" "sint amt \<le> sint (balance r)" and r: "get_balance_record (current_state e) bid = Some r"
    and check: "check_withdraw_condition X e (condition_data (condition r)) input = Inr ()"
    and vote: "(if condition_asset_id (condition r) = 0 \<and> delegate_slate_id (condition r) \<noteq> 0
      then adjust_vote (delegate_slate_id (condition r)) (- amt) e else Inr e) = Inr e1"
    and pay: "pay_yield X r e1 = Inr (r1, e2)"
    and add: "add_balance (asset_of amt (condition_asset_id (condition r1)))
      (e2 \<lparr> current_state := store_balance_record X
         (r1 \<lparr> balance := balance r1 - amt, balance_last_update := now (current_state e2) \<rparr>)
         (current_state e2) \<rparr>) = Inr e'"
  let ?a = "condition_asset_id (condition r)" and ?r' = "r1 \<lparr> balance := balance r1 - amt, balance_last_update := now (current_state e2) \<rparr>"
  note v = optional_vote_Inr [OF vote]
  have ok1: "chain_ok X (current_state e1)" using assms(2) v by simp
  note y = pay_yield_Inr [OF pay ok1]
  obtain own memo where own: "condition_data (condition r) = Withdraw_with_signature own memo"
    "if input = [] then check_signature e own else claim_authorised X e own input"
    using check check_pts_claim_Inr
    by (cases "condition_data (condition r)") (auto simp: check_withdraw_condition_def split: if_split_asm)
  obtain arec where arec: "get_asset_record (current_state e1) ?a = Some arec"
    using pay by (auto simp: pay_yield_def Let_def split: option.split_asm)
  have id: "asset_record_id arec = ?a" using chain_ok_ids(1) [OF ok1 arec] .
  obtain w where w: "balance r1 = balance r + w" "0 \<le> sint w" "is_market_issued arec \<or> w = 0"
    "fees_of (current_state e2) ?a = collected_fees arec - w"
    using pay_yield_cases [OF pay arec]
  proof (elim disjE exE conjE)
    assume "r1 = r" "e2 = e1"
    then show ?thesis by (intro that [of 0]) (simp_all add: fees_of_def arec)
  next
    fix z
    assume "is_market_issued arec" "0 < sint z" "r1 = r \<lparr> balance := balance r + z, deposit_date := now (current_state e1) \<rparr>"
      and "current_state e2 = store_asset_record (arec \<lparr> collected_fees := collected_fees arec - z \<rparr>) (current_state e1)"
    then show ?thesis
      using id chain_ok_pending [OF ok1] by (intro that [of z]) (simp_all add: fees_of_def get_store_asset)
  qed
  have rid: "balance_record_id X ?r' = bid"
    using chain_ok_ids(2) [OF assms(2) r] y(1) by (simp add: balance_record_id_def)
  have "get_balance_record (current_state e') = (get_balance_record (current_state e))(bid \<mapsto> ?r')"
    using add_balance_Inr(1) [OF add] y(4) v(1) rid chain_ok_pending [OF y(3)] by (simp add: get_store_balance)
  moreover have "balance_of e' = (balance_of e)(?a := balance_of e ?a + amt)"
    using add_balance_Inr(6) [OF add] y(1,2) v(5) by (auto simp: fun_eq_iff)
  moreover have "fees_of (current_state e') ?a = collected_fees arec - w"
    using add_balance_Inr(1) [OF add] w(4) by (simp add: fees_of_def)
  moreover have "get_asset_record (current_state e) ?a = Some arec" using arec v(1) by simp
  moreover have "condition ?r' = condition r" "balance ?r' = balance r + w - amt" using y(1) w(1) by simp_all
  ultimately show ?thesis using amt r own w(2,3) by blast
qed

theorem withdraw_is_authorised_witness:
  "check_signature begun_transfer 7 \<and>
   balance_of (projr (withdraw_evaluate ext_std 17 1000000 [] begun_transfer)) 0 = 1000000"
proof -
  have "\<not> isl (withdraw_evaluate ext_std 17 1000000 [] begun_transfer)" by code_simp
  note w = accepted [OF this]
  have cs: "current_state begun_transfer = sample_chain"
    using begin_evaluation_Inr(1) [OF sample_transfer_begun] by simp
  have zero: "balance_of begun_transfer 0 = 0"
    using begin_evaluation_Inr(2) [OF sample_transfer_begun] by (simp add: balance_of_def)
  have "chain_ok ext_std (current_state begun_transfer)" using cs sample_chain_ok by simp
  from withdraw_is_authorised [OF w this] obtain r own memo where
    r: "get_balance_record (current_state begun_transfer) 17 = Some r"
      "condition_data (condition r) = Withdraw_with_signature own memo" "check_signature begun_transfer own"
    and b: "balance_of (projr (withdraw_evaluate ext_std 17 1000000 [] begun_transfer)) =
      (balance_of begun_transfer)(condition_asset_id (condition r) := balance_of begun_transfer (condition_asset_id (condition r)) + 1000000)"
    by auto
  have "r = sample_balance 0 7 3000000"
    using r(1) by (simp add: cs sample_chain_def sample_database_def new_pending_state_def)
  then show ?thesis using r b zero by (simp add: sample_balance_def signature_condition_def)
qed

section \<open>Accounts and delegates\<close>

text \<open>
  Delegate pay is withdrawn only with the active key of an account that is a delegate and not
  retracted, and never more than its pay balance; the pay balance drops by the amount.
\<close>

theorem delegate_pay_is_guarded:
  assumes "withdraw_pay_evaluate X amt i e = Inr e'" and "chain_ok X (current_state e)"
  shows "\<exists>r d d'. get_account_record (current_state e) \<bar>i\<bar> = Some r \<and> \<not> is_retracted r \<and>
    delegate_info r = Some d \<and> check_signature e (address_of_key X (active_key r)) \<and>
    0 < sint amt \<and> sint amt \<le> sint (pay_balance d) \<and>
    get_account_record (current_state e') \<bar>i\<bar> = Some (r \<lparr> delegate_info := Some d' \<rparr>) \<and>
    sint (pay_balance d') = sint (pay_balance d) - sint amt"
  using assms(1)
proof (rule withdraw_pay_steps)
  fix r :: account_record and d :: delegate_stats
  assume r: "0 < sint amt" "get_account_record (current_state e) \<bar>i\<bar> = Some r" "\<not> is_retracted r"
    "delegate_info r = Some d" "check_signature e (address_of_key X (active_key r))"
    "sint amt \<le> sint (pay_balance d)"
    and add: "add_balance (asset_of amt 0)
                  (e \<lparr> net_delegate_votes := add_vote (- amt) \<bar>i\<bar> (net_delegate_votes e),
                       current_state := store_account_record X
                         (r \<lparr> delegate_info := Some (d \<lparr> pay_balance := pay_balance d - amt \<rparr>) \<rparr>)
                         (current_state e) \<rparr>) = Inr e'"
  have "sint (pay_balance d - amt) = sint (pay_balance d) - sint amt"
    using r(1,6) sint64_bounds [of "pay_balance d"] by (intro sint64_sub) (auto simp: INT64_MIN_def)
  moreover have "get_account_record (current_state e') \<bar>i\<bar> =
      Some (r \<lparr> delegate_info := Some (d \<lparr> pay_balance := pay_balance d - amt \<rparr>) \<rparr>)"
    using add_balance_Inr(1) [OF add] chain_ok_ids(3) [OF assms(2) r(2)] chain_ok_pending [OF assms(2)]
    by (simp add: get_store_account)
  ultimately show ?thesis using r by fastforce
qed

definition pay_state :: eval_state where
  "pay_state = sample_state \<lparr> signed_keys := [22] \<rparr>"

theorem delegate_pay_is_guarded_witness:
  "\<exists>r. get_account_record (current_state (projr (withdraw_pay_evaluate ext_std 1000 1 pay_state))) 1 = Some r"
proof -
  have "\<not> isl (withdraw_pay_evaluate ext_std 1000 1 pay_state)" by code_simp
  from delegate_pay_is_guarded [OF accepted [OF this]] show ?thesis
    by (auto simp: pay_state_def sample_chain_ok)
qed

text \<open>
  A delegate stays a delegate and its pay rate never rises: after any accepted update of the
  account the record is a delegate with a rate at most the old one.
\<close>

theorem pay_rate_never_rises:
  assumes "update_account_evaluate X i data k rate e = Inr e'" and "chain_ok X (current_state e)"
    and "get_account_record (current_state e) i = Some r" and "delegate_info r = Some d"
  shows "\<exists>r' d'. get_account_record (current_state e') i = Some r' \<and> delegate_info r' = Some d' \<and>
    uint (pay_rate d') \<le> uint (pay_rate d) \<and> pay_balance d' = pay_balance d"
  using assms(1)
proof (rule update_account_steps)
  fix r0 r1 r2 r3 fees r6
  assume r0: "get_account_record (current_state e) i = Some r0"
    and 1: "update_account_key X k r0 e = Inr r1"
    and 2: "account_id r2 = account_id r1" "delegate_info r2 = delegate_info r1"
    and 3: "update_account_delegate rate r2 e = Inr (r3, fees)"
    and 4: "account_id r6 = account_id r3" "delegate_info r6 = delegate_info r3"
    and e': "e' = e \<lparr> required_fees := fees, current_state := store_account_record X r6 (current_state e) \<rparr>"
  have r2: "delegate_info r2 = Some d"
    using r0 assms(3,4) 2 update_account_key_Inr(2) [OF 1] by simp
  obtain d' where d': "delegate_info r3 = Some d'" "uint (pay_rate d') \<le> uint (pay_rate d)"
    using update_account_delegate_Inr(4) [OF 3 r2] by blast
  have "pay_balance d' = pay_balance d"
    using update_account_delegate_Inr(2) [OF 3, of i] r2 d' by (simp add: pay_in_def)
  moreover have "account_id r6 = i"
    using 4 2 update_account_delegate_Inr(1) [OF 3] update_account_key_Inr(1) [OF 1]
      chain_ok_ids(3) [OF assms(2) r0] by simp
  ultimately show ?thesis
    using d' 4 chain_ok_pending [OF assms(2)] by (simp add: e' get_store_account)
qed

theorem pay_rate_never_rises_witness:
  "\<exists>r' d'. get_account_record (current_state (projr (update_account_evaluate ext_std 1 None None 40 pay_state))) 1 = Some r' \<and>
     delegate_info r' = Some d' \<and> uint (pay_rate d') \<le> 50"
proof -
  have "\<not> isl (update_account_evaluate ext_std 1 None None 40 pay_state)" by code_simp
  moreover have "get_account_record sample_chain 1 = Some sample_delegate"
    by (simp add: sample_chain_def sample_database_def new_pending_state_def)
  moreover have "delegate_info sample_delegate = Some (new_delegate_stats \<lparr> pay_rate := 50, pay_balance := 3000 \<rparr>)"
    by (simp add: sample_delegate_def)
  ultimately show ?thesis
    using pay_rate_never_rises [OF accepted, of ext_std 1 None None 40 pay_state sample_delegate]
    by (fastforce simp: pay_state_def sample_chain_ok)
qed

text \<open>
  Registration: an account is registered only under a valid, unused name that is not reserved, with the
  signature of some parent if the name has one, and it gets the next identifier, which no account had.
\<close>

theorem registration_is_guarded:
  assumes "register_account_evaluate X name data owner_k active_k rate meta e = Inr e'"
    and "chain_ok X (current_state e)"
  shows "is_valid_account_name X name \<and> name \<notin> set banned_names \<and>
    get_account_record_of_name (current_state e) name = None \<and>
    (get_parent_account_name name = None \<or> any_parent_has_signed X e name) \<and>
    (\<exists>i r. get_last_account_id (current_state e) = Inr i \<and> get_account_record (current_state e) (i + 1) = None \<and>
       get_account_record (current_state e') (i + 1) = Some r \<and> account_name r = name \<and> owner_key r = owner_k)"
proof -
  have guards: "is_valid_account_name X name \<and> name \<notin> set banned_names \<and>
      get_account_record_of_name (current_state e) name = None \<and>
      (get_parent_account_name name = None \<or> any_parent_has_signed X e name)"
    using assms(1) unfolding register_account_evaluate_def Let_def if_Inr_iff
    by (elim conjE bindE_InrE) (auto simp: if_Inr_iff)
  obtain i r fees where i: "get_property (current_state e) last_account_id = Inr (Int_property i)"
    and r: "account_id r = i + 1" "account_name r = name" "owner_key r = owner_k"
    and e': "e' = e \<lparr> required_fees := fees, current_state := store_account_record X r
        (set_property last_account_id (Int_property (i + 1)) (current_state e)) \<rparr>"
    using assms(1) by (rule register_account_steps)
  have "get_account_record (current_state e') (i + 1) = Some r"
    using r(1) chain_ok_pending [OF assms(2)] by (simp add: e' get_store_account)
  moreover have "get_last_account_id (current_state e) = Inr i" by (simp add: get_last_account_id_def i as_int_def)
  ultimately show ?thesis
    using guards r(2,3) chain_ok_new_account(2) [OF assms(2) i r(1)] by blast
qed

theorem registration_is_guarded_witness:
  "\<exists>r. get_account_record (current_state (projr (register_account_evaluate ext_std ''robert'' [] 31 32 255 None pay_state))) 2 = Some r \<and>
     account_name r = ''robert''"
proof -
  have "\<not> isl (register_account_evaluate ext_std ''robert'' [] 31 32 255 None pay_state)" by code_simp
  moreover have "get_last_account_id (current_state pay_state) = Inr 1" by code_simp
  ultimately show ?thesis
    using registration_is_guarded [OF accepted, of ext_std "''robert''" "[]" 31 32 255 None pay_state]
    by (auto simp: pay_state_def sample_chain_ok)
qed

text \<open>
  An update that states the active key the account already has is always refused: the second check
  of the handler finds the account itself under that key.
\<close>

theorem update_with_own_key_is_refused:
  assumes "get_account_record_of_address (current_state e) (address_of_key X k) \<noteq> None"
  shows "isl (update_account_evaluate X i data (Some k) rate e)"
proof (rule ccontr)
  assume "\<not> isl (update_account_evaluate X i data (Some k) rate e)"
  then obtain e' where "update_account_evaluate X i data (Some k) rate e = Inr e'"
    by (metis accepted)
  then show False
    using assms unfolding update_account_evaluate_def Let_def
    by (auto simp: if_Inr_iff elim!: bindE_InrE split: option.split_asm prod.split_asm if_split_asm)
qed

theorem update_with_own_key_is_refused_witness:
  "isl (update_account_evaluate ext_std 1 None (Some 22) 50 pay_state)"
proof -
  have "get_account_record_of_address (current_state pay_state) (address_of_key ext_std 22) \<noteq> None" by code_simp
  then show ?thesis by (rule update_with_own_key_is_refused)
qed

section \<open>Flaws of operations\<close>

text \<open>
  C37. Burning accepts a negative amount of the base asset: the minimum fee is an unsigned number, so
  the comparison converts the amount, and a negative one is larger than the minimum. The share
  supply grows, and the transaction can spend the shares it made.
\<close>

theorem burn_of_negative_amount_mints:
  assumes "sint amt < 0" and "chain_ok X (current_state e)"
    and "get_asset_record (current_state e) 0 = Some arec" and "\<not> is_market_issued arec" and "deposits e = []"
  shows "\<exists>e'. burn_evaluate X (asset_of amt 0) 0 message sig e = Inr e' \<and>
    supply_of (current_state e') 0 = supply_of (current_state e) 0 + (- amt) \<and>
    balance_of e' 0 = balance_of e 0 + (- amt)"
proof -
  have "uint BTS_BLOCKCHAIN_MIN_BURN_FEE \<le> uint amt"
    using uint64_neg [OF assms(1)] sint64_bounds [of amt]
    by (simp add: BTS_BLOCKCHAIN_MIN_BURN_FEE_def BTS_BLOCKCHAIN_PRECISION_def INT64_MIN_def)
  then obtain e' where e': "burn_evaluate X (asset_of amt 0) 0 message sig e = Inr e'"
    using assms(3-5) by (auto simp: burn_evaluate_def sub_balance_def accumulate_def Let_def)
  then obtain e2 where sub: "sub_balance null_address (asset_of amt 0) (e \<lparr> current_state := store_asset_record
        (arec \<lparr> current_share_supply := current_share_supply arec - amt \<rparr>) (current_state e) \<rparr>) = Inr e2"
    and e2: "e' = e2 \<lparr> current_state := store_burn_record (0, transaction_id_hash X (trx e2))
        \<lparr> burn_amount = asset_of amt 0, burn_message = message, burn_signer = sig \<rparr> (current_state e2) \<rparr>"
    using assms(3) by (auto simp: burn_evaluate_def Let_def elim!: bindE_InrE split: if_split_asm)
  have "asset_record_id arec = 0" using chain_ok_ids(1) [OF assms(2,3)] .
  then have "supply_of (current_state e') 0 = supply_of (current_state e) 0 + (- amt)"
    using assms(3) by (simp add: e2 sub_balance_Inr(1) [OF sub] total_store_asset [OF chain_ok_pending [OF assms(2)]])
      (simp add: supply_of_def)
  then show ?thesis using e' sub_balance_Inr(6) [OF sub, of 0] by (auto simp: e2)
qed

definition minting_transaction :: signed_transaction where
  "minting_transaction = sample_transfer \<lparr> trx_operations := [Balance_op (Burn_operation (asset_of (- 5000000) 0) 0 [] None),
     Balance_op (Deposit_operation 4900000 (signature_condition 0 8))] \<rparr>"

theorem burn_of_negative_amount_mints_witness:
  "(\<exists>e'. burn_evaluate ext_std (asset_of (- 5000000) 0) 0 [] None sample_state = Inr e' \<and>
     balance_of e' 0 = balance_of sample_state 0 + 5000000) \<and>
   supply_of (current_state (projr (evaluate ext_std minting_transaction False False sample_state))) 0 = 9004000"
proof -
  have "supply_of (current_state (projr (evaluate ext_std minting_transaction False False sample_state))) 0 = 9004000"
    by code_simp
  moreover have "sint (- 5000000 :: 64 word) < 0" by code_simp
  moreover have "get_asset_record (current_state sample_state) 0 = Some (sample_asset 0 0 4004000 1000)"
    by (simp add: sample_chain_def sample_database_def new_pending_state_def)
  moreover have "\<not> is_market_issued (sample_asset 0 0 4004000 1000)" by (simp add: is_market_issued_def sample_asset_def)
  moreover have "deposits sample_state = []"
    by (simp add: sample_state_def new_eval_state_def new_evaluation_def evaluation.defs)
  ultimately show ?thesis
    using burn_of_negative_amount_mints [of "- 5000000" ext_std sample_state] sample_chain_ok by fastforce
qed

text \<open>
  C38. A claim does not check whose balance it claims: with any external key that signed a transfer to
  the destination, and the destination's signature on the transaction, a genesis balance of the base asset can be
  claimed in full, whoever owns it; the address recorded in its genesis information and the owner in its condition are not
  read. The claim empties the record and adds the balance to what the transaction can spend. Two conditions
  remain, and neither depends on the owner: the slate the balance votes for is stored, unless it is the empty one, and the
  sum of what the transaction has withdrawn in the base asset does not overflow. Every balance in the genesis state the code
  creates meets the first (genesis_balances_are_ok), and a transaction that has withdrawn nothing meets the second.
\<close>

theorem claim_does_not_check_the_owner:
  assumes "validate_claim_signature X source dest sig = Inr ()"
    and "check_signature e (address_of_key X dest)"
    and "get_balance_record (current_state e) bid = Some r"
    and "condition_asset_id (condition r) = 0" and "genesis_info r \<noteq> None"
    and "delegate_slate_id (condition r) = 0 \<or> get_delegate_slate (current_state e) (delegate_slate_id (condition r)) \<noteq> None"
    and "accumulate 0 (asset_of (balance r) 0) (withdraws e) = Inr ws"
  shows "\<exists>e'. claim_evaluate X bid (balance r) source dest sig e = Inr e' \<and>
    balance_of e' 0 = balance_of e 0 + balance r \<and>
    current_state e' = store_balance_record X
      (r \<lparr> balance := 0, balance_last_update := now (current_state e) \<rparr>) (current_state e)"
proof -
  let ?c = "store_balance_record X (r \<lparr> balance := 0, balance_last_update := now (current_state e) \<rparr>) (current_state e)"
  obtain e1 where e1: "(if delegate_slate_id (condition r) \<noteq> 0
      then adjust_vote (delegate_slate_id (condition r)) (- balance r) e else Inr e) = Inr e1"
    using assms(6) by (cases "delegate_slate_id (condition r) = 0") (auto simp: adjust_vote_def)
  then have w: "withdraws e1 = withdraws e"
    by (auto simp: adjust_vote_def split: if_split_asm option.split_asm)
  note v = optional_vote_Inr [OF e1]
  obtain e' where e': "add_balance (asset_of (balance r) 0) (e1 \<lparr> current_state := ?c \<rparr>) = Inr e'"
    using assms(7) by (simp add: add_balance_def w)
  have "check_signature e' (address_of_key X dest)"
    using add_balance_Inr(3,4) [OF e'] v assms(2) by (simp add: check_signature_def)
  moreover have "withdraw_claim_input X (balance r) r e = Inr e'"
    using e1 e' v(1) by (simp add: withdraw_claim_input_def Let_def cong: if_cong)
  ultimately have "claim_evaluate X bid (balance r) source dest sig e = Inr e'"
    using assms(1,3,4,5) by (simp add: claim_evaluate_def check_claim_input_def validate_claim_trx_signature_def require_def)
  then show ?thesis using add_balance_Inr(1) [OF e'] add_balance_Inr(6) [OF e', of 0] v by auto
qed

text \<open>
  A balance as the genesis code makes it, with a slate; the external address 22001 is not the address 9 that owns it.
\<close>

definition unclaimed_balance :: balance_record where
  "unclaimed_balance = (genesis_balance ext_std 9 1000000 5 100) \<lparr> genesis_info := Some (asset_of 1000000 0, ''P'') \<rparr>"

definition claim_state :: eval_state where
  "claim_state = pay_state \<lparr> current_state := Pending new_pending_state (Database
     (sample_database \<lparr> balance_db := [(19, unclaimed_balance)], slate_db := [(5, [1])] \<rparr>)) \<rparr>"

theorem claim_does_not_check_the_owner_witness:
  "\<exists>e'. claim_evaluate ext_std 19 1000000 22001 22 22 claim_state = Inr e' \<and>
     balance_of e' 0 = balance_of claim_state 0 + 1000000"
proof -
  have 1: "validate_claim_signature ext_std 22001 22 22 = Inr ()" by code_simp
  have 2: "check_signature claim_state (address_of_key ext_std 22)" by code_simp
  have 3: "get_balance_record (current_state claim_state) 19 = Some unclaimed_balance"
    by (simp add: claim_state_def new_pending_state_def)
  have 4: "condition_asset_id (condition unclaimed_balance) = 0" "genesis_info unclaimed_balance \<noteq> None"
    "balance unclaimed_balance = 1000000"
    by (simp_all add: unclaimed_balance_def genesis_balance_def balance_record_of_def)
  have 5: "get_delegate_slate (current_state claim_state) (delegate_slate_id (condition unclaimed_balance)) \<noteq> None"
    by (simp add: claim_state_def unclaimed_balance_def genesis_balance_def balance_record_of_def new_pending_state_def)
  have "withdraws claim_state = []"
    by (simp add: claim_state_def pay_state_def sample_state_def new_eval_state_def new_evaluation_def evaluation.defs)
  then have 6: "accumulate 0 (asset_of (balance unclaimed_balance) 0) (withdraws claim_state) =
      Inr [(0, asset_of (balance unclaimed_balance) 0)]" by (simp add: accumulate_def)
  show ?thesis
    using claim_does_not_check_the_owner [OF 1 2 3 4(1,2) disjI2 [OF 5] 6] 4(3) by auto
qed

text \<open>
  The check for duplicate transactions is switched off by a constant that wraps around: at every
  block number but 2 ^ 32 - 1 the evaluation starts on a transaction the chain already knows.
\<close>

theorem known_transaction_is_evaluated_again:
  assumes "get_head_block_num (current_state e) \<noteq> - 1"
    and "now (current_state e) < trx_expiration t"
    and "trx_expiration t \<le> now (current_state e) + BTS_BLOCKCHAIN_MAX_TRANSACTION_EXPIRATION_SEC"
    and "is_known_transaction (current_state e) (trx_expiration t) (transaction_hash X t (eval_chain_id e))"
    and "recover_signed_keys X (transaction_hash X t (eval_chain_id e)) canonical (signatures t) [] = Inr keys"
  shows "\<exists>e2. begin_evaluation X t False canonical e = Inr e2 \<and> signed_keys e2 = keys"
proof -
  have "\<not> FORK_25 \<le> get_head_block_num (current_state e)"
    using assms(1) by (simp add: FORK_25_def word_order.extremum_unique)
  then show ?thesis
    using assms(2,3,5) by (auto simp: begin_evaluation_def Let_def reset_def)
qed

definition replay_state :: eval_state where
  "replay_state = new_eval_state (Pending new_pending_state
     (Database (sample_database \<lparr> unique_transactions_db := [(1200, [1277])] \<rparr>))) 77"

theorem known_transaction_is_evaluated_again_witness:
  "\<exists>e2. begin_evaluation ext_std sample_transfer False False replay_state = Inr e2"
proof -
  have 1: "get_head_block_num (current_state replay_state) \<noteq> - 1" by code_simp
  have 2: "now (current_state replay_state) < trx_expiration sample_transfer" by code_simp
  have 3: "trx_expiration sample_transfer \<le>
      now (current_state replay_state) + BTS_BLOCKCHAIN_MAX_TRANSACTION_EXPIRATION_SEC" by code_simp
  have 4: "is_known_transaction (current_state replay_state) (trx_expiration sample_transfer)
      (transaction_hash ext_std sample_transfer (eval_chain_id replay_state))" by code_simp
  have "\<not> isl (recover_signed_keys ext_std (transaction_hash ext_std sample_transfer (eval_chain_id replay_state))
      False (signatures sample_transfer) [])" by code_simp
  from known_transaction_is_evaluated_again [OF 1 2 3 4 accepted [OF this]] show ?thesis by blast
qed

section \<open>Pending states\<close>

text \<open>
  C13. Committing a pending state: after its changes are applied the chain below shows what the pending
  state showed, for every kind of record: assets, balances, accounts, slates, bids, asks, shorts,
  collateral, slots, feeds, burns, transactions, market statuses and properties. The exceptions are
  where the code differs: the markets that wait to be matched are those of the pending state
  alone, the market history of the pending state is laid over the one below (a pending state does not
  look below for it), and the trades of the block are stored for the next block number. The buffers of recent
  operations and the set of transaction digests used against replays are not part of the statement.
\<close>

theorem commit_shows_the_pending_records:
  assumes "apply_changes X p c = Inr c'" and "pending_ok X p" and "side_ok p"
  shows "asset_view c' = asset_view (Pending p c) \<and> balance_view c' = balance_view (Pending p c) \<and>
    account_view c' = account_view (Pending p c) \<and> slate_view c' = slate_view (Pending p c) \<and>
    bid_view c' = bid_view (Pending p c) \<and> ask_view c' = ask_view (Pending p c) \<and>
    short_view c' = short_view (Pending p c) \<and> collateral_view c' = collateral_view (Pending p c) \<and>
    slot_view c' = slot_view (Pending p c) \<and> feed_view c' = feed_view (Pending p c) \<and>
    burn_view c' = burn_view (Pending p c) \<and> transaction_view X c' = transaction_view X (Pending p c) \<and>
    status_view c' = status_view (Pending p c) \<and>
    property_view c' = (property_view (Pending p c))(dirty_markets \<mapsto> Markets_property (p_dirty_markets p)) \<and>
    history_view c' = overlay (\<lambda>r. volume r = 0) (history_view c) (map_of (p_market_history p)) \<and>
    block_trades c' = p_market_transactions p"
  using apply_changes_view [OF assms(1,2)] apply_changes_side [OF assms(1,3)] by simp

definition sample_pending :: pending_chain_state where
  "sample_pending = pending_store_balance_record ext_std (sample_balance 0 8 500)
     (pending_store_asset_record (sample_asset 0 0 4004000 500) new_pending_state)"

lemma sample_pending_ok: "pending_ok ext_std sample_pending"
  unfolding sample_pending_def by (intro pending_ok_stores pending_ok_new)

lemma sample_pending_side_ok: "side_ok sample_pending"
  by (simp add: sample_pending_def side_ok_other_stores)

theorem commit_shows_the_pending_records_witness:
  "asset_view (projr (apply_changes ext_std sample_pending (Database sample_database))) 0 =
     Some (sample_asset 0 0 4004000 500)"
proof -
  have "\<not> isl (apply_changes ext_std sample_pending (Database sample_database))" by code_simp
  note c = accepted [OF this]
  have "asset_view (Pending sample_pending (Database sample_database)) 0 = Some (sample_asset 0 0 4004000 500)"
    by (simp add: sample_pending_def pending_store_defs new_pending_state_def live_def sample_asset_def asset_is_null_def)
  then show ?thesis using commit_shows_the_pending_records [OF c sample_pending_ok sample_pending_side_ok] by simp
qed

text \<open>
  Undoing a block: applying the changes of a pending state and then its undo state gives back
  the assets, accounts, slates, orders, positions and feeds of the chain, and every balance that is not
  zero.
\<close>

theorem undo_restores_the_records:
  assumes "get_undo_state X c p new_pending_state = Inr u" and "pending_ok X p" and "keyed X c"
    and "apply_changes X p c = Inr c1" and "apply_changes X u c1 = Inr c2"
  shows "asset_view c2 = asset_view c \<and> account_view c2 = account_view c \<and> slate_view c2 = slate_view c \<and>
    live balance_is_null (get_balance_record c2) = live balance_is_null (get_balance_record c) \<and>
    bid_view c2 = bid_view c \<and> ask_view c2 = ask_view c \<and> short_view c2 = short_view c \<and>
    collateral_view c2 = collateral_view c \<and> feed_view c2 = feed_view c"
  using undo_views [OF assms] by simp

lemma sample_keyed: "keyed ext_std (Database sample_database)"
proof -
  have "balance_record_id ext_std (sample_balance 0 7 b) = 17" "balance_record_id ext_std (sample_balance 1 7 b) = 117"
    "balance_record_id ext_std ((sample_balance 0 9 b) \<lparr> genesis_info := g \<rparr>) = 19" for b g
    by (simp_all add: balance_record_id_def sample_balance_def signature_condition_def ext_std_def fc_lib.defs)
  then show ?thesis
    by (auto simp: keyed_def sample_database_def sample_asset_def sample_delegate_def split: if_split_asm)
qed

theorem undo_restores_the_records_witness:
  "asset_view (projr (apply_changes ext_std
       (projr (get_undo_state ext_std (Database sample_database) sample_pending new_pending_state))
       (projr (apply_changes ext_std sample_pending (Database sample_database))))) =
     asset_view (Database sample_database)"
proof -
  have "\<not> isl (get_undo_state ext_std (Database sample_database) sample_pending new_pending_state)"
    "\<not> isl (apply_changes ext_std sample_pending (Database sample_database))"
    "\<not> isl (apply_changes ext_std
       (projr (get_undo_state ext_std (Database sample_database) sample_pending new_pending_state))
       (projr (apply_changes ext_std sample_pending (Database sample_database))))"
    by code_simp+
  note a = accepted [OF this(1)] accepted [OF this(2)] accepted [OF this(3)]
  show ?thesis using undo_restores_the_records [OF a(1) sample_pending_ok sample_keyed a(2,3)] by simp
qed

end
